(* ===== verification/Prelude.thy ===== *)
theory Prelude
  imports Main "HOL-Library.Sublist" "HOL-Library.List_Lexorder" "HOL-Library.Char_ord"
begin

text \<open>
  What every component shares: the JavaScript values the host code handles, its strings,
  its timestamps, the rows of its SQL tables, and the lemma collections of the proofs.

  \<^item> \<open>js\<close> is an \<open>unknown\<close> of the source: what \<open>JSON.parse\<close> can return, and \<open>undefined\<close>.
    An object is its list of own properties in insertion order.  \<open>JNum\<close> is a Number with
    an integer value; \<open>JOther\<close> is any other primitive that is not a string (a fraction,
    \<open>NaN\<close>), carried with the text \<open>String(x)\<close> gives for it.
  \<^item> \<open>jtext\<close> is a string that the code may hand to \<open>JSON.parse\<close>: \<open>Json v\<close> is a string that
    parses to \<open>v\<close>, \<open>Raw s\<close> one on which \<open>JSON.parse\<close> throws.  \<open>JSON.stringify v\<close> is \<open>Json v\<close>.
  \<^item> \<open>stamp\<close> is a timestamp string: \<open>Iso t\<close> is \<open>new Date(t).toISOString()\<close>, \<open>Loose t s\<close> another
    string \<open>s\<close> that \<open>Date.parse\<close> reads as \<open>t\<close>, \<open>NotDate s\<close> a string on which it gives \<open>NaN\<close>.
  \<^item> An exception is the left side of a sum; \<open>undefined\<close> and \<open>null\<close> results are \<open>None\<close>.
\<close>

named_theorems row_simps "how table operations act on rows"
named_theorems inv_intros "the operations keep the invariant"

subsection \<open>JavaScript values and exceptions\<close>

datatype exn = Error string | TypeError | SyntaxError | UniqueViolation

type_synonym 'a res = "exn + 'a"

datatype js =
    JUndefined
  | JNull
  | JBool bool
  | JNum int
  | JOther string
  | JStr string
  | JArr "js list"
  | JObj "(string \<times> js) list"

datatype jtext = Raw string | Json js

fun json_parse :: "jtext \<Rightarrow> js res" where
  "json_parse (Json v) = Inr v"
| "json_parse (Raw s) = Inl SyntaxError"

text \<open>Reading a property: \<open>undefined\<close> when it is absent, a \<open>TypeError\<close> on \<open>null\<close> and \<open>undefined\<close>.\<close>

definition own :: "(string \<times> js) list \<Rightarrow> string \<Rightarrow> js" where
  "own ps k = (case map_of ps k of None \<Rightarrow> JUndefined | Some v \<Rightarrow> v)"

type_synonym fields = "(string \<times> js) list"

definition has_key :: "fields \<Rightarrow> string \<Rightarrow> bool" where
  "has_key r k = (map_of r k \<noteq> None)"

text \<open>\<open>o[k] = v\<close> and \<open>delete o[k]\<close>.\<close>

definition set_prop :: "string \<Rightarrow> js \<Rightarrow> fields \<Rightarrow> fields" where
  "set_prop k v ps =
     (if has_key ps k then map (\<lambda>(k', x). if k' = k then (k', v) else (k', x)) ps else ps @ [(k, v)])"

definition del_prop :: "string \<Rightarrow> fields \<Rightarrow> fields" where
  "del_prop k ps = filter (\<lambda>(k', _). k' \<noteq> k) ps"

fun js_get :: "js \<Rightarrow> string \<Rightarrow> js res" where
  "js_get JUndefined k = Inl TypeError"
| "js_get JNull k = Inl TypeError"
| "js_get (JObj ps) k = Inr (own ps k)"
| "js_get _ k = Inr JUndefined"

fun js_str :: "js \<Rightarrow> string option" where
  "js_str (JStr s) = Some s"
| "js_str _ = None"

fun js_truthy :: "js \<Rightarrow> bool" where
  "js_truthy JUndefined = False"
| "js_truthy JNull = False"
| "js_truthy (JBool b) = b"
| "js_truthy (JNum n) = (n \<noteq> 0)"
| "js_truthy (JOther s) = (s \<noteq> ''NaN'')"
| "js_truthy (JStr s) = (s \<noteq> [])"
| "js_truthy (JArr _) = True"
| "js_truthy (JObj _) = True"

subsection \<open>Strings\<close>

fun js_includes :: "string \<Rightarrow> string \<Rightarrow> bool" where
  "js_includes [] sub = (sub = [])"
| "js_includes (c # cs) sub = (prefix sub (c # cs) \<or> js_includes cs sub)"

lemma js_includes_iff: "js_includes s sub \<longleftrightarrow> sublist sub s"
  by (induction s) (auto simp: sublist_Cons_right)

fun js_split :: "char \<Rightarrow> string \<Rightarrow> string list" where
  "js_split d [] = [[]]"
| "js_split d (c # cs) =
     (if c = d then [] # js_split d cs
      else (case js_split d cs of [] \<Rightarrow> [[c]] | w # ws \<Rightarrow> (c # w) # ws))"

fun js_join :: "string \<Rightarrow> string list \<Rightarrow> string" where
  "js_join sep [] = []"
| "js_join sep [w] = w"
| "js_join sep (w # ws) = w @ sep @ js_join sep ws"

text \<open>White space (\<open>\s\<close>, and what \<open>trim\<close> removes) of the ASCII range; strings are bytes.\<close>

definition js_space :: "char \<Rightarrow> bool" where
  "js_space c = ((of_char c :: nat) \<in> {9, 10, 11, 12, 13, 32})"

definition js_trim :: "string \<Rightarrow> string" where
  "js_trim s = rev (dropWhile js_space (rev (dropWhile js_space s)))"

text \<open>\<open>toLowerCase\<close> on ASCII letters; other characters are left alone.\<close>

definition lower_char :: "char \<Rightarrow> char" where
  "lower_char c = (if CHR ''A'' \<le> c \<and> c \<le> CHR ''Z'' then char_of (of_char c + 32 :: nat) else c)"

lemma js_split_not_Nil [simp]: "js_split d s \<noteq> []"
  by (induction s) (auto split: list.splits)

lemma js_split_no_sep: "w \<in> set (js_split d s) \<Longrightarrow> d \<notin> set w"
  by (induction s arbitrary: w) (auto split: list.splits if_splits)

lemma js_split_word: "d \<notin> set w \<Longrightarrow> js_split d w = [w]"
  by (induction w) auto

lemma js_split_append: "d \<notin> set w \<Longrightarrow> js_split d (w @ d # s) = w # js_split d s"
  by (induction w) auto

lemma js_split_join:
  "ws \<noteq> [] \<Longrightarrow> \<forall>w \<in> set ws. d \<notin> set w \<Longrightarrow> js_split d (js_join [d] ws) = ws"
  by (induction "[d]" ws rule: js_join.induct) (auto simp: js_split_word js_split_append)

lemma js_split_part_includes: "w \<in> set (js_split d s) \<Longrightarrow> sublist w s"
proof (induction s arbitrary: w)
  case (Cons c cs)
  obtain v vs where vs: "js_split d cs = v # vs"
    by (cases "js_split d cs") auto
  show ?case
  proof (cases "c = d")
    case True
    then show ?thesis using Cons by (auto simp: sublist_Cons_right)
  next
    case False
    have "prefix v cs" using vs
      by (induction cs arbitrary: v vs) (auto split: if_splits list.splits)
    then show ?thesis using False Cons vs by (auto simp: sublist_Cons_right)
  qed
qed simp

text \<open>
  \<open>String(x)\<close>: decimal integers, comma-joined arrays (with \<open>null\<close> and \<open>undefined\<close> elements
  empty), the fixed text of an object that has no \<open>toString\<close> of its own.
\<close>

fun nat_str :: "nat \<Rightarrow> string" where
  "nat_str n = (if n < 10 then [char_of (48 + n)] else nat_str (n div 10) @ [char_of (48 + n mod 10)])"

declare nat_str.simps [simp del]

definition int_str :: "int \<Rightarrow> string" where
  "int_str n = (if n < 0 then ''-'' @ nat_str (nat (- n)) else nat_str (nat n))"

fun js_to_string :: "js \<Rightarrow> string" where
  "js_to_string JUndefined = ''undefined''"
| "js_to_string JNull = ''null''"
| "js_to_string (JBool b) = (if b then ''true'' else ''false'')"
| "js_to_string (JNum n) = int_str n"
| "js_to_string (JOther s) = s"
| "js_to_string (JStr s) = s"
| "js_to_string (JArr xs) =
     js_join '','' (map (\<lambda>x. if x = JNull \<or> x = JUndefined then [] else js_to_string x) xs)"
| "js_to_string (JObj ps) = ''[object Object]''"

text \<open>The two characters of the source's messages that are not ASCII, in UTF-8.\<close>

definition emdash :: string where
  "emdash = [CHR 0xE2, CHR 0x80, CHR 0x94]"

definition rarrow :: string where
  "rarrow = [CHR 0xE2, CHR 0x86, CHR 0x92]"

subsection \<open>Timestamps\<close>

datatype stamp = Iso int | Loose int string | NotDate string

fun date_parse :: "stamp \<Rightarrow> int option" where
  "date_parse (Iso t) = Some t"
| "date_parse (Loose t s) = Some t"
| "date_parse (NotDate s) = None"

text \<open>SQLite's \<open>datetime(x)\<close>: whole seconds, \<open>NULL\<close> for text that is no date.\<close>

definition sql_datetime :: "stamp \<Rightarrow> int option" where
  "sql_datetime s = map_option (\<lambda>t. t div 1000) (date_parse s)"

subsection \<open>Computations that change a state and may throw\<close>

type_synonym ('s, 'a) sm = "'s \<Rightarrow> 'a res \<times> 's"

definition io_return :: "'a \<Rightarrow> ('s, 'a) sm" where
  "io_return x w = (Inr x, w)"

definition io_throw :: "exn \<Rightarrow> ('s, 'a) sm" where
  "io_throw e w = (Inl e, w)"

definition io_bind :: "('s, 'a) sm \<Rightarrow> ('a \<Rightarrow> ('s, 'b) sm) \<Rightarrow> ('s, 'b) sm" where
  "io_bind m f w = (case m w of (Inr x, w') \<Rightarrow> f x w' | (Inl e, w') \<Rightarrow> (Inl e, w'))"

text \<open>\<open>try m catch (e) { h e }\<close>.\<close>

definition io_catch :: "('s, 'a) sm \<Rightarrow> (exn \<Rightarrow> ('s, 'a) sm) \<Rightarrow> ('s, 'a) sm" where
  "io_catch m h w = (case m w of (Inr x, w') \<Rightarrow> (Inr x, w') | (Inl e, w') \<Rightarrow> h e w')"

text \<open>Reading the state, and changing it.\<close>

definition io_get :: "('s \<Rightarrow> 'a) \<Rightarrow> ('s, 'a) sm" where
  "io_get f w = (Inr (f w), w)"

definition io_modify :: "('s \<Rightarrow> 's) \<Rightarrow> ('s, unit) sm" where
  "io_modify f w = (Inr (), f w)"

text \<open>
  \<open>keeps P m\<close>: whatever \<open>m\<close> returns or throws, the relation \<open>P\<close> holds between the states before
  and after it.
\<close>

definition keeps :: "('s \<Rightarrow> 's \<Rightarrow> bool) \<Rightarrow> ('s, 'a) sm \<Rightarrow> bool" where
  "keeps P m \<longleftrightarrow> (\<forall>w. P w (snd (m w)))"

named_theorems keeps_intros "computations that keep a relation on states"

lemma keepsD: "keeps P m \<Longrightarrow> m w = (r, w') \<Longrightarrow> P w w'"
  unfolding keeps_def by (metis snd_conv)

lemma keeps_return [keeps_intros]: "reflp P \<Longrightarrow> keeps P (io_return x)"
  and keeps_throw [keeps_intros]: "reflp P \<Longrightarrow> keeps P (io_throw e)"
  and keeps_get [keeps_intros]: "reflp P \<Longrightarrow> keeps P (io_get f)"
  by (simp_all add: keeps_def io_return_def io_throw_def io_get_def reflp_def)

lemma keeps_bind [keeps_intros]:
  assumes "transp P" "keeps P m" "\<And>x. keeps P (f x)"
  shows "keeps P (io_bind m f)"
  unfolding keeps_def io_bind_def
  using assms by (auto simp: keeps_def transp_def split: prod.split sum.split) (metis snd_conv)+

lemma keeps_catch [keeps_intros]:
  assumes "transp P" "keeps P m" "\<And>e. keeps P (h e)"
  shows "keeps P (io_catch m h)"
  unfolding keeps_def io_catch_def
  using assms by (auto simp: keeps_def transp_def split: prod.split sum.split) (metis snd_conv)+

text \<open>With what is known of the value the first computation returns.\<close>

lemma keeps_bind_post:
  assumes "transp P" "keeps P m" "\<And>w x w'. m w = (Inr x, w') \<Longrightarrow> keeps P (f x)"
  shows "keeps P (io_bind m f)"
  unfolding keeps_def
proof
  fix w
  obtain r w' where m: "m w = (r, w')" by fastforce
  have 1: "P w w'" by (rule keepsD [OF assms(2) m])
  show "P w (snd (io_bind m f w))"
  proof (cases r)
    case (Inr x)
    with m have "P w' (snd (f x w'))" using assms(3) [of w x w'] by (simp add: keeps_def)
    then show ?thesis using transpD [OF assms(1) 1] m Inr by (simp add: io_bind_def)
  qed (use 1 m in \<open>simp add: io_bind_def\<close>)
qed

lemma io_bind_Inr: "m w = (Inr x, w') \<Longrightarrow> io_bind m f w = f x w'"
  and io_bind_Inl: "m w = (Inl e, w') \<Longrightarrow> io_bind m f w = (Inl e, w')"
  by (simp_all add: io_bind_def)

lemma io_run_simps [simp]:
  "io_get g w = (Inr (g w), w)" "io_modify h w = (Inr (), h w)"
  "io_bind (io_return x1) f1 = f1 x1" "io_bind (io_get g2) f2 w = f2 (g2 w) w"
  "io_bind (io_modify h) f3 w = f3 () (h w)" "io_bind (io_throw e4) f4 = io_throw e4"
  by (simp_all add: io_return_def io_throw_def io_get_def io_modify_def io_bind_def fun_eq_iff)

subsection \<open>Rows of a table\<close>

text \<open>
  A table is the list of its rows in insertion order.  \<open>UPDATE .. SET .. WHERE p\<close> is
  \<open>update_where p f\<close>, \<open>DELETE .. WHERE p\<close> is \<open>delete_where p\<close>, the number of changed rows
  is \<open>changes p\<close>, and the row a \<open>SELECT .. LIMIT 1\<close> returns is \<open>find p\<close>.
\<close>

definition update_where :: "('a \<Rightarrow> bool) \<Rightarrow> ('a \<Rightarrow> 'a) \<Rightarrow> 'a list \<Rightarrow> 'a list" where
  "update_where p f rows = map (\<lambda>r. if p r then f r else r) rows"

definition delete_where :: "('a \<Rightarrow> bool) \<Rightarrow> 'a list \<Rightarrow> 'a list" where
  "delete_where p rows = filter (\<lambda>r. \<not> p r) rows"

definition changes :: "('a \<Rightarrow> bool) \<Rightarrow> 'a list \<Rightarrow> nat" where
  "changes p rows = length (filter p rows)"

lemma update_where_Nil [simp, row_simps]: "update_where p f [] = []"
  and update_where_Cons [row_simps]:
    "update_where p f (r # rs) = (if p r then f r else r) # update_where p f rs"
  by (simp_all add: update_where_def)

lemma set_update_where [row_simps]:
  "set (update_where p f rows) = (\<lambda>r. if p r then f r else r) ` set rows"
  by (simp add: update_where_def)

lemma length_update_where [simp]: "length (update_where p f rows) = length rows"
  by (simp add: update_where_def)

lemma map_update_where [row_simps]:
  "(\<And>r. p r \<Longrightarrow> key (f r) = key r) \<Longrightarrow> map key (update_where p f rows) = map key rows"
  by (simp add: update_where_def)

lemma set_delete_where [simp, row_simps]: "set (delete_where p rows) = {r \<in> set rows. \<not> p r}"
  by (simp add: delete_where_def)

lemma distinct_delete_where [row_simps]:
  "distinct (map key rows) \<Longrightarrow> distinct (map key (delete_where p rows))"
  by (simp add: delete_where_def distinct_map_filter)

lemma changes_pos [row_simps]: "0 < changes p rows \<longleftrightarrow> (\<exists>r \<in> set rows. p r)"
  by (auto simp: changes_def filter_empty_conv)

lemma update_where_id: "\<forall>r \<in> set rows. \<not> p r \<Longrightarrow> update_where p f rows = rows"
  by (induction rows) (auto simp: update_where_def)

lemma delete_where_id: "\<forall>r \<in> set rows. \<not> p r \<Longrightarrow> delete_where p rows = rows"
  by (simp add: delete_where_def filter_id_conv)

lemma find_update_where:
  "(\<And>r. p r \<Longrightarrow> key (f r) = key r) \<Longrightarrow>
   find (\<lambda>r. key r = k) (update_where p f rows) =
     map_option (\<lambda>r. if p r then f r else r) (find (\<lambda>r. key r = k) rows)"
  by (induction rows) (auto simp: update_where_def)

lemma find_delete_where:
  "find (\<lambda>r. key r = k) (delete_where (\<lambda>r. key r = k') rows) =
     (if k = k' then None else find (\<lambda>r. key r = k) rows)"
  by (induction rows) (auto simp: delete_where_def)

lemma find_SomeD: "find p rows = Some r \<Longrightarrow> r \<in> set rows \<and> p r"
  by (auto simp: find_Some_iff)

lemma find_key_unique:
  "distinct (map key rows) \<Longrightarrow> r \<in> set rows \<Longrightarrow> find (\<lambda>x. key x = key r) rows = Some r"
  by (induction rows) (auto simp: rev_image_eqI)

lemma find_None_key: "find (\<lambda>x. key x = k) rows = None \<longleftrightarrow> k \<notin> key ` set rows"
  by (auto simp: find_None_iff)

lemma find_append:
  "find p (xs @ ys) = (case find p xs of None \<Rightarrow> find p ys | Some x \<Rightarrow> Some x)"
  by (induction xs) auto

lemma find_None_ex: "find p xs = None \<longleftrightarrow> \<not> (\<exists>x \<in> set xs. p x)"
  by (auto simp: find_None_iff)

lemma find_key_ex:
  assumes "distinct (map key rows)"
  shows "(\<exists>r \<in> set rows. key r = k \<and> P r) \<longleftrightarrow> (\<exists>r. find (\<lambda>r. key r = k) rows = Some r \<and> P r)"
proof
  assume "\<exists>r \<in> set rows. key r = k \<and> P r"
  then obtain r where r: "r \<in> set rows" "key r = k" "P r" by blast
  from find_key_unique [OF assms r(1)] r(2,3)
  show "\<exists>r. find (\<lambda>r. key r = k) rows = Some r \<and> P r" by auto
next
  assume "\<exists>r. find (\<lambda>r. key r = k) rows = Some r \<and> P r"
  then show "\<exists>r \<in> set rows. key r = k \<and> P r" by (auto dest: find_SomeD)
qed

lemma find_update_self:
  "(\<And>r. p r \<Longrightarrow> p (f r)) \<Longrightarrow> find p (update_where p f rows) = map_option f (find p rows)"
  by (induction rows) (auto simp: update_where_def)

subsection \<open>Maps\<close>

text \<open>A \<open>Map\<close> in insertion order: \<open>set\<close> keeps the place of a key that is there.\<close>

definition map_set :: "'k \<Rightarrow> 'v \<Rightarrow> ('k \<times> 'v) list \<Rightarrow> ('k \<times> 'v) list" where
  "map_set k v m =
     (if k \<in> fst ` set m then map (\<lambda>(k', v'). (k', if k' = k then v else v')) m else m @ [(k, v)])"

definition map_delete :: "'k \<Rightarrow> ('k \<times> 'v) list \<Rightarrow> ('k \<times> 'v) list" where
  "map_delete k m = filter (\<lambda>(k', _). k' \<noteq> k) m"

lemma map_of_update: "map_of (map (\<lambda>(k', v'). (k', if k' = k then v else v')) m) j =
    (if j = k then map_option (\<lambda>_. v) (map_of m k) else map_of m j)"
  by (cases "j = k"; induction m; auto)

lemma map_of_snoc: "map_of m k = None \<Longrightarrow> map_of (m @ [(k, v)]) j = (if j = k then Some v else map_of m j)"
  by (cases "map_of m j") (auto simp: map_add_def)

lemma map_of_map_set: "map_of (map_set k v m) j = (if j = k then Some v else map_of m j)"
proof (cases "map_of m k")
  case None
  then have "k \<notin> fst ` set m" by (simp add: map_of_eq_None_iff)
  then have "map_set k v m = m @ [(k, v)]" by (simp add: map_set_def)
  then show ?thesis using map_of_snoc [OF None] by (simp only:)
next
  case (Some x)
  then have "k \<in> fst ` set m" using map_of_eq_None_iff [of m k] by auto
  then show ?thesis using Some by (simp only: map_set_def if_True map_of_update) simp
qed

lemma map_of_map_delete: "map_of (map_delete k m) j = (if j = k then None else map_of m j)"
  by (induction m) (auto simp: map_delete_def)

subsection \<open>Decimal numerals\<close>

definition str_nat :: "string \<Rightarrow> nat" where
  "str_nat s = foldl (\<lambda>a c. a * 10 + (of_char c - 48)) 0 s"

lemma of_char_digit: "d < 10 \<Longrightarrow> of_char (char_of (48 + d :: nat) :: char) = (48 + d :: nat)"
  by simp

lemma str_nat_nat_str [simp]: "str_nat (nat_str n) = n"
proof (induction n rule: nat_str.induct)
  case (1 n)
  show ?case
  proof (cases "n < 10")
    case True
    then show ?thesis
      using of_char_digit [of n] by (subst nat_str.simps) (simp add: str_nat_def)
  next
    case False
    then have "str_nat (nat_str (n div 10)) = n div 10" using 1 by simp
    moreover have "nat_str n = nat_str (n div 10) @ [char_of (48 + n mod 10)]"
      using False by (subst nat_str.simps) simp
    ultimately show ?thesis using of_char_digit [of "n mod 10"] by (simp add: str_nat_def)
  qed
qed

lemma nat_str_inject [simp]: "nat_str m = nat_str n \<longleftrightarrow> m = n"
  by (metis str_nat_nat_str)

lemma nat_str_not_Nil [simp]: "nat_str n \<noteq> []"
  by (subst nat_str.simps) simp

end
