(* ===== verification/NodePath.thy ===== *)
theory NodePath
  imports Prelude
begin

text \<open>
  The part of Node's \<open>path\<close> (POSIX) that the host uses: \<open>isAbsolute\<close>, \<open>basename\<close>,
  \<open>resolve\<close> with one argument, \<open>join\<close> with two, and \<open>relative\<close>.  A path is its text;
  the functions work on its segments, and \<open>path_norm\<close> is the segment loop of \<open>normalize\<close>
  (empty and dot segments dropped, dot-dot taking away the segment before it).
  The lemmas say when a relative path stays inside its base.
\<close>

definition is_absolute :: "string \<Rightarrow> bool" where
  "is_absolute p = (case p of c # _ \<Rightarrow> c = CHR ''/'' | [] \<Rightarrow> False)"

fun path_norm :: "bool \<Rightarrow> string list \<Rightarrow> string list \<Rightarrow> string list" where
  "path_norm esc acc [] = rev acc"
| "path_norm esc acc (w # ws) =
     (if w = [] \<or> w = ''.'' then path_norm esc acc ws
      else if w = ''..'' then
        (case acc of
           a # acc' \<Rightarrow> if a = ''..'' then path_norm esc (if esc then w # acc else acc) ws
                      else path_norm esc acc' ws
         | [] \<Rightarrow> path_norm esc (if esc then [w] else []) ws)
      else path_norm esc (w # acc) ws)"

definition segs :: "string \<Rightarrow> string list" where
  "segs p = path_norm (\<not> is_absolute p) [] (js_split CHR ''/'' p)"

definition path_resolve :: "string \<Rightarrow> string \<Rightarrow> string" where
  "path_resolve cwd p =
     (let q = (if p = [] then cwd else if is_absolute p then p else cwd @ ''/'' @ p)
      in ''/'' @ js_join ''/'' (segs q))"

definition path_normalize :: "string \<Rightarrow> string" where
  "path_normalize p =
     (if p = [] then ''.''
      else let body = js_join ''/'' (segs p); trailing = (last p = CHR ''/'')
           in if body = [] then (if is_absolute p then ''/'' else if trailing then ''./'' else ''.'')
              else (if is_absolute p then ''/'' else []) @ body @ (if trailing then ''/'' else []))"

definition path_join :: "string \<Rightarrow> string \<Rightarrow> string" where
  "path_join a b =
     path_normalize (if a = [] then b else if b = [] then a else a @ ''/'' @ b)"

definition path_basename :: "string \<Rightarrow> string" where
  "path_basename p =
     (case dropWhile (\<lambda>w. w = []) (rev (js_split CHR ''/'' p)) of [] \<Rightarrow> [] | w # _ \<Rightarrow> w)"

fun strip_common :: "string list \<Rightarrow> string list \<Rightarrow> string list \<times> string list" where
  "strip_common (a # as) (b # bs) = (if a = b then strip_common as bs else (a # as, b # bs))"
| "strip_common as bs = (as, bs)"

definition path_relative :: "string \<Rightarrow> string \<Rightarrow> string \<Rightarrow> string" where
  "path_relative cwd from to =
     (let (up, down) = strip_common (segs (path_resolve cwd from)) (segs (path_resolve cwd to))
      in js_join ''/'' (map (\<lambda>_. ''..'') up @ down))"

subsection \<open>Canonical paths\<close>

text \<open>What \<open>fs.realpathSync\<close> returns: absolute, no empty, dot or dot-dot segment.\<close>

definition proper_seg :: "string \<Rightarrow> bool" where
  "proper_seg w \<longleftrightarrow> w \<noteq> [] \<and> w \<noteq> ''.'' \<and> w \<noteq> ''..'' \<and> CHR ''/'' \<notin> set w"

definition canonical :: "string \<Rightarrow> bool" where
  "canonical p \<longleftrightarrow> is_absolute p \<and> p = ''/'' @ js_join ''/'' (segs p)"

lemma path_norm_proper:
  "\<forall>w \<in> set ws. CHR ''/'' \<notin> set w \<Longrightarrow> \<forall>w \<in> set acc. proper_seg w \<Longrightarrow>
   \<forall>w \<in> set (path_norm False acc ws). proper_seg w"
proof (induction ws arbitrary: acc)
  case Nil
  then show ?case by simp
next
  case (Cons w ws)
  have tail: "\<forall>w \<in> set (path_norm False acc' ws). proper_seg w"
    if "\<forall>w \<in> set acc'. proper_seg w" for acc'
    using Cons.IH [of acc'] Cons.prems(1) that by simp
  show ?case
  proof (cases "w = [] \<or> w = ''.'' \<or> w = ''..''")
    case True
    show ?thesis
    proof (cases "w = ''..''")
      case False
      with True show ?thesis using tail [OF Cons.prems(2)] by auto
    next
      case True
      show ?thesis
      proof (cases acc)
        case Nil
        then show ?thesis using True tail [of "[]"] by simp
      next
        case (Cons a acc')
        then have "a \<noteq> ''..''" "\<forall>w \<in> set acc'. proper_seg w"
          using \<open>\<forall>w \<in> set acc. proper_seg w\<close> by (auto simp: proper_seg_def)
        then have "path_norm False acc (w # ws) = path_norm False acc' ws"
          using True by (simp add: \<open>acc = a # acc'\<close>)
        then show ?thesis using tail [of acc'] \<open>\<forall>w \<in> set acc'. proper_seg w\<close> by simp
      qed
    qed
  next
    case False
    then have "proper_seg w" using Cons.prems(1) by (simp add: proper_seg_def)
    then have "\<forall>v \<in> set (w # acc). proper_seg v" using Cons.prems(2) by simp
    then have "\<forall>v \<in> set (path_norm False (w # acc) ws). proper_seg v" by (rule tail)
    moreover have "path_norm False acc (w # ws) = path_norm False (w # acc) ws"
      using False by simp
    ultimately show ?thesis by simp
  qed
qed

lemma segs_proper: "is_absolute p \<Longrightarrow> \<forall>w \<in> set (segs p). proper_seg w"
  using path_norm_proper [of "js_split CHR ''/'' p" "[]"] js_split_no_sep [of _ "CHR ''/''" p]
  by (auto simp: segs_def)

lemma path_norm_id:
  "\<forall>w \<in> set ws. proper_seg w \<Longrightarrow> path_norm esc acc ws = rev acc @ ws"
  by (induction ws arbitrary: acc) (auto simp: proper_seg_def)

lemma segs_of_join:
  assumes "\<forall>w \<in> set ws. proper_seg w"
  shows "segs (''/'' @ js_join ''/'' ws) = ws"
proof (cases "ws = []")
  case True
  then show ?thesis by (simp add: segs_def is_absolute_def)
next
  case False
  have "js_split CHR ''/'' (''/'' @ js_join ''/'' ws) = [] # ws"
    using False assms by (simp add: js_split_join proper_seg_def)
  then show ?thesis
    using path_norm_id [OF assms, of False "[]"] by (simp add: segs_def is_absolute_def)
qed

lemma is_absolute_slash [simp]: "is_absolute (CHR ''/'' # s)"
  by (simp add: is_absolute_def)

lemma path_resolve_absolute:
  "is_absolute cwd \<Longrightarrow> is_absolute (path_resolve cwd p)"
  by (simp add: path_resolve_def Let_def)

lemma path_resolve_canonical:
  assumes "is_absolute cwd"
  shows "canonical (path_resolve cwd p)"
proof -
  let ?q = "if p = [] then cwd else if is_absolute p then p else cwd @ ''/'' @ p"
  have "is_absolute ?q" using assms by (auto simp: is_absolute_def split: list.splits)
  then have "\<forall>w \<in> set (segs ?q). proper_seg w" by (rule segs_proper)
  then have "segs (''/'' @ js_join ''/'' (segs ?q)) = segs ?q" by (rule segs_of_join)
  then show ?thesis by (simp add: canonical_def path_resolve_def Let_def)
qed

lemma path_resolve_of_canonical: "canonical p \<Longrightarrow> path_resolve cwd p = p"
  by (auto simp: canonical_def path_resolve_def Let_def is_absolute_def split: list.splits)

subsection \<open>Relative paths and containment\<close>

lemma strip_common_prefix:
  "strip_common as bs = (up, down) \<Longrightarrow> up = [] \<longleftrightarrow> prefix as bs"
  by (induction as bs rule: strip_common.induct) (auto split: if_splits)

lemma js_join_head: "prefix w (js_join sep (w # ws))"
  by (cases ws) auto

lemma js_join_starts_dotdot:
  assumes "\<not> prefix ''..'' (js_join ''/'' (map (\<lambda>_. ''..'') up @ down))"
  shows "up = []"
proof (cases up)
  case (Cons u us)
  then have "prefix ''..'' (js_join ''/'' (map (\<lambda>_. ''..'') up @ down))"
    using js_join_head [of "''..''" "''/''" "map (\<lambda>_. ''..'') us @ down"] by simp
  with assms show ?thesis by simp
qed simp

lemma path_relative_inside:
  assumes "\<not> prefix ''..'' (path_relative cwd from to)"
  shows "prefix (segs (path_resolve cwd from)) (segs (path_resolve cwd to))"
proof -
  obtain up down where sc:
    "strip_common (segs (path_resolve cwd from)) (segs (path_resolve cwd to)) = (up, down)"
    by fastforce
  then have "up = []"
    using assms js_join_starts_dotdot by (simp add: path_relative_def)
  then show ?thesis using strip_common_prefix [OF sc] by simp
qed

lemma strip_common_append [simp]: "strip_common as (as @ bs) = ([], bs)"
  by (induction as) auto

text \<open>
  The converse of the containment check: what lies inside the base is accepted unless the
  first segment below the base itself begins with two dots.
\<close>

lemma js_join_dotdot_iff:
  "CHR ''/'' \<notin> set w \<Longrightarrow> prefix ''..'' (js_join ''/'' (w # ws)) \<longleftrightarrow> prefix ''..'' w"
  by (cases ws; cases w; cases "tl w") auto

lemma js_join_Cons_absolute:
  "proper_seg w \<Longrightarrow> \<not> is_absolute (js_join ''/'' (w # ws))"
  by (cases ws; cases w) (auto simp: is_absolute_def proper_seg_def)

lemma path_relative_below:
  assumes "is_absolute cwd"
    and "segs (path_resolve cwd to) = segs (path_resolve cwd from) @ w # ws"
  shows "prefix ''..'' (path_relative cwd from to) \<longleftrightarrow> prefix ''..'' w"
    and "\<not> is_absolute (path_relative cwd from to)"
proof -
  have "proper_seg w"
    using segs_proper [OF path_resolve_absolute [OF assms(1)], of to] assms(2) by simp
  moreover have "path_relative cwd from to = js_join ''/'' (w # ws)"
    using assms(2) by (simp add: path_relative_def)
  ultimately show "prefix ''..'' (path_relative cwd from to) \<longleftrightarrow> prefix ''..'' w"
    and "\<not> is_absolute (path_relative cwd from to)"
    using js_join_dotdot_iff js_join_Cons_absolute by (auto simp: proper_seg_def)
qed

lemma path_relative_same:
  "segs (path_resolve cwd to) = segs (path_resolve cwd from) \<Longrightarrow> path_relative cwd from to = []"
  using strip_common_append [of "segs (path_resolve cwd from)" "[]"]
  by (simp add: path_relative_def)

end
