(* ===== verification/MountSecurity.thy ===== *)
theory MountSecurity
  imports NodePath
begin

text \<open>
  The mount allowlist (\<open>src/modules/mount-security/index.ts\<close>): which host directories a
  container may be given beside its own.

  The host is a record: the working directory, the home directory (\<open>process.env.HOME ||
  os.homedir()\<close>), \<open>fs.realpathSync\<close> (\<open>None\<close> when it throws) and the path of the allowlist
  file.  The file is its \<open>mtime\<close> and its content, \<open>None\<close> when \<open>readFileSync\<close> throws; the
  module variable \<open>cache\<close> is threaded through \<open>loadMountAllowlist\<close>.  Log calls are left out.
\<close>

subsection \<open>Data\<close>

record additional_mount =
  am_hostPath :: string
  am_containerPath :: "string option"
  am_readonly :: "bool option"

record allowed_root =
  ar_path :: string
  ar_allowReadWrite :: bool
  ar_description :: "string option"

record allowlist =
  allowedRoots :: "allowed_root list"
  blockedPatterns :: "js list"

record list_cache =
  lc_path :: string
  lc_mtimeMs :: int
  lc_allowlist :: allowlist

record host_env =
  he_cwd :: string
  he_home :: string
  he_realpath :: "string \<Rightarrow> string option"
  he_listPath :: string

record list_file =
  lf_mtimeMs :: int
  lf_content :: "jtext option"

definition DEFAULT_BLOCKED_PATTERNS :: "string list" where
  "DEFAULT_BLOCKED_PATTERNS =
     [''.ssh'', ''.gnupg'', ''.gpg'', ''.aws'', ''.azure'', ''.gcloud'', ''.kube'', ''.docker'',
      ''.config/nanoclaw'', ''.local/bin'', ''credentials'', ''.env'', ''.netrc'', ''.npmrc'',
      ''.pypirc'', ''id_rsa'', ''id_ed25519'', ''private_key'', ''.secret'']"

subsection \<open>Loading the allowlist\<close>

definition normalizeRoot :: "js \<Rightarrow> allowed_root res" where
  "normalizeRoot root =
     (case js_get root ''path'' of
        Inl e \<Rightarrow> Inl e
      | Inr p \<Rightarrow>
          (let get = (\<lambda>k. case js_get root k of Inl _ \<Rightarrow> JUndefined | Inr v \<Rightarrow> v);
               rootPath = (case js_str p of Some s \<Rightarrow> s | None \<Rightarrow> []);
               description = js_str (get ''description'');
               rw = (case get ''allowReadWrite'' of
                       JBool b \<Rightarrow> b
                     | _ \<Rightarrow> (case get ''readOnly'' of JBool b \<Rightarrow> \<not> b | _ \<Rightarrow> False))
           in Inr \<lparr>ar_path = rootPath, ar_allowReadWrite = rw, ar_description = description\<rparr>))"

fun map_res :: "('a \<Rightarrow> 'b res) \<Rightarrow> 'a list \<Rightarrow> 'b list res" where
  "map_res f [] = Inr []"
| "map_res f (x # xs) =
     (case f x of Inl e \<Rightarrow> Inl e
      | Inr y \<Rightarrow> (case map_res f xs of Inl e \<Rightarrow> Inl e | Inr ys \<Rightarrow> Inr (y # ys)))"

text \<open>
  The order of \<open>new Set(xs)\<close>: first occurrences.  Two objects or arrays of one parse are never
  the same value.
\<close>

fun js_primitive :: "js \<Rightarrow> bool" where
  "js_primitive (JArr _) = False"
| "js_primitive (JObj _) = False"
| "js_primitive _ = True"

fun js_dedup :: "js list \<Rightarrow> js list \<Rightarrow> js list" where
  "js_dedup seen [] = []"
| "js_dedup seen (x # xs) =
     (if js_primitive x \<and> x \<in> set seen then js_dedup seen xs
      else x # js_dedup (x # seen) xs)"

text \<open>The body of the second \<open>try\<close>: every throw in it ends in its \<open>catch\<close>.\<close>

definition parse_allowlist :: "jtext option \<Rightarrow> allowlist res" where
  "parse_allowlist content =
     (case content of
        None \<Rightarrow> Inl (Error ''read failed'')
      | Some text \<Rightarrow>
         (case json_parse text of
            Inl e \<Rightarrow> Inl e
          | Inr raw \<Rightarrow>
             (case js_get raw ''allowedRoots'' of
                Inl e \<Rightarrow> Inl e
              | Inr (JArr roots) \<Rightarrow>
                 (case js_get raw ''blockedPatterns'' of
                    Inl e \<Rightarrow> Inl e
                  | Inr (JArr pats) \<Rightarrow>
                     (case map_res normalizeRoot roots of
                        Inl e \<Rightarrow> Inl e
                      | Inr rs \<Rightarrow>
                          Inr \<lparr>allowedRoots = rs,
                               blockedPatterns =
                                 js_dedup [] (map JStr DEFAULT_BLOCKED_PATTERNS @ pats)\<rparr>)
                  | Inr _ \<Rightarrow> Inl (Error ''blockedPatterns must be an array''))
              | Inr _ \<Rightarrow> Inl (Error ''allowedRoots must be an array''))))"

definition loadMountAllowlist ::
    "host_env \<Rightarrow> list_file option \<Rightarrow> list_cache option \<Rightarrow> allowlist option \<times> list_cache option" where
  "loadMountAllowlist env file cache =
     (case file of
        None \<Rightarrow> (None, cache)
      | Some f \<Rightarrow>
         (let fresh = (case parse_allowlist (lf_content f) of
                         Inr al \<Rightarrow> (Some al, Some \<lparr>lc_path = he_listPath env,
                                                  lc_mtimeMs = lf_mtimeMs f, lc_allowlist = al\<rparr>)
                       | Inl _ \<Rightarrow> (None, None))
          in case cache of
               Some c \<Rightarrow> (if lc_path c = he_listPath env \<and> lc_mtimeMs c = lf_mtimeMs f
                          then (Some (lc_allowlist c), cache) else fresh)
             | None \<Rightarrow> fresh))"

subsection \<open>Paths\<close>

definition expandPath :: "host_env \<Rightarrow> string \<Rightarrow> string" where
  "expandPath env p =
     (if prefix ''~/'' p then path_join (he_home env) (drop 2 p)
      else if p = ''~'' then he_home env
      else path_resolve (he_cwd env) p)"

definition getRealPath :: "host_env \<Rightarrow> string \<Rightarrow> string option" where
  "getRealPath env p = he_realpath env p"

definition pattern_hits :: "string list \<Rightarrow> string \<Rightarrow> js \<Rightarrow> bool" where
  "pattern_hits pathParts realPath pat \<longleftrightarrow>
     (\<exists>part \<in> set pathParts. JStr part = pat \<or> js_includes part (js_to_string pat)) \<or>
     js_includes realPath (js_to_string pat)"

definition matchesBlockedPattern :: "string \<Rightarrow> js list \<Rightarrow> js option" where
  "matchesBlockedPattern realPath pats =
     find (pattern_hits (js_split CHR ''/'' realPath) realPath) pats"

definition root_contains :: "host_env \<Rightarrow> string \<Rightarrow> allowed_root \<Rightarrow> bool" where
  "root_contains env realPath root =
     (case getRealPath env (expandPath env (ar_path root)) of
        None \<Rightarrow> False
      | Some realRoot \<Rightarrow>
          (let relative = path_relative (he_cwd env) realRoot realPath
           in \<not> prefix ''..'' relative \<and> \<not> is_absolute relative))"

definition findAllowedRoot :: "host_env \<Rightarrow> string \<Rightarrow> allowed_root list \<Rightarrow> allowed_root option" where
  "findAllowedRoot env realPath roots = find (root_contains env realPath) roots"

definition isValidContainerPath :: "string \<Rightarrow> bool" where
  "isValidContainerPath p \<longleftrightarrow>
     \<not> js_includes p ''..'' \<and> \<not> prefix ''/'' p \<and> p \<noteq> [] \<and> js_trim p \<noteq> [] \<and> \<not> js_includes p '':''"

subsection \<open>Validating mounts\<close>

text \<open>
  Each rejection is a constructor that carries what its message interpolates; \<open>Allowed\<close>
  carries the matched root, from which the message and \<open>effectiveReadonly\<close> are computed.
\<close>

datatype reject =
    NoAllowlist string
  | InvalidContainerPath string
  | NoHostPath string string
  | Blocked js string
  | OutsideRoots string "string list"

record validated =
  v_realHostPath :: string
  v_containerPath :: string
  v_effectiveReadonly :: bool
  v_root :: allowed_root

definition validateMount_on ::
    "host_env \<Rightarrow> allowlist option \<Rightarrow> additional_mount \<Rightarrow> reject + validated" where
  "validateMount_on env al mount =
     (case al of
        None \<Rightarrow> Inl (NoAllowlist (he_listPath env))
      | Some al \<Rightarrow>
         (let containerPath = (case am_containerPath mount of
                                 Some c \<Rightarrow> if c = [] then path_basename (am_hostPath mount) else c
                               | None \<Rightarrow> path_basename (am_hostPath mount));
              expanded = expandPath env (am_hostPath mount)
          in if \<not> isValidContainerPath containerPath
             then Inl (InvalidContainerPath containerPath)
             else case getRealPath env expanded of
                    None \<Rightarrow> Inl (NoHostPath (am_hostPath mount) expanded)
                  | Some realPath \<Rightarrow>
                     (case matchesBlockedPattern realPath (blockedPatterns al) of
                        Some pat \<Rightarrow> Inl (Blocked pat realPath)
                      | None \<Rightarrow>
                         (case findAllowedRoot env realPath (allowedRoots al) of
                            None \<Rightarrow> Inl (OutsideRoots realPath
                                      (map (\<lambda>r. expandPath env (ar_path r)) (allowedRoots al)))
                          | Some root \<Rightarrow>
                              Inr \<lparr>v_realHostPath = realPath, v_containerPath = containerPath,
                                   v_effectiveReadonly =
                                     \<not> (am_readonly mount = Some False \<and> ar_allowReadWrite root),
                                   v_root = root\<rparr>))))"

definition validateMount ::
    "host_env \<Rightarrow> list_file option \<Rightarrow> list_cache option \<Rightarrow> additional_mount
       \<Rightarrow> (reject + validated) \<times> list_cache option" where
  "validateMount env file cache mount =
     (let (al, cache') = loadMountAllowlist env file cache
      in (validateMount_on env al mount, cache'))"

record bind_mount =
  bm_hostPath :: string
  bm_containerPath :: string
  bm_readonly :: bool

definition bind_of :: "validated \<Rightarrow> bind_mount" where
  "bind_of v = \<lparr>bm_hostPath = v_realHostPath v,
                bm_containerPath = ''/workspace/extra/'' @ v_containerPath v,
                bm_readonly = v_effectiveReadonly v\<rparr>"

fun validateAdditionalMounts ::
    "host_env \<Rightarrow> list_file option \<Rightarrow> list_cache option \<Rightarrow> additional_mount list
       \<Rightarrow> bind_mount list \<times> list_cache option" where
  "validateAdditionalMounts env file cache [] = ([], cache)"
| "validateAdditionalMounts env file cache (m # ms) =
     (let (r, cache') = validateMount env file cache m;
          (rest, cache'') = validateAdditionalMounts env file cache' ms
      in case r of
           Inl _ \<Rightarrow> (rest, cache'')
         | Inr v \<Rightarrow> (bind_of v # rest, cache''))"

text \<open>The \<open>reason\<close> text of a result.\<close>

fun reject_reason :: "reject \<Rightarrow> string" where
  "reject_reason (NoAllowlist p) = ''No mount allowlist configured at '' @ p"
| "reject_reason (InvalidContainerPath c) =
     ''Invalid container path: \"'' @ c @
     ''\" - must be relative, non-empty, and not contain \"..\"''"
| "reject_reason (NoHostPath h e) =
     ''Host path does not exist: \"'' @ h @ ''\" (expanded: \"'' @ e @ ''\")''"
| "reject_reason (Blocked pat r) =
     ''Path matches blocked pattern \"'' @ js_to_string pat @ ''\": \"'' @ r @ ''\"''"
| "reject_reason (OutsideRoots r roots) =
     ''Path \"'' @ r @ ''\" is not under any allowed root. Allowed roots: '' @ js_join '', '' roots"

definition allowed_reason :: "allowed_root \<Rightarrow> string" where
  "allowed_reason root =
     ''Allowed under root \"'' @ ar_path root @ ''\"'' @
     (case ar_description root of
        Some d \<Rightarrow> if d = [] then [] else '' ('' @ d @ '')''
      | None \<Rightarrow> [])"

definition generateAllowlistTemplate :: jtext where
  "generateAllowlistTemplate =
     (let root = (\<lambda>p rw d. JObj [(''path'', JStr p), (''allowReadWrite'', JBool rw),
                                 (''description'', JStr d)])
      in Json (JObj
           [(''allowedRoots'', JArr
               [root ''~/projects'' True ''Development projects'',
                root ''~/repos'' True ''Git repositories'',
                root ''~/Documents/work'' False ''Work documents (read-only)'']),
            (''blockedPatterns'', JArr [JStr ''password'', JStr ''secret'', JStr ''token''])]))"

subsection \<open>The allowlist and its cache\<close>

lemma js_dedup_keeps:
  "x \<in> set xs \<Longrightarrow> x \<in> set seen \<or> x \<in> set (js_dedup seen xs)"
  by (induction seen xs rule: js_dedup.induct) auto

definition has_defaults :: "allowlist \<Rightarrow> bool" where
  "has_defaults al \<longleftrightarrow> JStr ` set DEFAULT_BLOCKED_PATTERNS \<subseteq> set (blockedPatterns al)"

lemma parse_allowlist_defaults: "parse_allowlist content = Inr al \<Longrightarrow> has_defaults al"
  using js_dedup_keeps [of _ _ "[]"]
  by (fastforce simp: has_defaults_def parse_allowlist_def
                split: option.splits sum.splits js.splits)

definition cache_ok :: "list_cache option \<Rightarrow> bool" where
  "cache_ok cache \<longleftrightarrow> (\<forall>c. cache = Some c \<longrightarrow> has_defaults (lc_allowlist c))"

lemma cache_ok_None [simp, inv_intros]: "cache_ok None"
  by (simp add: cache_ok_def)

lemma load_defaults:
  assumes "cache_ok cache" "loadMountAllowlist env file cache = (al, cache')"
  shows "cache_ok cache'" and "al = Some l \<Longrightarrow> has_defaults l"
  using assms
  by (auto simp: loadMountAllowlist_def cache_ok_def Let_def parse_allowlist_defaults
           split: option.splits sum.splits if_splits)

subsection \<open>What the checks mean\<close>

lemma pattern_hits_iff:
  "pattern_hits (js_split CHR ''/'' p) p pat \<longleftrightarrow> sublist (js_to_string pat) p"
proof -
  have "part \<in> set (js_split CHR ''/'' p) \<Longrightarrow> JStr part = pat \<or> sublist (js_to_string pat) part \<Longrightarrow>
        sublist (js_to_string pat) p" for part
    using js_split_part_includes [of part "CHR ''/''" p] sublist_order.order_trans by auto
  then show ?thesis by (auto simp: pattern_hits_def js_includes_iff)
qed

lemma matchesBlockedPattern_None:
  "matchesBlockedPattern p pats = None \<longleftrightarrow> (\<forall>pat \<in> set pats. \<not> sublist (js_to_string pat) p)"
  by (auto simp: matchesBlockedPattern_def find_None_iff pattern_hits_iff)

text \<open>What \<open>fs.realpathSync\<close> documents: its results are absolute and normalised.\<close>

definition canonical_realpath :: "host_env \<Rightarrow> bool" where
  "canonical_realpath env \<longleftrightarrow> (\<forall>p r. he_realpath env p = Some r \<longrightarrow> canonical r)"

lemma root_contains_prefix:
  assumes "root_contains env realPath root" "canonical realPath"
    and "canonical_realpath env"
  shows "\<exists>realRoot. getRealPath env (expandPath env (ar_path root)) = Some realRoot \<and>
           prefix (segs realRoot) (segs realPath)"
proof -
  obtain realRoot where r: "getRealPath env (expandPath env (ar_path root)) = Some realRoot"
    and nd: "\<not> prefix ''..'' (path_relative (he_cwd env) realRoot realPath)"
    using assms(1) by (auto simp: root_contains_def Let_def split: option.splits)
  have "canonical realRoot" using assms(3) r by (auto simp: getRealPath_def canonical_realpath_def)
  then show ?thesis
    using path_relative_inside [OF nd] assms(2) r by (auto simp: path_resolve_of_canonical)
qed

lemma path_norm_no_dotdot:
  "\<forall>w \<in> set ws. w \<noteq> ''..'' \<Longrightarrow>
   path_norm esc acc ws = rev acc @ filter (\<lambda>w. w \<noteq> [] \<and> w \<noteq> ''.'') ws"
  by (induction ws arbitrary: acc) auto

lemma container_path_segs:
  assumes "isValidContainerPath c"
  shows "prefix [''workspace'', ''extra''] (segs (''/workspace/extra/'' @ c))"
    and "CHR '':'' \<notin> set (''/workspace/extra/'' @ c)"
    and "\<not> sublist ''..'' (''/workspace/extra/'' @ c)"
proof -
  have nd: "\<not> sublist ''..'' c" and nc: "\<not> sublist '':'' c"
    using assms by (auto simp: isValidContainerPath_def js_includes_iff)
  have split: "js_split CHR ''/'' (''/workspace/extra/'' @ c) =
      [] # ''workspace'' # ''extra'' # js_split CHR ''/'' c" by simp
  have "\<forall>w \<in> set (js_split CHR ''/'' c). w \<noteq> ''..''"
    using nd js_split_part_includes by blast
  then show "prefix [''workspace'', ''extra''] (segs (''/workspace/extra/'' @ c))"
    unfolding segs_def split by (simp add: path_norm_no_dotdot)
  show "CHR '':'' \<notin> set (''/workspace/extra/'' @ c)"
  proof
    assume "CHR '':'' \<in> set (''/workspace/extra/'' @ c)"
    then have "CHR '':'' \<in> set c" by simp
    then obtain xs ys where "c = xs @ '':'' @ ys" by (metis append_Cons append_Nil split_list)
    with nc show False by (metis sublist_appendI)
  qed
  show "\<not> sublist ''..'' (''/workspace/extra/'' @ c)"
    using nd by (cases c) (auto simp: sublist_Cons_right)
qed

lemma validateMount_on_Inr:
  assumes "validateMount_on env al m = Inr v"
  obtains l where "al = Some l"
    and "getRealPath env (expandPath env (am_hostPath m)) = Some (v_realHostPath v)"
    and "isValidContainerPath (v_containerPath v)"
    and "matchesBlockedPattern (v_realHostPath v) (blockedPatterns l) = None"
    and "v_root v \<in> set (allowedRoots l)"
    and "root_contains env (v_realHostPath v) (v_root v)"
    and "\<not> v_effectiveReadonly v \<longleftrightarrow> am_readonly m = Some False \<and> ar_allowReadWrite (v_root v)"
  using assms
  by (auto simp: validateMount_on_def Let_def findAllowedRoot_def
           split: option.splits if_splits dest!: find_SomeD)

lemma load_again:
  "loadMountAllowlist env file cache = (al, c) \<Longrightarrow> loadMountAllowlist env file c = (al, c)"
  by (auto simp: loadMountAllowlist_def Let_def split: option.splits sum.splits if_splits)

lemma validateAdditionalMounts_eq:
  "loadMountAllowlist env file cache = (al, c) \<Longrightarrow>
   fst (validateAdditionalMounts env file cache ms) =
     concat (map (\<lambda>m. case validateMount_on env al m of Inl _ \<Rightarrow> [] | Inr v \<Rightarrow> [bind_of v]) ms)"
proof (induction ms arbitrary: cache)
  case (Cons m ms)
  show ?case using Cons.IH [OF load_again [OF Cons.prems]] Cons.prems
    by (auto simp: validateMount_def Let_def split: sum.splits prod.splits)
qed simp

lemma validateAdditionalMounts_mem:
  "loadMountAllowlist env file cache = (al, c) \<Longrightarrow>
   bm \<in> set (fst (validateAdditionalMounts env file cache ms)) \<Longrightarrow>
   \<exists>m \<in> set ms. \<exists>v. validateMount_on env al m = Inr v \<and> bm = bind_of v"
  by (auto simp: validateAdditionalMounts_eq split: sum.splits) metis

subsection \<open>Properties\<close>

text \<open>
  C9. Every mount that passes \<open>validateAdditionalMounts\<close> is the real path of a requested host
  path, lies in the subtree of the real path of a root of the loaded allowlist, contains none
  of the default blocked patterns in its path, and is writable only if the request said
  \<open>readonly: false\<close> and that root allows read-write.
\<close>
theorem mounts_confined:
  assumes "cache_ok cache" and "canonical_realpath env"
    and "bm \<in> set (fst (validateAdditionalMounts env file cache ms))"
  shows "\<exists>m \<in> set ms. \<exists>al root realRoot.
      fst (loadMountAllowlist env file cache) = Some al \<and> root \<in> set (allowedRoots al) \<and>
      getRealPath env (expandPath env (am_hostPath m)) = Some (bm_hostPath bm) \<and>
      getRealPath env (expandPath env (ar_path root)) = Some realRoot \<and>
      prefix (segs realRoot) (segs (bm_hostPath bm)) \<and>
      (\<forall>pat \<in> set DEFAULT_BLOCKED_PATTERNS. \<not> sublist pat (bm_hostPath bm)) \<and>
      (\<not> bm_readonly bm \<longrightarrow> am_readonly m = Some False \<and> ar_allowReadWrite root)"
proof -
  obtain al c where load: "loadMountAllowlist env file cache = (al, c)" by fastforce
  obtain m v where m: "m \<in> set ms" and v: "validateMount_on env al m = Inr v"
    and "bm = bind_of v"
    using validateAdditionalMounts_mem [OF load assms(3)] by blast
  then have bm: "bm_hostPath bm = v_realHostPath v" "bm_readonly bm = v_effectiveReadonly v"
    by (simp_all add: bind_of_def)
  from v obtain l where l: "al = Some l"
    and real: "getRealPath env (expandPath env (am_hostPath m)) = Some (v_realHostPath v)"
    and none: "matchesBlockedPattern (v_realHostPath v) (blockedPatterns l) = None"
    and root: "v_root v \<in> set (allowedRoots l)" "root_contains env (v_realHostPath v) (v_root v)"
    and rw: "\<not> v_effectiveReadonly v \<longleftrightarrow> am_readonly m = Some False \<and> ar_allowReadWrite (v_root v)"
    by (rule validateMount_on_Inr)
  have "canonical (v_realHostPath v)"
    using real assms(2) by (auto simp: getRealPath_def canonical_realpath_def)
  from root_contains_prefix [OF root(2) this assms(2)] obtain realRoot where
    "getRealPath env (expandPath env (ar_path (v_root v))) = Some realRoot"
    "prefix (segs realRoot) (segs (v_realHostPath v))" by blast
  moreover have "\<forall>pat \<in> set DEFAULT_BLOCKED_PATTERNS. \<not> sublist pat (v_realHostPath v)"
    using load_defaults(2) [OF assms(1) load l] none
    by (fastforce simp: has_defaults_def matchesBlockedPattern_None)
  ultimately show ?thesis using m load l real root(1) rw bm by (metis fst_conv)
qed

definition demo_host :: host_env where
  "demo_host = \<lparr>he_cwd = ''/srv/nc'', he_home = ''/home/u'',
     he_realpath = (\<lambda>p. if p = ''/home/u/projects'' then Some ''/data/projects''
                       else if p = ''/home/u/projects/app'' then Some ''/data/projects/app''
                       else if p = ''/srv/nc'' then Some ''/srv/nc'' else None),
     he_listPath = ''/home/u/.config/nanoclaw/mount-allowlist.json''\<rparr>"

definition demo_mount :: additional_mount where
  "demo_mount = \<lparr>am_hostPath = ''~/projects/app'', am_containerPath = None,
                 am_readonly = Some False\<rparr>"

definition demo_file :: list_file where
  "demo_file = \<lparr>lf_mtimeMs = 1, lf_content = Some generateAllowlistTemplate\<rparr>"

definition demo_bind :: bind_mount where
  "demo_bind = \<lparr>bm_hostPath = ''/data/projects/app'',
     bm_containerPath = ''/workspace/extra/app'', bm_readonly = False\<rparr>"

lemma demo_bind_passes:
  "fst (validateAdditionalMounts demo_host (Some demo_file) None [demo_mount]) = [demo_bind]"
  by code_simp

lemma demo_bind_mem:
  "demo_bind \<in> set (fst (validateAdditionalMounts demo_host (Some demo_file) None [demo_mount]))"
  unfolding demo_bind_passes by simp

lemma demo_realpath_canonical: "canonical_realpath demo_host"
proof -
  have "canonical ''/data/projects''" "canonical ''/data/projects/app''" "canonical ''/srv/nc''"
    by code_simp+
  then show ?thesis
    by (auto simp: canonical_realpath_def demo_host_def split: if_splits)
qed

theorem mounts_confined_witness:
  "\<exists>al root. fst (loadMountAllowlist demo_host (Some demo_file) None) = Some al \<and>
     root \<in> set (allowedRoots al) \<and> ar_allowReadWrite root \<and> \<not> bm_readonly demo_bind"
  using mounts_confined [OF cache_ok_None demo_realpath_canonical demo_bind_mem]
  by (auto simp: demo_bind_def)

text \<open>
  The path a mount gets inside the container stays under \<open>/workspace/extra\<close> after
  normalisation, and holds no colon that \<open>docker -v\<close> would read as a separator.
\<close>
theorem container_path_confined:
  assumes "bm \<in> set (fst (validateAdditionalMounts env file cache ms))"
  shows "prefix [''workspace'', ''extra''] (segs (bm_containerPath bm)) \<and>
         CHR '':'' \<notin> set (bm_containerPath bm) \<and> \<not> sublist ''..'' (bm_containerPath bm)"
proof -
  obtain al c where load: "loadMountAllowlist env file cache = (al, c)" by fastforce
  obtain m v where "validateMount_on env al m = Inr v" "bm = bind_of v"
    using validateAdditionalMounts_mem [OF load assms] by blast
  then show ?thesis
    using container_path_segs by (auto simp: bind_of_def elim: validateMount_on_Inr)
qed

theorem container_path_confined_witness:
  "prefix [''workspace'', ''extra''] (segs (bm_containerPath demo_bind))"
  using container_path_confined [OF demo_bind_mem] by blast

fun load_all :: "host_env \<Rightarrow> list_cache option \<Rightarrow> list_file option list \<Rightarrow> allowlist option list" where
  "load_all env cache [] = []"
| "load_all env cache (f # fs) =
     (let (al, cache') = loadMountAllowlist env f cache in al # load_all env cache' fs)"

definition load_fresh :: "list_file option \<Rightarrow> allowlist option" where
  "load_fresh file =
     (case file of
        None \<Rightarrow> None
      | Some f \<Rightarrow> (case parse_allowlist (lf_content f) of Inl _ \<Rightarrow> None | Inr al \<Rightarrow> Some al))"

definition mtimes_tell :: "list_file option list \<Rightarrow> bool" where
  "mtimes_tell fs \<longleftrightarrow>
     (\<forall>f g. Some f \<in> set fs \<longrightarrow> Some g \<in> set fs \<longrightarrow> lf_mtimeMs f = lf_mtimeMs g \<longrightarrow> lf_content f = lf_content g)"

lemma load_served:
  "fst (loadMountAllowlist env (Some f) (Some c)) =
     (if lc_path c = he_listPath env \<and> lc_mtimeMs c = lf_mtimeMs f then Some (lc_allowlist c)
      else load_fresh (Some f))"
  by (auto simp: loadMountAllowlist_def load_fresh_def Let_def split: sum.splits)

lemma load_missed:
  "\<not> (\<exists>f c. file = Some f \<and> cache = Some c \<and> lc_mtimeMs c = lf_mtimeMs f) \<Longrightarrow>
   fst (loadMountAllowlist env file cache) = load_fresh file"
  by (auto simp: loadMountAllowlist_def load_fresh_def Let_def
           split: option.splits sum.splits if_splits)

lemma load_stored:
  "loadMountAllowlist env file cache = (al, Some c) \<Longrightarrow> cache \<noteq> Some c \<Longrightarrow>
   \<exists>g. file = Some g \<and> lc_mtimeMs c = lf_mtimeMs g \<and> load_fresh (Some g) = Some (lc_allowlist c)"
  by (auto simp: loadMountAllowlist_def load_fresh_def Let_def
           split: option.splits sum.splits if_splits)

lemma load_all_fresh_from:
  assumes "\<And>c f. cache = Some c \<Longrightarrow> Some f \<in> set fs \<Longrightarrow> lc_mtimeMs c = lf_mtimeMs f \<Longrightarrow>
             load_fresh (Some f) = Some (lc_allowlist c)"
    and "mtimes_tell fs"
  shows "load_all env cache fs = map load_fresh fs"
  using assms
proof (induction fs arbitrary: cache)
  case (Cons fl fs)
  obtain al c1 where load: "loadMountAllowlist env fl cache = (al, c1)" by fastforce
  have now: "al = load_fresh fl"
  proof (cases "\<exists>f c. fl = Some f \<and> cache = Some c \<and> lc_mtimeMs c = lf_mtimeMs f")
    case True
    then obtain f c where fc: "fl = Some f" "cache = Some c" "lc_mtimeMs c = lf_mtimeMs f" by blast
    then have "load_fresh (Some f) = Some (lc_allowlist c)" using Cons.prems(1) by simp
    with load_served [of env f c] have "fst (loadMountAllowlist env fl cache) = load_fresh fl"
      unfolding fc by (simp only: if_cancel split: if_split)
    then show ?thesis unfolding load by simp
  next
    case False
    from load_missed [OF this, of env] load show ?thesis by (simp only: fst_conv)
  qed
  have "load_all env c1 fs = map load_fresh fs"
  proof (rule Cons.IH)
    show "mtimes_tell fs"
      using Cons.prems(2) unfolding mtimes_tell_def by (meson list.set_intros(2))
    show "load_fresh (Some f) = Some (lc_allowlist c)"
      if "c1 = Some c" "Some f \<in> set fs" "lc_mtimeMs c = lf_mtimeMs f" for c f
    proof (cases "c1 = cache")
      case True
      then show ?thesis using Cons.prems(1) that by simp
    next
      case False
      then obtain g where "fl = Some g" "lc_mtimeMs c = lf_mtimeMs g"
        "load_fresh (Some g) = Some (lc_allowlist c)"
        using load_stored [of env fl cache al c] load \<open>c1 = Some c\<close> False by auto
      moreover from this have "lf_content g = lf_content f"
        using Cons.prems(2) that(2,3) unfolding mtimes_tell_def
        by (metis list.set_intros(1,2))
      ultimately show ?thesis by (simp add: load_fresh_def)
    qed
  qed
  then show ?case using load now by simp
qed simp

text \<open>
  The cache never shows: over any sequence of loads in which files with the same
  modification time have the same content, every call returns what parsing the file afresh
  returns, a broken file in between included.
\<close>
theorem allowlist_cache_transparent:
  "mtimes_tell fs \<Longrightarrow> load_all env None fs = map load_fresh fs"
  by (rule load_all_fresh_from) auto

theorem allowlist_cache_transparent_witness:
  "load_all demo_host None [Some demo_file, None, Some \<lparr>lf_mtimeMs = 2, lf_content = Some (Raw ''x'')\<rparr>,
       Some demo_file] =
     map load_fresh [Some demo_file, None, Some \<lparr>lf_mtimeMs = 2, lf_content = Some (Raw ''x'')\<rparr>,
       Some demo_file]"
  by (rule allowlist_cache_transparent) (auto simp: mtimes_tell_def demo_file_def)

lemma root_contains_iff_lemma:
  assumes "canonical_realpath env" "is_absolute (he_cwd env)" "canonical p"
    and "getRealPath env (expandPath env (ar_path root)) = Some r"
  shows "root_contains env p root \<longleftrightarrow>
     (\<exists>rest. segs p = segs r @ rest \<and> (rest = [] \<or> \<not> prefix ''..'' (hd rest)))"
proof -
  let ?rel = "path_relative (he_cwd env) r p"
  have r: "path_resolve (he_cwd env) r = r" and p: "path_resolve (he_cwd env) p = p"
    using assms(1,3,4)
    by (auto simp: canonical_realpath_def getRealPath_def path_resolve_of_canonical)
  have unfold: "root_contains env p root \<longleftrightarrow> \<not> prefix ''..'' ?rel \<and> \<not> is_absolute ?rel"
    using assms(4) by (simp add: root_contains_def Let_def)
  show ?thesis
  proof (cases "\<exists>rest. segs p = segs r @ rest")
    case False
    then have "prefix ''..'' ?rel"
      using path_relative_inside [of "he_cwd env" r p] r p by (auto simp: prefix_def)
    then show ?thesis using False unfold by auto
  next
    case True
    then obtain rest where rest: "segs p = segs r @ rest" by blast
    show ?thesis
    proof (cases rest)
      case Nil
      then have "?rel = []" using path_relative_same [of "he_cwd env" p r] rest r p by simp
      then show ?thesis using unfold rest Nil by (simp add: is_absolute_def)
    next
      case (Cons w ws)
      then show ?thesis
        using path_relative_below [OF assms(2), of p r w ws] rest r p unfold by simp
    qed
  qed
qed

text \<open>
  Which directories a root admits, exactly: those at or below the root's real path whose
  first segment below it does not begin with two dots.  (A directory named like \<open>..cache\<close>
  under a root is refused although it lies inside it.)
\<close>
theorem root_contains_iff:
  assumes "canonical_realpath env" "is_absolute (he_cwd env)" "canonical p"
    and "getRealPath env (expandPath env (ar_path root)) = Some r"
  shows "root_contains env p root \<longleftrightarrow>
     (\<exists>rest. segs p = segs r @ rest \<and> (rest = [] \<or> \<not> prefix ''..'' (hd rest)))"
  using assms by (rule root_contains_iff_lemma)

definition demo_root :: allowed_root where
  "demo_root = \<lparr>ar_path = ''~/projects'', ar_allowReadWrite = True, ar_description = None\<rparr>"

theorem root_contains_iff_witness:
  "\<not> root_contains demo_host ''/data/projects/..cache'' demo_root"
proof -
  have "is_absolute (he_cwd demo_host)" "canonical ''/data/projects/..cache''"
    "getRealPath demo_host (expandPath demo_host (ar_path demo_root)) = Some ''/data/projects''"
    by code_simp+
  note root_contains_iff [OF demo_realpath_canonical this]
  moreover have "segs ''/data/projects/..cache'' = [''data'', ''projects'', ''..cache'']"
    and "segs ''/data/projects'' = [''data'', ''projects'']" by code_simp+
  ultimately show ?thesis by auto
qed

text \<open>
  A root entry without a \<open>path\<close> string is not rejected: it stands for the empty path,
  which resolves to the working directory of the host, so the host's own checkout is an
  allowed root, writable if the entry says so.
\<close>
theorem pathless_root_admits_cwd:
  assumes "normalizeRoot root = Inr r" "js_get root ''path'' = Inr p" "js_str p = None"
    and "canonical_realpath env" "canonical (he_cwd env)"
    and "he_realpath env (he_cwd env) = Some (he_cwd env)"
  shows "root_contains env (he_cwd env) r"
proof -
  have "ar_path r = []" using assms(1,2,3) by (auto simp: normalizeRoot_def Let_def)
  then have "expandPath env (ar_path r) = he_cwd env"
    using assms(5) by (auto simp: expandPath_def path_resolve_def Let_def canonical_def)
  then have "getRealPath env (expandPath env (ar_path r)) = Some (he_cwd env)"
    using assms(6) by (simp add: getRealPath_def)
  moreover have "is_absolute (he_cwd env)" using assms(5) by (simp add: canonical_def)
  ultimately show ?thesis
    using root_contains_iff_lemma [OF assms(4) _ assms(5)] by auto
qed

theorem pathless_root_admits_cwd_witness:
  "root_contains demo_host ''/srv/nc''
     \<lparr>ar_path = [], ar_allowReadWrite = True, ar_description = None\<rparr>"
proof -
  have n: "normalizeRoot (JObj [(''allowReadWrite'', JBool True)]) =
      Inr \<lparr>ar_path = [], ar_allowReadWrite = True, ar_description = None\<rparr>"
    and g: "js_get (JObj [(''allowReadWrite'', JBool True)]) ''path'' = Inr JUndefined"
    and s: "js_str JUndefined = None"
    and c: "canonical (he_cwd demo_host)"
    and r: "he_realpath demo_host (he_cwd demo_host) = Some (he_cwd demo_host)"
    by code_simp+
  show ?thesis
    using pathless_root_admits_cwd [OF n g s demo_realpath_canonical c r]
    by (simp add: demo_host_def)
qed

end
