(* ===== verification/Types.thy ===== *)
theory Types
  imports Prelude
begin

text \<open>
  The rows of the central database (\<open>src/types.ts\<close>).  A nullable column is an option; a JSON
  column is a \<open>jtext\<close>; an ISO timestamp column is a \<open>stamp\<close>; a 0/1 column is a \<open>bool\<close>.
  Field names are the columns', with the entity's initials in front.
\<close>

record agent_group =
  ag_id :: string
  ag_name :: string
  ag_folder :: string
  ag_agent_provider :: "string option"
  ag_created_at :: stamp

datatype unknown_sender_policy = Strict | RequestApproval | DeclineNotify | Public

record messaging_group =
  mg_id :: string
  mg_channel_type :: string
  mg_platform_id :: string
  mg_instance :: string
  mg_name :: "string option"
  mg_is_group :: bool
  mg_unknown_sender_policy :: unknown_sender_policy
  mg_denied_at :: "stamp option"
  mg_detached_at :: "stamp option"
  mg_created_at :: stamp

record user =
  u_id :: string
  u_kind :: string
  u_display_name :: "string option"
  u_created_at :: stamp

datatype user_role_kind = Owner | Admin

record user_role =
  ur_user_id :: string
  ur_role :: user_role_kind
  ur_agent_group_id :: "string option"
  ur_granted_by :: "string option"
  ur_granted_at :: stamp

record agent_group_member =
  gm_user_id :: string
  gm_agent_group_id :: string
  gm_added_by :: "string option"
  gm_added_at :: stamp

record user_dm =
  dm_user_id :: string
  dm_channel_type :: string
  dm_messaging_group_id :: string
  dm_resolved_at :: stamp

datatype engage_mode = Pattern | Mention | MentionSticky
datatype sender_scope = AllSenders | KnownSenders
datatype ignored_message_policy = Drop | Accumulate
datatype session_mode = Shared | PerThread | AgentShared

record messaging_group_agent =
  ma_id :: string
  ma_messaging_group_id :: string
  ma_agent_group_id :: string
  ma_engage_mode :: engage_mode
  ma_engage_pattern :: "string option"
  ma_sender_scope :: sender_scope
  ma_ignored_message_policy :: ignored_message_policy
  ma_session_mode :: session_mode
  ma_priority :: int
  ma_threads :: "bool option"
  ma_created_at :: stamp

datatype session_status = Active | Closed
datatype container_status = Running | Idle | Stopped

record session_row =
  s_id :: string
  s_agent_group_id :: string
  s_messaging_group_id :: "string option"
  s_thread_id :: "string option"
  s_agent_provider :: "string option"
  s_status :: session_status
  s_container_status :: container_status
  s_last_active :: "stamp option"
  s_created_at :: stamp

text \<open>\<open>SELECT * FROM sessions WHERE id = ?\<close> (\<open>src/db/sessions.ts\<close>).\<close>

definition getSession :: "string \<Rightarrow> session_row list \<Rightarrow> session_row option" where
  "getSession i rows = find (\<lambda>r. s_id r = i) rows"

datatype approval_status = Pending | Approved | Rejected | Expired | AwaitingReason

record pending_approval =
  pa_approval_id :: string
  pa_session_id :: "string option"
  pa_request_id :: string
  pa_action :: string
  pa_payload :: jtext
  pa_created_at :: stamp
  pa_agent_group_id :: "string option"
  pa_channel_type :: "string option"
  pa_platform_id :: "string option"
  pa_instance :: "string option"
  pa_platform_message_id :: "string option"
  pa_expires_at :: "stamp option"
  pa_status :: approval_status
  pa_title :: string
  pa_question :: string
  pa_options_json :: jtext
  pa_approver_user_id :: "string option"

record pending_question =
  pq_question_id :: string
  pq_session_id :: string
  pq_message_out_id :: string
  pq_platform_id :: "string option"
  pq_channel_type :: "string option"
  pq_thread_id :: "string option"
  pq_title :: string
  pq_options :: js
  pq_created_at :: stamp

datatype destination_target = ToChannel | ToAgent

record agent_destination =
  ad_agent_group_id :: string
  ad_local_name :: string
  ad_target_type :: destination_target
  ad_target_id :: string
  ad_created_at :: stamp

record agent_message_policy =
  mp_from_agent_group_id :: string
  mp_to_agent_group_id :: string
  mp_approver :: string
  mp_created_at :: stamp

text \<open>\<open>ContainerConfigRow\<close>; the tier is a column that only some deployments have.\<close>

record container_config =
  kc_agent_group_id :: string
  kc_provider :: "string option"
  kc_model :: "string option"
  kc_effort :: "string option"
  kc_image_tag :: "string option"
  kc_assistant_name :: "string option"
  kc_max_messages_per_prompt :: "int option"
  kc_skills :: jtext
  kc_mcp_servers :: jtext
  kc_packages_apt :: jtext
  kc_packages_npm :: jtext
  kc_additional_mounts :: jtext
  kc_cli_scope :: string
  kc_timezone :: "string option"
  kc_runtime_tier :: "string option"
  kc_updated_at :: stamp

subsection \<open>Events and cards\<close>

text \<open>
  An inbound event (\<open>src/channels/adapter.ts\<close>), and what the host hands to a delivery adapter.
\<close>

record delivery_address =
  da_channelType :: string
  da_platformId :: string
  da_threadId :: "string option"

record inbound_message =
  im_id :: string
  im_kind :: string
  im_content :: jtext
  im_timestamp :: stamp
  im_isMention :: "bool option"
  im_isGroup :: "bool option"

record inbound_event =
  ie_channelType :: string
  ie_instance :: "string option"
  ie_platformId :: string
  ie_threadId :: "string option"
  ie_message :: inbound_message
  ie_replyTo :: "delivery_address option"

record outgoing =
  og_channelType :: string
  og_platformId :: string
  og_instance :: "string option"
  og_content :: js

text \<open>The answer to a card (\<open>src/response-registry.ts\<close>).\<close>

record response_payload =
  rp_questionId :: string
  rp_value :: string
  rp_userId :: "string option"
  rp_channelType :: string
  rp_platformId :: string
  rp_threadId :: "string option"

text \<open>Options of a card (\<open>src/channels/ask-question.ts\<close>).\<close>

datatype raw_option = Bare string | Opt string "string option" "string option" "string option"

fun normalizeOption :: "raw_option \<Rightarrow> js" where
  "normalizeOption (Bare s) = JObj [(''label'', JStr s), (''selectedLabel'', JStr s), (''value'', JStr s)]"
| "normalizeOption (Opt label sel val sty) =
     JObj [(''label'', JStr label),
           (''selectedLabel'', JStr (case sel of Some s \<Rightarrow> s | None \<Rightarrow> label)),
           (''value'', JStr (case val of Some s \<Rightarrow> s | None \<Rightarrow> label)),
           (''style'', case sty of Some s \<Rightarrow> if s \<in> {''primary'', ''danger'', ''default''} then JStr s else JUndefined
                                 | None \<Rightarrow> JUndefined)]"

definition normalizeOptions :: "raw_option list \<Rightarrow> js" where
  "normalizeOptions raws = JArr (map normalizeOption raws)"

fun raw_option_js :: "raw_option \<Rightarrow> js" where
  "raw_option_js (Bare s) = JStr s"
| "raw_option_js (Opt label sel val sty) =
     JObj ((''label'', JStr label) #
           (case sel of Some s \<Rightarrow> [(''selectedLabel'', JStr s)] | None \<Rightarrow> []) @
           (case val of Some s \<Rightarrow> [(''value'', JStr s)] | None \<Rightarrow> []) @
           (case sty of Some s \<Rightarrow> [(''style'', JStr s)] | None \<Rightarrow> []))"

definition ask_question :: "string \<Rightarrow> string \<Rightarrow> string \<Rightarrow> js \<Rightarrow> js" where
  "ask_question qid title question options =
     JObj [(''type'', JStr ''ask_question''), (''questionId'', JStr qid), (''title'', JStr title),
           (''question'', JStr question), (''options'', options)]"

end
