(* ===== verification/ApprovalStore.thy ===== *)
theory ApprovalStore
  imports Types
begin

text \<open>
  The \<open>pending_approvals\<close> and \<open>pending_questions\<close> tables (\<open>src/db/sessions.ts\<close>).  The locale
  \<open>approval_store\<close> is what the guard, the approval handlers and the sweep rely on: a keyed
  store whose status changes are compare-and-set.  What is proved in it: of any interleaved
  attempts to resolve one approval, at most one wins.
\<close>

subsection \<open>Pending questions\<close>

definition createPendingQuestion ::
    "pending_question \<Rightarrow> pending_question list \<Rightarrow> bool \<times> pending_question list" where
  "createPendingQuestion pq rows =
     (if \<exists>r \<in> set rows. pq_question_id r = pq_question_id pq then (False, rows)
      else (True, rows @ [pq]))"

definition getPendingQuestion :: "string \<Rightarrow> pending_question list \<Rightarrow> pending_question option" where
  "getPendingQuestion qid rows = find (\<lambda>r. pq_question_id r = qid) rows"

definition deletePendingQuestion :: "string \<Rightarrow> pending_question list \<Rightarrow> pending_question list" where
  "deletePendingQuestion qid = delete_where (\<lambda>r. pq_question_id r = qid)"

subsection \<open>Pending approvals\<close>

text \<open>The defaults \<open>createPendingApproval\<close> spreads under the caller's fields.\<close>

definition approval_defaults ::
    "string \<Rightarrow> string \<Rightarrow> string \<Rightarrow> jtext \<Rightarrow> stamp \<Rightarrow> string \<Rightarrow> jtext \<Rightarrow> pending_approval" where
  "approval_defaults aid rid action payload created title options =
     \<lparr>pa_approval_id = aid, pa_session_id = None, pa_request_id = rid, pa_action = action,
      pa_payload = payload, pa_created_at = created, pa_agent_group_id = None,
      pa_channel_type = None, pa_platform_id = None, pa_instance = None,
      pa_platform_message_id = None, pa_expires_at = None, pa_status = Pending,
      pa_title = title, pa_question = [], pa_options_json = options, pa_approver_user_id = None\<rparr>"

definition createPendingApproval ::
    "pending_approval \<Rightarrow> pending_approval list \<Rightarrow> bool \<times> pending_approval list" where
  "createPendingApproval pa rows =
     (if \<exists>r \<in> set rows. pa_approval_id r = pa_approval_id pa then (False, rows)
      else (True, rows @ [pa]))"

definition setPendingApprovalPlatformMessageId ::
    "string \<Rightarrow> string \<Rightarrow> pending_approval list \<Rightarrow> pending_approval list" where
  "setPendingApprovalPlatformMessageId aid mid =
     update_where (\<lambda>r. pa_approval_id r = aid) (\<lambda>r. r\<lparr>pa_platform_message_id := Some mid\<rparr>)"

definition getPendingApproval :: "string \<Rightarrow> pending_approval list \<Rightarrow> pending_approval option" where
  "getPendingApproval aid rows = find (\<lambda>r. pa_approval_id r = aid) rows"

definition transitionPendingApprovalStatus ::
    "string \<Rightarrow> approval_status \<Rightarrow> approval_status \<Rightarrow> pending_approval list
       \<Rightarrow> bool \<times> pending_approval list" where
  "transitionPendingApprovalStatus aid expected st rows =
     (let p = (\<lambda>r. pa_approval_id r = aid \<and> pa_status r = expected)
      in (0 < changes p rows, update_where p (\<lambda>r. r\<lparr>pa_status := st\<rparr>) rows))"

definition markApprovalAwaitingReason ::
    "string \<Rightarrow> stamp \<Rightarrow> pending_approval list \<Rightarrow> bool \<times> pending_approval list" where
  "markApprovalAwaitingReason aid expiresAt rows =
     (let p = (\<lambda>r. pa_approval_id r = aid \<and> pa_status r = Pending)
      in (0 < changes p rows,
          update_where p (\<lambda>r. r\<lparr>pa_status := AwaitingReason, pa_expires_at := Some expiresAt\<rparr>) rows))"

text \<open>Both sides of \<open>expires_at <= ?\<close> are \<open>toISOString\<close> texts; any other text is compared as such
  by SQLite and is taken not to be expired here.\<close>

definition getExpiredAwaitingReasonApprovals ::
    "int \<Rightarrow> pending_approval list \<Rightarrow> pending_approval list" where
  "getExpiredAwaitingReasonApprovals now rows =
     filter (\<lambda>r. pa_status r = AwaitingReason \<and>
                 (case pa_expires_at r of Some (Iso t) \<Rightarrow> t \<le> now | _ \<Rightarrow> False)) rows"

definition deletePendingApproval :: "string \<Rightarrow> pending_approval list \<Rightarrow> pending_approval list" where
  "deletePendingApproval aid = delete_where (\<lambda>r. pa_approval_id r = aid)"

definition getPendingApprovalsByAction ::
    "string \<Rightarrow> pending_approval list \<Rightarrow> pending_approval list" where
  "getPendingApprovalsByAction action rows = filter (\<lambda>r. pa_action r = action) rows"

subsection \<open>The store as an interface\<close>

text \<open>
  A claimant of an approval: the status it expects and the one it sets.  \<open>run_claims\<close> is any
  sequence of such claims on one approval, with the answer each got.
\<close>

fun run_claims ::
    "('k \<Rightarrow> approval_status \<Rightarrow> approval_status \<Rightarrow> 'st \<Rightarrow> bool \<times> 'st) \<Rightarrow> 'k
       \<Rightarrow> (approval_status \<times> approval_status) list \<Rightarrow> 'st \<Rightarrow> bool list \<times> 'st" where
  "run_claims transition k [] st = ([], st)"
| "run_claims transition k ((e, t) # cs) st =
     (let (won, st') = transition k e t st; (rest, st'') = run_claims transition k cs st'
      in (won # rest, st''))"

locale approval_store =
  fixes get :: "'k \<Rightarrow> 'st \<Rightarrow> 'row option"
    and transition :: "'k \<Rightarrow> approval_status \<Rightarrow> approval_status \<Rightarrow> 'st \<Rightarrow> bool \<times> 'st"
    and delete :: "'k \<Rightarrow> 'st \<Rightarrow> 'st"
    and status :: "'row \<Rightarrow> approval_status"
    and set_status :: "approval_status \<Rightarrow> 'row \<Rightarrow> 'row"
    and inv :: "'st \<Rightarrow> bool"
  assumes status_set: "status (set_status t r) = t"
    and transition_won: "inv st \<Longrightarrow> fst (transition k e t st) \<longleftrightarrow> (\<exists>r. get k st = Some r \<and> status r = e)"
    and get_transition: "inv st \<Longrightarrow> get k' (snd (transition k e t st)) =
          (if k' = k then map_option (\<lambda>r. if status r = e then set_status t r else r) (get k st)
           else get k' st)"
    and get_delete: "inv st \<Longrightarrow> get k' (delete k st) = (if k' = k then None else get k' st)"
    and inv_transition: "inv st \<Longrightarrow> inv (snd (transition k e t st))"
    and inv_delete: "inv st \<Longrightarrow> inv (delete k st)"
begin

lemma no_win_elsewhere:
  assumes "inv st" "\<forall>r. get k st = Some r \<longrightarrow> status r \<noteq> e" "\<forall>(e', t) \<in> set cs. e' = e \<and> t \<noteq> e"
  shows "True \<notin> set (fst (run_claims transition k cs st))"
  using assms
proof (induction cs arbitrary: st)
  case (Cons c cs)
  obtain t where c: "c = (e, t)" "t \<noteq> e" using Cons.prems(3) by (cases c) auto
  obtain won st' where tr: "transition k e t st = (won, st')" by fastforce
  have "\<not> won" using transition_won [OF Cons.prems(1), of k e t] Cons.prems(2) tr by auto
  moreover have "True \<notin> set (fst (run_claims transition k cs st'))"
  proof (rule Cons.IH)
    show "inv st'" using inv_transition [OF Cons.prems(1), of k e t] tr by simp
    show "\<forall>r. get k st' = Some r \<longrightarrow> status r \<noteq> e"
      using get_transition [OF Cons.prems(1), of k k e t] Cons.prems(2) tr by auto
    show "\<forall>(e', t) \<in> set cs. e' = e \<and> t \<noteq> e" using Cons.prems(3) by auto
  qed
  ultimately show ?case using tr c by (auto split: prod.splits)
qed simp

lemma one_winner:
  assumes "inv st" "\<forall>(e', t) \<in> set cs. e' = e \<and> t \<noteq> e"
  shows "length (filter id (fst (run_claims transition k cs st))) \<le> 1"
  using assms
proof (induction cs arbitrary: st)
  case (Cons c cs)
  obtain t where c: "c = (e, t)" "t \<noteq> e" using Cons.prems(2) by (cases c) auto
  obtain won st' where tr: "transition k e t st = (won, st')" by fastforce
  obtain rest st'' where rest: "run_claims transition k cs st' = (rest, st'')" by fastforce
  have inv': "inv st'" using inv_transition [OF Cons.prems(1), of k e t] tr by simp
  have cs: "\<forall>(e', t) \<in> set cs. e' = e \<and> t \<noteq> e" using Cons.prems(2) by auto
  have run: "fst (run_claims transition k (c # cs) st) = won # rest"
    using tr rest c by simp
  show ?case
  proof (cases won)
    case False
    then show ?thesis unfolding run using Cons.IH [OF inv' cs] rest by simp
  next
    case True
    then obtain r where "get k st = Some r" "status r = e"
      using transition_won [OF Cons.prems(1), of k e t] tr by auto
    then have "get k st' = Some (set_status t r)"
      using get_transition [OF Cons.prems(1), of k k e t] tr by simp
    then have "\<forall>r. get k st' = Some r \<longrightarrow> status r \<noteq> e" using c status_set by auto
    then have "True \<notin> set rest"
      using no_win_elsewhere [OF inv' _ cs, of k] rest by auto
    then have "filter id rest = []" by (metis (full_types) filter_False id_apply)
    then show ?thesis unfolding run using True by (simp add: id_def)
  qed
qed simp

end

subsection \<open>The tables implement it\<close>

definition approvals_ok :: "pending_approval list \<Rightarrow> bool" where
  "approvals_ok rows \<longleftrightarrow> distinct (map pa_approval_id rows)"

lemma approvals_ok_Nil [simp, inv_intros]: "approvals_ok []"
  by (simp add: approvals_ok_def)

lemma approvals_ok_create [inv_intros]:
  "approvals_ok rows \<Longrightarrow> approvals_ok (snd (createPendingApproval pa rows))"
  by (auto simp: approvals_ok_def createPendingApproval_def)

lemma approvals_ok_update [inv_intros]:
  "approvals_ok rows \<Longrightarrow> (\<And>r. p r \<Longrightarrow> pa_approval_id (f r) = pa_approval_id r) \<Longrightarrow>
   approvals_ok (update_where p f rows)"
  by (simp add: approvals_ok_def map_update_where)

lemma approvals_ok_delete [inv_intros]:
  "approvals_ok rows \<Longrightarrow> approvals_ok (deletePendingApproval k rows)"
  by (simp add: approvals_ok_def deletePendingApproval_def distinct_delete_where)

lemma get_create:
  "getPendingApproval k (snd (createPendingApproval pa rows)) =
     (if k = pa_approval_id pa \<and> getPendingApproval k rows = None then Some pa
      else getPendingApproval k rows)"
proof -
  have "(\<exists>r \<in> set rows. pa_approval_id r = pa_approval_id pa) \<longleftrightarrow>
        getPendingApproval (pa_approval_id pa) rows \<noteq> None"
    by (auto simp: getPendingApproval_def find_None_ex)
  then show ?thesis
    by (auto simp: createPendingApproval_def getPendingApproval_def find_append
             split: option.splits)
qed

lemma get_deletePendingApproval:
  "getPendingApproval k' (deletePendingApproval k rows) =
     (if k' = k then None else getPendingApproval k' rows)"
  by (simp add: getPendingApproval_def deletePendingApproval_def find_delete_where)

lemma get_update_key:
  assumes "\<And>r. p r \<Longrightarrow> pa_approval_id (f r) = pa_approval_id r" "\<And>r. p r \<Longrightarrow> pa_approval_id r = k"
  shows "getPendingApproval k' (update_where p f rows) =
     (if k' = k then map_option (\<lambda>r. if p r then f r else r) (getPendingApproval k rows)
      else getPendingApproval k' rows)"
proof (cases "k' = k")
  case True
  then show ?thesis using assms(1) by (simp add: getPendingApproval_def find_update_where)
next
  case False
  have "map_option (\<lambda>r. if p r then f r else r) (find (\<lambda>r. pa_approval_id r = k') rows) =
        find (\<lambda>r. pa_approval_id r = k') rows"
    using assms(2) False
    by (cases "find (\<lambda>r. pa_approval_id r = k') rows") (auto dest: find_SomeD)
  then show ?thesis using assms(1) False by (simp add: getPendingApproval_def find_update_where)
qed

lemma approval_row_iff:
  "approvals_ok rows \<Longrightarrow>
   (\<exists>r \<in> set rows. pa_approval_id r = k \<and> P r) \<longleftrightarrow> (\<exists>r. getPendingApproval k rows = Some r \<and> P r)"
  unfolding getPendingApproval_def approvals_ok_def by (rule find_key_ex)

interpretation approvals: approval_store getPendingApproval transitionPendingApprovalStatus
    deletePendingApproval pa_status "\<lambda>t r. r\<lparr>pa_status := t\<rparr>" approvals_ok
proof (unfold_locales, goal_cases)
  case (2 st k e t)
  then show ?case
    by (simp add: transitionPendingApprovalStatus_def Let_def changes_pos approval_row_iff)
next
  case (3 st k' k e t)
  have "getPendingApproval k st = Some r \<Longrightarrow> pa_approval_id r = k" for r
    by (auto simp: getPendingApproval_def dest: find_SomeD)
  moreover have "getPendingApproval k' (snd (transitionPendingApprovalStatus k e t st)) =
     (if k' = k
      then map_option (\<lambda>r. if pa_approval_id r = k \<and> pa_status r = e then r\<lparr>pa_status := t\<rparr> else r)
             (getPendingApproval k st)
      else getPendingApproval k' st)"
    unfolding transitionPendingApprovalStatus_def Let_def snd_conv
    by (rule get_update_key) auto
  ultimately show ?case by (cases "getPendingApproval k st") auto
next
  case (5 st k e t)
  then show ?case
    by (auto simp: transitionPendingApprovalStatus_def Let_def intro: approvals_ok_update)
qed (auto simp: get_deletePendingApproval approvals_ok_delete)

subsection \<open>Properties\<close>

text \<open>
  Whatever the interleaving of clicks, of any number of handlers that each claim an
  approval with \<open>transitionPendingApprovalStatus(id, 'pending', t)\<close> at most one is told that it
  changed the row.
\<close>
theorem approval_claimed_once:
  assumes "approvals_ok rows" "\<forall>(e, t) \<in> set cs. e = Pending \<and> t \<noteq> Pending"
  shows "length (filter id (fst (run_claims transitionPendingApprovalStatus k cs rows))) \<le> 1"
  using assms by (rule approvals.one_winner)

definition demo_approval :: pending_approval where
  "demo_approval = approval_defaults ''appr-1'' ''req-1'' ''install_packages'' (Json (JObj []))
     (Iso 1000) ''Install'' (Json (JArr []))"

theorem approval_claimed_once_witness:
  "fst (run_claims transitionPendingApprovalStatus ''appr-1''
      [(Pending, Approved), (Pending, Rejected)] [demo_approval]) = [True, False] \<and>
   length (filter id (fst (run_claims transitionPendingApprovalStatus ''appr-1''
      [(Pending, Approved), (Pending, Rejected)] [demo_approval]))) \<le> 1"
proof
  show "fst (run_claims transitionPendingApprovalStatus ''appr-1''
      [(Pending, Approved), (Pending, Rejected)] [demo_approval]) = [True, False]" by code_simp
  show "length (filter id (fst (run_claims transitionPendingApprovalStatus ''appr-1''
      [(Pending, Approved), (Pending, Rejected)] [demo_approval]))) \<le> 1"
    by (rule approval_claimed_once) (auto simp: approvals_ok_def)
qed

end
