(* ===== verification/Guard.thy ===== *)
theory Guard
  imports ApprovalStore
begin

text \<open>
  The decision seam of every privileged action (\<open>src/guard/types.ts\<close>, \<open>guard-actions.ts\<close>,
  \<open>guard.ts\<close>).  A \<open>decide\<close> function reads the database and may throw, so it is a function of
  the database state with a result in \<open>res\<close>; \<open>getPendingApproval\<close> is the live lookup.  The
  identity of the frozen object that \<open>defineGuardedAction\<close> mints is a number, and \<open>minted\<close>
  (a \<open>WeakSet\<close>) the list of the numbers minted so far.
\<close>

subsection \<open>Vocabulary\<close>

datatype guard_actor =
    HostActor
  | AgentActor string "string option"
  | HumanActor string
  | SystemActor

record guard_input =
  gi_actor :: guard_actor
  gi_resource :: "string \<Rightarrow> string option"
  gi_payload :: "(string \<times> js) list"
  gi_grant :: "pending_approval option"

datatype guard_decision =
    ALLOW string
  | HOLD string "string option"
  | DENY string

datatype effect = Allow | Hold | Deny

fun effect_of :: "guard_decision \<Rightarrow> effect" where
  "effect_of (ALLOW _) = Allow"
| "effect_of (HOLD _ _) = Hold"
| "effect_of (DENY _) = Deny"

text \<open>Effects are ordered by strictness.\<close>

fun strictness :: "effect \<Rightarrow> nat" where
  "strictness Allow = 0"
| "strictness Hold = 1"
| "strictness Deny = 2"

instantiation effect :: linorder
begin

definition less_eq_effect :: "effect \<Rightarrow> effect \<Rightarrow> bool" where
  "less_eq_effect a b = (strictness a \<le> strictness b)"

definition less_effect :: "effect \<Rightarrow> effect \<Rightarrow> bool" where
  "less_effect a b = (strictness a < strictness b)"

instance
proof
  fix a b :: effect
  show "a \<le> b \<Longrightarrow> b \<le> a \<Longrightarrow> a = b"
    by (cases a; cases b) (auto simp: less_eq_effect_def)
qed (auto simp: less_eq_effect_def less_effect_def)

end

text \<open>A registration that needs no guard names its reason; the brand is the constructor.\<close>

datatype 'a guard_declaration = Declared 'a | Unguarded string

fun isUnguarded :: "'a guard_declaration \<Rightarrow> bool" where
  "isUnguarded (Unguarded _) = True"
| "isUnguarded (Declared _) = False"

subsection \<open>The catalog\<close>

record 'db guarded_action_spec =
  ga_action :: string
  ga_decide :: "'db \<Rightarrow> guard_input \<Rightarrow> guard_decision res"
  ga_grantActionName :: "string option"
  ga_grantCoversRequest :: "(pending_approval \<Rightarrow> guard_input \<Rightarrow> bool res) option"

record 'db guarded_action = "'db guarded_action_spec" +
  ga_object :: nat

record 'db catalog =
  cat_defined :: "(string \<times> 'db guarded_action) list"
  cat_minted :: "nat list"

definition empty_catalog :: "'db catalog" where
  "empty_catalog = \<lparr>cat_defined = [], cat_minted = []\<rparr>"

definition fresh_object :: "nat list \<Rightarrow> nat" where
  "fresh_object xs = Suc (fold max xs 0)"

definition defineGuardedAction ::
    "'db guarded_action_spec \<Rightarrow> 'db catalog \<Rightarrow> exn + 'db guarded_action \<times> 'db catalog" where
  "defineGuardedAction spec cat =
     (if map_of (cat_defined cat) (ga_action spec) \<noteq> None
      then Inl (Error (''guarded action \"'' @ ga_action spec @ ''\" is already defined '' @ emdash @
                       '' action names are the catalog key''))
      else let obj = fresh_object (cat_minted cat);
               def = guarded_action_spec.extend spec (guarded_action.fields obj)
           in Inr (def, \<lparr>cat_defined = cat_defined cat @ [(ga_action spec, def)],
                         cat_minted = obj # cat_minted cat\<rparr>))"

definition isGuardedAction :: "'db catalog \<Rightarrow> 'db guarded_action \<Rightarrow> bool" where
  "isGuardedAction cat a = (ga_object a \<in> set (cat_minted cat))"

subsection \<open>The decision\<close>

definition grantSatisfies ::
    "(string \<Rightarrow> pending_approval option) \<Rightarrow> 'db guarded_action \<Rightarrow> guard_input \<Rightarrow> bool res" where
  "grantSatisfies live action inp =
     (case (gi_grant inp, ga_grantActionName action) of
        (Some grant, Some name) \<Rightarrow>
          (if name = [] then Inr False
           else if pa_action grant \<noteq> name then Inr False
           else case live (pa_approval_id grant) of
                  None \<Rightarrow> Inr False
                | Some row \<Rightarrow>
                   (if pa_action row \<noteq> name then Inr False
                    else case ga_grantCoversRequest action of
                           None \<Rightarrow> Inr True
                         | Some covers \<Rightarrow> covers grant inp))
      | _ \<Rightarrow> Inr False)"

definition guard ::
    "'db catalog \<Rightarrow> (string \<Rightarrow> pending_approval option) \<Rightarrow> 'db
       \<Rightarrow> 'db guarded_action \<Rightarrow> guard_input \<Rightarrow> guard_decision res" where
  "guard cat live db action inp =
     (if \<not> isGuardedAction cat action
      then Inr (DENY ''guard consulted with an undefined action (failing closed)'')
      else case ga_decide action db inp of
             Inl _ \<Rightarrow> Inr (DENY ''guard failure (failing closed)'')
           | Inr d \<Rightarrow>
              (case gi_grant inp of
                 None \<Rightarrow> Inr d
               | Some grant \<Rightarrow>
                  (if effect_of d \<noteq> Hold then Inr d
                   else case grantSatisfies live action inp of
                          Inl e \<Rightarrow> Inl e
                        | Inr True \<Rightarrow>
                            Inr (ALLOW (''hold satisfied by approval '' @ pa_approval_id grant))
                        | Inr False \<Rightarrow>
                            Inr (DENY ''replay carried an invalid or mismatched grant''))))"

subsection \<open>The catalog keeps names and objects apart\<close>

definition catalog_ok :: "'db catalog \<Rightarrow> bool" where
  "catalog_ok cat \<longleftrightarrow>
     distinct (map fst (cat_defined cat)) \<and>
     distinct (map (ga_object \<circ> snd) (cat_defined cat)) \<and>
     (\<forall>(n, a) \<in> set (cat_defined cat). ga_action a = n) \<and>
     set (cat_minted cat) = ga_object ` snd ` set (cat_defined cat)"

lemma fold_max_ge: "m \<le> fold max xs (m :: nat)"
  by (induction xs arbitrary: m) (auto intro: order_trans [OF max.cobounded2])

lemma fold_max_mem: "x \<in> set xs \<Longrightarrow> x \<le> fold max xs (m :: nat)"
proof (induction xs arbitrary: m)
  case (Cons y ys)
  show ?case
  proof (cases "x = y")
    case True
    then show ?thesis using fold_max_ge [of "max y m" ys] by simp
  next
    case False
    then show ?thesis using Cons by simp
  qed
qed simp

lemma fresh_object_new: "fresh_object xs \<notin> set xs"
  using fold_max_mem [of "fresh_object xs" xs 0] by (auto simp: fresh_object_def)

lemma defineGuardedAction_Inr:
  assumes "defineGuardedAction spec cat = Inr (a, cat')"
  shows "ga_action a = ga_action spec" "ga_decide a = ga_decide spec"
    "ga_grantActionName a = ga_grantActionName spec"
    "ga_grantCoversRequest a = ga_grantCoversRequest spec"
    "isGuardedAction cat' a" "\<not> isGuardedAction cat a"
    "cat_defined cat' = cat_defined cat @ [(ga_action spec, a)]"
    "cat_minted cat' = ga_object a # cat_minted cat"
    "ga_action spec \<notin> fst ` set (cat_defined cat)"
  using assms fresh_object_new [of "cat_minted cat"]
  by (auto simp: defineGuardedAction_def Let_def isGuardedAction_def guarded_action_spec.defs
                 guarded_action.defs map_of_eq_None_iff split: if_splits)

lemma catalog_ok_empty [simp, inv_intros]: "catalog_ok empty_catalog"
  by (simp add: catalog_ok_def empty_catalog_def)

lemma catalog_ok_define [inv_intros]:
  assumes "catalog_ok cat" "defineGuardedAction spec cat = Inr (a, cat')"
  shows "catalog_ok cat'"
  using assms(1) defineGuardedAction_Inr [OF assms(2)]
  by (auto simp: catalog_ok_def isGuardedAction_def)

subsection \<open>What a decision rests on\<close>

lemma grantSatisfies_True:
  "grantSatisfies live a inp = Inr True \<longleftrightarrow>
   (\<exists>g name row. gi_grant inp = Some g \<and> ga_grantActionName a = Some name \<and> name \<noteq> [] \<and>
      pa_action g = name \<and> live (pa_approval_id g) = Some row \<and> pa_action row = name \<and>
      (\<forall>covers. ga_grantCoversRequest a = Some covers \<longrightarrow> covers g inp = Inr True))"
  by (auto simp: grantSatisfies_def split: option.splits if_splits)

lemma guard_unminted:
  "\<not> isGuardedAction cat a \<Longrightarrow>
   guard cat live db a inp = Inr (DENY ''guard consulted with an undefined action (failing closed)'')"
  by (simp add: guard_def)

lemma guard_throwing_decide:
  "isGuardedAction cat a \<Longrightarrow> ga_decide a db inp = Inl e \<Longrightarrow>
   guard cat live db a inp = Inr (DENY ''guard failure (failing closed)'')"
  by (simp add: guard_def)

lemma guard_no_grant:
  "isGuardedAction cat a \<Longrightarrow> gi_grant inp = None \<Longrightarrow> ga_decide a db inp = Inr d \<Longrightarrow>
   guard cat live db a inp = Inr d"
  by (simp add: guard_def)

lemma guard_not_held:
  "isGuardedAction cat a \<Longrightarrow> ga_decide a db inp = Inr d \<Longrightarrow> effect_of d \<noteq> Hold \<Longrightarrow>
   guard cat live db a inp = Inr d"
  by (simp add: guard_def split: option.splits)

lemma guard_AllowD:
  assumes "guard cat live db a inp = Inr d" "effect_of d = Allow"
  shows "isGuardedAction cat a \<and>
    ((\<exists>r. ga_decide a db inp = Inr (ALLOW r)) \<or>
     (\<exists>r u. ga_decide a db inp = Inr (HOLD r u)) \<and> grantSatisfies live a inp = Inr True)"
proof -
  have "effect_of x = Allow \<longleftrightarrow> (\<exists>r. x = ALLOW r)" "effect_of x = Hold \<longleftrightarrow> (\<exists>r u. x = HOLD r u)" for x
    by (cases x; simp)+
  then show ?thesis
    using assms by (auto simp: guard_def split: if_splits sum.splits option.splits bool.splits)
qed

text \<open>
  A consult site holds the value its module defined, so the rest of the catalog does not matter
  to it: \<open>consult\<close> is \<open>guard\<close> on that value in a catalog of its own.
\<close>

definition consult ::
    "(string \<Rightarrow> pending_approval option) \<Rightarrow> 'db \<Rightarrow> 'db guarded_action_spec \<Rightarrow> guard_input
       \<Rightarrow> guard_decision res" where
  "consult live db spec inp =
     (case defineGuardedAction spec empty_catalog of
        Inl e \<Rightarrow> Inl e
      | Inr (a, cat) \<Rightarrow> guard cat live db a inp)"

lemma consult_guard:
  "\<exists>a cat. defineGuardedAction spec empty_catalog = Inr (a, cat) \<and>
     consult live db spec inp = guard cat live db a inp"
proof -
  obtain a cat where d: "defineGuardedAction spec empty_catalog = Inr (a, cat)"
    by (cases "defineGuardedAction spec empty_catalog")
       (auto simp: defineGuardedAction_def empty_catalog_def Let_def)
  then show ?thesis by (simp add: consult_def)
qed

lemma consult_no_grant:
  assumes "gi_grant inp = None"
  shows "consult live db spec inp =
     (case ga_decide spec db inp of Inl _ \<Rightarrow> Inr (DENY ''guard failure (failing closed)'') | Inr d \<Rightarrow> Inr d)"
proof -
  obtain a cat where d: "defineGuardedAction spec empty_catalog = Inr (a, cat)"
    and c: "consult live db spec inp = guard cat live db a inp"
    using consult_guard [of spec live db inp] by blast
  show ?thesis
    using defineGuardedAction_Inr [OF d] assms by (simp add: c guard_def split: sum.splits)
qed

lemma consult_granted:
  assumes "gi_grant inp = Some g" "ga_decide spec db inp = Inr d"
  shows "consult live db spec inp = Inr d' \<Longrightarrow>
     (effect_of d \<noteq> Hold \<and> d' = d) \<or>
     (effect_of d = Hold \<and>
        (if \<exists>name row. ga_grantActionName spec = Some name \<and> name \<noteq> [] \<and> pa_action g = name \<and>
              live (pa_approval_id g) = Some row \<and> pa_action row = name \<and>
              (\<forall>covers. ga_grantCoversRequest spec = Some covers \<longrightarrow> covers g inp = Inr True)
         then d' = ALLOW (''hold satisfied by approval '' @ pa_approval_id g)
         else d' = DENY ''replay carried an invalid or mismatched grant''))"
proof -
  obtain a cat where df: "defineGuardedAction spec empty_catalog = Inr (a, cat)"
    and c: "consult live db spec inp = guard cat live db a inp"
    using consult_guard [of spec live db inp] by blast
  note f = defineGuardedAction_Inr [OF df]
  assume "consult live db spec inp = Inr d'"
  then show ?thesis
    using f assms grantSatisfies_True [of live a inp]
    by (auto simp: c guard_def split: sum.splits bool.splits if_splits)
qed

subsection \<open>Properties\<close>

text \<open>
  C22. An action is allowed only if it was minted by \<open>defineGuardedAction\<close> and either its own
  check allows it now, or its check holds it now and the caller carries a grant whose row is
  still in the table, names this action's approval action both in the grant and in the live
  row, and covers this request.  A check that throws, a forged action or a foreign grant never
  leads to an allow.
\<close>
theorem guard_allow_sound:
  assumes "guard cat live db a inp = Inr d" "effect_of d = Allow"
  shows "isGuardedAction cat a \<and>
    ((\<exists>r. ga_decide a db inp = Inr (ALLOW r)) \<or>
     (\<exists>r u g name row. ga_decide a db inp = Inr (HOLD r u) \<and> gi_grant inp = Some g \<and>
        ga_grantActionName a = Some name \<and> pa_action g = name \<and>
        live (pa_approval_id g) = Some row \<and> pa_action row = name \<and>
        (\<forall>covers. ga_grantCoversRequest a = Some covers \<longrightarrow> covers g inp = Inr True)))"
  using guard_AllowD [OF assms] by (auto simp: grantSatisfies_True)

definition demo_spec :: "unit guarded_action_spec" where
  "demo_spec = \<lparr>ga_action = ''self_mod.install'',
     ga_decide = (\<lambda>_ inp. case gi_actor inp of
                    HostActor \<Rightarrow> Inr (ALLOW ''host'')
                  | AgentActor g s \<Rightarrow> Inr (HOLD ''needs a human'' None)
                  | _ \<Rightarrow> Inr (DENY ''not permitted'')),
     ga_grantActionName = Some ''install_packages'', ga_grantCoversRequest = None\<rparr>"

definition demo_action :: "unit guarded_action" where
  "demo_action = \<lparr>ga_action = ga_action demo_spec, ga_decide = ga_decide demo_spec,
     ga_grantActionName = ga_grantActionName demo_spec,
     ga_grantCoversRequest = ga_grantCoversRequest demo_spec, ga_object = 1\<rparr>"

definition demo_catalog :: "unit catalog" where
  "demo_catalog = \<lparr>cat_defined = [(''self_mod.install'', demo_action)], cat_minted = [1]\<rparr>"

lemma demo_catalog_defined:
  "defineGuardedAction demo_spec empty_catalog = Inr (demo_action, demo_catalog)"
  by (simp add: Let_def defineGuardedAction_def empty_catalog_def demo_catalog_def demo_action_def
                demo_spec_def fresh_object_def guarded_action_spec.defs guarded_action.defs)

definition demo_replay :: guard_input where
  "demo_replay = \<lparr>gi_actor = AgentActor ''ag-1'' None, gi_resource = (\<lambda>_. None), gi_payload = [],
                  gi_grant = Some demo_approval\<rparr>"

lemma demo_guard_allows:
  "guard demo_catalog (\<lambda>k. getPendingApproval k [demo_approval]) () demo_action demo_replay =
     Inr (ALLOW ''hold satisfied by approval appr-1'')"
  by code_simp

theorem guard_allow_sound_witness:
  "\<exists>g row. gi_grant demo_replay = Some g \<and>
     getPendingApproval (pa_approval_id g) [demo_approval] = Some row \<and>
     pa_action row = ''install_packages''"
  using guard_allow_sound [OF demo_guard_allows]
  by (auto simp: demo_action_def demo_spec_def demo_replay_def)

text \<open>
  Carrying a grant never loosens the decision except from a hold to an allow: for a check
  that does not itself read the grant, whatever is not allowed with the grant is at least as
  strict as the decision without it, and a denial stays the same denial.
\<close>
theorem grant_only_satisfies_holds:
  assumes "guard cat live db a inp = Inr d"
    and "guard cat live db a (inp\<lparr>gi_grant := None\<rparr>) = Inr d0"
    and "ga_decide a db (inp\<lparr>gi_grant := None\<rparr>) = ga_decide a db inp"
  shows "(effect_of d0 = Deny \<longrightarrow> d = d0) \<and> (effect_of d \<noteq> Allow \<longrightarrow> effect_of d0 \<le> effect_of d)"
  using assms
  by (auto simp: guard_def less_eq_effect_def isGuardedAction_def
           split: if_splits sum.splits option.splits bool.splits)

theorem grant_only_satisfies_holds_witness:
  "effect_of (HOLD ''needs a human'' None) \<le> effect_of (DENY ''replay carried an invalid or mismatched grant'')"
proof -
  have "guard demo_catalog (\<lambda>_. None) () demo_action demo_replay =
      Inr (DENY ''replay carried an invalid or mismatched grant'')"
    and "guard demo_catalog (\<lambda>_. None) () demo_action (demo_replay\<lparr>gi_grant := None\<rparr>) =
      Inr (HOLD ''needs a human'' None)"
    and "ga_decide demo_action () (demo_replay\<lparr>gi_grant := None\<rparr>) = ga_decide demo_action () demo_replay"
    by code_simp+
  from grant_only_satisfies_holds [OF this] show ?thesis by simp
qed

text \<open>
  A grant is good for one execution: once the handler has deleted the approval row, a
  replay of the same grant against a held action is denied, whatever the table held before.
\<close>
theorem grant_single_use:
  assumes "isGuardedAction cat a" "ga_decide a db inp = Inr (HOLD r u)" "gi_grant inp = Some g"
  shows "guard cat (\<lambda>k. getPendingApproval k (deletePendingApproval (pa_approval_id g) rows)) db a inp =
     Inr (DENY ''replay carried an invalid or mismatched grant'')"
  using assms
  by (simp add: guard_def grantSatisfies_def get_deletePendingApproval split: option.splits)

theorem grant_single_use_witness:
  "guard demo_catalog
     (\<lambda>k. getPendingApproval k (deletePendingApproval ''appr-1'' [demo_approval])) () demo_action
     demo_replay =
     Inr (DENY ''replay carried an invalid or mismatched grant'')"
proof -
  have "isGuardedAction demo_catalog demo_action"
    and "ga_decide demo_action () demo_replay = Inr (HOLD ''needs a human'' None)"
    and "gi_grant demo_replay = Some demo_approval"
    by code_simp+
  from grant_single_use [OF this, of "[demo_approval]"] show ?thesis
    by (simp add: demo_approval_def approval_defaults_def)
qed

end
