(* ===== verification/Permissions.thy ===== *)
theory Permissions
  imports Guard
begin

text \<open>
  Users, roles and memberships (\<open>src/modules/permissions/db/users.ts\<close>, \<open>user-roles.ts\<close>,
  \<open>agent-group-members.ts\<close>), the access check (\<open>access.ts\<close>) and the module's two guarded
  actions (\<open>guard.ts\<close>).  The primary key of \<open>user_roles\<close> has a nullable column, so SQLite lets
  a global grant be inserted twice and refuses only a repeated scoped one.  Foreign keys are
  not modelled.  An \<open>ORDER BY\<close> on a timestamp column is by the time it stands for.
\<close>

subsection \<open>Tables\<close>

record perm_db =
  pd_users :: "user list"
  pd_roles :: "user_role list"
  pd_members :: "agent_group_member list"

definition createUser :: "user \<Rightarrow> perm_db \<Rightarrow> perm_db res" where
  "createUser u db =
     (if \<exists>r \<in> set (pd_users db). u_id r = u_id u then Inl UniqueViolation
      else Inr (db\<lparr>pd_users := pd_users db @ [u]\<rparr>))"

definition upsertUser :: "user \<Rightarrow> perm_db \<Rightarrow> perm_db" where
  "upsertUser u db =
     (if \<exists>r \<in> set (pd_users db). u_id r = u_id u
      then db\<lparr>pd_users := update_where (\<lambda>r. u_id r = u_id u)
                (\<lambda>r. if u_display_name u = None then r else r\<lparr>u_display_name := u_display_name u\<rparr>)
                (pd_users db)\<rparr>
      else db\<lparr>pd_users := pd_users db @ [u]\<rparr>)"

definition getUser :: "string \<Rightarrow> perm_db \<Rightarrow> user option" where
  "getUser uid db = find (\<lambda>r. u_id r = uid) (pd_users db)"

definition updateDisplayName :: "string \<Rightarrow> string \<Rightarrow> perm_db \<Rightarrow> perm_db" where
  "updateDisplayName uid name db =
     db\<lparr>pd_users := update_where (\<lambda>r. u_id r = uid) (\<lambda>r. r\<lparr>u_display_name := Some name\<rparr>) (pd_users db)\<rparr>"

definition deleteUser :: "string \<Rightarrow> perm_db \<Rightarrow> perm_db" where
  "deleteUser uid db = db\<lparr>pd_users := delete_where (\<lambda>r. u_id r = uid) (pd_users db)\<rparr>"

text \<open>\<open>has_role\<close> is the row test every role query makes.\<close>

definition has_role :: "perm_db \<Rightarrow> string \<Rightarrow> user_role_kind \<Rightarrow> string option \<Rightarrow> bool" where
  "has_role db uid k scope \<longleftrightarrow>
     (\<exists>r \<in> set (pd_roles db). ur_user_id r = uid \<and> ur_role r = k \<and> ur_agent_group_id r = scope)"

definition grantRole :: "user_role \<Rightarrow> perm_db \<Rightarrow> perm_db res" where
  "grantRole row db =
     (if ur_role row = Owner \<and> ur_agent_group_id row \<noteq> None
      then Inl (Error ''owner role must be global (agent_group_id = null)'')
      else if ur_agent_group_id row \<noteq> None \<and> has_role db (ur_user_id row) (ur_role row) (ur_agent_group_id row)
      then Inl UniqueViolation
      else Inr (db\<lparr>pd_roles := pd_roles db @ [row]\<rparr>))"

definition revokeRole :: "string \<Rightarrow> user_role_kind \<Rightarrow> string option \<Rightarrow> perm_db \<Rightarrow> perm_db" where
  "revokeRole uid k scope db =
     db\<lparr>pd_roles := delete_where (\<lambda>r. ur_user_id r = uid \<and> ur_role r = k \<and> ur_agent_group_id r = scope)
                     (pd_roles db)\<rparr>"

definition getUserRoles :: "string \<Rightarrow> perm_db \<Rightarrow> user_role list" where
  "getUserRoles uid db = filter (\<lambda>r. ur_user_id r = uid) (pd_roles db)"

definition isOwner :: "perm_db \<Rightarrow> string \<Rightarrow> bool" where
  "isOwner db uid = has_role db uid Owner None"

definition isGlobalAdmin :: "perm_db \<Rightarrow> string \<Rightarrow> bool" where
  "isGlobalAdmin db uid = has_role db uid Admin None"

definition isAdminOfAgentGroup :: "perm_db \<Rightarrow> string \<Rightarrow> string \<Rightarrow> bool" where
  "isAdminOfAgentGroup db uid gid = has_role db uid Admin (Some gid)"

definition hasAdminPrivilege :: "perm_db \<Rightarrow> string \<Rightarrow> string \<Rightarrow> bool" where
  "hasAdminPrivilege db uid gid \<longleftrightarrow>
     isOwner db uid \<or> isGlobalAdmin db uid \<or> isAdminOfAgentGroup db uid gid"

definition stamp_ord :: "stamp \<Rightarrow> int" where
  "stamp_ord s = (case date_parse s of Some t \<Rightarrow> t | None \<Rightarrow> 0)"

definition role_rows :: "user_role_kind \<Rightarrow> string option \<Rightarrow> perm_db \<Rightarrow> user_role list" where
  "role_rows k scope db =
     sort_key (\<lambda>r. stamp_ord (ur_granted_at r))
       (filter (\<lambda>r. ur_role r = k \<and> ur_agent_group_id r = scope) (pd_roles db))"

definition getOwners :: "perm_db \<Rightarrow> user_role list" where
  "getOwners db = role_rows Owner None db"

definition hasAnyOwner :: "perm_db \<Rightarrow> bool" where
  "hasAnyOwner db \<longleftrightarrow> (\<exists>r \<in> set (pd_roles db). ur_role r = Owner \<and> ur_agent_group_id r = None)"

definition getGlobalAdmins :: "perm_db \<Rightarrow> user_role list" where
  "getGlobalAdmins db = role_rows Admin None db"

definition getAdminsOfAgentGroup :: "string \<Rightarrow> perm_db \<Rightarrow> user_role list" where
  "getAdminsOfAgentGroup gid db = role_rows Admin (Some gid) db"

definition hasMembershipRow :: "perm_db \<Rightarrow> string \<Rightarrow> string \<Rightarrow> bool" where
  "hasMembershipRow db uid gid \<longleftrightarrow>
     (\<exists>r \<in> set (pd_members db). gm_user_id r = uid \<and> gm_agent_group_id r = gid)"

definition addMember :: "agent_group_member \<Rightarrow> perm_db \<Rightarrow> perm_db" where
  "addMember row db =
     (if hasMembershipRow db (gm_user_id row) (gm_agent_group_id row) then db
      else db\<lparr>pd_members := pd_members db @ [row]\<rparr>)"

definition removeMember :: "string \<Rightarrow> string \<Rightarrow> perm_db \<Rightarrow> perm_db" where
  "removeMember uid gid db =
     db\<lparr>pd_members := delete_where (\<lambda>r. gm_user_id r = uid \<and> gm_agent_group_id r = gid) (pd_members db)\<rparr>"

definition getMembers :: "string \<Rightarrow> perm_db \<Rightarrow> agent_group_member list" where
  "getMembers gid db =
     sort_key (\<lambda>r. stamp_ord (gm_added_at r)) (filter (\<lambda>r. gm_agent_group_id r = gid) (pd_members db))"

definition isMember :: "perm_db \<Rightarrow> string \<Rightarrow> string \<Rightarrow> bool" where
  "isMember db uid gid \<longleftrightarrow>
     isOwner db uid \<or> isGlobalAdmin db uid \<or> isAdminOfAgentGroup db uid gid \<or> hasMembershipRow db uid gid"

subsection \<open>The access check\<close>

datatype access_decision = Granted string | Refused string

fun access_allowed :: "access_decision \<Rightarrow> bool" where
  "access_allowed (Granted _) = True"
| "access_allowed (Refused _) = False"

definition canAccessAgentGroup :: "perm_db \<Rightarrow> string \<Rightarrow> string \<Rightarrow> access_decision" where
  "canAccessAgentGroup db uid gid =
     (if getUser uid db = None then Refused ''unknown_user''
      else if isOwner db uid then Granted ''owner''
      else if isGlobalAdmin db uid then Granted ''global_admin''
      else if isAdminOfAgentGroup db uid gid then Granted ''admin_of_group''
      else if isMember db uid gid then Granted ''member''
      else Refused ''not_member'')"

subsection \<open>Roles as an interface\<close>

text \<open>
  What a caller relies on: a role test, and grants and revocations that change exactly the
  named role.  \<open>privileged\<close> is the administration right read off the role test.
\<close>

definition privileged ::
    "('db \<Rightarrow> string \<Rightarrow> user_role_kind \<Rightarrow> string option \<Rightarrow> bool) \<Rightarrow> 'db \<Rightarrow> string \<Rightarrow> string \<Rightarrow> bool" where
  "privileged has db u g \<longleftrightarrow> has db u Owner None \<or> has db u Admin None \<or> has db u Admin (Some g)"

locale role_store =
  fixes has :: "'db \<Rightarrow> string \<Rightarrow> user_role_kind \<Rightarrow> string option \<Rightarrow> bool"
    and grant :: "user_role \<Rightarrow> 'db \<Rightarrow> 'db res"
    and revoke :: "string \<Rightarrow> user_role_kind \<Rightarrow> string option \<Rightarrow> 'db \<Rightarrow> 'db"
  assumes has_grant: "grant r db = Inr db' \<Longrightarrow>
      has db' u k s \<longleftrightarrow> has db u k s \<or> (u = ur_user_id r \<and> k = ur_role r \<and> s = ur_agent_group_id r)"
    and grant_owner_scoped: "ur_role r = Owner \<Longrightarrow> ur_agent_group_id r \<noteq> None \<Longrightarrow> \<exists>e. grant r db = Inl e"
    and has_revoke: "has (revoke u k s db) u' k' s' \<longleftrightarrow> has db u' k' s' \<and> \<not> (u' = u \<and> k' = k \<and> s' = s)"
begin

lemma scoped_grant_local:
  assumes "grant r db = Inr db'" "ur_agent_group_id r = Some g"
  shows "privileged has db' u g' \<longleftrightarrow> privileged has db u g' \<or> (u = ur_user_id r \<and> g' = g)"
proof -
  have "ur_role r = Admin"
    using grant_owner_scoped [of r db] assms by (cases "ur_role r") auto
  then show ?thesis using has_grant [OF assms(1)] assms(2) by (auto simp: privileged_def)
qed

lemma revoke_scoped_local:
  "privileged has (revoke u Admin (Some g) db) u' g' \<longleftrightarrow>
   (if u' = u \<and> g' = g then has db u Owner None \<or> has db u Admin None else privileged has db u' g')"
  by (auto simp: privileged_def has_revoke)

lemma revoke_all:
  "\<not> privileged has (revoke u Owner None (revoke u Admin None (revoke u Admin (Some g) db))) u g"
  by (simp add: privileged_def has_revoke)

end

interpretation roles: role_store has_role grantRole revokeRole
  by unfold_locales (auto simp: has_role_def grantRole_def revokeRole_def split: if_splits)

lemma hasAdminPrivilege_privileged: "hasAdminPrivilege = privileged has_role"
  by (intro ext) (simp add: hasAdminPrivilege_def privileged_def isOwner_def isGlobalAdmin_def
      isAdminOfAgentGroup_def)

lemma isMember_iff: "isMember db u g \<longleftrightarrow> hasAdminPrivilege db u g \<or> hasMembershipRow db u g"
  by (auto simp: isMember_def hasAdminPrivilege_def)

lemma canAccess_iff:
  "access_allowed (canAccessAgentGroup db u g) \<longleftrightarrow> getUser u db \<noteq> None \<and> isMember db u g"
  by (auto simp: canAccessAgentGroup_def isMember_def)

lemma set_role_rows [simp]:
  "set (role_rows k s db) = {r \<in> set (pd_roles db). ur_role r = k \<and> ur_agent_group_id r = s}"
  by (auto simp: role_rows_def)

lemma hasMembershipRow_addMember [row_simps]:
  "hasMembershipRow (addMember row db) u g \<longleftrightarrow>
   hasMembershipRow db u g \<or> (u = gm_user_id row \<and> g = gm_agent_group_id row)"
  by (auto simp: addMember_def hasMembershipRow_def)

lemma hasMembershipRow_removeMember [row_simps]:
  "hasMembershipRow (removeMember u' g' db) u g \<longleftrightarrow> hasMembershipRow db u g \<and> \<not> (u = u' \<and> g = g')"
  by (auto simp: removeMember_def hasMembershipRow_def)

lemma addMember_keeps [simp]:
  "getUser u (addMember row db) = getUser u db" "pd_roles (addMember row db) = pd_roles db"
  "hasAdminPrivilege (addMember row db) u g = hasAdminPrivilege db u g"
  by (simp_all add: addMember_def getUser_def hasAdminPrivilege_def isOwner_def isGlobalAdmin_def
      isAdminOfAgentGroup_def has_role_def)

end
