(* ===== verification/Destinations.thy ===== *)
theory Destinations
  imports Types
begin

text \<open>
  The addressing and policy tables of agent-to-agent traffic
  (\<open>src/modules/agent-to-agent/db/agent-destinations.ts\<close> and \<open>agent-message-policies.ts\<close>):
  who may write to whom under which local name, and which edges a named approver gates.
  The key of a destination is the pair of agent group and local name.
\<close>

record edge_db =
  eb_destinations :: "agent_destination list"
  eb_policies :: "agent_message_policy list"

subsection \<open>Policies\<close>

definition getMessagePolicy :: "string \<Rightarrow> string \<Rightarrow> edge_db \<Rightarrow> agent_message_policy option" where
  "getMessagePolicy src dst db =
     find (\<lambda>r. mp_from_agent_group_id r = src \<and> mp_to_agent_group_id r = dst) (eb_policies db)"

definition setMessagePolicy :: "string \<Rightarrow> string \<Rightarrow> string \<Rightarrow> stamp \<Rightarrow> edge_db \<Rightarrow> edge_db" where
  "setMessagePolicy src dst approver created db =
     (let p = (\<lambda>r. mp_from_agent_group_id r = src \<and> mp_to_agent_group_id r = dst)
      in if \<exists>r \<in> set (eb_policies db). p r
         then db\<lparr>eb_policies := update_where p (\<lambda>r. r\<lparr>mp_approver := approver\<rparr>) (eb_policies db)\<rparr>
         else db\<lparr>eb_policies := eb_policies db @
                   [\<lparr>mp_from_agent_group_id = src, mp_to_agent_group_id = dst,
                     mp_approver = approver, mp_created_at = created\<rparr>]\<rparr>)"

definition removeMessagePolicy :: "string \<Rightarrow> string \<Rightarrow> edge_db \<Rightarrow> bool \<times> edge_db" where
  "removeMessagePolicy src dst db =
     (let p = (\<lambda>r. mp_from_agent_group_id r = src \<and> mp_to_agent_group_id r = dst)
      in (0 < changes p (eb_policies db), db\<lparr>eb_policies := delete_where p (eb_policies db)\<rparr>))"

definition deletePoliciesTouching :: "string \<Rightarrow> edge_db \<Rightarrow> edge_db" where
  "deletePoliciesTouching g db =
     db\<lparr>eb_policies := delete_where (\<lambda>r. mp_from_agent_group_id r = g \<or> mp_to_agent_group_id r = g)
                        (eb_policies db)\<rparr>"

subsection \<open>Destinations\<close>

definition createDestination :: "agent_destination \<Rightarrow> edge_db \<Rightarrow> edge_db res" where
  "createDestination row db =
     (if \<exists>r \<in> set (eb_destinations db).
           ad_agent_group_id r = ad_agent_group_id row \<and> ad_local_name r = ad_local_name row
      then Inl UniqueViolation
      else Inr (db\<lparr>eb_destinations := eb_destinations db @ [row]\<rparr>))"

definition getDestinations :: "string \<Rightarrow> edge_db \<Rightarrow> agent_destination list" where
  "getDestinations g db = filter (\<lambda>r. ad_agent_group_id r = g) (eb_destinations db)"

definition getDestinationByName :: "string \<Rightarrow> string \<Rightarrow> edge_db \<Rightarrow> agent_destination option" where
  "getDestinationByName g name db =
     find (\<lambda>r. ad_agent_group_id r = g \<and> ad_local_name r = name) (eb_destinations db)"

definition getDestinationByTarget ::
    "string \<Rightarrow> destination_target \<Rightarrow> string \<Rightarrow> edge_db \<Rightarrow> agent_destination option" where
  "getDestinationByTarget g t tid db =
     find (\<lambda>r. ad_agent_group_id r = g \<and> ad_target_type r = t \<and> ad_target_id r = tid) (eb_destinations db)"

definition hasDestination :: "string \<Rightarrow> destination_target \<Rightarrow> string \<Rightarrow> edge_db \<Rightarrow> bool" where
  "hasDestination g t tid db \<longleftrightarrow>
     (\<exists>r \<in> set (eb_destinations db).
        ad_agent_group_id r = g \<and> ad_target_type r = t \<and> ad_target_id r = tid)"

definition deleteDestination :: "string \<Rightarrow> string \<Rightarrow> edge_db \<Rightarrow> edge_db" where
  "deleteDestination g name db =
     (let row = getDestinationByName g name db;
          db' = db\<lparr>eb_destinations :=
                    delete_where (\<lambda>r. ad_agent_group_id r = g \<and> ad_local_name r = name) (eb_destinations db)\<rparr>
      in case row of
           Some r \<Rightarrow> if ad_target_type r = ToAgent then snd (removeMessagePolicy g (ad_target_id r) db') else db'
         | None \<Rightarrow> db')"

definition deleteAllDestinationsTouching :: "string \<Rightarrow> edge_db \<Rightarrow> edge_db" where
  "deleteAllDestinationsTouching g db =
     deletePoliciesTouching g
       (db\<lparr>eb_destinations :=
            delete_where (\<lambda>r. ad_agent_group_id r = g \<or> (ad_target_type r = ToAgent \<and> ad_target_id r = g))
              (eb_destinations db)\<rparr>)"

definition getDestinationReferencers :: "string \<Rightarrow> edge_db \<Rightarrow> string list" where
  "getDestinationReferencers g db =
     remdups (map ad_agent_group_id
       (filter (\<lambda>r. ad_target_type r = ToAgent \<and> ad_target_id r = g \<and> ad_agent_group_id r \<noteq> g)
          (eb_destinations db)))"

text \<open>
  Names are ASCII here: \<open>toLowerCase\<close> on the letters A to Z, runs of other characters replaced by one dash, dashes at the ends removed.
\<close>

definition name_char :: "char \<Rightarrow> bool" where
  "name_char c \<longleftrightarrow> (CHR ''a'' \<le> c \<and> c \<le> CHR ''z'') \<or> (CHR ''0'' \<le> c \<and> c \<le> CHR ''9'')"

fun squeeze :: "bool \<Rightarrow> string \<Rightarrow> string" where
  "squeeze dash [] = []"
| "squeeze dash (c # cs) =
     (if name_char c then c # squeeze False cs
      else if dash then squeeze True cs else CHR ''-'' # squeeze True cs)"

definition trim_dashes :: "string \<Rightarrow> string" where
  "trim_dashes s =
     (let front = dropWhile (\<lambda>c. c = CHR ''-'') s
      in rev (dropWhile (\<lambda>c. c = CHR ''-'') (rev front)))"

definition normalizeName :: "string \<Rightarrow> string" where
  "normalizeName name =
     (let s = trim_dashes (squeeze False (map lower_char name))
      in if s = [] then ''unnamed'' else s)"

subsection \<open>Facts about the tables\<close>

definition edges_ok :: "edge_db \<Rightarrow> bool" where
  "edges_ok db \<longleftrightarrow> distinct (map (\<lambda>r. (ad_agent_group_id r, ad_local_name r)) (eb_destinations db))"

lemma edges_ok_create [inv_intros]:
  "edges_ok db \<Longrightarrow> createDestination row db = Inr db' \<Longrightarrow> edges_ok db'"
  by (force simp: edges_ok_def createDestination_def split: if_splits)

lemma edges_ok_delete [inv_intros]: "edges_ok db \<Longrightarrow> edges_ok (deleteDestination g n db)"
  by (auto simp: edges_ok_def deleteDestination_def removeMessagePolicy_def Let_def
           intro: distinct_delete_where split: option.splits)

lemma edges_ok_delete_all [inv_intros]: "edges_ok db \<Longrightarrow> edges_ok (deleteAllDestinationsTouching g db)"
  by (auto simp: edges_ok_def deleteAllDestinationsTouching_def deletePoliciesTouching_def
           intro: distinct_delete_where)

lemma hasDestination_iff: "hasDestination g t tid db \<longleftrightarrow> getDestinationByTarget g t tid db \<noteq> None"
  by (auto simp: hasDestination_def getDestinationByTarget_def find_None_ex)

lemma getMessagePolicy_set [row_simps]:
  "map_option mp_approver (getMessagePolicy src dst (setMessagePolicy src dst a t db)) = Some a"
proof (cases "getMessagePolicy src dst db")
  case None
  then have "\<not> (\<exists>r \<in> set (eb_policies db). mp_from_agent_group_id r = src \<and> mp_to_agent_group_id r = dst)"
    by (simp add: getMessagePolicy_def find_None_ex)
  with None show ?thesis
    by (auto simp: getMessagePolicy_def setMessagePolicy_def Let_def find_append)
next
  case (Some r)
  then have "\<exists>r \<in> set (eb_policies db). mp_from_agent_group_id r = src \<and> mp_to_agent_group_id r = dst"
    by (auto simp: getMessagePolicy_def dest: find_SomeD)
  with Some show ?thesis
    by (simp add: getMessagePolicy_def setMessagePolicy_def Let_def find_update_self)
qed

lemma find_delete_pair:
  "find (\<lambda>r. mp_from_agent_group_id r = f \<and> mp_to_agent_group_id r = t)
     (delete_where (\<lambda>r. mp_from_agent_group_id r = src \<and> mp_to_agent_group_id r = dst) rows) =
   (if f = src \<and> t = dst then None
    else find (\<lambda>r. mp_from_agent_group_id r = f \<and> mp_to_agent_group_id r = t) rows)"
  by (induction rows) (auto simp: delete_where_def)

lemma getMessagePolicy_remove [row_simps]:
  "getMessagePolicy f t (snd (removeMessagePolicy src dst db)) =
     (if f = src \<and> t = dst then None else getMessagePolicy f t db)"
  by (simp add: getMessagePolicy_def removeMessagePolicy_def Let_def find_delete_pair)

lemma squeeze_chars: "set (squeeze d s) \<subseteq> {c. name_char c} \<union> {CHR ''-''}"
  by (induction d s rule: squeeze.induct) auto

lemma trim_dashes_set: "set (trim_dashes s) \<subseteq> set s"
  by (auto simp: trim_dashes_def Let_def dest!: set_dropWhileD)

lemma trim_dashes_ends:
  "trim_dashes s \<noteq> [] \<Longrightarrow> hd (trim_dashes s) \<noteq> CHR ''-'' \<and> last (trim_dashes s) \<noteq> CHR ''-''"
proof -
  let ?d = "\<lambda>c. c = CHR ''-''"
  let ?f = "dropWhile ?d s"
  assume ne: "trim_dashes s \<noteq> []"
  have t: "trim_dashes s = rev (dropWhile ?d (rev ?f))" by (simp add: trim_dashes_def Let_def)
  have l: "last (trim_dashes s) \<noteq> CHR ''-''"
    using ne hd_dropWhile [of ?d "rev ?f"] unfolding t by (simp add: last_rev)
  obtain zs where z: "?f = trim_dashes s @ zs"
    unfolding t by (metis rev_append rev_rev_ident takeWhile_dropWhile_id)
  have "?f \<noteq> []" using ne z by auto
  then have "hd ?f \<noteq> CHR ''-''" using hd_dropWhile [of ?d s] by simp
  then have "hd (trim_dashes s) \<noteq> CHR ''-''" using ne z by (metis hd_append2)
  with l show ?thesis by simp
qed

lemma normalizeName_wf:
  "normalizeName n \<noteq> [] \<and> set (normalizeName n) \<subseteq> {c. name_char c} \<union> {CHR ''-''} \<and>
   hd (normalizeName n) \<noteq> CHR ''-'' \<and> last (normalizeName n) \<noteq> CHR ''-''"
proof -
  let ?s = "trim_dashes (squeeze False (map lower_char n))"
  have "set ?s \<subseteq> {c. name_char c} \<union> {CHR ''-''}"
    using trim_dashes_set squeeze_chars by blast
  moreover have "\<forall>c \<in> set ''unnamed''. name_char c" by code_simp
  ultimately show ?thesis
    using trim_dashes_ends [of "squeeze False (map lower_char n)"]
    by (auto simp: normalizeName_def Let_def)
qed

subsection \<open>Properties\<close>

text \<open>
  Deleting one name of a destination agent drops the approval policy of the edge even when
  another name for the same agent remains: the sender may still write to it, and no approver
  is asked any more.
\<close>
theorem alias_delete_drops_gate:
  assumes "getDestinationByName g n1 db = Some r1" "ad_target_type r1 = ToAgent" "ad_target_id r1 = t"
    and "getDestinationByName g n2 db = Some r2" "ad_target_type r2 = ToAgent" "ad_target_id r2 = t"
    and "n1 \<noteq> n2"
  shows "hasDestination g ToAgent t (deleteDestination g n1 db) \<and>
         getMessagePolicy g t (deleteDestination g n1 db) = None"
proof -
  have r2: "r2 \<in> set (eb_destinations db)" "ad_agent_group_id r2 = g" "ad_local_name r2 = n2"
    using assms(4) by (auto simp: getDestinationByName_def dest: find_SomeD)
  let ?db' = "db\<lparr>eb_destinations :=
     delete_where (\<lambda>r. ad_agent_group_id r = g \<and> ad_local_name r = n1) (eb_destinations db)\<rparr>"
  have d: "deleteDestination g n1 db = snd (removeMessagePolicy g t ?db')"
    using assms(1,2,3) by (simp add: deleteDestination_def Let_def)
  moreover have "hasDestination g ToAgent t (snd (removeMessagePolicy g t ?db'))"
    using r2 assms(5,6,7) by (auto simp: hasDestination_def removeMessagePolicy_def Let_def)
  moreover have "getMessagePolicy g t (snd (removeMessagePolicy g t ?db')) = None"
    by (simp add: getMessagePolicy_remove)
  ultimately show ?thesis by simp
qed

definition demo_edges :: edge_db where
  "demo_edges = \<lparr>eb_destinations =
      [\<lparr>ad_agent_group_id = ''a'', ad_local_name = ''bob'', ad_target_type = ToAgent,
        ad_target_id = ''b'', ad_created_at = Iso 0\<rparr>,
       \<lparr>ad_agent_group_id = ''a'', ad_local_name = ''helper'', ad_target_type = ToAgent,
        ad_target_id = ''b'', ad_created_at = Iso 0\<rparr>],
     eb_policies = [\<lparr>mp_from_agent_group_id = ''a'', mp_to_agent_group_id = ''b'',
                     mp_approver = ''tg:1'', mp_created_at = Iso 0\<rparr>]\<rparr>"

theorem alias_delete_drops_gate_witness:
  "hasDestination ''a'' ToAgent ''b'' (deleteDestination ''a'' ''bob'' demo_edges) \<and>
   getMessagePolicy ''a'' ''b'' (deleteDestination ''a'' ''bob'' demo_edges) = None"
  by (rule alias_delete_drops_gate [of "''a''" "''bob''" _ _ _ "''helper''"])
     (auto simp: demo_edges_def getDestinationByName_def)

end
