(* ===== verification/MessagingGroups.thy ===== *)
theory MessagingGroups
  imports Destinations
begin

text \<open>
  Chats and their wirings (\<open>src/db/messaging-groups.ts\<close>) and the cache of direct-message
  channels (\<open>src/modules/permissions/db/user-dms.ts\<close>).  A chat's key is its id; its address
  (channel type, platform id, adapter instance) is unique as well.  Wiring a chat to an agent
  also gives the agent a destination for it, by a loop that retries with a numbered name while
  the name is taken.
\<close>

record chat_db =
  cd_groups :: "messaging_group list"
  cd_wirings :: "messaging_group_agent list"
  cd_edges :: edge_db
  cd_dms :: "user_dm list"

subsection \<open>Chats\<close>

definition same_address :: "messaging_group \<Rightarrow> messaging_group \<Rightarrow> bool" where
  "same_address a b \<longleftrightarrow> mg_channel_type a = mg_channel_type b \<and>
     mg_platform_id a = mg_platform_id b \<and> mg_instance a = mg_instance b"

definition createMessagingGroup :: "messaging_group \<Rightarrow> chat_db \<Rightarrow> chat_db res" where
  "createMessagingGroup g db =
     (if \<exists>r \<in> set (cd_groups db). mg_id r = mg_id g \<or> same_address r g then Inl UniqueViolation
      else Inr (db\<lparr>cd_groups := cd_groups db @ [g]\<rparr>))"

text \<open>Only a conflict of addresses is ignored; a used id is still a constraint violation.\<close>

definition createMessagingGroupIfAbsent :: "messaging_group \<Rightarrow> chat_db \<Rightarrow> (bool \<times> chat_db) res" where
  "createMessagingGroupIfAbsent g db =
     (if \<exists>r \<in> set (cd_groups db). same_address r g then Inr (False, db)
      else if \<exists>r \<in> set (cd_groups db). mg_id r = mg_id g then Inl UniqueViolation
      else Inr (True, db\<lparr>cd_groups := cd_groups db @ [g]\<rparr>))"

definition getMessagingGroup :: "string \<Rightarrow> chat_db \<Rightarrow> messaging_group option" where
  "getMessagingGroup i db = find (\<lambda>r. mg_id r = i) (cd_groups db)"

text \<open>Without an instance: the default instance first, else the lexically first one.\<close>

definition getMessagingGroupByPlatform ::
    "string \<Rightarrow> string \<Rightarrow> string option \<Rightarrow> chat_db \<Rightarrow> messaging_group option" where
  "getMessagingGroupByPlatform ct pid inst db =
     (case inst of
        Some i \<Rightarrow> find (\<lambda>r. mg_channel_type r = ct \<and> mg_platform_id r = pid \<and> mg_instance r = i) (cd_groups db)
      | None \<Rightarrow>
          (case sort_key mg_instance
                  (filter (\<lambda>r. mg_channel_type r = ct \<and> mg_platform_id r = pid) (cd_groups db)) of
             [] \<Rightarrow> None
           | r # rs \<Rightarrow> (case find (\<lambda>x. mg_instance x = ct) (r # rs) of Some d \<Rightarrow> Some d | None \<Rightarrow> Some r)))"

definition getMessagingGroupWithAgentCount ::
    "string \<Rightarrow> string \<Rightarrow> string option \<Rightarrow> chat_db \<Rightarrow> (messaging_group \<times> nat) option" where
  "getMessagingGroupWithAgentCount ct pid inst db =
     (let i = (case inst of Some i \<Rightarrow> i | None \<Rightarrow> ct)
      in map_option (\<lambda>g. (g, changes (\<lambda>w. ma_messaging_group_id w = mg_id g) (cd_wirings db)))
           (find (\<lambda>r. mg_channel_type r = ct \<and> mg_platform_id r = pid \<and> mg_instance r = i) (cd_groups db)))"

definition setMessagingGroupDeniedAt :: "string \<Rightarrow> stamp option \<Rightarrow> chat_db \<Rightarrow> chat_db" where
  "setMessagingGroupDeniedAt i t db =
     db\<lparr>cd_groups := update_where (\<lambda>r. mg_id r = i) (\<lambda>r. r\<lparr>mg_denied_at := t\<rparr>) (cd_groups db)\<rparr>"

definition setMessagingGroupDetachedAt :: "string \<Rightarrow> stamp option \<Rightarrow> chat_db \<Rightarrow> chat_db" where
  "setMessagingGroupDetachedAt i t db =
     db\<lparr>cd_groups := update_where (\<lambda>r. mg_id r = i) (\<lambda>r. r\<lparr>mg_detached_at := t\<rparr>) (cd_groups db)\<rparr>"

definition isMessagingGroupDetached :: "string \<Rightarrow> chat_db \<Rightarrow> bool" where
  "isMessagingGroupDetached i db =
     (case getMessagingGroup i db of
        Some g \<Rightarrow> (case mg_detached_at g of Some (NotDate s) \<Rightarrow> s \<noteq> [] | Some _ \<Rightarrow> True | None \<Rightarrow> False)
      | None \<Rightarrow> False)"

definition deleteMessagingGroup :: "string \<Rightarrow> chat_db \<Rightarrow> chat_db" where
  "deleteMessagingGroup i db = db\<lparr>cd_groups := delete_where (\<lambda>r. mg_id r = i) (cd_groups db)\<rparr>"

definition getMessagingGroupForOwnDestination ::
    "(stamp \<Rightarrow> int) \<Rightarrow> string \<Rightarrow> string \<Rightarrow> string \<Rightarrow> chat_db \<Rightarrow> messaging_group option" where
  "getMessagingGroupForOwnDestination ord g ct pid db =
     (case concat (map (\<lambda>d. filter (\<lambda>r. mg_id r = ad_target_id d \<and> mg_channel_type r = ct \<and>
                                        mg_platform_id r = pid) (cd_groups db))
             (sort_key (\<lambda>d. ord (ad_created_at d))
               (filter (\<lambda>d. ad_agent_group_id d = g \<and> ad_target_type d = ToChannel)
                  (eb_destinations (cd_edges db))))) of
        [] \<Rightarrow> None | r # _ \<Rightarrow> Some r)"

subsection \<open>Wirings\<close>

definition cand :: "string \<Rightarrow> nat \<Rightarrow> string" where
  "cand base k = (if k = 1 then base else base @ ''-'' @ nat_str k)"

definition taken :: "string \<Rightarrow> edge_db \<Rightarrow> string set" where
  "taken g db = ad_local_name ` {r \<in> set (eb_destinations db). ad_agent_group_id r = g}"

lemma cand_inject: "0 < j \<Longrightarrow> 0 < k \<Longrightarrow> cand base j = cand base k \<longleftrightarrow> j = k"
  by (auto simp: cand_def)

lemma finite_taken [simp]: "finite (taken g db)"
  by (simp add: taken_def)

definition wiring_destination :: "messaging_group_agent \<Rightarrow> string \<Rightarrow> agent_destination" where
  "wiring_destination w name =
     \<lparr>ad_agent_group_id = ma_agent_group_id w, ad_local_name = name, ad_target_type = ToChannel,
      ad_target_id = ma_messaging_group_id w, ad_created_at = ma_created_at w\<rparr>"

text \<open>The retry loop: the \<open>k\<close>-th round tries \<open>base\<close>, \<open>base-2\<close>, \<open>base-3\<close> and so on.\<close>

function destination_loop :: "messaging_group_agent \<Rightarrow> string \<Rightarrow> nat \<Rightarrow> edge_db \<Rightarrow> edge_db" where
  "destination_loop w base k db =
     (case getDestinationByTarget (ma_agent_group_id w) ToChannel (ma_messaging_group_id w) db of
        Some _ \<Rightarrow> db
      | None \<Rightarrow>
         (case createDestination (wiring_destination w (cand base (Suc k))) db of
            Inr db' \<Rightarrow> db'
          | Inl _ \<Rightarrow> destination_loop w base (Suc k) db))"
  by pat_completeness auto

termination
proof (relation "measure (\<lambda>(w, base, k, db).
    card {n \<in> taken (ma_agent_group_id w) db. \<exists>j > k. n = cand base j})")
  fix w base k db e
  assume "createDestination (wiring_destination w (cand base (Suc k))) db = Inl e"
  then have hit: "cand base (Suc k) \<in> taken (ma_agent_group_id w) db"
    by (force simp: createDestination_def wiring_destination_def taken_def split: if_splits)
  let ?S = "\<lambda>k. {n \<in> taken (ma_agent_group_id w) db. \<exists>j > k. n = cand base j}"
  have "?S (Suc k) \<subseteq> ?S k" by (auto intro: Suc_lessD)
  moreover have "cand base (Suc k) \<in> ?S k" using hit by auto
  moreover have "cand base (Suc k) \<notin> ?S (Suc k)" by (auto simp: cand_inject)
  ultimately have "?S (Suc k) \<subset> ?S k" by blast
  then have "card (?S (Suc k)) < card (?S k)" by (intro psubset_card_mono) auto
  then show "((w, base, Suc k, db), (w, base, k, db)) \<in>
      measure (\<lambda>(w, base, k, db). card {n \<in> taken (ma_agent_group_id w) db. \<exists>j > k. n = cand base j})"
    by simp
qed simp

declare destination_loop.simps [simp del]

definition ensureAgentDestinationForWiring :: "messaging_group_agent \<Rightarrow> chat_db \<Rightarrow> chat_db" where
  "ensureAgentDestinationForWiring w db =
     (case getMessagingGroup (ma_messaging_group_id w) db of
        None \<Rightarrow> db
      | Some g \<Rightarrow>
         (let fallback = mg_channel_type g @ ''-'' @ take 8 (ma_messaging_group_id w);
              base = normalizeName (case mg_name g of Some n \<Rightarrow> if n = [] then fallback else n
                                                    | None \<Rightarrow> fallback)
          in db\<lparr>cd_edges := destination_loop w base 0 (cd_edges db)\<rparr>))"

definition createMessagingGroupAgent :: "messaging_group_agent \<Rightarrow> chat_db \<Rightarrow> chat_db res" where
  "createMessagingGroupAgent w db =
     (if \<exists>r \<in> set (cd_wirings db). ma_id r = ma_id w \<or>
           (ma_messaging_group_id r = ma_messaging_group_id w \<and> ma_agent_group_id r = ma_agent_group_id w)
      then Inl UniqueViolation
      else Inr (ensureAgentDestinationForWiring w (db\<lparr>cd_wirings := cd_wirings db @ [w]\<rparr>)))"

text \<open>\<open>ORDER BY priority DESC, id\<close>.\<close>

definition getMessagingGroupAgents :: "string \<Rightarrow> chat_db \<Rightarrow> messaging_group_agent list" where
  "getMessagingGroupAgents mgid db =
     sort_key (\<lambda>w. - ma_priority w)
       (sort_key ma_id (filter (\<lambda>w. ma_messaging_group_id w = mgid) (cd_wirings db)))"

definition getMessagingGroupAgentByPair ::
    "string \<Rightarrow> string \<Rightarrow> chat_db \<Rightarrow> messaging_group_agent option" where
  "getMessagingGroupAgentByPair mgid agid db =
     find (\<lambda>w. ma_messaging_group_id w = mgid \<and> ma_agent_group_id w = agid) (cd_wirings db)"

definition deleteMessagingGroupAgent :: "string \<Rightarrow> chat_db \<Rightarrow> chat_db" where
  "deleteMessagingGroupAgent i db = db\<lparr>cd_wirings := delete_where (\<lambda>w. ma_id w = i) (cd_wirings db)\<rparr>"

definition getMessagingGroupsByAgentGroup :: "string \<Rightarrow> chat_db \<Rightarrow> messaging_group list" where
  "getMessagingGroupsByAgentGroup agid db =
     concat (map (\<lambda>g. map (\<lambda>_. g) (filter (\<lambda>w. ma_messaging_group_id w = mg_id g \<and>
                                               ma_agent_group_id w = agid) (cd_wirings db)))
       (cd_groups db))"

subsection \<open>The cache of direct-message channels\<close>

definition upsertUserDm :: "user_dm \<Rightarrow> chat_db \<Rightarrow> chat_db" where
  "upsertUserDm row db =
     (let p = (\<lambda>r. dm_user_id r = dm_user_id row \<and> dm_channel_type r = dm_channel_type row)
      in if \<exists>r \<in> set (cd_dms db). p r
         then db\<lparr>cd_dms := update_where p
                   (\<lambda>r. r\<lparr>dm_messaging_group_id := dm_messaging_group_id row,
                          dm_resolved_at := dm_resolved_at row\<rparr>) (cd_dms db)\<rparr>
         else db\<lparr>cd_dms := cd_dms db @ [row]\<rparr>)"

definition getUserDm :: "string \<Rightarrow> string \<Rightarrow> chat_db \<Rightarrow> user_dm option" where
  "getUserDm uid ct db = find (\<lambda>r. dm_user_id r = uid \<and> dm_channel_type r = ct) (cd_dms db)"

definition deleteUserDm :: "string \<Rightarrow> string \<Rightarrow> chat_db \<Rightarrow> chat_db" where
  "deleteUserDm uid ct db =
     db\<lparr>cd_dms := delete_where (\<lambda>r. dm_user_id r = uid \<and> dm_channel_type r = ct) (cd_dms db)\<rparr>"

subsection \<open>What the loop does\<close>

lemma destination_loop_spec:
  "(getDestinationByTarget (ma_agent_group_id w) ToChannel (ma_messaging_group_id w) db \<noteq> None \<and>
      destination_loop w base k db = db) \<or>
   (\<exists>j > k. cand base j \<notin> taken (ma_agent_group_id w) db \<and>
      (\<forall>i. k < i \<and> i < j \<longrightarrow> cand base i \<in> taken (ma_agent_group_id w) db) \<and>
      destination_loop w base k db =
        db\<lparr>eb_destinations := eb_destinations db @ [wiring_destination w (cand base j)]\<rparr>)"
proof (induction w base k db rule: destination_loop.induct)
  case (1 w base k db)
  show ?case
  proof (cases "getDestinationByTarget (ma_agent_group_id w) ToChannel (ma_messaging_group_id w) db")
    case (Some r)
    then show ?thesis by (subst destination_loop.simps) simp
  next
    case None
    show ?thesis
    proof (cases "createDestination (wiring_destination w (cand base (Suc k))) db")
      case (Inr db')
      then have "cand base (Suc k) \<notin> taken (ma_agent_group_id w) db"
        "db' = db\<lparr>eb_destinations := eb_destinations db @ [wiring_destination w (cand base (Suc k))]\<rparr>"
        by (auto simp: createDestination_def wiring_destination_def taken_def split: if_splits)
      then show ?thesis using None Inr
        by (intro disjI2 exI [of _ "Suc k"]) (subst destination_loop.simps, auto)
    next
      case (Inl e)
      then have hit: "cand base (Suc k) \<in> taken (ma_agent_group_id w) db"
        by (force simp: createDestination_def wiring_destination_def taken_def split: if_splits)
      have step: "destination_loop w base k db = destination_loop w base (Suc k) db"
        using None Inl by (subst destination_loop.simps) simp
      from 1 [OF None Inl] None obtain j where j: "j > Suc k"
        "cand base j \<notin> taken (ma_agent_group_id w) db"
        "\<forall>i. Suc k < i \<and> i < j \<longrightarrow> cand base i \<in> taken (ma_agent_group_id w) db"
        "destination_loop w base (Suc k) db =
          db\<lparr>eb_destinations := eb_destinations db @ [wiring_destination w (cand base j)]\<rparr>"
        by auto
      have "\<forall>i. k < i \<and> i < j \<longrightarrow> cand base i \<in> taken (ma_agent_group_id w) db"
        using hit j(3) by (metis Suc_lessI)
      then show ?thesis using j step by (intro disjI2 exI [of _ j]) auto
    qed
  qed
qed

lemma destination_loop_ok [inv_intros]:
  assumes "edges_ok db"
  shows "edges_ok (destination_loop w base k db)"
  using destination_loop_spec [of w db base k] assms
  by (fastforce simp: edges_ok_def wiring_destination_def taken_def)

lemma destination_loop_target:
  "getDestinationByTarget (ma_agent_group_id w) ToChannel (ma_messaging_group_id w)
     (destination_loop w base k db) \<noteq> None"
  using destination_loop_spec [of w db base k]
  by (auto simp: getDestinationByTarget_def find_append wiring_destination_def split: option.splits)

lemma destination_loop_keeps:
  "set (eb_destinations db) \<subseteq> set (eb_destinations (destination_loop w base k db))"
  "eb_policies (destination_loop w base k db) = eb_policies db"
  using destination_loop_spec [of w db base k] by auto

definition chats_ok :: "chat_db \<Rightarrow> bool" where
  "chats_ok db \<longleftrightarrow> distinct (map mg_id (cd_groups db)) \<and>
     distinct (map (\<lambda>r. (mg_channel_type r, mg_platform_id r, mg_instance r)) (cd_groups db)) \<and>
     distinct (map (\<lambda>w. (ma_messaging_group_id w, ma_agent_group_id w)) (cd_wirings db)) \<and>
     edges_ok (cd_edges db)"

lemma chats_ok_if_absent [inv_intros]:
  "chats_ok db \<Longrightarrow> createMessagingGroupIfAbsent g db = Inr (b, db') \<Longrightarrow> chats_ok db'"
  by (auto simp: chats_ok_def createMessagingGroupIfAbsent_def same_address_def split: if_splits)
     (metis image_iff)+

lemma ensure_edges:
  "edges_ok (cd_edges db) \<Longrightarrow> edges_ok (cd_edges (ensureAgentDestinationForWiring w db))"
  "cd_groups (ensureAgentDestinationForWiring w db) = cd_groups db"
  "cd_wirings (ensureAgentDestinationForWiring w db) = cd_wirings db"
  by (simp_all add: ensureAgentDestinationForWiring_def Let_def destination_loop_ok split: option.splits)

lemma chats_ok_wire [inv_intros]:
  assumes "chats_ok db" "createMessagingGroupAgent w db = Inr db'"
  shows "chats_ok db'"
  using assms ensure_edges
  by (force simp: chats_ok_def createMessagingGroupAgent_def split: if_splits)

subsection \<open>Properties\<close>

text \<open>
  Wiring a chat to an agent always ends with the agent able to address the chat: the retry
  loop over taken names returns, the destination exists under a name of its own, no other
  destination or policy changed, and the keys of all tables are still keys.
\<close>
theorem wiring_makes_addressable:
  assumes "chats_ok db" "getMessagingGroup (ma_messaging_group_id w) db = Some g"
    and "createMessagingGroupAgent w db = Inr db'"
  shows "chats_ok db' \<and>
    hasDestination (ma_agent_group_id w) ToChannel (ma_messaging_group_id w) (cd_edges db') \<and>
    set (eb_destinations (cd_edges db)) \<subseteq> set (eb_destinations (cd_edges db')) \<and>
    eb_policies (cd_edges db') = eb_policies (cd_edges db)"
proof -
  have "getMessagingGroup (ma_messaging_group_id w) (db\<lparr>cd_wirings := cd_wirings db @ [w]\<rparr>) = Some g"
    using assms(2) by (simp add: getMessagingGroup_def)
  then obtain base where "cd_edges db' = destination_loop w base 0 (cd_edges db)"
    using assms(3)
    by (auto simp: createMessagingGroupAgent_def ensureAgentDestinationForWiring_def Let_def split: if_splits)
  then show ?thesis
    using chats_ok_wire [OF assms(1,3)] destination_loop_target destination_loop_keeps
    by (simp add: hasDestination_iff)
qed

definition demo_chat :: messaging_group where
  "demo_chat = \<lparr>mg_id = ''mg-1'', mg_channel_type = ''slack'', mg_platform_id = ''C1'',
     mg_instance = ''slack'', mg_name = Some ''Ops Room'', mg_is_group = True,
     mg_unknown_sender_policy = Strict, mg_denied_at = None, mg_detached_at = None,
     mg_created_at = Iso 0\<rparr>"

definition demo_wiring :: messaging_group_agent where
  "demo_wiring = \<lparr>ma_id = ''w-1'', ma_messaging_group_id = ''mg-1'', ma_agent_group_id = ''a'',
     ma_engage_mode = Mention, ma_engage_pattern = None, ma_sender_scope = KnownSenders,
     ma_ignored_message_policy = Accumulate, ma_session_mode = Shared, ma_priority = 0,
     ma_threads = None, ma_created_at = Iso 5\<rparr>"

definition demo_chats :: chat_db where
  "demo_chats = \<lparr>cd_groups = [demo_chat], cd_wirings = [],
     cd_edges = \<lparr>eb_destinations = [\<lparr>ad_agent_group_id = ''a'', ad_local_name = ''ops-room'',
       ad_target_type = ToChannel, ad_target_id = ''mg-0'', ad_created_at = Iso 0\<rparr>], eb_policies = []\<rparr>,
     cd_dms = []\<rparr>"

lemma demo_chats_ok: "chats_ok demo_chats"
  by (simp add: chats_ok_def edges_ok_def demo_chats_def)

lemma demo_wiring_name:
  "(case createMessagingGroupAgent demo_wiring demo_chats of
      Inr db \<Rightarrow> map ad_local_name (eb_destinations (cd_edges db)) | Inl _ \<Rightarrow> []) =
   [''ops-room'', ''ops-room-2'']"
  by code_simp

theorem wiring_makes_addressable_witness:
  "\<exists>db'. createMessagingGroupAgent demo_wiring demo_chats = Inr db' \<and>
     hasDestination ''a'' ToChannel ''mg-1'' (cd_edges db')"
proof -
  obtain db' where db': "createMessagingGroupAgent demo_wiring demo_chats = Inr db'"
    by (simp add: createMessagingGroupAgent_def demo_chats_def)
  have "getMessagingGroup (ma_messaging_group_id demo_wiring) demo_chats = Some demo_chat" by code_simp
  from wiring_makes_addressable [OF demo_chats_ok this db'] db' show ?thesis
    by (simp add: demo_wiring_def)
qed

end
