(* ===== verification/ChannelDefaults.thy ===== *)
theory ChannelDefaults
  imports Types
begin

text \<open>
  The registry of live channel adapters (\<open>src/channels/channel-registry.ts\<close>) and the defaults a
  new wiring is created with (\<open>src/channels/channel-defaults.ts\<close>).  An adapter is what the host
  reads of it: its platform, instance, thread capability, declared defaults and \<open>openDM\<close>, whose
  call is a parameter of the adapter (\<open>Inl\<close> when it throws).  The two \<open>Map\<close>s are association
  lists in insertion order.
\<close>

subsection \<open>Declarations\<close>

record context_defaults =
  cx_engageMode :: engage_mode
  cx_engagePattern :: "string option"
  cx_threads :: bool
  cx_sessionMode :: "session_mode option"
  cx_unknownSenderPolicy :: unknown_sender_policy

datatype mention_signal = PlatformMentions | DmOnlyMentions | NeverMentions

record channel_defaults =
  cdf_dm :: context_defaults
  cdf_group :: context_defaults
  cdf_mentions :: mention_signal

record adapter =
  ap_channelType :: string
  ap_instance :: "string option"
  ap_supportsThreads :: bool
  ap_defaults :: "channel_defaults option"
  ap_openDM :: "(string \<Rightarrow> string option res) option"

record registry =
  rg_registered :: "(string \<times> channel_defaults option) list"
  rg_active :: "(string \<times> adapter) list"

subsection \<open>Lookups\<close>

definition getChannelAdapterExact :: "registry \<Rightarrow> string \<Rightarrow> adapter option" where
  "getChannelAdapterExact rg key = map_of (rg_active rg) key"

definition getChannelAdapter :: "registry \<Rightarrow> string \<Rightarrow> adapter option" where
  "getChannelAdapter rg key =
     (case map_of (rg_active rg) key of
        Some a \<Rightarrow> Some a
      | None \<Rightarrow> find (\<lambda>a. ap_channelType a = key) (map snd (rg_active rg)))"

definition fallbackChannelDefaults :: "bool \<Rightarrow> channel_defaults" where
  "fallbackChannelDefaults supportsThreads =
     \<lparr>cdf_dm = \<lparr>cx_engageMode = Pattern, cx_engagePattern = Some ''.'', cx_threads = supportsThreads,
                cx_sessionMode = None, cx_unknownSenderPolicy = RequestApproval\<rparr>,
      cdf_group = \<lparr>cx_engageMode = MentionSticky, cx_engagePattern = None, cx_threads = supportsThreads,
                   cx_sessionMode = None, cx_unknownSenderPolicy = RequestApproval\<rparr>,
      cdf_mentions = PlatformMentions\<rparr>"

definition registered_defaults :: "registry \<Rightarrow> string \<Rightarrow> channel_defaults option" where
  "registered_defaults rg key = (case map_of (rg_registered rg) key of Some d \<Rightarrow> d | None \<Rightarrow> None)"

definition lookupDeclaredDefaults ::
    "registry \<Rightarrow> string \<Rightarrow> string option \<Rightarrow> adapter option \<times> channel_defaults option" where
  "lookupDeclaredDefaults rg key channelType =
     (let live = getChannelAdapter rg key;
          typeKey = (case live of Some a \<Rightarrow> Some (ap_channelType a) | None \<Rightarrow> channelType);
          registered = (case registered_defaults rg key of
                          Some d \<Rightarrow> Some d
                        | None \<Rightarrow> (case typeKey of Some t \<Rightarrow> registered_defaults rg t | None \<Rightarrow> None))
      in case live of
           Some a \<Rightarrow> (case ap_defaults a of Some d \<Rightarrow> (live, Some d) | None \<Rightarrow> (live, registered))
         | None \<Rightarrow> (live, registered))"

definition getChannelDefaults :: "registry \<Rightarrow> string \<Rightarrow> string option \<Rightarrow> channel_defaults" where
  "getChannelDefaults rg key channelType =
     (case lookupDeclaredDefaults rg key channelType of
        (_, Some d) \<Rightarrow> d
      | (Some a, None) \<Rightarrow> fallbackChannelDefaults (ap_supportsThreads a)
      | (None, None) \<Rightarrow> fallbackChannelDefaults False)"

definition hasDeclaredChannelDefaults :: "registry \<Rightarrow> string \<Rightarrow> string option \<Rightarrow> bool" where
  "hasDeclaredChannelDefaults rg key channelType = (snd (lookupDeclaredDefaults rg key channelType) \<noteq> None)"

subsection \<open>Starting adapters\<close>

text \<open>
  \<open>adapter.setup\<close> is the list of the outcomes of its successive calls: \<open>None\<close> a success, \<open>Some
  True\<close> a network error, \<open>Some False\<close> any other error.  A missing entry is a success.  The
  result is the number of calls and whether the last one succeeded.
\<close>

definition SETUP_RETRY_DELAYS_MS :: "nat list" where
  "SETUP_RETRY_DELAYS_MS = [2000, 5000, 10000]"

fun setup_attempts :: "bool option list \<Rightarrow> nat \<Rightarrow> nat \<times> bool" where
  "setup_attempts [] attempt = (Suc attempt, True)"
| "setup_attempts (None # _) attempt = (Suc attempt, True)"
| "setup_attempts (Some network # rest) attempt =
     (if network \<and> attempt < length SETUP_RETRY_DELAYS_MS then setup_attempts rest (Suc attempt)
      else (Suc attempt, False))"

datatype start_result = Started | AlreadyActive | NoCredentials

definition startChannelAdapter ::
    "(string \<Rightarrow> adapter option) \<Rightarrow> bool option list \<Rightarrow> string \<Rightarrow> registry \<Rightarrow> (start_result \<times> registry) res" where
  "startChannelAdapter factory setups key rg =
     (if map_of (rg_active rg) key \<noteq> None then Inr (AlreadyActive, rg)
      else if map_of (rg_registered rg) key = None
      then Inl (Error (''startChannelAdapter: no registration for '' @ key))
      else case factory key of
             None \<Rightarrow> Inr (NoCredentials, rg)
           | Some a \<Rightarrow>
              (if snd (setup_attempts setups 0)
               then let k = (case ap_instance a of Some i \<Rightarrow> i | None \<Rightarrow> ap_channelType a)
                    in Inr (Started, rg\<lparr>rg_active := map_set k a (rg_active rg)\<rparr>)
               else Inl (Error ''setup failed'')))"

subsection \<open>The defaults of a new wiring\<close>

definition regex_special :: "char \<Rightarrow> bool" where
  "regex_special c \<longleftrightarrow> c \<in> set ''.*+?^${}()|[]'' \<or> c = CHR 0x5C"

definition escapeRegex :: "string \<Rightarrow> string" where
  "escapeRegex text = concat (map (\<lambda>c. if regex_special c then [CHR 0x5C, c] else [c]) text)"

definition word_char :: "char \<Rightarrow> bool" where
  "word_char c \<longleftrightarrow> (CHR ''a'' \<le> c \<and> c \<le> CHR ''z'') \<or> (CHR ''A'' \<le> c \<and> c \<le> CHR ''Z'') \<or>
     (CHR ''0'' \<le> c \<and> c \<le> CHR ''9'') \<or> c = CHR ''_''"

text \<open>
  \<open>String.replaceAll\<close> with a text pattern expands dollar sequences of the replacement: \<open>$$\<close> is a
  dollar, \<open>$&\<close> the matched text, \<open>$`\<close> what is before the match and \<open>$'\<close> what is after it.
\<close>

fun expand :: "string \<Rightarrow> string \<Rightarrow> string \<Rightarrow> string \<Rightarrow> string" where
  "expand pre pat post [] = []"
| "expand pre pat post [c] = [c]"
| "expand pre pat post (c # d # cs) =
     (if c = CHR ''$'' \<and> d = CHR ''$'' then CHR ''$'' # expand pre pat post cs
      else if c = CHR ''$'' \<and> d = CHR ''&'' then pat @ expand pre pat post cs
      else if c = CHR ''$'' \<and> d = CHR 0x60 then pre @ expand pre pat post cs
      else if c = CHR ''$'' \<and> d = CHR 0x27 then post @ expand pre pat post cs
      else c # expand pre pat post (d # cs))"

fun replace_all :: "string \<Rightarrow> string \<Rightarrow> string \<Rightarrow> nat \<Rightarrow> string \<Rightarrow> string" where
  "replace_all pat repl pre skip [] = []"
| "replace_all pat repl pre (Suc skip) (c # cs) = replace_all pat repl (pre @ [c]) skip cs"
| "replace_all pat repl pre 0 (c # cs) =
     (if prefix pat (c # cs)
      then expand pre pat (drop (length pat) (c # cs)) repl @
           replace_all pat repl (pre @ [c]) (length pat - 1) cs
      else c # replace_all pat repl (pre @ [c]) 0 cs)"

definition replaceAll :: "string \<Rightarrow> string \<Rightarrow> string \<Rightarrow> string" where
  "replaceAll s pat repl = replace_all pat repl [] 0 s"

definition substituteName :: "string \<Rightarrow> string \<Rightarrow> string" where
  "substituteName pattern name =
     (let b = [CHR 0x5C, CHR ''b''];
          out1 = (if name \<noteq> [] \<and> word_char (hd name) then pattern
                  else replaceAll pattern (b @ ''{name}'') ''{name}'');
          out2 = (if name \<noteq> [] \<and> word_char (last name) then out1
                  else replaceAll out1 (''{name}'' @ b) ''{name}'')
      in replaceAll out2 ''{name}'' (escapeRegex name))"

record wiring_defaults =
  wd_engage_mode :: engage_mode
  wd_engage_pattern :: "string option"
  wd_session_mode :: session_mode
  wd_threads :: "bool option"

definition resolveWiringDefaults ::
    "registry \<Rightarrow> string \<Rightarrow> bool \<Rightarrow> string \<Rightarrow> string option \<Rightarrow> wiring_defaults res" where
  "resolveWiringDefaults rg key isGroup agentName channelType =
     (let decl = getChannelDefaults rg key channelType;
          ctx = (if isGroup then cdf_group decl else cdf_dm decl);
          sm = (case cx_sessionMode ctx of Some m \<Rightarrow> m | None \<Rightarrow> Shared);
          th = (if cx_sessionMode ctx = Some PerThread then Some True else None);
          effective = (if th = None then cx_threads ctx else True);
          mode = (if cx_engageMode ctx = MentionSticky \<and> \<not> effective then Mention else cx_engageMode ctx)
      in if mode \<noteq> Pattern
         then Inr \<lparr>wd_engage_mode = mode, wd_engage_pattern = None, wd_session_mode = sm, wd_threads = th\<rparr>
         else case cx_engagePattern ctx of
                None \<Rightarrow> Inl (Error ''engageMode pattern without an engagePattern'')
              | Some p \<Rightarrow>
                  if p = [] then Inl (Error ''engageMode pattern without an engagePattern'')
                  else Inr \<lparr>wd_engage_mode = Pattern, wd_engage_pattern = Some (substituteName p agentName),
                            wd_session_mode = sm, wd_threads = th\<rparr>)"

definition resolveUnknownSenderPolicy ::
    "registry \<Rightarrow> string \<Rightarrow> bool \<Rightarrow> string option \<Rightarrow> unknown_sender_policy" where
  "resolveUnknownSenderPolicy rg key isGroup channelType =
     (let decl = getChannelDefaults rg key channelType
      in cx_unknownSenderPolicy (if isGroup then cdf_group decl else cdf_dm decl))"

definition resolveThreadPolicy :: "bool option \<Rightarrow> channel_defaults \<Rightarrow> bool \<Rightarrow> bool \<Rightarrow> bool" where
  "resolveThreadPolicy wiringThreads decl isGroup supportsThreads =
     (let inherited = cx_threads (if isGroup then cdf_group decl else cdf_dm decl);
          wanted = (case wiringThreads of None \<Rightarrow> inherited | Some b \<Rightarrow> b)
      in wanted \<and> supportsThreads)"

text \<open>
  \<open>validateEngageAgainstChannel\<close> on the untyped values of a wiring: each \<open>throw\<close> is a
  constructor; the result is the possibly downgraded \<open>engage_mode\<close>.
\<close>

record engage_values =
  ev_engage_mode :: js
  ev_engage_pattern :: js
  ev_threads :: js
  ev_session_mode :: js

datatype engage_error = PatternRequired | PerThreadNeedsThreads bool | NeverEngages

definition js_nullish :: "js \<Rightarrow> bool" where
  "js_nullish v \<longleftrightarrow> v = JUndefined \<or> v = JNull"

definition validateEngageAgainstChannel ::
    "registry \<Rightarrow> engage_values \<Rightarrow> messaging_group \<Rightarrow> engage_error + js" where
  "validateEngageAgainstChannel rg w g =
     (let key = mg_instance g;
          ct = Some (mg_channel_type g);
          ctx = (\<lambda>d. if mg_is_group g then cdf_group d else cdf_dm d);
          mode = ev_engage_mode w;
          explicit = \<not> js_nullish (ev_threads w);
          honored = (if explicit then ev_threads w \<noteq> JNum 0 \<and> ev_threads w \<noteq> JBool False
                     else \<not> hasDeclaredChannelDefaults rg key ct \<or>
                          cx_threads (ctx (getChannelDefaults rg key ct)))
      in if mode = JStr ''pattern'' \<and> (js_nullish (ev_engage_pattern w) \<or> ev_engage_pattern w = JStr [])
         then Inl PatternRequired
         else if ev_session_mode w = JStr ''per-thread'' \<and> \<not> honored
         then Inl (PerThreadNeedsThreads explicit)
         else if mode \<noteq> JStr ''mention'' \<and> mode \<noteq> JStr ''mention-sticky'' then Inr mode
         else if \<not> hasDeclaredChannelDefaults rg key ct then Inr mode
         else if cdf_mentions (getChannelDefaults rg key ct) = NeverMentions then Inl NeverEngages
         else if mode = JStr ''mention-sticky'' \<and>
                 \<not> (if js_nullish (ev_threads w) then cx_threads (ctx (getChannelDefaults rg key ct))
                    else ev_threads w \<noteq> JNum 0)
         then Inr (JStr ''mention'')
         else Inr mode)"

subsection \<open>Properties\<close>

lemma setup_attempts_bound:
  "attempt \<le> length SETUP_RETRY_DELAYS_MS \<Longrightarrow>
   fst (setup_attempts os attempt) \<le> Suc (length SETUP_RETRY_DELAYS_MS)"
  by (induction os attempt rule: setup_attempts.induct) auto

text \<open>
  The defaults a wiring is created with are coherent: a pattern is present exactly in
  pattern mode, sticky engagement is chosen only where thread ids are honoured, a per-thread
  session always stamps threads on, and the stamp is never the opt-out.
\<close>
theorem wiring_defaults_coherent:
  assumes "resolveWiringDefaults rg key isGroup name ct = Inr wd"
  shows "(wd_engage_mode wd = Pattern \<longleftrightarrow> wd_engage_pattern wd \<noteq> None) \<and>
    (wd_engage_mode wd = MentionSticky \<longrightarrow>
       resolveThreadPolicy (wd_threads wd) (getChannelDefaults rg key ct) isGroup True) \<and>
    (wd_session_mode wd = PerThread \<longrightarrow> wd_threads wd = Some True) \<and>
    wd_threads wd \<noteq> Some False"
  using assms
  by (auto simp: resolveWiringDefaults_def resolveThreadPolicy_def Let_def
           split: if_splits option.splits)

definition demo_registry :: registry where
  "demo_registry = \<lparr>rg_registered = [(''slack'', None)],
     rg_active = [(''slack'', \<lparr>ap_channelType = ''slack'', ap_instance = None, ap_supportsThreads = False,
                              ap_defaults = None, ap_openDM = None\<rparr>)]\<rparr>"

theorem wiring_defaults_coherent_witness:
  "resolveWiringDefaults demo_registry ''slack'' True ''Nano'' None =
     Inr \<lparr>wd_engage_mode = Mention, wd_engage_pattern = None, wd_session_mode = Shared, wd_threads = None\<rparr> \<and>
   \<lparr>wd_engage_mode = Mention, wd_engage_pattern = None, wd_session_mode = Shared, wd_threads = None :: bool option\<rparr>
     \<noteq> \<lparr>wd_engage_mode = Pattern, wd_engage_pattern = None, wd_session_mode = Shared, wd_threads = None\<rparr>"
proof -
  have r: "resolveWiringDefaults demo_registry ''slack'' True ''Nano'' None =
     Inr \<lparr>wd_engage_mode = Mention, wd_engage_pattern = None, wd_session_mode = Shared, wd_threads = None\<rparr>"
    by code_simp
  then show ?thesis using wiring_defaults_coherent [OF r] by simp
qed

text \<open>
  A name without a dollar is inserted as it is; one with a dollar and an ampersand is not: the
  sequence in the escaped name is expanded and the placeholder itself comes back.
\<close>

lemma expand_literal: "CHR ''$'' \<notin> set repl \<Longrightarrow> expand pre pat post repl = repl"
  by (induction pre pat post repl rule: expand.induct) auto

lemma escapeRegex_dollar: "CHR ''$'' \<notin> set name \<Longrightarrow> CHR ''$'' \<notin> set (escapeRegex name)"
  by (auto simp: escapeRegex_def split: if_splits)

lemma substitute_name_expands_dollar:
  "substituteName ''{name}'' ''A$&B'' = ''A'' @ [CHR 0x5C] @ ''{name}B''"
  by code_simp

end
