(* ===== verification/Approvers.thy ===== *)
theory Approvers
  imports Permissions MessagingGroups ChannelDefaults
begin

text \<open>
  Who approves, and where they are asked (\<open>pickApprover\<close> and \<open>pickApprovalDelivery\<close> of
  \<open>src/modules/approvals/primitive.ts\<close>, \<open>ensureUserDm\<close> of
  \<open>src/modules/permissions/user-dm.ts\<close>).  The id of a new chat row is a parameter
  (\<open>mg-\<close> with the clock and a random suffix in the source), and so is the time of the call.
\<close>

subsection \<open>Picking approvers\<close>

definition pickApprover :: "perm_db \<Rightarrow> string option \<Rightarrow> string list" where
  "pickApprover db agentGroupId =
     (let scoped = (case agentGroupId of
                      Some g \<Rightarrow> if g = [] then [] else getAdminsOfAgentGroup g db
                    | None \<Rightarrow> [])
      in rev (remdups (rev (map ur_user_id (scoped @ getGlobalAdmins db @ getOwners db)))))"

lemma pickApprover_distinct: "distinct (pickApprover db g)"
  by (simp add: pickApprover_def Let_def)

lemma set_pickApprover:
  "g \<noteq> [] \<Longrightarrow> u \<in> set (pickApprover db (Some g)) \<longleftrightarrow> hasAdminPrivilege db u g"
  by (auto simp: pickApprover_def Let_def getAdminsOfAgentGroup_def getGlobalAdmins_def getOwners_def
                 hasAdminPrivilege_def isOwner_def isGlobalAdmin_def isAdminOfAgentGroup_def
                 has_role_def)

lemma set_pickApprover_None:
  "u \<in> set (pickApprover db None) \<longleftrightarrow> isGlobalAdmin db u \<or> isOwner db u"
  by (auto simp: pickApprover_def Let_def getGlobalAdmins_def getOwners_def isOwner_def
                 isGlobalAdmin_def has_role_def)

subsection \<open>Direct-message channels\<close>

fun before_colon :: "string \<Rightarrow> (string \<times> string) option" where
  "before_colon [] = None"
| "before_colon (c # cs) =
     (if c = CHR '':'' then Some ([], cs) else map_option (\<lambda>(a, b). (c # a, b)) (before_colon cs))"

definition parseUserId :: "registry \<Rightarrow> user \<Rightarrow> (string \<times> string) option" where
  "parseUserId rg u =
     (case before_colon (u_id u) of
        None \<Rightarrow> None
      | Some (pre, handle) \<Rightarrow>
          (if pre = [] \<or> handle = [] then None
           else if getChannelAdapter rg pre = None \<and> u_kind u \<noteq> [] \<and> getChannelAdapter rg (u_kind u) \<noteq> None
           then Some (u_kind u, u_id u)
           else Some (pre, handle)))"

definition channelTypeOf :: "string \<Rightarrow> string" where
  "channelTypeOf userId = (case before_colon userId of Some (pre, _) \<Rightarrow> pre | None \<Rightarrow> [])"

definition resolveDmPlatformId :: "registry \<Rightarrow> string \<Rightarrow> string \<Rightarrow> string option \<Rightarrow> string option" where
  "resolveDmPlatformId rg channelType handle inst =
     (case (case inst of None \<Rightarrow> getChannelAdapter rg channelType | Some i \<Rightarrow> getChannelAdapterExact rg i) of
        None \<Rightarrow> None
      | Some a \<Rightarrow>
          (case ap_openDM a of
             None \<Rightarrow> Some handle
           | Some openDM \<Rightarrow> (case openDM handle of Inl _ \<Rightarrow> None | Inr r \<Rightarrow> r)))"

definition new_dm_group ::
    "string \<Rightarrow> stamp \<Rightarrow> user \<Rightarrow> string \<Rightarrow> string \<Rightarrow> string option \<Rightarrow> messaging_group" where
  "new_dm_group newId now u channelType pid inst =
     \<lparr>mg_id = newId, mg_channel_type = channelType, mg_platform_id = pid,
      mg_instance = (case inst of Some i \<Rightarrow> i | None \<Rightarrow> channelType),
      mg_name = u_display_name u, mg_is_group = False, mg_unknown_sender_policy = Strict,
      mg_denied_at = None, mg_detached_at = None, mg_created_at = now\<rparr>"

text \<open>\<open>ensureUserDm\<close>: the cached row, else find or create the chat; \<open>Inl\<close> when the insert throws.\<close>

definition ensureUserDm ::
    "registry \<Rightarrow> stamp \<Rightarrow> string \<Rightarrow> string \<Rightarrow> string option \<Rightarrow> perm_db \<Rightarrow> chat_db
       \<Rightarrow> (messaging_group option \<times> chat_db) res" where
  "ensureUserDm rg now newId userId inst pdb cdb =
     (case getUser userId pdb of
        None \<Rightarrow> Inr (None, cdb)
      | Some u \<Rightarrow>
         (case parseUserId rg u of
            None \<Rightarrow> Inr (None, cdb)
          | Some (channelType, handle) \<Rightarrow>
             (let cacheable = (inst = None \<or> inst = Some channelType);
                  cached = (if cacheable
                            then case getUserDm userId channelType cdb of
                                   None \<Rightarrow> None
                                 | Some row \<Rightarrow>
                                    (case getMessagingGroup (dm_messaging_group_id row) cdb of
                                       Some g \<Rightarrow> if inst = None \<or> inst = Some (mg_instance g) then Some g else None
                                     | None \<Rightarrow> None)
                            else None);
                  remember = (\<lambda>g db. if cacheable
                                then upsertUserDm \<lparr>dm_user_id = userId, dm_channel_type = channelType,
                                       dm_messaging_group_id = mg_id g, dm_resolved_at = now\<rparr> db
                                else db)
              in case cached of
                   Some g \<Rightarrow> Inr (Some g, cdb)
                 | None \<Rightarrow>
                    (case resolveDmPlatformId rg channelType handle inst of
                       None \<Rightarrow> Inr (None, cdb)
                     | Some pid \<Rightarrow>
                        (if pid = [] then Inr (None, cdb)
                         else case getMessagingGroupByPlatform channelType pid inst cdb of
                                Some g \<Rightarrow> Inr (Some g, remember g cdb)
                              | None \<Rightarrow>
                                 (let g = new_dm_group newId now u channelType pid inst
                                  in case createMessagingGroup g cdb of
                                       Inl e \<Rightarrow> Inl e
                                     | Inr db \<Rightarrow> Inr (Some g, remember g db)))))))"

subsection \<open>Choosing where the card goes\<close>

text \<open>
  The two passes of \<open>pickApprovalDelivery\<close>: approvers of the origin's channel first, through the
  origin's instance, then the others.  Ids for new chats are taken from a supply.
\<close>

fun first_reachable ::
    "(string \<Rightarrow> string \<Rightarrow> chat_db \<Rightarrow> (messaging_group option \<times> chat_db) res)
       \<Rightarrow> string list \<Rightarrow> string list \<Rightarrow> chat_db
       \<Rightarrow> ((string \<times> messaging_group) option \<times> string list \<times> chat_db) res" where
  "first_reachable dm ids [] db = Inr (None, ids, db)"
| "first_reachable dm ids (u # us) db =
     (case dm (case ids of [] \<Rightarrow> [] | i # _ \<Rightarrow> i) u db of
        Inl e \<Rightarrow> Inl e
      | Inr (Some g, db') \<Rightarrow> Inr (Some (u, g), tl ids, db')
      | Inr (None, db') \<Rightarrow> first_reachable dm (tl ids) us db')"

definition pickApprovalDelivery ::
    "registry \<Rightarrow> stamp \<Rightarrow> string list \<Rightarrow> string list \<Rightarrow> string \<Rightarrow> string option \<Rightarrow> perm_db \<Rightarrow> chat_db
       \<Rightarrow> ((string \<times> messaging_group) option \<times> chat_db) res" where
  "pickApprovalDelivery rg now ids approvers originChannelType originInstance pdb cdb =
     (let same = (\<lambda>u. originChannelType \<noteq> [] \<and> channelTypeOf u = originChannelType)
      in case first_reachable (\<lambda>i u db. ensureUserDm rg now i u originInstance pdb db) ids
                (filter same approvers) cdb of
           Inl e \<Rightarrow> Inl e
         | Inr (Some r, _, db) \<Rightarrow> Inr (Some r, db)
         | Inr (None, ids', db) \<Rightarrow>
            (case first_reachable (\<lambda>i u db. ensureUserDm rg now i u None pdb db) ids'
                    (filter (\<lambda>u. \<not> same u) approvers) db of
               Inl e \<Rightarrow> Inl e
             | Inr (r, _, db') \<Rightarrow> Inr (r, db')))"

lemma first_reachable_mem:
  "first_reachable dm ids us db = Inr (Some (u, g), ids', db') \<Longrightarrow> u \<in> set us"
  by (induction dm ids us db rule: first_reachable.induct)
     (auto split: sum.splits prod.splits option.splits)

lemma pickApprovalDelivery_mem:
  "pickApprovalDelivery rg now ids approvers ct inst pdb cdb = Inr (Some (u, g), db) \<Longrightarrow>
   u \<in> set approvers"
  by (auto simp: pickApprovalDelivery_def Let_def dest!: first_reachable_mem
           split: sum.splits prod.splits option.splits)

lemma upsertUserDm_groups [simp]: "cd_groups (upsertUserDm row db) = cd_groups db"
  by (simp add: upsertUserDm_def Let_def)

definition only_strict_added :: "chat_db \<Rightarrow> chat_db \<Rightarrow> bool" where
  "only_strict_added db db' \<longleftrightarrow>
     (\<exists>new. cd_groups db' = cd_groups db @ new \<and>
        (\<forall>g \<in> set new. mg_unknown_sender_policy g = Strict \<and> \<not> mg_is_group g))"

lemma only_strict_added_refl [simp]: "only_strict_added db db"
  by (simp add: only_strict_added_def)

lemma only_strict_added_trans:
  "only_strict_added a b \<Longrightarrow> only_strict_added b c \<Longrightarrow> only_strict_added a c"
  by (auto simp: only_strict_added_def)

lemma ensureUserDm_strict:
  "ensureUserDm rg now i u inst pdb cdb = Inr (r, db) \<Longrightarrow> only_strict_added cdb db"
  by (auto simp: ensureUserDm_def Let_def createMessagingGroup_def new_dm_group_def
                 only_strict_added_def
           split: option.splits prod.splits if_splits)

lemma first_reachable_strict:
  assumes "\<And>i u db r db'. dm i u db = Inr (r, db') \<Longrightarrow> only_strict_added db db'"
  shows "first_reachable dm ids us db = Inr (r, ids', db') \<Longrightarrow> only_strict_added db db'"
proof (induction us arbitrary: ids db)
  case (Cons u us)
  obtain d g where d: "dm (case ids of [] \<Rightarrow> [] | i # _ \<Rightarrow> i) u db = Inr (g, d)"
    using Cons.prems by (auto split: sum.splits prod.splits option.splits)
  show ?case
  proof (cases g)
    case None
    then have "first_reachable dm (tl ids) us d = Inr (r, ids', db')"
      using Cons.prems d by simp
    then show ?thesis using Cons.IH assms [OF d] only_strict_added_trans by blast
  next
    case (Some g')
    then show ?thesis using Cons.prems d assms [OF d] by simp
  qed
qed simp

subsection \<open>Properties\<close>

text \<open>
  The person an approval card for an agent group goes to has administration rights over
  that group at that moment (an admin of the group, a global admin or an owner), and the only
  chats that looking for a reachable one may create are strict direct messages, never a chat
  that admits strangers.
\<close>
theorem approval_target_privileged:
  assumes "pickApprovalDelivery rg now ids (pickApprover pdb (Some g)) ct inst pdb cdb =
             Inr (Some (u, chat), db)" "g \<noteq> []"
  shows "hasAdminPrivilege pdb u g \<and> only_strict_added cdb db"
proof
  show "hasAdminPrivilege pdb u g"
    using pickApprovalDelivery_mem [OF assms(1)] set_pickApprover [OF assms(2)] by simp
  have st: "first_reachable (\<lambda>i u db. ensureUserDm rg now i u j pdb db) ids us d = Inr (r, ids', d') \<Longrightarrow>
      only_strict_added d d'" for j ids us d r ids' d'
    by (rule first_reachable_strict) (auto dest: ensureUserDm_strict)
  show "only_strict_added cdb db"
    using assms(1)
    by (auto simp: pickApprovalDelivery_def Let_def split: sum.splits prod.splits option.splits
             dest!: st intro: only_strict_added_trans)
qed

definition demo_perms :: perm_db where
  "demo_perms = \<lparr>
     pd_users = [\<lparr>u_id = ''slack:u1'', u_kind = ''slack'', u_display_name = None, u_created_at = Iso 0\<rparr>,
                 \<lparr>u_id = ''slack:u2'', u_kind = ''slack'', u_display_name = None, u_created_at = Iso 0\<rparr>],
     pd_roles = [\<lparr>ur_user_id = ''slack:u1'', ur_role = Owner, ur_agent_group_id = None,
                  ur_granted_by = None, ur_granted_at = Iso 0\<rparr>],
     pd_members = []\<rparr>"

theorem approval_target_privileged_witness:
  "hasAdminPrivilege demo_perms ''slack:u1'' ''a''"
proof -
  obtain chat db where
    "pickApprovalDelivery demo_registry (Iso 9) [''mg-9''] (pickApprover demo_perms (Some ''a''))
       ''slack'' None demo_perms demo_chats = Inr (Some (''slack:u1'', chat), db)"
  proof -
    have "(case pickApprovalDelivery demo_registry (Iso 9) [''mg-9''] (pickApprover demo_perms (Some ''a''))
       ''slack'' None demo_perms demo_chats of Inr (Some (u, _), _) \<Rightarrow> u = ''slack:u1'' | _ \<Rightarrow> False)"
      by code_simp
    then show thesis using that by (auto split: sum.splits prod.splits option.splits)
  qed
  from approval_target_privileged [OF this] show ?thesis by simp
qed

end
