(* ===== verification/SenderAdmission.thy ===== *)
theory SenderAdmission
  imports Approvers
begin

text \<open>
  Who may talk to an agent at all (\<open>src/modules/permissions/index.ts\<close>, \<open>guard.ts\<close>,
  \<open>sender-approval.ts\<close>, \<open>db/pending-sender-approvals.ts\<close>, \<open>src/db/dropped-messages.ts\<close>): how a
  sender is identified, the access and sender-scope gates, the admission card of an unknown
  sender and what a click on it does, and the polite refusal with its 24 hour stamp.

  The flows started without being awaited run to their end here; what they hand to the delivery
  adapter is a list, and a delivery that fails changes no state.  Fresh ids and the clock are
  fields of the environment.  An event stored as text is the event, \<open>None\<close> when the text does
  not parse.  An insert that meets a used fresh id ends a flow in the state before its search.
\<close>

subsection \<open>State\<close>

record pending_sender =
  ps_id :: string
  ps_messaging_group_id :: string
  ps_agent_group_id :: string
  ps_sender_identity :: string
  ps_sender_name :: js
  ps_original_message :: "inbound_event option"
  ps_approver_user_id :: string
  ps_created_at :: stamp
  ps_title :: string
  ps_question :: string
  ps_options_json :: js

record dropped_row =
  dr_channel_type :: string
  dr_platform_id :: string
  dr_user_id :: "string option"
  dr_sender_name :: js
  dr_reason :: string
  dr_messaging_group_id :: "string option"
  dr_agent_group_id :: "string option"
  dr_message_count :: nat
  dr_first_seen :: stamp
  dr_last_seen :: stamp

record gate_db =
  gd_perm :: perm_db
  gd_chat :: chat_db
  gd_senders :: "pending_sender list"
  gd_dropped :: "dropped_row list"
  gd_agents :: "agent_group list"

record gate_env =
  ge_registry :: registry
  ge_now :: int
  ge_ids :: "string list"
  ge_adapter :: bool

subsection \<open>Dropped messages\<close>

definition js_coalesce :: "js \<Rightarrow> js \<Rightarrow> js" where
  "js_coalesce a b = (if a = JNull \<or> a = JUndefined then b else a)"

definition recordDroppedMessage :: "stamp \<Rightarrow> dropped_row \<Rightarrow> dropped_row list \<Rightarrow> dropped_row list" where
  "recordDroppedMessage now m rows =
     (let p = (\<lambda>r. dr_channel_type r = dr_channel_type m \<and> dr_platform_id r = dr_platform_id m)
      in if \<exists>r \<in> set rows. p r
         then update_where p
                (\<lambda>r. r\<lparr>dr_user_id := (case dr_user_id m of Some u \<Rightarrow> Some u | None \<Rightarrow> dr_user_id r),
                       dr_sender_name := js_coalesce (dr_sender_name m) (dr_sender_name r),
                       dr_reason := dr_reason m,
                       dr_message_count := Suc (dr_message_count r),
                       dr_last_seen := now\<rparr>) rows
         else rows @ [m\<lparr>dr_message_count := 1, dr_first_seen := now, dr_last_seen := now\<rparr>])"

subsection \<open>Pending sender approvals and decline stamps\<close>

definition DECLINE_STAMP_ID_PREFIX :: string where
  "DECLINE_STAMP_ID_PREFIX = ''decline:''"

definition is_stamp :: "pending_sender \<Rightarrow> bool" where
  "is_stamp r = prefix DECLINE_STAMP_ID_PREFIX (ps_id r)"

definition of_pair :: "string \<Rightarrow> string \<Rightarrow> pending_sender \<Rightarrow> bool" where
  "of_pair mgid sender r \<longleftrightarrow> ps_messaging_group_id r = mgid \<and> ps_sender_identity r = sender"

definition createPendingSenderApproval :: "pending_sender \<Rightarrow> pending_sender list \<Rightarrow> pending_sender list res" where
  "createPendingSenderApproval row rows =
     (if \<exists>r \<in> set rows. ps_id r = ps_id row \<or>
           of_pair (ps_messaging_group_id row) (ps_sender_identity row) r
      then Inl UniqueViolation else Inr (rows @ [row]))"

definition getPendingSenderApproval :: "string \<Rightarrow> pending_sender list \<Rightarrow> pending_sender option" where
  "getPendingSenderApproval i rows = find (\<lambda>r. ps_id r = i) rows"

definition hasInFlightSenderApproval :: "string \<Rightarrow> string \<Rightarrow> pending_sender list \<Rightarrow> bool" where
  "hasInFlightSenderApproval mgid sender rows \<longleftrightarrow> (\<exists>r \<in> set rows. of_pair mgid sender r)"

definition deletePendingSenderApproval :: "string \<Rightarrow> pending_sender list \<Rightarrow> pending_sender list" where
  "deletePendingSenderApproval i = delete_where (\<lambda>r. ps_id r = i)"

definition getDeclineStampAt :: "string \<Rightarrow> string \<Rightarrow> pending_sender list \<Rightarrow> stamp option" where
  "getDeclineStampAt mgid sender rows =
     map_option ps_created_at (find (\<lambda>r. of_pair mgid sender r \<and> is_stamp r) rows)"

definition upsertDeclineStamp ::
    "stamp \<Rightarrow> string \<Rightarrow> string \<Rightarrow> string \<Rightarrow> js \<Rightarrow> inbound_event \<Rightarrow> pending_sender list \<Rightarrow> pending_sender list" where
  "upsertDeclineStamp now mgid agid sender name ev rows =
     (let i = DECLINE_STAMP_ID_PREFIX @ mgid @ '':'' @ sender
      in if \<exists>r \<in> set rows. of_pair mgid sender r
         then update_where (of_pair mgid sender)
                (\<lambda>r. r\<lparr>ps_id := i, ps_created_at := now, ps_sender_name := name,
                       ps_original_message := Some ev, ps_approver_user_id := [],
                       ps_title := [], ps_options_json := JArr []\<rparr>) rows
         else rows @ [\<lparr>ps_id = i, ps_messaging_group_id = mgid, ps_agent_group_id = agid,
                       ps_sender_identity = sender, ps_sender_name = name,
                       ps_original_message = Some ev, ps_approver_user_id = [],
                       ps_created_at = now, ps_title = [], ps_question = [],
                       ps_options_json = JArr []\<rparr>])"

definition clearDeclineStamp :: "string \<Rightarrow> string \<Rightarrow> pending_sender list \<Rightarrow> pending_sender list" where
  "clearDeclineStamp mgid sender = delete_where (\<lambda>r. of_pair mgid sender r \<and> is_stamp r)"

subsection \<open>Who sent it\<close>

definition str_prop :: "js \<Rightarrow> string \<Rightarrow> string option" where
  "str_prop v k = (case js_get v k of Inr (JStr s) \<Rightarrow> Some s | _ \<Rightarrow> None)"

fun first_some :: "'a option list \<Rightarrow> 'a option" where
  "first_some [] = None"
| "first_some (Some x # _) = Some x"
| "first_some (None # xs) = first_some xs"

definition namespaced :: "string \<Rightarrow> string \<Rightarrow> string" where
  "namespaced channelType handle = (if js_includes handle '':'' then handle else channelType @ '':'' @ handle)"

definition extractAndUpsertUser :: "stamp \<Rightarrow> inbound_event \<Rightarrow> perm_db \<Rightarrow> (string option \<times> perm_db) res" where
  "extractAndUpsertUser now ev db =
     (case json_parse (im_content (ie_message ev)) of
        Inl _ \<Rightarrow> Inr (None, db)
      | Inr content \<Rightarrow>
         (case js_get content ''senderId'' of
            Inl e \<Rightarrow> Inl e
          | Inr _ \<Rightarrow>
             (let author = (case js_get content ''author'' of
                              Inr (JObj ps) \<Rightarrow> JObj ps | _ \<Rightarrow> JObj []);
                  senderName = first_some [str_prop content ''senderName'', str_prop author ''fullName'',
                                           str_prop author ''userName''];
                  raw = first_some [str_prop content ''senderId'', str_prop content ''sender'',
                                    str_prop author ''userId'']
              in case raw of
                   None \<Rightarrow> Inr (None, db)
                 | Some handle \<Rightarrow>
                    (if handle = [] then Inr (None, db)
                     else let uid = namespaced (ie_channelType ev) handle
                          in if getUser uid db = None
                             then Inr (Some uid, upsertUser \<lparr>u_id = uid, u_kind = ie_channelType ev,
                                         u_display_name = senderName, u_created_at = now\<rparr> db)
                             else Inr (Some uid, db)))))"

subsection \<open>The guarded actions of the module\<close>

definition policy_name :: "unknown_sender_policy \<Rightarrow> string" where
  "policy_name p = (case p of Strict \<Rightarrow> ''strict'' | RequestApproval \<Rightarrow> ''request_approval''
                     | DeclineNotify \<Rightarrow> ''decline_notify'' | Public \<Rightarrow> ''public'')"

definition sendersAdmit_decide :: "'db \<Rightarrow> guard_input \<Rightarrow> guard_decision res" where
  "sendersAdmit_decide db inp =
     (let policy = own (gi_payload inp) ''policy''
      in if policy = JStr ''public'' then Inr (ALLOW ''public messaging group'')
         else if policy = JStr ''request_approval''
         then Inr (HOLD (''unknown sender requires admin approval on messaging group '' @
                         js_to_string (own (gi_payload inp) ''messagingGroupId'')) None)
         else if policy = JStr ''decline_notify''
         then Inr (DENY ''unknown sender declined (decline-and-notify policy)'')
         else Inr (DENY ''unknown sender on a strict messaging group''))"

definition sendersAdmit :: "'db guarded_action_spec" where
  "sendersAdmit = \<lparr>ga_action = ''senders.admit'', ga_decide = sendersAdmit_decide,
                   ga_grantActionName = None, ga_grantCoversRequest = None\<rparr>"

subsection \<open>The flows of an unknown sender\<close>

definition AGENT_ACCESS_SCOPE_WARNING :: string where
  "AGENT_ACCESS_SCOPE_WARNING =
     ''Anyone approved here can interact with the agent and potentially access anything the agent can access, including other conversations' context, its workspace files and memory, and any connected tools.''"

definition js_name :: "js \<Rightarrow> string option" where
  "js_name v = (case v of JStr s \<Rightarrow> if s = [] then None else Some s
                | JArr (x # xs) \<Rightarrow> Some (js_to_string v) | _ \<Rightarrow> None)"

definition text_content :: "string \<Rightarrow> js" where
  "text_content t = JObj [(''text'', JStr t)]"

definition to_chat :: "messaging_group \<Rightarrow> js \<Rightarrow> outgoing" where
  "to_chat g content = \<lparr>og_channelType = mg_channel_type g, og_platformId = mg_platform_id g,
                        og_instance = Some (mg_instance g), og_content = content\<rparr>"

definition sender_options :: js where
  "sender_options = normalizeOptions
     [Opt ''Allow'' (Some ([CHR 0xE2, CHR 0x9C, CHR 0x85] @ '' Allowed'')) (Some ''approve'') (Some ''primary''),
      Opt ''Deny'' (Some ([CHR 0xE2, CHR 0x9D, CHR 0x8C] @ '' Denied'')) (Some ''reject'') (Some ''danger'')]"

definition sender_title :: string where
  "sender_title = [CHR 0xF0, CHR 0x9F, CHR 0x91, CHR 0xA4] @ '' New sender''"

definition sender_question :: "string \<Rightarrow> string \<Rightarrow> string" where
  "sender_question who chat = who @ '' wants to talk to your agent in '' @ chat @ ''. '' @
     AGENT_ACCESS_SCOPE_WARNING @ '' Allow?''"

definition requestSenderApproval ::
    "gate_env \<Rightarrow> string \<Rightarrow> string \<Rightarrow> string \<Rightarrow> js \<Rightarrow> inbound_event \<Rightarrow> gate_db \<Rightarrow> gate_db \<times> outgoing list" where
  "requestSenderApproval env mgid agid sender name ev db =
     (let db1 = db\<lparr>gd_senders := clearDeclineStamp mgid sender (gd_senders db)\<rparr>;
          approvers = pickApprover (gd_perm db1) (Some agid);
          origin = getMessagingGroup mgid (gd_chat db1);
          originType = (case origin of Some g \<Rightarrow> mg_channel_type g | None \<Rightarrow> []);
          now = Iso (ge_now env)
      in if hasInFlightSenderApproval mgid sender (gd_senders db1) then (db1, [])
         else if approvers = [] then (db1, [])
         else case pickApprovalDelivery (ge_registry env) now (tl (ge_ids env)) approvers originType
                     (map_option mg_instance origin) (gd_perm db1) (gd_chat db1) of
                Inl _ \<Rightarrow> (db1, [])
              | Inr (None, chat) \<Rightarrow> (db1\<lparr>gd_chat := chat\<rparr>, [])
              | Inr (Some (approver, target), chat) \<Rightarrow>
                 (let i = (case ge_ids env of [] \<Rightarrow> [] | x # _ \<Rightarrow> x);
                      display = (case js_name name of Some n \<Rightarrow> n | None \<Rightarrow> sender);
                      chatName = (case (case origin of Some g \<Rightarrow> mg_name g | None \<Rightarrow> None) of
                                    Some n \<Rightarrow> n | None \<Rightarrow> ''a '' @ originType @ '' channel'');
                      question = sender_question display chatName;
                      row = \<lparr>ps_id = i, ps_messaging_group_id = mgid, ps_agent_group_id = agid,
                             ps_sender_identity = sender, ps_sender_name = name,
                             ps_original_message = Some ev, ps_approver_user_id = approver,
                             ps_created_at = now, ps_title = sender_title, ps_question = question,
                             ps_options_json = sender_options\<rparr>;
                      db2 = db1\<lparr>gd_chat := chat\<rparr>
                  in case createPendingSenderApproval row (gd_senders db2) of
                       Inl _ \<Rightarrow> (db2, [])
                     | Inr rows \<Rightarrow>
                        (db2\<lparr>gd_senders := rows\<rparr>,
                         if ge_adapter env
                         then [to_chat target (ask_question i sender_title question sender_options)]
                         else [])))"

definition DECLINE_NOTIFY_DEDUPE_MS :: int where
  "DECLINE_NOTIFY_DEDUPE_MS = 24 * 60 * 60 * 1000"

definition ownerDisplayName :: "perm_db \<Rightarrow> string option" where
  "ownerDisplayName db =
     first_some (map (\<lambda>r. case getUser (ur_user_id r) db of
                            Some u \<Rightarrow> (case u_display_name u of Some n \<Rightarrow> if n = [] then None else Some n
                                       | None \<Rightarrow> None)
                          | None \<Rightarrow> None) (getOwners db))"

text \<open>A stamp with no time (\<open>NaN\<close>) is never younger than the window.\<close>

definition declined_lately :: "int \<Rightarrow> stamp option \<Rightarrow> bool" where
  "declined_lately now st =
     (case st of Some s \<Rightarrow> (case date_parse s of Some t \<Rightarrow> now - t < DECLINE_NOTIFY_DEDUPE_MS | None \<Rightarrow> False)
               | None \<Rightarrow> False)"

definition decline_stamped ::
    "gate_env \<Rightarrow> string \<Rightarrow> string option \<Rightarrow> string \<Rightarrow> js \<Rightarrow> inbound_event \<Rightarrow> gate_db \<Rightarrow> gate_db" where
  "decline_stamped env mgid agid key name ev db =
     (case (case agid of Some g \<Rightarrow> Some g
            | None \<Rightarrow> (case gd_agents db of g # _ \<Rightarrow> Some (ag_id g) | [] \<Rightarrow> None)) of
        None \<Rightarrow> db
      | Some g \<Rightarrow>
          if g = [] then db
          else db\<lparr>gd_senders := upsertDeclineStamp (Iso (ge_now env)) mgid g key name ev (gd_senders db)\<rparr>)"

definition decline_text :: "string \<Rightarrow> string" where
  "decline_text owner = ''I'm '' @ owner @ [CHR 0x27] @ ''s personal agent '' @ emdash @
     '' I can't help you directly.''"

definition fyi_text :: "string option \<Rightarrow> js \<Rightarrow> string \<Rightarrow> string" where
  "fyi_text sender name channelType =
     (let display = (case js_name name of Some n \<Rightarrow> n
                     | None \<Rightarrow> (case sender of Some s \<Rightarrow> s | None \<Rightarrow> ''An unknown sender''));
          who = (case sender of
                   Some s \<Rightarrow> if s \<noteq> [] \<and> display \<noteq> s then display @ '' ('' @ s @ '')'' else display
                 | None \<Rightarrow> display)
      in ''FYI: '' @ who @ '' DMed your agent on '' @ channelType @ '' '' @ emdash @
         '' I sent a polite decline. Allow them any time with `ncl members add`.'')"

definition declineAndNotify ::
    "gate_env \<Rightarrow> string \<Rightarrow> string option \<Rightarrow> string option \<Rightarrow> js \<Rightarrow> inbound_event \<Rightarrow> gate_db
       \<Rightarrow> gate_db \<times> outgoing list" where
  "declineAndNotify env mgid agid sender name ev db =
     (let key = (case sender of Some s \<Rightarrow> s | None \<Rightarrow> ''unknown'')
      in if declined_lately (ge_now env) (getDeclineStampAt mgid key (gd_senders db)) \<or> \<not> ge_adapter env
         then (db, [])
         else
          (let db1 = decline_stamped env mgid agid key name ev db;
               inst = (case getMessagingGroup mgid (gd_chat db1) of
                         Some g \<Rightarrow> Some (mg_instance g) | None \<Rightarrow> ie_instance ev);
               owner = (case ownerDisplayName (gd_perm db1) of Some n \<Rightarrow> n | None \<Rightarrow> ''my owner'');
               decline = \<lparr>og_channelType = ie_channelType ev, og_platformId = ie_platformId ev,
                          og_instance = inst, og_content = text_content (decline_text owner)\<rparr>;
               approvers = pickApprover (gd_perm db1) agid
           in if approvers = [] then (db1, [decline])
              else case pickApprovalDelivery (ge_registry env) (Iso (ge_now env)) (ge_ids env) approvers
                          (ie_channelType ev) inst (gd_perm db1) (gd_chat db1) of
                     Inl _ \<Rightarrow> (db1, [decline])
                   | Inr (None, chat) \<Rightarrow> (db1\<lparr>gd_chat := chat\<rparr>, [decline])
                   | Inr (Some (approver, target), chat) \<Rightarrow>
                      (db1\<lparr>gd_chat := chat\<rparr>,
                       [decline, to_chat target (text_content (fyi_text sender name (ie_channelType ev)))])))"

subsection \<open>The gates\<close>

definition admit_input :: "messaging_group \<Rightarrow> string \<Rightarrow> string option \<Rightarrow> guard_input" where
  "admit_input g agid sender =
     \<lparr>gi_actor = (case sender of Some u \<Rightarrow> if u = [] then SystemActor else HumanActor u | None \<Rightarrow> SystemActor),
      gi_resource = (\<lambda>_. None),
      gi_payload = [(''messagingGroupId'', JStr (mg_id g)), (''agentGroupId'', JStr agid),
                    (''senderIdentity'', case sender of Some u \<Rightarrow> JStr u | None \<Rightarrow> JNull),
                    (''policy'', JStr (policy_name (mg_unknown_sender_policy g)))],
      gi_grant = None\<rparr>"

definition parsed_sender :: "jtext \<Rightarrow> js res" where
  "parsed_sender content =
     (case json_parse content of
        Inl _ \<Rightarrow> Inr JNull
      | Inr v \<Rightarrow> (case js_get v ''sender'' of Inl e \<Rightarrow> Inl e | Inr x \<Rightarrow> Inr (js_coalesce x JNull)))"

definition unknown_sender_drop ::
    "gate_env \<Rightarrow> messaging_group \<Rightarrow> string option \<Rightarrow> string \<Rightarrow> js \<Rightarrow> inbound_event \<Rightarrow> dropped_row" where
  "unknown_sender_drop env g sender agid name ev =
     \<lparr>dr_channel_type = ie_channelType ev, dr_platform_id = ie_platformId ev,
      dr_user_id = sender, dr_sender_name = name,
      dr_reason = ''unknown_sender_'' @ policy_name (mg_unknown_sender_policy g),
      dr_messaging_group_id = Some (mg_id g), dr_agent_group_id = Some agid,
      dr_message_count = 1, dr_first_seen = Iso (ge_now env), dr_last_seen = Iso (ge_now env)\<rparr>"

definition drop_unknown_sender ::
    "gate_env \<Rightarrow> messaging_group \<Rightarrow> string option \<Rightarrow> string \<Rightarrow> js \<Rightarrow> inbound_event \<Rightarrow> effect \<Rightarrow> gate_db
       \<Rightarrow> gate_db \<times> outgoing list" where
  "drop_unknown_sender env g sender agid name ev eff db =
     (let db1 = db\<lparr>gd_dropped := recordDroppedMessage (Iso (ge_now env))
                     (unknown_sender_drop env g sender agid name ev) (gd_dropped db)\<rparr>
      in if mg_unknown_sender_policy g = DeclineNotify
         then (if mg_is_group g then (db1, [])
               else declineAndNotify env (mg_id g) (Some agid) sender name ev db1)
         else case sender of
                Some u \<Rightarrow> if eff = Hold \<and> u \<noteq> []
                          then requestSenderApproval env (mg_id g) agid u name ev db1
                          else (db1, [])
              | None \<Rightarrow> (db1, []))"

definition handleUnknownSender ::
    "gate_env \<Rightarrow> messaging_group \<Rightarrow> string option \<Rightarrow> string \<Rightarrow> inbound_event \<Rightarrow> gate_db
       \<Rightarrow> (gate_db \<times> outgoing list) res" where
  "handleUnknownSender env g sender agid ev db =
     (case parsed_sender (im_content (ie_message ev)) of
        Inl e \<Rightarrow> Inl e
      | Inr name \<Rightarrow>
         (case consult (\<lambda>_. None) db sendersAdmit (admit_input g agid sender) of
            Inl e \<Rightarrow> Inl e
          | Inr decision \<Rightarrow>
             (if effect_of decision = Allow then Inr (db, [])
              else Inr (drop_unknown_sender env g sender agid name ev (effect_of decision) db))))"

text \<open>A gate's answer: \<open>None\<close> lets the message through, \<open>Some r\<close> refuses it for reason \<open>r\<close>.\<close>

definition accessGate ::
    "gate_env \<Rightarrow> inbound_event \<Rightarrow> string option \<Rightarrow> messaging_group \<Rightarrow> string \<Rightarrow> gate_db
       \<Rightarrow> (string option \<times> gate_db \<times> outgoing list) res" where
  "accessGate env ev sender g agid db =
     (if mg_unknown_sender_policy g = Public then Inr (None, db, [])
      else let nobody = (case sender of Some u \<Rightarrow> u = [] | None \<Rightarrow> True);
               verdict = (case sender of
                            Some u \<Rightarrow> if u = [] then Refused ''unknown_user''
                                      else canAccessAgentGroup (gd_perm db) u agid
                          | None \<Rightarrow> Refused ''unknown_user'')
           in case verdict of
                Granted _ \<Rightarrow> Inr (None, db, [])
              | Refused r \<Rightarrow>
                 (case handleUnknownSender env g (if nobody then None else sender) agid ev db of
                    Inl e \<Rightarrow> Inl e
                  | Inr (db', out) \<Rightarrow> Inr (Some r, db', out)))"

definition senderScopeGate :: "perm_db \<Rightarrow> string option \<Rightarrow> messaging_group_agent \<Rightarrow> string option" where
  "senderScopeGate db sender w =
     (if ma_sender_scope w = AllSenders then None
      else case sender of
             None \<Rightarrow> Some ''unknown_user_scope''
           | Some u \<Rightarrow>
              (if u = [] then Some ''unknown_user_scope''
               else case canAccessAgentGroup db u (ma_agent_group_id w) of
                      Granted _ \<Rightarrow> None | Refused r \<Rightarrow> Some (''sender_scope_'' @ r)))"

subsection \<open>A click on the admission card\<close>

definition clicker :: "response_payload \<Rightarrow> string option" where
  "clicker p = (case rp_userId p of
                  Some u \<Rightarrow> if u = [] then None else Some (namespaced (rp_channelType p) u)
                | None \<Rightarrow> None)"

text \<open>The result: whether the answer is claimed, the new state, and the event to route again.\<close>

definition handleSenderApprovalResponse ::
    "stamp \<Rightarrow> response_payload \<Rightarrow> gate_db \<Rightarrow> bool \<times> gate_db \<times> inbound_event option" where
  "handleSenderApprovalResponse now p db =
     (case getPendingSenderApproval (rp_questionId p) (gd_senders db) of
        None \<Rightarrow> (False, db, None)
      | Some row \<Rightarrow>
         (case clicker p of
            None \<Rightarrow> (True, db, None)
          | Some c \<Rightarrow>
             (if \<not> (c = ps_approver_user_id row \<or> hasAdminPrivilege (gd_perm db) c (ps_agent_group_id row))
              then (True, db, None)
              else let rest = db\<lparr>gd_senders := deletePendingSenderApproval (ps_id row) (gd_senders db)\<rparr>
                   in if rp_value p = ''approve''
                      then (True,
                            rest\<lparr>gd_perm := addMember \<lparr>gm_user_id = ps_sender_identity row,
                                   gm_agent_group_id = ps_agent_group_id row, gm_added_by = Some c,
                                   gm_added_at = now\<rparr> (gd_perm db)\<rparr>,
                            ps_original_message row)
                      else (True, rest, None))))"

subsection \<open>What the gate does and does not change\<close>

lemma sendersAdmit_effect:
  assumes "consult (\<lambda>_. None) db sendersAdmit (admit_input g agid sender) = Inr d"
  shows "effect_of d = (case mg_unknown_sender_policy g of
                    Public \<Rightarrow> Allow | RequestApproval \<Rightarrow> Hold | _ \<Rightarrow> Deny)"
proof -
  have p: "own (gi_payload (admit_input g agid sender)) ''policy'' =
      JStr (policy_name (mg_unknown_sender_policy g))"
    by (simp add: admit_input_def own_def)
  have "gi_grant (admit_input g agid sender) = None" by (simp add: admit_input_def)
  from assms [unfolded consult_no_grant [OF this]]
  have "sendersAdmit_decide db (admit_input g agid sender) = Inr d"
    by (simp add: sendersAdmit_def sendersAdmit_decide_def Let_def split: if_splits)
  then show ?thesis
    by (cases "mg_unknown_sender_policy g")
       (simp_all add: sendersAdmit_decide_def p policy_name_def, auto)
qed

lemma requestSenderApproval_perm [simp]:
  "gd_perm (fst (requestSenderApproval env mgid agid sender name ev db)) = gd_perm db"
  by (simp add: requestSenderApproval_def Let_def split: sum.splits option.splits prod.splits)

lemma decline_stamped_perm [simp]: "gd_perm (decline_stamped env mgid agid key name ev db) = gd_perm db"
  by (simp add: decline_stamped_def split: option.split)

lemma declineAndNotify_perm [simp]:
  "gd_perm (fst (declineAndNotify env mgid agid sender name ev db)) = gd_perm db"
  unfolding declineAndNotify_def Let_def
  by (simp split: sum.split option.split prod.split)

lemma drop_unknown_sender_perm [simp]:
  "gd_perm (fst (drop_unknown_sender env g sender agid name ev eff db)) = gd_perm db"
proof -
  have "gd_perm (db\<lparr>gd_dropped := x\<rparr>) = gd_perm db" for x by simp
  then show ?thesis
    unfolding drop_unknown_sender_def Let_def
    by (simp only: if_distrib [of fst] if_distrib [of gd_perm] option.case_distrib [of fst]
        option.case_distrib [of gd_perm] fst_conv requestSenderApproval_perm declineAndNotify_perm
        if_cancel option.case_eq_if)
qed

lemma handleUnknownSender_perm:
  "handleUnknownSender env g sender agid ev db = Inr (db', out) \<Longrightarrow> gd_perm db' = gd_perm db"
  by (auto simp: handleUnknownSender_def split: sum.splits if_splits
           dest!: arg_cong [where f = "\<lambda>r. gd_perm (fst r)"])

lemma accessGate_perm:
  "accessGate env ev sender g agid db = Inr (r, db', out) \<Longrightarrow> gd_perm db' = gd_perm db"
  by (auto simp: accessGate_def Let_def handleUnknownSender_perm
           split: if_splits access_decision.splits sum.splits prod.splits)

lemma accessGate_pass_iff:
  assumes "accessGate env ev sender g agid db = Inr (r, db', out)"
  shows "r = None \<longleftrightarrow> mg_unknown_sender_policy g = Public \<or>
     (\<exists>u. sender = Some u \<and> u \<noteq> [] \<and> access_allowed (canAccessAgentGroup (gd_perm db) u agid))"
  using assms
  by (cases sender)
     (auto simp: accessGate_def Let_def split: if_splits access_decision.splits sum.splits prod.splits)

lemma of_pair_update [simp]:
  "of_pair mgid sender (r\<lparr>ps_id := i, ps_created_at := t, ps_sender_name := n, ps_original_message := e,
     ps_approver_user_id := a, ps_title := ti, ps_options_json := oj\<rparr>) = of_pair mgid sender r"
  by (simp add: of_pair_def)

lemma stamp_after_upsert:
  "getDeclineStampAt mgid sender (upsertDeclineStamp now mgid g sender name ev rows) = Some now"
proof -
  let ?i = "DECLINE_STAMP_ID_PREFIX @ mgid @ '':'' @ sender"
  let ?f = "\<lambda>r. r\<lparr>ps_id := ?i, ps_created_at := now, ps_sender_name := name, ps_original_message := Some ev,
      ps_approver_user_id := [], ps_title := [], ps_options_json := JArr []\<rparr>"
  show ?thesis
  proof (cases "\<exists>r \<in> set rows. of_pair mgid sender r")
    case True
    then have u: "upsertDeclineStamp now mgid g sender name ev rows = update_where (of_pair mgid sender) ?f rows"
      by (simp add: upsertDeclineStamp_def Let_def)
    have "\<exists>x. find (\<lambda>r. of_pair mgid sender r \<and> is_stamp r) (update_where (of_pair mgid sender) ?f rs) = Some x
        \<and> ps_created_at x = now" if "\<exists>r \<in> set rs. of_pair mgid sender r" for rs
      using that by (induction rs) (auto simp: update_where_def is_stamp_def)
    from this [OF True] show ?thesis unfolding u getDeclineStampAt_def by auto
  next
    case False
    then have "find (\<lambda>r. of_pair mgid sender r \<and> is_stamp r) rows = None" by (auto simp: find_None_ex)
    with False show ?thesis
      by (auto simp: upsertDeclineStamp_def getDeclineStampAt_def Let_def find_append of_pair_def is_stamp_def)
  qed
qed

lemma declineAndNotify_stamps:
  assumes "declineAndNotify env mgid (Some g) (Some s) name ev db = (db', out)" "out \<noteq> []" "g \<noteq> []"
  shows "getDeclineStampAt mgid s (gd_senders db') = Some (Iso (ge_now env))"
proof -
  have "gd_senders (fst (declineAndNotify env mgid (Some g) (Some s) name ev db)) =
      upsertDeclineStamp (Iso (ge_now env)) mgid g s name ev (gd_senders db) \<or>
      snd (declineAndNotify env mgid (Some g) (Some s) name ev db) = []"
    unfolding declineAndNotify_def Let_def decline_stamped_def
    using assms(3) by (simp split: sum.split option.split prod.split)
  then show ?thesis using assms(1,2) stamp_after_upsert by auto
qed

subsection \<open>Properties\<close>

text \<open>
  C36. The access gate lets a message through exactly when the chat is public or its sender is
  identified and has access to the agent group (owner, global admin, admin of the group or
  member, and a known user); and refusing one, with all its side effects (card, decline, drop
  record), changes no user, role or membership.
\<close>
theorem access_gate_exact:
  assumes "accessGate env ev sender g agid db = Inr (r, db', out)"
  shows "(r = None \<longleftrightarrow> mg_unknown_sender_policy g = Public \<or>
     (\<exists>u. sender = Some u \<and> u \<noteq> [] \<and> getUser u (gd_perm db) \<noteq> None \<and>
        (hasAdminPrivilege (gd_perm db) u agid \<or> hasMembershipRow (gd_perm db) u agid))) \<and>
     gd_perm db' = gd_perm db"
  using accessGate_pass_iff [OF assms] accessGate_perm [OF assms]
  by (auto simp: canAccess_iff isMember_iff)

definition demo_event :: inbound_event where
  "demo_event = \<lparr>ie_channelType = ''slack'', ie_instance = None, ie_platformId = ''C1'', ie_threadId = None,
     ie_message = \<lparr>im_id = ''m1'', im_kind = ''chat'', im_content = Json (JObj [(''text'', JStr ''hi''),
        (''senderId'', JStr ''u2'')]), im_timestamp = Iso 0, im_isMention = None, im_isGroup = None\<rparr>,
     ie_replyTo = None\<rparr>"

definition demo_env :: gate_env where
  "demo_env = \<lparr>ge_registry = demo_registry, ge_now = 1000, ge_ids = [''nsa-1'', ''mg-9''], ge_adapter = True\<rparr>"

definition demo_gate :: gate_db where
  "demo_gate = \<lparr>gd_perm = demo_perms, gd_chat = demo_chats, gd_senders = [], gd_dropped = [], gd_agents = []\<rparr>"

definition demo_dm :: messaging_group where
  "demo_dm = demo_chat\<lparr>mg_is_group := False, mg_unknown_sender_policy := DeclineNotify\<rparr>"

theorem access_gate_exact_witness:
  "\<not> hasMembershipRow (gd_perm demo_gate) ''slack:u2'' ''a'' \<and>
   (\<exists>db' out. accessGate demo_env demo_event (Some ''slack:u2'') demo_dm ''a'' demo_gate =
      Inr (Some ''not_member'', db', out) \<and> gd_perm db' = demo_perms \<and> length out = 2)"
proof -
  have "(case accessGate demo_env demo_event (Some ''slack:u2'') demo_dm ''a'' demo_gate of
      Inr (Some r, db', out) \<Rightarrow> r = ''not_member'' \<and> length out = 2 | _ \<Rightarrow> False)" by code_simp
  then obtain db' out where g: "accessGate demo_env demo_event (Some ''slack:u2'') demo_dm ''a'' demo_gate =
      Inr (Some ''not_member'', db', out)" "length out = 2"
    by (auto split: sum.splits prod.splits option.splits)
  from access_gate_exact [OF g(1)] have "gd_perm db' = demo_perms" by (simp add: demo_gate_def)
  moreover have "\<not> hasMembershipRow (gd_perm demo_gate) ''slack:u2'' ''a''" by code_simp
  ultimately show ?thesis using g by blast
qed

text \<open>
  A click on an admission card changes who has access only if the clicker is the approver
  the card was delivered to or an administrator of the agent group, and then only for the
  sender and the group of the card: everyone else keeps exactly the access they had.  An
  approved sender who is a known user has access afterwards and their message is routed again.
\<close>
theorem admission_click_effect:
  assumes "getPendingSenderApproval (rp_questionId p) (gd_senders db) = Some row"
    and "handleSenderApprovalResponse now p db = (claimed, db', replay)"
  shows "claimed \<and>
    (let auth = (\<exists>c. clicker p = Some c \<and>
                   (c = ps_approver_user_id row \<or> hasAdminPrivilege (gd_perm db) c (ps_agent_group_id row)));
         admitted = (auth \<and> rp_value p = ''approve'')
     in (\<not> auth \<longrightarrow> db' = db \<and> replay = None) \<and>
        (\<forall>u g. access_allowed (canAccessAgentGroup (gd_perm db') u g) \<longleftrightarrow>
           access_allowed (canAccessAgentGroup (gd_perm db) u g) \<or>
           (admitted \<and> u = ps_sender_identity row \<and> g = ps_agent_group_id row \<and> getUser u (gd_perm db) \<noteq> None)) \<and>
        replay = (if admitted then ps_original_message row else None))"
  using assms
  by (auto simp: handleSenderApprovalResponse_def Let_def canAccess_iff isMember_iff
                 hasMembershipRow_addMember
           split: option.splits if_splits)

definition demo_pending :: pending_sender where
  "demo_pending = \<lparr>ps_id = ''nsa-1'', ps_messaging_group_id = ''mg-1'', ps_agent_group_id = ''a'',
     ps_sender_identity = ''slack:u2'', ps_sender_name = JNull, ps_original_message = Some demo_event,
     ps_approver_user_id = ''slack:u1'', ps_created_at = Iso 0, ps_title = sender_title,
     ps_question = [], ps_options_json = sender_options\<rparr>"

definition demo_click :: "string \<Rightarrow> response_payload" where
  "demo_click u = \<lparr>rp_questionId = ''nsa-1'', rp_value = ''approve'', rp_userId = Some u,
     rp_channelType = ''slack'', rp_platformId = ''D1'', rp_threadId = None\<rparr>"

theorem admission_click_effect_witness:
  "\<exists>db'. handleSenderApprovalResponse (Iso 1) (demo_click ''u1'') (demo_gate\<lparr>gd_senders := [demo_pending]\<rparr>) =
      (True, db', Some demo_event) \<and> access_allowed (canAccessAgentGroup (gd_perm db') ''slack:u2'' ''a'')"
proof -
  let ?db = "demo_gate\<lparr>gd_senders := [demo_pending]\<rparr>"
  obtain c db' r where h: "handleSenderApprovalResponse (Iso 1) (demo_click ''u1'') ?db = (c, db', r)"
    by (metis prod_cases3)
  have row: "getPendingSenderApproval (rp_questionId (demo_click ''u1'')) (gd_senders ?db) = Some demo_pending"
    by (simp add: getPendingSenderApproval_def demo_click_def demo_pending_def)
  have auth: "clicker (demo_click ''u1'') = Some (ps_approver_user_id demo_pending)" by code_simp
  have known: "getUser ''slack:u2'' (gd_perm ?db) \<noteq> None" by code_simp
  have facts: "rp_value (demo_click ''u1'') = ''approve''" "ps_sender_identity demo_pending = ''slack:u2''"
    "ps_agent_group_id demo_pending = ''a''" "ps_original_message demo_pending = Some demo_event"
    by (simp_all add: demo_click_def demo_pending_def)
  note e = admission_click_effect [OF row h, unfolded Let_def auth facts option.inject]
  have "c \<and> r = Some demo_event" using e by auto
  moreover have "access_allowed (canAccessAgentGroup (gd_perm db') ''slack:u2'' ''a'')"
    using e known by auto
  ultimately show ?thesis using h by (intro exI [of _ db']) simp
qed

text \<open>
  The polite refusal is sent at most once per sender and chat in 24 hours: after a call that
  sent anything, every call for the same pair within the window sends nothing and changes
  nothing.
\<close>
theorem decline_once_per_window:
  assumes "declineAndNotify env mgid (Some g) (Some s) name ev db = (db', out)" "out \<noteq> []" "g \<noteq> []"
    and "ge_now env' - ge_now env < DECLINE_NOTIFY_DEDUPE_MS"
  shows "declineAndNotify env' mgid agid' (Some s) name' ev' db' = (db', [])"
  using declineAndNotify_stamps [OF assms(1-3)] assms(4)
  by (simp add: declineAndNotify_def declined_lately_def Let_def)

theorem decline_once_per_window_witness:
  "\<exists>db' out. declineAndNotify demo_env ''mg-1'' (Some ''a'') (Some ''slack:u2'') JNull demo_event demo_gate =
       (db', out) \<and>
     declineAndNotify (demo_env\<lparr>ge_now := 5000\<rparr>) ''mg-1'' (Some ''a'') (Some ''slack:u2'') JNull demo_event db' =
       (db', [])"
proof -
  obtain db' out where d:
    "declineAndNotify demo_env ''mg-1'' (Some ''a'') (Some ''slack:u2'') JNull demo_event demo_gate = (db', out)"
    by fastforce
  have "snd (declineAndNotify demo_env ''mg-1'' (Some ''a'') (Some ''slack:u2'') JNull demo_event demo_gate) \<noteq> []"
    by code_simp
  with d have "out \<noteq> []" by simp
  from decline_once_per_window [OF d this, of "demo_env\<lparr>ge_now := 5000\<rparr>"] d show ?thesis
    by (auto simp: demo_env_def DECLINE_NOTIFY_DEDUPE_MS_def)
qed

end
