(* ===== verification/Approvals.thy ===== *)
theory Approvals
  imports Approvers
begin

text \<open>
  The life of an approval (\<open>src/modules/approvals/primitive.ts\<close>, \<open>response-handler.ts\<close>,
  \<open>finalize.ts\<close>, \<open>reason-capture.ts\<close>): the request and its card, the click, the rejection with a
  reason typed into the approver's next direct message, and the sweep that ends a rejection
  nobody explained.

  \<open>as_log\<close> lists what the module does to the outside, in order: notes written to the requesting
  session, resolutions reported to the resolved-callbacks, handlers run, cards and prompts,
  wakes.  Registered
  handlers are a parameter that acts on a world of its own and may throw with a message; the
  in-memory resolver of gateway approvals is a parameter too.  Fresh ids, the clock and whether
  an adapter is bound (\<open>Some ok\<close>, and whether its deliveries succeed) are in the environment.
\<close>

subsection \<open>State\<close>

record reason_arming =
  rn_approvalId :: string
  rn_userId :: string

datatype resolution = ByApprove | ByReject

datatype appr_out =
    Note string string
  | Resolved string resolution string
  | Ran string
  | Card outgoing
  | WakeSession string

record 'w appr_state =
  as_rows :: "pending_approval list"
  as_sessions :: "session_row list"
  as_perm :: perm_db
  as_chat :: chat_db
  as_awaiting :: "(string \<times> reason_arming) list"
  as_world :: 'w
  as_log :: "appr_out list"

type_synonym 'w handler = "pending_approval \<Rightarrow> session_row \<Rightarrow> js \<Rightarrow> string \<Rightarrow> 'w \<Rightarrow> string option \<times> 'w"

record 'w appr_env =
  ae_registry :: registry
  ae_now :: int
  ae_ids :: "string list"
  ae_adapter :: "bool option"
  ae_handlers :: "string \<Rightarrow> 'w handler option"
  ae_gateway :: "string \<Rightarrow> string \<Rightarrow> bool"

definition to_target :: "messaging_group \<Rightarrow> js \<Rightarrow> outgoing" where
  "to_target g content = \<lparr>og_channelType = mg_channel_type g, og_platformId = mg_platform_id g,
                          og_instance = Some (mg_instance g), og_content = content\<rparr>"

definition emit :: "appr_out \<Rightarrow> 'w appr_state \<Rightarrow> 'w appr_state" where
  "emit o1 st = st\<lparr>as_log := as_log st @ [o1]\<rparr>"

definition GATEWAY_APPROVAL_ACTION :: string where
  "GATEWAY_APPROVAL_ACTION = ''gateway_credential''"

definition REJECT_WITH_REASON_VALUE :: string where
  "REJECT_WITH_REASON_VALUE = ''reject_with_reason''"

subsection \<open>Rejecting\<close>

definition reject_text :: "string \<Rightarrow> string option \<Rightarrow> string" where
  "reject_text action reason =
     (case reason of
        Some r \<Rightarrow> if r = [] then ''Your '' @ action @ '' request was rejected by admin.''
                  else ''Your '' @ action @ '' request was rejected by admin: \"'' @ r @ ''\"''
      | None \<Rightarrow> ''Your '' @ action @ '' request was rejected by admin.'')"

definition finalizeReject ::
    "pending_approval \<Rightarrow> session_row \<Rightarrow> string \<Rightarrow> string option \<Rightarrow> approval_status \<Rightarrow> 'w appr_state
       \<Rightarrow> bool \<times> 'w appr_state" where
  "finalizeReject appr ses uid reason expected st =
     (let (won, rows) = transitionPendingApprovalStatus (pa_approval_id appr) expected Rejected (as_rows st)
      in if \<not> won then (False, st)
         else (True, emit (WakeSession (s_id ses))
                 (emit (Resolved (pa_approval_id appr) ByReject uid)
                   ((emit (Note (s_id ses) (reject_text (pa_action appr) reason)) st)
                      \<lparr>as_rows := deletePendingApproval (pa_approval_id appr) rows\<rparr>))))"

definition default_expected :: "pending_approval \<Rightarrow> approval_status" where
  "default_expected appr = (if pa_status appr = AwaitingReason then AwaitingReason else Pending)"

subsection \<open>Capturing a reason\<close>

definition REASON_CAPTURE_WINDOW_MS :: int where
  "REASON_CAPTURE_WINDOW_MS = 5 * 60 * 1000"

definition MAX_REASON_LEN :: nat where
  "MAX_REASON_LEN = 280"

definition PROMPT_TEXT :: string where
  "PROMPT_TEXT = ''Reply with a one-line reason for the rejection '' @ emdash @
     '' I'll relay it to the agent. No reply within ~5 min declines it without a reason.''"

definition dmKey :: "string \<Rightarrow> string \<Rightarrow> string option \<Rightarrow> string" where
  "dmKey channelType platformId inst =
     (case inst of Some i \<Rightarrow> i | None \<Rightarrow> channelType) @ '':'' @ platformId"

text \<open>The ellipsis counts as one character of the text, as in the source.\<close>

definition ellipsis :: string where
  "ellipsis = [CHR 0x85]"

definition clampReason :: "string \<Rightarrow> string" where
  "clampReason raw =
     (let t = js_trim raw
      in if length t \<le> MAX_REASON_LEN then t else take (MAX_REASON_LEN - 1) t @ ellipsis)"

definition extractText :: "inbound_event \<Rightarrow> string" where
  "extractText ev =
     (case json_parse (im_content (ie_message ev)) of
        Inl _ \<Rightarrow> []
      | Inr v \<Rightarrow> (case js_get v ''text'' of Inr (JStr s) \<Rightarrow> s | _ \<Rightarrow> []))"

definition armReasonCapture ::
    "'w appr_env \<Rightarrow> pending_approval \<Rightarrow> session_row \<Rightarrow> string \<Rightarrow> 'w appr_state \<Rightarrow> 'w appr_state" where
  "armReasonCapture env appr ses uid st =
     (let (held, rows) = markApprovalAwaitingReason (pa_approval_id appr)
                           (Iso (ae_now env + REASON_CAPTURE_WINDOW_MS)) (as_rows st);
          st1 = st\<lparr>as_rows := rows\<rparr>;
          plain = (\<lambda>s. snd (finalizeReject appr ses uid None AwaitingReason s))
      in if \<not> held then st
         else case (pa_channel_type appr, pa_platform_id appr, ae_adapter env) of
                (Some ct, Some pid, Some ok) \<Rightarrow>
                  (let inst = (case pa_instance appr of Some i \<Rightarrow> Some i | None \<Rightarrow> Some ct)
                   in if uid = [] \<or> ct = [] \<or> pid = [] \<or> \<not> ok then plain st1
                      else (emit (Card \<lparr>og_channelType = ct, og_platformId = pid, og_instance = inst,
                                        og_content = JObj [(''text'', JStr PROMPT_TEXT)]\<rparr>) st1)
                           \<lparr>as_awaiting := map_set (dmKey ct pid inst)
                              \<lparr>rn_approvalId = pa_approval_id appr, rn_userId = uid\<rparr> (as_awaiting st1)\<rparr>)
              | _ \<Rightarrow> plain st1)"

definition captureReasonReply :: "inbound_event \<Rightarrow> 'w appr_state \<Rightarrow> bool \<times> 'w appr_state" where
  "captureReasonReply ev st =
     (let key = dmKey (ie_channelType ev) (ie_platformId ev) (ie_instance ev)
      in case map_of (as_awaiting st) key of
           None \<Rightarrow> (False, st)
         | Some arming \<Rightarrow>
            (let st1 = st\<lparr>as_awaiting := map_delete key (as_awaiting st)\<rparr>
             in case getPendingApproval (rn_approvalId arming) (as_rows st1) of
                  None \<Rightarrow> (False, st1)
                | Some appr \<Rightarrow>
                   (if pa_status appr \<noteq> AwaitingReason then (False, st1)
                    else case (case pa_session_id appr of
                                 Some sid \<Rightarrow> if sid = [] then None else getSession sid (as_sessions st1)
                               | None \<Rightarrow> None) of
                           None \<Rightarrow> (True, st1\<lparr>as_rows := deletePendingApproval (pa_approval_id appr) (as_rows st1)\<rparr>)
                         | Some ses \<Rightarrow>
                            (True, snd (finalizeReject appr ses (rn_userId arming)
                                     (Some (clampReason (extractText ev))) (default_expected appr) st1)))))"

definition sweep_one :: "pending_approval \<Rightarrow> 'w appr_state \<Rightarrow> 'w appr_state" where
  "sweep_one appr st =
     (case (case pa_session_id appr of
              Some sid \<Rightarrow> if sid = [] then None else getSession sid (as_sessions st)
            | None \<Rightarrow> None) of
        None \<Rightarrow> st\<lparr>as_rows := deletePendingApproval (pa_approval_id appr) (as_rows st)\<rparr>
      | Some ses \<Rightarrow> snd (finalizeReject appr ses [] None (default_expected appr) st))"

definition sweepAwaitingReasonRejects :: "int \<Rightarrow> 'w appr_state \<Rightarrow> 'w appr_state" where
  "sweepAwaitingReasonRejects now st =
     fold sweep_one (getExpiredAwaitingReasonApprovals now (as_rows st)) st"

subsection \<open>Answering a card\<close>

definition namespacedUserId :: "response_payload \<Rightarrow> string option" where
  "namespacedUserId p =
     (case rp_userId p of
        None \<Rightarrow> None
      | Some u \<Rightarrow> if u = [] then None
                  else Some (if js_includes u '':'' then u else rp_channelType p @ '':'' @ u))"

definition nonempty :: "string option \<Rightarrow> string option" where
  "nonempty x = (case x of Some s \<Rightarrow> if s = [] then None else Some s | None \<Rightarrow> None)"

definition isAuthorizedApprovalClick :: "pending_approval \<Rightarrow> response_payload \<Rightarrow> 'w appr_state \<Rightarrow> bool" where
  "isAuthorizedApprovalClick appr p st =
     (case namespacedUserId p of
        None \<Rightarrow> False
      | Some u \<Rightarrow>
         (case nonempty (pa_approver_user_id appr) of
            Some named \<Rightarrow> u = named
          | None \<Rightarrow>
             (let gid = (case pa_agent_group_id appr of
                           Some g \<Rightarrow> Some g
                         | None \<Rightarrow> (case nonempty (pa_session_id appr) of
                                     Some sid \<Rightarrow> map_option s_agent_group_id (getSession sid (as_sessions st))
                                   | None \<Rightarrow> None))
              in case nonempty gid of
                   None \<Rightarrow> isOwner (as_perm st) u \<or> isGlobalAdmin (as_perm st) u
                 | Some g \<Rightarrow> hasAdminPrivilege (as_perm st) u g)))"

definition approve_done :: "pending_approval \<Rightarrow> session_row \<Rightarrow> string \<Rightarrow> 'w appr_state \<Rightarrow> 'w appr_state" where
  "approve_done appr ses uid st =
     emit (WakeSession (s_id ses))
       (emit (Resolved (pa_approval_id appr) ByApprove uid)
         (st\<lparr>as_rows := deletePendingApproval (pa_approval_id appr) (as_rows st)\<rparr>))"

text \<open>The result is \<open>Inl\<close> with the state reached when \<open>JSON.parse\<close> of the payload throws.\<close>

definition handleRegisteredApproval ::
    "'w appr_env \<Rightarrow> pending_approval \<Rightarrow> string \<Rightarrow> string \<Rightarrow> 'w appr_state
       \<Rightarrow> 'w appr_state + 'w appr_state" where
  "handleRegisteredApproval env appr value uid st =
     (let aid = pa_approval_id appr;
          gone = st\<lparr>as_rows := deletePendingApproval aid (as_rows st)\<rparr>
      in case (case nonempty (pa_session_id appr) of
                 Some sid \<Rightarrow> getSession sid (as_sessions st) | None \<Rightarrow> None) of
           None \<Rightarrow> Inr gone
         | Some ses \<Rightarrow>
            (if value = REJECT_WITH_REASON_VALUE then Inr (armReasonCapture env appr ses uid st)
             else if value \<noteq> ''approve''
             then Inr (snd (finalizeReject appr ses uid None (default_expected appr) st))
             else let (won, rows) = transitionPendingApprovalStatus aid Pending Approved (as_rows st);
                      st1 = st\<lparr>as_rows := rows\<rparr>
                  in if \<not> won then Inr st
                     else case ae_handlers env (pa_action appr) of
                            None \<Rightarrow> Inr (approve_done appr ses uid
                                    (emit (Note (s_id ses) (''Your '' @ pa_action appr @
                                       '' was approved, but no handler is installed to apply it.'')) st1))
                          | Some h \<Rightarrow>
                             (case json_parse (pa_payload appr) of
                                Inl _ \<Rightarrow> Inl st1
                              | Inr payload \<Rightarrow>
                                 (case h appr ses payload uid (as_world st1) of
                                    (None, w) \<Rightarrow> Inr (approve_done appr ses uid
                                      (emit (Ran aid) (st1\<lparr>as_world := w\<rparr>)))
                                  | (Some err, w) \<Rightarrow>
                                      Inr (approve_done appr ses uid
                                        (emit (Note (s_id ses) (''Your '' @ pa_action appr @
                                           '' was approved, but applying it failed: '' @ err @ ''.''))
                                         (emit (Ran aid) (st1\<lparr>as_world := w\<rparr>))))))))"

definition handleApprovalsResponse ::
    "'w appr_env \<Rightarrow> response_payload \<Rightarrow> 'w appr_state \<Rightarrow> 'w appr_state + bool \<times> 'w appr_state" where
  "handleApprovalsResponse env p st =
     (case getPendingApproval (rp_questionId p) (as_rows st) of
        None \<Rightarrow> Inr (False, st)
      | Some appr \<Rightarrow>
         (if \<not> isAuthorizedApprovalClick appr p st then Inr (True, st)
          else if pa_action appr = GATEWAY_APPROVAL_ACTION
          then Inr (True, if ae_gateway env (rp_questionId p) (rp_value p) then st
                      else st\<lparr>as_rows := deletePendingApproval (rp_questionId p) (as_rows st)\<rparr>)
          else case handleRegisteredApproval env appr (rp_value p)
                      (case namespacedUserId p of Some u \<Rightarrow> u | None \<Rightarrow> []) st of
                 Inl st' \<Rightarrow> Inl st'
               | Inr st' \<Rightarrow> Inr (True, st')))"

subsection \<open>Asking for an approval\<close>

definition approval_options :: "raw_option list" where
  "approval_options =
     [Opt ''Approve'' (Some ([CHR 0xE2, CHR 0x9C, CHR 0x85] @ '' Approved'')) (Some ''approve'') (Some ''primary''),
      Opt ''Reject'' (Some ([CHR 0xE2, CHR 0x9D, CHR 0x8C] @ '' Rejected'')) (Some ''reject'') (Some ''danger''),
      Opt (''Reject with reason'' @ ellipsis)
        (Some ([CHR 0xF0, CHR 0x9F, CHR 0x93, CHR 0x9D] @ '' Rejected (awaiting reason)''))
        (Some REJECT_WITH_REASON_VALUE) None]"

record approval_request =
  aq_session :: session_row
  aq_action :: string
  aq_payload :: js
  aq_title :: string
  aq_question :: string
  aq_approverUserId :: "string option"

definition notifyAgent :: "session_row \<Rightarrow> string \<Rightarrow> 'w appr_state \<Rightarrow> 'w appr_state" where
  "notifyAgent ses body st =
     (let st1 = emit (Note (s_id ses) body) st
      in case getSession (s_id ses) (as_sessions st1) of
           Some fresh \<Rightarrow> emit (WakeSession (s_id fresh)) st1
         | None \<Rightarrow> st1)"

definition request_row ::
    "string \<Rightarrow> stamp \<Rightarrow> messaging_group \<Rightarrow> approval_request \<Rightarrow> pending_approval" where
  "request_row aid now target q =
     (approval_defaults aid aid (aq_action q) (Json (aq_payload q)) now (aq_title q)
        (Json (normalizeOptions approval_options)))
     \<lparr>pa_session_id := Some (s_id (aq_session q)),
      pa_channel_type := Some (mg_channel_type target),
      pa_platform_id := Some (mg_platform_id target),
      pa_instance := Some (mg_instance target),
      pa_question := aq_question q,
      pa_approver_user_id := aq_approverUserId q\<rparr>"

text \<open>
  With no adapter bound the card is sent by the callback that runs when one is: here the row is
  left and no card is logged.  \<open>Inl\<close>: the search for a reachable approver threw.
\<close>

definition requestApproval :: "'w appr_env \<Rightarrow> approval_request \<Rightarrow> 'w appr_state \<Rightarrow> 'w appr_state res" where
  "requestApproval env q st =
     (let ses = aq_session q;
          approvers = (case nonempty (aq_approverUserId q) of
                         Some u \<Rightarrow> [u]
                       | None \<Rightarrow> pickApprover (as_perm st) (Some (s_agent_group_id ses)));
          origin = (case nonempty (s_messaging_group_id ses) of
                      Some m \<Rightarrow> getMessagingGroup m (as_chat st) | None \<Rightarrow> None);
          originType = (case origin of Some g \<Rightarrow> mg_channel_type g | None \<Rightarrow> []);
          aid = (case ae_ids env of [] \<Rightarrow> [] | i # _ \<Rightarrow> i)
      in if approvers = []
         then Inr (notifyAgent ses (aq_action q @ '' failed: no owner or admin configured to approve.'') st)
         else case pickApprovalDelivery (ae_registry env) (Iso (ae_now env)) (tl (ae_ids env)) approvers
                     originType (map_option mg_instance origin) (as_perm st) (as_chat st) of
                Inl e \<Rightarrow> Inl e
              | Inr (None, chat) \<Rightarrow>
                  Inr (notifyAgent ses (aq_action q @ '' failed: no DM channel found for any eligible approver.'')
                    (st\<lparr>as_chat := chat\<rparr>))
              | Inr (Some (u, target), chat) \<Rightarrow>
                 (let st1 = st\<lparr>as_chat := chat,
                              as_rows := snd (createPendingApproval
                                           (request_row aid (Iso (ae_now env)) target q) (as_rows st))\<rparr>;
                      card = Card (to_target target (ask_question aid (aq_title q) (aq_question q)
                                    (JArr (map raw_option_js approval_options))))
                  in case ae_adapter env of
                       None \<Rightarrow> Inr st1
                     | Some True \<Rightarrow> Inr (emit card st1)
                     | Some False \<Rightarrow>
                         Inr (notifyAgent ses (aq_action q @ '' failed: could not deliver approval request to '' @ u @ ''.'')
                           (st1\<lparr>as_rows := deletePendingApproval aid (as_rows st1)\<rparr>))))"

subsection \<open>Runs\<close>

datatype appr_event = Click response_payload | DirectMessage inbound_event | SweepTick int

fun appr_step :: "'w appr_env \<Rightarrow> appr_event \<Rightarrow> 'w appr_state \<Rightarrow> 'w appr_state" where
  "appr_step env (Click p) st =
     (case handleApprovalsResponse env p st of Inl st' \<Rightarrow> st' | Inr (_, st') \<Rightarrow> st')"
| "appr_step env (DirectMessage ev) st = snd (captureReasonReply ev st)"
| "appr_step env (SweepTick now) st = sweepAwaitingReasonRejects now st"

fun is_resolution :: "string \<Rightarrow> appr_out \<Rightarrow> bool" where
  "is_resolution aid (Resolved a _ _) = (a = aid)"
| "is_resolution aid _ = False"

definition resolutions :: "string \<Rightarrow> 'w appr_state \<Rightarrow> nat" where
  "resolutions aid st = length (filter (is_resolution aid) (as_log st))"

definition runs :: "string \<Rightarrow> 'w appr_state \<Rightarrow> nat" where
  "runs aid st = length (filter (\<lambda>o1. o1 = Ran aid) (as_log st))"

definition open_row :: "string \<Rightarrow> 'w appr_state \<Rightarrow> nat" where
  "open_row aid st = (if getPendingApproval aid (as_rows st) = None then 0 else 1)"

text \<open>Each approval is open or resolved once, and each run of its handler belongs to a resolution.\<close>

definition once :: "string \<Rightarrow> 'w appr_state \<Rightarrow> bool" where
  "once aid st \<longleftrightarrow> approvals_ok (as_rows st) \<and> resolutions aid st + open_row aid st \<le> 1 \<and>
     runs aid st \<le> resolutions aid st"

lemma emit_fields [simp]:
  "as_rows (emit x st) = as_rows st" "as_sessions (emit x st) = as_sessions st"
  "as_perm (emit x st) = as_perm st" "as_log (emit x st) = as_log st @ [x]"
  "as_awaiting (emit x st) = as_awaiting st" "as_world (emit x st) = as_world st"
  "as_chat (emit x st) = as_chat st"
  by (simp_all add: emit_def)

lemma resolutions_emit [simp]:
  "resolutions aid (emit x st) = resolutions aid st + (if is_resolution aid x then 1 else 0)"
  "runs aid (emit x st) = runs aid st + (if x = Ran aid then 1 else 0)"
  "open_row aid (emit x st) = open_row aid st"
  by (simp_all add: resolutions_def runs_def open_row_def)

lemma counts_rows [simp]:
  "resolutions aid (st\<lparr>as_rows := r\<rparr>) = resolutions aid st" "runs aid (st\<lparr>as_rows := r\<rparr>) = runs aid st"
  "resolutions aid (st\<lparr>as_world := w\<rparr>) = resolutions aid st" "runs aid (st\<lparr>as_world := w\<rparr>) = runs aid st"
  "open_row aid (st\<lparr>as_world := w\<rparr>) = open_row aid st"
  "resolutions aid (st\<lparr>as_awaiting := m\<rparr>) = resolutions aid st" "runs aid (st\<lparr>as_awaiting := m\<rparr>) = runs aid st"
  "open_row aid (st\<lparr>as_awaiting := m\<rparr>) = open_row aid st"
  by (simp_all add: resolutions_def runs_def open_row_def)

lemma open_row_transition:
  assumes "approvals_ok (as_rows st)" "transitionPendingApprovalStatus k e t (as_rows st) = (won, rows)"
  shows "open_row aid (st\<lparr>as_rows := rows\<rparr>) = open_row aid st" "approvals_ok rows"
    "won \<Longrightarrow> open_row k st = 1"
  using approvals.get_transition [OF assms(1), of aid k e t] approvals.inv_transition [OF assms(1), of k e t]
    approvals.transition_won [OF assms(1), of k e t] assms(2)
  by (auto simp: open_row_def)

lemma open_row_delete:
  "open_row aid (st\<lparr>as_rows := deletePendingApproval k rows\<rparr>) =
     (if aid = k then 0 else open_row aid (st\<lparr>as_rows := rows\<rparr>))"
  by (simp add: open_row_def get_deletePendingApproval)

lemma once_delete: "once aid st \<Longrightarrow> once aid (st\<lparr>as_rows := deletePendingApproval k (as_rows st)\<rparr>)"
  by (auto simp: once_def open_row_delete approvals_ok_delete)

lemma once_finalizeReject:
  assumes "once aid st"
  shows "once aid (snd (finalizeReject appr ses uid reason e st))"
proof -
  obtain won rows where tr: "transitionPendingApprovalStatus (pa_approval_id appr) e Rejected (as_rows st) = (won, rows)"
    by fastforce
  have ok: "approvals_ok (as_rows st)" using assms by (simp add: once_def)
  note o = open_row_transition [OF ok tr]
  show ?thesis
  proof (cases won)
    case False
    then show ?thesis using assms tr by (simp add: finalizeReject_def)
  next
    case True
    have "open_row aid (st\<lparr>as_rows := deletePendingApproval (pa_approval_id appr) rows\<rparr>) =
        (if aid = pa_approval_id appr then 0 else open_row aid st)"
      using o(1) by (simp add: open_row_delete)
    then show ?thesis using True tr assms o(2) o(3) [OF True]
      by (auto simp: finalizeReject_def once_def approvals_ok_delete open_row_def)
  qed
qed

lemma approvals_ok_mark:
  "approvals_ok rows \<Longrightarrow> approvals_ok (snd (markApprovalAwaitingReason k t rows))"
  by (auto simp: markApprovalAwaitingReason_def Let_def intro: approvals_ok_update)

lemma get_mark:
  "getPendingApproval k' (snd (markApprovalAwaitingReason k t rows)) =
     (if k' = k then map_option (\<lambda>r. if pa_approval_id r = k \<and> pa_status r = Pending
                                    then r\<lparr>pa_status := AwaitingReason, pa_expires_at := Some t\<rparr> else r)
                      (getPendingApproval k rows)
      else getPendingApproval k' rows)"
  unfolding markApprovalAwaitingReason_def Let_def snd_conv by (rule get_update_key) auto

lemma once_mark:
  assumes "once aid st" "markApprovalAwaitingReason k t (as_rows st) = (held, rows)"
  shows "once aid (st\<lparr>as_rows := rows\<rparr>)"
  using assms approvals_ok_mark [of "as_rows st" k t] get_mark [of aid k t "as_rows st"]
  by (auto simp: once_def open_row_def split: if_splits)

lemma once_arm:
  assumes "once aid st"
  shows "once aid (armReasonCapture env appr ses uid st)"
proof -
  obtain held rows where m: "markApprovalAwaitingReason (pa_approval_id appr)
      (Iso (ae_now env + REASON_CAPTURE_WINDOW_MS)) (as_rows st) = (held, rows)" by fastforce
  have st1: "once aid (st\<lparr>as_rows := rows\<rparr>)" by (rule once_mark [OF assms m])
  have awaiting: "once aid (x\<lparr>as_awaiting := a\<rparr>) = once aid x" for x :: "'a appr_state" and a
    by (simp add: once_def)
  have card: "once aid (emit (Card c) x) = once aid x" for x :: "'a appr_state" and c
    by (simp add: once_def)
  show ?thesis
    using assms st1 once_finalizeReject [OF st1, of appr ses uid None AwaitingReason]
    unfolding armReasonCapture_def m Let_def
    by (simp split: option.split bool.split add: awaiting card)
qed

lemma once_capture: "once aid st \<Longrightarrow> once aid (snd (captureReasonReply ev st))"
proof -
  assume a: "once aid st"
  have awaiting: "once aid (st\<lparr>as_awaiting := m\<rparr>)" for m using a by (simp add: once_def)
  show ?thesis
    unfolding captureReasonReply_def Let_def
    using a awaiting once_finalizeReject [OF awaiting] once_delete [OF awaiting]
    by (simp split: option.split)
qed

lemma once_sweep: "once aid st \<Longrightarrow> once aid (sweepAwaitingReasonRejects now st)"
proof -
  have one: "once aid s \<Longrightarrow> once aid (sweep_one r s)" for r and s :: "'a appr_state"
    by (simp add: sweep_one_def once_finalizeReject once_delete split: option.split)
  have "once aid s \<Longrightarrow> once aid (fold sweep_one rs s)" for rs and s :: "'a appr_state"
    by (induction rs arbitrary: s) (auto intro: one)
  then show "once aid st \<Longrightarrow> ?thesis" by (simp add: sweepAwaitingReasonRejects_def)
qed

lemma once_approve_done:
  assumes "approvals_ok (as_rows st)" "resolutions aid st + open_row aid st \<le> 1"
    and "runs aid st \<le> resolutions aid st + (if aid = pa_approval_id appr then 1 else 0)"
    and "open_row (pa_approval_id appr) st = 1"
  shows "once aid (approve_done appr ses uid st)"
  using assms
  by (auto simp: approve_done_def once_def approvals_ok_delete open_row_delete)

lemma once_registered:
  assumes "once aid st"
  shows "handleRegisteredApproval env appr v uid st = Inl st' \<Longrightarrow> once aid st'"
    and "handleRegisteredApproval env appr v uid st = Inr st' \<Longrightarrow> once aid st'"
proof -
  obtain won rows where tr: "transitionPendingApprovalStatus (pa_approval_id appr) Pending Approved (as_rows st) = (won, rows)"
    by fastforce
  have ok: "approvals_ok (as_rows st)" using assms by (simp add: once_def)
  note o = open_row_transition [OF ok tr]
  let ?st1 = "st\<lparr>as_rows := rows\<rparr>"
  have st1: "once aid ?st1" using assms o by (simp add: once_def)
  have row: "won \<Longrightarrow> open_row (pa_approval_id appr) ?st1 = 1"
    using open_row_transition(1) [OF ok tr, of "pa_approval_id appr"] o(3) by simp
  have fin: "won \<Longrightarrow> once aid (approve_done appr ses uid (emit (Note n t) ?st1))"
    "won \<Longrightarrow> once aid (approve_done appr ses uid (emit (Ran (pa_approval_id appr)) (?st1\<lparr>as_world := w\<rparr>)))"
    "won \<Longrightarrow> once aid (approve_done appr ses uid
       (emit (Note n t) (emit (Ran (pa_approval_id appr)) (?st1\<lparr>as_world := w\<rparr>))))" for ses n t w
    using st1 [unfolded once_def] row by - (rule once_approve_done; auto)+
  note cases = once_delete [OF assms, of "pa_approval_id appr"] once_arm [OF assms, of env appr _ uid]
    once_finalizeReject [OF assms, of appr _ uid None "default_expected appr"] assms st1 fin
  show "handleRegisteredApproval env appr v uid st = Inl st' \<Longrightarrow> once aid st'"
    unfolding handleRegisteredApproval_def tr Let_def
    using cases by (auto split: option.splits if_splits sum.splits prod.splits)
  show "handleRegisteredApproval env appr v uid st = Inr st' \<Longrightarrow> once aid st'"
    unfolding handleRegisteredApproval_def tr Let_def
    using cases by (auto split: option.splits if_splits sum.splits prod.splits)
qed

lemma once_step: "once aid st \<Longrightarrow> once aid (appr_step env ev st)"
proof (cases ev)
  case (Click p)
  assume a: "once aid st"
  show ?thesis
    unfolding Click appr_step.simps handleApprovalsResponse_def
    using a once_delete [OF a] once_registered [OF a]
    by (auto split: option.split sum.split)
qed (auto intro: once_capture once_sweep)

lemma once_run: "once aid st \<Longrightarrow> once aid (fold (appr_step env) evs st)"
  by (induction evs arbitrary: st) (auto intro: once_step)

lemma sweep_one_rows:
  assumes "approvals_ok (as_rows st)" "getPendingApproval (pa_approval_id r) (as_rows st) = Some r"
    "pa_status r = AwaitingReason"
  shows "getPendingApproval k (as_rows (sweep_one r st)) =
     (if k = pa_approval_id r then None else getPendingApproval k (as_rows st))"
    and "approvals_ok (as_rows (sweep_one r st))"
proof -
  obtain won rows where tr: "transitionPendingApprovalStatus (pa_approval_id r) AwaitingReason Rejected (as_rows st) = (won, rows)"
    by fastforce
  have won: "won" using approvals.transition_won [OF assms(1), of "pa_approval_id r" AwaitingReason Rejected] assms tr by simp
  have get: "k \<noteq> pa_approval_id r \<Longrightarrow> getPendingApproval k rows = getPendingApproval k (as_rows st)"
    using approvals.get_transition [OF assms(1), of k "pa_approval_id r" AwaitingReason Rejected] tr by simp
  have ok: "approvals_ok rows" using approvals.inv_transition [OF assms(1)] tr by (metis snd_conv)
  have fin: "as_rows (snd (finalizeReject r ses uid reason (default_expected r) st)) =
      deletePendingApproval (pa_approval_id r) rows" for ses uid reason
    using tr won assms(3) by (simp add: finalizeReject_def default_expected_def)
  show "getPendingApproval k (as_rows (sweep_one r st)) =
     (if k = pa_approval_id r then None else getPendingApproval k (as_rows st))"
    by (simp add: sweep_one_def fin get get_deletePendingApproval split: option.split)
  show "approvals_ok (as_rows (sweep_one r st))"
    by (simp add: sweep_one_def fin approvals_ok_delete ok assms(1) split: option.split)
qed

lemma sweep_rows:
  assumes "approvals_ok (as_rows st)" "distinct (map pa_approval_id rs)"
    "\<forall>r \<in> set rs. getPendingApproval (pa_approval_id r) (as_rows st) = Some r \<and> pa_status r = AwaitingReason"
  shows "getPendingApproval k (as_rows (fold sweep_one rs st)) =
     (if k \<in> pa_approval_id ` set rs then None else getPendingApproval k (as_rows st))"
  using assms
proof (induction rs arbitrary: st)
  case (Cons r rs)
  have r: "getPendingApproval (pa_approval_id r) (as_rows st) = Some r" "pa_status r = AwaitingReason"
    using Cons.prems(3) by auto
  note one = sweep_one_rows [OF Cons.prems(1) r]
  have "getPendingApproval k (as_rows (fold sweep_one rs (sweep_one r st))) =
      (if k \<in> pa_approval_id ` set rs then None else getPendingApproval k (as_rows (sweep_one r st)))"
  proof (rule Cons.IH)
    show "approvals_ok (as_rows (sweep_one r st))" by (rule one(2))
    show "distinct (map pa_approval_id rs)" using Cons.prems(2) by simp
    show "\<forall>x \<in> set rs. getPendingApproval (pa_approval_id x) (as_rows (sweep_one r st)) = Some x \<and>
        pa_status x = AwaitingReason"
    proof
      fix x
      assume x: "x \<in> set rs"
      then have "pa_approval_id x \<noteq> pa_approval_id r"
        using Cons.prems(2) by (auto simp: image_iff)
      then show "getPendingApproval (pa_approval_id x) (as_rows (sweep_one r st)) = Some x \<and>
          pa_status x = AwaitingReason"
        using Cons.prems(3) x one(1) by simp
    qed
  qed
  then show ?case using one(1) [of k] by (cases "k = pa_approval_id r") simp_all
qed simp

lemma finalizeReject_ok:
  assumes "approvals_ok (as_rows st)"
  shows "approvals_ok (as_rows (snd (finalizeReject appr ses uid reason e st)))"
proof -
  obtain won rows where tr: "transitionPendingApprovalStatus (pa_approval_id appr) e Rejected (as_rows st) = (won, rows)"
    by fastforce
  then show ?thesis
    using assms open_row_transition(2) [OF assms tr] by (simp add: finalizeReject_def approvals_ok_delete)
qed

lemma sweep_ok: "approvals_ok (as_rows st) \<Longrightarrow> approvals_ok (as_rows (fold sweep_one rs st))"
proof (induction rs arbitrary: st)
  case (Cons r rs)
  have "approvals_ok (as_rows (sweep_one r st))"
    by (simp add: sweep_one_def finalizeReject_ok approvals_ok_delete Cons.prems split: option.split)
  then show ?case using Cons.IH by simp
qed simp

subsection \<open>Properties\<close>


definition demo_session :: session_row where
  "demo_session = \<lparr>s_id = ''sess-1'', s_agent_group_id = ''a'', s_messaging_group_id = None, s_thread_id = None,
     s_agent_provider = None, s_status = Active, s_container_status = Running, s_last_active = None,
     s_created_at = Iso 0\<rparr>"

definition demo_appr_state :: "unit appr_state" where
  "demo_appr_state = \<lparr>as_rows = [demo_approval\<lparr>pa_session_id := Some ''sess-1''\<rparr>],
     as_sessions = [demo_session], as_perm = demo_perms, as_chat = demo_chats, as_awaiting = [],
     as_world = (), as_log = []\<rparr>"

definition demo_appr_env :: "unit appr_env" where
  "demo_appr_env = \<lparr>ae_registry = demo_registry, ae_now = 0, ae_ids = [''appr-2''], ae_adapter = Some True,
     ae_handlers = (\<lambda>_. Some (\<lambda>_ _ _ _ w. (None, w))), ae_gateway = (\<lambda>_ _. False)\<rparr>"

definition demo_answer :: "string \<Rightarrow> string \<Rightarrow> response_payload" where
  "demo_answer u v = \<lparr>rp_questionId = ''appr-1'', rp_value = v, rp_userId = Some u,
     rp_channelType = ''slack'', rp_platformId = ''D1'', rp_threadId = None\<rparr>"


text \<open>
  Only an eligible person can move an approval: a click that changes anything comes from
  the approver the row names, if it names one, and otherwise from someone with administration
  rights over the agent group of the request (an owner or global admin when there is none).
\<close>
theorem only_authorized_clicks_act:
  assumes "getPendingApproval (rp_questionId p) (as_rows st) = Some appr"
    and "appr_step env (Click p) st \<noteq> st"
  shows "\<exists>u. namespacedUserId p = Some u \<and>
     (case nonempty (pa_approver_user_id appr) of
        Some named \<Rightarrow> u = named
      | None \<Rightarrow> isOwner (as_perm st) u \<or> isGlobalAdmin (as_perm st) u \<or>
          (\<exists>g. isAdminOfAgentGroup (as_perm st) u g \<and>
             (pa_agent_group_id appr = Some g \<or>
              (\<exists>ses. pa_session_id appr = Some (s_id ses) \<and> ses \<in> set (as_sessions st) \<and> s_agent_group_id ses = g))))"
proof -
  have "isAuthorizedApprovalClick appr p st"
    using assms by (auto simp: handleApprovalsResponse_def split: if_splits)
  then show ?thesis
    by (auto simp: isAuthorizedApprovalClick_def Let_def hasAdminPrivilege_def nonempty_def getSession_def
             dest!: find_SomeD split: option.splits if_splits)
qed

theorem only_authorized_clicks_act_witness:
  "\<exists>u. namespacedUserId (demo_answer ''u1'' ''reject'') = Some u \<and> isOwner demo_perms u"
proof -
  let ?p = "demo_answer ''u1'' ''reject''"
  have g: "getPendingApproval (rp_questionId ?p) (as_rows demo_appr_state) =
      Some (demo_approval\<lparr>pa_session_id := Some ''sess-1''\<rparr>)" by code_simp
  have "as_log (appr_step demo_appr_env (Click ?p) demo_appr_state) \<noteq> as_log demo_appr_state" by code_simp
  then have "appr_step demo_appr_env (Click ?p) demo_appr_state \<noteq> demo_appr_state" by auto
  from only_authorized_clicks_act [OF g this]
  obtain u where u: "namespacedUserId ?p = Some u"
    and "nonempty (pa_approver_user_id (demo_approval\<lparr>pa_session_id := Some ''sess-1''\<rparr>)) = None \<longrightarrow>
      isOwner demo_perms u \<or> isGlobalAdmin demo_perms u \<or> (\<exists>g. isAdminOfAgentGroup demo_perms u g)"
    by (auto simp: demo_appr_state_def split: option.splits)
  then have "isOwner demo_perms u \<or> isGlobalAdmin demo_perms u \<or> (\<exists>g. isAdminOfAgentGroup demo_perms u g)"
    by (simp add: demo_approval_def approval_defaults_def nonempty_def)
  moreover have "\<not> isGlobalAdmin demo_perms u" "\<not> isAdminOfAgentGroup demo_perms u g" for g
    by (simp_all add: isGlobalAdmin_def isAdminOfAgentGroup_def has_role_def demo_perms_def)
  ultimately show ?thesis using u by blast
qed

text \<open>
  A rejection waiting for its reason never waits for ever: after a sweep, no held approval
  whose window has passed is left, and every other approval is untouched.
\<close>
theorem sweep_ends_expired_holds:
  assumes "approvals_ok (as_rows st)"
  shows "getExpiredAwaitingReasonApprovals now (as_rows (sweepAwaitingReasonRejects now st)) = [] \<and>
    (\<forall>r. getPendingApproval k (as_rows st) = Some r \<longrightarrow>
       r \<notin> set (getExpiredAwaitingReasonApprovals now (as_rows st)) \<longrightarrow>
       getPendingApproval k (as_rows (sweepAwaitingReasonRejects now st)) = Some r)"
proof -
  let ?rs = "getExpiredAwaitingReasonApprovals now (as_rows st)"
  let ?st = "sweepAwaitingReasonRejects now st"
  have sub: "r \<in> set (as_rows st) \<and> pa_status r = AwaitingReason" if "r \<in> set ?rs" for r
    using that by (simp add: getExpiredAwaitingReasonApprovals_def)
  have key: "getPendingApproval (pa_approval_id r) (as_rows st) = Some r" if "r \<in> set (as_rows st)" for r
    using find_key_unique [of pa_approval_id "as_rows st" r] that assms
    by (simp add: getPendingApproval_def approvals_ok_def)
  have d: "distinct (map pa_approval_id ?rs)"
    using assms by (simp add: getExpiredAwaitingReasonApprovals_def approvals_ok_def distinct_map_filter)
  have get: "getPendingApproval k (as_rows ?st) =
      (if k \<in> pa_approval_id ` set ?rs then None else getPendingApproval k (as_rows st))" for k
    unfolding sweepAwaitingReasonRejects_def using sweep_rows [OF assms d] sub key by blast
  have ok: "approvals_ok (as_rows ?st)"
    unfolding sweepAwaitingReasonRejects_def using sweep_ok [OF assms] .
  have "r \<notin> set (getExpiredAwaitingReasonApprovals now (as_rows ?st))" for r
  proof
    assume r: "r \<in> set (getExpiredAwaitingReasonApprovals now (as_rows ?st))"
    then have "getPendingApproval (pa_approval_id r) (as_rows ?st) = Some r"
      using find_key_unique [of pa_approval_id "as_rows ?st" r] ok
      by (simp add: getPendingApproval_def approvals_ok_def getExpiredAwaitingReasonApprovals_def)
    then have g: "pa_approval_id r \<notin> pa_approval_id ` set ?rs"
      "getPendingApproval (pa_approval_id r) (as_rows st) = Some r"
      using get by (auto split: if_splits)
    then have "r \<in> set (as_rows st)" by (auto simp: getPendingApproval_def dest: find_SomeD)
    then have "r \<in> set ?rs" using r by (simp add: getExpiredAwaitingReasonApprovals_def)
    with g show False by blast
  qed
  then have "getExpiredAwaitingReasonApprovals now (as_rows ?st) = []"
    by (metis list.set_intros(1) neq_Nil_conv)
  moreover have "r \<notin> set ?rs \<Longrightarrow> k \<notin> pa_approval_id ` set ?rs"
    if "getPendingApproval k (as_rows st) = Some r" for r
    using that key sub by (auto simp: getPendingApproval_def dest: find_SomeD)
  ultimately show ?thesis using get by auto
qed

theorem sweep_ends_expired_holds_witness:
  "\<exists>st :: unit appr_state. getExpiredAwaitingReasonApprovals 9 (as_rows st) \<noteq> [] \<and>
     getExpiredAwaitingReasonApprovals 9 (as_rows (sweepAwaitingReasonRejects 9 st)) = []"
proof -
  let ?st = "demo_appr_state\<lparr>as_rows := [demo_approval\<lparr>pa_status := AwaitingReason, pa_expires_at := Some (Iso 5)\<rparr>]\<rparr>"
  have "approvals_ok (as_rows ?st)" by (simp add: approvals_ok_def)
  from sweep_ends_expired_holds [OF this]
  have "getExpiredAwaitingReasonApprovals 9 (as_rows (sweepAwaitingReasonRejects 9 ?st)) = []" by blast
  moreover have "getExpiredAwaitingReasonApprovals 9 (as_rows ?st) \<noteq> []"
    by (simp add: getExpiredAwaitingReasonApprovals_def)
  ultimately show ?thesis by blast
qed

end
