(* ===== verification/IsoTime.thy ===== *)
theory IsoTime
  imports Prelude
begin

text \<open>
  Timestamps at the mailbox boundary (\<open>parseIsoTimestamp\<close> of \<open>src/mailbox/model.ts\<close>), where they
  are still text: \<open>Date.prototype.toISOString\<close> on the proleptic Gregorian calendar, and the parser
  that accepts exactly its range.  \<open>iso_ms\<close> reads the fields of a text by position; on text that
  \<open>toISOString\<close> does not print it may return any number, and \<open>parseIsoTimestamp\<close> then rejects
  by comparing, as the source does.
\<close>

subsection \<open>The calendar\<close>

text \<open>Days since 1970-01-01; years start in March inside an era of 400 years.\<close>

definition days_from_civil :: "int \<Rightarrow> int \<Rightarrow> int \<Rightarrow> int" where
  "days_from_civil year m d =
     (let y = (if m \<le> 2 then year - 1 else year);
          yoe = y mod 400;
          mp = (if m > 2 then m - 3 else m + 9);
          doe = yoe * 365 + yoe div 4 - yoe div 100 + ((153 * mp + 2) div 5 + d - 1)
      in (y div 400) * 146097 + doe - 719468)"

definition civil_from_days :: "int \<Rightarrow> int \<times> int \<times> int" where
  "civil_from_days days =
     (let z = days + 719468;
          doe = z mod 146097;
          yoe = (doe - doe div 1460 + doe div 36524 - doe div 146096) div 365;
          doy = doe - (365 * yoe + yoe div 4 - yoe div 100);
          mp = (5 * doy + 2) div 153;
          m = (if mp < 10 then mp + 3 else mp - 9);
          y = yoe + (z div 146097) * 400
      in (if m \<le> 2 then y + 1 else y, m, doy - (153 * mp + 2) div 5 + 1))"

subsection \<open>Printing\<close>

definition MAX_DATE :: int where
  "MAX_DATE = 8640000000000000"

primrec digits :: "nat \<Rightarrow> int \<Rightarrow> string" where
  "digits 0 n = []"
| "digits (Suc k) n = digits k (n div 10) @ [char_of (48 + n mod 10)]"

definition iso_year :: "int \<Rightarrow> string" where
  "iso_year y =
     (if 0 \<le> y \<and> y \<le> 9999 then digits 4 y
      else if y < 0 then ''-'' @ digits 6 (- y) else ''+'' @ digits 6 y)"

definition toISOString :: "int \<Rightarrow> string" where
  "toISOString ms =
     (let (y, m, d) = civil_from_days (ms div 86400000); t = ms mod 86400000
      in iso_year y @ ''-'' @ digits 2 m @ ''-'' @ digits 2 d @ ''T'' @
         digits 2 (t div 3600000) @ '':'' @ digits 2 (t div 60000 mod 60) @ '':'' @
         digits 2 (t div 1000 mod 60) @ ''.'' @ digits 3 (t mod 1000) @ ''Z'')"

subsection \<open>Reading\<close>

definition str_int :: "string \<Rightarrow> int" where
  "str_int s = foldl (\<lambda>a c. a * 10 + (of_char c - 48)) 0 s"

definition field :: "nat \<Rightarrow> nat \<Rightarrow> string \<Rightarrow> int" where
  "field i n s = str_int (take n (drop i s))"

definition read_year :: "string \<Rightarrow> int \<times> string" where
  "read_year s =
     (case s of
        c # cs \<Rightarrow> if c = CHR ''-'' then (- field 0 6 cs, drop 6 cs)
                  else if c = CHR ''+'' then (field 0 6 cs, drop 6 cs)
                  else (field 0 4 s, drop 4 s)
      | [] \<Rightarrow> (0, []))"

definition iso_ms :: "string \<Rightarrow> int" where
  "iso_ms s =
     (let (y, r) = read_year s
      in days_from_civil y (field 1 2 r) (field 4 2 r) * 86400000 + field 7 2 r * 3600000 +
         field 10 2 r * 60000 + field 13 2 r * 1000 + field 16 3 r)"

definition valid_iso :: "string \<Rightarrow> bool" where
  "valid_iso s = (\<bar>iso_ms s\<bar> \<le> MAX_DATE \<and> toISOString (iso_ms s) = s)"

definition parseIsoTimestamp :: "js \<Rightarrow> string res" where
  "parseIsoTimestamp v =
     (case v of
        JStr s \<Rightarrow> if valid_iso s then Inr s else Inl (Error ''invalid ISO-8601 UTC timestamp'')
      | _ \<Rightarrow> Inl (Error ''invalid ISO-8601 UTC timestamp''))"

subsection \<open>The two directions agree\<close>

lemma length_digits [simp]: "length (digits k n) = k"
  by (induction k arbitrary: n) auto

lemma of_char_digit_int: "0 \<le> d \<Longrightarrow> d < 10 \<Longrightarrow> of_char (char_of (48 + d :: int) :: char) = (48 + d :: int)"
  by simp

lemma str_int_digits: "0 \<le> n \<Longrightarrow> n < 10 ^ k \<Longrightarrow> str_int (digits k n) = n"
proof (induction k arbitrary: n)
  case (Suc k)
  then have "n < 10 ^ k * 10" by (simp add: mult.commute)
  then have "n div 10 < 10 ^ k" by linarith
  then have "str_int (digits k (n div 10)) = n div 10" using Suc by simp
  then show ?case using of_char_digit_int [of "n mod 10"] by (simp add: str_int_def)
qed (simp add: str_int_def)

lemma yoe_bounds:
  fixes doe :: int
  assumes "0 \<le> doe" "doe < 146097"
    and "yoe = (doe - doe div 1460 + doe div 36524 - doe div 146096) div 365"
  shows "0 \<le> yoe \<and> yoe < 400"
    and "0 \<le> doe - (365 * yoe + yoe div 4 - yoe div 100)"
    and "doe - (365 * yoe + yoe div 4 - yoe div 100) \<le> 365"
proof -
  define a b c q h where d: "a = doe div 146096" "b = doe div 1460" "c = doe div 36524"
    "q = yoe div 4" "h = yoe div 100"
  have c: "36524 * c \<le> doe" "doe < 36524 * c + 36524" using d(3) by linarith+
  have b: "1460 * b \<le> doe" "doe < 1460 * b + 1460" using d(2) by linarith+
  have a: "146096 * a \<le> doe" "doe < 146096 * a + 146096" using d(1) by linarith+
  have y: "365 * yoe \<le> doe - b + c - a" "doe - b + c - a < 365 * yoe + 365"
    using assms(3) d by linarith+
  have q: "4 * q \<le> yoe" "yoe < 4 * q + 4" using d(4) by linarith+
  have h: "100 * h \<le> yoe" "yoe < 100 * h + 100" using d(5) by linarith+
  have bs: "b \<le> 99 \<or> b = 100" using b assms(1,2) by linarith
  have cs: "c = 0 \<or> c = 1 \<or> c = 2 \<or> c = 3 \<or> c = 4" using c assms(1,2) by linarith
  have as: "a = 0 \<or> a = 1" using a assms(1,2) by linarith
  have lo: "0 \<le> yoe" using a b c y assms(1,2) cs as bs by (elim disjE; linarith)
  have hi: "yoe < 400" using a b c y assms(1,2) cs as bs by (elim disjE; simp; linarith)
  show "0 \<le> yoe \<and> yoe < 400" using lo hi by simp
  have hs: "h = 0 \<or> h = 1 \<or> h = 2 \<or> h = 3" using h lo hi by linarith
  have "0 \<le> doe - (365 * yoe + q - h)"
    using cs as hs a b c y q h assms(1,2) by (elim disjE) linarith+
  then show "0 \<le> doe - (365 * yoe + yoe div 4 - yoe div 100)" unfolding d .
  have "doe - (365 * yoe + q - h) \<le> 365"
    using cs as hs a b c y q h assms(1,2) by (elim disjE) linarith+
  then show "doe - (365 * yoe + yoe div 4 - yoe div 100) \<le> 365" unfolding d .
qed

lemma month_day:
  fixes n mp w :: int
  assumes "mp = (5 * n + 2) div 153" "w = (153 * mp + 2) div 5"
  shows "0 \<le> n - w" "n - w \<le> 30"
proof -
  have "153 * mp \<le> 5 * n + 2" "5 * n + 2 < 153 * mp + 153" using assms(1) by linarith+
  moreover have "5 * w \<le> 153 * mp + 2" "153 * mp + 2 < 5 * w + 5" using assms(2) by linarith+
  ultimately show "0 \<le> n - w" "n - w \<le> 30" by linarith+
qed

lemma civil_bounds:
  assumes "civil_from_days z = (y, m, d)"
  shows "1 \<le> m \<and> m \<le> 12" "1 \<le> d \<and> d \<le> 31" "days_from_civil y m d = z"
proof -
  define doe where "doe = (z + 719468) mod 146097"
  define yoe where "yoe = (doe - doe div 1460 + doe div 36524 - doe div 146096) div 365"
  define doy where "doy = doe - (365 * yoe + yoe div 4 - yoe div 100)"
  define mp where "mp = (5 * doy + 2) div 153"
  define e where "e = (z + 719468) div 146097"
  have b: "0 \<le> doe" "doe < 146097" by (simp_all add: doe_def)
  note yb = yoe_bounds [OF b yoe_def, folded doy_def]
  have mp: "0 \<le> mp" "mp \<le> 11" using yb(2,3) unfolding mp_def by linarith+
  have d0: "0 \<le> doy - (153 * mp + 2) div 5 \<and> doy - (153 * mp + 2) div 5 \<le> 30"
    using month_day [OF mp_def refl] by blast
  have z: "z + 719468 = e * 146097 + doe" by (simp add: e_def doe_def)
  let ?m = "if mp < 10 then mp + 3 else mp - 9" and ?y = "yoe + e * 400"
  have cv: "civil_from_days z = (if ?m \<le> 2 then ?y + 1 else ?y, ?m, doy - (153 * mp + 2) div 5 + 1)"
    unfolding civil_from_days_def Let_def mp_def doy_def yoe_def doe_def e_def by (rule refl)
  have c: "m = (if mp < 10 then mp + 3 else mp - 9)" "d = doy - (153 * mp + 2) div 5 + 1"
    "y = (if m \<le> 2 then yoe + e * 400 + 1 else yoe + e * 400)"
    using assms unfolding cv by auto
  show "1 \<le> m \<and> m \<le> 12" using c(1) mp by simp
  show "1 \<le> d \<and> d \<le> 31" using c(2) d0 by simp
  have mp': "(if m > 2 then m - 3 else m + 9) = mp" using c(1) mp by simp
  have y': "(if m \<le> 2 then y - 1 else y) = yoe + e * 400" using c(3) by simp
  have "(yoe + e * 400) mod 400 = yoe" "(yoe + e * 400) div 400 = e" using yb by simp_all
  then show "days_from_civil y m d = z"
    using z c(2) unfolding days_from_civil_def Let_def y' mp' doy_def by simp
qed

lemma digits_head: "c \<in> set (digits k n) \<Longrightarrow> c \<noteq> CHR ''-'' \<and> c \<noteq> CHR ''+''"
proof (induction k arbitrary: n)
  case (Suc k)
  have "(of_char (char_of (48 + n mod 10) :: char) :: int) = 48 + n mod 10" by (rule of_char_digit_int) simp_all
  moreover have "0 \<le> n mod 10" by simp
  moreover have "(of_char (CHR ''-'') :: int) = 45" "(of_char (CHR ''+'') :: int) = 43" by simp_all
  ultimately have "char_of (48 + n mod 10) \<noteq> CHR ''-''" "char_of (48 + n mod 10) \<noteq> CHR ''+''" by force+
  then show ?case using Suc.IH [of "n div 10"] Suc.prems unfolding digits.simps by (auto simp del: char_of_eq_iff)
qed simp

lemma field_digits:
  "length xs = i \<Longrightarrow> 0 \<le> n \<Longrightarrow> n < 10 ^ k \<Longrightarrow> field i k (xs @ digits k n @ ys) = n"
  by (simp add: field_def str_int_digits)

lemma read_year:
  assumes "\<bar>y\<bar> < 1000000"
  shows "read_year (iso_year y @ r) = (y, r)"
proof (cases "0 \<le> y \<and> y \<le> 9999")
  case True
  obtain c cs where c: "digits 4 y = c # cs" by (metis length_digits length_0_conv neq_Nil_conv zero_neq_numeral)
  then have "c \<noteq> CHR ''-'' \<and> c \<noteq> CHR ''+''" by (metis digits_head list.set_intros(1))
  moreover have "field 0 4 ((c # cs) @ r) = y" "drop 4 ((c # cs) @ r) = r"
    using True field_digits [of "[]" 0 y 4 r] c length_digits [of 4 y]
    by (simp_all add: nat_less_iff)
  ultimately show ?thesis using True c by (simp add: read_year_def iso_year_def)
next
  case False
  have "field 0 6 (digits 6 \<bar>y\<bar> @ r) = \<bar>y\<bar>"
    using field_digits [of "[]" 0 "\<bar>y\<bar>" 6 r] assms by simp
  then show ?thesis using False by (auto simp: read_year_def iso_year_def abs_if)
qed

lemma civil_year:
  assumes "civil_from_days z = (y, m, d)" "\<bar>z\<bar> \<le> 100000000"
  shows "\<bar>y\<bar> < 1000000"
proof -
  define doe where "doe = (z + 719468) mod 146097"
  define yoe where "yoe = (doe - doe div 1460 + doe div 36524 - doe div 146096) div 365"
  have "0 \<le> doe" "doe < 146097" by (simp_all add: doe_def)
  from yoe_bounds(1) [OF this yoe_def] have y: "0 \<le> yoe" "yoe < 400" by simp_all
  have "fst (civil_from_days z) = yoe + (z + 719468) div 146097 * 400 \<or>
      fst (civil_from_days z) = yoe + (z + 719468) div 146097 * 400 + 1"
    unfolding civil_from_days_def Let_def doe_def [symmetric] yoe_def [symmetric] fst_conv by (simp only: split: if_split) blast
  then have yoe: "0 \<le> yoe" "yoe < 400"
    "y = yoe + (z + 719468) div 146097 * 400 \<or> y = yoe + (z + 719468) div 146097 * 400 + 1"
    using y assms(1) by simp_all
  define e where "e = (z + 719468) div 146097"
  have "146097 * e \<le> z + 719468" "z + 719468 < 146097 * e + 146097" unfolding e_def by linarith+
  then have e: "- 700 \<le> e" "e \<le> 700" using assms(2) by linarith+
  then show ?thesis using yoe(3) [folded e_def] yoe(1,2) by linarith
qed

lemma iso_ms_toISOString [simp]:
  assumes "\<bar>ms\<bar> \<le> MAX_DATE"
  shows "iso_ms (toISOString ms) = ms"
proof -
  obtain y m d where c: "civil_from_days (ms div 86400000) = (y, m, d)" by (cases "civil_from_days (ms div 86400000)")
  define t where "t = ms mod 86400000"
  note b = civil_bounds [OF c]
  have "\<bar>ms div 86400000\<bar> \<le> 100000000" using assms unfolding MAX_DATE_def abs_le_iff by linarith
  from civil_year [OF c this] have y: "\<bar>y\<bar> < 1000000" .
  have t: "0 \<le> t" "t < 86400000" unfolding t_def by simp_all
  define r where "r = ''-'' @ digits 2 m @ ''-'' @ digits 2 d @ ''T'' @
         digits 2 (t div 3600000) @ '':'' @ digits 2 (t div 60000 mod 60) @ '':'' @
         digits 2 (t div 1000 mod 60) @ ''.'' @ digits 3 (t mod 1000) @ ''Z''"
  have s: "toISOString ms = iso_year y @ r" by (simp add: toISOString_def Let_def c t_def r_def)
  have f1: "field 1 2 r = m"
    using b(1) field_digits [of "''-''" 1 m 2] by (simp add: r_def nat_less_iff)
  have f2: "field 4 2 r = d"
    using b(2) field_digits [of "''-'' @ digits 2 m @ ''-''" 4 d 2] by (simp add: r_def nat_less_iff)
  have f3: "field 7 2 r = t div 3600000"
    using t field_digits [of "''-'' @ digits 2 m @ ''-'' @ digits 2 d @ ''T''" 7 "t div 3600000" 2]
    by (simp add: r_def nat_less_iff)
  have f4: "field 10 2 r = t div 60000 mod 60"
    using field_digits [of "''-'' @ digits 2 m @ ''-'' @ digits 2 d @ ''T'' @
      digits 2 (t div 3600000) @ '':''" 10 "t div 60000 mod 60" 2]
    by (simp add: r_def nat_less_iff)
  have f5: "field 13 2 r = t div 1000 mod 60"
    using field_digits [of "''-'' @ digits 2 m @ ''-'' @ digits 2 d @ ''T'' @
      digits 2 (t div 3600000) @ '':'' @ digits 2 (t div 60000 mod 60) @ '':''" 13 "t div 1000 mod 60" 2]
    by (simp add: r_def nat_less_iff)
  have f6: "field 16 3 r = t mod 1000"
    using field_digits [of "''-'' @ digits 2 m @ ''-'' @ digits 2 d @ ''T'' @
      digits 2 (t div 3600000) @ '':'' @ digits 2 (t div 60000 mod 60) @ '':'' @
      digits 2 (t div 1000 mod 60) @ ''.''" 16 "t mod 1000" 3]
    by (simp add: r_def nat_less_iff)
  have "(t div 3600000) * 3600000 + (t div 60000 mod 60) * 60000 + (t div 1000 mod 60) * 1000 + t mod 1000 = t"
  proof -
    have "t div 60000 = t div 1000 div 60" "t div 3600000 = t div 1000 div 60 div 60"
      by (simp_all add: zdiv_zmult2_eq [symmetric])
    then show ?thesis by presburger
  qed
  moreover have "iso_ms (toISOString ms) = days_from_civil y m d * 86400000 + (t div 3600000) * 3600000 +
      (t div 60000 mod 60) * 60000 + (t div 1000 mod 60) * 1000 + t mod 1000"
    unfolding iso_ms_def s read_year [OF y] using f1 f2 f3 f4 f5 f6 by simp
  moreover have "ms div 86400000 * 86400000 + t = ms" by (simp add: t_def)
  ultimately show ?thesis unfolding b(3) by linarith
qed

text \<open>The accepted texts are exactly what \<open>toISOString\<close> prints for a representable time.\<close>

lemma valid_iso_iff: "valid_iso s \<longleftrightarrow> (\<exists>ms. \<bar>ms\<bar> \<le> MAX_DATE \<and> s = toISOString ms)"
  by (auto simp: valid_iso_def intro: exI [of _ "iso_ms s"])

lemma valid_iso_print [simp]: "\<bar>ms\<bar> \<le> MAX_DATE \<Longrightarrow> valid_iso (toISOString ms)"
  by (auto simp: valid_iso_iff)

end
