(* ===== verification/MailboxModel.thy ===== *)
theory MailboxModel
  imports IsoTime
begin

text \<open>
  The record types of an agent's mailbox and their parsers (\<open>src/mailbox/model.ts\<close>), the contract
  between the host and the container: the inbound and outbound messages, processing
  acknowledgements, deliveries, destinations, routing, state, container and task records.  A value
  from the other side is a \<open>js\<close>; a parser returns the record or the error it throws.  Timestamps
  are the texts \<open>valid_iso\<close> accepts.  \<open>X_js\<close> writes a record back as the object it came from, and
  \<open>X_ok\<close> is what a parsed record satisfies.  An optional field of a write is an outer option:
  absent and \<open>undefined\<close> are not told apart, as the code that reads them does not.
\<close>

subsection \<open>Field readers\<close>

definition bnd :: "'a res \<Rightarrow> ('a \<Rightarrow> 'b res) \<Rightarrow> 'b res" where
  "bnd m f = (case m of Inl e \<Rightarrow> Inl e | Inr x \<Rightarrow> f x)"

fun scalar :: "js \<Rightarrow> bool" where
  "scalar (JObj _) = False"
| "scalar (JArr _) = False"
| "scalar _ = True"

fun strictRecord :: "js \<Rightarrow> string \<Rightarrow> string list \<Rightarrow> fields res" where
  "strictRecord (JObj ps) name keys =
     (case filter (\<lambda>k. k \<notin> set keys) (map fst ps) of
        k # _ \<Rightarrow> Inl (Error (''invalid '' @ name @ '': unknown field '' @ k))
      | [] \<Rightarrow> (case find (\<lambda>(k, v). \<not> scalar v) ps of
                 Some (k, v) \<Rightarrow> Inl (Error (''invalid '' @ name @ '': nested field '' @ k))
               | None \<Rightarrow> Inr ps))"
| "strictRecord _ name keys = Inl (Error (''invalid '' @ name @ '': expected object''))"

definition bad_field :: "string \<Rightarrow> string \<Rightarrow> 'a res" where
  "bad_field key expected = Inl (Error (''invalid mailbox field '' @ key @ '': '' @ expected))"

definition text_of :: "fields \<Rightarrow> string \<Rightarrow> string res" where
  "text_of r k = (case own r k of JStr s \<Rightarrow> Inr s | _ \<Rightarrow> bad_field k ''expected string'')"

definition nullableText :: "fields \<Rightarrow> string \<Rightarrow> string option res" where
  "nullableText r k =
     (case own r k of JNull \<Rightarrow> Inr None | JStr s \<Rightarrow> Inr (Some s) | _ \<Rightarrow> bad_field k ''expected string or null'')"

definition optionalNullableText :: "fields \<Rightarrow> string \<Rightarrow> string option option res" where
  "optionalNullableText r k =
     (if \<not> has_key r k \<or> own r k = JUndefined then Inr None
      else bnd (nullableText r k) (\<lambda>x. Inr (Some x)))"

definition timestamp_of :: "fields \<Rightarrow> string \<Rightarrow> string res" where
  "timestamp_of r k =
     bnd (text_of r k) (\<lambda>s.
       case parseIsoTimestamp (JStr s) of
         Inl _ \<Rightarrow> bad_field k ''expected ISO-8601 UTC timestamp'' | Inr t \<Rightarrow> Inr t)"

definition nullableTimestamp :: "fields \<Rightarrow> string \<Rightarrow> string option res" where
  "nullableTimestamp r k =
     (if own r k = JNull then Inr None else bnd (timestamp_of r k) (\<lambda>t. Inr (Some t)))"

definition optionalNullableTimestamp :: "fields \<Rightarrow> string \<Rightarrow> string option option res" where
  "optionalNullableTimestamp r k =
     (if \<not> has_key r k \<or> own r k = JUndefined then Inr None
      else bnd (nullableTimestamp r k) (\<lambda>x. Inr (Some x)))"

definition MAX_SAFE_INTEGER :: int where
  "MAX_SAFE_INTEGER = 2 ^ 53 - 1"

definition safe_nat :: "int \<Rightarrow> bool" where
  "safe_nat n = (0 \<le> n \<and> n \<le> MAX_SAFE_INTEGER)"

definition nonNegativeInteger :: "fields \<Rightarrow> string \<Rightarrow> int res" where
  "nonNegativeInteger r k =
     (case own r k of
        JNum n \<Rightarrow> if safe_nat n then Inr n else bad_field k ''expected nonnegative integer''
      | _ \<Rightarrow> bad_field k ''expected nonnegative integer'')"

definition nullableNonNegativeInteger :: "fields \<Rightarrow> string \<Rightarrow> int option res" where
  "nullableNonNegativeInteger r k =
     (case own r k of
        JNull \<Rightarrow> Inr None
      | JNum n \<Rightarrow> if safe_nat n then Inr (Some n) else bad_field k ''expected nonnegative integer or null''
      | _ \<Rightarrow> bad_field k ''expected nonnegative integer or null'')"

definition booleanValue :: "fields \<Rightarrow> string \<Rightarrow> bool res" where
  "booleanValue r k = (case own r k of JBool b \<Rightarrow> Inr b | _ \<Rightarrow> bad_field k ''expected boolean'')"

definition optionalBoolean :: "fields \<Rightarrow> string \<Rightarrow> bool option res" where
  "optionalBoolean r k =
     (if \<not> has_key r k \<or> own r k = JUndefined then Inr None
      else bnd (booleanValue r k) (\<lambda>b. Inr (Some b)))"

definition oneOf :: "fields \<Rightarrow> string \<Rightarrow> (string \<times> 'a) list \<Rightarrow> 'a res" where
  "oneOf r k values =
     (case own r k of
        JStr s \<Rightarrow> (case map_of values s of Some x \<Rightarrow> Inr x | None \<Rightarrow> bad_field k ''unexpected value'')
      | _ \<Rightarrow> bad_field k ''unexpected value'')"

subsection \<open>Enumerations\<close>

datatype inbound_kind = KChat | KChatSdk | KTask | KWebhook | KSystem

definition INBOUND_KINDS :: "(string \<times> inbound_kind) list" where
  "INBOUND_KINDS = [(''chat'', KChat), (''chat-sdk'', KChatSdk), (''task'', KTask),
     (''webhook'', KWebhook), (''system'', KSystem)]"

fun inbound_kind_str :: "inbound_kind \<Rightarrow> string" where
  "inbound_kind_str KChat = ''chat''"
| "inbound_kind_str KChatSdk = ''chat-sdk''"
| "inbound_kind_str KTask = ''task''"
| "inbound_kind_str KWebhook = ''webhook''"
| "inbound_kind_str KSystem = ''system''"

text \<open>A task has every status but \<open>processing\<close>.\<close>

datatype inbound_status = MsgPending | MsgPaused | MsgProcessing | MsgCompleted | MsgFailed | MsgCancelled

definition INBOUND_STATUSES :: "(string \<times> inbound_status) list" where
  "INBOUND_STATUSES = [(''pending'', MsgPending), (''paused'', MsgPaused), (''processing'', MsgProcessing),
     (''completed'', MsgCompleted), (''failed'', MsgFailed), (''cancelled'', MsgCancelled)]"

definition TASK_STATUSES :: "(string \<times> inbound_status) list" where
  "TASK_STATUSES = [(''pending'', MsgPending), (''paused'', MsgPaused),
     (''completed'', MsgCompleted), (''failed'', MsgFailed), (''cancelled'', MsgCancelled)]"

fun inbound_status_str :: "inbound_status \<Rightarrow> string" where
  "inbound_status_str MsgPending = ''pending''"
| "inbound_status_str MsgPaused = ''paused''"
| "inbound_status_str MsgProcessing = ''processing''"
| "inbound_status_str MsgCompleted = ''completed''"
| "inbound_status_str MsgFailed = ''failed''"
| "inbound_status_str MsgCancelled = ''cancelled''"

datatype processing_status = AckProcessing | AckCompleted | AckFailed | AckScriptError

definition PROCESSING_STATUSES :: "(string \<times> processing_status) list" where
  "PROCESSING_STATUSES = [(''processing'', AckProcessing), (''completed'', AckCompleted),
     (''failed'', AckFailed), (''script-skip:error'', AckScriptError)]"

fun processing_status_str :: "processing_status \<Rightarrow> string" where
  "processing_status_str AckProcessing = ''processing''"
| "processing_status_str AckCompleted = ''completed''"
| "processing_status_str AckFailed = ''failed''"
| "processing_status_str AckScriptError = ''script-skip:error''"

datatype delivery_status = Delivered | DeliveryFailed

definition DELIVERY_STATUSES :: "(string \<times> delivery_status) list" where
  "DELIVERY_STATUSES = [(''delivered'', Delivered), (''failed'', DeliveryFailed)]"

fun delivery_status_str :: "delivery_status \<Rightarrow> string" where
  "delivery_status_str Delivered = ''delivered''"
| "delivery_status_str DeliveryFailed = ''failed''"

subsection \<open>Records\<close>

record inbound_write =
  iw_id :: string
  iw_kind :: inbound_kind
  iw_timestamp :: string
  iw_platformId :: "string option"
  iw_channelType :: "string option"
  iw_threadId :: "string option"
  iw_content :: string
  iw_processAfter :: "string option"
  iw_recurrence :: "string option"
  iw_trigger :: "bool option"
  iw_sourceSessionId :: "string option option"
  iw_onWake :: "bool option"

record inbound_record =
  ir_id :: string
  ir_sequence :: "int option"
  ir_kind :: inbound_kind
  ir_timestamp :: string
  ir_status :: inbound_status
  ir_processAfter :: "string option"
  ir_recurrence :: "string option"
  ir_seriesId :: "string option"
  ir_tries :: int
  ir_trigger :: bool
  ir_platformId :: "string option"
  ir_channelType :: "string option"
  ir_threadId :: "string option"
  ir_content :: string
  ir_sourceSessionId :: "string option"
  ir_onWake :: bool

record outbound_write =
  ow_id :: string
  ow_inReplyTo :: "string option option"
  ow_deliverAfter :: "string option option"
  ow_recurrence :: "string option option"
  ow_kind :: string
  ow_platformId :: "string option option"
  ow_channelType :: "string option option"
  ow_threadId :: "string option option"
  ow_content :: string

record direct_outbound_write =
  dw_id :: string
  dw_kind :: string
  dw_platformId :: "string option"
  dw_channelType :: "string option"
  dw_threadId :: "string option"
  dw_content :: string

record outbound_record =
  or_id :: string
  or_sequence :: "int option"
  or_inReplyTo :: "string option"
  or_timestamp :: string
  or_deliverAfter :: "string option"
  or_recurrence :: "string option"
  or_kind :: string
  or_platformId :: "string option"
  or_channelType :: "string option"
  or_threadId :: "string option"
  or_content :: string

record outbound_delivery =
  od_id :: string
  od_kind :: string
  od_platformId :: "string option"
  od_channelType :: "string option"
  od_threadId :: "string option"
  od_content :: string
  od_inReplyTo :: "string option"

record processing_ack_record =
  ak_messageId :: string
  ak_status :: processing_status
  ak_statusChanged :: string

record delivery_record =
  dr_messageOutId :: string
  dr_platformMessageId :: "string option"
  dr_status :: delivery_status
  dr_deliveredAt :: string

record session_routing_record =
  sr_channelType :: "string option"
  sr_platformId :: "string option"
  sr_threadId :: "string option"

record state_record =
  sv_key :: string
  sv_value :: string
  sv_updatedAt :: string

record container_record =
  cr_currentTool :: "string option"
  cr_toolDeclaredTimeoutMs :: "int option"
  cr_toolStartedAt :: "string option"
  cr_updatedAt :: string

record task_record =
  tr_id :: string
  tr_seriesId :: "string option"
  tr_status :: inbound_status
  tr_processAfter :: "string option"
  tr_recurrence :: "string option"
  tr_content :: string
  tr_timestamp :: string
  tr_tries :: int
  tr_sequence :: int

record task_write =
  tw_id :: string
  tw_seriesId :: string
  tw_processAfter :: "string option"
  tw_recurrence :: "string option"
  tw_content :: string
  tw_status :: "inbound_status option"

text \<open>A destination names a channel or an agent, with the routing fields of its type only.\<close>

datatype destination_record =
    ChannelDestination string "string option" string string
  | AgentDestination string "string option" string

datatype mailbox_record =
    RInbound inbound_record
  | ROutbound outbound_record
  | RProcessingAck processing_ack_record
  | RDelivery delivery_record
  | RDestination destination_record
  | RSessionRouting session_routing_record
  | RState state_record
  | RContainer container_record

datatype mailbox_record_kind =
  Inbound | Outbound | ProcessingAck | Delivery | Destination | SessionRouting | State | Container

subsection \<open>Parsers\<close>

definition opt_status :: "fields \<Rightarrow> string \<Rightarrow> inbound_status option res" where
  "opt_status r k =
     (if has_key r k
      then bnd (oneOf r k [(''pending'', MsgPending), (''paused'', MsgPaused)]) (\<lambda>s. Inr (Some s))
      else Inr None)"

definition parseInboundWrite :: "js \<Rightarrow> inbound_write res" where
  "parseInboundWrite v =
     bnd (strictRecord v ''InboundWrite''
       [''id'', ''kind'', ''timestamp'', ''platformId'', ''channelType'', ''threadId'',
       ''content'', ''processAfter'', ''recurrence'', ''trigger'', ''sourceSessionId'',
       ''onWake'']) (\<lambda>r.
     bnd (text_of r ''id'') (\<lambda>i.
     bnd (oneOf r ''kind'' INBOUND_KINDS) (\<lambda>kd.
     bnd (timestamp_of r ''timestamp'') (\<lambda>ts.
     bnd (nullableText r ''platformId'') (\<lambda>platformId.
     bnd (nullableText r ''channelType'') (\<lambda>channelType.
     bnd (nullableText r ''threadId'') (\<lambda>threadId.
     bnd (text_of r ''content'') (\<lambda>content.
     bnd (nullableTimestamp r ''processAfter'') (\<lambda>processAfter.
     bnd (nullableText r ''recurrence'') (\<lambda>recurrence.
     bnd (optionalBoolean r ''trigger'') (\<lambda>trigger.
     bnd (optionalNullableText r ''sourceSessionId'') (\<lambda>sourceSessionId.
     bnd (optionalBoolean r ''onWake'') (\<lambda>onWake.
     Inr \<lparr>iw_id = i, iw_kind = kd, iw_timestamp = ts, iw_platformId = platformId,
          iw_channelType = channelType, iw_threadId = threadId, iw_content = content,
          iw_processAfter = processAfter, iw_recurrence = recurrence, iw_trigger = trigger,
          iw_sourceSessionId = sourceSessionId, iw_onWake = onWake\<rparr>)))))))))))))"

definition parseInboundRecord :: "js \<Rightarrow> inbound_record res" where
  "parseInboundRecord v =
     bnd (strictRecord v ''InboundRecord''
       [''id'', ''sequence'', ''kind'', ''timestamp'', ''status'', ''processAfter'',
       ''recurrence'', ''seriesId'', ''tries'', ''trigger'', ''platformId'',
       ''channelType'', ''threadId'', ''content'', ''sourceSessionId'', ''onWake'']) (\<lambda>r.
     bnd (text_of r ''id'') (\<lambda>i.
     bnd (nullableNonNegativeInteger r ''sequence'') (\<lambda>sequence.
     bnd (oneOf r ''kind'' INBOUND_KINDS) (\<lambda>kd.
     bnd (timestamp_of r ''timestamp'') (\<lambda>ts.
     bnd (oneOf r ''status'' INBOUND_STATUSES) (\<lambda>status.
     bnd (nullableTimestamp r ''processAfter'') (\<lambda>processAfter.
     bnd (nullableText r ''recurrence'') (\<lambda>recurrence.
     bnd (nullableText r ''seriesId'') (\<lambda>seriesId.
     bnd (nonNegativeInteger r ''tries'') (\<lambda>tries.
     bnd (booleanValue r ''trigger'') (\<lambda>trigger.
     bnd (nullableText r ''platformId'') (\<lambda>platformId.
     bnd (nullableText r ''channelType'') (\<lambda>channelType.
     bnd (nullableText r ''threadId'') (\<lambda>threadId.
     bnd (text_of r ''content'') (\<lambda>content.
     bnd (nullableText r ''sourceSessionId'') (\<lambda>sourceSessionId.
     bnd (booleanValue r ''onWake'') (\<lambda>onWake.
     Inr \<lparr>ir_id = i, ir_sequence = sequence, ir_kind = kd, ir_timestamp = ts,
          ir_status = status, ir_processAfter = processAfter, ir_recurrence = recurrence,
          ir_seriesId = seriesId, ir_tries = tries, ir_trigger = trigger,
          ir_platformId = platformId, ir_channelType = channelType, ir_threadId = threadId,
          ir_content = content, ir_sourceSessionId = sourceSessionId, ir_onWake = onWake\<rparr>)))))))))))))))))"

definition parseOutboundWrite :: "js \<Rightarrow> outbound_write res" where
  "parseOutboundWrite v =
     bnd (strictRecord v ''OutboundWrite''
       [''id'', ''inReplyTo'', ''deliverAfter'', ''recurrence'', ''kind'',
       ''platformId'', ''channelType'', ''threadId'', ''content'']) (\<lambda>r.
     bnd (text_of r ''id'') (\<lambda>i.
     bnd (optionalNullableText r ''inReplyTo'') (\<lambda>inReplyTo.
     bnd (optionalNullableTimestamp r ''deliverAfter'') (\<lambda>deliverAfter.
     bnd (optionalNullableText r ''recurrence'') (\<lambda>recurrence.
     bnd (text_of r ''kind'') (\<lambda>kd.
     bnd (optionalNullableText r ''platformId'') (\<lambda>platformId.
     bnd (optionalNullableText r ''channelType'') (\<lambda>channelType.
     bnd (optionalNullableText r ''threadId'') (\<lambda>threadId.
     bnd (text_of r ''content'') (\<lambda>content.
     Inr \<lparr>ow_id = i, ow_inReplyTo = inReplyTo, ow_deliverAfter = deliverAfter,
          ow_recurrence = recurrence, ow_kind = kd, ow_platformId = platformId,
          ow_channelType = channelType, ow_threadId = threadId, ow_content = content\<rparr>))))))))))"

definition parseDirectOutboundWrite :: "js \<Rightarrow> direct_outbound_write res" where
  "parseDirectOutboundWrite v =
     bnd (strictRecord v ''DirectOutboundWrite''
       [''id'', ''kind'', ''platformId'', ''channelType'', ''threadId'', ''content'']) (\<lambda>r.
     bnd (text_of r ''id'') (\<lambda>i.
     bnd (text_of r ''kind'') (\<lambda>kd.
     bnd (nullableText r ''platformId'') (\<lambda>platformId.
     bnd (nullableText r ''channelType'') (\<lambda>channelType.
     bnd (nullableText r ''threadId'') (\<lambda>threadId.
     bnd (text_of r ''content'') (\<lambda>content.
     Inr \<lparr>dw_id = i, dw_kind = kd, dw_platformId = platformId, dw_channelType = channelType,
          dw_threadId = threadId, dw_content = content\<rparr>)))))))"

definition parseOutboundRecord :: "js \<Rightarrow> outbound_record res" where
  "parseOutboundRecord v =
     bnd (strictRecord v ''OutboundRecord''
       [''id'', ''sequence'', ''inReplyTo'', ''timestamp'', ''deliverAfter'',
       ''recurrence'', ''kind'', ''platformId'', ''channelType'', ''threadId'',
       ''content'']) (\<lambda>r.
     bnd (text_of r ''id'') (\<lambda>i.
     bnd (nullableNonNegativeInteger r ''sequence'') (\<lambda>sequence.
     bnd (nullableText r ''inReplyTo'') (\<lambda>inReplyTo.
     bnd (timestamp_of r ''timestamp'') (\<lambda>ts.
     bnd (nullableTimestamp r ''deliverAfter'') (\<lambda>deliverAfter.
     bnd (nullableText r ''recurrence'') (\<lambda>recurrence.
     bnd (text_of r ''kind'') (\<lambda>kd.
     bnd (nullableText r ''platformId'') (\<lambda>platformId.
     bnd (nullableText r ''channelType'') (\<lambda>channelType.
     bnd (nullableText r ''threadId'') (\<lambda>threadId.
     bnd (text_of r ''content'') (\<lambda>content.
     Inr \<lparr>or_id = i, or_sequence = sequence, or_inReplyTo = inReplyTo, or_timestamp = ts,
          or_deliverAfter = deliverAfter, or_recurrence = recurrence, or_kind = kd,
          or_platformId = platformId, or_channelType = channelType, or_threadId = threadId,
          or_content = content\<rparr>))))))))))))"

definition parseOutboundDelivery :: "js \<Rightarrow> outbound_delivery res" where
  "parseOutboundDelivery v =
     bnd (strictRecord v ''OutboundDelivery''
       [''id'', ''kind'', ''platformId'', ''channelType'', ''threadId'', ''content'',
       ''inReplyTo'']) (\<lambda>r.
     bnd (text_of r ''id'') (\<lambda>i.
     bnd (text_of r ''kind'') (\<lambda>kd.
     bnd (nullableText r ''platformId'') (\<lambda>platformId.
     bnd (nullableText r ''channelType'') (\<lambda>channelType.
     bnd (nullableText r ''threadId'') (\<lambda>threadId.
     bnd (text_of r ''content'') (\<lambda>content.
     bnd (nullableText r ''inReplyTo'') (\<lambda>inReplyTo.
     Inr \<lparr>od_id = i, od_kind = kd, od_platformId = platformId, od_channelType = channelType,
          od_threadId = threadId, od_content = content, od_inReplyTo = inReplyTo\<rparr>))))))))"

definition parseProcessingAckRecord :: "js \<Rightarrow> processing_ack_record res" where
  "parseProcessingAckRecord v =
     bnd (strictRecord v ''ProcessingAckRecord''
       [''messageId'', ''status'', ''statusChanged'']) (\<lambda>r.
     bnd (text_of r ''messageId'') (\<lambda>messageId.
     bnd (oneOf r ''status'' PROCESSING_STATUSES) (\<lambda>status.
     bnd (timestamp_of r ''statusChanged'') (\<lambda>statusChanged.
     Inr \<lparr>ak_messageId = messageId, ak_status = status, ak_statusChanged = statusChanged\<rparr>))))"

definition parseDeliveryRecord :: "js \<Rightarrow> delivery_record res" where
  "parseDeliveryRecord v =
     bnd (strictRecord v ''DeliveryRecord''
       [''messageOutId'', ''platformMessageId'', ''status'', ''deliveredAt'']) (\<lambda>r.
     bnd (text_of r ''messageOutId'') (\<lambda>messageOutId.
     bnd (nullableText r ''platformMessageId'') (\<lambda>platformMessageId.
     bnd (oneOf r ''status'' DELIVERY_STATUSES) (\<lambda>status.
     bnd (timestamp_of r ''deliveredAt'') (\<lambda>deliveredAt.
     Inr \<lparr>dr_messageOutId = messageOutId, dr_platformMessageId = platformMessageId,
          dr_status = status, dr_deliveredAt = deliveredAt\<rparr>)))))"

definition parseSessionRoutingRecord :: "js \<Rightarrow> session_routing_record res" where
  "parseSessionRoutingRecord v =
     bnd (strictRecord v ''SessionRoutingRecord''
       [''channelType'', ''platformId'', ''threadId'']) (\<lambda>r.
     bnd (nullableText r ''channelType'') (\<lambda>channelType.
     bnd (nullableText r ''platformId'') (\<lambda>platformId.
     bnd (nullableText r ''threadId'') (\<lambda>threadId.
     Inr \<lparr>sr_channelType = channelType, sr_platformId = platformId, sr_threadId = threadId\<rparr>))))"

definition parseStateRecord :: "js \<Rightarrow> state_record res" where
  "parseStateRecord v =
     bnd (strictRecord v ''StateRecord''
       [''key'', ''value'', ''updatedAt'']) (\<lambda>r.
     bnd (text_of r ''key'') (\<lambda>k0.
     bnd (text_of r ''value'') (\<lambda>v0.
     bnd (timestamp_of r ''updatedAt'') (\<lambda>updatedAt.
     Inr \<lparr>sv_key = k0, sv_value = v0, sv_updatedAt = updatedAt\<rparr>))))"

definition parseContainerRecord :: "js \<Rightarrow> container_record res" where
  "parseContainerRecord v =
     bnd (strictRecord v ''ContainerRecord''
       [''currentTool'', ''toolDeclaredTimeoutMs'', ''toolStartedAt'', ''updatedAt'']) (\<lambda>r.
     bnd (nullableText r ''currentTool'') (\<lambda>currentTool.
     bnd (nullableNonNegativeInteger r ''toolDeclaredTimeoutMs'') (\<lambda>toolDeclaredTimeoutMs.
     bnd (nullableTimestamp r ''toolStartedAt'') (\<lambda>toolStartedAt.
     bnd (timestamp_of r ''updatedAt'') (\<lambda>updatedAt.
     Inr \<lparr>cr_currentTool = currentTool, cr_toolDeclaredTimeoutMs = toolDeclaredTimeoutMs,
          cr_toolStartedAt = toolStartedAt, cr_updatedAt = updatedAt\<rparr>)))))"

definition parseTaskRecord :: "js \<Rightarrow> task_record res" where
  "parseTaskRecord v =
     bnd (strictRecord v ''TaskRecord''
       [''id'', ''seriesId'', ''status'', ''processAfter'', ''recurrence'', ''content'',
       ''timestamp'', ''tries'', ''sequence'']) (\<lambda>r.
     bnd (text_of r ''id'') (\<lambda>i.
     bnd (nullableText r ''seriesId'') (\<lambda>seriesId.
     bnd (oneOf r ''status'' TASK_STATUSES) (\<lambda>status.
     bnd (nullableTimestamp r ''processAfter'') (\<lambda>processAfter.
     bnd (nullableText r ''recurrence'') (\<lambda>recurrence.
     bnd (text_of r ''content'') (\<lambda>content.
     bnd (timestamp_of r ''timestamp'') (\<lambda>ts.
     bnd (nonNegativeInteger r ''tries'') (\<lambda>tries.
     bnd (nonNegativeInteger r ''sequence'') (\<lambda>sequence.
     Inr \<lparr>tr_id = i, tr_seriesId = seriesId, tr_status = status,
          tr_processAfter = processAfter, tr_recurrence = recurrence, tr_content = content,
          tr_timestamp = ts, tr_tries = tries, tr_sequence = sequence\<rparr>))))))))))"

definition parseTaskWrite :: "js \<Rightarrow> task_write res" where
  "parseTaskWrite v =
     bnd (strictRecord v ''TaskWrite''
       [''id'', ''seriesId'', ''processAfter'', ''recurrence'', ''content'', ''status'']) (\<lambda>r.
     bnd (text_of r ''id'') (\<lambda>i.
     bnd (text_of r ''seriesId'') (\<lambda>seriesId.
     bnd (nullableTimestamp r ''processAfter'') (\<lambda>processAfter.
     bnd (nullableText r ''recurrence'') (\<lambda>recurrence.
     bnd (text_of r ''content'') (\<lambda>content.
     bnd (opt_status r ''status'') (\<lambda>status.
     Inr \<lparr>tw_id = i, tw_seriesId = seriesId, tw_processAfter = processAfter,
          tw_recurrence = recurrence, tw_content = content, tw_status = status\<rparr>)))))))"

definition parseDestinationRecord :: "js \<Rightarrow> destination_record res" where
  "parseDestinationRecord v =
     bnd (strictRecord v ''DestinationRecord''
       [''name'', ''displayName'', ''type'', ''channelType'', ''platformId'', ''agentGroupId'']) (\<lambda>r.
     bnd (text_of r ''name'') (\<lambda>name.
     bnd (nullableText r ''displayName'') (\<lambda>displayName.
     bnd (oneOf r ''type'' [(''channel'', True), (''agent'', False)]) (\<lambda>isChannel.
     bnd (nullableText r ''channelType'') (\<lambda>channelType.
     bnd (nullableText r ''platformId'') (\<lambda>platformId.
     bnd (nullableText r ''agentGroupId'') (\<lambda>agentGroupId.
       if isChannel
       then (case (channelType, platformId, agentGroupId) of
               (Some ct, Some pid, None) \<Rightarrow> Inr (ChannelDestination name displayName ct pid)
             | _ \<Rightarrow> Inl (Error ''invalid DestinationRecord: channel routing fields''))
       else (case (channelType, platformId, agentGroupId) of
               (None, None, Some g) \<Rightarrow> Inr (AgentDestination name displayName g)
             | _ \<Rightarrow> Inl (Error ''invalid DestinationRecord: agent routing fields'')))))))))"

fun parseMailboxRecord :: "mailbox_record_kind \<Rightarrow> js \<Rightarrow> mailbox_record res" where
  "parseMailboxRecord Inbound v = bnd (parseInboundRecord v) (\<lambda>r. Inr (RInbound r))"
| "parseMailboxRecord Outbound v = bnd (parseOutboundRecord v) (\<lambda>r. Inr (ROutbound r))"
| "parseMailboxRecord ProcessingAck v = bnd (parseProcessingAckRecord v) (\<lambda>r. Inr (RProcessingAck r))"
| "parseMailboxRecord Delivery v = bnd (parseDeliveryRecord v) (\<lambda>r. Inr (RDelivery r))"
| "parseMailboxRecord Destination v = bnd (parseDestinationRecord v) (\<lambda>r. Inr (RDestination r))"
| "parseMailboxRecord SessionRouting v = bnd (parseSessionRoutingRecord v) (\<lambda>r. Inr (RSessionRouting r))"
| "parseMailboxRecord State v = bnd (parseStateRecord v) (\<lambda>r. Inr (RState r))"
| "parseMailboxRecord Container v = bnd (parseContainerRecord v) (\<lambda>r. Inr (RContainer r))"

subsection \<open>Creating records\<close>

definition null_str :: "string option \<Rightarrow> js" where
  "null_str x = (case x of None \<Rightarrow> JNull | Some s \<Rightarrow> JStr s)"

definition null_num :: "int option \<Rightarrow> js" where
  "null_num x = (case x of None \<Rightarrow> JNull | Some n \<Rightarrow> JNum n)"

text \<open>\<open>x ?? d\<close> on an optional field.\<close>

definition or_else :: "'a option \<Rightarrow> 'a \<Rightarrow> 'a" where
  "or_else x d = (case x of None \<Rightarrow> d | Some y \<Rightarrow> y)"

definition createInboundRecord :: "js \<Rightarrow> int \<Rightarrow> inbound_record res" where
  "createInboundRecord message sequence =
     bnd (parseInboundWrite message) (\<lambda>input.
       parseInboundRecord (JObj [
         (''id'', JStr (iw_id input)), (''kind'', JStr (inbound_kind_str (iw_kind input))),
         (''timestamp'', JStr (iw_timestamp input)), (''platformId'', null_str (iw_platformId input)),
         (''channelType'', null_str (iw_channelType input)), (''threadId'', null_str (iw_threadId input)),
         (''content'', JStr (iw_content input)), (''processAfter'', null_str (iw_processAfter input)),
         (''recurrence'', null_str (iw_recurrence input)),
         (''sequence'', JNum sequence), (''status'', JStr ''pending''), (''seriesId'', JStr (iw_id input)),
         (''tries'', JNum 0), (''trigger'', JBool (or_else (iw_trigger input) True)),
         (''sourceSessionId'', null_str (or_else (iw_sourceSessionId input) None)),
         (''onWake'', JBool (or_else (iw_onWake input) False))]))"

definition createTaskInboundRecord :: "js \<Rightarrow> int \<Rightarrow> string \<Rightarrow> inbound_record res" where
  "createTaskInboundRecord task sequence ts =
     bnd (parseTaskWrite task) (\<lambda>input.
       parseInboundRecord (JObj [
         (''id'', JStr (tw_id input)), (''sequence'', JNum sequence), (''kind'', JStr ''task''),
         (''timestamp'', JStr ts),
         (''status'', JStr (inbound_status_str (or_else (tw_status input) MsgPending))),
         (''processAfter'', null_str (tw_processAfter input)), (''recurrence'', null_str (tw_recurrence input)),
         (''seriesId'', JStr (tw_seriesId input)), (''tries'', JNum 0), (''trigger'', JBool True),
         (''platformId'', JNull), (''channelType'', JNull), (''threadId'', JNull),
         (''content'', JStr (tw_content input)), (''sourceSessionId'', JNull), (''onWake'', JBool False)]))"

definition createOutboundRecord :: "js \<Rightarrow> int \<Rightarrow> string \<Rightarrow> outbound_record res" where
  "createOutboundRecord message sequence ts =
     bnd (parseOutboundWrite message) (\<lambda>input.
       parseOutboundRecord (JObj [
         (''id'', JStr (ow_id input)), (''sequence'', JNum sequence),
         (''inReplyTo'', null_str (or_else (ow_inReplyTo input) None)), (''timestamp'', JStr ts),
         (''deliverAfter'', null_str (or_else (ow_deliverAfter input) None)),
         (''recurrence'', null_str (or_else (ow_recurrence input) None)), (''kind'', JStr (ow_kind input)),
         (''platformId'', null_str (or_else (ow_platformId input) None)),
         (''channelType'', null_str (or_else (ow_channelType input) None)),
         (''threadId'', null_str (or_else (ow_threadId input) None)), (''content'', JStr (ow_content input))]))"

definition direct_outbound_write_js :: "direct_outbound_write \<Rightarrow> js" where
  "direct_outbound_write_js r = JObj [
     (''id'', JStr (dw_id r)), (''kind'', JStr (dw_kind r)),
     (''platformId'', null_str (dw_platformId r)),
     (''channelType'', null_str (dw_channelType r)),
     (''threadId'', null_str (dw_threadId r)), (''content'', JStr (dw_content r))]"

definition outbound_record_js :: "outbound_record \<Rightarrow> js" where
  "outbound_record_js r = JObj [
     (''id'', JStr (or_id r)), (''sequence'', null_num (or_sequence r)),
     (''inReplyTo'', null_str (or_inReplyTo r)), (''timestamp'', JStr (or_timestamp r)),
     (''deliverAfter'', null_str (or_deliverAfter r)),
     (''recurrence'', null_str (or_recurrence r)), (''kind'', JStr (or_kind r)),
     (''platformId'', null_str (or_platformId r)),
     (''channelType'', null_str (or_channelType r)),
     (''threadId'', null_str (or_threadId r)), (''content'', JStr (or_content r))]"

definition createDirectOutboundRecord :: "js \<Rightarrow> int \<Rightarrow> string \<Rightarrow> outbound_record res" where
  "createDirectOutboundRecord message sequence ts =
     bnd (parseDirectOutboundWrite message) (\<lambda>w.
       createOutboundRecord (direct_outbound_write_js w) sequence ts)"

definition outboundDelivery :: "js \<Rightarrow> outbound_delivery res" where
  "outboundDelivery v =
     bnd (parseOutboundRecord v) (\<lambda>input.
       parseOutboundDelivery (JObj [
         (''id'', JStr (or_id input)), (''kind'', JStr (or_kind input)),
         (''platformId'', null_str (or_platformId input)), (''channelType'', null_str (or_channelType input)),
         (''threadId'', null_str (or_threadId input)), (''content'', JStr (or_content input)),
         (''inReplyTo'', null_str (or_inReplyTo input))]))"

subsection \<open>Writing records\<close>

definition inbound_record_js :: "inbound_record \<Rightarrow> js" where
  "inbound_record_js r = JObj [
     (''id'', JStr (ir_id r)), (''sequence'', null_num (ir_sequence r)),
     (''kind'', JStr (inbound_kind_str (ir_kind r))),
     (''timestamp'', JStr (ir_timestamp r)),
     (''status'', JStr (inbound_status_str (ir_status r))),
     (''processAfter'', null_str (ir_processAfter r)),
     (''recurrence'', null_str (ir_recurrence r)), (''seriesId'', null_str (ir_seriesId r)),
     (''tries'', JNum (ir_tries r)), (''trigger'', JBool (ir_trigger r)),
     (''platformId'', null_str (ir_platformId r)),
     (''channelType'', null_str (ir_channelType r)),
     (''threadId'', null_str (ir_threadId r)), (''content'', JStr (ir_content r)),
     (''sourceSessionId'', null_str (ir_sourceSessionId r)),
     (''onWake'', JBool (ir_onWake r))]"

definition outbound_delivery_js :: "outbound_delivery \<Rightarrow> js" where
  "outbound_delivery_js r = JObj [
     (''id'', JStr (od_id r)), (''kind'', JStr (od_kind r)),
     (''platformId'', null_str (od_platformId r)),
     (''channelType'', null_str (od_channelType r)),
     (''threadId'', null_str (od_threadId r)), (''content'', JStr (od_content r)),
     (''inReplyTo'', null_str (od_inReplyTo r))]"

definition processing_ack_record_js :: "processing_ack_record \<Rightarrow> js" where
  "processing_ack_record_js r = JObj [
     (''messageId'', JStr (ak_messageId r)),
     (''status'', JStr (processing_status_str (ak_status r))),
     (''statusChanged'', JStr (ak_statusChanged r))]"

definition delivery_record_js :: "delivery_record \<Rightarrow> js" where
  "delivery_record_js r = JObj [
     (''messageOutId'', JStr (dr_messageOutId r)),
     (''platformMessageId'', null_str (dr_platformMessageId r)),
     (''status'', JStr (delivery_status_str (dr_status r))),
     (''deliveredAt'', JStr (dr_deliveredAt r))]"

definition session_routing_record_js :: "session_routing_record \<Rightarrow> js" where
  "session_routing_record_js r = JObj [
     (''channelType'', null_str (sr_channelType r)),
     (''platformId'', null_str (sr_platformId r)), (''threadId'', null_str (sr_threadId r))]"

definition state_record_js :: "state_record \<Rightarrow> js" where
  "state_record_js r = JObj [
     (''key'', JStr (sv_key r)), (''value'', JStr (sv_value r)),
     (''updatedAt'', JStr (sv_updatedAt r))]"

definition container_record_js :: "container_record \<Rightarrow> js" where
  "container_record_js r = JObj [
     (''currentTool'', null_str (cr_currentTool r)),
     (''toolDeclaredTimeoutMs'', null_num (cr_toolDeclaredTimeoutMs r)),
     (''toolStartedAt'', null_str (cr_toolStartedAt r)),
     (''updatedAt'', JStr (cr_updatedAt r))]"

definition task_record_js :: "task_record \<Rightarrow> js" where
  "task_record_js r = JObj [
     (''id'', JStr (tr_id r)), (''seriesId'', null_str (tr_seriesId r)),
     (''status'', JStr (inbound_status_str (tr_status r))),
     (''processAfter'', null_str (tr_processAfter r)),
     (''recurrence'', null_str (tr_recurrence r)), (''content'', JStr (tr_content r)),
     (''timestamp'', JStr (tr_timestamp r)), (''tries'', JNum (tr_tries r)),
     (''sequence'', JNum (tr_sequence r))]"

fun destination_record_js :: "destination_record \<Rightarrow> js" where
  "destination_record_js (ChannelDestination n d ct pid) = JObj [
     (''name'', JStr n), (''displayName'', null_str d), (''type'', JStr ''channel''),
     (''channelType'', JStr ct), (''platformId'', JStr pid), (''agentGroupId'', JNull)]"
| "destination_record_js (AgentDestination n d g) = JObj [
     (''name'', JStr n), (''displayName'', null_str d), (''type'', JStr ''agent''),
     (''channelType'', JNull), (''platformId'', JNull), (''agentGroupId'', JStr g)]"

fun record_js :: "mailbox_record \<Rightarrow> js" where
  "record_js (RInbound r) = inbound_record_js r"
| "record_js (ROutbound r) = outbound_record_js r"
| "record_js (RProcessingAck r) = processing_ack_record_js r"
| "record_js (RDelivery r) = delivery_record_js r"
| "record_js (RDestination r) = destination_record_js r"
| "record_js (RSessionRouting r) = session_routing_record_js r"
| "record_js (RState r) = state_record_js r"
| "record_js (RContainer r) = container_record_js r"

subsection \<open>What a parsed record satisfies\<close>

definition null_iso :: "string option \<Rightarrow> bool" where
  "null_iso x = (case x of None \<Rightarrow> True | Some s \<Rightarrow> valid_iso s)"

definition null_nat :: "int option \<Rightarrow> bool" where
  "null_nat x = (case x of None \<Rightarrow> True | Some n \<Rightarrow> safe_nat n)"

definition inbound_record_ok :: "inbound_record \<Rightarrow> bool" where
  "inbound_record_ok r = (null_nat (ir_sequence r) \<and> valid_iso (ir_timestamp r) \<and> null_iso (ir_processAfter r) \<and> safe_nat (ir_tries r))"

definition outbound_record_ok :: "outbound_record \<Rightarrow> bool" where
  "outbound_record_ok r = (null_nat (or_sequence r) \<and> valid_iso (or_timestamp r) \<and> null_iso (or_deliverAfter r))"

definition processing_ack_record_ok :: "processing_ack_record \<Rightarrow> bool" where
  "processing_ack_record_ok r = (valid_iso (ak_statusChanged r))"

definition delivery_record_ok :: "delivery_record \<Rightarrow> bool" where
  "delivery_record_ok r = (valid_iso (dr_deliveredAt r))"

definition state_record_ok :: "state_record \<Rightarrow> bool" where
  "state_record_ok r = (valid_iso (sv_updatedAt r))"

definition container_record_ok :: "container_record \<Rightarrow> bool" where
  "container_record_ok r = (null_nat (cr_toolDeclaredTimeoutMs r) \<and> null_iso (cr_toolStartedAt r) \<and> valid_iso (cr_updatedAt r))"

definition task_record_ok :: "task_record \<Rightarrow> bool" where
  "task_record_ok r = (tr_status r \<noteq> MsgProcessing \<and> null_iso (tr_processAfter r) \<and> valid_iso (tr_timestamp r) \<and> safe_nat (tr_tries r) \<and> safe_nat (tr_sequence r))"

fun record_ok :: "mailbox_record \<Rightarrow> bool" where
  "record_ok (RInbound r) = inbound_record_ok r"
| "record_ok (ROutbound r) = outbound_record_ok r"
| "record_ok (RProcessingAck r) = processing_ack_record_ok r"
| "record_ok (RDelivery r) = delivery_record_ok r"
| "record_ok (RDestination r) = True"
| "record_ok (RSessionRouting r) = True"
| "record_ok (RState r) = state_record_ok r"
| "record_ok (RContainer r) = container_record_ok r"

subsection \<open>When the readers succeed\<close>

named_theorems parse_iffs "when a reader of a field succeeds"

definition fields_in :: "string list \<Rightarrow> fields \<Rightarrow> bool" where
  "fields_in keys ps = (\<forall>(k, v) \<in> set ps. k \<in> set keys \<and> scalar v)"

lemma bnd_Inr [parse_iffs]: "bnd m f = Inr y \<longleftrightarrow> (\<exists>x. m = Inr x \<and> f x = Inr y)"
  by (simp add: bnd_def split: sum.split)

lemma null_str_inject: "null_str x = null_str y \<longleftrightarrow> x = y"
  and null_str_defined: "null_str x \<noteq> JUndefined"
  by (simp_all add: null_str_def split: option.split)

lemma own_simps [simp]:
  "own [] k = JUndefined" "own ((k', v) # ps) k = (if k = k' then v else own ps k)"
  by (simp_all add: own_def)

lemma scalar_null [simp]: "scalar (null_str x)" "scalar (null_num y)"
  by (simp_all add: null_str_def null_num_def split: option.split)

lemma strictRecord_iff [parse_iffs]:
  "strictRecord v name keys = Inr ps \<longleftrightarrow> v = JObj ps \<and> fields_in keys ps"
proof (cases v)
  case (JObj qs)
  have "filter (\<lambda>k. k \<notin> set keys) (map fst qs) = [] \<longleftrightarrow> (\<forall>(k, v) \<in> set qs. k \<in> set keys)"
    by (auto simp: filter_empty_conv)
  moreover have "find (\<lambda>(k, v). \<not> scalar v) qs = None \<longleftrightarrow> (\<forall>(k, v) \<in> set qs. scalar v)"
    by (auto simp: find_None_iff)
  ultimately show ?thesis
    using JObj by (auto simp: fields_in_def split: list.split option.split)
qed simp_all

lemma text_of_iff [parse_iffs]: "text_of r k = Inr s \<longleftrightarrow> own r k = JStr s"
  by (simp add: text_of_def bad_field_def split: js.split)

lemma nullableText_iff [parse_iffs]: "nullableText r k = Inr x \<longleftrightarrow> own r k = null_str x"
  by (auto simp: nullableText_def bad_field_def null_str_def split: js.split option.split)

lemma timestamp_of_iff [parse_iffs]: "timestamp_of r k = Inr s \<longleftrightarrow> own r k = JStr s \<and> valid_iso s"
  by (auto simp: timestamp_of_def bnd_Inr text_of_iff parseIsoTimestamp_def bad_field_def)

lemma nullableTimestamp_iff [parse_iffs]:
  "nullableTimestamp r k = Inr x \<longleftrightarrow> own r k = null_str x \<and> null_iso x"
  by (auto simp: nullableTimestamp_def bnd_Inr timestamp_of_iff null_str_def null_iso_def split: option.splits)

lemma nonNegativeInteger_iff [parse_iffs]:
  "nonNegativeInteger r k = Inr n \<longleftrightarrow> own r k = JNum n \<and> safe_nat n"
  by (auto simp: nonNegativeInteger_def bad_field_def split: js.split)

lemma nullableNonNegativeInteger_iff [parse_iffs]:
  "nullableNonNegativeInteger r k = Inr x \<longleftrightarrow> own r k = null_num x \<and> null_nat x"
  by (auto simp: nullableNonNegativeInteger_def bad_field_def null_num_def null_nat_def split: js.split option.splits)

lemma booleanValue_iff [parse_iffs]: "booleanValue r k = Inr b \<longleftrightarrow> own r k = JBool b"
  by (simp add: booleanValue_def bad_field_def split: js.split)

lemma oneOf_iff: "oneOf r k vs = Inr x \<longleftrightarrow> (\<exists>s. own r k = JStr s \<and> map_of vs s = Some x)"
  by (auto simp: oneOf_def bad_field_def split: js.split option.split)

lemma map_of_INBOUND_KINDS: "map_of INBOUND_KINDS s = Some x \<longleftrightarrow> s = inbound_kind_str x"
  unfolding INBOUND_KINDS_def by (cases x) (simp_all split: if_split)

lemma map_of_INBOUND_STATUSES: "map_of INBOUND_STATUSES s = Some x \<longleftrightarrow> s = inbound_status_str x"
  unfolding INBOUND_STATUSES_def by (cases x) (simp_all split: if_split)

lemma map_of_PROCESSING_STATUSES: "map_of PROCESSING_STATUSES s = Some x \<longleftrightarrow> s = processing_status_str x"
  unfolding PROCESSING_STATUSES_def by (cases x) (simp_all split: if_split)

lemma map_of_DELIVERY_STATUSES: "map_of DELIVERY_STATUSES s = Some x \<longleftrightarrow> s = delivery_status_str x"
  unfolding DELIVERY_STATUSES_def by (cases x) (simp_all split: if_split)

lemma map_of_TASK_STATUSES: "map_of TASK_STATUSES s = Some x \<longleftrightarrow> s = inbound_status_str x \<and> x \<noteq> MsgProcessing"
  unfolding TASK_STATUSES_def by (cases x) (simp_all split: if_split)

lemma oneOf_kind [parse_iffs]: "oneOf r k INBOUND_KINDS = Inr x \<longleftrightarrow> own r k = JStr (inbound_kind_str x)"
  by (auto simp: oneOf_iff map_of_INBOUND_KINDS)

lemma oneOf_inbound_status [parse_iffs]:
  "oneOf r k INBOUND_STATUSES = Inr x \<longleftrightarrow> own r k = JStr (inbound_status_str x)"
  by (auto simp: oneOf_iff map_of_INBOUND_STATUSES)

lemma oneOf_task_status [parse_iffs]:
  "oneOf r k TASK_STATUSES = Inr x \<longleftrightarrow> own r k = JStr (inbound_status_str x) \<and> x \<noteq> MsgProcessing"
  by (auto simp: oneOf_iff map_of_TASK_STATUSES)

lemma oneOf_processing_status [parse_iffs]:
  "oneOf r k PROCESSING_STATUSES = Inr x \<longleftrightarrow> own r k = JStr (processing_status_str x)"
  by (auto simp: oneOf_iff map_of_PROCESSING_STATUSES)

lemma oneOf_delivery_status [parse_iffs]:
  "oneOf r k DELIVERY_STATUSES = Inr x \<longleftrightarrow> own r k = JStr (delivery_status_str x)"
  by (auto simp: oneOf_iff map_of_DELIVERY_STATUSES)

lemma parseInboundRecord_iff:
  "parseInboundRecord v = Inr r \<longleftrightarrow>
     (\<exists>ps. v = JObj ps \<and> fields_in [''id'', ''sequence'', ''kind'', ''timestamp'', ''status'', ''processAfter'',
       ''recurrence'', ''seriesId'', ''tries'', ''trigger'', ''platformId'',
       ''channelType'', ''threadId'', ''content'', ''sourceSessionId'', ''onWake''] ps \<and>
       own ps ''id'' = JStr (ir_id r) \<and> own ps ''sequence'' = null_num (ir_sequence r) \<and>
       own ps ''kind'' = JStr (inbound_kind_str (ir_kind r)) \<and>
       own ps ''timestamp'' = JStr (ir_timestamp r) \<and>
       own ps ''status'' = JStr (inbound_status_str (ir_status r)) \<and>
       own ps ''processAfter'' = null_str (ir_processAfter r) \<and>
       own ps ''recurrence'' = null_str (ir_recurrence r) \<and>
       own ps ''seriesId'' = null_str (ir_seriesId r) \<and>
       own ps ''tries'' = JNum (ir_tries r) \<and>
       own ps ''trigger'' = JBool (ir_trigger r) \<and>
       own ps ''platformId'' = null_str (ir_platformId r) \<and>
       own ps ''channelType'' = null_str (ir_channelType r) \<and>
       own ps ''threadId'' = null_str (ir_threadId r) \<and>
       own ps ''content'' = JStr (ir_content r) \<and>
       own ps ''sourceSessionId'' = null_str (ir_sourceSessionId r) \<and>
       own ps ''onWake'' = JBool (ir_onWake r) \<and> inbound_record_ok r)"
  by (cases r) (auto simp: parseInboundRecord_def inbound_record_ok_def parse_iffs)

lemma parseDirectOutboundWrite_iff:
  "parseDirectOutboundWrite v = Inr r \<longleftrightarrow>
     (\<exists>ps. v = JObj ps \<and> fields_in [''id'', ''kind'', ''platformId'', ''channelType'', ''threadId'', ''content''] ps \<and>
       own ps ''id'' = JStr (dw_id r) \<and> own ps ''kind'' = JStr (dw_kind r) \<and>
       own ps ''platformId'' = null_str (dw_platformId r) \<and>
       own ps ''channelType'' = null_str (dw_channelType r) \<and>
       own ps ''threadId'' = null_str (dw_threadId r) \<and>
       own ps ''content'' = JStr (dw_content r))"
  by (cases r) (auto simp: parseDirectOutboundWrite_def parse_iffs)

lemma parseOutboundRecord_iff:
  "parseOutboundRecord v = Inr r \<longleftrightarrow>
     (\<exists>ps. v = JObj ps \<and> fields_in [''id'', ''sequence'', ''inReplyTo'', ''timestamp'', ''deliverAfter'',
       ''recurrence'', ''kind'', ''platformId'', ''channelType'', ''threadId'',
       ''content''] ps \<and>
       own ps ''id'' = JStr (or_id r) \<and> own ps ''sequence'' = null_num (or_sequence r) \<and>
       own ps ''inReplyTo'' = null_str (or_inReplyTo r) \<and>
       own ps ''timestamp'' = JStr (or_timestamp r) \<and>
       own ps ''deliverAfter'' = null_str (or_deliverAfter r) \<and>
       own ps ''recurrence'' = null_str (or_recurrence r) \<and>
       own ps ''kind'' = JStr (or_kind r) \<and>
       own ps ''platformId'' = null_str (or_platformId r) \<and>
       own ps ''channelType'' = null_str (or_channelType r) \<and>
       own ps ''threadId'' = null_str (or_threadId r) \<and>
       own ps ''content'' = JStr (or_content r) \<and> outbound_record_ok r)"
  by (cases r) (auto simp: parseOutboundRecord_def outbound_record_ok_def parse_iffs)

lemma parseOutboundDelivery_iff:
  "parseOutboundDelivery v = Inr r \<longleftrightarrow>
     (\<exists>ps. v = JObj ps \<and> fields_in [''id'', ''kind'', ''platformId'', ''channelType'', ''threadId'', ''content'',
       ''inReplyTo''] ps \<and>
       own ps ''id'' = JStr (od_id r) \<and> own ps ''kind'' = JStr (od_kind r) \<and>
       own ps ''platformId'' = null_str (od_platformId r) \<and>
       own ps ''channelType'' = null_str (od_channelType r) \<and>
       own ps ''threadId'' = null_str (od_threadId r) \<and>
       own ps ''content'' = JStr (od_content r) \<and>
       own ps ''inReplyTo'' = null_str (od_inReplyTo r))"
  by (cases r) (auto simp: parseOutboundDelivery_def parse_iffs)

lemma parseProcessingAckRecord_iff:
  "parseProcessingAckRecord v = Inr r \<longleftrightarrow>
     (\<exists>ps. v = JObj ps \<and> fields_in [''messageId'', ''status'', ''statusChanged''] ps \<and>
       own ps ''messageId'' = JStr (ak_messageId r) \<and>
       own ps ''status'' = JStr (processing_status_str (ak_status r)) \<and>
       own ps ''statusChanged'' = JStr (ak_statusChanged r) \<and> processing_ack_record_ok r)"
  by (cases r) (auto simp: parseProcessingAckRecord_def processing_ack_record_ok_def parse_iffs)

lemma parseDeliveryRecord_iff:
  "parseDeliveryRecord v = Inr r \<longleftrightarrow>
     (\<exists>ps. v = JObj ps \<and> fields_in [''messageOutId'', ''platformMessageId'', ''status'', ''deliveredAt''] ps \<and>
       own ps ''messageOutId'' = JStr (dr_messageOutId r) \<and>
       own ps ''platformMessageId'' = null_str (dr_platformMessageId r) \<and>
       own ps ''status'' = JStr (delivery_status_str (dr_status r)) \<and>
       own ps ''deliveredAt'' = JStr (dr_deliveredAt r) \<and> delivery_record_ok r)"
  by (cases r) (auto simp: parseDeliveryRecord_def delivery_record_ok_def parse_iffs)

lemma parseSessionRoutingRecord_iff:
  "parseSessionRoutingRecord v = Inr r \<longleftrightarrow>
     (\<exists>ps. v = JObj ps \<and> fields_in [''channelType'', ''platformId'', ''threadId''] ps \<and>
       own ps ''channelType'' = null_str (sr_channelType r) \<and>
       own ps ''platformId'' = null_str (sr_platformId r) \<and>
       own ps ''threadId'' = null_str (sr_threadId r))"
  by (cases r) (auto simp: parseSessionRoutingRecord_def parse_iffs)

lemma parseStateRecord_iff:
  "parseStateRecord v = Inr r \<longleftrightarrow>
     (\<exists>ps. v = JObj ps \<and> fields_in [''key'', ''value'', ''updatedAt''] ps \<and>
       own ps ''key'' = JStr (sv_key r) \<and> own ps ''value'' = JStr (sv_value r) \<and>
       own ps ''updatedAt'' = JStr (sv_updatedAt r) \<and> state_record_ok r)"
  by (cases r) (auto simp: parseStateRecord_def state_record_ok_def parse_iffs)

lemma parseContainerRecord_iff:
  "parseContainerRecord v = Inr r \<longleftrightarrow>
     (\<exists>ps. v = JObj ps \<and> fields_in [''currentTool'', ''toolDeclaredTimeoutMs'', ''toolStartedAt'', ''updatedAt''] ps \<and>
       own ps ''currentTool'' = null_str (cr_currentTool r) \<and>
       own ps ''toolDeclaredTimeoutMs'' = null_num (cr_toolDeclaredTimeoutMs r) \<and>
       own ps ''toolStartedAt'' = null_str (cr_toolStartedAt r) \<and>
       own ps ''updatedAt'' = JStr (cr_updatedAt r) \<and> container_record_ok r)"
  by (cases r) (auto simp: parseContainerRecord_def container_record_ok_def parse_iffs)

lemma parseTaskRecord_iff:
  "parseTaskRecord v = Inr r \<longleftrightarrow>
     (\<exists>ps. v = JObj ps \<and> fields_in [''id'', ''seriesId'', ''status'', ''processAfter'', ''recurrence'', ''content'',
       ''timestamp'', ''tries'', ''sequence''] ps \<and>
       own ps ''id'' = JStr (tr_id r) \<and> own ps ''seriesId'' = null_str (tr_seriesId r) \<and>
       own ps ''status'' = JStr (inbound_status_str (tr_status r)) \<and>
       own ps ''processAfter'' = null_str (tr_processAfter r) \<and>
       own ps ''recurrence'' = null_str (tr_recurrence r) \<and>
       own ps ''content'' = JStr (tr_content r) \<and>
       own ps ''timestamp'' = JStr (tr_timestamp r) \<and>
       own ps ''tries'' = JNum (tr_tries r) \<and>
       own ps ''sequence'' = JNum (tr_sequence r) \<and> task_record_ok r)"
  by (cases r) (auto simp: parseTaskRecord_def task_record_ok_def parse_iffs)

subsection \<open>Round trips\<close>

lemma parseInboundRecord_js: "inbound_record_ok r \<Longrightarrow> parseInboundRecord (inbound_record_js r) = Inr r"
  by (simp add: parseInboundRecord_iff inbound_record_js_def fields_in_def own_simps)

lemma parseOutboundRecord_js: "outbound_record_ok r \<Longrightarrow> parseOutboundRecord (outbound_record_js r) = Inr r"
  by (simp add: parseOutboundRecord_iff outbound_record_js_def fields_in_def own_simps)

lemma parseOutboundDelivery_js: "parseOutboundDelivery (outbound_delivery_js r) = Inr r"
  by (simp add: parseOutboundDelivery_iff outbound_delivery_js_def fields_in_def own_simps)

lemma parseProcessingAckRecord_js: "processing_ack_record_ok r \<Longrightarrow> parseProcessingAckRecord (processing_ack_record_js r) = Inr r"
  by (simp add: parseProcessingAckRecord_iff processing_ack_record_js_def fields_in_def own_simps)

lemma parseDeliveryRecord_js: "delivery_record_ok r \<Longrightarrow> parseDeliveryRecord (delivery_record_js r) = Inr r"
  by (simp add: parseDeliveryRecord_iff delivery_record_js_def fields_in_def own_simps)

lemma parseSessionRoutingRecord_js: "parseSessionRoutingRecord (session_routing_record_js r) = Inr r"
  by (simp add: parseSessionRoutingRecord_iff session_routing_record_js_def fields_in_def own_simps)

lemma parseStateRecord_js: "state_record_ok r \<Longrightarrow> parseStateRecord (state_record_js r) = Inr r"
  by (simp add: parseStateRecord_iff state_record_js_def fields_in_def own_simps)

lemma parseContainerRecord_js: "container_record_ok r \<Longrightarrow> parseContainerRecord (container_record_js r) = Inr r"
  by (simp add: parseContainerRecord_iff container_record_js_def fields_in_def own_simps)

lemma parseTaskRecord_js: "task_record_ok r \<Longrightarrow> parseTaskRecord (task_record_js r) = Inr r"
  by (simp add: parseTaskRecord_iff task_record_js_def fields_in_def own_simps)

lemma oneOf_pair: "oneOf r k [(a, True), (b, False)] = Inr x \<longleftrightarrow>
    (if x then own r k = JStr a else own r k = JStr b \<and> a \<noteq> b)"
  by (auto simp: oneOf_iff split: if_splits)

lemma parseDestinationRecord_iff:
  "parseDestinationRecord v = Inr r \<longleftrightarrow>
     (\<exists>ps. v = JObj ps \<and>
       fields_in [''name'', ''displayName'', ''type'', ''channelType'', ''platformId'', ''agentGroupId''] ps \<and>
       (case r of
          ChannelDestination n d ct pid \<Rightarrow>
            own ps ''name'' = JStr n \<and> own ps ''displayName'' = null_str d \<and> own ps ''type'' = JStr ''channel'' \<and>
            own ps ''channelType'' = JStr ct \<and> own ps ''platformId'' = JStr pid \<and> own ps ''agentGroupId'' = JNull
        | AgentDestination n d g \<Rightarrow>
            own ps ''name'' = JStr n \<and> own ps ''displayName'' = null_str d \<and> own ps ''type'' = JStr ''agent'' \<and>
            own ps ''channelType'' = JNull \<and> own ps ''platformId'' = JNull \<and> own ps ''agentGroupId'' = JStr g))"
  (is "?l = ?r")
proof
  assume ?l
  then show ?r
    by (auto simp: parseDestinationRecord_def parse_iffs oneOf_pair null_str_def split: if_splits option.splits)
next
  assume ?r
  then obtain ps where v: "v = JObj ps"
    "fields_in [''name'', ''displayName'', ''type'', ''channelType'', ''platformId'', ''agentGroupId''] ps" by blast
  show ?l
  proof (cases r)
    case (ChannelDestination n d ct pid)
    have "nullableText ps ''displayName'' = Inr d" "nullableText ps ''channelType'' = Inr (Some ct)"
      "nullableText ps ''platformId'' = Inr (Some pid)" "nullableText ps ''agentGroupId'' = Inr None"
      "text_of ps ''name'' = Inr n" "oneOf ps ''type'' [(''channel'', True), (''agent'', False)] = Inr True"
      using \<open>?r\<close> v ChannelDestination by (simp_all add: parse_iffs oneOf_pair) (simp_all add: null_str_def)
    moreover have "strictRecord v ''DestinationRecord''
       [''name'', ''displayName'', ''type'', ''channelType'', ''platformId'', ''agentGroupId''] = Inr ps"
      unfolding strictRecord_iff using v by blast
    ultimately show ?thesis using ChannelDestination by (simp add: parseDestinationRecord_def bnd_def)
  next
    case (AgentDestination n d g)
    have "nullableText ps ''displayName'' = Inr d" "nullableText ps ''channelType'' = Inr None"
      "nullableText ps ''platformId'' = Inr None" "nullableText ps ''agentGroupId'' = Inr (Some g)"
      "text_of ps ''name'' = Inr n" "oneOf ps ''type'' [(''channel'', True), (''agent'', False)] = Inr False"
      using \<open>?r\<close> v AgentDestination by (simp_all add: parse_iffs oneOf_pair) (simp_all add: null_str_def)
    moreover have "strictRecord v ''DestinationRecord''
       [''name'', ''displayName'', ''type'', ''channelType'', ''platformId'', ''agentGroupId''] = Inr ps"
      unfolding strictRecord_iff using v by blast
    ultimately show ?thesis using AgentDestination by (simp add: parseDestinationRecord_def bnd_def)
  qed
qed

text \<open>Two objects with the same fields, in any order.\<close>

definition same_object :: "js \<Rightarrow> js \<Rightarrow> bool" where
  "same_object v w =
     (case (v, w) of
        (JObj ps, JObj qs) \<Rightarrow> fields_in (map fst qs) ps \<and> (\<forall>k \<in> set (map fst qs). own ps k = own qs k)
      | _ \<Rightarrow> False)"

lemma same_object_JObj:
  "same_object v (JObj qs) \<longleftrightarrow>
     (\<exists>ps. v = JObj ps \<and> fields_in (map fst qs) ps \<and> (\<forall>k \<in> set (map fst qs). own ps k = own qs k))"
  by (simp add: same_object_def split: js.split)

fun record_kind :: "mailbox_record \<Rightarrow> mailbox_record_kind" where
  "record_kind (RInbound _) = Inbound"
| "record_kind (ROutbound _) = Outbound"
| "record_kind (RProcessingAck _) = ProcessingAck"
| "record_kind (RDelivery _) = Delivery"
| "record_kind (RDestination _) = Destination"
| "record_kind (RSessionRouting _) = SessionRouting"
| "record_kind (RState _) = State"
| "record_kind (RContainer _) = Container"

lemma parse_same_object:
  "parseInboundRecord v = Inr a \<longleftrightarrow> inbound_record_ok a \<and> same_object v (inbound_record_js a)"
  "parseOutboundRecord v = Inr b \<longleftrightarrow> outbound_record_ok b \<and> same_object v (outbound_record_js b)"
  "parseProcessingAckRecord v = Inr c \<longleftrightarrow> processing_ack_record_ok c \<and> same_object v (processing_ack_record_js c)"
  "parseDeliveryRecord v = Inr d \<longleftrightarrow> delivery_record_ok d \<and> same_object v (delivery_record_js d)"
  "parseDestinationRecord v = Inr e \<longleftrightarrow> same_object v (destination_record_js e)"
  "parseSessionRoutingRecord v = Inr f \<longleftrightarrow> same_object v (session_routing_record_js f)"
  "parseStateRecord v = Inr g \<longleftrightarrow> state_record_ok g \<and> same_object v (state_record_js g)"
  "parseContainerRecord v = Inr h \<longleftrightarrow> container_record_ok h \<and> same_object v (container_record_js h)"
proof -
  show "parseDestinationRecord v = Inr e \<longleftrightarrow> same_object v (destination_record_js e)"
    by (cases e) (simp_all add: parseDestinationRecord_iff same_object_JObj)
qed (auto simp: parseInboundRecord_iff parseOutboundRecord_iff parseProcessingAckRecord_iff
    parseDeliveryRecord_iff parseSessionRoutingRecord_iff parseStateRecord_iff parseContainerRecord_iff
    inbound_record_js_def outbound_record_js_def processing_ack_record_js_def delivery_record_js_def
    session_routing_record_js_def state_record_js_def container_record_js_def same_object_JObj)

lemma bnd_constructor: "bnd m (\<lambda>x. Inr (C x)) = Inr y \<longleftrightarrow> (\<exists>x. m = Inr x \<and> y = C x)"
  by (auto simp: bnd_Inr)


subsection \<open>Properties\<close>

text \<open>
  The mailbox parsers are exact: a value is accepted as a record precisely when it is, up to
  the order of its fields, the object that record is written as: every field present with its
  type, no other field, no nested value, and every timestamp and number valid.  So writing a
  parsed record and parsing it again returns it.
\<close>
theorem mailbox_parse_exact:
  "parseMailboxRecord k v = Inr r \<longleftrightarrow>
     record_kind r = k \<and> record_ok r \<and> same_object v (record_js r)"
  by (cases k; cases r)
     (auto simp: bnd_constructor parse_same_object)

lemma inbound_write_ok:
  "parseInboundWrite m = Inr w \<Longrightarrow> valid_iso (iw_timestamp w) \<and> null_iso (iw_processAfter w)"
  by (auto simp: parseInboundWrite_def parse_iffs)

text \<open>
  A well-formed inbound write always becomes a record, with the sequence number it was given:
  pending, its own series, never tried, waking the agent unless the write says otherwise, and
  every other field as written.
\<close>
theorem inbound_record_created:
  assumes "parseInboundWrite m = Inr w" "safe_nat n"
  shows "createInboundRecord m n = Inr
    \<lparr>ir_id = iw_id w, ir_sequence = Some n, ir_kind = iw_kind w, ir_timestamp = iw_timestamp w,
     ir_status = MsgPending, ir_processAfter = iw_processAfter w, ir_recurrence = iw_recurrence w,
     ir_seriesId = Some (iw_id w), ir_tries = 0, ir_trigger = or_else (iw_trigger w) True,
     ir_platformId = iw_platformId w, ir_channelType = iw_channelType w, ir_threadId = iw_threadId w,
     ir_content = iw_content w, ir_sourceSessionId = or_else (iw_sourceSessionId w) None,
     ir_onWake = or_else (iw_onWake w) False\<rparr>"
proof -
  have "bnd (Inr w) f = f w" for f :: "inbound_write \<Rightarrow> inbound_record res" by (simp add: bnd_def)
  then show ?thesis
    using inbound_write_ok [OF assms(1)] assms
    by (simp add: createInboundRecord_def parseInboundRecord_iff fields_in_def inbound_record_ok_def
        null_str_def null_num_def null_nat_def safe_nat_def MAX_SAFE_INTEGER_def split: option.split)
qed

definition demo_write :: js where
  "demo_write = JObj [(''id'', JStr ''m1''), (''kind'', JStr ''chat''),
     (''timestamp'', JStr ''2024-02-29T12:34:56.789Z''), (''platformId'', JStr ''C1''),
     (''channelType'', JStr ''slack''), (''threadId'', JNull), (''content'', JStr ''hi''),
     (''processAfter'', JNull), (''recurrence'', JNull), (''trigger'', JBool False)]"

theorem inbound_record_created_witness:
  "\<exists>r. createInboundRecord demo_write 2 = Inr r \<and> ir_id r = ''m1'' \<and> ir_sequence r = Some 2 \<and>
     \<not> ir_trigger r \<and> \<not> ir_onWake r"
proof -
  obtain w where w: "parseInboundWrite demo_write = Inr w" "iw_id w = ''m1''" "iw_trigger w = Some False" "iw_onWake w = None"
  proof -
    have "case parseInboundWrite demo_write of Inr w \<Rightarrow> iw_id w = ''m1'' \<and> iw_trigger w = Some False \<and> iw_onWake w = None
      | Inl _ \<Rightarrow> False" by code_simp
    then show thesis using that by (auto split: sum.splits)
  qed
  have "safe_nat 2" by (simp add: safe_nat_def MAX_SAFE_INTEGER_def)
  from inbound_record_created [OF w(1) this] w(2,3,4) show ?thesis by (simp add: or_else_def)
qed

text \<open>
  A direct message of the agent is delivered as it was written: the record it is stored as,
  read back for delivery, has the same id, kind, address and content, and answers no message.
\<close>
theorem direct_outbound_delivered:
  assumes "parseDirectOutboundWrite m = Inr w" "safe_nat n" "valid_iso ts"
  shows "bnd (createDirectOutboundRecord m n ts) (\<lambda>r. outboundDelivery (outbound_record_js r)) = Inr
    \<lparr>od_id = dw_id w, od_kind = dw_kind w, od_platformId = dw_platformId w,
     od_channelType = dw_channelType w, od_threadId = dw_threadId w, od_content = dw_content w,
     od_inReplyTo = None\<rparr>"
proof -
  let ?ow = "\<lparr>ow_id = dw_id w, ow_inReplyTo = None, ow_deliverAfter = None, ow_recurrence = None,
     ow_kind = dw_kind w, ow_platformId = Some (dw_platformId w), ow_channelType = Some (dw_channelType w),
     ow_threadId = Some (dw_threadId w), ow_content = dw_content w\<rparr>"
  let ?r = "\<lparr>or_id = dw_id w, or_sequence = Some n, or_inReplyTo = None, or_timestamp = ts,
     or_deliverAfter = None, or_recurrence = None, or_kind = dw_kind w, or_platformId = dw_platformId w,
     or_channelType = dw_channelType w, or_threadId = dw_threadId w, or_content = dw_content w\<rparr>"
  have bI: "bnd (Inr x) f = f x" for x :: 'x and f :: "'x \<Rightarrow> 'y res" by (simp add: bnd_def)
  have nn: "null_str x \<noteq> JUndefined" for x by (simp add: null_str_def split: option.split)
  have "parseOutboundWrite (direct_outbound_write_js w) = Inr ?ow"
    by (simp add: parseOutboundWrite_def direct_outbound_write_js_def parse_iffs fields_in_def
        optionalNullableText_def optionalNullableTimestamp_def has_key_def nn)
  moreover have ok: "outbound_record_ok ?r" using assms
    by (simp add: outbound_record_ok_def null_nat_def null_iso_def)
  moreover have "parseOutboundRecord (outbound_record_js ?r) = Inr ?r"
    by (rule parseOutboundRecord_js [OF ok])
  ultimately show ?thesis
    using assms(1)
    by (simp add: createDirectOutboundRecord_def createOutboundRecord_def outboundDelivery_def bI or_else_def
        outbound_record_js_def null_num_def parseOutboundDelivery_iff fields_in_def)
qed

theorem direct_outbound_delivered_witness:
  "\<exists>m w. parseDirectOutboundWrite m = Inr w \<and>
     bnd (createDirectOutboundRecord m 3 ''2024-02-29T12:34:56.789Z'') (\<lambda>r. outboundDelivery (outbound_record_js r)) =
       Inr \<lparr>od_id = dw_id w, od_kind = dw_kind w, od_platformId = dw_platformId w,
         od_channelType = dw_channelType w, od_threadId = dw_threadId w, od_content = dw_content w,
         od_inReplyTo = None\<rparr>"
proof -
  let ?w = "\<lparr>dw_id = ''o1'', dw_kind = ''chat'', dw_platformId = Some ''C1'', dw_channelType = Some ''slack'',
    dw_threadId = None, dw_content = ''hello''\<rparr>"
  have w: "parseDirectOutboundWrite (direct_outbound_write_js ?w) = Inr ?w"
    by (simp add: parseDirectOutboundWrite_iff direct_outbound_write_js_def fields_in_def)
  have "safe_nat 3" "valid_iso ''2024-02-29T12:34:56.789Z''"
    by (simp add: safe_nat_def MAX_SAFE_INTEGER_def) code_simp
  from direct_outbound_delivered [OF w this] w show ?thesis by blast
qed

end
