(* ===== verification/MailboxSqlite.thy ===== *)
theory MailboxSqlite
  imports MailboxModel
begin

text \<open>
  The SQLite mailbox of one session, both sides: the host's \<open>inbound.db\<close>
  (\<open>src/mailbox/sqlite/session-db.ts\<close>, \<open>tasks.ts\<close>, \<open>index.ts\<close>) and the container's \<open>outbound.db\<close>
  (\<open>container/agent-runner/src/mailbox/sqlite/operations.ts\<close>).  Each side writes its own file and
  reads the other's.  A row of \<open>messages_in\<close>, \<open>messages_out\<close>, \<open>processing_ack\<close>, \<open>delivered\<close> and
  \<open>session_state\<close> has exactly the columns of the record type it is written from, so the tables
  are lists of those records in insertion order.  Connections, schema creation and the
  migrations of old files are not modelled: the tables are those of the current schema.

  The environment has the clock, and two readings of timestamp text that are not this code:
  SQLite's \<open>datetime(x)\<close> in seconds (\<open>None\<close> for \<open>NULL\<close>) and \<open>Date.parse(x)\<close>.  Nothing is assumed of
  them except where a lemma says so.
\<close>

subsection \<open>State\<close>

text \<open>
  The row of \<open>container_state\<close>, which the container writes; SQLite keeps in its number column whatever is
  written there, a fraction for instance.
\<close>

record container_row =
  ct_tool :: "string option"
  ct_timeout :: js
  ct_startedAt :: "string option"
  ct_updatedAt :: string

record mailbox =
  mb_in :: "inbound_record list"
  mb_delivered :: "delivery_record list"
  mb_dests :: "destination_record list"
  mb_routing :: "session_routing_record option"
  mb_hostSeq :: "int option"
  mb_out :: "outbound_record list"
  mb_acks :: "processing_ack_record list"
  mb_state :: "state_record list"
  mb_container :: "container_row option"

record clock =
  ck_now :: int
  ck_datetime :: "string \<Rightarrow> int option"
  ck_dateParse :: "string \<Rightarrow> int option"

definition now_iso :: "clock \<Rightarrow> string" where
  "now_iso ck = toISOString (ck_now ck)"

text \<open>\<open>datetime(x) <= datetime('now')\<close> with \<open>NULL\<close> counting as due, and \<open>datetime(x) > datetime('now')\<close>.\<close>

definition due :: "clock \<Rightarrow> string option \<Rightarrow> bool" where
  "due ck x =
     (case x of None \<Rightarrow> True
      | Some s \<Rightarrow> (case ck_datetime ck s of Some t \<Rightarrow> t \<le> ck_now ck div 1000 | None \<Rightarrow> False))"

definition later :: "clock \<Rightarrow> string option \<Rightarrow> bool" where
  "later ck x =
     (case x of None \<Rightarrow> False
      | Some s \<Rightarrow> (case ck_datetime ck s of Some t \<Rightarrow> ck_now ck div 1000 < t | None \<Rightarrow> False))"

text \<open>The texts \<open>YYYY-MM-DD[ T]HH:MM:SS[.digits]\<close> of old rows are read as UTC.\<close>

definition is_digit :: "char \<Rightarrow> bool" where
  "is_digit c = (c \<in> set ''0123456789'')"

definition matches_shape :: "string \<Rightarrow> string \<Rightarrow> bool" where
  "matches_shape shape s =
     (length s = length shape \<and>
      list_all2 (\<lambda>p c. if p = CHR ''d'' then is_digit c
                       else if p = CHR ''s'' then c = CHR '' '' \<or> c = CHR ''T'' else c = p) shape s)"

definition SQLITE_TIMESTAMP :: "string \<Rightarrow> bool" where
  "SQLITE_TIMESTAMP s =
     (matches_shape ''dddd-dd-ddsdd:dd:dd'' (take 19 s) \<and>
      (case drop 19 s of [] \<Rightarrow> True
       | c # cs \<Rightarrow> c = CHR ''.'' \<and> cs \<noteq> [] \<and> list_all is_digit cs))"

fun replace_space :: "string \<Rightarrow> string" where
  "replace_space [] = []"
| "replace_space (c # cs) = (if c = CHR '' '' then CHR ''T'' # cs else c # replace_space cs)"

definition sqliteTimestamp :: "clock \<Rightarrow> string \<Rightarrow> string" where
  "sqliteTimestamp ck v =
     (let source = (if SQLITE_TIMESTAMP v then replace_space v @ ''Z'' else v)
      in case ck_dateParse ck source of Some ms \<Rightarrow> toISOString ms | None \<Rightarrow> v)"

text \<open>The rows of a query, each read by a function that may throw: the first exception ends the read.\<close>

fun all_res :: "'a res list \<Rightarrow> 'a list res" where
  "all_res [] = Inr []"
| "all_res (r # rs) = bnd r (\<lambda>x. bnd (all_res rs) (\<lambda>xs. Inr (x # xs)))"

subsection \<open>Sequence numbers\<close>

definition max_seq :: "int option list \<Rightarrow> int" where
  "max_seq xs = fold (\<lambda>x m. case x of None \<Rightarrow> m | Some n \<Rightarrow> max m n) xs 0"

definition in_seqs :: "mailbox \<Rightarrow> int option list" where
  "in_seqs mb = map ir_sequence (mb_in mb)"

definition out_seqs :: "mailbox \<Rightarrow> int option list" where
  "out_seqs mb = map or_sequence (mb_out mb)"

definition next_even :: "int \<Rightarrow> int" where
  "next_even m = (if m < 2 then 2 else m + 2 - m mod 2)"

definition nextEvenAcross :: "mailbox \<Rightarrow> int" where
  "nextEvenAcross mb = next_even (max (max_seq (in_seqs mb)) (max_seq (out_seqs mb)))"

text \<open>One claim of \<open>makeHostSeqAllocator\<close>.\<close>

definition nextHostSeq :: "mailbox \<Rightarrow> int \<times> mailbox" where
  "nextHostSeq mb =
     (case mb_hostSeq mb of
        Some n \<Rightarrow> (n, mb\<lparr>mb_hostSeq := Some (n + 2)\<rparr>)
      | None \<Rightarrow> (let seed = nextEvenAcross mb in (seed, mb\<lparr>mb_hostSeq := Some (seed + 2)\<rparr>)))"

definition nextOddSeq :: "mailbox \<Rightarrow> int" where
  "nextOddSeq mb =
     (let m = max (max_seq (out_seqs mb)) (max_seq (in_seqs mb))
      in if m mod 2 = 0 then m + 1 else m + 2)"

subsection \<open>Host: inbound messages\<close>

definition insert_in :: "inbound_record \<Rightarrow> mailbox \<Rightarrow> mailbox res" where
  "insert_in r mb =
     (if \<exists>x \<in> set (mb_in mb). ir_id x = ir_id r \<or> (ir_sequence r \<noteq> None \<and> ir_sequence x = ir_sequence r)
      then Inl UniqueViolation else Inr (mb\<lparr>mb_in := mb_in mb @ [r]\<rparr>))"

definition insertMessage :: "js \<Rightarrow> int \<Rightarrow> mailbox \<Rightarrow> mailbox res" where
  "insertMessage message sequence mb =
     bnd (createInboundRecord message sequence) (\<lambda>r. insert_in r mb)"

definition insertTaskRow :: "clock \<Rightarrow> js \<Rightarrow> int \<Rightarrow> mailbox \<Rightarrow> mailbox res" where
  "insertTaskRow ck row sequence mb =
     bnd (createTaskInboundRecord row sequence (now_iso ck)) (\<lambda>r. insert_in r mb)"

text \<open>
  The host's mailbox methods claim a number first; the claim stays when the insert throws.  The
  result is the error thrown, if any, and the mailbox.
\<close>

definition keep_claim :: "mailbox \<Rightarrow> mailbox res \<Rightarrow> exn option \<times> mailbox" where
  "keep_claim mb r = (case r of Inl e \<Rightarrow> (Some e, mb) | Inr mb' \<Rightarrow> (None, mb'))"

definition inbound_insertMessage :: "js \<Rightarrow> mailbox \<Rightarrow> exn option \<times> mailbox" where
  "inbound_insertMessage message mb =
     (let (n, mb1) = nextHostSeq mb in keep_claim mb1 (insertMessage message n mb1))"

definition inbound_insertTask :: "clock \<Rightarrow> js \<Rightarrow> mailbox \<Rightarrow> exn option \<times> mailbox" where
  "inbound_insertTask ck task mb =
     (let (n, mb1) = nextHostSeq mb in keep_claim mb1 (insertTaskRow ck task n mb1))"

definition on_in :: "(inbound_record list \<Rightarrow> inbound_record list) \<Rightarrow> mailbox \<Rightarrow> mailbox" where
  "on_in f mb = mb\<lparr>mb_in := f (mb_in mb)\<rparr>"

definition countDueMessages :: "clock \<Rightarrow> mailbox \<Rightarrow> nat" where
  "countDueMessages ck mb =
     length (filter (\<lambda>r. ir_status r = MsgPending \<and> ir_trigger r \<and> due ck (ir_processAfter r)) (mb_in mb))"

definition set_status :: "inbound_status \<Rightarrow> inbound_record \<Rightarrow> inbound_record" where
  "set_status s r = r\<lparr>ir_status := s\<rparr>"

definition markMessageFailed :: "string \<Rightarrow> mailbox \<Rightarrow> mailbox" where
  "markMessageFailed i = on_in (update_where (\<lambda>r. ir_id r = i) (set_status MsgFailed))"

definition retryWithBackoff :: "clock \<Rightarrow> string \<Rightarrow> int \<Rightarrow> mailbox \<Rightarrow> mailbox" where
  "retryWithBackoff ck i backoffSec =
     on_in (update_where (\<lambda>r. ir_id r = i)
       (\<lambda>r. r\<lparr>ir_tries := ir_tries r + 1, ir_processAfter := Some (toISOString (ck_now ck + backoffSec * 1000))\<rparr>))"

definition getMessageForRetry ::
    "clock \<Rightarrow> string \<Rightarrow> inbound_status \<Rightarrow> mailbox \<Rightarrow> (string \<times> int \<times> string option) option" where
  "getMessageForRetry ck i s mb =
     map_option (\<lambda>r. (ir_id r, ir_tries r, map_option (sqliteTimestamp ck) (ir_processAfter r)))
       (find (\<lambda>r. ir_id r = i \<and> ir_status r = s) (mb_in mb))"

definition terminal_ack :: "processing_status \<Rightarrow> bool" where
  "terminal_ack s = (s \<noteq> AckProcessing)"

definition apply_ack :: "processing_ack_record \<Rightarrow> inbound_record list \<Rightarrow> inbound_record list" where
  "apply_ack a =
     update_where (\<lambda>r. ir_id r = ak_messageId a \<and> ir_status r \<notin> {MsgCompleted, MsgFailed})
       (set_status (if ak_status a = AckScriptError then MsgFailed else MsgCompleted))"

definition applyProcessingAcks :: "processing_ack_record list \<Rightarrow> mailbox \<Rightarrow> mailbox" where
  "applyProcessingAcks acks = on_in (fold apply_ack acks)"

definition syncProcessingAcks :: "mailbox \<Rightarrow> mailbox" where
  "syncProcessingAcks mb = applyProcessingAcks (filter (terminal_ack \<circ> ak_status) (mb_acks mb)) mb"

definition getInboundSourceSessionId :: "string \<Rightarrow> mailbox \<Rightarrow> string option" where
  "getInboundSourceSessionId i mb =
     (case find (\<lambda>r. ir_id r = i) (mb_in mb) of Some r \<Rightarrow> ir_sourceSessionId r | None \<Rightarrow> None)"

text \<open>\<open>ORDER BY seq\<close> puts \<open>NULL\<close> first; \<open>DESC\<close> turns the order round.\<close>

definition seq_key :: "inbound_record \<Rightarrow> int" where
  "seq_key r = (case ir_sequence r of None \<Rightarrow> - 1 | Some n \<Rightarrow> n)"

definition by_seq :: "inbound_record list \<Rightarrow> inbound_record list" where
  "by_seq = sort_key seq_key"

definition by_seq_desc :: "inbound_record list \<Rightarrow> inbound_record list" where
  "by_seq_desc = sort_key (\<lambda>r. - seq_key r)"

definition getMostRecentPeerSourceSessionId :: "string \<Rightarrow> mailbox \<Rightarrow> string option" where
  "getMostRecentPeerSourceSessionId peer mb =
     (case by_seq_desc (filter (\<lambda>r. ir_channelType r = Some ''agent'' \<and> ir_platformId r = Some peer \<and>
                                  ir_sourceSessionId r \<noteq> None) (mb_in mb)) of
        r # _ \<Rightarrow> ir_sourceSessionId r | [] \<Rightarrow> None)"

text \<open>\<open>x NOT IN (..)\<close> is not true when \<open>x\<close> or an element is \<open>NULL\<close>, unless the list is empty.\<close>

definition sql_not_in :: "'a option \<Rightarrow> 'a option list \<Rightarrow> bool" where
  "sql_not_in x xs = (xs = [] \<or> (x \<noteq> None \<and> None \<notin> set xs \<and> x \<notin> set xs))"

definition prunePendingMessages ::
    "clock \<Rightarrow> string \<Rightarrow> string \<Rightarrow> nat \<Rightarrow> mailbox \<Rightarrow> nat \<times> mailbox" where
  "prunePendingMessages ck channelType before keep mb =
     (let ours = (\<lambda>r. ir_channelType r = Some channelType \<and> ir_status r = MsgPending);
          old = (\<lambda>r. ours r \<and> (case (ck_datetime ck (ir_timestamp r), ck_datetime ck before) of
                                 (Some t, Some b) \<Rightarrow> t < b | _ \<Rightarrow> False));
          rows = delete_where old (mb_in mb);
          kept = map ir_sequence (take keep (by_seq_desc (filter ours rows)));
          over = (\<lambda>r. ours r \<and> sql_not_in (ir_sequence r) kept)
      in (changes old (mb_in mb) + changes over rows, mb\<lparr>mb_in := delete_where over rows\<rparr>))"

subsection \<open>Host: the delivery ledger\<close>

definition getDeliveredIds :: "mailbox \<Rightarrow> string set" where
  "getDeliveredIds mb = dr_messageOutId ` set (mb_delivered mb)"

definition insert_delivered :: "delivery_record \<Rightarrow> mailbox \<Rightarrow> mailbox" where
  "insert_delivered d mb =
     (if dr_messageOutId d \<in> getDeliveredIds mb then mb else mb\<lparr>mb_delivered := mb_delivered mb @ [d]\<rparr>)"

definition markDelivered :: "clock \<Rightarrow> string \<Rightarrow> string option \<Rightarrow> mailbox \<Rightarrow> mailbox" where
  "markDelivered ck i pid =
     insert_delivered \<lparr>dr_messageOutId = i, dr_platformMessageId = pid, dr_status = Delivered,
                       dr_deliveredAt = now_iso ck\<rparr>"

definition markDeliveryFailed :: "clock \<Rightarrow> string \<Rightarrow> mailbox \<Rightarrow> mailbox" where
  "markDeliveryFailed ck i =
     insert_delivered \<lparr>dr_messageOutId = i, dr_platformMessageId = None, dr_status = DeliveryFailed,
                       dr_deliveredAt = now_iso ck\<rparr>"

subsection \<open>Host: tasks\<close>

definition in_series :: "string \<Rightarrow> inbound_record \<Rightarrow> bool" where
  "in_series t r = ((ir_id r = t \<or> ir_seriesId r = Some t) \<and> ir_kind r = KTask)"

definition update_count ::
    "(inbound_record \<Rightarrow> bool) \<Rightarrow> (inbound_record \<Rightarrow> inbound_record) \<Rightarrow> mailbox \<Rightarrow> nat \<times> mailbox" where
  "update_count p f mb = (changes p (mb_in mb), on_in (update_where p f) mb)"

definition live :: "inbound_record \<Rightarrow> bool" where
  "live r = (ir_status r \<in> {MsgPending, MsgPaused})"

definition cancelled :: "inbound_record \<Rightarrow> inbound_record" where
  "cancelled r = r\<lparr>ir_status := MsgCancelled, ir_recurrence := None\<rparr>"

definition cancelTask :: "string \<Rightarrow> mailbox \<Rightarrow> nat \<times> mailbox" where
  "cancelTask t = update_count (\<lambda>r. in_series t r \<and> live r) cancelled"

definition cancelAllTasks :: "mailbox \<Rightarrow> nat \<times> mailbox" where
  "cancelAllTasks = update_count (\<lambda>r. ir_kind r = KTask \<and> live r) cancelled"

definition pauseTask :: "string \<Rightarrow> mailbox \<Rightarrow> nat \<times> mailbox" where
  "pauseTask t = update_count (\<lambda>r. in_series t r \<and> ir_status r = MsgPending) (set_status MsgPaused)"

definition resumeTask :: "string \<Rightarrow> mailbox \<Rightarrow> nat \<times> mailbox" where
  "resumeTask t = update_count (\<lambda>r. in_series t r \<and> ir_status r = MsgPaused) (set_status MsgPending)"

definition deleteTask :: "string \<Rightarrow> mailbox \<Rightarrow> nat \<times> mailbox" where
  "deleteTask t mb = (changes (in_series t) (mb_in mb), on_in (delete_where (in_series t)) mb)"

text \<open>
  An update names the fields it sets; \<open>JSON.parse\<close> and \<open>JSON.stringify\<close> of the content column are
  arguments.  The transaction rolls back when the content of a row does not parse or is no object.
\<close>

record task_update =
  tu_prompt :: "string option"
  tu_script :: "string option option"
  tu_recurrence :: "string option option"
  tu_processAfter :: "string option"

definition merge_content ::
    "(string \<Rightarrow> js res) \<Rightarrow> (js \<Rightarrow> string) \<Rightarrow> task_update \<Rightarrow> string \<Rightarrow> string res" where
  "merge_content parse print u content =
     (if tu_prompt u = None \<and> tu_script u = None then Inr content
      else bnd (parse content) (\<lambda>v. case v of
             JObj ps \<Rightarrow>
               (let ps1 = (case tu_prompt u of Some p \<Rightarrow> set_prop ''prompt'' (JStr p) ps | None \<Rightarrow> ps);
                    ps2 = (case tu_script u of Some s \<Rightarrow> set_prop ''script'' (null_str s) ps1 | None \<Rightarrow> ps1)
                in Inr (print (JObj ps2)))
           | JNull \<Rightarrow> Inl TypeError
           | JUndefined \<Rightarrow> Inl TypeError
           | JArr xs \<Rightarrow> Inr (print (JArr xs))
           | _ \<Rightarrow> Inl TypeError))"

definition update_row :: "task_update \<Rightarrow> string \<Rightarrow> inbound_record \<Rightarrow> inbound_record" where
  "update_row u content r =
     r\<lparr>ir_content := content,
       ir_processAfter := (case tu_processAfter u of Some p \<Rightarrow> Some p | None \<Rightarrow> ir_processAfter r),
       ir_recurrence := (case tu_recurrence u of Some x \<Rightarrow> x | None \<Rightarrow> ir_recurrence r)\<rparr>"

definition updatable :: "clock \<Rightarrow> string \<Rightarrow> inbound_record \<Rightarrow> bool" where
  "updatable ck t r =
     (in_series t r \<and> (ir_status r = MsgPaused \<or> (ir_status r = MsgPending \<and> later ck (ir_processAfter r))))"

definition update_one ::
    "(string \<Rightarrow> js res) \<Rightarrow> (js \<Rightarrow> string) \<Rightarrow> task_update \<Rightarrow> inbound_record \<Rightarrow> inbound_record list res
       \<Rightarrow> inbound_record list res" where
  "update_one parse print u row acc =
     bnd acc (\<lambda>rows. bnd (merge_content parse print u (ir_content row)) (\<lambda>content.
       Inr (update_where (\<lambda>r. ir_id r = ir_id row) (update_row u content) rows)))"

definition updateTask ::
    "clock \<Rightarrow> (string \<Rightarrow> js res) \<Rightarrow> (js \<Rightarrow> string) \<Rightarrow> string \<Rightarrow> task_update \<Rightarrow> mailbox
       \<Rightarrow> (nat \<times> mailbox) res" where
  "updateTask ck parse print t u mb =
     (let rows = filter (updatable ck t) (mb_in mb)
      in bnd (fold (update_one parse print u) rows (Inr (mb_in mb)))
           (\<lambda>rows'. Inr (length rows, mb\<lparr>mb_in := rows'\<rparr>)))"

definition getCompletedRecurring :: "mailbox \<Rightarrow> inbound_record list" where
  "getCompletedRecurring mb =
     filter (\<lambda>r. ir_status r \<in> {MsgCompleted, MsgFailed} \<and> ir_recurrence r \<noteq> None) (mb_in mb)"

definition trailingFailedRuns :: "string \<Rightarrow> mailbox \<Rightarrow> nat" where
  "trailingFailedRuns t mb =
     length (takeWhile (\<lambda>r. ir_status r = MsgFailed)
       (by_seq_desc (filter (\<lambda>r. in_series t r \<and> ir_status r \<in> {MsgCompleted, MsgFailed}) (mb_in mb))))"

definition clearRecurrence :: "string \<Rightarrow> mailbox \<Rightarrow> mailbox" where
  "clearRecurrence i = on_in (update_where (\<lambda>r. ir_id r = i) (\<lambda>r. r\<lparr>ir_recurrence := None\<rparr>))"

definition countLiveTasks :: "mailbox \<Rightarrow> nat" where
  "countLiveTasks mb = length (filter (\<lambda>r. ir_kind r = KTask \<and> live r) (mb_in mb))"

definition taskRecord :: "clock \<Rightarrow> inbound_record \<Rightarrow> task_record res" where
  "taskRecord ck r =
     parseTaskRecord (JObj [
       (''id'', JStr (ir_id r)), (''seriesId'', null_str (ir_seriesId r)),
       (''status'', JStr (inbound_status_str (ir_status r))),
       (''processAfter'', null_str (map_option (sqliteTimestamp ck) (ir_processAfter r))),
       (''recurrence'', null_str (ir_recurrence r)), (''content'', JStr (ir_content r)),
       (''timestamp'', JStr (sqliteTimestamp ck (ir_timestamp r))), (''tries'', JNum (ir_tries r)),
       (''sequence'', null_num (ir_sequence r))])"

definition getTask :: "clock \<Rightarrow> string \<Rightarrow> mailbox \<Rightarrow> task_record res option" where
  "getTask ck t mb =
     (let rows = filter (in_series t) (mb_in mb);
          rank = (\<lambda>r. if ir_status r = MsgPaused \<or> (ir_status r = MsgPending \<and> later ck (ir_processAfter r)) then 0
                      else if ir_status r = MsgPending then 1 else 2 :: nat);
          order = (\<lambda>r. if live r then seq_key r else - seq_key r);
          best = sort_key rank (sort_key order rows)
      in case best of r # _ \<Rightarrow> Some (taskRecord ck r) | [] \<Rightarrow> None)"

text \<open>One row per series: a paused or future occurrence before a due one, then the oldest.\<close>

fun first_of_each :: "('a \<Rightarrow> 'k) \<Rightarrow> 'a list \<Rightarrow> 'a list" where
  "first_of_each key [] = []"
| "first_of_each key (x # xs) = x # filter (\<lambda>y. key y \<noteq> key x) (first_of_each key xs)"

definition due_key :: "clock \<Rightarrow> inbound_record \<Rightarrow> int" where
  "due_key ck r =
     (case ir_processAfter r of None \<Rightarrow> - (2 ^ 62)
      | Some s \<Rightarrow> (case ck_datetime ck s of None \<Rightarrow> - (2 ^ 62) | Some t \<Rightarrow> t))"

definition listLiveTasks :: "clock \<Rightarrow> inbound_status option \<Rightarrow> mailbox \<Rightarrow> task_record res list" where
  "listLiveTasks ck status mb =
     (let want = (case status of Some s \<Rightarrow> (\<lambda>r. ir_status r = s) | None \<Rightarrow> live);
          rank = (\<lambda>r. if ir_status r = MsgPaused \<or> later ck (ir_processAfter r) then 0 else 1 :: nat);
          rows = first_of_each ir_seriesId
                   (sort_key rank (by_seq (filter (\<lambda>r. ir_kind r = KTask \<and> want r) (mb_in mb))))
      in map (taskRecord ck) (sort_key (due_key ck) (by_seq rows)))"

definition max_text :: "string option list \<Rightarrow> string option" where
  "max_text xs =
     fold (\<lambda>x m. case x of None \<Rightarrow> m
                 | Some s \<Rightarrow> (case m of None \<Rightarrow> Some s | Some t \<Rightarrow> Some (max s t))) xs None"

definition getTaskStats :: "clock \<Rightarrow> string \<Rightarrow> mailbox \<Rightarrow> nat \<times> string option \<times> nat" where
  "getTaskStats ck t mb =
     (let rows = filter (in_series t) (mb_in mb);
          done_rows = filter (\<lambda>r. ir_status r = MsgCompleted) rows
      in (length done_rows, map_option (sqliteTimestamp ck) (max_text (map ir_processAfter done_rows)),
          length (filter (\<lambda>r. ir_status r = MsgFailed) rows)))"

text \<open>A clone of a settled occurrence, for the next run.\<close>

definition task_js :: "string \<Rightarrow> string option \<Rightarrow> string option \<Rightarrow> string option \<Rightarrow> string \<Rightarrow> inbound_status \<Rightarrow> js" where
  "task_js i series nextRun recurrence content status = JObj [
     (''id'', JStr i), (''seriesId'', null_str series), (''processAfter'', null_str nextRun),
     (''recurrence'', null_str recurrence), (''content'', JStr content),
     (''status'', JStr (inbound_status_str status))]"

definition setRouting :: "js \<Rightarrow> mailbox \<Rightarrow> mailbox res" where
  "setRouting routing mb = bnd (parseSessionRoutingRecord routing) (\<lambda>r. Inr (mb\<lparr>mb_routing := Some r\<rparr>))"

fun dest_name :: "destination_record \<Rightarrow> string" where
  "dest_name (ChannelDestination n d ct pid) = n"
| "dest_name (AgentDestination n d g) = n"

fun parse_all :: "js list \<Rightarrow> destination_record list res" where
  "parse_all [] = Inr []"
| "parse_all (v # vs) = bnd (parseDestinationRecord v) (\<lambda>r. bnd (parse_all vs) (\<lambda>rs. Inr (r # rs)))"

text \<open>The names are the key: a repeated name rolls the replacement back.\<close>

definition replaceDestinations :: "js list \<Rightarrow> mailbox \<Rightarrow> mailbox res" where
  "replaceDestinations entries mb =
     bnd (parse_all entries) (\<lambda>rs.
       if distinct (map dest_name rs) then Inr (mb\<lparr>mb_dests := rs\<rparr>) else Inl UniqueViolation)"

subsection \<open>Host: reading what the container wrote\<close>

definition getTerminalProcessingAcks :: "clock \<Rightarrow> mailbox \<Rightarrow> processing_ack_record res list" where
  "getTerminalProcessingAcks ck mb =
     map (\<lambda>a. parseProcessingAckRecord (JObj [
             (''messageId'', JStr (ak_messageId a)), (''status'', JStr (processing_status_str (ak_status a))),
             (''statusChanged'', JStr (sqliteTimestamp ck (ak_statusChanged a)))]))
       (filter (terminal_ack \<circ> ak_status) (mb_acks mb))"

definition getProcessingClaims :: "clock \<Rightarrow> mailbox \<Rightarrow> (string \<times> string) res list" where
  "getProcessingClaims ck mb =
     map (\<lambda>a. bnd (parseProcessingAckRecord (JObj [
             (''messageId'', JStr (ak_messageId a)), (''status'', JStr ''processing''),
             (''statusChanged'', JStr (sqliteTimestamp ck (ak_statusChanged a)))]))
           (\<lambda>r. Inr (ak_messageId r, ak_statusChanged r)))
       (filter (\<lambda>a. ak_status a = AckProcessing) (mb_acks mb))"

definition deleteOrphanProcessingClaims :: "mailbox \<Rightarrow> nat \<times> mailbox" where
  "deleteOrphanProcessingClaims mb =
     (let p = (\<lambda>a. ak_status a = AckProcessing)
      in (changes p (mb_acks mb), mb\<lparr>mb_acks := delete_where p (mb_acks mb)\<rparr>))"

definition getContainerState :: "clock \<Rightarrow> mailbox \<Rightarrow> container_record option res" where
  "getContainerState ck mb =
     (case mb_container mb of
        None \<Rightarrow> Inr None
      | Some row \<Rightarrow>
          bnd (parseContainerRecord (JObj [
                 (''currentTool'', null_str (ct_tool row)), (''toolDeclaredTimeoutMs'', ct_timeout row),
                 (''toolStartedAt'', null_str (map_option (sqliteTimestamp ck) (ct_startedAt row))),
                 (''updatedAt'', JStr (sqliteTimestamp ck (ct_updatedAt row)))]))
            (\<lambda>r. Inr (Some r)))"

definition best_effort :: "outbound_record \<Rightarrow> outbound_delivery" where
  "best_effort r =
     \<lparr>od_id = or_id r, od_kind = or_kind r, od_platformId = or_platformId r,
      od_channelType = or_channelType r, od_threadId = or_threadId r, od_content = or_content r,
      od_inReplyTo = or_inReplyTo r\<rparr>"

definition read_delivery :: "clock \<Rightarrow> outbound_record \<Rightarrow> outbound_delivery" where
  "read_delivery ck r =
     (case bnd (parseOutboundRecord (outbound_record_js
              (r\<lparr>or_timestamp := sqliteTimestamp ck (or_timestamp r),
                 or_deliverAfter := map_option (sqliteTimestamp ck) (or_deliverAfter r)\<rparr>)))
            (\<lambda>o1. outboundDelivery (outbound_record_js o1)) of
        Inr d \<Rightarrow> d
      | Inl _ \<Rightarrow> best_effort r)"

definition getDueMessages :: "clock \<Rightarrow> string set \<Rightarrow> mailbox \<Rightarrow> outbound_delivery list" where
  "getDueMessages ck excludeIds mb =
     map (read_delivery ck)
       (filter (\<lambda>r. or_id r \<notin> excludeIds)
         (sort_key or_timestamp (filter (\<lambda>r. due ck (or_deliverAfter r)) (mb_out mb))))"

definition writeDirect :: "clock \<Rightarrow> js \<Rightarrow> mailbox \<Rightarrow> exn option \<times> mailbox" where
  "writeDirect ck message mb =
     (let (n, mb1) = nextHostSeq mb
      in keep_claim mb1
           (bnd (createDirectOutboundRecord message n (now_iso ck)) (\<lambda>r.
              Inr (if \<exists>x \<in> set (mb_out mb1). or_id x = or_id r \<or>
                        (or_sequence r \<noteq> None \<and> or_sequence x = or_sequence r)
                   then mb1 else mb1\<lparr>mb_out := mb_out mb1 @ [r]\<rparr>))))"

definition getConversationRoot :: "clock \<Rightarrow> mailbox \<Rightarrow> (string \<times> string) option" where
  "getConversationRoot ck mb =
     (case by_seq (filter (\<lambda>r. ir_kind r \<in> {KChat, KChatSdk} \<and> ir_trigger r \<and>
             (case ir_channelType r of None \<Rightarrow> True | Some c \<Rightarrow> c \<noteq> ''session-echo'' \<and> c \<noteq> ''agent'')) (mb_in mb)) of
        r # _ \<Rightarrow> Some (sqliteTimestamp ck (ir_timestamp r), ir_content r) | [] \<Rightarrow> None)"

text \<open>The newest messages, for the history listings: time, kind and content.\<close>

definition getInboundHistory :: "clock \<Rightarrow> nat \<Rightarrow> mailbox \<Rightarrow> (string \<times> string \<times> string) list" where
  "getInboundHistory ck limit mb =
     map (\<lambda>r. (sqliteTimestamp ck (ir_timestamp r), inbound_kind_str (ir_kind r), ir_content r))
       (take limit (by_seq_desc (mb_in mb)))"

definition getOutboundHistory :: "clock \<Rightarrow> nat \<Rightarrow> mailbox \<Rightarrow> (string \<times> string \<times> string) list" where
  "getOutboundHistory ck limit mb =
     map (\<lambda>r. (sqliteTimestamp ck (or_timestamp r), or_kind r, or_content r))
       (take limit (sort_key (\<lambda>r. case or_sequence r of None \<Rightarrow> 1 | Some n \<Rightarrow> - n) (mb_out mb)))"

text \<open>
  \<open>series_id GLOB '<slug>-[0-9a-f]..'\<close> for a slug of letters, digits and hyphens, which stand for themselves.
\<close>

definition hex_char :: "char \<Rightarrow> bool" where
  "hex_char c \<longleftrightarrow> c \<in> set ''0123456789abcdef''"

definition glob_slug :: "string \<Rightarrow> string \<Rightarrow> bool" where
  "glob_slug slug t \<longleftrightarrow>
     length t = length slug + 5 \<and> take (length slug + 1) t = slug @ ''-'' \<and> list_all hex_char (drop (length slug + 1) t)"

definition findTaskBySeriesSlug :: "clock \<Rightarrow> string \<Rightarrow> mailbox \<Rightarrow> task_record res option" where
  "findTaskBySeriesSlug ck slug mb =
     (let rows = filter (\<lambda>r. ir_kind r = KTask \<and> (case ir_seriesId r of None \<Rightarrow> False | Some t \<Rightarrow> glob_slug slug t)) (mb_in mb)
      in case sort_key (\<lambda>r. if live r then 0 else 1 :: nat) (by_seq_desc rows) of
           r # _ \<Rightarrow> Some (taskRecord ck r) | [] \<Rightarrow> None)"

definition top_level :: "outbound_record \<Rightarrow> bool" where
  "top_level r =
     (or_kind r \<noteq> ''system'' \<and> or_kind r \<noteq> ''task_log'' \<and> or_channelType r \<noteq> Some ''agent'' \<and>
      (case or_threadId r of None \<Rightarrow> True | Some t \<Rightarrow> t = [] \<or> last t = CHR '':''))"

definition getTopLevelOutbound :: "clock \<Rightarrow> nat \<Rightarrow> mailbox \<Rightarrow> (string \<times> string) list" where
  "getTopLevelOutbound ck limit mb =
     map (\<lambda>r. (sqliteTimestamp ck (or_timestamp r), or_content r))
       (take limit (sort_key (\<lambda>r. case or_sequence r of None \<Rightarrow> 1 | Some n \<Rightarrow> - n) (filter top_level (mb_out mb))))"

end
