(* ===== verification/MailboxRunner.thy ===== *)
theory MailboxRunner
  imports MailboxSqlite
begin

text \<open>
  The container's side of the SQLite mailbox
  (\<open>container/agent-runner/src/mailbox/sqlite/operations.ts\<close>) and what holds of the two sides
  together.  The locale \<open>seq_source\<close> is the contract of a sequence allocator: what it hands out
  is in neither table, is of its own parity, and leaves the invariant.  Both allocators, the
  host's persisted counter and the container's next odd number, are interpretations of it.
\<close>

subsection \<open>Reading inbound messages\<close>

definition take_last :: "nat \<Rightarrow> 'a list \<Rightarrow> 'a list" where
  "take_last n xs = drop (length xs - n) xs"

definition ack_ids :: "mailbox \<Rightarrow> string set" where
  "ack_ids mb = ak_messageId ` set (mb_acks mb)"

definition unclaimed :: "clock \<Rightarrow> bool \<Rightarrow> mailbox \<Rightarrow> inbound_record list" where
  "unclaimed ck isFirstPoll mb =
     filter (\<lambda>r. ir_id r \<notin> ack_ids mb)
       (by_seq (filter (\<lambda>r. ir_status r = MsgPending \<and> due ck (ir_processAfter r) \<and>
                            (\<not> ir_onWake r \<or> isFirstPoll)) (mb_in mb)))"

definition getPendingMessages :: "clock \<Rightarrow> bool \<Rightarrow> nat \<Rightarrow> mailbox \<Rightarrow> inbound_record list" where
  "getPendingMessages ck isFirstPoll limit mb =
     (let free = unclaimed ck isFirstPoll mb;
          wake = take limit (filter ir_trigger free);
          remaining = limit - length wake;
          context = (if remaining > 0 then take_last remaining (filter (\<lambda>r. \<not> ir_trigger r) free) else [])
      in sort_key (\<lambda>r. case ir_sequence r of None \<Rightarrow> 0 | Some n \<Rightarrow> n) (wake @ context))"

definition getMessageIn :: "string \<Rightarrow> mailbox \<Rightarrow> inbound_record option" where
  "getMessageIn i mb = find (\<lambda>r. ir_id r = i) (mb_in mb)"

subsection \<open>Acknowledging\<close>

text \<open>\<open>INSERT OR REPLACE\<close>: the old row of the key goes, the new one is last.\<close>

definition put_ack :: "string \<Rightarrow> processing_status \<Rightarrow> string \<Rightarrow> mailbox \<Rightarrow> mailbox" where
  "put_ack i s t mb =
     mb\<lparr>mb_acks := delete_where (\<lambda>a. ak_messageId a = i) (mb_acks mb) @
                     [\<lparr>ak_messageId = i, ak_status = s, ak_statusChanged = t\<rparr>]\<rparr>"

definition mark :: "clock \<Rightarrow> string list \<Rightarrow> processing_status \<Rightarrow> mailbox \<Rightarrow> mailbox" where
  "mark ck ids s = fold (\<lambda>i. put_ack i s (now_iso ck)) ids"

definition markProcessing :: "clock \<Rightarrow> string list \<Rightarrow> mailbox \<Rightarrow> mailbox" where
  "markProcessing ck ids = mark ck ids AckProcessing"

definition markCompleted :: "clock \<Rightarrow> string list \<Rightarrow> mailbox \<Rightarrow> mailbox" where
  "markCompleted ck ids = mark ck ids AckCompleted"

definition markFailed :: "clock \<Rightarrow> string \<Rightarrow> mailbox \<Rightarrow> mailbox" where
  "markFailed ck i = mark ck [i] AckFailed"

definition markScriptSkipped :: "clock \<Rightarrow> (string \<times> string) list \<Rightarrow> mailbox \<Rightarrow> mailbox" where
  "markScriptSkipped ck skips =
     fold (\<lambda>(i, reason). put_ack i (if reason = ''error'' then AckScriptError else AckCompleted) (now_iso ck)) skips"

subsection \<open>Writing outbound messages\<close>

definition insert_out :: "outbound_record \<Rightarrow> mailbox \<Rightarrow> mailbox res" where
  "insert_out r mb =
     (if \<exists>x \<in> set (mb_out mb). or_id x = or_id r \<or> (or_sequence r \<noteq> None \<and> or_sequence x = or_sequence r)
      then Inl UniqueViolation else Inr (mb\<lparr>mb_out := mb_out mb @ [r]\<rparr>))"

text \<open>The transaction rolls back when the record is malformed or its id is taken.\<close>

definition writeMessageOut :: "clock \<Rightarrow> js \<Rightarrow> mailbox \<Rightarrow> (int \<times> mailbox) res" where
  "writeMessageOut ck message mb =
     (let n = nextOddSeq mb
      in bnd (createOutboundRecord message n (now_iso ck)) (\<lambda>r.
         bnd (insert_out r mb) (\<lambda>mb'. Inr (n, mb'))))"

subsection \<open>Lookups by sequence number\<close>

definition getMessageIdBySeq :: "int \<Rightarrow> mailbox \<Rightarrow> string option" where
  "getMessageIdBySeq n mb =
     (case find (\<lambda>r. ir_sequence r = Some n) (mb_in mb) of
        Some r \<Rightarrow> Some (ir_id r)
      | None \<Rightarrow>
         (case find (\<lambda>r. or_sequence r = Some n) (mb_out mb) of
            None \<Rightarrow> None
          | Some r \<Rightarrow>
             (case find (\<lambda>d. dr_messageOutId d = or_id r) (mb_delivered mb) of
                Some d \<Rightarrow> (case dr_platformMessageId d of
                             Some p \<Rightarrow> if p = [] then Some (or_id r) else Some p
                           | None \<Rightarrow> Some (or_id r))
              | None \<Rightarrow> Some (or_id r))))"

definition getRoutingBySeq :: "int \<Rightarrow> mailbox \<Rightarrow> (string option \<times> string option \<times> string option) option" where
  "getRoutingBySeq n mb =
     (case find (\<lambda>r. ir_sequence r = Some n) (mb_in mb) of
        Some r \<Rightarrow> Some (ir_channelType r, ir_platformId r, ir_threadId r)
      | None \<Rightarrow> map_option (\<lambda>r. (or_channelType r, or_platformId r, or_threadId r))
                  (find (\<lambda>r. or_sequence r = Some n) (mb_out mb)))"

subsection \<open>Session state, routing and destinations\<close>

definition getSessionRouting :: "mailbox \<Rightarrow> session_routing_record" where
  "getSessionRouting mb =
     (case mb_routing mb of Some r \<Rightarrow> r
      | None \<Rightarrow> \<lparr>sr_channelType = None, sr_platformId = None, sr_threadId = None\<rparr>)"

definition getState :: "clock \<Rightarrow> string \<Rightarrow> mailbox \<Rightarrow> (string \<times> string) option res" where
  "getState ck key mb =
     (case find (\<lambda>s. sv_key s = key) (mb_state mb) of
        None \<Rightarrow> Inr None
      | Some row \<Rightarrow>
         bnd (parseStateRecord (state_record_js
                (row\<lparr>sv_key := key, sv_updatedAt := sqliteTimestamp ck (sv_updatedAt row)\<rparr>)))
           (\<lambda>r. Inr (Some (sv_value r, sv_updatedAt r))))"

definition setState :: "clock \<Rightarrow> string \<Rightarrow> string \<Rightarrow> mailbox \<Rightarrow> mailbox" where
  "setState ck key val mb =
     mb\<lparr>mb_state := delete_where (\<lambda>s. sv_key s = key) (mb_state mb) @
                     [\<lparr>sv_key = key, sv_value = val, sv_updatedAt = now_iso ck\<rparr>]\<rparr>"

definition deleteState :: "string \<Rightarrow> mailbox \<Rightarrow> mailbox" where
  "deleteState key mb = mb\<lparr>mb_state := delete_where (\<lambda>s. sv_key s = key) (mb_state mb)\<rparr>"

text \<open>The tool in flight, which the host's sweep reads, and the start of a container.\<close>

definition setContainerToolInFlight :: "clock \<Rightarrow> string \<Rightarrow> js \<Rightarrow> mailbox \<Rightarrow> mailbox" where
  "setContainerToolInFlight ck tool declared mb =
     mb\<lparr>mb_container := Some \<lparr>ct_tool = Some tool, ct_timeout = declared, ct_startedAt = Some (now_iso ck),
                                ct_updatedAt = now_iso ck\<rparr>\<rparr>"

definition clearContainerToolInFlight :: "clock \<Rightarrow> mailbox \<Rightarrow> mailbox" where
  "clearContainerToolInFlight ck mb =
     mb\<lparr>mb_container := Some \<lparr>ct_tool = None, ct_timeout = JNull, ct_startedAt = None, ct_updatedAt = now_iso ck\<rparr>\<rparr>"

definition clearStaleProcessingAcks :: "mailbox \<Rightarrow> mailbox" where
  "clearStaleProcessingAcks mb = mb\<lparr>mb_acks := delete_where (\<lambda>a. ak_status a = AckProcessing) (mb_acks mb)\<rparr>"

text \<open>The hooks of the agent's tools (\<open>providers/claude.ts\<close>); \<open>disallowed\<close> are the tools it blocks.\<close>

definition declared_timeout :: "string \<Rightarrow> js \<Rightarrow> js" where
  "declared_timeout tool timeout =
     (case timeout of JNum _ \<Rightarrow> (if tool = ''Bash'' then timeout else JNull)
      | JOther s \<Rightarrow> (if tool = ''Bash'' then timeout else JNull)
      | _ \<Rightarrow> JNull)"

definition preToolUseHook :: "clock \<Rightarrow> string list \<Rightarrow> string \<Rightarrow> js \<Rightarrow> mailbox \<Rightarrow> bool \<times> mailbox" where
  "preToolUseHook ck disallowed tool timeout mb =
     (if tool \<in> set disallowed then (False, mb)
      else (True, setContainerToolInFlight ck tool (declared_timeout tool timeout) mb))"

definition getAllDestinations :: "mailbox \<Rightarrow> destination_record list" where
  "getAllDestinations mb = sort_key dest_name (mb_dests mb)"

definition findByName :: "string \<Rightarrow> mailbox \<Rightarrow> destination_record option" where
  "findByName name mb = find (\<lambda>d. dest_name d = name) (mb_dests mb)"

definition findByRouting :: "string \<Rightarrow> string \<Rightarrow> mailbox \<Rightarrow> destination_record option" where
  "findByRouting channelType platformId mb =
     find (\<lambda>d. case d of
                 AgentDestination _ _ g \<Rightarrow> channelType = ''agent'' \<and> g = platformId
               | ChannelDestination _ _ ct pid \<Rightarrow> channelType \<noteq> ''agent'' \<and> ct = channelType \<and> pid = platformId)
       (mb_dests mb)"

subsection \<open>Sequence allocation\<close>

definition used_seqs :: "mailbox \<Rightarrow> int option list" where
  "used_seqs mb = in_seqs mb @ out_seqs mb"

text \<open>
  The invariant of the two tables: no number is used twice, host numbers are even, and once the
  host counter exists every even number in use is below it.
\<close>

definition seq_ok :: "mailbox \<Rightarrow> bool" where
  "seq_ok mb \<longleftrightarrow>
     distinct (used_seqs mb) \<and> None \<notin> set (used_seqs mb) \<and>
     (\<forall>n. Some n \<in> set (used_seqs mb) \<longrightarrow> 0 \<le> n) \<and>
     (\<forall>n. Some n \<in> set (in_seqs mb) \<longrightarrow> even n) \<and>
     (\<forall>k. mb_hostSeq mb = Some k \<longrightarrow> even k \<and> 0 \<le> k \<and>
        (\<forall>n. Some n \<in> set (used_seqs mb) \<longrightarrow> even n \<longrightarrow> n < k))"

locale seq_source =
  fixes claim :: "mailbox \<Rightarrow> int \<times> mailbox"
    and own_seq :: "int \<Rightarrow> bool"
  assumes claim_used: "used_seqs (snd (claim mb)) = used_seqs mb"
    and claim_tables: "mb_in (snd (claim mb)) = mb_in mb" "mb_out (snd (claim mb)) = mb_out mb"
    and claim_fresh: "seq_ok mb \<Longrightarrow> Some (fst (claim mb)) \<notin> set (used_seqs mb)"
    and claim_own: "seq_ok mb \<Longrightarrow> own_seq (fst (claim mb)) \<and> 0 \<le> fst (claim mb)"
    and claim_ok: "seq_ok mb \<Longrightarrow> seq_ok (snd (claim mb))"
    and claim_below: "seq_ok mb \<Longrightarrow> even (fst (claim mb)) \<Longrightarrow>
          mb_hostSeq (snd (claim mb)) = Some k \<Longrightarrow> fst (claim mb) < k"
begin

text \<open>A claimed number may be put in the outbound table, and in the inbound table if it is even.\<close>

lemma insert_out_ok:
  assumes "seq_ok mb" "claim mb = (n, mb1)" "or_sequence r = Some n"
  shows "seq_ok (mb1\<lparr>mb_out := mb_out mb1 @ [r]\<rparr>)"
proof -
  have u: "used_seqs mb1 = used_seqs mb" "Some n \<notin> set (used_seqs mb)" "0 \<le> n" "seq_ok mb1"
    using claim_used [of mb] claim_fresh [OF assms(1)] claim_own [OF assms(1)] claim_ok [OF assms(1)] assms(2)
    by simp_all
  have below: "even n \<Longrightarrow> mb_hostSeq mb1 = Some k \<Longrightarrow> n < k" for k
    using claim_below [OF assms(1), of k] assms(2) by simp
  have used: "used_seqs (mb1\<lparr>mb_out := mb_out mb1 @ [r]\<rparr>) = used_seqs mb1 @ [Some n]"
    using assms(3) by (simp add: used_seqs_def in_seqs_def out_seqs_def)
  have ins: "in_seqs (mb1\<lparr>mb_out := mb_out mb1 @ [r]\<rparr>) = in_seqs mb1" by (simp add: in_seqs_def)
  show ?thesis
    using u below unfolding seq_ok_def used ins by (auto simp: u(1))
qed

lemma insert_in_ok:
  assumes "seq_ok mb" "claim mb = (n, mb1)" "ir_sequence r = Some n" "even n"
  shows "seq_ok (mb1\<lparr>mb_in := mb_in mb1 @ [r]\<rparr>)"
proof -
  have u: "used_seqs mb1 = used_seqs mb" "Some n \<notin> set (used_seqs mb)" "0 \<le> n" "seq_ok mb1"
    using claim_used [of mb] claim_fresh [OF assms(1)] claim_own [OF assms(1)] claim_ok [OF assms(1)] assms(2)
    by simp_all
  have below: "mb_hostSeq mb1 = Some k \<Longrightarrow> n < k" for k
    using claim_below [OF assms(1), of k] assms(2,4) by simp
  have used: "set (used_seqs (mb1\<lparr>mb_in := mb_in mb1 @ [r]\<rparr>)) = insert (Some n) (set (used_seqs mb1))"
    using assms(3) by (auto simp: used_seqs_def in_seqs_def out_seqs_def)
  have dis: "distinct (used_seqs (mb1\<lparr>mb_in := mb_in mb1 @ [r]\<rparr>))"
  proof -
    have "distinct (used_seqs mb1)" "Some n \<notin> set (used_seqs mb1)" using u by (simp_all add: seq_ok_def)
    then show ?thesis using assms(3) by (auto simp: used_seqs_def in_seqs_def out_seqs_def)
  qed
  have ins: "set (in_seqs (mb1\<lparr>mb_in := mb_in mb1 @ [r]\<rparr>)) = insert (Some n) (set (in_seqs mb1))"
    using assms(3) by (auto simp: in_seqs_def)
  show ?thesis
    using u below dis assms(4) unfolding seq_ok_def used ins by (auto simp: u(1))
qed

end

lemma max_seq_from: "m0 \<le> fold (\<lambda>x m. case x of None \<Rightarrow> m | Some n \<Rightarrow> max m n) xs (m0 :: int)"
proof (induction xs arbitrary: m0)
  case (Cons x xs)
  show ?case using Cons [of m0] order_trans [OF max.cobounded1 Cons [of "max m0 (the x)"]] by (cases x) auto
qed simp

lemma max_seq_nonneg: "0 \<le> max_seq xs"
  by (simp add: max_seq_def max_seq_from)

lemma max_seq_ge: "Some n \<in> set xs \<Longrightarrow> n \<le> max_seq xs"
proof -
  have "Some n \<in> set xs \<Longrightarrow> n \<le> fold (\<lambda>x m. case x of None \<Rightarrow> m | Some n \<Rightarrow> max m n) xs m0" for m0
  proof (induction xs arbitrary: m0)
    case (Cons x xs)
    then show ?case using max_seq_from [of "max m0 n" xs] by (cases "x = Some n") auto
  qed simp
  then show "Some n \<in> set xs \<Longrightarrow> n \<le> max_seq xs" by (simp add: max_seq_def)
qed

lemma next_even: "0 \<le> m \<Longrightarrow> even (next_even m) \<and> m < next_even m \<and> 2 \<le> next_even m"
  unfolding next_even_def by presburger

definition even_seq :: "int \<Rightarrow> bool" where
  "even_seq n = even n"

definition odd_seq :: "int \<Rightarrow> bool" where
  "odd_seq n = odd n"

lemma used_le: "Some n \<in> set (used_seqs mb) \<Longrightarrow> n \<le> max (max_seq (in_seqs mb)) (max_seq (out_seqs mb))"
  by (auto simp: used_seqs_def intro: max_seq_ge max.coboundedI1 max.coboundedI2)

lemma nextEvenAcross: "even (nextEvenAcross mb) \<and> 2 \<le> nextEvenAcross mb \<and>
    (\<forall>n. Some n \<in> set (used_seqs mb) \<longrightarrow> n < nextEvenAcross mb)"
  using next_even [of "max (max_seq (in_seqs mb)) (max_seq (out_seqs mb))"] max_seq_nonneg
    used_le [of _ mb]
  by (fastforce simp: nextEvenAcross_def max.coboundedI1)

lemma nextOddSeq: "odd (nextOddSeq mb) \<and> 0 \<le> nextOddSeq mb \<and>
    (\<forall>n. Some n \<in> set (used_seqs mb) \<longrightarrow> n < nextOddSeq mb)"
proof -
  let ?m = "max (max_seq (out_seqs mb)) (max_seq (in_seqs mb))"
  have "0 \<le> ?m" using max_seq_nonneg by (simp add: max.coboundedI1)
  then have "odd (nextOddSeq mb) \<and> 0 \<le> nextOddSeq mb \<and> ?m < nextOddSeq mb"
    unfolding nextOddSeq_def Let_def by presburger
  then show ?thesis using used_le [of _ mb] by (fastforce simp: max.commute)
qed

interpretation host_seq: seq_source nextHostSeq even_seq
proof (unfold_locales, goal_cases)
  case (4 mb)
  then show ?case
    using nextEvenAcross [of mb] by (auto simp: nextHostSeq_def Let_def seq_ok_def split: option.split)
next
  case (5 mb)
  then show ?case
    using nextEvenAcross [of mb] by (auto simp: nextHostSeq_def Let_def seq_ok_def even_seq_def split: option.split)
next
  case (6 mb)
  have eq: "used_seqs (mb\<lparr>mb_hostSeq := x\<rparr>) = used_seqs mb" "in_seqs (mb\<lparr>mb_hostSeq := x\<rparr>) = in_seqs mb" for x
    by (simp_all add: used_seqs_def in_seqs_def out_seqs_def)
  have set: "seq_ok (mb\<lparr>mb_hostSeq := Some k\<rparr>)"
    if "even k" "0 \<le> k" "\<And>n. Some n \<in> set (used_seqs mb) \<Longrightarrow> even n \<Longrightarrow> n < k" for k
    using 6 that unfolding seq_ok_def eq by simp
  show ?case
  proof (cases "mb_hostSeq mb")
    case None
    have "seq_ok (mb\<lparr>mb_hostSeq := Some (nextEvenAcross mb + 2)\<rparr>)"
      by (rule set) (use nextEvenAcross [of mb] in \<open>auto simp: add_pos_pos less_imp_le intro: less_trans\<close>)
    then show ?thesis using None by (simp add: nextHostSeq_def Let_def)
  next
    case (Some k)
    then have "even k" "0 \<le> k" "\<And>n. Some n \<in> set (used_seqs mb) \<Longrightarrow> even n \<Longrightarrow> n < k"
      using 6 by (simp_all add: seq_ok_def)
    then have "seq_ok (mb\<lparr>mb_hostSeq := Some (k + 2)\<rparr>)" by (intro set) (auto intro: less_trans [of _ k "k + 2"])
    then show ?thesis using Some by (simp add: nextHostSeq_def Let_def)
  qed
next
  case (7 mb k)
  then show ?case by (auto simp: nextHostSeq_def Let_def split: option.splits)
qed (simp_all add: nextHostSeq_def Let_def used_seqs_def in_seqs_def out_seqs_def split: option.split)

interpretation runner_seq: seq_source "\<lambda>mb. (nextOddSeq mb, mb)" odd_seq
proof (unfold_locales, goal_cases)
  case (4 mb)
  show ?case using nextOddSeq [of mb] by auto
qed (use nextOddSeq in \<open>auto simp: odd_seq_def\<close>)

subsection \<open>Runs of both sides\<close>

datatype mailbox_op =
    HostInsert js
  | HostTask js
  | HostDirect js
  | HostSync
  | HostFail string
  | HostRetry string int
  | HostCancel "string option"
  | HostPause string
  | HostResume string
  | HostDelete string
  | HostClearRecurrence string
  | HostPrune string string nat
  | HostDelivered string "string option"
  | HostDeliveryFailed string
  | HostDropClaims
  | RunnerWrite js
  | RunnerProcessing "string list"
  | RunnerCompleted "string list"
  | RunnerFailed string
  | RunnerSkipped "(string \<times> string) list"
  | RunnerState string string

fun mailbox_step :: "clock \<times> mailbox_op \<Rightarrow> mailbox \<Rightarrow> mailbox" where
  "mailbox_step (ck, HostInsert m) mb = snd (inbound_insertMessage m mb)"
| "mailbox_step (ck, HostTask t) mb = snd (inbound_insertTask ck t mb)"
| "mailbox_step (ck, HostDirect m) mb = snd (writeDirect ck m mb)"
| "mailbox_step (ck, HostSync) mb = syncProcessingAcks mb"
| "mailbox_step (ck, HostFail i) mb = markMessageFailed i mb"
| "mailbox_step (ck, HostRetry i s) mb = retryWithBackoff ck i s mb"
| "mailbox_step (ck, HostCancel t) mb = snd (case t of Some i \<Rightarrow> cancelTask i mb | None \<Rightarrow> cancelAllTasks mb)"
| "mailbox_step (ck, HostPause t) mb = snd (pauseTask t mb)"
| "mailbox_step (ck, HostResume t) mb = snd (resumeTask t mb)"
| "mailbox_step (ck, HostDelete t) mb = snd (deleteTask t mb)"
| "mailbox_step (ck, HostClearRecurrence i) mb = clearRecurrence i mb"
| "mailbox_step (ck, HostPrune c b k) mb = snd (prunePendingMessages ck c b k mb)"
| "mailbox_step (ck, HostDelivered i p) mb = markDelivered ck i p mb"
| "mailbox_step (ck, HostDeliveryFailed i) mb = markDeliveryFailed ck i mb"
| "mailbox_step (ck, HostDropClaims) mb = snd (deleteOrphanProcessingClaims mb)"
| "mailbox_step (ck, RunnerWrite m) mb = (case writeMessageOut ck m mb of Inl _ \<Rightarrow> mb | Inr (_, mb') \<Rightarrow> mb')"
| "mailbox_step (ck, RunnerProcessing ids) mb = markProcessing ck ids mb"
| "mailbox_step (ck, RunnerCompleted ids) mb = markCompleted ck ids mb"
| "mailbox_step (ck, RunnerFailed i) mb = markFailed ck i mb"
| "mailbox_step (ck, RunnerSkipped sk) mb = markScriptSkipped ck sk mb"
| "mailbox_step (ck, RunnerState k v) mb = setState ck k v mb"

lemma seq_ok_mono:
  assumes "seq_ok mb" "distinct (used_seqs mb')" "set (in_seqs mb') \<subseteq> set (in_seqs mb)"
    "out_seqs mb' = out_seqs mb" "mb_hostSeq mb' = mb_hostSeq mb"
  shows "seq_ok mb'"
  using assms unfolding seq_ok_def used_seqs_def by auto

lemma seq_ok_update:
  assumes "seq_ok mb" "\<And>r. ir_sequence (f r) = ir_sequence r"
  shows "seq_ok (on_in (update_where p f) mb)"
proof -
  have "in_seqs (on_in (update_where p f) mb) = in_seqs mb"
    by (simp add: in_seqs_def on_in_def map_update_where assms(2))
  then show ?thesis
    using assms(1) by (simp add: seq_ok_def used_seqs_def out_seqs_def on_in_def)
qed

lemma seq_ok_delete:
  assumes "seq_ok mb"
  shows "seq_ok (on_in (delete_where p) mb)"
proof (rule seq_ok_mono [OF assms])
  have "distinct (used_seqs mb)" using assms by (simp add: seq_ok_def)
  then show "distinct (used_seqs (on_in (delete_where p) mb))"
    by (auto simp: used_seqs_def in_seqs_def out_seqs_def on_in_def delete_where_def distinct_map_filter)
qed (auto simp: in_seqs_def out_seqs_def on_in_def)

lemma seq_ok_tables:
  "seq_ok mb \<Longrightarrow> mb_in mb' = mb_in mb \<Longrightarrow> mb_out mb' = mb_out mb \<Longrightarrow> mb_hostSeq mb' = mb_hostSeq mb \<Longrightarrow> seq_ok mb'"
  by (simp add: seq_ok_def used_seqs_def in_seqs_def out_seqs_def)

lemma created_seq:
  "createInboundRecord m n = Inr r \<Longrightarrow> ir_sequence r = Some n"
  "createTaskInboundRecord m n t = Inr r \<Longrightarrow> ir_sequence r = Some n"
  "createOutboundRecord m n t = Inr q \<Longrightarrow> or_sequence q = Some n"
  "createDirectOutboundRecord m n t = Inr q \<Longrightarrow> or_sequence q = Some n"
  by (auto simp: createInboundRecord_def createTaskInboundRecord_def createOutboundRecord_def
      createDirectOutboundRecord_def bnd_Inr parseInboundRecord_iff parseOutboundRecord_iff null_num_def
      split: option.splits)

lemma keep_claim_cases:
  "P (snd (keep_claim mb r)) \<longleftrightarrow> (case r of Inl _ \<Rightarrow> P mb | Inr mb' \<Rightarrow> P mb')"
  by (simp add: keep_claim_def split: sum.split)

lemma seq_ok_insert_in:
  assumes "seq_ok mb" "nextHostSeq mb = (n, mb1)" "ir_sequence r = Some n" "insert_in r mb1 = Inr mb'"
  shows "seq_ok mb'"
proof -
  have "even n" using host_seq.claim_own [OF assms(1)] assms(2) by (simp add: even_seq_def)
  then show ?thesis
    using host_seq.insert_in_ok [OF assms(1-3)] assms(4) by (auto simp: insert_in_def split: if_splits)
qed

lemma seq_ok_host_insert: "seq_ok mb \<Longrightarrow> seq_ok (snd (inbound_insertMessage m mb))"
  using host_seq.claim_ok [of mb] seq_ok_insert_in [of mb]
  by (auto simp: inbound_insertMessage_def insertMessage_def keep_claim_def bnd_def
      dest: created_seq split: prod.split sum.splits)

lemma seq_ok_host_task: "seq_ok mb \<Longrightarrow> seq_ok (snd (inbound_insertTask ck t mb))"
  using host_seq.claim_ok [of mb] seq_ok_insert_in [of mb]
  by (auto simp: inbound_insertTask_def insertTaskRow_def keep_claim_def bnd_def
      dest: created_seq split: prod.split sum.splits)

lemma seq_ok_direct: "seq_ok mb \<Longrightarrow> seq_ok (snd (writeDirect ck m mb))"
  using host_seq.claim_ok [of mb] host_seq.insert_out_ok [of mb]
  by (auto simp: writeDirect_def keep_claim_def bnd_def created_seq split: prod.split sum.splits)

lemma seq_ok_runner_write:
  "seq_ok mb \<Longrightarrow> writeMessageOut ck m mb = Inr (n, mb') \<Longrightarrow> seq_ok mb'"
  using runner_seq.insert_out_ok [of mb "nextOddSeq mb" mb]
  by (auto simp: writeMessageOut_def Let_def bnd_Inr insert_out_def created_seq split: if_splits)

lemma mark_tables [simp]:
  "mb_in (mark ck ids s mb) = mb_in mb" "mb_out (mark ck ids s mb) = mb_out mb"
  "mb_hostSeq (mark ck ids s mb) = mb_hostSeq mb"
  by (induction ids arbitrary: mb) (simp_all add: mark_def put_ack_def)

lemma markScriptSkipped_tables [simp]:
  "mb_in (markScriptSkipped ck sk mb) = mb_in mb" "mb_out (markScriptSkipped ck sk mb) = mb_out mb"
  "mb_hostSeq (markScriptSkipped ck sk mb) = mb_hostSeq mb"
  by (induction sk arbitrary: mb) (auto simp: markScriptSkipped_def put_ack_def)

lemma apply_ack_seq: "map ir_sequence (fold apply_ack acks rows) = map ir_sequence rows"
  by (induction acks arbitrary: rows) (simp_all add: apply_ack_def map_update_where set_status_def)

lemma seq_ok_step: "seq_ok mb \<Longrightarrow> seq_ok (mailbox_step (ck, op1) mb)"
proof (cases op1)
  case HostSync
  assume "seq_ok mb"
  moreover have "in_seqs (syncProcessingAcks mb) = in_seqs mb"
    by (simp add: syncProcessingAcks_def applyProcessingAcks_def on_in_def in_seqs_def apply_ack_seq)
  ultimately show ?thesis
    using HostSync by (simp add: seq_ok_def used_seqs_def out_seqs_def syncProcessingAcks_def applyProcessingAcks_def on_in_def)
next
  case (HostPrune c b k)
  assume "seq_ok mb"
  have "snd (prunePendingMessages ck c b k mb) = on_in (delete_where p) (on_in (delete_where q) mb) \<Longrightarrow> ?thesis" for p q
    using HostPrune seq_ok_delete [OF seq_ok_delete [OF \<open>seq_ok mb\<close>]] by simp
  then show ?thesis by (simp add: prunePendingMessages_def Let_def on_in_def)
next
  case (RunnerWrite m)
  assume "seq_ok mb"
  then show ?thesis using RunnerWrite seq_ok_runner_write by (auto split: sum.split)
qed (auto simp: seq_ok_host_insert seq_ok_host_task seq_ok_direct markMessageFailed_def retryWithBackoff_def
    cancelTask_def cancelAllTasks_def pauseTask_def resumeTask_def deleteTask_def clearRecurrence_def
    update_count_def set_status_def cancelled_def seq_ok_update seq_ok_delete
    markDelivered_def markDeliveryFailed_def insert_delivered_def deleteOrphanProcessingClaims_def Let_def
    markProcessing_def markCompleted_def markFailed_def setState_def
    split: option.split elim: seq_ok_tables)

lemma seq_ok_run: "seq_ok mb \<Longrightarrow> seq_ok (fold mailbox_step ops mb)"
  by (induction ops arbitrary: mb) (auto simp: seq_ok_step)

lemma find_unique:
  assumes "r \<in> set rows" "distinct (map key rows)" "key r = k"
  shows "find (\<lambda>x. key x = k) rows = Some r"
  using find_key_unique [OF assms(2,1)] assms(3) by simp

lemma getMessageIdBySeq_in:
  assumes "seq_ok mb" "r \<in> set (mb_in mb)" "ir_sequence r = Some n"
  shows "getMessageIdBySeq n mb = Some (ir_id r)"
  using find_unique [where key = ir_sequence, OF assms(2) _ assms(3)] assms(1)
  by (simp add: getMessageIdBySeq_def seq_ok_def used_seqs_def in_seqs_def)

lemma getMessageIdBySeq_out:
  assumes "seq_ok mb" "r \<in> set (mb_out mb)" "or_sequence r = Some n"
  shows "getMessageIdBySeq n mb = Some (or_id r) \<or>
    (\<exists>d \<in> set (mb_delivered mb). dr_messageOutId d = or_id r \<and> getMessageIdBySeq n mb = dr_platformMessageId d)"
proof -
  have d: "distinct (in_seqs mb @ out_seqs mb)" using assms(1) by (simp add: seq_ok_def used_seqs_def)
  then have out: "find (\<lambda>x. or_sequence x = Some n) (mb_out mb) = Some r"
    using find_unique [where key = or_sequence, OF assms(2) _ assms(3)] by (simp add: out_seqs_def)
  have "Some n \<in> set (out_seqs mb)" using assms(2,3) by (force simp: out_seqs_def)
  then have "find (\<lambda>x. ir_sequence x = Some n) (mb_in mb) = None"
    using d by (force simp: find_None_iff in_seqs_def)
  with out show ?thesis
    by (auto simp: getMessageIdBySeq_def split: option.splits dest: find_SomeD)
qed

subsection \<open>Acknowledgements\<close>

definition settled :: "inbound_record \<Rightarrow> bool" where
  "settled r = (ir_status r \<in> {MsgCompleted, MsgFailed})"

definition settle :: "processing_ack_record option \<Rightarrow> inbound_record \<Rightarrow> inbound_record" where
  "settle a r =
     (case a of None \<Rightarrow> r
      | Some k \<Rightarrow> if settled r then r
                  else set_status (if ak_status k = AckScriptError then MsgFailed else MsgCompleted) r)"

lemma settle_simps [simp]:
  "ir_id (settle a r) = ir_id r" "settle None r = r" "settled r \<Longrightarrow> settle a r = r"
  "settled (settle (Some k) r)"
  by (auto simp: settle_def set_status_def settled_def split: option.split)

lemma apply_ack_map:
  "apply_ack a rows = map (\<lambda>r. if ir_id r = ak_messageId a then settle (Some a) r else r) rows"
  by (auto simp: apply_ack_def update_where_def settle_def settled_def)

lemma fold_apply_ack:
  "fold apply_ack acks rows = map (\<lambda>r. settle (find (\<lambda>a. ak_messageId a = ir_id r) acks) r) rows"
  by (induction acks arbitrary: rows) (auto simp: apply_ack_map)

subsection \<open>The pending window\<close>

lemma mark_ack_ids: "ack_ids (mark ck ids s mb) = ack_ids mb \<union> set ids"
proof (induction ids arbitrary: mb)
  case (Cons i ids)
  have "ack_ids (put_ack i s t mb) = insert i (ack_ids mb)" for t
    by (auto simp: ack_ids_def put_ack_def)
  then show ?case using Cons [of "put_ack i s (now_iso ck) mb"] by (auto simp: mark_def)
qed (simp add: mark_def)

lemma length_filter_split: "length (filter P xs) + length (filter (\<lambda>x. \<not> P x) xs) = length xs"
  by (induction xs) auto

lemma set_take_last: "set (take_last n xs) \<subseteq> set xs"
  by (auto simp: take_last_def dest: in_set_dropD)

lemma length_take_last [simp]: "length (take_last n xs) = min n (length xs)"
  by (simp add: take_last_def)

lemma getPendingMessages_set:
  "set (getPendingMessages ck f limit mb) =
     set (take limit (filter ir_trigger (unclaimed ck f mb))) \<union>
     set (take_last (limit - length (filter ir_trigger (unclaimed ck f mb)))
            (filter (\<lambda>r. \<not> ir_trigger r) (unclaimed ck f mb)))"
  by (auto simp: getPendingMessages_def Let_def take_last_def min_def)

lemma getPendingMessages_length:
  "length (getPendingMessages ck f limit mb) = min limit (length (unclaimed ck f mb))"
  using length_filter_split [of ir_trigger "unclaimed ck f mb"]
  by (auto simp: getPendingMessages_def Let_def min_def)

subsection \<open>Properties\<close>

text \<open>
  C25. A sequence number names one message.  Whatever the host and the container do to the mailbox,
  in any order, no number is used twice across the two tables: looking a number up gives the id of
  the inbound message that has it, or, for an outbound message, its own id or the platform id it
  was delivered under.
\<close>
theorem sequence_names_one_message:
  assumes "seq_ok mb"
  shows "let mb' = fold mailbox_step ops mb in
     distinct (used_seqs mb') \<and>
     (\<forall>r \<in> set (mb_in mb'). \<forall>n. ir_sequence r = Some n \<longrightarrow> getMessageIdBySeq n mb' = Some (ir_id r)) \<and>
     (\<forall>r \<in> set (mb_out mb'). \<forall>n. or_sequence r = Some n \<longrightarrow>
        getMessageIdBySeq n mb' = Some (or_id r) \<or>
        (\<exists>d \<in> set (mb_delivered mb'). dr_messageOutId d = or_id r \<and>
           getMessageIdBySeq n mb' = dr_platformMessageId d))"
proof -
  have "seq_ok (fold mailbox_step ops mb)" by (rule seq_ok_run [OF assms])
  then show ?thesis
    using getMessageIdBySeq_in getMessageIdBySeq_out unfolding Let_def by (auto simp: seq_ok_def)
qed

definition empty_mailbox :: mailbox where
  "empty_mailbox = \<lparr>mb_in = [], mb_delivered = [], mb_dests = [], mb_routing = None, mb_hostSeq = None,
     mb_out = [], mb_acks = [], mb_state = [], mb_container = None\<rparr>"

definition demo_clock :: clock where
  "demo_clock = \<lparr>ck_now = 1700000000000,
     ck_datetime = (\<lambda>s. if valid_iso s then Some (iso_ms s div 1000) else None),
     ck_dateParse = (\<lambda>s. if valid_iso s then Some (iso_ms s) else None)\<rparr>"

definition demo_inbound :: "string \<Rightarrow> js" where
  "demo_inbound i = JObj [(''id'', JStr i), (''kind'', JStr ''chat''),
     (''timestamp'', JStr ''2023-11-14T22:13:20.000Z''), (''platformId'', JStr ''C1''),
     (''channelType'', JStr ''slack''), (''threadId'', JNull), (''content'', JStr ''hi''),
     (''processAfter'', JNull), (''recurrence'', JNull)]"

definition demo_outbound :: "string \<Rightarrow> js" where
  "demo_outbound i = JObj [(''id'', JStr i), (''kind'', JStr ''chat''), (''content'', JStr ''ho'')]"

theorem sequence_names_one_message_witness:
  "let mb = fold mailbox_step [(demo_clock, HostInsert (demo_inbound ''a'')), (demo_clock, RunnerWrite (demo_outbound ''b'')),
        (demo_clock, HostInsert (demo_inbound ''c''))] empty_mailbox in
     used_seqs mb = [Some 2, Some 4, Some 3] \<and> distinct (used_seqs mb)"
  (is "let mb = fold mailbox_step ?ops empty_mailbox in _")
proof -
  have "seq_ok empty_mailbox"
    by (simp add: seq_ok_def empty_mailbox_def used_seqs_def in_seqs_def out_seqs_def)
  from sequence_names_one_message [OF this, of ?ops]
  have "distinct (used_seqs (fold mailbox_step ?ops empty_mailbox))" by (simp only: Let_def)
  moreover have "used_seqs (fold mailbox_step ?ops empty_mailbox) = [Some 2, Some 4, Some 3]" by code_simp
  ultimately show ?thesis unfolding Let_def by blast
qed

text \<open>
  C27. An inbound message settles once: synchronising with the container's acknowledgements changes
  no message that is completed or failed, leaves one without a terminal acknowledgement as it is,
  and settles any other as its acknowledgement says, where only a crashed task script counts as a
  failure.  Nothing but the status changes, and synchronising again changes nothing.
\<close>
theorem acks_settle_once:
  "mb_in (syncProcessingAcks mb) =
     map (\<lambda>r. settle (find (\<lambda>a. ak_messageId a = ir_id r) (filter (terminal_ack \<circ> ak_status) (mb_acks mb))) r)
       (mb_in mb) \<and>
   syncProcessingAcks (syncProcessingAcks mb) = syncProcessingAcks mb"
proof
  show in1: "mb_in (syncProcessingAcks mb) =
     map (\<lambda>r. settle (find (\<lambda>a. ak_messageId a = ir_id r) (filter (terminal_ack \<circ> ak_status) (mb_acks mb))) r)
       (mb_in mb)" for mb
    by (simp add: syncProcessingAcks_def applyProcessingAcks_def on_in_def fold_apply_ack)
  have "settle a (settle a r) = settle a r" for a r by (cases a) simp_all
  then have "mb_in (syncProcessingAcks (syncProcessingAcks mb)) = mb_in (syncProcessingAcks mb)"
    unfolding in1 by (simp add: syncProcessingAcks_def applyProcessingAcks_def on_in_def)
  then show "syncProcessingAcks (syncProcessingAcks mb) = syncProcessingAcks mb"
    by (simp add: syncProcessingAcks_def applyProcessingAcks_def on_in_def)
qed

text \<open>
  The container's window is fair and bounded: it returns as many unclaimed due messages as the
  limit allows, in sequence order; messages that wake the agent come first and oldest first, so
  context messages never crowd one out; only what is left of the limit is filled with context, the
  most recent of it.
\<close>
theorem pending_window_fair:
  "let res = getPendingMessages ck f limit mb; free = unclaimed ck f mb;
       wake = filter ir_trigger free; context = filter (\<lambda>r. \<not> ir_trigger r) free
   in length res = min limit (length free) \<and>
      sorted (map (\<lambda>r. case ir_sequence r of None \<Rightarrow> 0 | Some n \<Rightarrow> n) res) \<and>
      set res = set (take limit wake) \<union> set (take_last (limit - length wake) context) \<and>
      (\<forall>r \<in> set free. ir_status r = MsgPending \<and> due ck (ir_processAfter r) \<and> ir_id r \<notin> ack_ids mb \<and>
          (ir_onWake r \<longrightarrow> f))"
  unfolding Let_def getPendingMessages_length getPendingMessages_set
  by (auto simp: getPendingMessages_def Let_def unclaimed_def by_seq_def)

theorem pending_window_fair_witness:
  "let mb = fold mailbox_step [(demo_clock, HostInsert (demo_inbound ''a'')), (demo_clock, HostInsert (demo_inbound ''c''))] empty_mailbox
   in map ir_id (getPendingMessages demo_clock True 1 mb) = [''a''] \<and>
      length (getPendingMessages demo_clock True 1 mb) = min 1 (length (unclaimed demo_clock True mb))"
  (is "let mb = ?mb in _")
proof -
  have "map ir_id (getPendingMessages demo_clock True 1 ?mb) = [''a'']" by code_simp
  moreover have "length (getPendingMessages demo_clock True 1 ?mb) = min 1 (length (unclaimed demo_clock True ?mb))"
    using pending_window_fair [of demo_clock True 1 ?mb] unfolding Let_def by blast
  ultimately show ?thesis unfolding Let_def by blast
qed

text \<open>
  A claimed message is not handed out again: marking messages as processing, completed, failed
  or skipped removes exactly them from what the container can be given.
\<close>
theorem claimed_not_offered:
  "unclaimed ck f (mark ck' ids s mb) = filter (\<lambda>r. ir_id r \<notin> set ids) (unclaimed ck f mb) \<and>
   (\<forall>r \<in> set (getPendingMessages ck f limit (mark ck' ids s mb)). ir_id r \<notin> set ids)"
proof
  show u: "unclaimed ck f (mark ck' ids s mb) = filter (\<lambda>r. ir_id r \<notin> set ids) (unclaimed ck f mb)"
    by (simp add: unclaimed_def mark_ack_ids conj_commute)
  have "set (getPendingMessages ck f limit (mark ck' ids s mb)) \<subseteq> set (unclaimed ck f (mark ck' ids s mb))"
    unfolding getPendingMessages_set using set_take_last by (fastforce dest: in_set_takeD)
  then show "\<forall>r \<in> set (getPendingMessages ck f limit (mark ck' ids s mb)). ir_id r \<notin> set ids"
    unfolding u by auto
qed

theorem claimed_not_offered_witness:
  "let mb = fold mailbox_step [(demo_clock, HostInsert (demo_inbound ''a'')), (demo_clock, HostInsert (demo_inbound ''c''))] empty_mailbox
   in map ir_id (unclaimed demo_clock True mb) = [''a'', ''c''] \<and>
      (\<forall>r \<in> set (getPendingMessages demo_clock True 9 (mark demo_clock [''a''] AckProcessing mb)). ir_id r \<noteq> ''a'')"
  (is "let mb = ?mb in _")
proof -
  have "map ir_id (unclaimed demo_clock True ?mb) = [''a'', ''c'']" by code_simp
  moreover have "\<forall>r \<in> set (getPendingMessages demo_clock True 9 (mark demo_clock [''a''] AckProcessing ?mb)). ir_id r \<noteq> ''a''"
    using claimed_not_offered [of demo_clock True demo_clock "[''a'']" AckProcessing ?mb 9] by simp
  ultimately show ?thesis unfolding Let_def by blast
qed

end
