(* ===== verification/AnchoredDir.thy ===== *)
theory AnchoredDir
  imports NodePath
begin

text \<open>
  Host file operations in directories a container can write (\<open>src/anchored-dir.ts\<close>,
  \<open>src/attachment-safety.ts\<close>).  Files are addressed by inode: \<open>Tree n\<close> is an inode below a
  container's writable mounts, \<open>Host n\<close> any other.  A descriptor is the inode it pins.  Before
  every system call of the host the container acts: \<open>env k\<close> is what it does to the file system
  before the \<open>k\<close>-th call, so it can swap a directory for a symlink between any two of them.
  \<open>container_env\<close> says what a container cannot do: touch an inode outside its mounts, or name
  one in a directory of its own.

  Reaching a descriptor through \<open>/proc/self/fd\<close> is kernel behaviour: an operation on a pinned
  directory and one name looks that name up in that inode.
\<close>

subsection \<open>Safe names\<close>

definition isSafeAttachmentName :: "js \<Rightarrow> bool" where
  "isSafeAttachmentName v =
     (case v of
        JStr name \<Rightarrow>
          name \<noteq> [] \<and> name \<noteq> ''.'' \<and> name \<noteq> ''..'' \<and>
          \<not> (\<exists>c \<in> set name. c = CHR 0x5C \<or> c = CHR ''/'' \<or> c = CHR 0x00) \<and>
          path_basename name = name
      | _ \<Rightarrow> False)"

subsection \<open>The file system and the container\<close>

datatype ino = Host nat | Tree nat

text \<open>\<open>Special\<close> is a FIFO, a socket or a device.\<close>

datatype node = Dir "(string \<times> ino) list" | RegFile string | Symlink string | Special

record fsys =
  fs_node :: "ino \<Rightarrow> node option"
  fs_next :: nat

record world =
  w_fs :: fsys
  w_tick :: nat

type_synonym env = "nat \<Rightarrow> fsys \<Rightarrow> fsys"

type_synonym 'a io = "(world, 'a) sm"

text \<open>A system call: the container acts, then the call reads or changes the file system.\<close>

definition syscall :: "env \<Rightarrow> (fsys \<Rightarrow> 'a res \<times> fsys) \<Rightarrow> 'a io" where
  "syscall env call w =
     (let (r, fs) = call (env (w_tick w) (w_fs w)) in (r, \<lparr>w_fs = fs, w_tick = Suc (w_tick w)\<rparr>))"

definition set_node :: "ino \<Rightarrow> node option \<Rightarrow> fsys \<Rightarrow> fsys" where
  "set_node i n fs = fs\<lparr>fs_node := (fs_node fs)(i := n)\<rparr>"

definition entries_of :: "fsys \<Rightarrow> ino \<Rightarrow> (string \<times> ino) list option" where
  "entries_of fs i = (case fs_node fs i of Some (Dir es) \<Rightarrow> Some es | _ \<Rightarrow> None)"

text \<open>A new inode under the directory \<open>d\<close>, in the mount of \<open>d\<close>.\<close>

definition new_entry :: "ino \<Rightarrow> string \<Rightarrow> node \<Rightarrow> fsys \<Rightarrow> ino res \<times> fsys" where
  "new_entry d name n fs =
     (case entries_of fs d of
        None \<Rightarrow> (Inl (Error ''ENOENT''), fs)
      | Some es \<Rightarrow>
          if map_of es name \<noteq> None then (Inl (Error ''EEXIST''), fs)
          else let i = (case d of Tree _ \<Rightarrow> Tree (fs_next fs) | Host _ \<Rightarrow> Host (fs_next fs))
               in (Inr i, (set_node d (Some (Dir ((name, i) # es))) (set_node i (Some n) fs))
                            \<lparr>fs_next := Suc (fs_next fs)\<rparr>))"

subsection \<open>AnchoredDir\<close>

definition entryPath :: "string \<Rightarrow> string io" where
  "entryPath name =
     (if isSafeAttachmentName (JStr name) then io_return name
      else io_throw (Error (''refusing unsafe entry name '' @ name)))"

definition lookup_node :: "ino \<Rightarrow> string \<Rightarrow> fsys \<Rightarrow> (ino \<times> node) option" where
  "lookup_node d name fs =
     (case entries_of fs d of
        None \<Rightarrow> None
      | Some es \<Rightarrow> (case map_of es name of
                     None \<Rightarrow> None
                   | Some i \<Rightarrow> map_option (\<lambda>n. (i, n)) (fs_node fs i)))"

text \<open>\<open>open(entry, O_RDONLY | O_DIRECTORY | O_NOFOLLOW)\<close>.\<close>

definition sys_open_dir :: "ino \<Rightarrow> string \<Rightarrow> fsys \<Rightarrow> ino option res \<times> fsys" where
  "sys_open_dir d name fs =
     (case lookup_node d name fs of
        None \<Rightarrow> (Inr None, fs)
      | Some (i, Dir _) \<Rightarrow> (Inr (Some i), fs)
      | Some _ \<Rightarrow> (Inl (Error (''refusing '' @ name @ '': not a real directory'')), fs))"

definition sys_mkdir :: "ino \<Rightarrow> string \<Rightarrow> fsys \<Rightarrow> unit res \<times> fsys" where
  "sys_mkdir d name fs =
     (case new_entry d name (Dir []) fs of
        (Inr _, fs') \<Rightarrow> (Inr (), fs')
      | (Inl e, fs') \<Rightarrow> (if e = Error ''EEXIST'' then Inr () else Inl e, fs'))"

definition openDir :: "env \<Rightarrow> ino \<Rightarrow> string \<Rightarrow> bool \<Rightarrow> ino option io" where
  "openDir env d name create =
     io_bind (entryPath name) (\<lambda>name.
     io_bind (if create then syscall env (sys_mkdir d name) else io_return ()) (\<lambda>_.
       syscall env (sys_open_dir d name)))"

fun open_segments :: "env \<Rightarrow> ino \<Rightarrow> string list \<Rightarrow> bool \<Rightarrow> ino option io" where
  "open_segments env d [] create = io_return (Some d)"
| "open_segments env d (seg # rest) create =
     io_bind (openDir env d seg create) (\<lambda>r. case r of
       None \<Rightarrow> io_return None
     | Some d' \<Rightarrow> open_segments env d' rest create)"

text \<open>The root is host-owned: \<open>root\<close> is the directory its path leads to, if it exists.\<close>

definition anchored_open :: "env \<Rightarrow> ino option \<Rightarrow> string list \<Rightarrow> bool \<Rightarrow> ino option io" where
  "anchored_open env root segments create =
     (case root of None \<Rightarrow> io_return None | Some d \<Rightarrow> open_segments env d segments create)"

text \<open>
  \<open>O_NOFOLLOW\<close> refuses a symlink with \<open>ELOOP\<close>; a directory and a special file open for reading
  and are refused by the check on the descriptor.
\<close>

definition sys_open_read :: "ino \<Rightarrow> string \<Rightarrow> fsys \<Rightarrow> ino res \<times> fsys" where
  "sys_open_read d name fs =
     (case lookup_node d name fs of
        None \<Rightarrow> (Inl (Error ''ENOENT''), fs)
      | Some (i, RegFile _) \<Rightarrow> (Inr i, fs)
      | Some (i, Symlink _) \<Rightarrow> (Inl (Error ''ELOOP''), fs)
      | Some _ \<Rightarrow> (Inl (Error (''refusing '' @ name @ '': not a regular file'')), fs))"

definition openReadFd :: "env \<Rightarrow> ino \<Rightarrow> string \<Rightarrow> ino io" where
  "openReadFd env d name = io_bind (entryPath name) (\<lambda>name. syscall env (sys_open_read d name))"

definition openNewFd :: "env \<Rightarrow> ino \<Rightarrow> string \<Rightarrow> ino io" where
  "openNewFd env d name =
     io_bind (entryPath name) (\<lambda>name. syscall env (new_entry d name (RegFile [])))"

text \<open>Reading and writing a descriptor of a regular file, whatever its names are by now.\<close>

definition sys_read :: "ino \<Rightarrow> fsys \<Rightarrow> string res \<times> fsys" where
  "sys_read i fs = (case fs_node fs i of Some (RegFile c) \<Rightarrow> (Inr c, fs) | _ \<Rightarrow> (Inl (Error ''EIO''), fs))"

definition sys_write :: "ino \<Rightarrow> string \<Rightarrow> fsys \<Rightarrow> unit res \<times> fsys" where
  "sys_write i c fs =
     (case fs_node fs i of
        Some (RegFile _) \<Rightarrow> (Inr (), set_node i (Some (RegFile c)) fs) | _ \<Rightarrow> (Inl (Error ''EIO''), fs))"

definition readFile :: "env \<Rightarrow> ino \<Rightarrow> string \<Rightarrow> string io" where
  "readFile env d name = io_bind (openReadFd env d name) (\<lambda>i. syscall env (sys_read i))"

definition writeNewFile :: "env \<Rightarrow> ino \<Rightarrow> string \<Rightarrow> string \<Rightarrow> unit io" where
  "writeNewFile env d name c = io_bind (openNewFd env d name) (\<lambda>i. syscall env (sys_write i c))"

definition sys_open_append :: "ino \<Rightarrow> string \<Rightarrow> fsys \<Rightarrow> ino res \<times> fsys" where
  "sys_open_append d name fs =
     (case lookup_node d name fs of
        None \<Rightarrow> new_entry d name (RegFile []) fs
      | Some (i, RegFile _) \<Rightarrow> (Inr i, fs)
      | Some (i, Symlink _) \<Rightarrow> (Inl (Error ''ELOOP''), fs)
      | Some _ \<Rightarrow> (Inl (Error (''refusing '' @ name @ '': not a regular file'')), fs))"

definition sys_append :: "ino \<Rightarrow> string \<Rightarrow> fsys \<Rightarrow> unit res \<times> fsys" where
  "sys_append i c fs =
     (case fs_node fs i of
        Some (RegFile old) \<Rightarrow> (Inr (), set_node i (Some (RegFile (old @ c))) fs) | _ \<Rightarrow> (Inl (Error ''EIO''), fs))"

definition appendFile :: "env \<Rightarrow> ino \<Rightarrow> string \<Rightarrow> string \<Rightarrow> unit io" where
  "appendFile env d name c =
     io_bind (entryPath name) (\<lambda>name.
     io_bind (syscall env (sys_open_append d name)) (\<lambda>i. syscall env (sys_append i c)))"

definition remove_entry :: "ino \<Rightarrow> string \<Rightarrow> fsys \<Rightarrow> fsys" where
  "remove_entry d name fs =
     (case entries_of fs d of
        None \<Rightarrow> fs | Some es \<Rightarrow> set_node d (Some (Dir (filter (\<lambda>(n, _). n \<noteq> name) es))) fs)"

text \<open>\<open>unlink\<close> removes a file or a symlink itself, \<open>rmdir\<close> an empty directory.\<close>

definition sys_unlink :: "ino \<Rightarrow> string \<Rightarrow> fsys \<Rightarrow> unit res \<times> fsys" where
  "sys_unlink d name fs =
     (case lookup_node d name fs of
        None \<Rightarrow> (Inl (Error ''ENOENT''), fs)
      | Some (_, Dir _) \<Rightarrow> (Inl (Error ''EISDIR''), fs)
      | Some _ \<Rightarrow> (Inr (), remove_entry d name fs))"

definition sys_rmdir :: "ino \<Rightarrow> string \<Rightarrow> fsys \<Rightarrow> unit res \<times> fsys" where
  "sys_rmdir d name fs =
     (case lookup_node d name fs of
        None \<Rightarrow> (Inl (Error ''ENOENT''), fs)
      | Some (_, Dir []) \<Rightarrow> (Inr (), remove_entry d name fs)
      | Some (_, Dir _) \<Rightarrow> (Inl (Error ''ENOTEMPTY''), fs)
      | Some _ \<Rightarrow> (Inl (Error ''ENOTDIR''), fs))"

definition anchored_unlink :: "env \<Rightarrow> ino \<Rightarrow> string \<Rightarrow> unit io" where
  "anchored_unlink env d name = io_bind (entryPath name) (\<lambda>name. syscall env (sys_unlink d name))"

definition anchored_rmdir :: "env \<Rightarrow> ino \<Rightarrow> string \<Rightarrow> unit io" where
  "anchored_rmdir env d name = io_bind (entryPath name) (\<lambda>name. syscall env (sys_rmdir d name))"

definition anchored_entries :: "env \<Rightarrow> ino \<Rightarrow> string list io" where
  "anchored_entries env d =
     syscall env (\<lambda>fs. case entries_of fs d of
                         Some es \<Rightarrow> (Inr (map fst es), fs) | None \<Rightarrow> (Inl (Error ''ENOTDIR''), fs))"

text \<open>\<open>rename(from, to)\<close> inside one directory: \<open>to\<close> is replaced, never followed.\<close>

definition sys_rename :: "ino \<Rightarrow> string \<Rightarrow> string \<Rightarrow> fsys \<Rightarrow> unit res \<times> fsys" where
  "sys_rename d old new fs =
     (case (lookup_node d old fs, lookup_node d new fs) of
        (None, _) \<Rightarrow> (Inl (Error ''ENOENT''), fs)
      | (Some (i, n), Some (j, Dir _)) \<Rightarrow> (Inl (Error ''EISDIR''), fs)
      | (Some (i, n), _) \<Rightarrow>
          (case entries_of fs d of
             None \<Rightarrow> (Inl (Error ''ENOENT''), fs)
           | Some es \<Rightarrow> (Inr (), set_node d
               (Some (Dir ((new, i) # filter (\<lambda>(k, _). k \<noteq> old \<and> k \<noteq> new) es))) fs)))"

text \<open>\<open>tmp\<close> is the temporary name the source derives from the process id and the clock.\<close>

definition replaceFile :: "env \<Rightarrow> string \<Rightarrow> ino \<Rightarrow> string \<Rightarrow> string \<Rightarrow> unit io" where
  "replaceFile env tmp d name c =
     io_bind (openNewFd env d tmp) (\<lambda>i.
       io_catch
         (io_bind (syscall env (sys_write i c)) (\<lambda>_.
          io_bind (entryPath tmp) (\<lambda>tmp.
          io_bind (entryPath name) (\<lambda>name. syscall env (sys_rename d tmp name)))))
         (\<lambda>e. io_bind (io_catch (anchored_unlink env d tmp) (\<lambda>_. io_return ())) (\<lambda>_. io_throw e)))"

definition anchored_lstat :: "env \<Rightarrow> ino \<Rightarrow> string \<Rightarrow> node io" where
  "anchored_lstat env d name =
     io_bind (entryPath name) (\<lambda>name. syscall env (\<lambda>fs. case lookup_node d name fs of
       Some (_, n) \<Rightarrow> (Inr n, fs) | None \<Rightarrow> (Inl (Error ''ENOENT''), fs)))"

definition anchored_readlink :: "env \<Rightarrow> ino \<Rightarrow> string \<Rightarrow> string io" where
  "anchored_readlink env d name =
     io_bind (entryPath name) (\<lambda>name. syscall env (\<lambda>fs. case lookup_node d name fs of
       Some (_, Symlink t) \<Rightarrow> (Inr t, fs)
     | Some _ \<Rightarrow> (Inl (Error ''EINVAL''), fs)
     | None \<Rightarrow> (Inl (Error ''ENOENT''), fs)))"

definition anchored_symlink :: "env \<Rightarrow> ino \<Rightarrow> string \<Rightarrow> string \<Rightarrow> unit io" where
  "anchored_symlink env d target name =
     io_bind (entryPath name) (\<lambda>name.
     io_bind (syscall env (new_entry d name (Symlink target))) (\<lambda>_. io_return ()))"

text \<open>The chunks are copied as one read and one write; the file mode is not modelled.\<close>

definition copyRegularFile :: "env \<Rightarrow> ino \<Rightarrow> string \<Rightarrow> ino \<Rightarrow> string \<Rightarrow> unit io" where
  "copyRegularFile env src srcName dst dstName =
     io_bind (openReadFd env src srcName) (\<lambda>i.
     io_bind (openNewFd env dst dstName) (\<lambda>j.
     io_bind (syscall env (sys_read i)) (\<lambda>c. syscall env (sys_write j c))))"

subsection \<open>What the container can do, and what the host keeps\<close>

text \<open>
  \<open>tree_ok S\<close>: directories below the mounts name only inodes below the mounts, files there hold
  only data of which \<open>S\<close> holds, and inodes not allocated yet are free.  \<open>outside\<close> is what a file
  system has outside the mounts.
\<close>

definition tree_ok :: "(string \<Rightarrow> bool) \<Rightarrow> fsys \<Rightarrow> bool" where
  "tree_ok S fs \<longleftrightarrow>
     (\<forall>n es. fs_node fs (Tree n) = Some (Dir es) \<longrightarrow> (\<forall>(k, i) \<in> set es. \<exists>m. i = Tree m)) \<and>
     (\<forall>n c. fs_node fs (Tree n) = Some (RegFile c) \<longrightarrow> S c) \<and>
     (\<forall>n \<ge> fs_next fs. fs_node fs (Tree n) = None)"

definition outside :: "fsys \<Rightarrow> nat \<Rightarrow> node option" where
  "outside fs n = fs_node fs (Host n)"

definition container_env :: "(string \<Rightarrow> bool) \<Rightarrow> env \<Rightarrow> bool" where
  "container_env S env \<longleftrightarrow>
     (\<forall>k fs. tree_ok S fs \<longrightarrow> tree_ok S (env k fs) \<and> outside (env k fs) = outside fs)"

definition in_tree :: "ino \<Rightarrow> bool" where
  "in_tree i = (\<exists>n. i = Tree n)"

text \<open>
  \<open>confined S P m\<close>: run on a good file system, \<open>m\<close> leaves a good one, changes nothing outside the
  mounts, and what it returns satisfies \<open>P\<close>.
\<close>

definition confined :: "(string \<Rightarrow> bool) \<Rightarrow> ('a \<Rightarrow> bool) \<Rightarrow> 'a io \<Rightarrow> bool" where
  "confined S P m \<longleftrightarrow>
     (\<forall>w. tree_ok S (w_fs w) \<longrightarrow>
        tree_ok S (w_fs (snd (m w))) \<and> outside (w_fs (snd (m w))) = outside (w_fs w) \<and>
        (\<forall>x. fst (m w) = Inr x \<longrightarrow> P x))"

named_theorems confined_rules "operations that stay inside the container's mounts"

lemma confined_return [confined_rules]: "P x \<Longrightarrow> confined S P (io_return x)"
  by (simp add: confined_def io_return_def)

lemma confined_throw [confined_rules]: "confined S P (io_throw e)"
  by (simp add: confined_def io_throw_def)

lemma confined_bind:
  assumes "confined S Q m" "\<And>x. Q x \<Longrightarrow> confined S P (f x)"
  shows "confined S P (io_bind m f)"
  unfolding confined_def
proof (intro allI impI)
  fix w :: world
  assume w: "tree_ok S (w_fs w)"
  obtain r w1 where m: "m w = (r, w1)" by fastforce
  have 1: "tree_ok S (w_fs w1)" "outside (w_fs w1) = outside (w_fs w)" "\<And>x. r = Inr x \<Longrightarrow> Q x"
    using assms(1) w m unfolding confined_def by (metis fst_conv snd_conv)+
  show "tree_ok S (w_fs (snd (io_bind m f w))) \<and> outside (w_fs (snd (io_bind m f w))) = outside (w_fs w) \<and>
        (\<forall>x. fst (io_bind m f w) = Inr x \<longrightarrow> P x)"
  proof (cases r)
    case (Inl e)
    then show ?thesis using m 1 by (simp add: io_bind_def)
  next
    case (Inr x)
    from assms(2) [OF 1(3) [OF Inr], unfolded confined_def, rule_format, OF 1(1)]
    show ?thesis using m Inr 1(2) by (simp add: io_bind_def)
  qed
qed

lemma confined_catch [confined_rules]:
  assumes "confined S P m" "\<And>e. confined S P (h e)"
  shows "confined S P (io_catch m h)"
  unfolding confined_def
proof (intro allI impI)
  fix w :: world
  assume w: "tree_ok S (w_fs w)"
  obtain r w1 where m: "m w = (r, w1)" by fastforce
  have 1: "tree_ok S (w_fs w1)" "outside (w_fs w1) = outside (w_fs w)" "\<And>x. r = Inr x \<Longrightarrow> P x"
    using assms(1) w m unfolding confined_def by (metis fst_conv snd_conv)+
  show "tree_ok S (w_fs (snd (io_catch m h w))) \<and> outside (w_fs (snd (io_catch m h w))) = outside (w_fs w) \<and>
        (\<forall>x. fst (io_catch m h w) = Inr x \<longrightarrow> P x)"
  proof (cases r)
    case (Inl e)
    from assms(2) [of e, unfolded confined_def, rule_format, OF 1(1)]
    show ?thesis using m Inl 1(2) by (simp add: io_catch_def)
  next
    case (Inr x)
    then show ?thesis using m 1 by (simp add: io_catch_def)
  qed
qed

lemma confined_weaken: "confined S P m \<Longrightarrow> (\<And>x. P x \<Longrightarrow> Q x) \<Longrightarrow> confined S Q m"
  unfolding confined_def by blast

text \<open>A system call is confined when its effect on a good file system is.\<close>

lemma confined_syscall:
  assumes "container_env S env"
    and "\<And>fs. tree_ok S fs \<Longrightarrow> tree_ok S (snd (call fs)) \<and> outside (snd (call fs)) = outside fs \<and>
           (\<forall>x. fst (call fs) = Inr x \<longrightarrow> P x)"
  shows "confined S P (syscall env call)"
  unfolding confined_def
proof (intro allI impI)
  fix w :: world
  assume w: "tree_ok S (w_fs w)"
  then have "tree_ok S (env (w_tick w) (w_fs w))" "outside (env (w_tick w) (w_fs w)) = outside (w_fs w)"
    using assms(1) by (simp_all add: container_env_def)
  then show "tree_ok S (w_fs (snd (syscall env call w))) \<and>
      outside (w_fs (snd (syscall env call w))) = outside (w_fs w) \<and>
      (\<forall>x. fst (syscall env call w) = Inr x \<longrightarrow> P x)"
    using assms(2) [of "env (w_tick w) (w_fs w)"] by (cases "call (env (w_tick w) (w_fs w))") (simp add: syscall_def)
qed

lemma outside_set_Tree [simp]: "outside (set_node (Tree n) x fs) = outside fs"
  by (simp add: outside_def set_node_def fun_eq_iff)

lemma outside_next [simp]: "outside (fs\<lparr>fs_next := k\<rparr>) = outside fs"
  by (simp add: outside_def fun_eq_iff)

lemma tree_ok_file:
  "tree_ok S fs \<Longrightarrow> fs_node fs (Tree n) \<noteq> None \<Longrightarrow> S c \<Longrightarrow> tree_ok S (set_node (Tree n) (Some (RegFile c)) fs)"
  unfolding tree_ok_def set_node_def by (auto simp: not_less_eq_eq)

lemma tree_ok_dir:
  "tree_ok S fs \<Longrightarrow> fs_node fs (Tree n) \<noteq> None \<Longrightarrow> \<forall>(k, i) \<in> set es. \<exists>m. i = Tree m \<Longrightarrow>
   tree_ok S (set_node (Tree n) (Some (Dir es)) fs)"
  unfolding tree_ok_def set_node_def by auto

lemma entries_tree:
  "tree_ok S fs \<Longrightarrow> entries_of fs (Tree n) = Some es \<Longrightarrow> fs_node fs (Tree n) = Some (Dir es) \<and>
     (\<forall>(k, i) \<in> set es. \<exists>m. i = Tree m)"
  by (auto simp: entries_of_def tree_ok_def split: option.splits node.splits)

lemma lookup_tree:
  assumes "tree_ok S fs" "lookup_node (Tree n) name fs = Some (i, nd)"
  shows "in_tree i \<and> fs_node fs i = Some nd \<and> (\<forall>c. nd = RegFile c \<longrightarrow> S c)"
proof -
  obtain es where es: "entries_of fs (Tree n) = Some es" "map_of es name = Some i" "fs_node fs i = Some nd"
    using assms(2) by (auto simp: lookup_node_def split: option.splits)
  have "\<exists>m. i = Tree m" using entries_tree [OF assms(1) es(1)] map_of_SomeD [OF es(2)] by auto
  then show ?thesis using es(3) assms(1) by (auto simp: in_tree_def tree_ok_def)
qed

lemma new_entry_tree:
  assumes "tree_ok S fs" "n = Dir [] \<or> (\<exists>t. n = Symlink t) \<or> (\<exists>c. n = RegFile c \<and> S c)"
  shows "tree_ok S (snd (new_entry (Tree d) name n fs))"
    and "outside (snd (new_entry (Tree d) name n fs)) = outside fs"
    and "fst (new_entry (Tree d) name n fs) = Inr i \<Longrightarrow> in_tree i"
proof -
  have free: "fs_node fs (Tree (fs_next fs)) = None" using assms(1) by (simp add: tree_ok_def)
  show "tree_ok S (snd (new_entry (Tree d) name n fs))"
  proof (cases "entries_of fs (Tree d)")
    case None
    then show ?thesis using assms(1) by (simp add: new_entry_def)
  next
    case (Some es)
    note e = entries_tree [OF assms(1) Some]
    have ne: "d \<noteq> fs_next fs" using e free by auto
    show ?thesis
    proof (cases "map_of es name")
      case None
      have "d < fs_next fs" using e assms(1) unfolding tree_ok_def by (metis not_le option.distinct(1))
      then show ?thesis
        using assms Some None e ne
        unfolding tree_ok_def new_entry_def set_node_def
        by (auto simp: Let_def split: if_splits)
    qed (use Some assms(1) in \<open>simp add: new_entry_def\<close>)
  qed
  show "outside (snd (new_entry (Tree d) name n fs)) = outside fs"
    by (simp add: new_entry_def Let_def split: option.split)
  show "fst (new_entry (Tree d) name n fs) = Inr i \<Longrightarrow> in_tree i"
    by (auto simp: new_entry_def Let_def in_tree_def split: option.splits if_splits)
qed

lemma remove_entry_tree:
  "tree_ok S fs \<Longrightarrow> tree_ok S (remove_entry (Tree d) name fs) \<and> outside (remove_entry (Tree d) name fs) = outside fs"
proof (cases "entries_of fs (Tree d)")
  case (Some es)
  assume ok: "tree_ok S fs"
  have "\<forall>(k, i) \<in> set (filter (\<lambda>(n, _). n \<noteq> name) es). \<exists>m. i = Tree m"
    using entries_tree [OF ok Some] by auto
  then show ?thesis
    using tree_ok_dir [OF ok] entries_tree [OF ok Some] Some by (simp add: remove_entry_def)
qed (simp add: remove_entry_def)

subsection \<open>Every operation is confined\<close>

lemma confined_entryPath [confined_rules]: "confined S (\<lambda>_. True) (entryPath name)"
  by (simp add: entryPath_def confined_rules)

lemma confined_new_entry:
  assumes "container_env S env" "n = Dir [] \<or> (\<exists>t. n = Symlink t) \<or> (\<exists>c. n = RegFile c \<and> S c)" "in_tree d"
  shows "confined S in_tree (syscall env (new_entry d name n))"
proof -
  obtain k where d: "d = Tree k" using assms(3) by (auto simp: in_tree_def)
  show ?thesis unfolding d
    by (rule confined_syscall [OF assms(1)]) (use new_entry_tree [OF _ assms(2)] in simp)
qed

lemma confined_openDir [confined_rules]:
  assumes "container_env S env" "in_tree d"
  shows "confined S (\<lambda>r. \<forall>i. r = Some i \<longrightarrow> in_tree i) (openDir env d name create)"
proof -
  obtain k where d: "d = Tree k" using assms(2) by (auto simp: in_tree_def)
  have mk: "confined S (\<lambda>_. True) (syscall env (sys_mkdir d nm))" for nm
    unfolding d
  proof (rule confined_syscall [OF assms(1)])
    fix fs
    assume "tree_ok S fs"
    then show "tree_ok S (snd (sys_mkdir (Tree k) nm fs)) \<and> outside (snd (sys_mkdir (Tree k) nm fs)) = outside fs \<and>
        (\<forall>x. fst (sys_mkdir (Tree k) nm fs) = Inr x \<longrightarrow> True)"
      using new_entry_tree(1,2) [of S fs "Dir []" k nm]
      by (auto simp: sys_mkdir_def split: prod.splits sum.splits)
  qed
  have op: "confined S (\<lambda>r. \<forall>i. r = Some i \<longrightarrow> in_tree i) (syscall env (sys_open_dir d nm))" for nm
    unfolding d
    by (rule confined_syscall [OF assms(1)])
      (auto simp: sys_open_dir_def dest: lookup_tree split: option.splits node.splits)
  have c: "confined S (\<lambda>_. True) (if create then syscall env (sys_mkdir d nm) else io_return ())" for nm
    by (simp add: mk confined_return)
  show ?thesis unfolding openDir_def
    by (rule confined_bind [OF confined_entryPath]) (rule confined_bind [OF c op])
qed

lemma confined_open_segments:
  assumes "container_env S env" "in_tree d"
  shows "confined S (\<lambda>r. \<forall>i. r = Some i \<longrightarrow> in_tree i) (open_segments env d segments create)"
  using assms(2)
proof (induction segments arbitrary: d)
  case Nil
  then show ?case by (simp add: confined_return)
next
  case (Cons seg rest)
  show ?case unfolding open_segments.simps
    by (rule confined_bind [OF confined_openDir [OF assms(1) Cons.prems]])
      (auto intro: Cons.IH confined_return split: option.split)
qed

lemma confined_anchored_open [confined_rules]:
  assumes "container_env S env" "\<And>d. root = Some d \<Longrightarrow> in_tree d"
  shows "confined S (\<lambda>r. \<forall>i. r = Some i \<longrightarrow> in_tree i) (anchored_open env root segments create)"
  using assms by (auto simp: anchored_open_def intro: confined_return confined_open_segments split: option.split)

lemma confined_openReadFd [confined_rules]:
  assumes "container_env S env" "in_tree d"
  shows "confined S in_tree (openReadFd env d name)"
proof -
  obtain k where d: "d = Tree k" using assms(2) by (auto simp: in_tree_def)
  have "confined S in_tree (syscall env (sys_open_read d nm))" for nm
    unfolding d
    by (rule confined_syscall [OF assms(1)])
      (auto simp: sys_open_read_def dest: lookup_tree split: option.splits node.splits)
  then show ?thesis unfolding openReadFd_def by (rule confined_bind [OF confined_entryPath])
qed

lemma confined_openNewFd [confined_rules]:
  assumes "container_env S env" "in_tree d" "S []"
  shows "confined S in_tree (openNewFd env d name)"
  unfolding openNewFd_def
  by (rule confined_bind [OF confined_entryPath]) (use assms in \<open>auto intro: confined_new_entry\<close>)

lemma confined_sys_read [confined_rules]:
  assumes "container_env S env" "in_tree i"
  shows "confined S S (syscall env (sys_read i))"
proof -
  obtain k where i: "i = Tree k" using assms(2) by (auto simp: in_tree_def)
  show ?thesis unfolding i
    by (rule confined_syscall [OF assms(1)])
      (auto simp: sys_read_def tree_ok_def split: option.splits node.splits)
qed

lemma confined_sys_write [confined_rules]:
  assumes "container_env S env" "in_tree i" "S c"
  shows "confined S (\<lambda>_. True) (syscall env (sys_write i c))"
proof -
  obtain k where i: "i = Tree k" using assms(2) by (auto simp: in_tree_def)
  show ?thesis unfolding i
    by (rule confined_syscall [OF assms(1)])
      (auto simp: sys_write_def assms(3) intro: tree_ok_file split: option.splits node.splits)
qed

lemma confined_readFile [confined_rules]:
  "container_env S env \<Longrightarrow> in_tree d \<Longrightarrow> confined S S (readFile env d name)"
  unfolding readFile_def by (rule confined_bind [OF confined_openReadFd]) (auto intro: confined_sys_read)

lemma confined_writeNewFile [confined_rules]:
  "container_env S env \<Longrightarrow> in_tree d \<Longrightarrow> S [] \<Longrightarrow> S c \<Longrightarrow> confined S (\<lambda>_. True) (writeNewFile env d name c)"
  unfolding writeNewFile_def by (rule confined_bind [OF confined_openNewFd]) (auto intro: confined_sys_write)

lemma confined_appendFile [confined_rules]:
  assumes "container_env S env" "in_tree d" "S []" "\<And>old. S old \<Longrightarrow> S (old @ c)"
  shows "confined S (\<lambda>_. True) (appendFile env d name c)"
proof -
  obtain k where d: "d = Tree k" using assms(2) by (auto simp: in_tree_def)
  have op: "confined S in_tree (syscall env (sys_open_append d nm))" for nm
    unfolding d
  proof (rule confined_syscall [OF assms(1)])
    fix fs
    assume ok: "tree_ok S fs"
    then show "tree_ok S (snd (sys_open_append (Tree k) nm fs)) \<and>
        outside (snd (sys_open_append (Tree k) nm fs)) = outside fs \<and>
        (\<forall>x. fst (sys_open_append (Tree k) nm fs) = Inr x \<longrightarrow> in_tree x)"
      using new_entry_tree [OF ok, of "RegFile []" k nm] assms(3)
      by (auto simp: sys_open_append_def dest: lookup_tree split: option.splits node.splits)
  qed
  have ap: "confined S (\<lambda>_. True) (syscall env (sys_append i c))" if i: "in_tree i" for i
  proof -
    obtain m where m: "i = Tree m" using i by (auto simp: in_tree_def)
    show ?thesis unfolding m
      by (rule confined_syscall [OF assms(1)])
        (auto simp: sys_append_def intro!: tree_ok_file assms(4) split: option.splits node.splits, simp add: tree_ok_def)
  qed
  show ?thesis unfolding appendFile_def
    by (rule confined_bind [OF confined_entryPath], rule confined_bind [OF op]) (rule ap)
qed

lemma confined_unlink [confined_rules]:
  assumes "container_env S env" "in_tree d"
  shows "confined S (\<lambda>_. True) (anchored_unlink env d name)"
proof -
  obtain k where d: "d = Tree k" using assms(2) by (auto simp: in_tree_def)
  have "confined S (\<lambda>_. True) (syscall env (sys_unlink d nm))" for nm
    unfolding d
    by (rule confined_syscall [OF assms(1)])
      (auto simp: sys_unlink_def remove_entry_tree split: option.splits node.splits)
  then show ?thesis unfolding anchored_unlink_def by (rule confined_bind [OF confined_entryPath])
qed

lemma confined_rmdir [confined_rules]:
  assumes "container_env S env" "in_tree d"
  shows "confined S (\<lambda>_. True) (anchored_rmdir env d name)"
proof -
  obtain k where d: "d = Tree k" using assms(2) by (auto simp: in_tree_def)
  have "confined S (\<lambda>_. True) (syscall env (sys_rmdir d nm))" for nm
    unfolding d
    by (rule confined_syscall [OF assms(1)])
      (auto simp: sys_rmdir_def remove_entry_tree split: option.splits node.splits list.splits)
  then show ?thesis unfolding anchored_rmdir_def by (rule confined_bind [OF confined_entryPath])
qed

lemma confined_entries [confined_rules]:
  "container_env S env \<Longrightarrow> confined S (\<lambda>_. True) (anchored_entries env d)"
  unfolding anchored_entries_def by (rule confined_syscall) (auto split: option.split)

lemma confined_rename:
  assumes "container_env S env" "in_tree d"
  shows "confined S (\<lambda>_. True) (syscall env (sys_rename d old new))"
proof -
  obtain k where d: "d = Tree k" using assms(2) by (auto simp: in_tree_def)
  show ?thesis unfolding d
  proof (rule confined_syscall [OF assms(1)])
    fix fs
    assume ok: "tree_ok S fs"
    have "tree_ok S (set_node (Tree k) (Some (Dir ((new, i) # filter (\<lambda>(n, _). n \<noteq> old \<and> n \<noteq> new) es))) fs)"
      if "lookup_node (Tree k) old fs = Some (i, nd)" "entries_of fs (Tree k) = Some es" for i nd es
    proof (rule tree_ok_dir [OF ok])
      show "fs_node fs (Tree k) \<noteq> None" using entries_tree [OF ok that(2)] by simp
      show "\<forall>(n, i) \<in> set ((new, i) # filter (\<lambda>(n, _). n \<noteq> old \<and> n \<noteq> new) es). \<exists>m. i = Tree m"
        using entries_tree [OF ok that(2)] lookup_tree [OF ok that(1)] by (auto simp: in_tree_def)
    qed
    then show "tree_ok S (snd (sys_rename (Tree k) old new fs)) \<and>
        outside (snd (sys_rename (Tree k) old new fs)) = outside fs \<and>
        (\<forall>x. fst (sys_rename (Tree k) old new fs) = Inr x \<longrightarrow> True)"
      using ok by (auto simp: sys_rename_def split: option.split node.split)
  qed
qed

lemma confined_replaceFile [confined_rules]:
  assumes "container_env S env" "in_tree d" "S []" "S c"
  shows "confined S (\<lambda>_. True) (replaceFile env tmp d name c)"
  unfolding replaceFile_def
proof (rule confined_bind [OF confined_openNewFd [OF assms(1-3)]], rule confined_catch)
  fix i
  assume "in_tree i"
  then show "confined S (\<lambda>_. True)
      (io_bind (syscall env (sys_write i c)) (\<lambda>_.
       io_bind (entryPath tmp) (\<lambda>tmp.
       io_bind (entryPath name) (\<lambda>name. syscall env (sys_rename d tmp name)))))"
    by (intro confined_bind [OF confined_sys_write [OF assms(1) _ assms(4)]]
        confined_bind [OF confined_entryPath] confined_rename [OF assms(1,2)])
next
  fix e
  show "confined S (\<lambda>_. True)
      (io_bind (io_catch (anchored_unlink env d tmp) (\<lambda>_. io_return ())) (\<lambda>_. io_throw e))"
    by (rule confined_bind [OF confined_catch [OF confined_unlink [OF assms(1,2)]]])
      (simp_all add: confined_return confined_throw)
qed

lemma confined_lstat [confined_rules]:
  "container_env S env \<Longrightarrow> confined S (\<lambda>_. True) (anchored_lstat env d name)"
  unfolding anchored_lstat_def
  by (rule confined_bind [OF confined_entryPath], rule confined_syscall) (auto split: option.split)

lemma confined_readlink [confined_rules]:
  "container_env S env \<Longrightarrow> confined S (\<lambda>_. True) (anchored_readlink env d name)"
  unfolding anchored_readlink_def
  by (rule confined_bind [OF confined_entryPath], rule confined_syscall) (auto split: option.split node.split)

lemma confined_symlink [confined_rules]:
  "container_env S env \<Longrightarrow> in_tree d \<Longrightarrow> confined S (\<lambda>_. True) (anchored_symlink env d target name)"
  unfolding anchored_symlink_def
  by (rule confined_bind [OF confined_entryPath], rule confined_bind [OF confined_new_entry])
    (simp_all add: confined_return)

lemma confined_copyRegularFile [confined_rules]:
  assumes "container_env S env" "in_tree src" "in_tree dst" "S []"
  shows "confined S (\<lambda>_. True) (copyRegularFile env src a dst b)"
  unfolding copyRegularFile_def
  by (rule confined_bind [OF confined_openReadFd [OF assms(1,2)]],
      rule confined_bind [OF confined_openNewFd [OF assms(1,3,4)]],
      rule confined_bind [OF confined_sys_read [OF assms(1)]], assumption,
      rule confined_sys_write [OF assms(1)])

end
