(* ===== verification/Attachments.thy ===== *)
theory Attachments
  imports AnchoredDir
begin

text \<open>
  Attachment files that cross the container boundary: names (\<open>src/attachment-naming.ts\<close>), the
  files of an inbound message written to a session's \<open>inbox\<close>, and the files of an outbound one read
  from its \<open>outbox\<close> and removed after delivery (\<open>src/session-manager.ts\<close>).  \<open>root\<close> is the session
  directory, which is host-owned and exists by then; the clock is \<open>now\<close>, and \<open>b64\<close> is
  \<open>Buffer.from(s, 'base64')\<close>.  \<open>toLowerCase\<close> is modelled on ASCII.
\<close>

subsection \<open>Names\<close>

definition MIME_TO_EXT :: "(string \<times> string) list" where
  "MIME_TO_EXT =
     [(''image/jpeg'', ''jpg''), (''image/png'', ''png''), (''image/webp'', ''webp''), (''image/gif'', ''gif''),
      (''image/heic'', ''heic''), (''audio/ogg'', ''ogg''), (''audio/mpeg'', ''mp3''), (''audio/wav'', ''wav''),
      (''audio/mp4'', ''m4a''), (''video/mp4'', ''mp4''), (''video/webm'', ''webm''), (''video/quicktime'', ''mov''),
      (''application/pdf'', ''pdf''), (''text/plain'', ''txt''), (''application/json'', ''json''),
      (''application/zip'', ''zip'')]"

definition TYPE_TO_EXT :: "(string \<times> string) list" where
  "TYPE_TO_EXT =
     [(''image'', ''jpg''), (''photo'', ''jpg''), (''sticker'', ''webp''), (''voice'', ''ogg''), (''audio'', ''mp3''),
      (''video'', ''mp4''), (''animation'', ''mp4'')]"

text \<open>
  \<open>m[k] ?? ''\<close>, as the text it becomes in the name: a key the object inherits gives the inherited
  value.  Of the names of \<open>Object.prototype\<close> two are lower case.
\<close>

definition ext_of :: "(string \<times> string) list \<Rightarrow> string \<Rightarrow> string" where
  "ext_of m k =
     (case map_of m k of
        Some e \<Rightarrow> e
      | None \<Rightarrow> if k = ''constructor'' then ''function Object() { [native code] }''
                else if k = ''__proto__'' then ''[object Object]'' else [])"

definition extForMime :: "js \<Rightarrow> string" where
  "extForMime mime =
     (case mime of
        JStr m \<Rightarrow> if m = [] then []
                  else ext_of MIME_TO_EXT (map lower_char (js_trim (hd (js_split CHR '';'' m))))
      | _ \<Rightarrow> [])"

definition stamped_name :: "int \<Rightarrow> string" where
  "stamped_name now = ''attachment-'' @ int_str now"

definition deriveAttachmentName :: "int \<Rightarrow> fields \<Rightarrow> string" where
  "deriveAttachmentName now att =
     (case own att ''name'' of
        JStr (c # cs) \<Rightarrow> c # cs
      | _ \<Rightarrow>
         (let ext = extForMime (own att ''mimeType'');
              ext' = (if ext = [] then (case own att ''type'' of
                                          JStr t \<Rightarrow> ext_of TYPE_TO_EXT (map lower_char t) | _ \<Rightarrow> [])
                      else ext)
          in if ext' = [] then stamped_name now else stamped_name now @ ''.'' @ ext'))"

subsection \<open>Inbound: the files of a message\<close>

text \<open>
  The loop over the attachments.  \<open>inbox\<close> is \<open>undefined\<close> until the first attachment with data
  (\<open>None\<close>), then the directory or \<open>null\<close>.  The result is the attachments with those saved
  rewritten, and whether any was.
\<close>

definition open_inbox :: "env \<Rightarrow> ino \<Rightarrow> string \<Rightarrow> ino option option \<Rightarrow> ino option io" where
  "open_inbox env root messageId inbox =
     (case inbox of
        Some d \<Rightarrow> io_return d
      | None \<Rightarrow> io_catch (anchored_open env (Some root) [''inbox'', messageId] True) (\<lambda>_. io_return None))"

definition save_file :: "env \<Rightarrow> ino \<Rightarrow> string \<Rightarrow> string \<Rightarrow> bool io" where
  "save_file env d filename bytes =
     io_catch (io_bind (writeNewFile env d filename bytes) (\<lambda>_. io_return True))
       (\<lambda>e. if e = Error ''EEXIST'' then io_return False else io_throw e)"

definition saved_attachment :: "string \<Rightarrow> string \<Rightarrow> fields \<Rightarrow> js" where
  "saved_attachment messageId filename att =
     JObj (del_prop ''data''
       (set_prop ''localPath'' (JStr (''inbox/'' @ messageId @ ''/'' @ filename))
         (set_prop ''name'' (JStr filename) att)))"

definition att_filename :: "int \<Rightarrow> fields \<Rightarrow> string" where
  "att_filename now att =
     (let raw = deriveAttachmentName now att
      in if isSafeAttachmentName (JStr raw) then raw else stamped_name now)"

fun extract_loop ::
    "env \<Rightarrow> ino \<Rightarrow> string \<Rightarrow> int \<Rightarrow> (string \<Rightarrow> string) \<Rightarrow> ino option option \<Rightarrow> js list \<Rightarrow> (js list \<times> bool) io" where
  "extract_loop env root messageId now b64 inbox [] = io_return ([], False)"
| "extract_loop env root messageId now b64 inbox (att # rest) =
     (case att of
        JNull \<Rightarrow> io_throw TypeError
      | JUndefined \<Rightarrow> io_throw TypeError
      | JObj ps \<Rightarrow>
          (case own ps ''data'' of
             JStr d \<Rightarrow>
               io_bind (open_inbox env root messageId inbox) (\<lambda>opened.
                 case opened of
                   None \<Rightarrow> io_return (att # rest, False)
                 | Some dir \<Rightarrow>
                     io_bind (save_file env dir (att_filename now ps) (b64 d)) (\<lambda>saved.
                     io_bind (extract_loop env root messageId now b64 (Some (Some dir)) rest) (\<lambda>(rest', changed).
                       if saved then io_return (saved_attachment messageId (att_filename now ps) ps # rest', True)
                       else io_return (att # rest', changed))))
           | _ \<Rightarrow> io_bind (extract_loop env root messageId now b64 inbox rest) (\<lambda>(rest', changed).
                   io_return (att # rest', changed)))
      | _ \<Rightarrow> io_bind (extract_loop env root messageId now b64 inbox rest) (\<lambda>(rest', changed).
                   io_return (att # rest', changed)))"

definition extractAttachmentFiles ::
    "env \<Rightarrow> ino \<Rightarrow> string \<Rightarrow> int \<Rightarrow> (string \<Rightarrow> string) \<Rightarrow> jtext \<Rightarrow> jtext io" where
  "extractAttachmentFiles env root messageId now b64 contentStr =
     (case json_parse contentStr of
        Inl _ \<Rightarrow> io_return contentStr
      | Inr parsed \<Rightarrow>
         (case js_get parsed ''attachments'' of
            Inl e \<Rightarrow> io_throw e
          | Inr (JArr attachments) \<Rightarrow>
             (if \<not> isSafeAttachmentName (JStr messageId) then io_return contentStr
              else io_bind (extract_loop env root messageId now b64 None attachments) (\<lambda>(atts, changed).
                case parsed of
                  JObj ps \<Rightarrow> io_return (if changed then Json (JObj (set_prop ''attachments'' (JArr atts) ps)) else contentStr)
                | _ \<Rightarrow> io_return contentStr))
          | Inr _ \<Rightarrow> io_return contentStr))"

subsection \<open>Outbound: the files of a message\<close>

fun read_files :: "env \<Rightarrow> ino \<Rightarrow> js list \<Rightarrow> (string \<times> string) list io" where
  "read_files env d [] = io_return []"
| "read_files env d (f # fs) =
     (case f of
        JStr filename \<Rightarrow>
          (if \<not> isSafeAttachmentName f then read_files env d fs
           else io_bind (io_catch (io_bind (readFile env d filename) (\<lambda>c. io_return [(filename, c)]))
                           (\<lambda>_. io_return []))
                  (\<lambda>one. io_bind (read_files env d fs) (\<lambda>more. io_return (one @ more))))
      | _ \<Rightarrow> read_files env d fs)"

definition readOutboxFiles :: "env \<Rightarrow> ino option \<Rightarrow> string \<Rightarrow> js list \<Rightarrow> (string \<times> string) list option io" where
  "readOutboxFiles env root messageId filenames =
     (if \<not> isSafeAttachmentName (JStr messageId) then io_return None
      else io_bind (io_catch (anchored_open env root [''outbox'', messageId] False) (\<lambda>_. io_return None))
        (\<lambda>outbox. case outbox of
           None \<Rightarrow> io_return None
         | Some d \<Rightarrow> io_bind (read_files env d filenames) (\<lambda>files.
                       io_return (if files = [] then None else Some files))))"

fun unlink_all :: "env \<Rightarrow> ino \<Rightarrow> string list \<Rightarrow> unit io" where
  "unlink_all env d [] = io_return ()"
| "unlink_all env d (e # es) = io_bind (anchored_unlink env d e) (\<lambda>_. unlink_all env d es)"

definition clearOutbox :: "env \<Rightarrow> ino option \<Rightarrow> string \<Rightarrow> unit io" where
  "clearOutbox env root messageId =
     (if \<not> isSafeAttachmentName (JStr messageId) then io_return ()
      else io_catch
        (io_bind (anchored_open env root [''outbox''] False) (\<lambda>outbox. case outbox of
           None \<Rightarrow> io_return ()
         | Some box \<Rightarrow>
             io_bind (openDir env box messageId False) (\<lambda>dir. case dir of
               None \<Rightarrow> io_return ()
             | Some d \<Rightarrow>
                 io_bind (anchored_entries env d) (\<lambda>es.
                 io_bind (unlink_all env d es) (\<lambda>_. anchored_rmdir env box messageId)))))
        (\<lambda>_. io_return ()))"

subsection \<open>Confinement\<close>

lemma confined_open_inbox:
  assumes "container_env S env" "in_tree root" "\<And>d. inbox = Some (Some d) \<Longrightarrow> in_tree d"
  shows "confined S (\<lambda>r. \<forall>i. r = Some i \<longrightarrow> in_tree i) (open_inbox env root m inbox)"
  using assms by (auto simp: open_inbox_def intro!: confined_return confined_catch confined_anchored_open split: option.split)

lemma confined_save_file:
  assumes "container_env S env" "in_tree d" "S []" "S c"
  shows "confined S (\<lambda>_. True) (save_file env d name c)"
  unfolding save_file_def
  by (rule confined_catch, rule confined_bind [OF confined_writeNewFile [OF assms]])
    (simp_all add: confined_return confined_throw)

lemma confined_extract_loop:
  assumes "container_env S env" "in_tree root" "S []" "\<And>d. S (b64 d)"
    "\<And>d. inbox = Some (Some d) \<Longrightarrow> in_tree d"
  shows "confined S (\<lambda>_. True) (extract_loop env root m now b64 inbox atts)"
  using assms(5)
proof (induction atts arbitrary: inbox)
  case Nil
  then show ?case by (simp add: confined_return)
next
  case (Cons att rest)
  have skip: "confined S (\<lambda>_. True) (io_bind (extract_loop env root m now b64 inbox rest)
      (\<lambda>(rest', changed). io_return (att # rest', changed)))"
    by (rule confined_bind [OF Cons.IH [OF Cons.prems]]) (auto intro: confined_return split: prod.split)
  have take: "confined S (\<lambda>_. True) (io_bind (open_inbox env root m inbox) (\<lambda>opened.
      case opened of
        None \<Rightarrow> io_return (att # rest, False)
      | Some dir \<Rightarrow>
          io_bind (save_file env dir f (b64 d)) (\<lambda>saved.
          io_bind (extract_loop env root m now b64 (Some (Some dir)) rest) (\<lambda>(rest', changed).
            if saved then io_return (g # rest', True) else io_return (att # rest', changed)))))" for f g d
  proof (rule confined_bind [OF confined_open_inbox [OF assms(1,2) Cons.prems]], assumption)
    fix r
    assume r: "\<forall>i. r = Some i \<longrightarrow> in_tree i"
    show "confined S (\<lambda>_. True) (case r of
        None \<Rightarrow> io_return (att # rest, False)
      | Some dir \<Rightarrow>
          io_bind (save_file env dir f (b64 d)) (\<lambda>saved.
          io_bind (extract_loop env root m now b64 (Some (Some dir)) rest) (\<lambda>(rest', changed).
            if saved then io_return (g # rest', True) else io_return (att # rest', changed))))"
    proof (cases r)
      case (Some dir)
      then have "in_tree dir" using r by simp
      then show ?thesis
        unfolding Some option.case
        by (intro confined_bind [OF confined_save_file [OF assms(1) _ assms(3,4)]] confined_bind [OF Cons.IH])
          (auto intro: confined_return split: prod.split)
    qed (simp add: confined_return)
  qed
  show ?case
    using skip take by (auto intro: confined_throw split: js.split)
qed

lemma confined_extractAttachmentFiles:
  assumes "container_env S env" "in_tree root" "S []" "\<And>d. S (b64 d)"
  shows "confined S (\<lambda>_. True) (extractAttachmentFiles env root m now b64 c)"
proof -
  have "confined S (\<lambda>_. True) (io_bind (extract_loop env root m now b64 None atts) f)"
    if "\<And>x. confined S (\<lambda>_. True) (f x)" for atts and f :: "js list \<times> bool \<Rightarrow> jtext io"
    by (rule confined_bind [OF confined_extract_loop [OF assms]]) (simp_all add: that)
  note bind = this
  show ?thesis
    by (auto simp: extractAttachmentFiles_def intro!: bind confined_return confined_throw
        split: sum.split js.split prod.split)
qed

lemma confined_read_files:
  assumes "container_env S env" "in_tree d"
  shows "confined S (\<lambda>files. \<forall>(n, c) \<in> set files. S c) (read_files env d fs)"
proof (induction fs)
  case Nil
  then show ?case by (simp add: confined_return)
next
  case (Cons f fs)
  have one: "confined S (\<lambda>files. \<forall>(n, c) \<in> set files. S c)
      (io_catch (io_bind (readFile env d name) (\<lambda>c. io_return [(name, c)])) (\<lambda>_. io_return []))" for name
    by (rule confined_catch, rule confined_bind [OF confined_readFile [OF assms]]) (simp_all add: confined_return)
  have "confined S (\<lambda>files. \<forall>(n, c) \<in> set files. S c)
      (io_bind (io_catch (io_bind (readFile env d name) (\<lambda>c. io_return [(name, c)])) (\<lambda>_. io_return []))
        (\<lambda>one. io_bind (read_files env d fs) (\<lambda>more. io_return (one @ more))))" for name
    by (rule confined_bind [OF one], rule confined_bind [OF Cons.IH]) (auto intro!: confined_return)
  then show ?case using Cons.IH by (simp split: js.split)
qed

lemma confined_readOutboxFiles:
  assumes "container_env S env" "\<And>d. root = Some d \<Longrightarrow> in_tree d"
  shows "confined S (\<lambda>r. \<forall>files. r = Some files \<longrightarrow> (\<forall>(n, c) \<in> set files. S c)) (readOutboxFiles env root m names)"
proof -
  have "confined S (\<lambda>r. \<forall>i. r = Some i \<longrightarrow> in_tree i)
      (io_catch (anchored_open env root [''outbox'', m] False) (\<lambda>_. io_return None))"
    by (rule confined_catch [OF confined_anchored_open [OF assms]]) (simp_all add: confined_return)
  note outb = confined_bind [OF this]
  show ?thesis
    unfolding readOutboxFiles_def
    by (auto intro!: outb confined_return confined_bind [OF confined_read_files [OF assms(1)]]
        split: option.split if_splits) fastforce
qed

lemma confined_unlink_all:
  "container_env S env \<Longrightarrow> in_tree d \<Longrightarrow> confined S (\<lambda>_. True) (unlink_all env d es)"
  by (induction es) (auto intro: confined_return confined_bind [OF confined_unlink])

lemma confined_clearOutbox:
  assumes "container_env S env" "\<And>d. root = Some d \<Longrightarrow> in_tree d"
  shows "confined S (\<lambda>_. True) (clearOutbox env root m)"
proof -
  have inner: "confined S (\<lambda>_. True) (io_bind (openDir env box m False) (\<lambda>dir. case dir of
               None \<Rightarrow> io_return ()
             | Some d \<Rightarrow>
                 io_bind (anchored_entries env d) (\<lambda>es.
                 io_bind (unlink_all env d es) (\<lambda>_. anchored_rmdir env box m))))" if "in_tree box" for box
    by (rule confined_bind [OF confined_openDir [OF assms(1) that]])
      (auto intro!: confined_return confined_bind [OF confined_entries [OF assms(1)]]
        confined_bind [OF confined_unlink_all [OF assms(1)]] confined_rmdir [OF assms(1) that] split: option.split)
  show ?thesis
    unfolding clearOutbox_def
    by (auto intro!: confined_return confined_catch confined_bind [OF confined_anchored_open [OF assms]] inner
        split: option.split)
qed

subsection \<open>Names that are stored are safe\<close>

lemma isSafe_stamped: "isSafeAttachmentName (JStr (stamped_name now))"
proof -
  have d: "c \<in> set (nat_str n) \<Longrightarrow> \<exists>k < 10. c = char_of (48 + k :: nat)" for c n
  proof (induction n rule: nat_str.induct)
    case (1 n)
    show ?case
    proof (cases "n < 10")
      case True
      then show ?thesis using 1(2) by (subst (asm) nat_str.simps) auto
    next
      case False
      have "c \<in> set (nat_str (n div 10)) \<or> c = char_of (48 + n mod 10)"
        using 1(2) False by (subst (asm) nat_str.simps) auto
      moreover have "c = char_of (48 + n mod 10) \<Longrightarrow> ?thesis" by (rule exI [of _ "n mod 10"]) simp
      ultimately show ?thesis using 1(1) [OF False] by blast
    qed
  qed
  have e: "char_of (48 + k :: nat) \<notin> {CHR 0x5C, CHR ''/'', CHR 0x00}" if "k < 10" for k
  proof -
    have "(of_char (char_of (48 + k) :: char) :: nat) = 48 + k" using that by (rule of_char_digit)
    moreover have "(of_char (CHR 0x5C) :: nat) = 92" "(of_char (CHR ''/'') :: nat) = 47" "(of_char (CHR 0x00) :: nat) = 0"
      by simp_all
    ultimately have "(48 + k :: nat) \<noteq> 92" "(48 + k :: nat) \<noteq> 47" "(48 + k :: nat) \<noteq> 0"
      and "char_of (48 + k :: nat) = c \<Longrightarrow> (of_char c :: nat) = 48 + k" for c
      using that by auto
    then show ?thesis
      by (metis \<open>of_char (CHR 0x5C) = 92\<close> \<open>of_char (CHR ''/'') = 47\<close> \<open>of_char (CHR 0x00) = 0\<close>
          empty_iff insert_iff)
  qed
  have "c \<in> set (int_str now) \<Longrightarrow> c \<notin> {CHR 0x5C, CHR ''/'', CHR 0x00}" for c
    using d e by (fastforce simp: int_str_def split: if_splits)
  then have s: "\<forall>c \<in> set (stamped_name now). c \<notin> {CHR 0x5C, CHR ''/'', CHR 0x00}"
    by (auto simp: stamped_name_def)
  then have "js_split CHR ''/'' (stamped_name now) = [stamped_name now]" by (intro js_split_word) blast
  then have "path_basename (stamped_name now) = stamped_name now"
    by (simp add: path_basename_def stamped_name_def)
  then show ?thesis using s by (auto simp: isSafeAttachmentName_def stamped_name_def)
qed

lemma att_filename_safe: "isSafeAttachmentName (JStr (att_filename now att))"
  using isSafe_stamped by (simp add: att_filename_def Let_def)

definition saved_or_same :: "string \<Rightarrow> js \<Rightarrow> js \<Rightarrow> bool" where
  "saved_or_same m att att' \<longleftrightarrow>
     att' = att \<or> (\<exists>ps name. att = JObj ps \<and> isSafeAttachmentName (JStr name) \<and>
                         att' = saved_attachment m name ps)"

lemma saved_or_same_intros:
  "saved_or_same m att att"
  "isSafeAttachmentName (JStr name) \<Longrightarrow> saved_or_same m (JObj ps) (saved_attachment m name ps)"
  by (auto simp: saved_or_same_def)

lemma extract_loop_atts:
  "fst (extract_loop env root m now b64 inbox atts w) = Inr (atts', changed) \<Longrightarrow>
   list_all2 (saved_or_same m) atts atts' \<and> (\<not> changed \<longrightarrow> atts' = atts)"
proof (induction atts arbitrary: inbox w atts' changed)
  case (Cons att rest)
  have same: "list_all2 (saved_or_same m) xs xs" for xs by (simp add: list_all2_same saved_or_same_def)
  have skip: "fst (io_bind (extract_loop env root m now b64 inbox rest)
      (\<lambda>(rest', ch). io_return (att # rest', ch)) w) = Inr (atts', changed) \<Longrightarrow> ?case"
    using Cons.IH [of inbox w] by (auto simp: io_bind_def io_return_def saved_or_same_def split: prod.splits sum.splits)
  have take: ?case
    if j: "att = JObj ps" and t: "fst (io_bind (open_inbox env root m inbox) (\<lambda>opened.
      case opened of
        None \<Rightarrow> io_return (att # rest, False)
      | Some dir \<Rightarrow>
          io_bind (save_file env dir (att_filename now ps) (b64 d)) (\<lambda>saved.
          io_bind (extract_loop env root m now b64 (Some (Some dir)) rest) (\<lambda>(rest', ch).
            if saved then io_return (saved_attachment m (att_filename now ps) ps # rest', True)
            else io_return (att # rest', ch)))) w) = Inr (atts', changed)" for ps d
  proof -
    obtain r1 w1 where r1: "open_inbox env root m inbox w = (r1, w1)" by fastforce
    obtain opened where o1: "r1 = Inr opened" using t r1 by (cases r1) (simp_all add: io_bind_def)
    show ?thesis
    proof (cases opened)
      case None
      then show ?thesis using t r1 o1 same by (simp add: io_bind_def io_return_def)
    next
      case (Some dir)
      obtain r2 w2 where r2: "save_file env dir (att_filename now ps) (b64 d) w1 = (r2, w2)" by fastforce
      obtain saved where s1: "r2 = Inr saved" using t r1 r2 o1 Some by (cases r2) (simp_all add: io_bind_def)
      obtain r3 w3 where r3: "extract_loop env root m now b64 (Some (Some dir)) rest w2 = (r3, w3)" by fastforce
      obtain rest' ch where l1: "r3 = Inr (rest', ch)"
        using t r1 r2 r3 o1 s1 Some by (cases r3) (auto simp: io_bind_def)
      have "list_all2 (saved_or_same m) rest rest' \<and> (\<not> ch \<longrightarrow> rest' = rest)"
        using Cons.IH [of "Some (Some dir)" w2 rest' ch] r3 l1 by simp
      then show ?thesis
        using j t r1 r2 r3 o1 s1 l1 Some att_filename_safe
        by (cases saved) (auto simp: io_bind_def io_return_def saved_or_same_intros)
    qed
  qed
  show ?case
  proof (cases att)
    case (JObj ps)
    show ?thesis
    proof (cases "own ps ''data''")
      case (JStr d)
      show ?thesis
        by (rule take [OF JObj, of d]) (use Cons.prems JStr in \<open>simp only: JObj extract_loop.simps js.case\<close>)
    qed (use skip Cons.prems JObj in simp_all)
  qed (use skip Cons.prems in \<open>simp_all add: io_throw_def\<close>)
qed (simp add: io_return_def)

subsection \<open>A container that swaps its directories\<close>

text \<open>
  A container that waits until the host has made the entry \<open>name\<close> of the session directory and then puts a
  symlink to a directory of the host in its place, before every call but the first.
\<close>

definition swap_for_link :: "string \<Rightarrow> env" where
  "swap_for_link name k fs =
     (if k = 0 then fs
      else snd (new_entry (Tree 0) name (Symlink ''/etc'') (remove_entry (Tree 0) name fs)))"

lemma swap_for_link_env: "container_env S (swap_for_link name)"
  using remove_entry_tree new_entry_tree [of S _ "Symlink ''/etc''"]
  by (auto simp: container_env_def swap_for_link_def)

definition demo_fs :: fsys where
  "demo_fs = \<lparr>fs_node = (\<lambda>_. None)(Tree 0 := Some (Dir []), Host 0 := Some (RegFile ''host'')), fs_next = 1\<rparr>"

lemma demo_fs_ok: "tree_ok S demo_fs"
  by (auto simp: tree_ok_def demo_fs_def)

subsection \<open>Properties\<close>

text \<open>
  C29. Saving the attachments of an inbound message touches nothing outside the container's mounts, whatever
  the message holds and whatever the container does to its directories between any two system calls; and
  every attachment that is rewritten gets a name that is a single safe path segment.
\<close>
theorem inbound_attachments_confined:
  assumes "container_env (\<lambda>_. True) env" "in_tree root" "tree_ok (\<lambda>_. True) (w_fs w)"
  shows "outside (w_fs (snd (extractAttachmentFiles env root m now b64 c w))) = outside (w_fs w) \<and>
         (fst (extract_loop env root m now b64 None atts w) = Inr (atts', changed) \<longrightarrow>
          list_all2 (saved_or_same m) atts atts')"
  using confined_extractAttachmentFiles [of "\<lambda>_. True" env root b64 m now c, OF assms(1,2)] extract_loop_atts assms(3)
  by (auto simp: confined_def)

definition demo_content :: jtext where
  "demo_content = Json (JObj [(''attachments'', JArr [JObj [(''name'', JStr ''../x''), (''data'', JStr ''aGk='')]])])"

text \<open>The attacking container gets its link refused, a quiet one gets the file under a safe name.\<close>

lemma inbound_attachments_confined_witness:
  "outside (w_fs (snd (extractAttachmentFiles (swap_for_link ''inbox'') (Tree 0) ''m'' 7 id demo_content
      \<lparr>w_fs = demo_fs, w_tick = 0\<rparr>))) 0 = Some (RegFile ''host'')
   \<and> fst (extractAttachmentFiles (swap_for_link ''inbox'') (Tree 0) ''m'' 7 id demo_content
      \<lparr>w_fs = demo_fs, w_tick = 0\<rparr>) = Inr demo_content
   \<and> fst (extractAttachmentFiles (\<lambda>_ fs. fs) (Tree 0) ''m'' 7 id demo_content \<lparr>w_fs = demo_fs, w_tick = 0\<rparr>)
      = Inr (Json (JObj [(''attachments'', JArr [JObj
          [(''name'', JStr ''attachment-7''), (''localPath'', JStr ''inbox/m/attachment-7'')]])]))"
proof (intro conjI)
  show "outside (w_fs (snd (extractAttachmentFiles (swap_for_link ''inbox'') (Tree 0) ''m'' 7 id demo_content
      \<lparr>w_fs = demo_fs, w_tick = 0\<rparr>))) 0 = Some (RegFile ''host'')"
    by (subst inbound_attachments_confined [OF swap_for_link_env, THEN conjunct1])
      (simp_all add: in_tree_def demo_fs_ok, simp add: outside_def demo_fs_def)
qed code_simp+

text \<open>
  What the host sends to a chat as the files of an outbound message is data the container could hold:
  if every file below the mounts satisfies \<open>S\<close> and the container can only write such data, so does
  every file read, nothing outside changes, and clearing the outbox changes nothing outside either.
\<close>
theorem outbox_discloses_only_container_data:
  assumes "container_env S env" "in_tree root" "tree_ok S (w_fs w)"
  shows "(fst (readOutboxFiles env (Some root) m names w) = Inr (Some files) \<longrightarrow> (\<forall>(n, c) \<in> set files. S c)) \<and>
         outside (w_fs (snd (readOutboxFiles env (Some root) m names w))) = outside (w_fs w) \<and>
         outside (w_fs (snd (clearOutbox env (Some root) m w))) = outside (w_fs w)"
  using confined_readOutboxFiles [OF assms(1), of "Some root" m names]
    confined_clearOutbox [OF assms(1), of "Some root" m] assms(2,3)
  by (auto simp: confined_def)

definition demo_outbox :: fsys where
  "demo_outbox = \<lparr>fs_node = (\<lambda>_. None)(Tree 0 := Some (Dir [(''outbox'', Tree 1)]), Tree 1 := Some (Dir [(''m'', Tree 2)]),
     Tree 2 := Some (Dir [(''f'', Tree 3), (''l'', Tree 4)]), Tree 3 := Some (RegFile ''data''),
     Tree 4 := Some (Symlink ''/etc/passwd''), Host 0 := Some (RegFile ''host'')), fs_next = 5\<rparr>"

lemma outbox_discloses_only_container_data_witness:
  "fst (readOutboxFiles (\<lambda>_ fs. fs) (Some (Tree 0)) ''m'' [JStr ''f'', JStr ''l'', JStr ''../m'', JNull]
      \<lparr>w_fs = demo_outbox, w_tick = 0\<rparr>) = Inr (Some [(''f'', ''data'')])
   \<and> list_all (\<lambda>(n, c). c \<noteq> ''host'') [(''f'', ''data'')]
   \<and> outside (w_fs (snd (clearOutbox (swap_for_link ''outbox'') (Some (Tree 0)) ''m''
      \<lparr>w_fs = demo_fs, w_tick = 0\<rparr>))) 0 = Some (RegFile ''host'')"
proof (intro conjI)
  show read: "fst (readOutboxFiles (\<lambda>_ fs. fs) (Some (Tree 0)) ''m'' [JStr ''f'', JStr ''l'', JStr ''../m'', JNull]
      \<lparr>w_fs = demo_outbox, w_tick = 0\<rparr>) = Inr (Some [(''f'', ''data'')])"
    by code_simp
  have ok: "tree_ok (\<lambda>c. c \<noteq> ''host'') demo_outbox"
    by (auto simp: tree_ok_def demo_outbox_def split: if_splits)
  have quiet: "container_env S (\<lambda>_ fs. fs)" for S by (simp add: container_env_def)
  show "list_all (\<lambda>(n, c). c \<noteq> ''host'') [(''f'', ''data'')]"
    unfolding list_all_iff by (rule outbox_discloses_only_container_data [OF quiet, THEN conjunct1, THEN mp, OF _ _ read]) (simp_all add: in_tree_def ok)
  show "outside (w_fs (snd (clearOutbox (swap_for_link ''outbox'') (Some (Tree 0)) ''m''
      \<lparr>w_fs = demo_fs, w_tick = 0\<rparr>))) 0 = Some (RegFile ''host'')"
    by (subst outbox_discloses_only_container_data [OF swap_for_link_env [of "\<lambda>_. True"], THEN conjunct2, THEN conjunct2])
      (simp_all add: in_tree_def demo_fs_ok, simp add: outside_def demo_fs_def)
qed

end
