(* ===== verification/JsonText.thy ===== *)
theory JsonText
  imports IsoTime
begin

text \<open>
  The texts of values: what \<open>JSON.stringify\<close> prints for a value, and the text of a \<open>jtext\<close> or a
  \<open>stamp\<close> when it is stored in a column.  Strings are bytes; text outside ASCII is printed as it is.
\<close>

definition hex_digit :: "nat \<Rightarrow> char" where
  "hex_digit n = ''0123456789abcdef'' ! n"

definition json_char :: "char \<Rightarrow> string" where
  "json_char c =
     (if c = CHR 0x22 then [CHR 0x5C, CHR 0x22]
      else if c = CHR 0x5C then [CHR 0x5C, CHR 0x5C]
      else if c = CHR 0x08 then [CHR 0x5C, CHR ''b'']
      else if c = CHR 0x0C then [CHR 0x5C, CHR ''f'']
      else if c = CHR 0x0A then [CHR 0x5C, CHR ''n'']
      else if c = CHR 0x0D then [CHR 0x5C, CHR ''r'']
      else if c = CHR 0x09 then [CHR 0x5C, CHR ''t'']
      else let n = (of_char c :: nat)
           in if n < 32 then [CHR 0x5C, CHR ''u'', CHR ''0'', CHR ''0'', hex_digit (n div 16), hex_digit (n mod 16)]
              else [c])"

definition json_quote :: "string \<Rightarrow> string" where
  "json_quote s = [CHR 0x22] @ concat (map json_char s) @ [CHR 0x22]"

text \<open>An \<open>undefined\<close> property is left out, an \<open>undefined\<close> element is \<open>null\<close>, and so is \<open>NaN\<close>.\<close>

fun json_text :: "js \<Rightarrow> string" where
  "json_text JUndefined = ''null''"
| "json_text JNull = ''null''"
| "json_text (JBool b) = (if b then ''true'' else ''false'')"
| "json_text (JNum n) = int_str n"
| "json_text (JOther s) = (if s \<in> {''NaN'', ''Infinity'', ''-Infinity''} then ''null'' else s)"
| "json_text (JStr s) = json_quote s"
| "json_text (JArr xs) = ''['' @ js_join '','' (map json_text xs) @ '']''"
| "json_text (JObj ps) =
     ''{'' @ js_join '',''
       (concat (map (\<lambda>(k, v). if v = JUndefined then [] else [json_quote k @ '':'' @ json_text v]) ps)) @ ''}''"

fun jtext_text :: "jtext \<Rightarrow> string" where
  "jtext_text (Raw s) = s"
| "jtext_text (Json v) = json_text v"

fun stamp_text :: "stamp \<Rightarrow> string" where
  "stamp_text (Iso t) = toISOString t"
| "stamp_text (Loose t s) = s"
| "stamp_text (NotDate s) = s"

end
