(* ===== verification/Sessions.thy ===== *)
theory Sessions
  imports MailboxRunner Attachments JsonText MessagingGroups Permissions
begin

text \<open>
  Sessions: the \<open>sessions\<close> table (\<open>src/db/sessions.ts\<close>), finding or creating the session of a
  conversation or of a task series under the creation locks, and the messages the host writes to a
  session's mailbox (\<open>src/session-manager.ts\<close>).  The state is the table, the mailboxes of the
  sessions by their key, and the file system the attachments go to.  A fresh token is what
  \<open>Date.now()\<close> and \<open>Math.random()\<close> make of the part of an id after its prefix; the \<open>n\<close>-th drawn is
  \<open>ss_token n\<close>, and nothing says that they differ.
\<close>

subsection \<open>The table\<close>

definition TASKS_SYSTEM_THREAD_ID :: string where
  "TASKS_SYSTEM_THREAD_ID = ''system:tasks''"

definition createSession :: "session_row \<Rightarrow> session_row list \<Rightarrow> session_row list res" where
  "createSession s rows =
     (if \<exists>r \<in> set rows. s_id r = s_id s then Inl UniqueViolation else Inr (rows @ [s]))"

text \<open>A thread that is null or empty is looked up as \<open>NULL\<close>.\<close>

definition lookup_thread :: "string option \<Rightarrow> string option" where
  "lookup_thread t = (if t = Some [] then None else t)"

definition findSession :: "string \<Rightarrow> string option \<Rightarrow> session_row list \<Rightarrow> session_row option" where
  "findSession mg thread rows =
     find (\<lambda>r. s_messaging_group_id r = Some mg \<and> s_thread_id r = lookup_thread thread \<and> s_status r = Active) rows"

definition findSessionForAgent ::
    "string \<Rightarrow> string \<Rightarrow> string option \<Rightarrow> session_row list \<Rightarrow> session_row option" where
  "findSessionForAgent ag mg thread rows =
     find (\<lambda>r. s_agent_group_id r = ag \<and> s_messaging_group_id r = Some mg \<and>
               s_thread_id r = lookup_thread thread \<and> s_status r = Active) rows"

text \<open>\<open>LIKE 'system:%'\<close> ignores the case of ASCII letters.\<close>

definition like_prefix :: "string \<Rightarrow> string \<Rightarrow> bool" where
  "like_prefix p s = prefix p (map lower_char s)"

definition is_system_row :: "session_row \<Rightarrow> bool" where
  "is_system_row r \<longleftrightarrow>
     s_messaging_group_id r = None \<and> (case s_thread_id r of None \<Rightarrow> False | Some t \<Rightarrow> like_prefix ''system:'' t)"

definition newest_first :: "session_row list \<Rightarrow> session_row list" where
  "newest_first rows = sort_key (\<lambda>r. - stamp_ord (s_created_at r)) rows"

definition findSessionByAgentGroup :: "string \<Rightarrow> session_row list \<Rightarrow> session_row option" where
  "findSessionByAgentGroup ag rows =
     (case newest_first (filter (\<lambda>r. s_agent_group_id r = ag \<and> s_status r = Active \<and> \<not> is_system_row r) rows) of
        r # _ \<Rightarrow> Some r | [] \<Rightarrow> None)"

definition getSessionsByAgentGroup :: "string \<Rightarrow> session_row list \<Rightarrow> session_row list" where
  "getSessionsByAgentGroup ag rows = filter (\<lambda>r. s_agent_group_id r = ag) rows"

definition findSystemSession :: "string \<Rightarrow> string \<Rightarrow> session_row list \<Rightarrow> session_row option" where
  "findSystemSession ag thread rows =
     (case newest_first (filter (\<lambda>r. s_agent_group_id r = ag \<and> s_messaging_group_id r = None \<and>
                                     s_thread_id r = Some thread \<and> s_status r = Active) rows) of
        r # _ \<Rightarrow> Some r | [] \<Rightarrow> None)"

definition taskThreadId :: "string \<Rightarrow> string" where
  "taskThreadId seriesId = TASKS_SYSTEM_THREAD_ID @ '':'' @ seriesId"

definition isTaskThread :: "string option \<Rightarrow> bool" where
  "isTaskThread thread =
     (case thread of None \<Rightarrow> False
      | Some t \<Rightarrow> t = TASKS_SYSTEM_THREAD_ID \<or> prefix (TASKS_SYSTEM_THREAD_ID @ '':'') t)"

definition findTaskSessions :: "string \<Rightarrow> bool \<Rightarrow> session_row list \<Rightarrow> session_row list" where
  "findTaskSessions ag includeClosed rows =
     newest_first (filter (\<lambda>r. s_agent_group_id r = ag \<and> s_messaging_group_id r = None \<and>
         (includeClosed \<or> s_status r = Active) \<and>
         (case s_thread_id r of None \<Rightarrow> False
          | Some t \<Rightarrow> t = TASKS_SYSTEM_THREAD_ID \<or> like_prefix (TASKS_SYSTEM_THREAD_ID @ '':'') t)) rows)"

definition getActiveSessions :: "session_row list \<Rightarrow> session_row list" where
  "getActiveSessions rows = filter (\<lambda>r. s_status r = Active) rows"

definition getRunningSessions :: "session_row list \<Rightarrow> session_row list" where
  "getRunningSessions rows = filter (\<lambda>r. s_container_status r \<in> {Running, Idle}) rows"

text \<open>The columns that an update sets.\<close>

record session_update =
  su_status :: "session_status option"
  su_container_status :: "container_status option"
  su_last_active :: "stamp option option"
  su_agent_provider :: "string option option"

definition no_update :: session_update where
  "no_update = \<lparr>su_status = None, su_container_status = None, su_last_active = None, su_agent_provider = None\<rparr>"

definition set_opt :: "'a option \<Rightarrow> 'a \<Rightarrow> 'a" where
  "set_opt new old = (case new of Some x \<Rightarrow> x | None \<Rightarrow> old)"

definition updateSession :: "string \<Rightarrow> session_update \<Rightarrow> session_row list \<Rightarrow> session_row list" where
  "updateSession i u rows =
     update_where (\<lambda>r. s_id r = i)
       (\<lambda>r. r\<lparr>s_status := set_opt (su_status u) (s_status r),
              s_container_status := set_opt (su_container_status u) (s_container_status r),
              s_last_active := set_opt (su_last_active u) (s_last_active r),
              s_agent_provider := set_opt (su_agent_provider u) (s_agent_provider r)\<rparr>) rows"

definition deleteSession :: "string \<Rightarrow> session_row list \<Rightarrow> session_row list" where
  "deleteSession i = delete_where (\<lambda>r. s_id r = i)"

subsection \<open>The session of a conversation\<close>

text \<open>The two halves of \<open>resolveSession\<close>: what happens before and after the row is inserted.\<close>

definition sessionCreationKey :: "string \<Rightarrow> string option \<Rightarrow> string option \<Rightarrow> session_mode \<Rightarrow> string" where
  "sessionCreationKey ag mg thread mode =
     (let z = [CHR 0x00]
      in if mode = AgentShared then ''agent'' @ z @ ag
         else ''route'' @ z @ ag @ z @ (case mg of Some m \<Rightarrow> m | None \<Rightarrow> []) @ z @
              (if mode = Shared then [] else case thread of Some t \<Rightarrow> t | None \<Rightarrow> []))"

definition resolve_lookup ::
    "string \<Rightarrow> string option \<Rightarrow> string option \<Rightarrow> session_mode \<Rightarrow> session_row list \<Rightarrow> session_row option" where
  "resolve_lookup ag mg thread mode rows =
     (if mode = AgentShared then findSessionByAgentGroup ag rows
      else case mg of
             None \<Rightarrow> None
           | Some m \<Rightarrow> if m = [] then None
                       else findSessionForAgent ag m (if mode = Shared then None else thread) rows)"

definition new_session ::
    "string \<Rightarrow> stamp \<Rightarrow> string \<Rightarrow> string option \<Rightarrow> string option \<Rightarrow> session_row" where
  "new_session i now ag mg thread =
     \<lparr>s_id = i, s_agent_group_id = ag, s_messaging_group_id = mg, s_thread_id = thread,
      s_agent_provider = None, s_status = Active, s_container_status = Stopped,
      s_last_active = None, s_created_at = now\<rparr>"

definition resolve_insert ::
    "string \<Rightarrow> stamp \<Rightarrow> string \<Rightarrow> string option \<Rightarrow> string option \<Rightarrow> session_mode \<Rightarrow> session_row list
       \<Rightarrow> (session_row \<times> bool \<times> session_row list) res" where
  "resolve_insert i now ag mg thread mode rows =
     (let lookupThread = (if mode = PerThread then thread else None);
          session = new_session i now ag mg lookupThread
      in case createSession session rows of
           Inr rows' \<Rightarrow> Inr (session, True, rows')
         | Inl e \<Rightarrow>
            (if e \<noteq> UniqueViolation then Inl e
             else case (if mode = AgentShared then findSessionByAgentGroup ag rows
                        else case mg of None \<Rightarrow> None
                             | Some m \<Rightarrow> if m = [] then None else findSessionForAgent ag m lookupThread rows) of
                    None \<Rightarrow> Inl e
                  | Some existing \<Rightarrow> Inr (existing, False, rows)))"

definition task_insert ::
    "string \<Rightarrow> stamp \<Rightarrow> string \<Rightarrow> string \<Rightarrow> session_row list \<Rightarrow> (session_row \<times> bool \<times> session_row list) res" where
  "task_insert i now ag thread rows =
     (let session = new_session i now ag None (Some thread)
      in case createSession session rows of
           Inr rows' \<Rightarrow> Inr (session, True, rows')
         | Inl e \<Rightarrow>
            (if e \<noteq> UniqueViolation then Inl e
             else case findSystemSession ag thread rows of
                    None \<Rightarrow> Inl e | Some raced \<Rightarrow> Inr (raced, False, rows)))"

subsection \<open>State and environment\<close>

record sess_db =
  ss_sessions :: "session_row list"
  ss_mail :: "string \<times> string \<Rightarrow> mailbox option"
  ss_world :: world
  ss_token :: "nat \<Rightarrow> string"
  ss_drawn :: nat

text \<open>
  The clock, what the containers do to the file system, the inode of a session's directory,
  \<open>Buffer.from(s, 'base64')\<close>, and \<open>JSON.parse\<close> on text read back from a mailbox.
\<close>

record sess_env =
  se_clock :: clock
  se_container :: env
  se_dir :: "string \<Rightarrow> string \<Rightarrow> ino"
  se_b64 :: "string \<Rightarrow> string"
  se_parse :: "string \<Rightarrow> js res"

definition se_now :: "sess_env \<Rightarrow> stamp" where
  "se_now E = Iso (ck_now (se_clock E))"

definition draw :: "('z sess_db_scheme, string) sm" where
  "draw s = (Inr (ss_token s (ss_drawn s)), s\<lparr>ss_drawn := Suc (ss_drawn s)\<rparr>)"

definition set_mail :: "string \<Rightarrow> string \<Rightarrow> mailbox \<Rightarrow> 'z sess_db_scheme \<Rightarrow> 'z sess_db_scheme" where
  "set_mail ag sid mb s = s\<lparr>ss_mail := (ss_mail s)((ag, sid) := Some mb)\<rparr>"

definition mailbox_of :: "string \<Rightarrow> string \<Rightarrow> 'z sess_db_scheme \<Rightarrow> mailbox" where
  "mailbox_of ag sid s = (case ss_mail s (ag, sid) of Some mb \<Rightarrow> mb | None \<Rightarrow> empty_mailbox)"

definition initSessionFolder :: "string \<Rightarrow> string \<Rightarrow> ('z sess_db_scheme, unit) sm" where
  "initSessionFolder ag sid = io_modify (\<lambda>s. set_mail ag sid (mailbox_of ag sid s) s)"

definition on_sessions :: "(session_row list \<Rightarrow> session_row list) \<Rightarrow> ('z sess_db_scheme, unit) sm" where
  "on_sessions f = io_modify (\<lambda>s. s\<lparr>ss_sessions := f (ss_sessions s)\<rparr>)"

definition adopt ::
    "string \<Rightarrow> (session_row \<times> bool \<times> session_row list) res \<Rightarrow> ('z sess_db_scheme, session_row \<times> bool) sm" where
  "adopt ag r =
     (case r of
        Inl e \<Rightarrow> io_throw e
      | Inr (session, created, rows) \<Rightarrow>
          io_bind (on_sessions (\<lambda>_. rows)) (\<lambda>_.
          io_bind (if created then initSessionFolder ag (s_id session) else io_return ()) (\<lambda>_.
            io_return (session, created))))"

definition resolveSession ::
    "sess_env \<Rightarrow> string \<Rightarrow> string option \<Rightarrow> string option \<Rightarrow> session_mode
       \<Rightarrow> ('z sess_db_scheme, session_row \<times> bool) sm" where
  "resolveSession E ag mg thread mode =
     io_bind (io_get ss_sessions) (\<lambda>rows.
       case resolve_lookup ag mg thread mode rows of
         Some existing \<Rightarrow> io_return (existing, False)
       | None \<Rightarrow> io_bind draw (\<lambda>tok.
                   adopt ag (resolve_insert (''sess-'' @ tok) (se_now E) ag mg thread mode rows)))"

definition resolveTaskSession ::
    "sess_env \<Rightarrow> string \<Rightarrow> string \<Rightarrow> ('z sess_db_scheme, session_row \<times> bool) sm" where
  "resolveTaskSession E ag seriesId =
     io_bind (io_get ss_sessions) (\<lambda>rows.
       case findSystemSession ag (taskThreadId seriesId) rows of
         Some existing \<Rightarrow> io_return (existing, False)
       | None \<Rightarrow> io_bind draw (\<lambda>tok.
                   adopt ag (task_insert (''sess-'' @ tok) (se_now E) ag (taskThreadId seriesId) rows)))"

definition destroySessionMailbox :: "string \<Rightarrow> string \<Rightarrow> ('z sess_db_scheme, unit) sm" where
  "destroySessionMailbox ag sid = io_modify (\<lambda>s. s\<lparr>ss_mail := (ss_mail s)((ag, sid) := None)\<rparr>)"

definition markContainerRunning :: "sess_env \<Rightarrow> string \<Rightarrow> ('z sess_db_scheme, unit) sm" where
  "markContainerRunning E sid = on_sessions (updateSession sid
     (no_update\<lparr>su_container_status := Some Running, su_last_active := Some (Some (se_now E))\<rparr>))"

definition markContainerIdle :: "string \<Rightarrow> ('z sess_db_scheme, unit) sm" where
  "markContainerIdle sid = on_sessions (updateSession sid (no_update\<lparr>su_container_status := Some Idle\<rparr>))"

definition markContainerStopped :: "string \<Rightarrow> ('z sess_db_scheme, unit) sm" where
  "markContainerStopped sid = on_sessions (updateSession sid (no_update\<lparr>su_container_status := Some Stopped\<rparr>))"

subsection \<open>Messages to and from a mailbox\<close>

text \<open>An action on a mailbox gives a result or throws, and the mailbox it leaves.\<close>

definition withExistingMailboxSession ::
    "string \<Rightarrow> string \<Rightarrow> (mailbox, 'a) sm \<Rightarrow> ('z sess_db_scheme, 'a option) sm" where
  "withExistingMailboxSession ag sid action s =
     (case ss_mail s (ag, sid) of
        None \<Rightarrow> (Inr None, s)
      | Some mb \<Rightarrow> (case action mb of
                      (Inr x, mb') \<Rightarrow> (Inr (Some x), set_mail ag sid mb' s)
                    | (Inl e, mb') \<Rightarrow> (Inl e, set_mail ag sid mb' s)))"

definition withMailboxSession ::
    "string \<Rightarrow> string \<Rightarrow> (mailbox, 'a) sm \<Rightarrow> ('z sess_db_scheme, 'a) sm" where
  "withMailboxSession ag sid action s =
     (let (r, mb) = action (mailbox_of ag sid s) in (r, set_mail ag sid mb s))"

text \<open>A mailbox operation that returns the error it throws, if any, as an action.\<close>

definition throwing :: "(mailbox \<Rightarrow> exn option \<times> mailbox) \<Rightarrow> (mailbox, unit) sm" where
  "throwing act mb = (case act mb of (None, mb') \<Rightarrow> (Inr (), mb') | (Some e, mb') \<Rightarrow> (Inl e, mb'))"

definition on_world :: "'a io \<Rightarrow> ('z sess_db_scheme, 'a) sm" where
  "on_world m s = (let (r, w) = m (ss_world s) in (r, s\<lparr>ss_world := w\<rparr>))"

text \<open>The argument of \<open>writeSessionMessage\<close>, with the defaults of what the caller leaves out.\<close>

record to_session =
  ts_id :: string
  ts_kind :: string
  ts_timestamp :: string
  ts_platformId :: "string option"
  ts_channelType :: "string option"
  ts_threadId :: "string option"
  ts_content :: jtext
  ts_processAfter :: "string option"
  ts_recurrence :: "string option"
  ts_trigger :: bool
  ts_sourceSessionId :: "string option"
  ts_onWake :: bool

definition to_session_js :: "to_session \<Rightarrow> js" where
  "to_session_js m = JObj [
     (''id'', JStr (ts_id m)), (''kind'', JStr (ts_kind m)), (''timestamp'', JStr (ts_timestamp m)),
     (''platformId'', null_str (ts_platformId m)), (''channelType'', null_str (ts_channelType m)),
     (''threadId'', null_str (ts_threadId m)), (''content'', JStr (jtext_text (ts_content m))),
     (''processAfter'', null_str (ts_processAfter m)), (''recurrence'', null_str (ts_recurrence m)),
     (''trigger'', JBool (ts_trigger m)), (''sourceSessionId'', null_str (ts_sourceSessionId m)),
     (''onWake'', JBool (ts_onWake m))]"

definition writeSessionMessage ::
    "sess_env \<Rightarrow> string \<Rightarrow> string \<Rightarrow> to_session \<Rightarrow> ('z sess_db_scheme, unit) sm" where
  "writeSessionMessage E ag sid m =
     io_bind (initSessionFolder ag sid) (\<lambda>_.
     io_bind (on_world (extractAttachmentFiles (se_container E) (se_dir E ag sid) (ts_id m)
                (ck_now (se_clock E)) (se_b64 E) (ts_content m))) (\<lambda>content.
     io_bind (withMailboxSession ag sid (throwing (inbound_insertMessage (to_session_js (m\<lparr>ts_content := content\<rparr>))))) (\<lambda>_.
       on_sessions (updateSession sid (no_update\<lparr>su_last_active := Some (Some (se_now E))\<rparr>)))))"

record to_outbound =
  to_id :: string
  to_kind :: string
  to_platformId :: "string option"
  to_channelType :: "string option"
  to_threadId :: "string option"
  to_content :: js

definition to_outbound_js :: "to_outbound \<Rightarrow> js" where
  "to_outbound_js m = JObj [
     (''id'', JStr (to_id m)), (''kind'', JStr (to_kind m)), (''platformId'', null_str (to_platformId m)),
     (''channelType'', null_str (to_channelType m)), (''threadId'', null_str (to_threadId m)),
     (''content'', JStr (json_text (to_content m)))]"

definition writeOutboundDirect ::
    "sess_env \<Rightarrow> string \<Rightarrow> string \<Rightarrow> to_outbound \<Rightarrow> ('z sess_db_scheme, unit) sm" where
  "writeOutboundDirect E ag sid m =
     withMailboxSession ag sid (throwing (writeDirect (se_clock E) (to_outbound_js m)))"

definition writeSessionRouting :: "chat_db \<Rightarrow> string \<Rightarrow> string \<Rightarrow> ('z sess_db_scheme, unit) sm" where
  "writeSessionRouting chats ag sid =
     io_bind (io_get (\<lambda>s. getSession sid (ss_sessions s))) (\<lambda>session. case session of
       None \<Rightarrow> io_return ()
     | Some r \<Rightarrow>
        (let mg = (case s_messaging_group_id r of
                     None \<Rightarrow> None | Some m \<Rightarrow> if m = [] then None else getMessagingGroup m chats)
         in withMailboxSession ag sid (\<lambda>mb.
              case setRouting (JObj [(''channelType'', null_str (map_option mg_channel_type mg)),
                                     (''platformId'', null_str (map_option mg_platform_id mg)),
                                     (''threadId'', null_str (s_thread_id r))]) mb of
                Inl e \<Rightarrow> (Inl e, mb) | Inr mb' \<Rightarrow> (Inr (), mb'))))"

text \<open>What a message written to a mailbox becomes, and that a write that throws adds none.\<close>

definition stored_as :: "to_session \<Rightarrow> inbound_record \<Rightarrow> bool" where
  "stored_as m x \<longleftrightarrow>
     ir_id x = ts_id m \<and> inbound_kind_str (ir_kind x) = ts_kind m \<and> ir_timestamp x = ts_timestamp m \<and>
     ir_platformId x = ts_platformId m \<and> ir_channelType x = ts_channelType m \<and> ir_threadId x = ts_threadId m \<and>
     ir_content x = jtext_text (ts_content m) \<and> ir_trigger x = ts_trigger m \<and>
     ir_sourceSessionId x = ts_sourceSessionId m \<and> ir_onWake x = ts_onWake m \<and> ir_status x = MsgPending"

declare null_str_inject [simp] null_str_defined [simp]

lemma created_as:
  assumes "createInboundRecord (to_session_js m) n = Inr x"
  shows "stored_as m x"
proof -
  obtain w where w: "parseInboundWrite (to_session_js m) = Inr w" using assms by (auto simp: createInboundRecord_def bnd_Inr)
  then have f: "iw_id w = ts_id m" "inbound_kind_str (iw_kind w) = ts_kind m" "iw_timestamp w = ts_timestamp m"
      "iw_platformId w = ts_platformId m" "iw_channelType w = ts_channelType m" "iw_threadId w = ts_threadId m"
      "iw_content w = jtext_text (ts_content m)" "iw_trigger w = Some (ts_trigger m)"
      "iw_sourceSessionId w = Some (ts_sourceSessionId m)" "iw_onWake w = Some (ts_onWake m)"
    by (auto simp: parseInboundWrite_def to_session_js_def parse_iffs optionalBoolean_def optionalNullableText_def
        has_key_def)
  moreover have "''pending'' = inbound_status_str y \<Longrightarrow> y = MsgPending" for y by (cases y) simp_all
  ultimately show ?thesis
    using assms by (auto simp: createInboundRecord_def bnd_Inr w parseInboundRecord_iff fields_in_def stored_as_def or_else_def)
qed

lemma insert_to_session:
  assumes "throwing (inbound_insertMessage (to_session_js m)) mb = (r, mb')"
  shows "r = Inr () \<Longrightarrow> \<exists>x. mb_in mb' = mb_in mb @ [x] \<and> stored_as m x"
    and "r = Inl e \<Longrightarrow> mb_in mb' = mb_in mb"
    and "mb_out mb' = mb_out mb"
  using assms created_as [of m]
  by (auto simp: throwing_def inbound_insertMessage_def nextHostSeq_def keep_claim_def insertMessage_def bnd_def
      insert_in_def Let_def split: option.splits sum.splits if_splits)

subsection \<open>The agent of a session\<close>

lemma findSessionByAgentGroup_agent: "findSessionByAgentGroup ag rows = Some r \<Longrightarrow> s_agent_group_id r = ag"
proof -
  assume f: "findSessionByAgentGroup ag rows = Some r"
  then have "r \<in> set (newest_first (filter (\<lambda>r. s_agent_group_id r = ag \<and> s_status r = Active \<and> \<not> is_system_row r) rows))"
    unfolding findSessionByAgentGroup_def by (auto split: list.splits)
  then show ?thesis by (auto simp: newest_first_def)
qed

lemma findSessionForAgent_agent: "findSessionForAgent ag m t rows = Some r \<Longrightarrow> s_agent_group_id r = ag"
  by (auto simp: findSessionForAgent_def dest: find_SomeD)

lemma resolve_agent:
  assumes "resolveSession E ag mg thread mode s = (Inr (r, c), s')"
  shows "s_agent_group_id r = ag"
  using assms findSessionByAgentGroup_agent findSessionForAgent_agent
  by (auto simp: resolveSession_def resolve_lookup_def resolve_insert_def adopt_def io_bind_def io_return_def
      io_throw_def draw_def Let_def new_session_def
      split: if_splits option.splits sum.splits prod.splits)

subsection \<open>Concurrent resolution\<close>

text \<open>
  Several calls of \<open>resolveSession\<close> run at once, and each awaits its lookup and its insert.  A call
  holds its creation key from before its lookup until it has inserted or found a row
  (\<open>withSessionCreationLock\<close>); a step is what happens between two awaits.  Beside the calls the
  host creates task sessions, updates sessions (it closes them and never activates one again) and
  deletes them.  \<open>shared ag m\<close> says that the wiring of chat \<open>m\<close> to agent \<open>ag\<close> is agent-shared.
\<close>

record resolve_call =
  rc_ag :: string
  rc_mg :: "string option"
  rc_thread :: "string option"
  rc_mode :: session_mode

datatype stage = Looking | Inserting

record lock_state =
  lk_rows :: "session_row list"
  lk_running :: "(resolve_call \<times> stage) list"

definition call_key :: "resolve_call \<Rightarrow> string" where
  "call_key c = sessionCreationKey (rc_ag c) (rc_mg c) (rc_thread c) (rc_mode c)"

definition call_ok :: "(string \<Rightarrow> string \<Rightarrow> bool) \<Rightarrow> resolve_call \<Rightarrow> bool" where
  "call_ok shared c =
     (case rc_mg c of None \<Rightarrow> rc_mode c = AgentShared
      | Some m \<Rightarrow> (rc_mode c = AgentShared) = shared (rc_ag c) m)"

definition leave :: "resolve_call \<times> stage \<Rightarrow> (resolve_call \<times> stage) list \<Rightarrow> (resolve_call \<times> stage) list" where
  "leave x running = filter (\<lambda>y. y \<noteq> x) running"

inductive resolve_step :: "(string \<Rightarrow> string \<Rightarrow> bool) \<Rightarrow> lock_state \<Rightarrow> lock_state \<Rightarrow> bool" for shared where
  begin_call: "call_ok shared c \<Longrightarrow> call_key c \<notin> call_key ` fst ` set (lk_running st) \<Longrightarrow>
     resolve_step shared st (st\<lparr>lk_running := (c, Looking) # lk_running st\<rparr>)"
| found: "(c, Looking) \<in> set (lk_running st) \<Longrightarrow>
     resolve_lookup (rc_ag c) (rc_mg c) (rc_thread c) (rc_mode c) (lk_rows st) = Some r \<Longrightarrow>
     resolve_step shared st (st\<lparr>lk_running := leave (c, Looking) (lk_running st)\<rparr>)"
| missing: "(c, Looking) \<in> set (lk_running st) \<Longrightarrow>
     resolve_lookup (rc_ag c) (rc_mg c) (rc_thread c) (rc_mode c) (lk_rows st) = None \<Longrightarrow>
     resolve_step shared st (st\<lparr>lk_running := (c, Inserting) # leave (c, Looking) (lk_running st)\<rparr>)"
| inserted: "(c, Inserting) \<in> set (lk_running st) \<Longrightarrow>
     resolve_insert i now (rc_ag c) (rc_mg c) (rc_thread c) (rc_mode c) (lk_rows st) = Inr (r, created, rows) \<Longrightarrow>
     resolve_step shared st (st\<lparr>lk_rows := rows, lk_running := leave (c, Inserting) (lk_running st)\<rparr>)"
| insert_threw: "(c, Inserting) \<in> set (lk_running st) \<Longrightarrow>
     resolve_insert i now (rc_ag c) (rc_mg c) (rc_thread c) (rc_mode c) (lk_rows st) = Inl e \<Longrightarrow>
     resolve_step shared st (st\<lparr>lk_running := leave (c, Inserting) (lk_running st)\<rparr>)"
| task_created: "task_insert i now ag (taskThreadId series) (lk_rows st) = Inr (r, created, rows) \<Longrightarrow>
     resolve_step shared st (st\<lparr>lk_rows := rows\<rparr>)"
| updated: "su_status u \<noteq> Some Active \<Longrightarrow>
     resolve_step shared st (st\<lparr>lk_rows := updateSession i u (lk_rows st)\<rparr>)"
| deleted: "resolve_step shared st (st\<lparr>lk_rows := deleteSession i (lk_rows st)\<rparr>)"

definition on_route :: "string \<Rightarrow> string \<Rightarrow> string option \<Rightarrow> session_row \<Rightarrow> bool" where
  "on_route ag m t r \<longleftrightarrow> s_agent_group_id r = ag \<and> s_messaging_group_id r = Some m \<and> s_thread_id r = t \<and>
     s_status r = Active"

definition of_agent :: "string \<Rightarrow> session_row \<Rightarrow> bool" where
  "of_agent ag r \<longleftrightarrow> s_agent_group_id r = ag \<and> s_status r = Active \<and> \<not> is_system_row r"

text \<open>The thread of the row a call looks for and creates.\<close>

definition call_thread :: "resolve_call \<Rightarrow> string option" where
  "call_thread c = (if rc_mode c = PerThread then rc_thread c else None)"

text \<open>
  \<open>unique_rows\<close>: at most one active row for a conversation, and for an agent whose wirings are all
  agent-shared at most one active row that is no task's.
\<close>

definition unique_rows :: "(string \<Rightarrow> string \<Rightarrow> bool) \<Rightarrow> session_row list \<Rightarrow> bool" where
  "unique_rows shared rows \<longleftrightarrow>
     (\<forall>ag m t. \<not> shared ag m \<and> m \<noteq> [] \<and> t \<noteq> Some [] \<longrightarrow> length (filter (on_route ag m t) rows) \<le> 1) \<and>
     (\<forall>ag. (\<forall>m. shared ag m) \<longrightarrow> length (filter (of_agent ag) rows) \<le> 1)"

definition free_for :: "(string \<Rightarrow> string \<Rightarrow> bool) \<Rightarrow> resolve_call \<Rightarrow> session_row list \<Rightarrow> bool" where
  "free_for shared c rows \<longleftrightarrow>
     (\<forall>m. rc_mode c \<noteq> AgentShared \<and> rc_mg c = Some m \<and> m \<noteq> [] \<and> call_thread c \<noteq> Some [] \<longrightarrow>
        filter (on_route (rc_ag c) m (call_thread c)) rows = []) \<and>
     ((\<forall>m. shared (rc_ag c) m) \<longrightarrow> filter (of_agent (rc_ag c)) rows = [])"

definition lock_inv :: "(string \<Rightarrow> string \<Rightarrow> bool) \<Rightarrow> lock_state \<Rightarrow> bool" where
  "lock_inv shared st \<longleftrightarrow>
     unique_rows shared (lk_rows st) \<and>
     distinct (map (call_key \<circ> fst) (lk_running st)) \<and>
     (\<forall>(c, g) \<in> set (lk_running st). call_ok shared c \<and> (g = Inserting \<longrightarrow> free_for shared c (lk_rows st)))"

lemma newest_first_Nil [simp]: "newest_first rows = [] \<longleftrightarrow> rows = []"
  by (metis length_0_conv length_sort newest_first_def)

lemma findSessionByAgentGroup_None:
  "findSessionByAgentGroup ag rows = None \<longleftrightarrow> filter (of_agent ag) rows = []"
proof -
  have "findSessionByAgentGroup ag rows = (case newest_first (filter (of_agent ag) rows) of r # _ \<Rightarrow> Some r | [] \<Rightarrow> None)"
    by (simp add: findSessionByAgentGroup_def of_agent_def [abs_def])
  then show ?thesis
    using newest_first_Nil [of "filter (of_agent ag) rows"]
    by (cases "newest_first (filter (of_agent ag) rows)") simp_all
qed

lemma findSessionForAgent_None:
  "findSessionForAgent ag m t rows = None \<longleftrightarrow> filter (on_route ag m (lookup_thread t)) rows = []"
  by (auto simp: findSessionForAgent_def on_route_def find_None_iff filter_empty_conv)

lemma lookup_missing:
  assumes "resolve_lookup (rc_ag c) (rc_mg c) (rc_thread c) (rc_mode c) rows = None" "call_ok shared c"
  shows "free_for shared c rows"
proof -
  have "filter (on_route (rc_ag c) m (call_thread c)) rows = []"
    if "rc_mode c \<noteq> AgentShared" "rc_mg c = Some m" "m \<noteq> []" "call_thread c \<noteq> Some []" for m
  proof -
    have "lookup_thread (if rc_mode c = Shared then None else rc_thread c) = call_thread c"
      using that by (cases "rc_mode c") (auto simp: call_thread_def lookup_thread_def)
    then show ?thesis
      using assms(1) that by (auto simp: resolve_lookup_def findSessionForAgent_None)
  qed
  moreover have "filter (of_agent (rc_ag c)) rows = []" if "\<forall>m. shared (rc_ag c) m"
  proof -
    have "rc_mode c = AgentShared" using assms(2) that by (auto simp: call_ok_def split: option.splits)
    then show ?thesis using assms(1) by (simp add: resolve_lookup_def findSessionByAgentGroup_None)
  qed
  ultimately show ?thesis by (simp add: free_for_def)
qed

lemma createSession_cases: "createSession s rows = Inr rows' \<Longrightarrow> rows' = rows @ [s]"
  by (simp add: createSession_def split: if_splits)

lemma resolve_insert_rows:
  "resolve_insert i now (rc_ag c) (rc_mg c) (rc_thread c) (rc_mode c) rows = Inr (r, created, rows') \<Longrightarrow>
   rows' = rows \<or> rows' = rows @ [new_session i now (rc_ag c) (rc_mg c) (call_thread c)]"
  by (auto simp: resolve_insert_def call_thread_def Let_def dest: createSession_cases
      split: sum.splits if_splits option.splits)

lemma task_insert_rows:
  "task_insert i now ag t rows = Inr (r, created, rows') \<Longrightarrow>
   rows' = rows \<or> rows' = rows @ [new_session i now ag None (Some t)]"
  by (auto simp: task_insert_def Let_def dest: createSession_cases split: sum.splits if_splits option.splits)

text \<open>Two calls for the same row use the same key.\<close>

lemma same_route_same_key:
  "rc_ag c = rc_ag c' \<Longrightarrow> rc_mg c = rc_mg c' \<Longrightarrow> call_thread c = call_thread c' \<Longrightarrow>
   rc_mode c \<noteq> AgentShared \<Longrightarrow> rc_mode c' \<noteq> AgentShared \<Longrightarrow> call_key c = call_key c'"
  by (cases "rc_mode c"; cases "rc_mode c'")
    (auto simp: call_key_def sessionCreationKey_def call_thread_def Let_def split: option.splits)

lemma same_agent_same_key:
  "rc_ag c = rc_ag c' \<Longrightarrow> rc_mode c = AgentShared \<Longrightarrow> rc_mode c' = AgentShared \<Longrightarrow> call_key c = call_key c'"
  by (simp add: call_key_def sessionCreationKey_def Let_def)

lemma running_unique:
  "lock_inv shared st \<Longrightarrow> (c, g) \<in> set (lk_running st) \<Longrightarrow> (c', g') \<in> set (lk_running st) \<Longrightarrow>
   call_key c = call_key c' \<Longrightarrow> (c, g) = (c', g')"
  unfolding lock_inv_def distinct_map
  by (rule inj_onD [of "call_key \<circ> fst" "set (lk_running st)"]) simp_all

lemma set_leave [simp]: "set (leave x running) = set running - {x}"
  by (auto simp: leave_def)

lemma distinct_leave: "distinct (map f running) \<Longrightarrow> distinct (map f (leave x running))"
  by (simp add: leave_def distinct_map_filter)

text \<open>Rows that only go away, or are no one's, keep the invariant.\<close>

definition shrinks :: "session_row list \<Rightarrow> session_row list \<Rightarrow> bool" where
  "shrinks rows rows' \<longleftrightarrow>
     (\<forall>ag m t. length (filter (on_route ag m t) rows') \<le> length (filter (on_route ag m t) rows)) \<and>
     (\<forall>ag. length (filter (of_agent ag) rows') \<le> length (filter (of_agent ag) rows))"

lemma lock_inv_shrinks:
  assumes "lock_inv shared st" "shrinks (lk_rows st) rows"
  shows "lock_inv shared (st\<lparr>lk_rows := rows\<rparr>)"
proof -
  have "unique_rows shared rows"
    using assms unfolding lock_inv_def unique_rows_def shrinks_def by (meson order_trans)
  moreover have "free_for shared c (lk_rows st) \<Longrightarrow> free_for shared c rows" for c
    using assms(2) unfolding free_for_def shrinks_def by (metis le_zero_eq length_0_conv)
  ultimately show ?thesis using assms(1) by (auto simp: lock_inv_def)
qed

lemma length_filter_map_le:
  "(\<And>r. P (g r) \<Longrightarrow> P r) \<Longrightarrow> length (filter P (map g rows)) \<le> length (filter P rows)"
  by (induction rows) (auto intro: le_SucI)

lemma length_filter_filter_le: "length (filter P (filter Q rows)) \<le> length (filter P rows)"
  by (induction rows) auto

lemma shrinks_update: "su_status u \<noteq> Some Active \<Longrightarrow> shrinks rows (updateSession i u rows)"
  unfolding shrinks_def updateSession_def update_where_def
  by (intro conjI allI length_filter_map_le)
    (auto simp: on_route_def of_agent_def is_system_row_def set_opt_def split: if_splits option.splits)

lemma shrinks_delete: "shrinks rows (deleteSession i rows)"
  unfolding shrinks_def deleteSession_def delete_where_def
  by (simp add: length_filter_filter_le del: filter_filter)

text \<open>A new row is on the route of the call that inserts it, and on no other.\<close>

lemma on_route_new:
  "on_route ag m t (new_session i now ag' mg thread) \<longleftrightarrow> ag' = ag \<and> mg = Some m \<and> thread = t"
  by (auto simp: on_route_def new_session_def)

lemma of_agent_new: "of_agent ag (new_session i now ag' mg thread) \<Longrightarrow> ag' = ag"
  by (simp add: of_agent_def new_session_def)

lemma not_of_agent_task: "\<not> of_agent ag (new_session i now ag' None (Some (taskThreadId series)))"
proof -
  have "map lower_char ''system:'' = ''system:''" by code_simp
  then show ?thesis
    by (simp add: of_agent_def new_session_def is_system_row_def like_prefix_def taskThreadId_def
        TASKS_SYSTEM_THREAD_ID_def)
qed

lemma call_ok_shared: "call_ok shared c \<Longrightarrow> \<forall>m. shared (rc_ag c) m \<Longrightarrow> rc_mode c = AgentShared"
  by (auto simp: call_ok_def split: option.splits)

lemma call_ok_route: "call_ok shared c \<Longrightarrow> rc_mg c = Some m \<Longrightarrow> \<not> shared (rc_ag c) m \<Longrightarrow> rc_mode c \<noteq> AgentShared"
  by (auto simp: call_ok_def)

lemma unique_rows_insert:
  assumes "unique_rows shared rows" "free_for shared c rows" "call_ok shared c"
  shows "unique_rows shared (rows @ [new_session i now (rc_ag c) (rc_mg c) (call_thread c)])"
  unfolding unique_rows_def
proof (intro conjI allI impI)
  fix ag m and t :: "string option"
  assume a: "\<not> shared ag m \<and> m \<noteq> [] \<and> t \<noteq> Some []"
  let ?new = "new_session i now (rc_ag c) (rc_mg c) (call_thread c)"
  show "length (filter (on_route ag m t) (rows @ [?new])) \<le> 1"
  proof (cases "on_route ag m t ?new")
    case True
    then have n: "rc_ag c = ag" "rc_mg c = Some m" "call_thread c = t" by (simp_all add: on_route_new)
    then have "rc_mode c \<noteq> AgentShared" using call_ok_route [OF assms(3)] a by blast
    then have "filter (on_route ag m t) rows = []" using assms(2) n a unfolding free_for_def by blast
    then show ?thesis by simp
  qed (use assms(1) a in \<open>auto simp: unique_rows_def\<close>)
next
  fix ag
  assume a: "\<forall>m. shared ag m"
  let ?new = "new_session i now (rc_ag c) (rc_mg c) (call_thread c)"
  show "length (filter (of_agent ag) (rows @ [?new])) \<le> 1"
  proof (cases "of_agent ag ?new")
    case True
    then have "rc_ag c = ag" by (rule of_agent_new)
    then have "filter (of_agent ag) rows = []" using assms(2) a unfolding free_for_def by blast
    then show ?thesis by simp
  qed (use assms(1) a in \<open>auto simp: unique_rows_def\<close>)
qed

text \<open>Another call that is about to insert still finds nothing, for it has another key.\<close>

lemma free_for_insert:
  assumes "free_for shared c' rows" "call_ok shared c" "call_ok shared c'" "call_key c \<noteq> call_key c'"
  shows "free_for shared c' (rows @ [new_session i now (rc_ag c) (rc_mg c) (call_thread c)])"
  unfolding free_for_def
proof (intro conjI allI impI)
  let ?new = "new_session i now (rc_ag c) (rc_mg c) (call_thread c)"
  fix m
  assume a: "rc_mode c' \<noteq> AgentShared \<and> rc_mg c' = Some m \<and> m \<noteq> [] \<and> call_thread c' \<noteq> Some []"
  have "\<not> on_route (rc_ag c') m (call_thread c') ?new"
  proof
    assume "on_route (rc_ag c') m (call_thread c') ?new"
    then have n: "rc_ag c = rc_ag c'" "rc_mg c = Some m" "call_thread c = call_thread c'"
      by (simp_all add: on_route_new)
    moreover have "rc_mode c \<noteq> AgentShared"
      using assms(2,3) a n by (simp add: call_ok_def)
    ultimately show False using same_route_same_key [of c c'] a assms(4) by auto
  qed
  then show "filter (on_route (rc_ag c') m (call_thread c')) (rows @ [?new]) = []"
    using assms(1) a by (simp add: free_for_def)
next
  let ?new = "new_session i now (rc_ag c) (rc_mg c) (call_thread c)"
  assume a: "\<forall>m. shared (rc_ag c') m"
  have "\<not> of_agent (rc_ag c') ?new"
  proof
    assume "of_agent (rc_ag c') ?new"
    then have n: "rc_ag c = rc_ag c'" by (rule of_agent_new)
    then have "rc_mode c = AgentShared" "rc_mode c' = AgentShared"
      using call_ok_shared [OF assms(2)] call_ok_shared [OF assms(3)] a by simp_all
    then show False using same_agent_same_key [OF n] assms(4) by simp
  qed
  then show "filter (of_agent (rc_ag c')) (rows @ [?new]) = []"
    using assms(1) a by (simp add: free_for_def)
qed

lemma lock_inv_leave:
  "lock_inv shared st \<Longrightarrow> lock_inv shared (st\<lparr>lk_running := leave x (lk_running st)\<rparr>)"
  by (auto simp: lock_inv_def distinct_leave)

lemma lock_inv_inserted:
  assumes inv: "lock_inv shared st" and c: "(c, Inserting) \<in> set (lk_running st)"
    and rows: "rows = lk_rows st \<or> rows = lk_rows st @ [new_session i now (rc_ag c) (rc_mg c) (call_thread c)]"
  shows "lock_inv shared (st\<lparr>lk_rows := rows, lk_running := leave (c, Inserting) (lk_running st)\<rparr>)"
  using rows
proof
  assume "rows = lk_rows st"
  then show ?thesis using lock_inv_leave [OF inv, of "(c, Inserting)"] by simp
next
  assume new: "rows = lk_rows st @ [new_session i now (rc_ag c) (rc_mg c) (call_thread c)]"
  have ok: "call_ok shared c" "free_for shared c (lk_rows st)" using inv c by (auto simp: lock_inv_def)
  have "unique_rows shared rows"
    unfolding new by (rule unique_rows_insert [OF _ ok(2,1)]) (use inv in \<open>simp add: lock_inv_def\<close>)
  moreover have "call_ok shared c' \<and> (g = Inserting \<longrightarrow> free_for shared c' rows)"
    if g: "(c', g) \<in> set (lk_running st)" "(c', g) \<noteq> (c, Inserting)" for c' g
  proof -
    have ok': "call_ok shared c'" "g = Inserting \<Longrightarrow> free_for shared c' (lk_rows st)"
      using inv g(1) by (auto simp: lock_inv_def)
    have "call_key c \<noteq> call_key c'" using running_unique [OF inv g(1) c] g(2) by metis
    then show ?thesis using free_for_insert [OF ok'(2) ok(1) ok'(1)] ok'(1) new by blast
  qed
  moreover have "distinct (map (call_key \<circ> fst) (leave (c, Inserting) (lk_running st)))"
    using inv by (intro distinct_leave) (simp add: lock_inv_def)
  ultimately show ?thesis unfolding lock_inv_def by auto
qed

lemma lock_inv_task:
  assumes inv: "lock_inv shared st" and rows: "rows = lk_rows st @ [new_session i now ag None (Some (taskThreadId t))]"
  shows "lock_inv shared (st\<lparr>lk_rows := rows\<rparr>)"
proof (rule lock_inv_shrinks [OF inv])
  show "shrinks (lk_rows st) rows"
    by (simp add: shrinks_def rows not_of_agent_task on_route_new)
qed

lemma lock_inv_step: "resolve_step shared st st' \<Longrightarrow> lock_inv shared st \<Longrightarrow> lock_inv shared st'"
proof (induction rule: resolve_step.induct)
  case (begin_call c st)
  then show ?case by (auto simp: lock_inv_def image_comp)
next
  case (missing c st)
  have "free_for shared c (lk_rows st)"
    using lookup_missing [OF missing(2)] missing(1,3) by (auto simp: lock_inv_def)
  moreover have "call_key c \<notin> (call_key \<circ> fst) ` set (leave (c, Looking) (lk_running st))"
    using running_unique [OF missing(3,1)] by (auto simp: image_iff) metis+
  ultimately show ?case
    using missing(1,3) lock_inv_leave [OF missing(3), of "(c, Looking)"] by (auto simp: lock_inv_def)
next
  case (inserted c st i now r created rows)
  then show ?case by (intro lock_inv_inserted resolve_insert_rows)
next
  case (task_created i now ag series st r created rows)
  then show ?case using task_insert_rows lock_inv_task by fastforce
next
  case (updated u st i)
  then show ?case by (intro lock_inv_shrinks shrinks_update)
next
  case (deleted st i)
  then show ?case by (intro lock_inv_shrinks shrinks_delete)
qed (auto intro: lock_inv_leave)

lemma lock_inv_steps:
  "(resolve_step shared)\<^sup>*\<^sup>* st st' \<Longrightarrow> lock_inv shared st \<Longrightarrow> lock_inv shared st'"
  by (induction rule: rtranclp_induct) (auto intro: lock_inv_step)

subsection \<open>Properties\<close>


text \<open>A second call for the same thread finds the row of the first.\<close>

definition demo_call :: resolve_call where
  "demo_call = \<lparr>rc_ag = ''a'', rc_mg = Some ''m'', rc_thread = Some ''t'', rc_mode = PerThread\<rparr>"


text \<open>
  Resolving the same conversation again returns the session the first call returned and changes
  nothing, unless the wiring is per-thread and the platform gave an empty thread id.
\<close>
theorem resolve_is_stable:
  assumes "resolveSession E ag (Some m) thread mode s = (Inr (r, created), s')"
    and "m \<noteq> []" "mode \<noteq> AgentShared" "mode = PerThread \<Longrightarrow> thread \<noteq> Some []"
  shows "resolveSession E' ag (Some m) thread mode s' = (Inr (r, False), s')"
proof (cases "resolve_lookup ag (Some m) thread mode (ss_sessions s)")
  case (Some x)
  then show ?thesis using assms(1) by (auto simp: resolveSession_def io_return_def)
next
  case None
  let ?i = "''sess-'' @ ss_token s (ss_drawn s)" and ?t = "if mode = PerThread then thread else None"
  let ?new = "new_session ?i (se_now E) ag (Some m) ?t"
  have t: "lookup_thread ?t = ?t" "lookup_thread (if mode = Shared then None else thread) = ?t"
    using assms(3,4) by (cases mode; simp add: lookup_thread_def)+
  have miss: "findSessionForAgent ag m (if mode = Shared then None else thread) (ss_sessions s) = None"
    using None assms(2,3) by (simp add: resolve_lookup_def)
  then have none: "findSessionForAgent ag m ?t (ss_sessions s) = None"
    using t by (simp only: findSessionForAgent_def)
  have "createSession ?new (ss_sessions s) = Inr (ss_sessions s @ [?new])"
  proof (rule ccontr)
    assume "createSession ?new (ss_sessions s) \<noteq> Inr (ss_sessions s @ [?new])"
    then have "createSession ?new (ss_sessions s) = Inl UniqueViolation" by (simp add: createSession_def split: if_splits)
    then show False using assms(1,2,3) None none
      by (simp add: resolveSession_def resolve_insert_def draw_def adopt_def io_bind_def io_return_def io_throw_def Let_def)
  qed
  then have "r = ?new" "ss_sessions s' = ss_sessions s @ [?new]"
    using assms(1) None
    by (auto simp: resolveSession_def resolve_insert_def draw_def adopt_def io_bind_def io_return_def io_throw_def Let_def on_sessions_def
        initSessionFolder_def set_mail_def)
  moreover have "findSessionForAgent ag m (if mode = Shared then None else thread) (ss_sessions s @ [?new]) = Some ?new"
    using miss t(2) by (simp add: findSessionForAgent_def find_append new_session_def)
  ultimately show ?thesis using assms(2,3) by (simp add: resolveSession_def resolve_lookup_def io_return_def)
qed

definition demo_sess_env :: sess_env where
  "demo_sess_env = \<lparr>se_clock = demo_clock, se_container = (\<lambda>_ fs. fs), se_dir = (\<lambda>_ _. Tree 0), se_b64 = id,
     se_parse = (\<lambda>s. Inr (JObj [(''text'', JStr s)]))\<rparr>"

definition demo_sess_db :: sess_db where
  "demo_sess_db = \<lparr>ss_sessions = [], ss_mail = (\<lambda>_. None), ss_world = \<lparr>w_fs = demo_fs, w_tick = 0\<rparr>,
     ss_token = nat_str, ss_drawn = 0\<rparr>"

lemma resolve_is_stable_witness:
  "\<exists>r s. resolveSession demo_sess_env ''a'' (Some ''m'') (Some ''t'') PerThread demo_sess_db = (Inr (r, True), s) \<and>
         resolveSession demo_sess_env ''a'' (Some ''m'') (Some ''t'') PerThread s = (Inr (r, False), s)"
proof -
  obtain r s where 1: "resolveSession demo_sess_env ''a'' (Some ''m'') (Some ''t'') PerThread demo_sess_db = (Inr (r, True), s)"
    by (simp add: resolveSession_def resolve_lookup_def findSessionForAgent_def demo_sess_db_def draw_def io_bind_def
        adopt_def resolve_insert_def createSession_def on_sessions_def initSessionFolder_def io_return_def Let_def)
  from resolve_is_stable [OF 1] 1 show ?thesis by blast
qed

end
