(* ===== verification/CrossSession.thy ===== *)
theory CrossSession
  imports Sessions SenderAdmission
begin

text \<open>
  Cross-session context (\<open>src/modules/cross-session-context\<close>): copies of a message in the other
  sessions of the conversation it appeared in (\<open>fan.ts\<close>), the timeline a new session starts with
  (\<open>backfill.ts\<close>), and the pruning of the backlog (\<open>prune.ts\<close>).  Lengths are those of ASCII text.
\<close>

subsection \<open>Texts and labels\<close>

definition ECHO_CHANNEL_TYPE :: string where
  "ECHO_CHANNEL_TYPE = ''session-echo''"

definition ECHO_SIBLING_SURFACE :: string where
  "ECHO_SIBLING_SURFACE = ''dm-thread''"

definition ECHO_TASK_SURFACE :: string where
  "ECHO_TASK_SURFACE = ''task-delivery''"

definition ECHO_TIMELINE_SURFACE :: string where
  "ECHO_TIMELINE_SURFACE = ''dm-timeline''"

definition ECHO_CHANNEL_TIMELINE_SURFACE :: string where
  "ECHO_CHANNEL_TIMELINE_SURFACE = ''channel-timeline''"

definition ECHO_TEXT_MAX_CHARS :: nat where
  "ECHO_TEXT_MAX_CHARS = 500"

definition ECHO_BACKLOG_CAP :: nat where
  "ECHO_BACKLOG_CAP = 50"

definition ECHO_MAX_AGE_DAYS :: int where
  "ECHO_MAX_AGE_DAYS = 7"

definition BACKFILL_LIMIT :: nat where
  "BACKFILL_LIMIT = 12"

definition ellipsis :: string where
  "ellipsis = [CHR 0xE2, CHR 0x80, CHR 0xA6]"

definition truncateEchoText :: "string \<Rightarrow> string" where
  "truncateEchoText t = (if length t \<le> ECHO_TEXT_MAX_CHARS then t else take ECHO_TEXT_MAX_CHARS t @ ellipsis)"

definition echoRowId :: "string \<Rightarrow> string \<Rightarrow> string" where
  "echoRowId orig target = orig @ '':echo:'' @ target"

definition coalesce :: "'a option \<Rightarrow> 'a option \<Rightarrow> 'a option" where
  "coalesce a b = (case a of None \<Rightarrow> b | Some _ \<Rightarrow> a)"

definition buildEchoLabel :: "messaging_group \<Rightarrow> string option \<Rightarrow> string" where
  "buildEchoLabel mg senderName =
     (if mg_is_group mg
      then ''#'' @ (case mg_name mg of Some n \<Rightarrow> n | None \<Rightarrow> mg_platform_id mg) @ '' room''
      else case coalesce (mg_name mg) senderName of
             Some (c # cs) \<Rightarrow> ''DM with '' @ c # cs
           | _ \<Rightarrow> ''DM ('' @ mg_platform_id mg @ '')'')"

definition buildSiblingEchoLabel :: "messaging_group \<Rightarrow> string option \<Rightarrow> string" where
  "buildSiblingEchoLabel mg senderName =
     (case (if mg_is_group mg then None else coalesce (mg_name mg) senderName) of
        Some (c # cs) \<Rightarrow> ''another conversation with '' @ c # cs
      | _ \<Rightarrow> ''another conversation in '' @ buildEchoLabel mg senderName)"

definition buildDeliveredEchoLabel :: "messaging_group \<Rightarrow> bool \<Rightarrow> string" where
  "buildDeliveredEchoLabel mg fromTask =
     (let where' = (if mg_is_group mg then ''this room'' else ''this DM'')
      in where' @ (if fromTask then '', posted by your scheduled task''
                   else '', posted by you from another conversation''))"

definition selectEchoTargets :: "session_row list \<Rightarrow> string \<Rightarrow> string option \<Rightarrow> session_row list" where
  "selectEchoTargets candidates source mg =
     (case mg of
        None \<Rightarrow> []
      | Some m \<Rightarrow> filter (\<lambda>r. s_id r \<noteq> source \<and> s_status r = Active \<and> s_messaging_group_id r = Some m) candidates)"

text \<open>
  \<open>parseContent\<close> of \<open>fan.ts\<close>: text, sender and sender id.  \<open>parsed\<close> is what \<open>JSON.parse\<close> gives; on
  \<open>null\<close> the reads throw inside the \<open>try\<close>, so the raw text is used as if it were no JSON.
\<close>

definition fan_content :: "js res \<Rightarrow> string \<Rightarrow> string \<times> string option \<times> string option" where
  "fan_content parsed raw =
     (case bnd parsed (\<lambda>v. js_get v ''text'') of
        Inl _ \<Rightarrow> (raw, None, None)
      | Inr t \<Rightarrow>
         (let field = (\<lambda>k. case bnd parsed (\<lambda>v. js_get v k) of Inr (JStr s) \<Rightarrow> Some s | _ \<Rightarrow> None)
          in ((case t of JStr s \<Rightarrow> s | _ \<Rightarrow> []), field ''sender'', field ''senderId'')))"

subsection \<open>Fanning out\<close>

definition session_write :: "string \<Rightarrow> string \<Rightarrow> string option \<Rightarrow> jtext \<Rightarrow> string option \<Rightarrow> to_session" where
  "session_write i timestamp platformId content source =
     \<lparr>ts_id = i, ts_kind = ''chat'', ts_timestamp = timestamp, ts_platformId = platformId,
      ts_channelType = Some ECHO_CHANNEL_TYPE, ts_threadId = None, ts_content = content,
      ts_processAfter = None, ts_recurrence = None, ts_trigger = False, ts_sourceSessionId = source,
      ts_onWake = False\<rparr>"

record echo_input =
  ei_agentGroupId :: string
  ei_sourceSessionId :: string
  ei_sourceMessagingGroupId :: "string option"
  ei_origMessageId :: string
  ei_timestamp :: string
  ei_surface :: string
  ei_label :: string
  ei_platformId :: string
  ei_text :: string
  ei_sender :: string
  ei_senderId :: "string option"

definition echo_content :: "echo_input \<Rightarrow> jtext" where
  "echo_content i = Json (JObj [
     (''text'', JStr (truncateEchoText (ei_text i))), (''sender'', JStr (ei_sender i)),
     (''senderId'', null_str (ei_senderId i)),
     (''echo'', JObj [(''surface'', JStr (ei_surface i)), (''label'', JStr (ei_label i))])])"

fun fan_loop :: "sess_env \<Rightarrow> echo_input \<Rightarrow> session_row list \<Rightarrow> ('z sess_db_scheme, nat) sm" where
  "fan_loop E i [] = io_return 0"
| "fan_loop E i (target # rest) =
     io_bind (io_catch
       (io_bind (writeSessionMessage E (ei_agentGroupId i) (s_id target)
                   (session_write (echoRowId (ei_origMessageId i) (s_id target)) (ei_timestamp i)
                      (Some (ei_platformId i)) (echo_content i) (Some (ei_sourceSessionId i))))
         (\<lambda>_. io_return 1)) (\<lambda>_. io_return 0))
       (\<lambda>n. io_bind (fan_loop E i rest) (\<lambda>m. io_return (n + m)))"

definition fanEcho :: "sess_env \<Rightarrow> echo_input \<Rightarrow> ('z sess_db_scheme, nat) sm" where
  "fanEcho E i =
     io_bind (io_get (\<lambda>s. getSessionsByAgentGroup (ei_agentGroupId i) (ss_sessions s))) (\<lambda>candidates.
       fan_loop E i (selectEchoTargets candidates (ei_sourceSessionId i) (ei_sourceMessagingGroupId i)))"

definition CHAT_KINDS :: "string list" where
  "CHAT_KINDS = [''chat'', ''chat-sdk'']"

definition fanInboundMessage ::
    "sess_env \<Rightarrow> session_row \<Rightarrow> messaging_group \<Rightarrow> string \<Rightarrow> string \<Rightarrow> string \<Rightarrow> jtext \<Rightarrow> string
       \<Rightarrow> ('z sess_db_scheme, nat) sm" where
  "fanInboundMessage E session mg messageId kind channelType content timestamp =
     (let (t, sender, senderId) = fan_content (json_parse content) (jtext_text content)
      in if kind \<notin> set CHAT_KINDS then io_return 0
         else if channelType = ''agent'' \<or> channelType = ECHO_CHANNEL_TYPE then io_return 0
         else if isTaskThread (s_thread_id session) then io_return 0
         else if t = [] then io_return 0
         else io_catch (fanEcho E
                \<lparr>ei_agentGroupId = s_agent_group_id session, ei_sourceSessionId = s_id session,
                 ei_sourceMessagingGroupId = Some (mg_id mg), ei_origMessageId = messageId,
                 ei_timestamp = timestamp, ei_surface = ECHO_SIBLING_SURFACE,
                 ei_label = buildSiblingEchoLabel mg sender, ei_platformId = mg_platform_id mg,
                 ei_text = t, ei_sender = (case sender of Some s \<Rightarrow> s | None \<Rightarrow> ''unknown''),
                 ei_senderId = senderId\<rparr>) (\<lambda>_. io_return 0))"

text \<open>
  The conversation a delivered message landed in: the session's own, else the sender's destination,
  else any chat with the address.
\<close>

definition delivered_chat ::
    "chat_db \<Rightarrow> session_row \<Rightarrow> string \<Rightarrow> string \<Rightarrow> messaging_group option" where
  "delivered_chat chats session channelType platformId =
     (let origin = (case s_messaging_group_id session of
                      None \<Rightarrow> None | Some m \<Rightarrow> if m = [] then None else getMessagingGroup m chats);
          other = coalesce (getMessagingGroupForOwnDestination stamp_ord (s_agent_group_id session) channelType platformId chats)
                    (getMessagingGroupByPlatform channelType platformId None chats)
      in case origin of
           Some g \<Rightarrow> if mg_channel_type g = channelType \<and> mg_platform_id g = platformId then Some g else other
         | None \<Rightarrow> other)"

definition fanOutboundMessage ::
    "sess_env \<Rightarrow> chat_db \<Rightarrow> outbound_delivery \<Rightarrow> session_row \<Rightarrow> agent_group \<Rightarrow> ('z sess_db_scheme, nat) sm" where
  "fanOutboundMessage E chats msg session agentGroup =
     (case (od_channelType msg, od_platformId msg) of
        (Some ct, Some pid) \<Rightarrow>
          (let (t, _) = fan_content (se_parse E (od_content msg)) (od_content msg);
               isTaskSource = isTaskThread (s_thread_id session)
           in if od_kind msg = ''system'' \<or> od_kind msg = ''task_log'' then io_return 0
              else if ct = [] \<or> pid = [] then io_return 0
              else if ct = ''agent'' \<or> ct = ECHO_CHANNEL_TYPE then io_return 0
              else case delivered_chat chats session ct pid of
                     None \<Rightarrow> io_return 0
                   | Some mg \<Rightarrow>
                      (if t = [] then io_return 0
                       else io_catch (fanEcho E
                         \<lparr>ei_agentGroupId = s_agent_group_id session, ei_sourceSessionId = s_id session,
                          ei_sourceMessagingGroupId = Some (mg_id mg), ei_origMessageId = od_id msg,
                          ei_timestamp = now_iso (se_clock E),
                          ei_surface = (if isTaskSource then ECHO_TASK_SURFACE else ECHO_SIBLING_SURFACE),
                          ei_label = (if \<not> isTaskSource \<and> s_messaging_group_id session = Some (mg_id mg)
                                      then buildSiblingEchoLabel mg (mg_name mg)
                                      else buildDeliveredEchoLabel mg isTaskSource),
                          ei_platformId = mg_platform_id mg, ei_text = t, ei_sender = ag_name agentGroup,
                          ei_senderId = Some (ag_id agentGroup)\<rparr>) (\<lambda>_. io_return 0)))
      | _ \<Rightarrow> io_return 0)"

subsection \<open>Backfilling a new session\<close>

text \<open>
  A row of the timeline.  The text of a message is whatever JSON value its \<open>text\<close> property is, as
  long as it is truthy; one that cannot be sliced throws when it is written.
\<close>

record backfill_row =
  bf_timestamp :: string
  bf_sender :: js
  bf_senderId :: js
  bf_text :: js
  bf_self :: bool

definition slice_text :: "nat \<Rightarrow> js \<Rightarrow> js res" where
  "slice_text n v =
     (case v of JStr s \<Rightarrow> Inr (JStr (take n s)) | JArr xs \<Rightarrow> Inr (JArr (take n xs)) | _ \<Rightarrow> Inl TypeError)"

text \<open>\<open>truncateEchoText\<close> on such a value: one without a length has no length of at most the cap.\<close>

definition truncate_value :: "js \<Rightarrow> js res" where
  "truncate_value v =
     (case v of
        JStr s \<Rightarrow> Inr (JStr (truncateEchoText s))
      | JArr xs \<Rightarrow> Inr (if length xs \<le> ECHO_TEXT_MAX_CHARS then v
                        else JStr (js_to_string (JArr (take ECHO_TEXT_MAX_CHARS xs)) @ ellipsis))
      | JObj ps \<Rightarrow> (case own ps ''length'' of
                      JNum n \<Rightarrow> if n \<le> int ECHO_TEXT_MAX_CHARS then Inr v else Inl TypeError
                    | _ \<Rightarrow> Inl TypeError)
      | _ \<Rightarrow> Inl TypeError)"

text \<open>The content of a row, \<open>{}\<close> when it does not parse; reading \<open>null\<close> throws.\<close>

definition row_fields :: "sess_env \<Rightarrow> string \<Rightarrow> fields res" where
  "row_fields E raw =
     (case se_parse E raw of
        Inl _ \<Rightarrow> Inr []
      | Inr JNull \<Rightarrow> Inl TypeError
      | Inr (JObj ps) \<Rightarrow> Inr ps
      | Inr _ \<Rightarrow> Inr [])"

definition root_row :: "string \<Rightarrow> fields \<Rightarrow> backfill_row list" where
  "root_row ts c =
     (if js_truthy (own c ''text'') \<and> own c ''senderId'' \<noteq> JStr ''system'' \<and> own c ''sender'' \<noteq> JStr ''system'' \<and>
         own c ''internal'' \<noteq> JBool True
      then [\<lparr>bf_timestamp = ts, bf_sender = js_coalesce (own c ''sender'') (JStr ''user''),
             bf_senderId = js_coalesce (own c ''senderId'') (JStr []), bf_text = own c ''text'', bf_self = False\<rparr>]
      else [])"

definition agent_row :: "agent_group \<Rightarrow> string \<Rightarrow> fields \<Rightarrow> backfill_row list" where
  "agent_row g ts c =
     (if js_truthy (own c ''text'')
      then [\<lparr>bf_timestamp = ts, bf_sender = JStr (ag_name g), bf_senderId = JStr (ag_id g),
             bf_text = own c ''text'', bf_self = True\<rparr>]
      else [])"

fun collect_rows :: "sess_env \<Rightarrow> (string \<Rightarrow> fields \<Rightarrow> backfill_row list) \<Rightarrow> (string \<times> string) list \<Rightarrow> backfill_row list res" where
  "collect_rows E mk [] = Inr []"
| "collect_rows E mk ((ts, raw) # rest) =
     bnd (row_fields E raw) (\<lambda>c. bnd (collect_rows E mk rest) (\<lambda>rows. Inr (mk ts c @ rows)))"

definition timeline_rows :: "sess_env \<Rightarrow> agent_group \<Rightarrow> nat \<Rightarrow> mailbox \<Rightarrow> backfill_row list res" where
  "timeline_rows E g limit mb =
     bnd (collect_rows E root_row (case getConversationRoot (se_clock E) mb of None \<Rightarrow> [] | Some r \<Rightarrow> [r])) (\<lambda>root.
     bnd (collect_rows E (agent_row g) (getTopLevelOutbound (se_clock E) limit mb)) (\<lambda>out. Inr (root @ out)))"

fun collectSiblingTopLevel ::
    "sess_env \<Rightarrow> agent_group \<Rightarrow> nat \<Rightarrow> session_row list \<Rightarrow> 'z sess_db_scheme \<Rightarrow> backfill_row list res" where
  "collectSiblingTopLevel E g limit [] s = Inr []"
| "collectSiblingTopLevel E g limit (r # rs) s =
     bnd (case ss_mail s (ag_id g, s_id r) of None \<Rightarrow> Inr [] | Some mb \<Rightarrow> timeline_rows E g limit mb) (\<lambda>rows.
     bnd (collectSiblingTopLevel E g limit rs s) (\<lambda>more. Inr (rows @ more)))"

definition backfill_content :: "string \<Rightarrow> string \<Rightarrow> backfill_row \<Rightarrow> js \<Rightarrow> jtext" where
  "backfill_content surface label r t =
     Json (JObj ([(''text'', t), (''sender'', bf_sender r), (''senderId'', bf_senderId r)] @
       (if bf_self r then [(''self'', JBool True)] else []) @
       [(''echo'', JObj [(''surface'', JStr surface), (''label'', JStr label)])]))"

text \<open>The rows from number \<open>i\<close> on; the last is not capped like the others.\<close>

fun write_backfill ::
    "sess_env \<Rightarrow> string \<Rightarrow> string \<Rightarrow> string \<Rightarrow> string \<Rightarrow> nat \<Rightarrow> backfill_row list \<Rightarrow> ('z sess_db_scheme, unit) sm" where
  "write_backfill E ag sid surface label i [] = io_return ()"
| "write_backfill E ag sid surface label i (r # rest) =
     (case (if rest = [] then slice_text 4000 (bf_text r) else truncate_value (bf_text r)) of
        Inl e \<Rightarrow> io_throw e
      | Inr t \<Rightarrow>
          io_bind (writeSessionMessage E ag sid
                     (session_write (sid @ '':backfill:'' @ nat_str i) (bf_timestamp r) None
                        (backfill_content surface label r t) None))
            (\<lambda>_. write_backfill E ag sid surface label (Suc i) rest))"

definition backfillNewSession ::
    "sess_env \<Rightarrow> agent_group \<Rightarrow> session_row \<Rightarrow> messaging_group \<Rightarrow> ('z sess_db_scheme, unit) sm" where
  "backfillNewSession E g session mg =
     (if isTaskThread (s_thread_id session) then io_return ()
      else io_catch
        (io_bind (io_get (\<lambda>s.
           collectSiblingTopLevel E g BACKFILL_LIMIT
             (selectEchoTargets (getSessionsByAgentGroup (ag_id g) (ss_sessions s)) (s_id session) (Some (mg_id mg))) s))
          (\<lambda>r. case r of
             Inl e \<Rightarrow> io_throw e
           | Inr rows \<Rightarrow>
              (let newest = take_last BACKFILL_LIMIT (sort_key bf_timestamp rows)
               in write_backfill E (ag_id g) (s_id session)
                    (if mg_is_group mg then ECHO_CHANNEL_TIMELINE_SURFACE else ECHO_TIMELINE_SURFACE)
                    (if mg_is_group mg then ''this channel, just before this conversation''
                     else ''this DM, just before this conversation'')
                    0 newest)))
        (\<lambda>_. io_return ()))"

definition pruneEchoBacklog :: "clock \<Rightarrow> mailbox \<Rightarrow> nat \<times> mailbox" where
  "pruneEchoBacklog ck =
     prunePendingMessages ck ECHO_CHANNEL_TYPE
       (toISOString (ck_now ck - ECHO_MAX_AGE_DAYS * 24 * 60 * 60 * 1000)) ECHO_BACKLOG_CAP"

subsection \<open>What the writes touch\<close>

text \<open>
  \<open>touches K\<close>: no mailbox but those of \<open>K\<close> changes.  \<open>waking_of\<close>: the messages of a mailbox that wake
  the agent; \<open>no_wake\<close>: they stay as they are.
\<close>

definition touches :: "(string \<times> string) set \<Rightarrow> 'z sess_db_scheme \<Rightarrow> 'z sess_db_scheme \<Rightarrow> bool" where
  "touches K s s' \<longleftrightarrow> (\<forall>k. k \<notin> K \<longrightarrow> ss_mail s' k = ss_mail s k)"

definition waking_of :: "string \<times> string \<Rightarrow> 'z sess_db_scheme \<Rightarrow> inbound_record list" where
  "waking_of k s = (case ss_mail s k of None \<Rightarrow> [] | Some mb \<Rightarrow> filter ir_trigger (mb_in mb))"

definition no_wake :: "'z sess_db_scheme \<Rightarrow> 'z sess_db_scheme \<Rightarrow> bool" where
  "no_wake s s' \<longleftrightarrow> (\<forall>k. waking_of k s' = waking_of k s)"

lemma touches_rel [simp]: "reflp (touches K)" "transp (touches K)"
  by (auto simp: reflp_def transp_def touches_def)

lemma no_wake_rel [simp]: "reflp no_wake" "transp no_wake"
  by (auto simp: reflp_def transp_def no_wake_def)

lemma touches_set_mail: "(ag, sid) \<in> K \<Longrightarrow> touches K s (set_mail ag sid mb s)"
  by (auto simp: touches_def set_mail_def)

lemma touches_mono: "touches K s s' \<Longrightarrow> K \<subseteq> K' \<Longrightarrow> touches K' s s'"
  by (auto simp: touches_def)

lemma keeps_touches [keeps_intros]:
  "(ag, sid) \<in> K \<Longrightarrow> keeps (touches K) (initSessionFolder ag sid)"
  "keeps (touches K) (on_sessions f)"
  "keeps (touches K) (on_world m)"
  "(ag, sid) \<in> K \<Longrightarrow> keeps (touches K) (withMailboxSession ag sid act)"
  "keeps (touches K) draw"
  by (auto simp: keeps_def initSessionFolder_def on_sessions_def on_world_def withMailboxSession_def draw_def
      intro: touches_set_mail split: prod.split) (auto simp: touches_def)

lemma keeps_touches_write [keeps_intros]:
  "(ag, sid) \<in> K \<Longrightarrow> keeps (touches K) (writeSessionMessage E ag sid m)"
  unfolding writeSessionMessage_def by (intro keeps_intros touches_rel)

lemma waking_set_mail:
  "waking_of k (set_mail ag sid mb s) = (if k = (ag, sid) then filter ir_trigger (mb_in mb) else waking_of k s)"
  by (simp add: waking_of_def set_mail_def)

lemma waking_mailbox_of: "filter ir_trigger (mb_in (mailbox_of ag sid s)) = waking_of (ag, sid) s"
  by (simp add: mailbox_of_def waking_of_def empty_mailbox_def split: option.split)

lemma keeps_no_wake [keeps_intros]:
  "keeps no_wake (initSessionFolder ag sid)"
  "keeps no_wake (on_sessions f)"
  "keeps no_wake (on_world m)"
  "keeps no_wake draw"
  by (auto simp: keeps_def initSessionFolder_def on_sessions_def on_world_def draw_def no_wake_def
      waking_set_mail waking_mailbox_of split: prod.split) (auto simp: waking_of_def)

lemma keeps_no_wake_write [keeps_intros]:
  assumes "\<not> ts_trigger m"
  shows "keeps no_wake (writeSessionMessage E ag sid m :: ('z sess_db_scheme, unit) sm)"
proof -
  have "keeps no_wake (withMailboxSession ag sid (throwing (inbound_insertMessage (to_session_js (m\<lparr>ts_content := c\<rparr>))))
      :: ('z sess_db_scheme, unit) sm)"
    (is "keeps no_wake (withMailboxSession ag sid ?act)") for c
    unfolding keeps_def
  proof
    fix s :: "'z sess_db_scheme"
    obtain r mb where run: "?act (mailbox_of ag sid s) = (r, mb)" by fastforce
    note ins = insert_to_session [OF run]
    have "filter ir_trigger (mb_in mb) = filter ir_trigger (mb_in (mailbox_of ag sid s))"
    proof (cases r)
      case (Inr u)
      then show ?thesis using ins(1) assms by (auto simp: stored_as_def)
    qed (use ins(2) in simp)
    then show "no_wake s (snd (withMailboxSession ag sid ?act s))"
      by (simp add: withMailboxSession_def run no_wake_def waking_set_mail waking_mailbox_of)
  qed
  then show ?thesis unfolding writeSessionMessage_def by (intro keeps_intros no_wake_rel)
qed

lemma keeps_fan_loop:
  "(\<And>t. t \<in> set targets \<Longrightarrow> (ei_agentGroupId i, s_id t) \<in> K) \<Longrightarrow> keeps (touches K) (fan_loop E i targets)"
  "keeps no_wake (fan_loop E i targets)"
  by (induction targets) (auto intro!: keeps_intros simp: session_write_def)

text \<open>The sessions a message may be copied to.\<close>

definition echo_targets :: "string \<Rightarrow> string \<Rightarrow> string \<Rightarrow> session_row list \<Rightarrow> (string \<times> string) set" where
  "echo_targets ag source m rows =
     {(ag, s_id r) | r. r \<in> set rows \<and> s_agent_group_id r = ag \<and> s_id r \<noteq> source \<and> s_status r = Active \<and>
        s_messaging_group_id r = Some m}"

lemma selected_targets:
  "t \<in> set (selectEchoTargets (getSessionsByAgentGroup ag rows) source (Some m)) \<Longrightarrow>
   (ag, s_id t) \<in> echo_targets ag source m rows"
  by (auto simp: selectEchoTargets_def getSessionsByAgentGroup_def echo_targets_def)

lemma fanEcho_effect:
  fixes s :: "'z sess_db_scheme"
  assumes "ei_sourceMessagingGroupId i = Some m"
  shows "touches (echo_targets (ei_agentGroupId i) (ei_sourceSessionId i) m (ss_sessions s)) s (snd (fanEcho E i s))"
    and "no_wake s (snd (fanEcho E i s))"
proof -
  let ?K = "echo_targets (ei_agentGroupId i) (ei_sourceSessionId i) m (ss_sessions s)"
  have "keeps (touches ?K) (fan_loop E i (selectEchoTargets (getSessionsByAgentGroup (ei_agentGroupId i) (ss_sessions s))
      (ei_sourceSessionId i) (Some m)) :: ('z sess_db_scheme, nat) sm)"
    by (rule keeps_fan_loop(1)) (rule selected_targets)
  then show "touches ?K s (snd (fanEcho E i s))"
    using assms by (simp add: fanEcho_def keeps_def)
  show "no_wake s (snd (fanEcho E i s))"
    using keeps_fan_loop(2) [unfolded keeps_def, rule_format] by (simp add: fanEcho_def)
qed

lemma snd_catch_return: "snd (io_catch m (\<lambda>_. io_return x) s) = snd (m s)"
  by (simp add: io_catch_def io_return_def split: prod.split sum.split)

lemma fst_catch_return: "\<exists>y. fst (io_catch m (\<lambda>_. io_return x) s) = Inr y"
  by (auto simp: io_catch_def io_return_def split: prod.split sum.split)

lemma keeps_write_backfill:
  "(ag, sid) \<in> K \<Longrightarrow> keeps (touches K) (write_backfill E ag sid surface label i rows)"
  "keeps no_wake (write_backfill E ag sid surface label i rows)"
  by (induction rows arbitrary: i) (auto intro!: keeps_intros simp: session_write_def split: sum.split)

lemma fanInboundMessage_effect:
  fixes s :: "'z sess_db_scheme"
  shows "touches (echo_targets (s_agent_group_id session) (s_id session) (mg_id mg) (ss_sessions s)) s
           (snd (fanInboundMessage E session mg mid kind ct content ts s))"
    and "no_wake s (snd (fanInboundMessage E session mg mid kind ct content ts s))"
    and "\<exists>n. fst (fanInboundMessage E session mg mid kind ct content ts s) = Inr n"
  using fanEcho_effect(1) [where s = s] fanEcho_effect(2) [where s = s]
  by (auto simp: fanInboundMessage_def snd_catch_return fst_catch_return io_return_def touches_def no_wake_def
      split: prod.split)

lemma backfillNewSession_effect:
  fixes s :: "'z sess_db_scheme"
  shows "touches {(ag_id g, s_id session)} s (snd (backfillNewSession E g session mg s))"
    and "no_wake s (snd (backfillNewSession E g session mg s))"
    and "fst (backfillNewSession E g session mg s) = Inr ()"
proof -
  have keep: "keeps P (backfillNewSession E g session mg :: ('z sess_db_scheme, unit) sm)"
    if rel: "reflp P" "transp P" and w: "\<And>surface label rows. keeps P (write_backfill E (ag_id g) (s_id session) surface label 0 rows)"
    for P
    unfolding backfillNewSession_def
    by (auto simp: Let_def intro!: keeps_intros rel w split: sum.split)
  show "touches {(ag_id g, s_id session)} s (snd (backfillNewSession E g session mg s))"
    using keep [OF touches_rel keeps_write_backfill(1)] by (auto simp: keeps_def)
  show "no_wake s (snd (backfillNewSession E g session mg s))"
    using keep [OF no_wake_rel keeps_write_backfill(2)] by (auto simp: keeps_def)
  show "fst (backfillNewSession E g session mg s) = Inr ()"
    using fst_catch_return [where 'a = unit] by (auto simp: backfillNewSession_def io_return_def)
qed

subsection \<open>Properties\<close>


text \<open>An echo nobody has handled yet.\<close>

definition pending_echo :: "inbound_record \<Rightarrow> bool" where
  "pending_echo r \<longleftrightarrow> ir_channelType r = Some ECHO_CHANNEL_TYPE \<and> ir_status r = MsgPending"

text \<open>
  C39. Pruning leaves at most fifty pending echoes in a mailbox whose messages are numbered, and removes
  nothing else: every message that is no pending echo stays where it was.
\<close>

theorem echo_backlog_bounded:
  assumes "distinct (map ir_sequence (mb_in mb))" "None \<notin> set (map ir_sequence (mb_in mb))"
  shows "length (filter pending_echo (mb_in (snd (pruneEchoBacklog ck mb)))) \<le> ECHO_BACKLOG_CAP \<and>
         filter (\<lambda>r. \<not> pending_echo r) (mb_in (snd (pruneEchoBacklog ck mb))) = filter (\<lambda>r. \<not> pending_echo r) (mb_in mb)"
proof (rule conjI)
  define before where "before = toISOString (ck_now ck - ECHO_MAX_AGE_DAYS * 24 * 60 * 60 * 1000)"
  define old where "old r \<longleftrightarrow> pending_echo r \<and> (case (ck_datetime ck (ir_timestamp r), ck_datetime ck before) of
                                 (Some t, Some b) \<Rightarrow> t < b | _ \<Rightarrow> False)" for r
  define rows where "rows = delete_where old (mb_in mb)"
  define kept where "kept = map ir_sequence (take ECHO_BACKLOG_CAP (by_seq_desc (filter pending_echo rows)))"
  define over where "over r \<longleftrightarrow> pending_echo r \<and> sql_not_in (ir_sequence r) kept" for r
  have res: "mb_in (snd (pruneEchoBacklog ck mb)) = delete_where over rows"
    by (simp add: pruneEchoBacklog_def prunePendingMessages_def Let_def over_def [abs_def] kept_def rows_def
        old_def [abs_def] before_def pending_echo_def [abs_def])
  have rows_sub: "set rows \<subseteq> set (mb_in mb)" by (auto simp: rows_def)
  have no_null: "None \<notin> set kept"
    using assms(2) rows_sub by (auto simp: kept_def by_seq_desc_def dest!: in_set_takeD)
  have numbered: "\<forall>r \<in> set rows. ir_sequence r \<noteq> None"
    using assms(2) rows_sub by (metis image_eqI list.set_map subsetD)
  have in_kept: "r \<in> set (filter pending_echo (delete_where over rows)) \<Longrightarrow> ir_sequence r \<in> set kept" for r
    using numbered no_null by (auto simp: over_def sql_not_in_def)
  have "distinct (map ir_sequence (filter pending_echo (delete_where over rows)))"
    using assms(1) by (simp add: rows_def delete_where_def distinct_map_filter)
  then have "length (filter pending_echo (delete_where over rows)) =
      card (ir_sequence ` set (filter pending_echo (delete_where over rows)))"
    by (metis distinct_card length_map list.set_map)
  also have "\<dots> \<le> card (set kept)" by (rule card_mono) (use in_kept in auto)
  also have "\<dots> \<le> ECHO_BACKLOG_CAP" using card_length [of kept] by (simp add: kept_def)
  finally show "length (filter pending_echo (mb_in (snd (pruneEchoBacklog ck mb)))) \<le> ECHO_BACKLOG_CAP"
    by (simp only: res)
  show "filter (\<lambda>r. \<not> pending_echo r) (mb_in (snd (pruneEchoBacklog ck mb))) = filter (\<lambda>r. \<not> pending_echo r) (mb_in mb)"
    unfolding res rows_def delete_where_def filter_filter by (rule filter_cong) (auto simp: over_def old_def)
qed

definition demo_backlog :: mailbox where
  "demo_backlog = snd (inbound_insertMessage (demo_inbound ''a'')
     (snd (inbound_insertMessage (to_session_js (session_write ''e'' ''2023-11-01T00:00:00.000Z'' None (Raw ''x'') None))
       empty_mailbox)))"

text \<open>The echo is older than a week and goes, the message of the chat stays.\<close>

lemma echo_backlog_bounded_witness:
  "map ir_id (mb_in demo_backlog) = [''e'', ''a''] \<and>
   map ir_id (mb_in (snd (pruneEchoBacklog demo_clock demo_backlog))) = [''a''] \<and>
   length (filter pending_echo (mb_in (snd (pruneEchoBacklog demo_clock demo_backlog)))) \<le> ECHO_BACKLOG_CAP"
proof -
  have "map ir_sequence (mb_in demo_backlog) = [Some 2, Some 4]" by code_simp
  then have "distinct (map ir_sequence (mb_in demo_backlog))" "None \<notin> set (map ir_sequence (mb_in demo_backlog))"
    by simp_all
  from echo_backlog_bounded [OF this, of demo_clock, THEN conjunct1]
  show ?thesis by (intro conjI) (code_simp, code_simp, assumption)
qed

end
