(* ===== verification/CommandGate.thy ===== *)
theory CommandGate
  imports ChannelDefaults Permissions
begin

text \<open>
  Slash commands (\<open>src/slash-command.ts\<close>, shared by the host and the runner) and the gate in front
  of them (\<open>src/command-gate.ts\<close>), with the commands the Claude contract declares
  (\<open>src/provider-contracts/claude.ts\<close>).  \<open>toLowerCase\<close> and white space are those of ASCII.
\<close>

subsection \<open>Naming the command\<close>

definition commandText :: "jtext \<Rightarrow> string" where
  "commandText content =
     (case content of
        Raw s \<Rightarrow> js_trim s
      | Json v \<Rightarrow> (case v of JObj ps \<Rightarrow> (case own ps ''text'' of JStr t \<Rightarrow> js_trim t | _ \<Rightarrow> []) | _ \<Rightarrow> []))"

text \<open>\<open>text.split(/\s/)[0]\<close>.\<close>

definition first_token :: "string \<Rightarrow> string" where
  "first_token text = takeWhile (\<lambda>c. \<not> js_space c) text"

definition command_char :: "char \<Rightarrow> bool" where
  "command_char c \<longleftrightarrow> \<not> js_space c \<and> c \<noteq> CHR ''/'' \<and> c \<noteq> CHR ''@''"

text \<open>A match of \<open>^(\/[^\s/@]+)@\w+$\<close> is replaced by its group.\<close>

definition drop_bot_suffix :: "string \<Rightarrow> string" where
  "drop_bot_suffix token =
     (case token of
        [] \<Rightarrow> token
      | c # cs \<Rightarrow>
         (let name = takeWhile command_char cs
          in if c = CHR ''/'' \<and> name \<noteq> [] \<and>
                (case dropWhile command_char cs of
                   [] \<Rightarrow> False
                 | d # w \<Rightarrow> d = CHR ''@'' \<and> w \<noteq> [] \<and> list_all word_char w)
             then c # name else token))"

definition commandToken :: "string \<Rightarrow> string" where
  "commandToken text = drop_bot_suffix (first_token text)"

definition slashCommandName :: "string \<Rightarrow> string option" where
  "slashCommandName text =
     (if prefix ''/'' text then Some (map lower_char (commandToken text)) else None)"

definition withoutBotSuffix :: "string \<Rightarrow> string" where
  "withoutBotSuffix text =
     (if prefix ''/'' text then commandToken text @ drop (length (first_token text)) text else text)"

subsection \<open>The gate\<close>

text \<open>\<open>GateDeny c\<close> carries the command that needs an admin.\<close>

datatype gate_result = GatePass | GateFilter | GateDeny string

record command_declaration =
  cd_nativeFiltered :: "string list"
  cd_nativeAdmin :: "string list"

definition claude_commands :: command_declaration where
  "claude_commands =
     \<lparr>cd_nativeFiltered = [''/start'', ''/help'', ''/login'', ''/logout'', ''/doctor'', ''/checkup'', ''/config'',
                           ''/settings'', ''/remote-control'', ''/rc''],
      cd_nativeAdmin = [''/compact'', ''/context'', ''/cost'', ''/usage'', ''/stats'', ''/files'', ''/reset'', ''/new'']\<rparr>"

definition FILTERED_COMMANDS :: "command_declaration list \<Rightarrow> string list" where
  "FILTERED_COMMANDS contracts = concat (map cd_nativeFiltered contracts)"

definition ADMIN_COMMANDS :: "command_declaration list \<Rightarrow> string list" where
  "ADMIN_COMMANDS contracts = [''/clear'', ''/upload-trace''] @ concat (map cd_nativeAdmin contracts)"

definition isAdmin :: "perm_db \<Rightarrow> string option \<Rightarrow> string \<Rightarrow> bool" where
  "isAdmin db u ag = (case u of None \<Rightarrow> False | Some uid \<Rightarrow> uid \<noteq> [] \<and> hasAdminPrivilege db uid ag)"

definition gateCommand ::
    "command_declaration list \<Rightarrow> perm_db \<Rightarrow> jtext \<Rightarrow> string option \<Rightarrow> string \<Rightarrow> gate_result" where
  "gateCommand contracts db content u ag =
     (case slashCommandName (commandText content) of
        None \<Rightarrow> GatePass
      | Some command \<Rightarrow>
         (if command \<in> set (FILTERED_COMMANDS contracts) then GateFilter
          else if command \<in> set (ADMIN_COMMANDS contracts)
          then (if isAdmin db u ag then GatePass else GateDeny command)
          else GatePass))"

subsection \<open>The runner\<close>

text \<open>
  What the runner takes a chat message for (\<open>categorizeMessage\<close> and \<open>isClearCommand\<close> of
  \<open>container/agent-runner/src/formatter.ts\<close>), by its channel type and content: a category, the
  command, and the text it hands to the agent.
\<close>

datatype command_category = CatAdmin | CatFiltered | CatPassthrough | CatNone

definition SESSION_ECHO_CHANNEL :: string where
  "SESSION_ECHO_CHANNEL = ''session-echo''"

definition RUNNER_ADMIN_COMMANDS :: "string list" where
  "RUNNER_ADMIN_COMMANDS = [''/clear'', ''/compact'', ''/context'', ''/cost'', ''/usage'', ''/stats'', ''/files'',
     ''/upload-trace'', ''/reset'', ''/new'']"

definition RUNNER_FILTERED_COMMANDS :: "string list" where
  "RUNNER_FILTERED_COMMANDS = [''/help'', ''/login'', ''/logout'', ''/doctor'', ''/checkup'', ''/config'',
     ''/settings'', ''/start'', ''/remote-control'', ''/rc'']"

definition categorizeMessage :: "string option \<Rightarrow> jtext \<Rightarrow> command_category \<times> string \<times> string" where
  "categorizeMessage channelType content =
     (let t = commandText content
      in case (if channelType = Some SESSION_ECHO_CHANNEL then None else slashCommandName t) of
           None \<Rightarrow> (CatNone, [], t)
         | Some command \<Rightarrow>
            ((if command \<in> set RUNNER_ADMIN_COMMANDS then CatAdmin
              else if command \<in> set RUNNER_FILTERED_COMMANDS then CatFiltered else CatPassthrough),
             command, withoutBotSuffix t))"

definition isClearCommand :: "string option \<Rightarrow> jtext \<Rightarrow> bool" where
  "isClearCommand channelType content =
     (if channelType = Some SESSION_ECHO_CHANNEL then False
      else slashCommandName (commandText content) = Some ''/clear'')"

definition isRunnerCommand :: "string \<Rightarrow> string option \<Rightarrow> jtext \<Rightarrow> bool" where
  "isRunnerCommand kind channelType content =
     (if kind \<noteq> ''chat'' \<and> kind \<noteq> ''chat-sdk'' then False
      else fst (categorizeMessage channelType content) \<in> {CatAdmin, CatPassthrough})"

subsection \<open>Lemmas\<close>

lemma first_token_append:
  "list_all (\<lambda>c. \<not> js_space c) t \<Longrightarrow> (case rest of [] \<Rightarrow> True | c # _ \<Rightarrow> js_space c) \<Longrightarrow> first_token (t @ rest) = t"
  by (induction t) (auto simp: first_token_def split: list.splits)

lemma first_token_plain: "list_all (\<lambda>c. \<not> js_space c) (first_token text)"
  by (auto simp: first_token_def list_all_iff dest: set_takeWhileD)

lemma text_split: "text = first_token text @ drop (length (first_token text)) text"
  by (simp add: first_token_def flip: dropWhile_eq_drop)

lemma rest_space:
  "case drop (length (first_token text)) text of [] \<Rightarrow> True | c # _ \<Rightarrow> js_space c"
proof -
  have "drop (length (first_token text)) text = dropWhile (\<lambda>c. \<not> js_space c) text"
    by (simp add: first_token_def dropWhile_eq_drop)
  then show ?thesis by (auto simp: dropWhile_eq_Cons_conv split: list.split)
qed

lemma drop_bot_suffix_cases:
  "drop_bot_suffix token = token \<or>
   (\<exists>name w. token = CHR ''/'' # name @ CHR ''@'' # w \<and> name \<noteq> [] \<and> list_all command_char name \<and>
             drop_bot_suffix token = CHR ''/'' # name)"
proof (cases token)
  case (Cons c cs)
  have "cs = takeWhile command_char cs @ dropWhile command_char cs" by simp
  moreover have "list_all command_char (takeWhile command_char cs)"
    by (auto simp: list_all_iff dest: set_takeWhileD)
  ultimately show ?thesis
    using Cons by (cases "dropWhile command_char cs") (force simp: drop_bot_suffix_def Let_def)+
qed (simp add: drop_bot_suffix_def)

lemma drop_bot_suffix_name: "list_all command_char name \<Longrightarrow> drop_bot_suffix (CHR ''/'' # name) = CHR ''/'' # name"
  by (simp add: drop_bot_suffix_def Let_def list_all_iff)

lemma drop_bot_suffix_idem [simp]: "drop_bot_suffix (drop_bot_suffix token) = drop_bot_suffix token"
  using drop_bot_suffix_cases [of token] drop_bot_suffix_name by metis

lemma drop_bot_suffix_head: "prefix ''/'' (drop_bot_suffix token) \<longleftrightarrow> prefix ''/'' token"
  using drop_bot_suffix_cases [of token] by (elim disjE exE conjE) simp_all

lemma drop_bot_suffix_plain:
  "list_all (\<lambda>c. \<not> js_space c) token \<Longrightarrow> list_all (\<lambda>c. \<not> js_space c) (drop_bot_suffix token)"
  using drop_bot_suffix_cases [of token] by (elim disjE exE conjE) simp_all

lemma first_token_dropped:
  "first_token (drop_bot_suffix (first_token text) @ drop (length (first_token text)) text) =
   drop_bot_suffix (first_token text)"
  by (rule first_token_append [OF drop_bot_suffix_plain [OF first_token_plain] rest_space])

lemma withoutBotSuffix_name: "slashCommandName (withoutBotSuffix t) = slashCommandName t"
proof (cases "prefix ''/'' t")
  case True
  then have "prefix ''/'' (first_token t)"
    by (cases t) (auto simp: first_token_def js_space_def)
  then have "prefix ''/'' (commandToken t)" by (simp add: commandToken_def drop_bot_suffix_head)
  then have "prefix ''/'' (withoutBotSuffix t)" by (simp add: withoutBotSuffix_def True prefix_append prefixI)
  moreover have "commandToken (withoutBotSuffix t) = commandToken t"
    using first_token_dropped [of t] by (simp add: withoutBotSuffix_def True commandToken_def)
  ultimately show ?thesis by (simp add: slashCommandName_def True)
qed (simp add: slashCommandName_def withoutBotSuffix_def)

lemma slashCommandName_Some: "slashCommandName t = Some c \<Longrightarrow> prefix ''/'' t"
  by (simp add: slashCommandName_def split: if_splits)

lemma runner_lists:
  "set RUNNER_ADMIN_COMMANDS = set (ADMIN_COMMANDS [claude_commands])"
  "set RUNNER_FILTERED_COMMANDS = set (FILTERED_COMMANDS [claude_commands])"
  by (auto simp: RUNNER_ADMIN_COMMANDS_def ADMIN_COMMANDS_def RUNNER_FILTERED_COMMANDS_def FILTERED_COMMANDS_def
      claude_commands_def)

subsection \<open>Properties\<close>

text \<open>
  C31. The gate decides on exactly the command the runner would run.  A message the gate lets through
  is, for the runner, no filtered command, and an admin command only if its sender is an owner or an
  admin of the agent; the text the runner hands on names the same command as the text that was gated.
\<close>
theorem gate_covers_runner:
  assumes "gateCommand [claude_commands] db content u ag = GatePass"
  shows "fst (categorizeMessage channelType content) \<noteq> CatFiltered \<and>
         (fst (categorizeMessage channelType content) = CatAdmin \<longrightarrow>
           (\<exists>uid. u = Some uid \<and> hasAdminPrivilege db uid ag)) \<and>
         (isClearCommand channelType content \<longrightarrow> (\<exists>uid. u = Some uid \<and> hasAdminPrivilege db uid ag)) \<and>
         slashCommandName (snd (snd (categorizeMessage channelType content))) = slashCommandName (commandText content)"
proof (intro conjI impI)
  note defs = gateCommand_def categorizeMessage_def Let_def runner_lists isAdmin_def
  have disjoint: "c \<notin> set (FILTERED_COMMANDS [claude_commands])" if "c \<in> set (ADMIN_COMMANDS [claude_commands])" for c
    using that by (auto simp: ADMIN_COMMANDS_def FILTERED_COMMANDS_def claude_commands_def)
  show "fst (categorizeMessage channelType content) \<noteq> CatFiltered"
    using assms by (auto simp: defs split: option.splits if_splits)
  show "\<exists>uid. u = Some uid \<and> hasAdminPrivilege db uid ag" if "fst (categorizeMessage channelType content) = CatAdmin"
    using that assms disjoint by (auto simp: defs split: option.splits if_splits)
  show "\<exists>uid. u = Some uid \<and> hasAdminPrivilege db uid ag" if "isClearCommand channelType content"
    using that assms disjoint [of "''/clear''"]
    by (auto simp: defs isClearCommand_def ADMIN_COMMANDS_def split: option.splits if_splits)
  show "slashCommandName (snd (snd (categorizeMessage channelType content))) = slashCommandName (commandText content)"
    by (simp add: categorizeMessage_def Let_def withoutBotSuffix_name split: option.split)
qed

text \<open>The owner may clear, also with the bot's name behind the command.\<close>

lemma gate_covers_runner_witness:
  "let db = \<lparr>pd_users = [], pd_roles = [\<lparr>ur_user_id = ''t:1'', ur_role = Owner, ur_agent_group_id = None,
               ur_granted_by = None, ur_granted_at = Iso 0\<rparr>], pd_members = []\<rparr>;
       content = Json (JObj [(''text'', JStr ''/Clear@my_bot now'')])
   in gateCommand [claude_commands] db content (Some ''t:1'') ''a'' = GatePass \<and>
      gateCommand [claude_commands] db content (Some ''t:2'') ''a'' = GateDeny ''/clear'' \<and>
      categorizeMessage (Some ''telegram'') content = (CatAdmin, ''/clear'', ''/Clear now'') \<and>
      hasAdminPrivilege db ''t:1'' ''a''"
  (is "let db = ?db; content = ?c in _")
proof -
  have 1: "gateCommand [claude_commands] ?db ?c (Some ''t:1'') ''a'' = GatePass" by code_simp
  have 2: "gateCommand [claude_commands] ?db ?c (Some ''t:2'') ''a'' = GateDeny ''/clear''" by code_simp
  have 3: "categorizeMessage (Some ''telegram'') ?c = (CatAdmin, ''/clear'', ''/Clear now'')" by code_simp
  from gate_covers_runner [OF 1, of "Some ''telegram''"] 3 have "hasAdminPrivilege ?db ''t:1'' ''a''" by simp
  with 1 2 3 show ?thesis unfolding Let_def by blast
qed

end
