(* ===== verification/AgentGroups.thy ===== *)
theory AgentGroups
  imports Types
begin

text \<open>
  The table of agent groups (\<open>src/db/agent-groups.ts\<close>).  The id is its primary key and the folder is
  unique.
\<close>

definition createAgentGroup :: "agent_group \<Rightarrow> agent_group list \<Rightarrow> agent_group list res" where
  "createAgentGroup g groups =
     (if \<exists>r \<in> set groups. ag_id r = ag_id g \<or> ag_folder r = ag_folder g then Inl UniqueViolation
      else Inr (groups @ [g]))"

definition getAgentGroup :: "string \<Rightarrow> agent_group list \<Rightarrow> agent_group option" where
  "getAgentGroup i groups = find (\<lambda>g. ag_id g = i) groups"

definition getAgentGroupByFolder :: "string \<Rightarrow> agent_group list \<Rightarrow> agent_group option" where
  "getAgentGroupByFolder folder groups = find (\<lambda>g. ag_folder g = folder) groups"

text \<open>\<open>ORDER BY name\<close> compares bytes; rows with equal names keep the order of the table.\<close>

definition getAllAgentGroups :: "agent_group list \<Rightarrow> agent_group list" where
  "getAllAgentGroups groups = sort_key (\<lambda>g. map (of_char :: char \<Rightarrow> nat) (ag_name g)) groups"

text \<open>A field that is left out stays as it is.\<close>

record agent_group_update =
  au_name :: "string option"
  au_agent_provider :: "string option option"

definition updateAgentGroup :: "string \<Rightarrow> agent_group_update \<Rightarrow> agent_group list \<Rightarrow> agent_group list" where
  "updateAgentGroup i u groups =
     update_where (\<lambda>g. ag_id g = i)
       (\<lambda>g. g\<lparr>ag_name := (case au_name u of Some n \<Rightarrow> n | None \<Rightarrow> ag_name g),
              ag_agent_provider := (case au_agent_provider u of Some p \<Rightarrow> p | None \<Rightarrow> ag_agent_provider g)\<rparr>) groups"

definition deleteAgentGroup :: "string \<Rightarrow> agent_group list \<Rightarrow> agent_group list" where
  "deleteAgentGroup i groups = delete_where (\<lambda>g. ag_id g = i) groups"

text \<open>Ids and folders stay distinct.\<close>

definition groups_ok :: "agent_group list \<Rightarrow> bool" where
  "groups_ok groups \<longleftrightarrow> distinct (map ag_id groups) \<and> distinct (map ag_folder groups)"

lemma createAgentGroup_ok: "groups_ok groups \<Longrightarrow> createAgentGroup g groups = Inr groups' \<Longrightarrow> groups_ok groups'"
  by (auto simp: createAgentGroup_def groups_ok_def split: if_splits) metis+

lemma updateAgentGroup_ok: "groups_ok groups \<Longrightarrow> groups_ok (updateAgentGroup i u groups)"
proof -
  have "map f (updateAgentGroup i u groups) = map f groups" if "\<And>g n p. f (g\<lparr>ag_name := n, ag_agent_provider := p\<rparr>) = f g"
    for f :: "agent_group \<Rightarrow> string"
    using that by (simp add: updateAgentGroup_def update_where_def)
  then show "groups_ok groups \<Longrightarrow> ?thesis" by (simp add: groups_ok_def)
qed

lemma deleteAgentGroup_ok: "groups_ok groups \<Longrightarrow> groups_ok (deleteAgentGroup i groups)"
  by (auto simp: deleteAgentGroup_def delete_where_def groups_ok_def distinct_map_filter)

end
