(* ===== verification/Router.thy ===== *)
theory Router
  imports CrossSession CommandGate SenderAdmission AgentGroups
begin

text \<open>
  Routing of an inbound message (\<open>src/router.ts\<close>): interceptors, the thread policy of the channel,
  the chat and its wirings, the sender, and for each wired agent whether it engages, whether the
  gates let the sender through, and the delivery into a session.  The hooks are those the permissions
  module registers (\<open>SenderAdmission\<close>).  The state adds the central database and a log of what is
  handed to the outside: messages for the delivery adapter, wakes, typing indicators,
  subscriptions, registration requests of a new chat.  A task that is not awaited runs when it is
  started, and its failure is only logged.
\<close>

subsection \<open>State and environment\<close>

datatype route_event =
    Sent outgoing
  | Woken string
  | TypingStarted string
  | TypingStopped string
  | Subscribed string string
  | ChannelRequested string
  | SessionCreated string

record route_db = sess_db +
  rt_gate :: gate_db
  rt_log :: "route_event list"

text \<open>
  Of the outside: the registered interceptors and contracts, whether a pattern matches a text
  (\<open>None\<close> when the regular expression does not compile, \<open>Some None\<close> when it runs out of time),
  whether waking a session's container succeeds, and the fresh ids of a gate's flow.
\<close>

record route_env =
  re_sess :: sess_env
  re_registry :: registry
  re_delivery :: bool
  re_contracts :: "command_declaration list"
  re_interceptors :: "(inbound_event \<Rightarrow> (route_db, bool) sm) list"
  re_test :: "string \<Rightarrow> string \<Rightarrow> bool option option"
  re_wake :: "string \<Rightarrow> bool"
  re_subscribes :: "string \<Rightarrow> bool"
  re_flow_ids :: "string \<Rightarrow> string list"

definition log_event :: "route_event \<Rightarrow> (route_db, unit) sm" where
  "log_event e = io_modify (\<lambda>s. s\<lparr>rt_log := rt_log s @ [e]\<rparr>)"

definition on_gate :: "(gate_db \<Rightarrow> gate_db) \<Rightarrow> (route_db, unit) sm" where
  "on_gate f = io_modify (\<lambda>s. s\<lparr>rt_gate := f (rt_gate s)\<rparr>)"

text \<open>A step on the central database that may throw and sends messages.\<close>

definition gate_step :: "(gate_db \<Rightarrow> ('a \<times> gate_db \<times> outgoing list) res) \<Rightarrow> (route_db, 'a) sm" where
  "gate_step f s =
     (case f (rt_gate s) of
        Inl e \<Rightarrow> (Inl e, s)
      | Inr (x, db, out) \<Rightarrow> (Inr x, s\<lparr>rt_gate := db, rt_log := rt_log s @ map Sent out\<rparr>))"

subsection \<open>Who engages\<close>

definition safeEngagePatternTest :: "route_env \<Rightarrow> string \<Rightarrow> string \<Rightarrow> bool" where
  "safeEngagePatternTest E pattern t =
     (case re_test E pattern t of
        Some (Some b) \<Rightarrow> b
      | Some None \<Rightarrow> False
      | None \<Rightarrow> True)"

definition evaluateEngage ::
    "route_env \<Rightarrow> messaging_group_agent \<Rightarrow> js \<Rightarrow> bool \<Rightarrow> messaging_group \<Rightarrow> string option \<Rightarrow> session_row list \<Rightarrow> bool" where
  "evaluateEngage E w t isMention mg thread rows =
     (case ma_engage_mode w of
        Pattern \<Rightarrow>
          (let pat = (case ma_engage_pattern w of Some p \<Rightarrow> p | None \<Rightarrow> ''.'')
           in if pat = ''.'' then True else safeEngagePatternTest E pat (js_to_string t))
      | Mention \<Rightarrow> isMention
      | MentionSticky \<Rightarrow>
          (if isMention then True
           else if \<not> mg_is_group mg then False
           else findSessionForAgent (ma_agent_group_id w) (mg_id mg) thread rows \<noteq> None))"

definition messageIdForAgent :: "string \<Rightarrow> string \<Rightarrow> (route_db, string) sm" where
  "messageIdForAgent baseId ag =
     (if baseId \<noteq> [] then io_return (baseId @ '':'' @ ag)
      else io_bind draw (\<lambda>tok. io_return (''msg-'' @ tok @ '':'' @ ag)))"

subsection \<open>Delivery to one agent\<close>

definition effective_mode :: "messaging_group_agent \<Rightarrow> messaging_group \<Rightarrow> bool \<Rightarrow> session_mode" where
  "effective_mode w mg threadsEnabled =
     (if threadsEnabled \<and> ma_session_mode w \<noteq> AgentShared \<and> mg_is_group mg then PerThread else ma_session_mode w)"

definition delivery_addr :: "inbound_event \<Rightarrow> string option \<Rightarrow> delivery_address" where
  "delivery_addr ev thread =
     (case ie_replyTo ev of
        Some a \<Rightarrow> a
      | None \<Rightarrow> \<lparr>da_channelType = ie_channelType ev, da_platformId = ie_platformId ev, da_threadId = thread\<rparr>)"

definition inbound_write_of :: "inbound_event \<Rightarrow> delivery_address \<Rightarrow> string \<Rightarrow> bool \<Rightarrow> to_session" where
  "inbound_write_of ev addr i wake =
     \<lparr>ts_id = i, ts_kind = im_kind (ie_message ev), ts_timestamp = stamp_text (im_timestamp (ie_message ev)),
      ts_platformId = Some (da_platformId addr), ts_channelType = Some (da_channelType addr),
      ts_threadId = da_threadId addr, ts_content = im_content (ie_message ev),
      ts_processAfter = None, ts_recurrence = None, ts_trigger = wake, ts_sourceSessionId = None,
      ts_onWake = False\<rparr>"

definition denial :: "string \<Rightarrow> delivery_address \<Rightarrow> string \<Rightarrow> to_outbound" where
  "denial tok addr command =
     \<lparr>to_id = ''deny-'' @ tok, to_kind = ''chat'', to_platformId = Some (da_platformId addr),
      to_channelType = Some (da_channelType addr), to_threadId = da_threadId addr,
      to_content = JObj [(''text'', JStr (''Permission denied: '' @ command @ '' requires admin access.''))]\<rparr>"

definition wake_session :: "route_env \<Rightarrow> session_row \<Rightarrow> (route_db, unit) sm" where
  "wake_session E session =
     io_bind (log_event (TypingStarted (s_id session))) (\<lambda>_.
     io_bind (io_get (\<lambda>s. getSession (s_id session) (ss_sessions s))) (\<lambda>fresh. case fresh of
       None \<Rightarrow> io_return ()
     | Some r \<Rightarrow>
         io_bind (log_event (Woken (s_id r))) (\<lambda>_.
           if re_wake E (s_id r) then io_return () else log_event (TypingStopped (s_id r)))))"

definition store_message ::
    "route_env \<Rightarrow> agent_group \<Rightarrow> messaging_group \<Rightarrow> inbound_event \<Rightarrow> delivery_address \<Rightarrow> bool
       \<Rightarrow> session_row \<times> bool \<Rightarrow> (route_db, unit) sm" where
  "store_message E g mg ev addr wake sc =
     (let (session, created) = sc; m = ie_message ev
      in io_bind (if wake \<and> created then backfillNewSession (re_sess E) g session mg else io_return ()) (\<lambda>_.
         io_bind (messageIdForAgent (im_id m) (ag_id g)) (\<lambda>messageId.
         io_bind (writeSessionMessage (re_sess E) (s_agent_group_id session) (s_id session)
                    (inbound_write_of ev addr messageId wake)) (\<lambda>_.
         io_bind (if wake then io_bind (fanInboundMessage (re_sess E) session mg messageId (im_kind m)
                                          (da_channelType addr) (im_content m) (stamp_text (im_timestamp m)))
                                 (\<lambda>_. io_return ())
                  else io_return ()) (\<lambda>_.
         io_bind (if wake \<and> created then log_event (SessionCreated (s_id session)) else io_return ()) (\<lambda>_.
           if wake then wake_session E session else io_return ()))))))"

definition deliverToAgent ::
    "route_env \<Rightarrow> messaging_group_agent \<Rightarrow> agent_group \<Rightarrow> messaging_group \<Rightarrow> inbound_event \<Rightarrow> string option
       \<Rightarrow> bool \<Rightarrow> string option \<Rightarrow> bool \<Rightarrow> (route_db, unit) sm" where
  "deliverToAgent E w g mg ev uid threadsEnabled thread wake =
     io_bind (resolveSession (re_sess E) (ma_agent_group_id w) (Some (mg_id mg)) thread
                (effective_mode w mg threadsEnabled)) (\<lambda>(session, created).
       let addr = delivery_addr ev thread
       in io_bind (io_get (\<lambda>s.
            if im_kind (ie_message ev) = ''chat'' \<or> im_kind (ie_message ev) = ''chat-sdk''
            then gateCommand (re_contracts E) (gd_perm (rt_gate s)) (im_content (ie_message ev)) uid (ma_agent_group_id w)
            else GatePass)) (\<lambda>gate. case gate of
              GateFilter \<Rightarrow> io_return ()
            | GateDeny command \<Rightarrow>
                io_bind draw (\<lambda>tok.
                  writeOutboundDirect (re_sess E) (s_agent_group_id session) (s_id session) (denial tok addr command))
            | GatePass \<Rightarrow> store_message E g mg ev addr wake (session, created)))"

subsection \<open>Fanning out to the wired agents\<close>

text \<open>What is resolved once per message.\<close>

record route_ctx =
  rx_mg :: messaging_group
  rx_uid :: "string option"
  rx_text :: js
  rx_isMention :: bool
  rx_defaults :: channel_defaults
  rx_adapter :: "adapter option"

definition supports_threads :: "route_ctx \<Rightarrow> bool" where
  "supports_threads x = (case rx_adapter x of Some a \<Rightarrow> ap_supportsThreads a | None \<Rightarrow> False)"

definition threads_enabled :: "route_ctx \<Rightarrow> messaging_group_agent \<Rightarrow> bool" where
  "threads_enabled x w =
     resolveThreadPolicy (ma_threads w) (rx_defaults x) (mg_is_group (rx_mg x)) (supports_threads x)"

definition effective_thread :: "route_ctx \<Rightarrow> inbound_event \<Rightarrow> messaging_group_agent \<Rightarrow> string option" where
  "effective_thread x ev w = (if threads_enabled x w then ie_threadId ev else None)"

definition flow_env :: "route_env \<Rightarrow> string \<Rightarrow> gate_env" where
  "flow_env E tok = \<lparr>ge_registry = re_registry E, ge_now = ck_now (se_clock (re_sess E)),
                     ge_ids = re_flow_ids E tok, ge_adapter = re_delivery E\<rparr>"

definition access_ok :: "route_env \<Rightarrow> route_ctx \<Rightarrow> inbound_event \<Rightarrow> messaging_group_agent \<Rightarrow> (route_db, bool) sm" where
  "access_ok E x ev w =
     io_bind draw (\<lambda>tok.
     io_bind (gate_step (accessGate (flow_env E tok) ev (rx_uid x) (rx_mg x) (ma_agent_group_id w)))
       (\<lambda>refusal. io_return (refusal = None)))"

definition scope_ok :: "route_ctx \<Rightarrow> messaging_group_agent \<Rightarrow> route_db \<Rightarrow> bool" where
  "scope_ok x w s = (senderScopeGate (gd_perm (rt_gate s)) (rx_uid x) w = None)"

text \<open>
  The first sticky wiring that engages in a thread subscribes to it, when the adapter can
  (\<open>re_subscribes\<close>); the result is whether one has subscribed by now.
\<close>

definition subscribe_once ::
    "route_env \<Rightarrow> route_ctx \<Rightarrow> inbound_event \<Rightarrow> bool \<Rightarrow> messaging_group_agent \<Rightarrow> (route_db, bool) sm" where
  "subscribe_once E x ev subscribed w =
     (case (rx_adapter x, effective_thread x ev w) of
        (Some a, Some t) \<Rightarrow>
          if \<not> subscribed \<and> ma_engage_mode w = MentionSticky \<and> re_subscribes E (ap_channelType a) \<and>
             mg_is_group (rx_mg x)
          then io_bind (log_event (Subscribed (ie_platformId ev) t)) (\<lambda>_. io_return True)
          else io_return subscribed
      | _ \<Rightarrow> io_return subscribed)"

text \<open>One agent: the number of engaged and of accumulated messages, and whether it subscribed.\<close>

definition route_one ::
    "route_env \<Rightarrow> route_ctx \<Rightarrow> inbound_event \<Rightarrow> bool \<Rightarrow> messaging_group_agent \<Rightarrow> (route_db, nat \<times> nat \<times> bool) sm" where
  "route_one E x ev subscribed w =
     io_bind (io_get (\<lambda>s. getAgentGroup (ma_agent_group_id w) (gd_agents (rt_gate s)))) (\<lambda>found. case found of
       None \<Rightarrow> io_return (0, 0, subscribed)
     | Some g \<Rightarrow>
        (let thread = effective_thread x ev w; deliver = deliverToAgent E w g (rx_mg x) ev (rx_uid x) (threads_enabled x w) thread
         in io_bind (io_get (\<lambda>s. evaluateEngage E w (rx_text x) (rx_isMention x) (rx_mg x) thread (ss_sessions s))) (\<lambda>engages.
            io_bind (if engages then access_ok E x ev w else io_return False) (\<lambda>accessOk.
            io_bind (io_get (\<lambda>s. engages \<and> scope_ok x w s)) (\<lambda>scopeOk.
              if engages \<and> accessOk \<and> scopeOk
              then io_bind (deliver True) (\<lambda>_. io_bind (subscribe_once E x ev subscribed w) (\<lambda>sub. io_return (1, 0, sub)))
              else if ma_ignored_message_policy w = Accumulate \<and> \<not> (engages \<and> (\<not> accessOk \<or> \<not> scopeOk))
              then io_bind (deliver False) (\<lambda>_. io_return (0, 1, subscribed))
              else io_return (0, 0, subscribed))))))"

fun route_agents ::
    "route_env \<Rightarrow> route_ctx \<Rightarrow> inbound_event \<Rightarrow> bool \<Rightarrow> messaging_group_agent list \<Rightarrow> (route_db, nat) sm" where
  "route_agents E x ev subscribed [] = io_return 0"
| "route_agents E x ev subscribed (w # ws) =
     io_bind (route_one E x ev subscribed w) (\<lambda>(engaged, accumulated, subscribed').
     io_bind (route_agents E x ev subscribed' ws) (\<lambda>n. io_return (engaged + accumulated + n)))"

subsection \<open>routeInbound\<close>

fun run_interceptors :: "(inbound_event \<Rightarrow> (route_db, bool) sm) list \<Rightarrow> inbound_event \<Rightarrow> (route_db, bool) sm" where
  "run_interceptors [] ev = io_return False"
| "run_interceptors (i # is) ev =
     io_bind (i ev) (\<lambda>claimed. if claimed then io_return True else run_interceptors is ev)"

definition instance_key :: "inbound_event \<Rightarrow> string" where
  "instance_key ev = (case ie_instance ev of Some i \<Rightarrow> i | None \<Rightarrow> ie_channelType ev)"

definition drop_thread :: "adapter option \<Rightarrow> inbound_event \<Rightarrow> inbound_event" where
  "drop_thread adapter ev =
     (case adapter of Some a \<Rightarrow> if ap_supportsThreads a then ev else ev\<lparr>ie_threadId := None\<rparr> | None \<Rightarrow> ev)"

definition is_mention :: "inbound_event \<Rightarrow> bool" where
  "is_mention ev = (im_isMention (ie_message ev) = Some True)"

definition new_chat :: "route_env \<Rightarrow> string \<Rightarrow> inbound_event \<Rightarrow> messaging_group" where
  "new_chat E tok ev =
     \<lparr>mg_id = ''mg-'' @ tok, mg_channel_type = ie_channelType ev, mg_platform_id = ie_platformId ev,
      mg_instance = instance_key ev, mg_name = None, mg_is_group = (im_isGroup (ie_message ev) = Some True),
      mg_unknown_sender_policy = resolveUnknownSenderPolicy (re_registry E) (instance_key ev)
        (im_isGroup (ie_message ev) = Some True) (Some (ie_channelType ev)),
      mg_denied_at = None, mg_detached_at = None, mg_created_at = se_now (re_sess E)\<rparr>"

definition lookup_chat :: "inbound_event \<Rightarrow> route_db \<Rightarrow> (messaging_group \<times> nat) option" where
  "lookup_chat ev s =
     getMessagingGroupWithAgentCount (ie_channelType ev) (ie_platformId ev) (Some (instance_key ev)) (gd_chat (rt_gate s))"

text \<open>The chat and its number of wirings; \<open>None\<close> for chatter in a chat the host does not know.\<close>

definition find_or_create_chat :: "route_env \<Rightarrow> inbound_event \<Rightarrow> (route_db, (messaging_group \<times> nat) option) sm" where
  "find_or_create_chat E ev =
     io_bind (io_get (lookup_chat ev)) (\<lambda>found. case found of
       Some r \<Rightarrow> io_return (Some r)
     | None \<Rightarrow>
         if \<not> is_mention ev then io_return None
         else io_bind draw (\<lambda>tok.
              io_bind (gate_step (\<lambda>db. case createMessagingGroupIfAbsent (new_chat E tok ev) (gd_chat db) of
                   Inl e \<Rightarrow> Inl e
                 | Inr (created, chats) \<Rightarrow> Inr (created, db\<lparr>gd_chat := chats\<rparr>, []))) (\<lambda>created.
              io_bind (io_get (lookup_chat ev)) (\<lambda>resolved. case resolved of
                None \<Rightarrow> io_throw (Error ''Messaging group disappeared after first-message insert'')
              | Some r \<Rightarrow> io_return (Some r)))))"

definition drop_row ::
    "route_env \<Rightarrow> inbound_event \<Rightarrow> string option \<Rightarrow> js \<Rightarrow> string \<Rightarrow> messaging_group \<Rightarrow> dropped_row" where
  "drop_row E ev uid name reason mg =
     \<lparr>dr_channel_type = ie_channelType ev, dr_platform_id = ie_platformId ev, dr_user_id = uid,
      dr_sender_name = name, dr_reason = reason, dr_messaging_group_id = Some (mg_id mg),
      dr_agent_group_id = None, dr_message_count = 1, dr_first_seen = se_now (re_sess E),
      dr_last_seen = se_now (re_sess E)\<rparr>"

definition record_drop :: "route_env \<Rightarrow> dropped_row \<Rightarrow> (route_db, unit) sm" where
  "record_drop E row = on_gate (\<lambda>db. db\<lparr>gd_dropped := recordDroppedMessage (se_now (re_sess E)) row (gd_dropped db)\<rparr>)"

definition lift_res :: "'a res \<Rightarrow> ('s, 'a) sm" where
  "lift_res r = (case r of Inl e \<Rightarrow> io_throw e | Inr x \<Rightarrow> io_return x)"

text \<open>
  \<open>safeParseContent(content).text ?? ''\<close>.
\<close>

definition parsed_text :: "jtext \<Rightarrow> js res" where
  "parsed_text content =
     (case content of
        Raw s \<Rightarrow> Inr (JStr s)
      | Json v \<Rightarrow> bnd (js_get v ''text'') (\<lambda>t. Inr (js_coalesce t (JStr []))))"

definition no_wirings :: "route_env \<Rightarrow> inbound_event \<Rightarrow> messaging_group \<Rightarrow> (route_db, unit) sm" where
  "no_wirings E ev mg =
     (if \<not> is_mention ev \<or> mg_denied_at mg \<noteq> None then io_return ()
      else io_bind (lift_res (parsed_sender (im_content (ie_message ev)))) (\<lambda>name.
           io_bind (record_drop E (drop_row E ev None name ''no_agent_wired'' mg)) (\<lambda>_.
             log_event (ChannelRequested (mg_id mg)))))"

definition resolve_sender :: "route_env \<Rightarrow> inbound_event \<Rightarrow> (route_db, string option) sm" where
  "resolve_sender E ev = gate_step (\<lambda>db.
     case extractAndUpsertUser (se_now (re_sess E)) ev (gd_perm db) of
       Inl e \<Rightarrow> Inl e | Inr (uid, perm) \<Rightarrow> Inr (uid, db\<lparr>gd_perm := perm\<rparr>, []))"

definition route_ctx_of ::
    "route_env \<Rightarrow> adapter option \<Rightarrow> inbound_event \<Rightarrow> messaging_group \<Rightarrow> string option \<Rightarrow> js \<Rightarrow> route_ctx" where
  "route_ctx_of E adapter ev mg uid t =
     \<lparr>rx_mg = mg, rx_uid = uid, rx_text = t, rx_isMention = is_mention ev,
      rx_defaults = getChannelDefaults (re_registry E) (mg_instance mg) (Some (mg_channel_type mg)),
      rx_adapter = adapter\<rparr>"

definition route_to_agents ::
    "route_env \<Rightarrow> adapter option \<Rightarrow> inbound_event \<Rightarrow> messaging_group \<Rightarrow> (route_db, unit) sm" where
  "route_to_agents E adapter ev mg =
     io_bind (resolve_sender E ev) (\<lambda>uid.
     io_bind (io_get (\<lambda>s. getMessagingGroupAgents (mg_id mg) (gd_chat (rt_gate s)))) (\<lambda>agents.
     io_bind (lift_res (parsed_text (im_content (ie_message ev)))) (\<lambda>t.
     io_bind (route_agents E (route_ctx_of E adapter ev mg uid t) ev False agents) (\<lambda>n.
       if n = 0
       then io_bind (lift_res (parsed_sender (im_content (ie_message ev)))) (\<lambda>name.
              record_drop E (drop_row E ev uid name ''no_agent_engaged'' mg))
       else io_return ()))))"

definition routeInbound :: "route_env \<Rightarrow> inbound_event \<Rightarrow> (route_db, unit) sm" where
  "routeInbound E ev0 =
     io_bind (run_interceptors (re_interceptors E) ev0) (\<lambda>claimed.
       if claimed then io_return ()
       else let adapter = getChannelAdapter (re_registry E) (instance_key ev0); ev = drop_thread adapter ev0
            in io_bind (find_or_create_chat E ev) (\<lambda>found. case found of
                 None \<Rightarrow> io_return ()
               | Some (mg, agentCount) \<Rightarrow>
                   if agentCount = 0 then no_wirings E ev mg else route_to_agents E adapter ev mg))"

end
