(* ===== verification/RouterSafety.thy ===== *)
theory RouterSafety
  imports Router
begin

text \<open>
  What routing may change.  A delivery to one agent is made of a few primitive changes of the state;
  \<open>session_frame\<close> says that a relation allows each of them, and its lemmas that it then allows the
  whole delivery.  The instances are \<open>only_agent\<close> (no other agent's mailboxes and sessions change)
  and \<open>same_gate\<close> (the central database is left alone).
\<close>

subsection \<open>The frame of a delivery\<close>

locale session_frame =
  fixes P :: "route_db \<Rightarrow> route_db \<Rightarrow> bool" and ag :: string
  assumes refl: "reflp P" and trans: "transp P"
    and mail: "P s (set_mail ag sid mb s)"
    and seen: "su_status u = None \<Longrightarrow> P s (s\<lparr>ss_sessions := updateSession i u (ss_sessions s)\<rparr>)"
    and added: "s_agent_group_id r = ag \<Longrightarrow> P s (s\<lparr>ss_sessions := ss_sessions s @ [r]\<rparr>)"
    and world: "P s (s\<lparr>ss_world := fs\<rparr>)"
    and drawn: "P s (s\<lparr>ss_drawn := n\<rparr>)"
    and logged: "P s (s\<lparr>rt_log := l\<rparr>)"
begin

lemma basic:
  "keeps P (initSessionFolder ag sid)"
  "keeps P (withMailboxSession ag sid act)"
  "su_status u = None \<Longrightarrow> keeps P (on_sessions (updateSession i u))"
  "keeps P (on_world m)"
  "keeps P draw"
  "keeps P (log_event e)"
  using mail seen world drawn logged
  by (auto simp: keeps_def initSessionFolder_def withMailboxSession_def on_sessions_def on_world_def draw_def
      log_event_def split: prod.split)

lemmas frame_intros = keeps_return [OF refl] keeps_throw [OF refl] keeps_get [OF refl] keeps_bind [OF trans]
  keeps_catch [OF trans] basic

lemma wrote: "a = ag \<Longrightarrow> keeps P (writeSessionMessage E a sid m)"
  unfolding writeSessionMessage_def by (elim ssubst, intro frame_intros) (simp add: no_update_def)

lemma direct: "a = ag \<Longrightarrow> keeps P (writeOutboundDirect E a sid m)"
  unfolding writeOutboundDirect_def by (elim ssubst, rule basic)

lemma fan: "ei_agentGroupId i = ag \<Longrightarrow> keeps P (fan_loop E i targets)"
  by (induction targets) (auto intro!: frame_intros wrote)

lemma fanned: "s_agent_group_id session = ag \<Longrightarrow> keeps P (fanInboundMessage E session mg mid kind ct content ts)"
  by (auto simp: fanInboundMessage_def fanEcho_def intro!: frame_intros fan split: prod.split)

lemma backfill_rows: "a = ag \<Longrightarrow> keeps P (write_backfill E a sid surface label i rows)"
  by (induction rows arbitrary: i) (auto intro!: frame_intros wrote split: sum.split)

lemma backfilled: "ag_id g = ag \<Longrightarrow> keeps P (backfillNewSession E g session mg)"
  by (auto simp: backfillNewSession_def Let_def intro!: frame_intros backfill_rows split: sum.split)

lemma named: "keeps P (messageIdForAgent baseId a)"
  by (auto simp: messageIdForAgent_def intro!: frame_intros)

lemma woken: "keeps P (wake_session E session)"
  by (auto simp: wake_session_def intro!: frame_intros split: option.split)

lemma stored:
  "s_agent_group_id (fst sc) = ag \<Longrightarrow> ag_id g = ag \<Longrightarrow> keeps P (store_message E g mg ev addr wake sc)"
  by (auto simp: store_message_def Let_def intro!: frame_intros wrote fanned backfilled named woken split: prod.split)

lemma adopted:
  assumes "rows = ss_sessions s \<or> (\<exists>r. s_agent_group_id r = ag \<and> rows = ss_sessions s @ [r])"
  shows "P s (snd (adopt ag (Inr (x, c, rows)) s))"
proof -
  have 1: "P s (s\<lparr>ss_sessions := rows\<rparr>)" using assms added reflpD [OF refl] by auto
  have "P (s\<lparr>ss_sessions := rows\<rparr>) (snd (io_bind (if c then initSessionFolder ag (s_id x) else io_return ())
      (\<lambda>_. io_return (x, c)) (s\<lparr>ss_sessions := rows\<rparr>)))"
  proof -
    have "keeps P (io_bind (if c then initSessionFolder ag (s_id x) else io_return ()) (\<lambda>_. io_return (x, c)))"
      by (auto intro!: frame_intros)
    then show ?thesis by (simp add: keeps_def)
  qed
  from transpD [OF trans 1 this] show ?thesis by (simp add: adopt_def on_sessions_def)
qed

lemma inserted_rows:
  "resolve_insert i now ag mg thread mode rows = Inr (x, c, rows') \<Longrightarrow>
   rows' = rows \<or> (\<exists>r. s_agent_group_id r = ag \<and> rows' = rows @ [r])"
  by (auto simp: resolve_insert_def Let_def new_session_def dest!: createSession_cases
      split: sum.splits if_splits option.splits)

lemma resolved: "keeps P (resolveSession E ag mg thread mode)"
  unfolding keeps_def
proof
  fix s
  show "P s (snd (resolveSession E ag mg thread mode s))"
  proof (cases "resolve_lookup ag mg thread mode (ss_sessions s)")
    case None
    let ?s1 = "s\<lparr>ss_drawn := Suc (ss_drawn s)\<rparr>"
    let ?r = "resolve_insert (''sess-'' @ ss_token s (ss_drawn s)) (se_now E) ag mg thread mode (ss_sessions s)"
    have "P ?s1 (snd (adopt ag ?r ?s1))"
    proof (cases ?r)
      case (Inl e)
      then show ?thesis using reflpD [OF refl] by (simp add: adopt_def io_throw_def)
    next
      case (Inr t)
      then obtain x c rows where t: "t = (x, c, rows)" by (cases t) auto
      show ?thesis unfolding Inr t by (rule adopted) (use inserted_rows [OF Inr [unfolded t]] in simp)
    qed
    with drawn [of s] transpD [OF trans] show ?thesis
      by (fastforce simp: resolveSession_def None draw_def io_bind_def)
  qed (use reflpD [OF refl] in \<open>simp add: resolveSession_def io_return_def\<close>)
qed

lemma delivered:
  assumes "ma_agent_group_id w = ag" "ag_id g = ag"
  shows "keeps P (deliverToAgent E w g mg ev uid threads thread wake)"
  unfolding deliverToAgent_def assms(1)
proof (rule keeps_bind_post [OF trans resolved])
  fix s sc s'
  assume r: "resolveSession (re_sess E) ag (Some (mg_id mg)) thread (effective_mode w mg threads) s = (Inr sc, s')"
  obtain x c where sc: "sc = (x, c)" by (cases sc)
  have "s_agent_group_id x = ag" using r unfolding sc by (rule resolve_agent)
  then show "keeps P (case sc of (session, created) \<Rightarrow>
       let addr = delivery_addr ev thread
       in io_bind (io_get (\<lambda>s.
            if im_kind (ie_message ev) = ''chat'' \<or> im_kind (ie_message ev) = ''chat-sdk''
            then gateCommand (re_contracts E) (gd_perm (rt_gate s)) (im_content (ie_message ev)) uid ag
            else GatePass)) (\<lambda>gate. case gate of
              GateFilter \<Rightarrow> io_return ()
            | GateDeny command \<Rightarrow>
                io_bind draw (\<lambda>tok.
                  writeOutboundDirect (re_sess E) (s_agent_group_id session) (s_id session) (denial tok addr command))
            | GatePass \<Rightarrow> store_message E g mg ev addr wake (session, created)))"
    unfolding sc Let_def by (auto intro!: frame_intros direct stored simp: assms(2) split: gate_result.split)
qed

end

subsection \<open>What a delivery leaves alone\<close>

text \<open>The columns of an agent's sessions that lookups read.\<close>

definition findable :: "string \<Rightarrow> session_row list \<Rightarrow> (string option \<times> string option \<times> session_status) list" where
  "findable ag rows = map (\<lambda>r. (s_messaging_group_id r, s_thread_id r, s_status r))
                        (filter (\<lambda>r. s_agent_group_id r = ag) rows)"

definition same_for :: "string \<Rightarrow> route_db \<Rightarrow> route_db \<Rightarrow> bool" where
  "same_for ag s s' \<longleftrightarrow> (\<forall>sid. ss_mail s' (ag, sid) = ss_mail s (ag, sid)) \<and>
     findable ag (ss_sessions s') = findable ag (ss_sessions s)"

definition only_agent :: "string \<Rightarrow> route_db \<Rightarrow> route_db \<Rightarrow> bool" where
  "only_agent ag s s' \<longleftrightarrow> (\<forall>other. other \<noteq> ag \<longrightarrow> same_for other s s')"

definition same_gate :: "route_db \<Rightarrow> route_db \<Rightarrow> bool" where
  "same_gate s s' \<longleftrightarrow> rt_gate s' = rt_gate s"

lemma same_for_refl [simp]: "same_for ag s s"
  by (simp add: same_for_def)

lemma same_for_trans: "same_for ag s s1 \<Longrightarrow> same_for ag s1 s2 \<Longrightarrow> same_for ag s s2"
  by (simp add: same_for_def)

lemma findable_update: "su_status u = None \<Longrightarrow> findable ag (updateSession i u rows) = findable ag rows"
  by (induction rows) (simp_all add: findable_def updateSession_def update_where_def set_opt_def)

lemma findable_found:
  "findSessionForAgent ag m t rows \<noteq> None \<longleftrightarrow> (Some m, lookup_thread t, Active) \<in> set (findable ag rows)"
  by (auto simp: findSessionForAgent_def find_None_iff findable_def image_iff)

interpretation only: session_frame "only_agent ag" ag for ag
proof
  show "reflp (only_agent ag)" "transp (only_agent ag)"
    by (auto simp: reflp_def transp_def only_agent_def intro: same_for_trans)
qed (auto simp: only_agent_def same_for_def set_mail_def findable_update, auto simp: findable_def)

interpretation gate: session_frame same_gate ag for ag
  by unfold_locales (auto simp: same_gate_def reflp_def transp_def set_mail_def)

subsection \<open>Refused senders\<close>

text \<open>Whether the gates let the sender through to the agent of a wiring.\<close>

definition known_to :: "perm_db \<Rightarrow> string option \<Rightarrow> string \<Rightarrow> bool" where
  "known_to perm uid ag =
     (case uid of Some u \<Rightarrow> u \<noteq> [] \<and> access_allowed (canAccessAgentGroup perm u ag) | None \<Rightarrow> False)"

definition admits :: "perm_db \<Rightarrow> route_ctx \<Rightarrow> messaging_group_agent \<Rightarrow> bool" where
  "admits perm x w \<longleftrightarrow>
     (mg_unknown_sender_policy (rx_mg x) = Public \<or> known_to perm (rx_uid x) (ma_agent_group_id w)) \<and>
     (ma_sender_scope w = AllSenders \<or> known_to perm (rx_uid x) (ma_agent_group_id w))"

lemma scope_ok_iff:
  "scope_ok x w s \<longleftrightarrow> ma_sender_scope w = AllSenders \<or> known_to (gd_perm (rt_gate s)) (rx_uid x) (ma_agent_group_id w)"
  by (cases "rx_uid x")
    (auto simp: scope_ok_def senderScopeGate_def known_to_def split: access_decision.split)

lemma access_ok_run:
  assumes "access_ok E x ev w s = (r, s')"
  shows "ss_mail s' = ss_mail s" "ss_sessions s' = ss_sessions s" "gd_perm (rt_gate s') = gd_perm (rt_gate s)"
    and "r = Inr b \<Longrightarrow> b \<longleftrightarrow> mg_unknown_sender_policy (rx_mg x) = Public \<or>
           known_to (gd_perm (rt_gate s)) (rx_uid x) (ma_agent_group_id w)"
  using assms
  by (auto simp: access_ok_def io_bind_def draw_def gate_step_def io_return_def accessGate_perm accessGate_pass_iff
      known_to_def split: sum.splits prod.splits option.splits)

text \<open>The invariant of the fan-out, for an agent whose mailboxes are to stay as they are.\<close>

definition spared :: "string \<Rightarrow> route_db \<Rightarrow> route_db \<Rightarrow> bool" where
  "spared ag s s' \<longleftrightarrow> same_for ag s s' \<and> gd_perm (rt_gate s') = gd_perm (rt_gate s)"

lemma spared_rel [simp]: "spared ag s s" "spared ag s s1 \<Longrightarrow> spared ag s1 s2 \<Longrightarrow> spared ag s s2"
  by (auto simp: spared_def intro: same_for_trans)

lemma access_ok_spares: "access_ok E x ev w s = (r, s') \<Longrightarrow> spared ag s s'"
  using access_ok_run(1-3) by (fastforce simp: spared_def same_for_def)

lemma deliver_spares:
  assumes "ma_agent_group_id w \<noteq> ag" "ag_id g = ma_agent_group_id w"
  shows "spared ag s (snd (deliverToAgent E w g mg ev uid threads thread wake s))"
proof -
  have "only_agent (ma_agent_group_id w) s (snd (deliverToAgent E w g mg ev uid threads thread wake s))"
    using only.delivered [OF HOL.refl assms(2)] by (simp add: keeps_def)
  moreover have "same_gate s (snd (deliverToAgent E w g mg ev uid threads thread wake s))"
    using gate.delivered [OF HOL.refl assms(2)] by (simp add: keeps_def)
  ultimately show ?thesis using assms(1) by (auto simp: spared_def only_agent_def same_gate_def)
qed

lemma bind_spares:
  assumes "spared ag s (snd (m s))" "\<And>u s2. spared ag s2 (snd (f u s2))"
  shows "spared ag s (snd (io_bind m f s))"
proof -
  obtain r s1 where m: "m s = (r, s1)" by fastforce
  show ?thesis
  proof (cases r)
    case (Inr u)
    then show ?thesis using spared_rel(2) [OF _ assms(2)] assms(1) m by (simp add: io_bind_def)
  qed (use assms(1) m in \<open>simp add: io_bind_def\<close>)
qed

lemma if_spares: "spared ag s (snd (m s)) \<Longrightarrow> spared ag s (snd (m' s)) \<Longrightarrow> spared ag s (snd ((if c then m else m') s))"
  by simp

lemma log_spares [simp]: "spared ag s (s\<lparr>rt_log := l\<rparr>)"
  by (simp add: spared_def same_for_def)

definition engages_at :: "route_env \<Rightarrow> route_ctx \<Rightarrow> inbound_event \<Rightarrow> messaging_group_agent \<Rightarrow> session_row list \<Rightarrow> bool" where
  "engages_at E x ev w rows =
     evaluateEngage E w (rx_text x) (rx_isMention x) (rx_mg x) (effective_thread x ev w) rows"

lemma engages_same:
  "same_for (ma_agent_group_id w) s s' \<Longrightarrow> engages_at E x ev w (ss_sessions s') = engages_at E x ev w (ss_sessions s)"
  by (auto simp: engages_at_def evaluateEngage_def same_for_def findable_found simp del: not_None_eq split: engage_mode.split)

text \<open>A wiring of another agent, or one that engages on a sender the gates refuse, spares the agent.\<close>

lemma route_one_spares:
  assumes "ma_agent_group_id w = ag \<Longrightarrow> engages_at E x ev w (ss_sessions s) \<and> \<not> admits (gd_perm (rt_gate s)) x w"
  shows "spared ag s (snd (route_one E x ev subscribed w s))"
proof (cases "getAgentGroup (ma_agent_group_id w) (gd_agents (rt_gate s))")
  case None
  then show ?thesis by (simp add: route_one_def io_return_def)
next
  case (Some g)
  then have g: "ag_id g = ma_agent_group_id w" by (auto simp: getAgentGroup_def dest: find_SomeD)
  define engages where "engages = engages_at E x ev w (ss_sessions s)"
  define deliver where "deliver = deliverToAgent E w g (rx_mg x) ev (rx_uid x) (threads_enabled x w) (effective_thread x ev w)"
  obtain r s1 where a: "(if engages then access_ok E x ev w else io_return False) s = (r, s1)" by fastforce
  have s1: "spared ag s s1"
    using a access_ok_spares by (auto simp: io_return_def split: if_splits)
  have run: "route_one E x ev subscribed w s =
    (case (r, s1) of (Inl e, s1) \<Rightarrow> (Inl e, s1)
     | (Inr accessOk, s1) \<Rightarrow>
        (if engages \<and> accessOk \<and> scope_ok x w s1
         then io_bind (deliver True) (\<lambda>_. io_bind (subscribe_once E x ev subscribed w) (\<lambda>sub. io_return (1, 0, sub)))
         else if ma_ignored_message_policy w = Accumulate \<and> \<not> (engages \<and> (\<not> accessOk \<or> \<not> (engages \<and> scope_ok x w s1)))
         then io_bind (deliver False) (\<lambda>_. io_return (0, 1, subscribed))
         else io_return (0, 0, subscribed)) s1)"
    using a Some
    by (auto simp: route_one_def engages_def engages_at_def deliver_def Let_def io_bind_def [of _ _ s]
        split: sum.split)
  show ?thesis
  proof (cases r)
    case (Inl e)
    then show ?thesis using run s1 by simp
  next
    case (Inr b)
    show ?thesis
    proof (cases "ma_agent_group_id w = ag")
      case True
      then have e: "engages" "\<not> admits (gd_perm (rt_gate s)) x w"
        using assms by (auto simp: engages_def)
      then have acc: "access_ok E x ev w s = (Inr b, s1)" using a Inr by simp
      have "\<not> (b \<and> scope_ok x w s1)"
        using e(2) access_ok_run(3,4) [OF acc] by (auto simp: admits_def scope_ok_iff)
      then show ?thesis using run Inr e(1) s1 by (auto simp: io_return_def)
    next
      case False
      have d: "spared ag s1 (snd (deliver wake s1))" for wake
        unfolding deliver_def by (rule deliver_spares [OF False g])
      have d: "spared ag s1 (snd (io_bind (deliver wake) f s1))"
        if "\<And>u s2. spared ag s2 (snd (f u s2))" for wake and f :: "unit \<Rightarrow> (route_db, nat \<times> nat \<times> bool) sm"
        by (rule bind_spares) (rule d, rule that)
      have e: "spared ag s2 (snd (io_return v s2))" for s2 and v :: "nat \<times> nat \<times> bool" by (simp add: io_return_def)
      have sub: "spared ag s2 (snd (io_bind (subscribe_once E x ev subscribed w) (\<lambda>sub. io_return (1, 0, sub)) s2))" for s2
        by (rule bind_spares) (simp_all add: subscribe_once_def log_event_def io_return_def split: option.split)
      have "spared ag s1 (snd (route_one E x ev subscribed w s))"
        unfolding run Inr prod.case sum.case by (intro if_spares d e sub)
      then show ?thesis using s1 spared_rel(2) by blast
    qed
  qed
qed

lemma route_agents_spares:
  assumes "\<And>w. w \<in> set ws \<Longrightarrow> ma_agent_group_id w = ag \<Longrightarrow>
             engages_at E x ev w (ss_sessions s) \<and> \<not> admits (gd_perm (rt_gate s)) x w"
  shows "spared ag s (snd (route_agents E x ev subscribed ws s))"
  using assms
proof (induction ws arbitrary: s subscribed)
  case (Cons w ws)
  obtain r s1 where r: "route_one E x ev subscribed w s = (r, s1)" by fastforce
  have s1: "spared ag s s1" using route_one_spares [of w ag E x ev s subscribed] Cons.prems r by simp
  have rest: "spared ag s1 (snd (route_agents E x ev sub ws s1))" for sub
  proof (rule Cons.IH)
    fix v
    assume v: "v \<in> set ws" "ma_agent_group_id v = ag"
    have "engages_at E x ev v (ss_sessions s1) = engages_at E x ev v (ss_sessions s)"
      using s1 v(2) by (intro engages_same) (simp add: spared_def)
    moreover have "gd_perm (rt_gate s1) = gd_perm (rt_gate s)" using s1 by (simp add: spared_def)
    ultimately show "engages_at E x ev v (ss_sessions s1) \<and> \<not> admits (gd_perm (rt_gate s1)) x v"
      using Cons.prems [of v] v by simp
  qed
  have more: "snd (io_bind m (\<lambda>n. io_return (k + n)) s1) = snd (m s1)" for m :: "(route_db, nat) sm" and k
    by (simp add: io_bind_def io_return_def split: prod.split sum.split)
  show ?case
  proof (cases r)
    case (Inl e)
    then show ?thesis using s1 r by (simp add: io_bind_def)
  next
    case (Inr t)
    obtain k l sub where t: "t = (k, l, sub)" by (cases t) auto
    have "io_bind (route_one E x ev subscribed w) f s = f t s1" for f :: "nat \<times> nat \<times> bool \<Rightarrow> (route_db, nat) sm"
      by (rule io_bind_Inr) (simp add: r Inr)
    then show ?thesis using spared_rel(2) [OF s1 rest] by (simp add: t more)
  qed
qed (simp add: io_return_def)

text \<open>The context in which the wirings of a message are routed.\<close>

definition routed_event :: "route_env \<Rightarrow> inbound_event \<Rightarrow> inbound_event" where
  "routed_event E ev0 = drop_thread (getChannelAdapter (re_registry E) (instance_key ev0)) ev0"

definition routed_ctx :: "route_env \<Rightarrow> inbound_event \<Rightarrow> messaging_group \<Rightarrow> string option \<Rightarrow> js \<Rightarrow> route_ctx" where
  "routed_ctx E ev0 mg uid t =
     route_ctx_of E (getChannelAdapter (re_registry E) (instance_key ev0)) (routed_event E ev0) mg uid t"

subsection \<open>Properties\<close>

text \<open>
  C1. A message whose sender the gates refuse leaves no trace with the agent.  If every wiring of the chat
  to an agent engages on the message and refuses its sender (the chat's policy for unknown senders, or
  the wiring's sender scope), then routing the message, whatever the other wirings do and whatever
  fails, changes none of the agent's mailboxes: the message is neither stored nor kept as context, and
  no session of the agent is created.
\<close>
theorem refused_sender_leaves_no_trace:
  assumes "run_interceptors (re_interceptors E) ev0 s = (Inr False, s)"
    and "lookup_chat (routed_event E ev0) s = Some (mg, Suc n)"
    and "extractAndUpsertUser (se_now (re_sess E)) (routed_event E ev0) (gd_perm (rt_gate s)) = Inr (uid, perm)"
    and "parsed_text (im_content (ie_message (routed_event E ev0))) = Inr t"
    and "\<forall>w \<in> set (getMessagingGroupAgents (mg_id mg) (gd_chat (rt_gate s))). ma_agent_group_id w = ag \<longrightarrow>
           engages_at E (routed_ctx E ev0 mg uid t) (routed_event E ev0) w (ss_sessions s) \<and>
           \<not> admits perm (routed_ctx E ev0 mg uid t) w"
  shows "same_for ag s (snd (routeInbound E ev0 s))"
proof -
  define x where "x = routed_ctx E ev0 mg uid t"
  define ev where "ev = routed_event E ev0"
  define ws where "ws = getMessagingGroupAgents (mg_id mg) (gd_chat (rt_gate s))"
  define s1 where "s1 = s\<lparr>rt_gate := (rt_gate s)\<lparr>gd_perm := perm\<rparr>, rt_log := rt_log s\<rparr>"
  have s1: "same_for ag s s1" by (simp add: s1_def same_for_def)
  have spares: "spared ag s1 (snd (route_agents E x ev False ws s1))"
    using assms(5) by (intro route_agents_spares) (simp add: s1_def x_def ev_def ws_def)
  have drop: "same_for ag s2 (snd ((if k = 0
       then io_bind (lift_res (parsed_sender (im_content (ie_message ev)))) (\<lambda>name.
              record_drop E (drop_row E ev uid name ''no_agent_engaged'' mg))
       else io_return ()) s2))" for s2 and k :: nat
    by (simp add: io_bind_def lift_res_def io_return_def io_throw_def record_drop_def on_gate_def io_modify_def
        same_for_def split: sum.split)
  have run: "routeInbound E ev0 s =
      (case route_agents E x ev False ws s1 of
         (Inl e, s2) \<Rightarrow> (Inl e, s2)
       | (Inr k, s2) \<Rightarrow> (if k = 0
           then io_bind (lift_res (parsed_sender (im_content (ie_message ev)))) (\<lambda>name.
                  record_drop E (drop_row E ev uid name ''no_agent_engaged'' mg))
           else io_return ()) s2)"
    using assms(1-4)
    by (simp add: routeInbound_def io_bind_def [of "run_interceptors _ _"] find_or_create_chat_def route_to_agents_def
        resolve_sender_def gate_step_def routed_event_def routed_ctx_def x_def ev_def ws_def s1_def lift_res_def
        io_bind_def io_return_def Let_def split: prod.split sum.split)
  obtain r s2 where r: "route_agents E x ev False ws s1 = (r, s2)" by fastforce
  have s2: "same_for ag s s2" using same_for_trans [OF s1] spares r by (simp add: spared_def)
  show ?thesis
  proof (cases r)
    case (Inr k)
    show ?thesis unfolding run r Inr prod.case sum.case by (rule same_for_trans [OF s2 drop])
  qed (use run r s2 in simp)
qed

text \<open>A strict chat whose agent answers to everything, and a stranger's message in it.\<close>

definition demo_route_env :: route_env where
  "demo_route_env = \<lparr>re_sess = demo_sess_env, re_registry = demo_registry, re_delivery = True, re_contracts = [],
     re_interceptors = [], re_test = (\<lambda>_ _. Some (Some True)), re_wake = (\<lambda>_. True), re_subscribes = (\<lambda>_. False),
     re_flow_ids = (\<lambda>_. [])\<rparr>"

definition demo_route_wiring :: messaging_group_agent where
  "demo_route_wiring = demo_wiring\<lparr>ma_engage_mode := Pattern\<rparr>"

definition demo_route_db :: route_db where
  "demo_route_db = sess_db.extend demo_sess_db
     (route_db.fields (demo_gate\<lparr>gd_chat := demo_chats\<lparr>cd_wirings := [demo_route_wiring]\<rparr>,
        gd_agents := [\<lparr>ag_id = ''a'', ag_name = ''Nano'', ag_folder = ''nano'', ag_agent_provider = None,
          ag_created_at = Iso 0\<rparr>]\<rparr>) [])"

lemma refused_sender_leaves_no_trace_witness:
  "same_for ''a'' demo_route_db (snd (routeInbound demo_route_env demo_event demo_route_db))"
proof -
  let ?ev = "routed_event demo_route_env demo_event"
  let ?perm = "gd_perm (rt_gate demo_route_db)"
  have "run_interceptors (re_interceptors demo_route_env) demo_event demo_route_db = (Inr False, demo_route_db)"
    by (simp add: demo_route_env_def io_return_def)
  moreover have "lookup_chat ?ev demo_route_db = Some (demo_chat, Suc 0)" by code_simp
  moreover have "(case extractAndUpsertUser (se_now (re_sess demo_route_env)) ?ev ?perm of Inl _ \<Rightarrow> False
      | Inr (uid, perm) \<Rightarrow> \<not> admits perm (routed_ctx demo_route_env demo_event demo_chat uid (JStr ''hi'')) demo_route_wiring)"
    by code_simp
  then obtain uid perm where
    "extractAndUpsertUser (se_now (re_sess demo_route_env)) ?ev ?perm = Inr (uid, perm)"
    "\<not> admits perm (routed_ctx demo_route_env demo_event demo_chat uid (JStr ''hi'')) demo_route_wiring"
    by (auto split: sum.splits)
  moreover have "parsed_text (im_content (ie_message ?ev)) = Inr (JStr ''hi'')" by code_simp
  moreover have "engages_at demo_route_env (routed_ctx demo_route_env demo_event demo_chat uid (JStr ''hi'')) ?ev
      demo_route_wiring (ss_sessions demo_route_db)"
    by (simp add: engages_at_def evaluateEngage_def demo_route_wiring_def demo_wiring_def)
  moreover have "getMessagingGroupAgents (mg_id demo_chat) (gd_chat (rt_gate demo_route_db)) = [demo_route_wiring]"
    by code_simp
  ultimately show ?thesis
    by (intro refused_sender_leaves_no_trace) auto
qed

end
