(* ===== verification/HostState.thy ===== *)
theory HostState
  imports Approvals CrossSession AgentGroups
begin

text \<open>
  The state the outbound side of the host works on: the sessions and their mailboxes with the central
  tables beside them (\<open>hd_configs\<close> the container configurations, \<open>hd_folders\<close> the paths below \<open>GROUPS_DIR\<close>), and a log of what is handed to the outside.  Shared steps: the note a module
  writes to a session (\<open>notifyAgent\<close>), asking for an approval (\<open>requestApproval\<close> of \<open>Approvals\<close>, its
  notes written to the mailbox), and the destinations of a session
  (\<open>src/modules/agent-to-agent/write-destinations.ts\<close>).
\<close>

record channel_post =
  cp_channelType :: string
  cp_platformId :: string
  cp_threadId :: "string option"
  cp_kind :: string
  cp_content :: string
  cp_files :: "(string \<times> string) list option"
  cp_instance :: "string option"

datatype host_event =
    Posted channel_post
  | CardShown outgoing
  | WokenUp string
  | TypingPaused string
  | Killed string string bool
  | ImageBuilt string string
  | Scaffolded string "string option"

record host_db = sess_db +
  hd_agents :: "agent_group list"
  hd_chat :: chat_db
  hd_perm :: perm_db
  hd_approvals :: "pending_approval list"
  hd_questions :: "pending_question list"
  hd_attempts :: "(string \<times> nat) list"
  hd_inflight :: "string list"
  hd_configs :: "container_config list"
  hd_folders :: "string list"
  hd_log :: "host_event list"

text \<open>
  The outside: \<open>he_send k p\<close> is what the channel adapter answers to the post \<open>p\<close> when \<open>k\<close> ids have
  been drawn, a platform id or an exception; \<open>he_card_ok k\<close> whether a card can be shown after \<open>k\<close>
  events of the log.
\<close>

record host_env =
  he_sess :: sess_env
  he_registry :: registry
  he_adapter :: bool
  he_send :: "nat \<Rightarrow> channel_post \<Rightarrow> string option res"
  he_card_ok :: "nat \<Rightarrow> bool"
  he_flow_ids :: "string \<Rightarrow> string list"

definition host_event :: "host_event \<Rightarrow> (host_db, unit) sm" where
  "host_event e = io_modify (\<lambda>s. s\<lparr>hd_log := hd_log s @ [e]\<rparr>)"

definition edges :: "host_db \<Rightarrow> edge_db" where
  "edges s = cd_edges (hd_chat s)"

definition wakeContainer :: "string \<Rightarrow> (host_db, unit) sm" where
  "wakeContainer sid =
     io_bind (io_get (\<lambda>s. getSession sid (ss_sessions s))) (\<lambda>fresh. case fresh of
       None \<Rightarrow> io_return () | Some r \<Rightarrow> host_event (WokenUp (s_id r)))"

subsection \<open>Notes and approvals\<close>

definition system_note :: "host_env \<Rightarrow> string \<Rightarrow> session_row \<Rightarrow> string \<Rightarrow> to_session" where
  "system_note E tok session body =
     \<lparr>ts_id = ''sys-'' @ tok, ts_kind = ''chat'', ts_timestamp = stamp_text (se_now (he_sess E)),
      ts_platformId = Some (s_agent_group_id session), ts_channelType = Some ''agent'', ts_threadId = None,
      ts_content = Json (JObj [(''text'', JStr body), (''sender'', JStr ''system''), (''senderId'', JStr ''system'')]),
      ts_processAfter = None, ts_recurrence = None, ts_trigger = True, ts_sourceSessionId = None, ts_onWake = False\<rparr>"

definition writeNote :: "host_env \<Rightarrow> session_row \<Rightarrow> string \<Rightarrow> (host_db, unit) sm" where
  "writeNote E session body =
     io_bind draw (\<lambda>tok. writeSessionMessage (he_sess E) (s_agent_group_id session) (s_id session)
                           (system_note E tok session body))"

definition notifySession :: "host_env \<Rightarrow> session_row \<Rightarrow> string \<Rightarrow> (host_db, unit) sm" where
  "notifySession E session body = io_bind (writeNote E session body) (\<lambda>_. wakeContainer (s_id session))"

text \<open>What the approvals module did to the outside, done to this state.\<close>

fun play :: "host_env \<Rightarrow> session_row \<Rightarrow> appr_out list \<Rightarrow> (host_db, unit) sm" where
  "play E session [] = io_return ()"
| "play E session (e # es) =
     io_bind (case e of
        Note _ body \<Rightarrow> writeNote E session body
      | WakeSession sid \<Rightarrow> host_event (WokenUp sid)
      | Card c \<Rightarrow> host_event (CardShown c)
      | _ \<Rightarrow> io_return ()) (\<lambda>_. play E session es)"

definition appr_env_of :: "host_env \<Rightarrow> nat \<Rightarrow> string \<Rightarrow> unit appr_env" where
  "appr_env_of E k tok =
     \<lparr>ae_registry = he_registry E, ae_now = ck_now (se_clock (he_sess E)), ae_ids = he_flow_ids E tok,
      ae_adapter = (if he_adapter E then Some (he_card_ok E k) else None),
      ae_handlers = (\<lambda>_. None), ae_gateway = (\<lambda>_ _. False)\<rparr>"

definition appr_part :: "host_db \<Rightarrow> unit appr_state" where
  "appr_part s =
     \<lparr>as_rows = hd_approvals s, as_sessions = ss_sessions s, as_perm = hd_perm s, as_chat = hd_chat s,
      as_awaiting = [], as_world = (), as_log = []\<rparr>"

definition askApproval :: "host_env \<Rightarrow> approval_request \<Rightarrow> (host_db, unit) sm" where
  "askApproval E q =
     io_bind draw (\<lambda>tok.
     io_bind (io_get (\<lambda>s. requestApproval (appr_env_of E (length (hd_log s)) tok) q (appr_part s))) (\<lambda>r. case r of
       Inl e \<Rightarrow> io_throw e
     | Inr st \<Rightarrow>
         io_bind (io_modify (\<lambda>s. s\<lparr>hd_approvals := as_rows st, hd_chat := as_chat st\<rparr>)) (\<lambda>_.
           play E (aq_session q) (as_log st))))"

subsection \<open>Destinations of a session\<close>

definition resolve_destination :: "chat_db \<Rightarrow> agent_group list \<Rightarrow> agent_destination \<Rightarrow> destination_record list" where
  "resolve_destination chats agents row =
     (case ad_target_type row of
        ToChannel \<Rightarrow>
          (case getMessagingGroup (ad_target_id row) chats of
             None \<Rightarrow> []
           | Some mg \<Rightarrow> [ChannelDestination (ad_local_name row)
                 (Some (case mg_name mg of Some n \<Rightarrow> n | None \<Rightarrow> ad_local_name row)) (mg_channel_type mg) (mg_platform_id mg)])
      | ToAgent \<Rightarrow>
          (case getAgentGroup (ad_target_id row) agents of
             None \<Rightarrow> []
           | Some g \<Rightarrow> [AgentDestination (ad_local_name row) (Some (ag_name g)) (ag_id g)]))"

definition writeDestinations :: "string \<Rightarrow> string \<Rightarrow> (host_db, unit) sm" where
  "writeDestinations ag sid =
     io_bind (io_get (\<lambda>s. concat (map (resolve_destination (hd_chat s) (hd_agents s)) (getDestinations ag (edges s)))))
       (\<lambda>rows. withMailboxSession ag sid (\<lambda>mb. case replaceDestinations (map destination_record_js rows) mb of
                  Inl e \<Rightarrow> (Inl e, mb) | Inr mb' \<Rightarrow> (Inr (), mb')))"

subsection \<open>Which mailboxes a step may change\<close>

lemma keeps_touches_host [keeps_intros]:
  "keeps (touches K) (host_event e)"
  "keeps (touches K) (wakeContainer sid)"
  "keeps (touches K) (io_modify (\<lambda>s. s\<lparr>hd_approvals := f s, hd_chat := g s\<rparr>))"
  by (auto simp: keeps_def host_event_def wakeContainer_def touches_def io_return_def split: option.split)

lemma keeps_touches_note [keeps_intros]:
  "(s_agent_group_id session, s_id session) \<in> K \<Longrightarrow> keeps (touches K) (writeNote E session body)"
  "(s_agent_group_id session, s_id session) \<in> K \<Longrightarrow> keeps (touches K) (notifySession E session body)"
  unfolding notifySession_def writeNote_def by (intro keeps_intros touches_rel; assumption)+

lemma keeps_touches_play [keeps_intros]:
  "(s_agent_group_id session, s_id session) \<in> K \<Longrightarrow> keeps (touches K) (play E session es)"
  by (induction es) (auto intro!: keeps_intros split: appr_out.split)

lemma keeps_touches_ask [keeps_intros]:
  "(s_agent_group_id (aq_session q), s_id (aq_session q)) \<in> K \<Longrightarrow> keeps (touches K) (askApproval E q)"
  unfolding askApproval_def by (intro keeps_intros touches_rel) (auto intro!: keeps_intros split: sum.split)

end
