(* ===== verification/AgentRoute.thy ===== *)
theory AgentRoute
  imports HostState
begin

text \<open>
  Messages from agent to agent (\<open>src/modules/agent-to-agent/guard.ts\<close>, \<open>agent-route.ts\<close>,
  \<open>message-gate.ts\<close>): the decision of the guard, the session that receives the message, the files
  copied from outbox to inbox, and the replay of a message that was held for approval.  The text of a
  message was printed by the container with \<open>JSON.stringify\<close>, so a text that parses is represented
  by its value.
\<close>

subsection \<open>The decision\<close>

definition A2A_MESSAGE_GATE_ACTION :: string where
  "A2A_MESSAGE_GATE_ACTION = ''a2a_message_gate''"

definition a2a_covers :: "pending_approval \<Rightarrow> guard_input \<Rightarrow> bool res" where
  "a2a_covers grant inp =
     Inr (case bnd (json_parse (pa_payload grant)) (\<lambda>v. js_get v ''platform_id'') of
            Inl _ \<Rightarrow> False
          | Inr p \<Rightarrow> p = (case gi_resource inp ''to'' of Some t \<Rightarrow> JStr t | None \<Rightarrow> JUndefined))"

definition a2a_decide :: "host_db \<Rightarrow> guard_input \<Rightarrow> guard_decision res" where
  "a2a_decide s inp =
     (case gi_actor inp of
        AgentActor src _ \<Rightarrow>
          (let dst = (case gi_resource inp ''to'' of Some t \<Rightarrow> t | None \<Rightarrow> []); isSelf = (dst = src)
           in if \<not> isSelf \<and> \<not> hasDestination src ToAgent dst (edges s)
              then Inr (DENY (''unauthorized agent-to-agent: '' @ src @ '' has no destination for '' @ dst))
              else if getAgentGroup dst (hd_agents s) = None
              then Inr (DENY (''target agent group '' @ dst @ '' not found for message '' @
                              js_to_string (own (gi_payload inp) ''id'')))
              else if isSelf then Inr (ALLOW ''self-send'')
              else case getMessagePolicy src dst (edges s) of
                     Some p \<Rightarrow> Inr (HOLD (''a2a message policy '' @ src @ rarrow @ dst @ '' holds for '' @ mp_approver p)
                                     (Some (mp_approver p)))
                   | None \<Rightarrow> Inr (ALLOW ''destination grant exists''))
      | _ \<Rightarrow> Inr (DENY ''agent-to-agent send requires an agent actor''))"

definition a2aSend :: "host_db guarded_action_spec" where
  "a2aSend = \<lparr>ga_action = ''a2a.send'', ga_decide = a2a_decide, ga_grantActionName = Some A2A_MESSAGE_GATE_ACTION,
     ga_grantCoversRequest = Some a2a_covers\<rparr>"

subsection \<open>Attached files\<close>

text \<open>A session's directory is there when its mailbox is: both are made and removed together.\<close>

definition session_root :: "sess_env \<Rightarrow> string \<Rightarrow> string \<Rightarrow> 'z sess_db_scheme \<Rightarrow> ino option" where
  "session_root E ag sid s = (if ss_mail s (ag, sid) = None then None else Some (se_dir E ag sid))"

definition forwarded :: "string \<Rightarrow> string \<Rightarrow> js" where
  "forwarded targetId filename =
     JObj [(''name'', JStr filename), (''filename'', JStr filename), (''type'', JStr ''file''),
           (''localPath'', JStr (''inbox/'' @ targetId @ ''/'' @ filename))]"

fun forward_loop :: "env \<Rightarrow> ino \<Rightarrow> ino \<Rightarrow> string \<Rightarrow> string list \<Rightarrow> js list io" where
  "forward_loop env src dst targetId [] = io_return []"
| "forward_loop env src dst targetId (f # fs) =
     (if \<not> isSafeAttachmentName (JStr f) then forward_loop env src dst targetId fs
      else io_bind (io_catch (io_bind (copyRegularFile env src f dst f) (\<lambda>_. io_return [forwarded targetId f]))
                     (\<lambda>_. io_return []))
             (\<lambda>one. io_bind (forward_loop env src dst targetId fs) (\<lambda>more. io_return (one @ more))))"

definition forwardAttachedFiles ::
    "env \<Rightarrow> ino option \<Rightarrow> string \<Rightarrow> string list \<Rightarrow> ino option \<Rightarrow> string \<Rightarrow> js list io" where
  "forwardAttachedFiles env srcRoot srcId filenames dstRoot dstId =
     (if filenames = [] \<or> \<not> isSafeAttachmentName (JStr srcId) then io_return []
      else io_bind (io_catch (anchored_open env srcRoot [''outbox'', srcId] False) (\<lambda>_. io_return None)) (\<lambda>src. case src of
        None \<Rightarrow> io_return []
      | Some i \<Rightarrow>
          io_bind (io_catch (anchored_open env dstRoot [''inbox'', dstId] True) (\<lambda>_. io_return None)) (\<lambda>dst. case dst of
            None \<Rightarrow> io_return []
          | Some j \<Rightarrow> forward_loop env i j dstId filenames)))"

record agent_message =
  am_id :: string
  am_platform_id :: "string option"
  am_content :: string
  am_in_reply_to :: "string option"

definition as_jtext :: "sess_env \<Rightarrow> string \<Rightarrow> jtext" where
  "as_jtext E t = (case se_parse E t of Inr v \<Rightarrow> Json v | Inl _ \<Rightarrow> Raw t)"

definition arr_strings :: "js \<Rightarrow> string list" where
  "arr_strings v = (case v of JArr xs \<Rightarrow> concat (map (\<lambda>x. case x of JStr s \<Rightarrow> [s] | _ \<Rightarrow> []) xs) | _ \<Rightarrow> [])"

definition forwardFileAttachments ::
    "sess_env \<Rightarrow> agent_message \<Rightarrow> string \<Rightarrow> session_row \<Rightarrow> string \<Rightarrow> string \<Rightarrow> (host_db, jtext) sm" where
  "forwardFileAttachments E msg newId source targetAg targetSid =
     (case as_jtext E (am_content msg) of
        Raw t \<Rightarrow> io_return (Raw t)
      | Json v \<Rightarrow>
          (case js_get v ''files'' of
             Inl e \<Rightarrow> io_throw e
           | Inr files \<Rightarrow>
              (if arr_strings files = [] then io_return (Json v)
               else io_bind (io_get (\<lambda>s. (session_root E (s_agent_group_id source) (s_id source) s,
                                          session_root E targetAg targetSid s))) (\<lambda>(srcRoot, dstRoot).
                    io_bind (on_world (forwardAttachedFiles (se_container E) srcRoot (am_id msg) (arr_strings files)
                                         dstRoot newId)) (\<lambda>atts.
                      case v of
                        JObj ps \<Rightarrow> io_return (Json (JObj (set_prop ''attachments''
                                     (JArr ((case own ps ''attachments'' of JArr xs \<Rightarrow> xs | _ \<Rightarrow> []) @ atts)) ps)))
                      | _ \<Rightarrow> io_return (Json v))))))"

subsection \<open>The receiving session\<close>

definition nonblank :: "string option \<Rightarrow> string option" where
  "nonblank x = (case x of Some [] \<Rightarrow> None | _ \<Rightarrow> x)"

definition return_path :: "agent_message \<Rightarrow> string \<Rightarrow> mailbox \<Rightarrow> string option" where
  "return_path msg target mb =
     (case nonblank (case nonblank (am_in_reply_to msg) of
                       Some r \<Rightarrow> getInboundSourceSessionId r mb | None \<Rightarrow> None) of
        Some origin \<Rightarrow> Some origin
      | None \<Rightarrow> getMostRecentPeerSourceSessionId target mb)"

definition resolveTargetSession ::
    "host_env \<Rightarrow> agent_message \<Rightarrow> session_row \<Rightarrow> string \<Rightarrow> (host_db, session_row) sm" where
  "resolveTargetSession E msg source target =
     io_bind (withExistingMailboxSession (s_agent_group_id source) (s_id source)
                (io_get (return_path msg target))) (\<lambda>found.
     io_bind (io_get (\<lambda>s. case nonblank (case found of Some o1 \<Rightarrow> o1 | None \<Rightarrow> None) of
                None \<Rightarrow> None
              | Some sid \<Rightarrow>
                  (case getSession sid (ss_sessions s) of
                     Some r \<Rightarrow> if s_agent_group_id r = target \<and> s_status r = Active then Some r else None
                   | None \<Rightarrow> None))) (\<lambda>candidate. case candidate of
       Some r \<Rightarrow> io_return r
     | None \<Rightarrow> io_bind (resolveSession (he_sess E) target None None AgentShared) (\<lambda>(r, created). io_return r)))"

definition routed_message :: "host_env \<Rightarrow> string \<Rightarrow> session_row \<Rightarrow> jtext \<Rightarrow> to_session" where
  "routed_message E newId source content =
     \<lparr>ts_id = newId, ts_kind = ''chat'', ts_timestamp = stamp_text (se_now (he_sess E)),
      ts_platformId = Some (s_agent_group_id source), ts_channelType = Some ''agent'', ts_threadId = None,
      ts_content = content, ts_processAfter = None, ts_recurrence = None, ts_trigger = True,
      ts_sourceSessionId = Some (s_id source), ts_onWake = False\<rparr>"

definition performAgentRoute ::
    "host_env \<Rightarrow> agent_message \<Rightarrow> session_row \<Rightarrow> string \<Rightarrow> (host_db, unit) sm" where
  "performAgentRoute E msg source target =
     io_bind (resolveTargetSession E msg source target) (\<lambda>receiver.
     io_bind draw (\<lambda>tok.
     io_bind (forwardFileAttachments (he_sess E) msg (''a2a-'' @ tok) source target (s_id receiver)) (\<lambda>content.
     io_bind (writeSessionMessage (he_sess E) target (s_id receiver)
                (routed_message E (''a2a-'' @ tok) source content)) (\<lambda>_.
       wakeContainer (s_id receiver)))))"

subsection \<open>Routing and the gate\<close>

definition GATE_CARD_BODY_MAX :: nat where
  "GATE_CARD_BODY_MAX = 1500"

text \<open>\<open>null\<close> makes the reads throw inside the \<open>try\<close>, and the text is shown as it is.\<close>

definition parseMessageContent :: "sess_env \<Rightarrow> string \<Rightarrow> string \<times> string list" where
  "parseMessageContent E content =
     (case bnd (se_parse E content) (\<lambda>v. bnd (js_get v ''text'') (\<lambda>t. bnd (js_get v ''files'') (\<lambda>f. Inr (t, f)))) of
        Inl _ \<Rightarrow> (content, [])
      | Inr (t, f) \<Rightarrow> ((case t of JStr s \<Rightarrow> s | _ \<Rightarrow> []), arr_strings f))"

definition buildGateQuestion :: "sess_env \<Rightarrow> string \<Rightarrow> string \<Rightarrow> string \<Rightarrow> string" where
  "buildGateQuestion E sourceName targetName content =
     (let (t, files) = parseMessageContent E content;
          body = (if GATE_CARD_BODY_MAX < length t then take GATE_CARD_BODY_MAX t @ CrossSession.ellipsis @ '' (truncated)'' else t);
          q = [CHR 0x22]
      in js_join [CHR 0x0A]
           ([''Agent '' @ q @ sourceName @ q @ '' wants to send a message to '' @ q @ targetName @ q @ '':'', [], body] @
            (if files \<noteq> [] then [[], ''Attachments: '' @ js_join '', '' files] else []) @
            [[], ''Approve, Reject, or '' @ q @ ''Reject with reason'' @ CrossSession.ellipsis @ q @
                 '' to decline and then type a short reason I'll relay to '' @ q @ sourceName @ q @ ''.'']))"

definition message_payload :: "agent_message \<Rightarrow> string \<Rightarrow> fields" where
  "message_payload msg target =
     [(''id'', JStr (am_id msg)), (''platform_id'', JStr target), (''content'', JStr (am_content msg)),
      (''in_reply_to'', null_str (am_in_reply_to msg))]"

definition route_input :: "agent_message \<Rightarrow> session_row \<Rightarrow> string \<Rightarrow> pending_approval option \<Rightarrow> guard_input" where
  "route_input msg source target grant =
     \<lparr>gi_actor = AgentActor (s_agent_group_id source) (Some (s_id source)),
      gi_resource = [''from'' \<mapsto> s_agent_group_id source, ''to'' \<mapsto> target],
      gi_payload = message_payload msg target, gi_grant = grant\<rparr>"

definition route_decision ::
    "agent_message \<Rightarrow> session_row \<Rightarrow> string \<Rightarrow> pending_approval option \<Rightarrow> host_db \<Rightarrow> guard_decision res" where
  "route_decision msg source target grant s =
     consult (\<lambda>i. getPendingApproval i (hd_approvals s)) s a2aSend (route_input msg source target grant)"

definition group_name :: "string \<Rightarrow> host_db \<Rightarrow> string" where
  "group_name i s = (case getAgentGroup i (hd_agents s) of Some g \<Rightarrow> ag_name g | None \<Rightarrow> i)"

definition hold_request ::
    "host_env \<Rightarrow> agent_message \<Rightarrow> session_row \<Rightarrow> string \<Rightarrow> string option \<Rightarrow> host_db \<Rightarrow> approval_request" where
  "hold_request E msg source target approver s =
     \<lparr>aq_session = source, aq_action = A2A_MESSAGE_GATE_ACTION, aq_payload = JObj (message_payload msg target),
      aq_title = ''Message approval'',
      aq_question = buildGateQuestion (he_sess E) (group_name (s_agent_group_id source) s) (group_name target s)
                      (am_content msg),
      aq_approverUserId = approver\<rparr>"

text \<open>\<open>Some reason\<close>: the guard refused, and \<open>GuardDenyError\<close> with that reason is thrown.\<close>

definition route_message ::
    "host_env \<Rightarrow> agent_message \<Rightarrow> session_row \<Rightarrow> string \<Rightarrow> pending_approval option \<Rightarrow> (host_db, string option) sm" where
  "route_message E msg source target grant =
     io_bind (io_get (route_decision msg source target grant)) (\<lambda>d. case d of
       Inl e \<Rightarrow> io_throw e
     | Inr (DENY reason) \<Rightarrow> io_return (Some reason)
     | Inr (HOLD reason approver) \<Rightarrow>
         io_bind (io_get (hold_request E msg source target approver)) (\<lambda>q.
         io_bind (askApproval E q) (\<lambda>_. io_return None))
     | Inr (ALLOW _) \<Rightarrow> io_bind (performAgentRoute E msg source target) (\<lambda>_. io_return None))"

definition routeAgentMessage ::
    "host_env \<Rightarrow> agent_message \<Rightarrow> session_row \<Rightarrow> pending_approval option \<Rightarrow> (host_db, string option) sm" where
  "routeAgentMessage E msg source grant =
     (case nonblank (am_platform_id msg) of
        None \<Rightarrow> io_throw (Error (''agent-to-agent message '' @ am_id msg @ '' is missing a target agent group id''))
      | Some target \<Rightarrow> route_message E msg source target grant)"

text \<open>The replay of a held message, from the payload of its approval.\<close>

definition str_or :: "string \<Rightarrow> js \<Rightarrow> string" where
  "str_or d v = (case v of JStr s \<Rightarrow> s | _ \<Rightarrow> d)"

definition applyA2aMessageGate ::
    "host_env \<Rightarrow> session_row \<Rightarrow> fields \<Rightarrow> pending_approval \<Rightarrow> (host_db, unit) sm" where
  "applyA2aMessageGate E source payload approval =
     (if str_or [] (own payload ''platform_id'') = []
      then notifySession E source ''Message approved but the target agent group was missing from the request.''
      else
        io_bind (routeAgentMessage E
            \<lparr>am_id = str_or (''a2a-gate-'' @ int_str (ck_now (se_clock (he_sess E)))) (own payload ''id''),
             am_platform_id = Some (str_or [] (own payload ''platform_id'')),
             am_content = str_or [] (own payload ''content''),
             am_in_reply_to = js_str (own payload ''in_reply_to'')\<rparr> source (Some approval)) (\<lambda>refused.
          case refused of
            Some reason \<Rightarrow> notifySession E source (''Message approved, but not delivered '' @ emdash @
                                                   '' no longer authorized: '' @ reason)
          | None \<Rightarrow> io_return ()))"

subsection \<open>Which mailboxes a message may reach\<close>

lemma keeps_touches_resolve:
  assumes "\<And>sid. (ag, sid) \<in> K"
  shows "keeps (touches K) (resolveSession E ag mg thread mode)"
  unfolding resolveSession_def adopt_def
  by (intro keeps_intros touches_rel) (auto intro!: keeps_intros assms split: option.split sum.split prod.split)

lemma keeps_touches_read: "keeps (touches K) (withExistingMailboxSession ag sid (io_get f))"
  by (auto simp: keeps_def withExistingMailboxSession_def touches_def set_mail_def split: option.split)

lemma keeps_touches_forward: "keeps (touches K) (forwardFileAttachments E msg newId source target sid)"
  unfolding forwardFileAttachments_def
  by (auto intro!: keeps_intros split: jtext.split sum.split js.split prod.split)

lemma keeps_touches_perform:
  assumes "\<And>sid. (target, sid) \<in> K"
  shows "keeps (touches K) (performAgentRoute E msg source target)"
  unfolding performAgentRoute_def resolveTargetSession_def
  by (intro keeps_intros touches_rel keeps_touches_read keeps_touches_forward keeps_touches_resolve assms)
    (auto intro!: keeps_intros keeps_touches_resolve assms split: option.split prod.split)

text \<open>What an approval must be to release a message to \<open>target\<close>.\<close>

definition releases :: "pending_approval \<Rightarrow> string \<Rightarrow> host_db \<Rightarrow> bool" where
  "releases g target s \<longleftrightarrow>
     pa_action g = A2A_MESSAGE_GATE_ACTION \<and>
     (case getPendingApproval (pa_approval_id g) (hd_approvals s) of
        Some row \<Rightarrow> pa_action row = A2A_MESSAGE_GATE_ACTION | None \<Rightarrow> False) \<and>
     bnd (json_parse (pa_payload g)) (\<lambda>v. js_get v ''platform_id'') = Inr (JStr target)"

lemma covers_releases:
  "a2a_covers g (route_input msg source target grant) = Inr True \<longleftrightarrow>
   bnd (json_parse (pa_payload g)) (\<lambda>v. js_get v ''platform_id'') = Inr (JStr target)"
  by (auto simp: a2a_covers_def route_input_def split: sum.split)

lemma consult_Allow:
  assumes "consult lv db spec inp = Inr (ALLOW r)"
  shows "(\<exists>r. ga_decide spec db inp = Inr (ALLOW r)) \<or>
     (\<exists>r u g name row. ga_decide spec db inp = Inr (HOLD r u) \<and> gi_grant inp = Some g \<and>
        ga_grantActionName spec = Some name \<and> pa_action g = name \<and> lv (pa_approval_id g) = Some row \<and>
        pa_action row = name \<and> (\<forall>covers. ga_grantCoversRequest spec = Some covers \<longrightarrow> covers g inp = Inr True))"
proof -
  obtain a cat where d: "defineGuardedAction spec empty_catalog = Inr (a, cat)"
    and c: "consult lv db spec inp = guard cat lv db a inp"
    using consult_guard [of spec lv db inp] by blast
  show ?thesis
    using guard_AllowD [of cat lv db a inp "ALLOW r"] defineGuardedAction_Inr [OF d] assms grantSatisfies_True [of lv a inp]
    by (auto simp: c)
qed

lemma route_allowed:
  assumes "route_decision msg source target grant s = Inr (ALLOW r)" "target \<noteq> s_agent_group_id source"
  shows "hasDestination (s_agent_group_id source) ToAgent target (edges s)"
    and "getAgentGroup target (hd_agents s) \<noteq> None"
    and "getMessagePolicy (s_agent_group_id source) target (edges s) = None \<or>
         (\<exists>g. grant = Some g \<and> releases g target s)"
  using consult_Allow [OF assms(1) [unfolded route_decision_def]] assms(2)
  by (auto simp: a2aSend_def a2a_decide_def route_input_def releases_def covers_releases [unfolded route_input_def] Let_def
      simp del: not_None_eq split: if_splits option.splits)

subsection \<open>Properties\<close>

text \<open>
  C2. A message reaches a mailbox of another agent only if it is addressed to that agent, the sender
  has a destination for it, the agent exists, and no message policy holds the edge, or the caller
  carries an approval of this action whose row is still in the table and names this receiver.
\<close>
theorem agent_messages_need_permission:
  assumes "routeAgentMessage E msg source grant s = (r, s')"
    and "ag \<noteq> s_agent_group_id source" "ss_mail s' (ag, sid) \<noteq> ss_mail s (ag, sid)"
  shows "am_platform_id msg = Some ag \<and> hasDestination (s_agent_group_id source) ToAgent ag (edges s) \<and>
     getAgentGroup ag (hd_agents s) \<noteq> None \<and>
     (getMessagePolicy (s_agent_group_id source) ag (edges s) = None \<or> (\<exists>g. grant = Some g \<and> releases g ag s))"
proof -
  obtain target where t: "am_platform_id msg = Some target"
    using assms(1,3) by (cases "am_platform_id msg") (auto simp: routeAgentMessage_def nonblank_def io_throw_def)
  then have m: "route_message E msg source target grant s = (r, s')"
    using assms(1,3) by (auto simp: routeAgentMessage_def nonblank_def io_throw_def split: list.splits)
  show ?thesis
  proof (cases "\<exists>x. route_decision msg source target grant s = Inr (ALLOW x)")
    case True
    then obtain x where x: "route_decision msg source target grant s = Inr (ALLOW x)" by blast
    have "snd (performAgentRoute E msg source target s) = s'"
      using m by (auto simp: route_message_def x io_bind_def io_return_def split: prod.splits sum.splits)
    moreover have "keeps (touches {(target, sid) | sid. True}) (performAgentRoute E msg source target)"
      by (rule keeps_touches_perform) simp
    ultimately have "touches {(target, sid) | sid. True} s s'" by (auto simp: keeps_def)
    then have "ag = target" using assms(3) by (auto simp: touches_def)
    then show ?thesis using route_allowed [OF x] assms(2) t by simp
  next
    case False
    have "touches {(s_agent_group_id source, s_id source)} s s'"
    proof (cases "\<exists>e. route_decision msg source target grant s = Inl e \<or> (\<exists>y. route_decision msg source target grant s = Inr (DENY y))")
      case True
      then show ?thesis using m by (auto simp: route_message_def io_throw_def io_return_def touches_def)
    next
      case held: False
      then obtain y u where y: "route_decision msg source target grant s = Inr (HOLD y u)"
        using False by (metis guard_decision.exhaust sum.exhaust)
      let ?q = "hold_request E msg source target u s"
      have "keeps (touches {(s_agent_group_id source, s_id source)}) (askApproval E ?q)"
        by (rule keeps_touches_ask) (simp add: hold_request_def)
      moreover have "snd (askApproval E ?q s) = s'"
        using m by (auto simp: route_message_def y io_bind_def io_return_def split: prod.splits sum.splits)
      ultimately show ?thesis by (auto simp: keeps_def)
    qed
    then show ?thesis using assms(2,3) by (auto simp: touches_def)
  qed
qed

text \<open>The agent \<open>a\<close> may send to \<open>b\<close>, and does.\<close>

definition demo_group :: "string \<Rightarrow> agent_group" where
  "demo_group i = \<lparr>ag_id = i, ag_name = i, ag_folder = i, ag_agent_provider = None, ag_created_at = Iso 0\<rparr>"

definition demo_sender :: session_row where
  "demo_sender = new_session ''s1'' (Iso 0) ''a'' (Some ''mg-1'') None"

definition demo_host_env :: host_env where
  "demo_host_env = \<lparr>he_sess = demo_sess_env, he_registry = demo_registry, he_adapter = True,
     he_send = (\<lambda>_ _. Inr None), he_card_ok = (\<lambda>_. True), he_flow_ids = (\<lambda>t. [''appr-'' @ t])\<rparr>"

definition demo_host :: host_db where
  "demo_host = sess_db.extend (demo_sess_db\<lparr>ss_sessions := [demo_sender], ss_mail := (\<lambda>_. None)((''a'', ''s1'') := Some empty_mailbox)\<rparr>)
     (host_db.fields [demo_group ''a'', demo_group ''b'']
        (demo_chats\<lparr>cd_edges := \<lparr>eb_destinations = [\<lparr>ad_agent_group_id = ''a'', ad_local_name = ''bee'',
            ad_target_type = ToAgent, ad_target_id = ''b'', ad_created_at = Iso 0\<rparr>], eb_policies = []\<rparr>\<rparr>)
        demo_perms [] [] [] [] [] [] [])"

definition demo_message :: agent_message where
  "demo_message = \<lparr>am_id = ''o1'', am_platform_id = Some ''b'', am_content = ''hello'', am_in_reply_to = None\<rparr>"

lemma agent_messages_need_permission_witness:
  "\<exists>sid. ss_mail (snd (routeAgentMessage demo_host_env demo_message demo_sender None demo_host)) (''b'', sid)
           \<noteq> ss_mail demo_host (''b'', sid) \<and>
     hasDestination ''a'' ToAgent ''b'' (edges demo_host)"
proof -
  obtain r s' where run: "routeAgentMessage demo_host_env demo_message demo_sender None demo_host = (r, s')"
    by fastforce
  have "(case ss_mail (snd (routeAgentMessage demo_host_env demo_message demo_sender None demo_host)) (''b'', ''sess-0'') of
           None \<Rightarrow> False | Some mb \<Rightarrow> True)"
    by code_simp
  moreover have "ss_mail demo_host (''b'', ''sess-0'') = None"
    by (simp add: demo_host_def sess_db.defs demo_sess_db_def host_db.defs)
  ultimately have changed: "ss_mail s' (''b'', ''sess-0'') \<noteq> ss_mail demo_host (''b'', ''sess-0'')"
    by (auto simp: run split: option.splits)
  have a: "s_agent_group_id demo_sender = ''a''" by (simp add: demo_sender_def new_session_def)
  then have "''b'' \<noteq> s_agent_group_id demo_sender" by simp
  from agent_messages_need_permission [OF run this changed] have "hasDestination ''a'' ToAgent ''b'' (edges demo_host)"
    by (simp add: a)
  with changed show ?thesis by (metis run snd_conv)
qed

end
