(* ===== verification/AgentReplies.thy ===== *)
theory AgentReplies
  imports AgentRoute
begin

text \<open>
  Replies between agents: a message that was routed leaves a row in the receiver's mailbox that names
  the sending session, and the reply to that row goes back to it.
\<close>

lemma io_bind_InrE:
  assumes "io_bind m f s = (Inr y, s')"
  obtains x s1 where "m s = (Inr x, s1)" "f x s1 = (Inr y, s')"
  using assms by (auto simp: io_bind_def split: prod.splits sum.splits)

subsection \<open>The row of a session stays\<close>

definition row_kept :: "string \<Rightarrow> 'z sess_db_scheme \<Rightarrow> 'z sess_db_scheme \<Rightarrow> bool" where
  "row_kept i s s' \<longleftrightarrow>
     (\<forall>r. getSession i (ss_sessions s) = Some r \<longrightarrow>
        (\<exists>r'. getSession i (ss_sessions s') = Some r' \<and> s_agent_group_id r' = s_agent_group_id r \<and>
              s_status r' = s_status r))"

lemma row_kept_rel [simp]: "reflp (row_kept i)" "transp (row_kept i)"
  by (auto simp: reflp_def transp_def row_kept_def)

lemma getSession_update:
  "getSession i (updateSession j u rows) =
     map_option (\<lambda>r. if s_id r = j then r\<lparr>s_status := set_opt (su_status u) (s_status r),
              s_container_status := set_opt (su_container_status u) (s_container_status r),
              s_last_active := set_opt (su_last_active u) (s_last_active r),
              s_agent_provider := set_opt (su_agent_provider u) (s_agent_provider r)\<rparr> else r) (getSession i rows)"
  by (induction rows) (auto simp: getSession_def updateSession_def update_where_def)

lemma keeps_row_kept [keeps_intros]:
  "keeps (row_kept i) (initSessionFolder ag sid)"
  "keeps (row_kept i) (withMailboxSession ag sid act)"
  "keeps (row_kept i) (on_world m)"
  "keeps (row_kept i) draw"
  "su_status u = None \<Longrightarrow> keeps (row_kept i) (on_sessions (updateSession j u))"
  by (auto simp: keeps_def row_kept_def initSessionFolder_def withMailboxSession_def on_world_def draw_def set_mail_def
      on_sessions_def getSession_update set_opt_def split: prod.split)

lemma keeps_row_kept_host [keeps_intros]:
  "keeps (row_kept i) (host_event e)"
  "keeps (row_kept i) (wakeContainer sid)"
  by (auto simp: keeps_def row_kept_def host_event_def wakeContainer_def io_return_def split: option.split)

lemma keeps_row_kept_write [keeps_intros]: "keeps (row_kept i) (writeSessionMessage E ag sid m)"
  unfolding writeSessionMessage_def by (intro keeps_intros row_kept_rel) (simp add: no_update_def)

lemma inserted_rows_append:
  "resolve_insert i now ag mg thread mode rows = Inr (x, c, rows') \<Longrightarrow> \<exists>new. rows' = rows @ new"
  by (auto simp: resolve_insert_def Let_def dest!: createSession_cases split: sum.splits if_splits option.splits)

lemma keeps_row_kept_resolve [keeps_intros]: "keeps (row_kept i) (resolveSession E ag mg thread mode)"
proof -
  show ?thesis
    unfolding keeps_def
  proof
    fix s :: "'z sess_db_scheme"
    show "row_kept i s (snd (resolveSession E ag mg thread mode s))"
    proof (cases "resolve_lookup ag mg thread mode (ss_sessions s)")
      case (Some r)
      then show ?thesis by (simp add: resolveSession_def io_return_def row_kept_def)
    next
      case None
      let ?r = "resolve_insert (''sess-'' @ ss_token s (ss_drawn s)) (se_now E) ag mg thread mode (ss_sessions s)"
      let ?s1 = "s\<lparr>ss_drawn := Suc (ss_drawn s)\<rparr>"
      have run: "resolveSession E ag mg thread mode s = adopt ag ?r ?s1"
        by (simp add: resolveSession_def None io_bind_def draw_def)
      show ?thesis
      proof (cases ?r)
        case (Inl e)
        then show ?thesis unfolding run by (simp add: adopt_def io_throw_def row_kept_def)
      next
        case (Inr t)
        obtain x c rows where t: "t = (x, c, rows)" by (cases t) auto
        obtain new where rows: "rows = ss_sessions s @ new" using inserted_rows_append Inr t by metis
        have "keeps (row_kept i) (io_bind (if c then initSessionFolder ag (s_id x) else io_return ()) (\<lambda>_. io_return (x, c))
            :: ('z sess_db_scheme, session_row \<times> bool) sm)"
          by (auto intro!: keeps_intros)
        moreover have "row_kept i s (s\<lparr>ss_drawn := Suc (ss_drawn s), ss_sessions := ss_sessions s @ new\<rparr>)"
          by (auto simp: row_kept_def getSession_def find_append split: option.split)
        ultimately have "row_kept i s (snd (io_bind (if c then initSessionFolder ag (s_id x) else io_return ()) (\<lambda>_. io_return (x, c))
            (s\<lparr>ss_drawn := Suc (ss_drawn s), ss_sessions := ss_sessions s @ new\<rparr>)))"
          unfolding keeps_def using transpD [OF row_kept_rel(2)] by blast
        then show ?thesis unfolding run Inr t by (simp add: adopt_def on_sessions_def rows)
      qed
    qed
  qed
qed

lemma keeps_row_kept_perform: "keeps (row_kept i) (performAgentRoute E msg source target)"
proof -
  have read: "keeps (row_kept i) (withExistingMailboxSession ag sid (io_get f))" for ag sid and f :: "mailbox \<Rightarrow> 'b"
    by (auto simp: keeps_def withExistingMailboxSession_def row_kept_def set_mail_def split: option.split)
  have fwd: "keeps (row_kept i) (forwardFileAttachments (he_sess E) msg newId source target sid)" for newId sid
    unfolding forwardFileAttachments_def
    by (auto intro!: keeps_intros split: jtext.split sum.split js.split prod.split)
  show ?thesis
    unfolding performAgentRoute_def resolveTargetSession_def
    by (intro keeps_intros row_kept_rel read fwd) (auto intro!: keeps_intros split: option.split prod.split)
qed

subsection \<open>The row of the message\<close>

lemma insert_found:
  assumes "throwing (inbound_insertMessage (to_session_js m)) mb = (Inr (), mb')"
  shows "\<exists>x. find (\<lambda>r. ir_id r = ts_id m) (mb_in mb') = Some x \<and> stored_as m x"
proof -
  obtain x where x: "mb_in mb' = mb_in mb @ [x]" "stored_as m x" using insert_to_session(1) [OF assms refl] by blast
  have "ir_id x \<notin> ir_id ` set (mb_in mb)"
    using assms x(1)
    by (auto simp: throwing_def inbound_insertMessage_def nextHostSeq_def keep_claim_def insertMessage_def bnd_def
        insert_in_def Let_def split: option.splits sum.splits if_splits)
  then have "find (\<lambda>r. ir_id r = ts_id m) (mb_in mb) = None"
    using x(2) by (auto simp: find_None_iff stored_as_def image_iff)
  then show ?thesis using x by (simp add: find_append stored_as_def)
qed

lemma written_found:
  fixes s :: "'z sess_db_scheme"
  assumes "writeSessionMessage E ag sid m s = (Inr (), s')"
  shows "\<exists>mb x. ss_mail s' (ag, sid) = Some mb \<and> find (\<lambda>r. ir_id r = ts_id m) (mb_in mb) = Some x \<and>
           ir_sourceSessionId x = ts_sourceSessionId m"
  using assms unfolding writeSessionMessage_def
proof (elim io_bind_InrE)
  fix a b c and s1 s2 s3 :: "'z sess_db_scheme"
  assume w: "withMailboxSession ag sid (throwing (inbound_insertMessage (to_session_js (m\<lparr>ts_content := b\<rparr>)))) s2 = (Inr c, s3)"
    and fin: "on_sessions (updateSession sid (no_update\<lparr>su_last_active := Some (Some (se_now E))\<rparr>)) s3 = (Inr (), s')"
  obtain r mb where i: "throwing (inbound_insertMessage (to_session_js (m\<lparr>ts_content := b\<rparr>))) (mailbox_of ag sid s2) = (r, mb)"
    by fastforce
  have "r = Inr ()" "ss_mail s' (ag, sid) = Some mb"
    using w fin by (auto simp: withMailboxSession_def i on_sessions_def set_mail_def)
  then show ?thesis using insert_found i by (fastforce simp: stored_as_def)
qed

lemma receiver_agent:
  assumes "resolveTargetSession E msg source target s = (Inr r, s')"
  shows "s_agent_group_id r = target"
  using assms unfolding resolveTargetSession_def
  by (elim io_bind_InrE)
    (auto simp: io_return_def dest: resolve_agent elim!: io_bind_InrE split: option.splits if_splits prod.splits)

subsection \<open>Properties\<close>

text \<open>
  C15. A reply goes back to the session that sent the message.  When the message of an active session
  has been routed to another agent, some session of that agent holds a row for it, and whatever that
  session answers in reply to the row is received by the sending session, also when other sessions of
  the sender are newer, and finding it changes nothing.
\<close>
theorem reply_returns_to_sender:
  assumes "routeAgentMessage E msg source grant s = (Inr None, s')"
    and "am_platform_id msg = Some target" "route_decision msg source target grant s = Inr (ALLOW why)"
    and "getSession (s_id source) (ss_sessions s) = Some row" "s_status row = Active"
    and "s_agent_group_id row = s_agent_group_id source" "s_id source \<noteq> []"
  shows "\<exists>receiver i r. s_agent_group_id receiver = target \<and> ss_mail s' (target, s_id receiver) \<noteq> None \<and>
     getSession (s_id source) (ss_sessions s') = Some r \<and>
     (\<forall>reply. am_in_reply_to reply = Some i \<longrightarrow>
        resolveTargetSession E' reply receiver (s_agent_group_id source) s' = (Inr r, s'))"
proof -
  have run: "performAgentRoute E msg source target s = (Inr (), s')"
    using assms(1-3)
    by (auto simp: routeAgentMessage_def nonblank_def io_throw_def route_message_def elim!: io_bind_InrE
        split: list.splits simp: io_return_def)
  have "row_kept (s_id source) s s'"
    using keeps_row_kept_perform run unfolding keeps_def by (metis snd_conv)
  then obtain r where r: "getSession (s_id source) (ss_sessions s') = Some r" "s_status r = Active"
      "s_agent_group_id r = s_agent_group_id source"
    using assms(4-6) by (auto simp: row_kept_def)
  show ?thesis
    using run unfolding performAgentRoute_def
  proof (elim io_bind_InrE)
    fix receiver s1 tok s2 content s3 u s4
    assume steps: "resolveTargetSession E msg source target s = (Inr receiver, s1)"
        "writeSessionMessage (he_sess E) target (s_id receiver) (routed_message E (''a2a-'' @ tok) source content) s3 = (Inr u, s4)"
        "wakeContainer (s_id receiver) s4 = (Inr (), s')"
    have mail: "ss_mail s' = ss_mail s4"
      using steps(3) by (auto simp: wakeContainer_def host_event_def io_return_def split: option.splits)
    obtain mb x where x: "ss_mail s' (target, s_id receiver) = Some mb"
        "find (\<lambda>r. ir_id r = ''a2a-'' @ tok) (mb_in mb) = Some x" "ir_sourceSessionId x = Some (s_id source)"
      using written_found [of "he_sess E" target "s_id receiver" _ s3 s4] steps(2)
      by (fastforce simp: mail routed_message_def)
    have agent: "s_agent_group_id receiver = target" by (rule receiver_agent [OF steps(1)])
    have "resolveTargetSession E' reply receiver (s_agent_group_id source) s' = (Inr r, s')"
      if "am_in_reply_to reply = Some (''a2a-'' @ tok)" for reply
      using r x assms(7) that
      by (cases "s_id source") (simp_all add: resolveTargetSession_def withExistingMailboxSession_def agent set_mail_def fun_upd_idem io_bind_def
          return_path_def nonblank_def getInboundSourceSessionId_def io_return_def)
    then show ?thesis using agent x(1) r(1) by blast
  qed
qed

lemma reply_returns_to_sender_witness:
  "\<exists>receiver i r. s_agent_group_id receiver = ''b'' \<and>
     getSession ''s1'' (ss_sessions (snd (routeAgentMessage demo_host_env demo_message demo_sender None demo_host))) = Some r \<and>
     (\<forall>reply. am_in_reply_to reply = Some i \<longrightarrow>
        fst (resolveTargetSession demo_host_env reply receiver ''a''
          (snd (routeAgentMessage demo_host_env demo_message demo_sender None demo_host))) = Inr r)"
proof -
  let ?s' = "snd (routeAgentMessage demo_host_env demo_message demo_sender None demo_host)"
  have sid: "s_id demo_sender = ''s1''" "s_agent_group_id demo_sender = ''a''" by code_simp+
  have "fst (routeAgentMessage demo_host_env demo_message demo_sender None demo_host) = Inr None" by code_simp
  then have run: "routeAgentMessage demo_host_env demo_message demo_sender None demo_host = (Inr None, ?s')"
    by (simp add: prod_eq_iff)
  have target: "am_platform_id demo_message = Some ''b''" by code_simp
  have allowed: "route_decision demo_message demo_sender ''b'' None demo_host = Inr (ALLOW ''destination grant exists'')"
    by code_simp
  have row: "getSession (s_id demo_sender) (ss_sessions demo_host) = Some demo_sender" by code_simp
  have active: "s_status demo_sender = Active" "s_id demo_sender \<noteq> []" by code_simp+
  from reply_returns_to_sender [OF run target allowed row active(1) refl active(2), of demo_host_env]
  obtain receiver i r where "s_agent_group_id receiver = ''b''" "getSession (s_id demo_sender) (ss_sessions ?s') = Some r"
    "\<forall>reply. am_in_reply_to reply = Some i \<longrightarrow>
       resolveTargetSession demo_host_env reply receiver (s_agent_group_id demo_sender) ?s' = (Inr r, ?s')"
    by blast
  then show ?thesis unfolding sid by (metis fst_conv)
qed

end
