(* ===== verification/RunLog.thy ===== *)
theory RunLog
  imports AnchoredDir AgentGroups
begin

text \<open>
  The run log of a task series (\<open>src/modules/scheduling/run-log.ts\<close>): a file below the folder of the
  group, which its container can write.  \<open>dir\<close> gives the directory of a group's folder, if it
  exists, and \<open>stamp\<close> the local time in front of a line.
\<close>

definition series_char :: "char \<Rightarrow> bool" where
  "series_char c \<longleftrightarrow> (CHR ''a'' \<le> c \<and> c \<le> CHR ''z'') \<or> (CHR ''0'' \<le> c \<and> c \<le> CHR ''9'') \<or> c = CHR ''-''"

definition series_ok :: "string \<Rightarrow> bool" where
  "series_ok series \<longleftrightarrow> series \<noteq> [] \<and> list_all series_char series"

definition log_file :: "string \<Rightarrow> string" where
  "log_file series = series @ ''.md''"

definition log_line :: "string \<Rightarrow> string \<Rightarrow> string" where
  "log_line stamp msg = stamp @ '' '' @ emdash @ '' '' @ msg @ [CHR 0x0A]"

definition appendRunLog ::
    "env \<Rightarrow> (string \<Rightarrow> ino option) \<Rightarrow> string \<Rightarrow> agent_group list \<Rightarrow> string \<Rightarrow> string \<Rightarrow> string \<Rightarrow> unit io" where
  "appendRunLog env dir stamp groups ag series msg =
     (if \<not> series_ok series then io_throw (Error (''invalid task id: '' @ series))
      else case getAgentGroup ag groups of
             None \<Rightarrow> io_throw (Error (''agent group not found: '' @ ag))
           | Some g \<Rightarrow>
               io_bind (anchored_open env (dir (ag_folder g)) [''tasks''] True) (\<lambda>tasks. case tasks of
                 None \<Rightarrow> io_throw (Error (''could not open tasks dir for group '' @ ag_folder g))
               | Some d \<Rightarrow> appendFile env d (log_file series) (log_line stamp msg)))"

text \<open>\<open>text.trimEnd().split('\n').filter(Boolean).slice(-lines)\<close>.\<close>

definition tail_lines :: "nat \<Rightarrow> string \<Rightarrow> string list" where
  "tail_lines n t =
     (let ls = filter (\<lambda>l. l \<noteq> []) (js_split (CHR 0x0A) (rev (dropWhile js_space (rev t))))
      in if n = 0 then ls else drop (length ls - n) ls)"

definition readRunLogTail ::
    "env \<Rightarrow> (string \<Rightarrow> ino option) \<Rightarrow> agent_group list \<Rightarrow> string \<Rightarrow> string \<Rightarrow> nat \<Rightarrow> string list io" where
  "readRunLogTail env dir groups ag series n =
     (if \<not> series_ok series then io_return []
      else case getAgentGroup ag groups of
             None \<Rightarrow> io_return []
           | Some g \<Rightarrow>
               io_catch (io_bind (anchored_open env (dir (ag_folder g)) [''tasks''] False) (\<lambda>tasks. case tasks of
                   None \<Rightarrow> io_return []
                 | Some d \<Rightarrow> io_bind (readFile env d (log_file series)) (\<lambda>t. io_return (tail_lines n t))))
                 (\<lambda>_. io_return []))"

definition deleteRunLog ::
    "env \<Rightarrow> (string \<Rightarrow> ino option) \<Rightarrow> agent_group list \<Rightarrow> string \<Rightarrow> string \<Rightarrow> unit io" where
  "deleteRunLog env dir groups ag series =
     (if \<not> series_ok series then io_throw (Error (''invalid task id: '' @ series))
      else case getAgentGroup ag groups of
             None \<Rightarrow> io_throw (Error (''agent group not found: '' @ ag))
           | Some g \<Rightarrow>
               io_catch (io_bind (anchored_open env (dir (ag_folder g)) [''tasks''] False) (\<lambda>tasks. case tasks of
                   None \<Rightarrow> io_return () | Some d \<Rightarrow> anchored_unlink env d (log_file series)))
                 (\<lambda>_. io_return ()))"

text \<open>
  Whatever the container does, writing, reading and deleting a run log changes nothing outside the
  mounts, as long as the data of the line is data a container may hold.
\<close>

lemma confined_appendRunLog:
  assumes "container_env S env" "\<And>f i. dir f = Some i \<Longrightarrow> in_tree i" "S []"
    and "\<And>old. S old \<Longrightarrow> S (old @ log_line stamp msg)"
  shows "confined S (\<lambda>_. True) (appendRunLog env dir stamp groups ag series msg)"
proof -
  have "confined S (\<lambda>_. True) (io_bind (anchored_open env (dir f) [''tasks''] True) (\<lambda>tasks. case tasks of
      None \<Rightarrow> io_throw e | Some d \<Rightarrow> appendFile env d (log_file series) (log_line stamp msg)))" for f e
    by (rule confined_bind [OF confined_anchored_open [OF assms(1)]])
      (use assms in \<open>auto intro!: confined_rules split: option.split\<close>)
  then show ?thesis by (auto simp: appendRunLog_def intro!: confined_rules split: option.split)
qed

lemma confined_deleteRunLog:
  assumes "container_env S env" "\<And>f i. dir f = Some i \<Longrightarrow> in_tree i"
  shows "confined S (\<lambda>_. True) (deleteRunLog env dir groups ag series)"
proof -
  have "confined S (\<lambda>_. True) (io_bind (anchored_open env (dir f) [''tasks''] False) (\<lambda>tasks. case tasks of
      None \<Rightarrow> io_return () | Some d \<Rightarrow> anchored_unlink env d (log_file series)))" for f
    by (rule confined_bind [OF confined_anchored_open [OF assms(1)]])
      (use assms in \<open>auto intro!: confined_rules split: option.split\<close>)
  then show ?thesis by (auto simp: deleteRunLog_def intro!: confined_rules split: option.split)
qed

lemma tail_lines_bound: "0 < n \<Longrightarrow> length (tail_lines n t) \<le> n"
  by (simp add: tail_lines_def Let_def)

end
