(* ===== verification/Delivery.thy ===== *)
theory Delivery
  imports AgentRoute RunLog
begin

text \<open>
  Delivery of what the containers wrote (\<open>src/delivery.ts\<close>, \<open>src/delivery-guard.ts\<close>): the registry of
  system actions with their guards, the delivery of one message, the queue of a session and the two
  polls.  Handlers and hooks that modules register are arguments; \<open>he_adapter\<close> says whether an adapter
  is set.  All modules are installed, so their tables exist.
\<close>

subsection \<open>Guarded actions\<close>

type_synonym action_handler = "fields \<Rightarrow> session_row \<Rightarrow> (host_db, unit) sm"
type_synonym guarded_handler = "fields \<Rightarrow> session_row \<Rightarrow> pending_approval option \<Rightarrow> (host_db, unit) sm"

record delivery_guard_spec =
  gs_guardAction :: "host_db guarded_action_spec"
  gs_precheck :: "(fields \<Rightarrow> session_row \<Rightarrow> (host_db, bool) sm) option"
  gs_requestHold :: action_handler
  gs_onDeny :: "(fields \<Rightarrow> session_row \<Rightarrow> string \<Rightarrow> (host_db, unit) sm) option"

definition delivery_input :: "fields \<Rightarrow> session_row \<Rightarrow> pending_approval option \<Rightarrow> guard_input" where
  "delivery_input content session grant =
     \<lparr>gi_actor = AgentActor (s_agent_group_id session) (Some (s_id session)), gi_resource = Map.empty,
      gi_payload = content, gi_grant = grant\<rparr>"

definition delivery_decision ::
    "host_db guarded_action_spec \<Rightarrow> fields \<Rightarrow> session_row \<Rightarrow> pending_approval option \<Rightarrow> host_db \<Rightarrow> guard_decision res" where
  "delivery_decision a content session grant s =
     consult (\<lambda>i. getPendingApproval i (hd_approvals s)) s a (delivery_input content session grant)"

definition runGuarded ::
    "delivery_guard_spec \<Rightarrow> guarded_handler \<Rightarrow> fields \<Rightarrow> session_row \<Rightarrow> pending_approval option \<Rightarrow> (host_db, unit) sm" where
  "runGuarded spec handler content session grant =
     io_bind (case gs_precheck spec of None \<Rightarrow> io_return True | Some p \<Rightarrow> p content session) (\<lambda>goOn.
       if \<not> goOn then io_return ()
       else io_bind (io_get (delivery_decision (gs_guardAction spec) content session grant)) (\<lambda>d. case d of
         Inl e \<Rightarrow> io_throw e
       | Inr (DENY reason) \<Rightarrow> (case gs_onDeny spec of None \<Rightarrow> io_return () | Some f \<Rightarrow> f content session reason)
       | Inr (HOLD _ _) \<Rightarrow> gs_requestHold spec content session
       | Inr (ALLOW _) \<Rightarrow> handler content session grant))"

datatype delivery_entry = Plain string action_handler | Guarded delivery_guard_spec guarded_handler

type_synonym delivery_actions = "(string \<times> delivery_entry) list"

fun isUnguardedEntry :: "delivery_entry \<Rightarrow> bool" where
  "isUnguardedEntry (Plain _ _) = True"
| "isUnguardedEntry (Guarded _ _) = False"

definition registerDeliveryAction :: "string \<Rightarrow> delivery_entry \<Rightarrow> delivery_actions \<Rightarrow> delivery_actions res" where
  "registerDeliveryAction action entry reg =
     (case map_of reg action of
        Some old \<Rightarrow>
          (if isUnguardedEntry entry \<and> \<not> isUnguardedEntry old
           then Inl (Error (''delivery action \"'' @ action @
                  ''\" is guard-wrapped; re-registering it without a guard spec would disarm the guard''))
           else Inr (map_set action entry reg))
      | None \<Rightarrow> Inr (map_set action entry reg))"

definition reenterGuardedDeliveryAction ::
    "delivery_actions \<Rightarrow> string \<Rightarrow> fields \<Rightarrow> session_row \<Rightarrow> pending_approval \<Rightarrow> (host_db, unit) sm" where
  "reenterGuardedDeliveryAction reg action payload session approval =
     (case map_of reg action of
        Some (Guarded spec handler) \<Rightarrow> runGuarded spec handler payload session (Some approval)
      | _ \<Rightarrow> io_return ())"

definition getDeliveryAction :: "delivery_actions \<Rightarrow> string \<Rightarrow> action_handler option" where
  "getDeliveryAction reg action =
     (case map_of reg action of
        None \<Rightarrow> None
      | Some (Plain _ handler) \<Rightarrow> Some handler
      | Some (Guarded spec handler) \<Rightarrow> Some (\<lambda>content session. runGuarded spec handler content session None))"

subsection \<open>Delivering one message\<close>

text \<open>\<open>dv_folder\<close> is the directory of a group's folder, \<open>dv_stamp\<close> the local time of a group.\<close>

record delivery_env = host_env +
  dv_actions :: delivery_actions
  dv_previews :: "(outbound_delivery list \<Rightarrow> session_row \<Rightarrow> (host_db, unit) sm) list"
  dv_hooks :: "(outbound_delivery \<Rightarrow> session_row \<Rightarrow> bool \<Rightarrow> (host_db, unit) sm) list"
  dv_folder :: "string \<Rightarrow> ino option"
  dv_stamp :: "string \<Rightarrow> string"

definition MAX_DELIVERY_ATTEMPTS :: nat where
  "MAX_DELIVERY_ATTEMPTS = 3"

definition he :: "delivery_env \<Rightarrow> host_env" where
  "he E = host_env.truncate E"

text \<open>The properties of an action's content; a value that is no object has none.\<close>

definition content_fields :: "js \<Rightarrow> fields res" where
  "content_fields v = bnd (js_get v ''action'') (\<lambda>_. Inr (case v of JObj ps \<Rightarrow> ps | _ \<Rightarrow> []))"

definition handleSystemAction :: "delivery_actions \<Rightarrow> js \<Rightarrow> session_row \<Rightarrow> (host_db, unit) sm" where
  "handleSystemAction reg content session =
     (case content_fields content of
        Inl e \<Rightarrow> io_throw e
      | Inr ps \<Rightarrow>
          (case own ps ''action'' of
             JStr a \<Rightarrow> (case getDeliveryAction reg a of
                         Some registered \<Rightarrow> registered ps session
                       | None \<Rightarrow> io_return ())
           | _ \<Rightarrow> io_return ()))"

definition task_log :: "delivery_env \<Rightarrow> js \<Rightarrow> session_row \<Rightarrow> (host_db, unit) sm" where
  "task_log E content session =
     (case s_thread_id session of
        Some t \<Rightarrow>
          (if s_messaging_group_id session = None \<and> isTaskThread (Some t)
           then io_catch
             (case js_get content ''text'' of
                Inl e \<Rightarrow> io_throw e
              | Inr x \<Rightarrow>
                  io_bind (io_get hd_agents) (\<lambda>groups.
                    on_world (appendRunLog (se_container (he_sess E)) (dv_folder E) (dv_stamp E (s_agent_group_id session))
                      groups (s_agent_group_id session) (drop (length TASKS_SYSTEM_THREAD_ID + 1) t)
                      (case x of JStr s \<Rightarrow> s | _ \<Rightarrow> [])))) (\<lambda>_. io_return ())
           else io_return ())
      | None \<Rightarrow> io_return ())"

text \<open>A column that holds a time is set; the empty text counts as not set.\<close>

definition stamp_set :: "stamp option \<Rightarrow> bool" where
  "stamp_set x = (case x of Some (NotDate t) \<Rightarrow> t \<noteq> [] | Some _ \<Rightarrow> True | None \<Rightarrow> False)"

text \<open>The instance a message goes out through, if it names a channel; or why it may not.\<close>

definition channel_target :: "outbound_delivery \<Rightarrow> session_row \<Rightarrow> host_db \<Rightarrow> string option res" where
  "channel_target msg session s =
     (case (nonblank (od_channelType msg), nonblank (od_platformId msg)) of
        (Some ct, Some pid) \<Rightarrow>
          (case delivered_chat (hd_chat s) session ct pid of
             None \<Rightarrow> Inl (Error (''unknown messaging group for '' @ ct @ ''/'' @ pid @ '' (message '' @ od_id msg @ '')''))
           | Some mg \<Rightarrow>
              (if stamp_set (mg_detached_at mg)
               then Inl (Error (''messaging group '' @ mg_id mg @ '' is detached (bot removed from '' @
                      mg_channel_type mg @ ''/'' @ mg_platform_id mg @ '' at '' @
                      (case mg_detached_at mg of Some at \<Rightarrow> stamp_text at | None \<Rightarrow> []) @ '')''))
               else if s_messaging_group_id session \<noteq> Some (mg_id mg) \<and>
                       \<not> hasDestination (s_agent_group_id session) ToChannel (mg_id mg) (edges s)
               then Inl (Error (''unauthorized channel destination: '' @ s_agent_group_id session @
                      '' cannot send to '' @ mg_channel_type mg @ ''/'' @ mg_platform_id mg))
               else Inr (Some (mg_instance mg))))
      | _ \<Rightarrow> Inr None)"

text \<open>\<open>normalizeOption\<close> on a JSON value; the value of a column of type TEXT (numbers are bound as REAL).\<close>

definition normalize_js :: "js \<Rightarrow> js res" where
  "normalize_js raw =
     (case raw of
        JStr s \<Rightarrow> Inr (JObj [(''label'', raw), (''selectedLabel'', raw), (''value'', raw)])
      | _ \<Rightarrow> bnd (js_get raw ''label'') (\<lambda>label. bnd (js_get raw ''selectedLabel'') (\<lambda>sel.
             bnd (js_get raw ''value'') (\<lambda>val. bnd (js_get raw ''style'') (\<lambda>sty.
               Inr (JObj [(''label'', label), (''selectedLabel'', js_coalesce sel label), (''value'', js_coalesce val label),
                          (''style'', if sty \<in> {JStr ''primary'', JStr ''danger'', JStr ''default''} then sty else JUndefined)]))))))"

fun normalize_all :: "js list \<Rightarrow> js list res" where
  "normalize_all [] = Inr []"
| "normalize_all (x # xs) = bnd (normalize_js x) (\<lambda>y. bnd (normalize_all xs) (\<lambda>ys. Inr (y # ys)))"

definition sql_text :: "js \<Rightarrow> string res" where
  "sql_text v = (case v of JStr s \<Rightarrow> Inr s | JNum n \<Rightarrow> Inr (int_str n @ ''.0'') | JOther s \<Rightarrow> Inr s | _ \<Rightarrow> Inl TypeError)"

definition track_question :: "delivery_env \<Rightarrow> js \<Rightarrow> outbound_delivery \<Rightarrow> session_row \<Rightarrow> (host_db, unit) sm" where
  "track_question E content msg session =
     (case bnd (js_get content ''type'') (\<lambda>t. bnd (js_get content ''questionId'') (\<lambda>q.
            bnd (js_get content ''title'') (\<lambda>title. bnd (js_get content ''options'') (\<lambda>opts. Inr (t, q, title, opts))))) of
        Inl e \<Rightarrow> io_throw e
      | Inr (t, q, title, opts) \<Rightarrow>
          (if t \<noteq> JStr ''ask_question'' \<or> \<not> js_truthy q then io_return ()
           else case opts of
             JArr raws \<Rightarrow>
               (if \<not> js_truthy title then io_return ()
                else case bnd (normalize_all raws) (\<lambda>os. bnd (sql_text q) (\<lambda>qid. bnd (sql_text title) (\<lambda>ti. Inr (os, qid, ti)))) of
                       Inl e \<Rightarrow> io_throw e
                     | Inr (os, qid, ti) \<Rightarrow>
                         io_modify (\<lambda>s. s\<lparr>hd_questions := snd (createPendingQuestion
                           \<lparr>pq_question_id = qid, pq_session_id = s_id session, pq_message_out_id = od_id msg,
                            pq_platform_id = od_platformId msg, pq_channel_type = od_channelType msg,
                            pq_thread_id = od_threadId msg, pq_title = ti, pq_options = JArr os,
                            pq_created_at = se_now (he_sess E)\<rparr> (hd_questions s))\<rparr>))
           | _ \<Rightarrow> io_return ()))"

definition postMessage :: "delivery_env \<Rightarrow> channel_post \<Rightarrow> (host_db, string option) sm" where
  "postMessage E p =
     io_bind (io_get ss_drawn) (\<lambda>k. io_bind draw (\<lambda>_. case he_send E k p of
       Inl e \<Rightarrow> io_throw e
     | Inr pid \<Rightarrow> io_bind (host_event (Posted p)) (\<lambda>_. io_return pid)))"

definition outbox_files :: "delivery_env \<Rightarrow> js \<Rightarrow> outbound_delivery \<Rightarrow> session_row \<Rightarrow> (host_db, (string \<times> string) list option) sm" where
  "outbox_files E content msg session =
     (case js_get content ''files'' of
        Inl e \<Rightarrow> io_throw e
      | Inr (JArr (f # fs)) \<Rightarrow>
          io_bind (io_get (session_root (he_sess E) (s_agent_group_id session) (s_id session))) (\<lambda>root.
            on_world (readOutboxFiles (se_container (he_sess E)) root (od_id msg) (f # fs)))
      | Inr _ \<Rightarrow> io_return None)"

definition to_channel ::
    "delivery_env \<Rightarrow> js \<Rightarrow> outbound_delivery \<Rightarrow> session_row \<Rightarrow> string option \<Rightarrow> (host_db, string option) sm" where
  "to_channel E content msg session inst =
     (case (nonblank (od_channelType msg), nonblank (od_platformId msg)) of
        (Some ct, Some pid) \<Rightarrow>
          io_bind (outbox_files E content msg session) (\<lambda>files.
          io_bind (postMessage E \<lparr>cp_channelType = ct, cp_platformId = pid, cp_threadId = od_threadId msg,
                     cp_kind = od_kind msg, cp_content = od_content msg, cp_files = files, cp_instance = inst\<rparr>) (\<lambda>sent.
          io_bind (io_get (session_root (he_sess E) (s_agent_group_id session) (s_id session))) (\<lambda>root.
          io_bind (on_world (clearOutbox (se_container (he_sess E)) root (od_id msg))) (\<lambda>_.
            io_return sent))))
      | _ \<Rightarrow> io_return None)"

definition deliverMessage :: "delivery_env \<Rightarrow> outbound_delivery \<Rightarrow> session_row \<Rightarrow> (host_db, string option) sm" where
  "deliverMessage E msg session =
     (if \<not> he_adapter E then io_return None
      else case se_parse (he_sess E) (od_content msg) of
        Inl e \<Rightarrow> io_throw e
      | Inr content \<Rightarrow>
          (if od_kind msg = ''system''
           then io_bind (handleSystemAction (dv_actions E) content session) (\<lambda>_. io_return None)
           else if od_kind msg = ''task_log''
           then io_bind (task_log E content session) (\<lambda>_. io_return None)
           else if od_channelType msg = Some ''agent''
           then io_bind (routeAgentMessage (he E) \<lparr>am_id = od_id msg, am_platform_id = od_platformId msg,
                           am_content = od_content msg, am_in_reply_to = od_inReplyTo msg\<rparr> session None) (\<lambda>refused.
                case refused of Some reason \<Rightarrow> io_throw (Error reason) | None \<Rightarrow> io_return None)
           else io_bind (io_get (channel_target msg session)) (\<lambda>target. case target of
                Inl e \<Rightarrow> io_throw e
              | Inr inst \<Rightarrow>
                  io_bind (track_question E content msg session) (\<lambda>_. to_channel E content msg session inst))))"

subsection \<open>The queue of a session\<close>

definition attempts_of :: "string \<Rightarrow> host_db \<Rightarrow> nat" where
  "attempts_of i s = (case map_of (hd_attempts s) i of Some n \<Rightarrow> n | None \<Rightarrow> 0)"

definition set_attempts :: "string \<Rightarrow> nat \<Rightarrow> (host_db, unit) sm" where
  "set_attempts i n = io_modify (\<lambda>s. s\<lparr>hd_attempts := map_set i n (hd_attempts s)\<rparr>)"

definition forget_attempts :: "string \<Rightarrow> (host_db, unit) sm" where
  "forget_attempts i = io_modify (\<lambda>s. s\<lparr>hd_attempts := map_delete i (hd_attempts s)\<rparr>)"

definition on_ledger :: "session_row \<Rightarrow> (mailbox \<Rightarrow> mailbox) \<Rightarrow> (host_db, unit) sm" where
  "on_ledger session f =
     io_bind (withExistingMailboxSession (s_agent_group_id session) (s_id session) (io_modify f)) (\<lambda>_. io_return ())"

fun run_hooks :: "(outbound_delivery \<Rightarrow> session_row \<Rightarrow> bool \<Rightarrow> (host_db, unit) sm) list
       \<Rightarrow> outbound_delivery \<Rightarrow> session_row \<Rightarrow> bool \<Rightarrow> (host_db, unit) sm" where
  "run_hooks [] msg session isFirst = io_return ()"
| "run_hooks (h # hs) msg session isFirst =
     io_bind (io_catch (h msg session isFirst) (\<lambda>_. io_return ())) (\<lambda>_. run_hooks hs msg session isFirst)"

fun run_previews :: "(outbound_delivery list \<Rightarrow> session_row \<Rightarrow> (host_db, unit) sm) list
       \<Rightarrow> outbound_delivery list \<Rightarrow> session_row \<Rightarrow> (host_db, unit) sm" where
  "run_previews [] msgs session = io_return ()"
| "run_previews (h # hs) msgs session =
     io_bind (io_catch (h msgs session) (\<lambda>_. io_return ())) (\<lambda>_. run_previews hs msgs session)"

definition after_delivery ::
    "delivery_env \<Rightarrow> agent_group \<Rightarrow> session_row \<Rightarrow> bool \<Rightarrow> outbound_delivery \<Rightarrow> (host_db, unit) sm" where
  "after_delivery E g session isFirst msg =
     (if od_kind msg \<noteq> ''system'' \<and> od_channelType msg \<noteq> Some ''agent''
      then io_bind (host_event (TypingPaused (s_id session))) (\<lambda>_.
        if od_kind msg \<noteq> ''task_log''
        then io_bind (io_get hd_chat) (\<lambda>chats.
             io_bind (fanOutboundMessage (he_sess E) chats msg session g) (\<lambda>_. run_hooks (dv_hooks E) msg session isFirst))
        else io_return ())
      else io_return ())"

definition record_failure :: "delivery_env \<Rightarrow> session_row \<Rightarrow> outbound_delivery \<Rightarrow> (host_db, unit) sm" where
  "record_failure E session msg =
     io_bind (io_get (attempts_of (od_id msg))) (\<lambda>n.
     io_bind (set_attempts (od_id msg) (n + 1)) (\<lambda>_.
       if MAX_DELIVERY_ATTEMPTS \<le> n + 1
       then io_catch
              (io_bind (on_ledger session (markDeliveryFailed (se_clock (he_sess E)) (od_id msg))) (\<lambda>_.
                 forget_attempts (od_id msg))) (\<lambda>_. io_return ())
       else io_return ()))"

text \<open>One message of the queue; \<open>delivered\<close> are the ids known to be delivered.\<close>

definition deliver_one ::
    "delivery_env \<Rightarrow> agent_group \<Rightarrow> session_row \<Rightarrow> string set \<Rightarrow> outbound_delivery \<Rightarrow> (host_db, string set) sm" where
  "deliver_one E g session delivered msg =
     io_catch
       (io_bind (deliverMessage E msg session) (\<lambda>pid.
        io_bind (on_ledger session (markDelivered (se_clock (he_sess E)) (od_id msg) pid)) (\<lambda>_.
        io_bind (forget_attempts (od_id msg)) (\<lambda>_.
        io_bind (after_delivery E g session (delivered = {}) msg) (\<lambda>_.
          io_return (insert (od_id msg) delivered))))))
       (\<lambda>_. io_bind (record_failure E session msg) (\<lambda>_. io_return delivered))"

fun deliver_all ::
    "delivery_env \<Rightarrow> agent_group \<Rightarrow> session_row \<Rightarrow> string set \<Rightarrow> outbound_delivery list \<Rightarrow> (host_db, unit) sm" where
  "deliver_all E g session delivered [] = io_return ()"
| "deliver_all E g session delivered (m # ms) =
     io_bind (deliver_one E g session delivered m) (\<lambda>delivered'. deliver_all E g session delivered' ms)"

definition queue_of :: "clock \<Rightarrow> mailbox \<Rightarrow> string set \<times> outbound_delivery list" where
  "queue_of ck mb =
     (let delivered = getDeliveredIds mb
      in (delivered, filter (\<lambda>m. od_id m \<notin> delivered) (getDueMessages ck delivered mb)))"

definition drainSession :: "delivery_env \<Rightarrow> session_row \<Rightarrow> (host_db, unit) sm" where
  "drainSession E session =
     io_bind (io_get (\<lambda>s. getAgentGroup (s_agent_group_id session) (hd_agents s))) (\<lambda>found. case found of
       None \<Rightarrow> io_return ()
     | Some g \<Rightarrow>
         io_bind (io_catch (withExistingMailboxSession (ag_id g) (s_id session)
                     (io_get (queue_of (se_clock (he_sess E))))) (\<lambda>_. io_return None)) (\<lambda>queue. case queue of
           None \<Rightarrow> io_return ()
         | Some (delivered, pending) \<Rightarrow>
             io_bind (run_previews (dv_previews E) pending session) (\<lambda>_. deliver_all E g session delivered pending)))"

definition deliverSessionMessages :: "delivery_env \<Rightarrow> session_row \<Rightarrow> (host_db, unit) sm" where
  "deliverSessionMessages E session s =
     (if s_id session \<in> set (hd_inflight s) then (Inr (), s)
      else let (r, s') = drainSession E session (s\<lparr>hd_inflight := s_id session # hd_inflight s\<rparr>)
           in (r, s'\<lparr>hd_inflight := removeAll (s_id session) (hd_inflight s')\<rparr>))"

text \<open>A poll; an error in one session ends it.\<close>

fun poll_sessions :: "delivery_env \<Rightarrow> session_row list \<Rightarrow> (host_db, unit) sm" where
  "poll_sessions E [] = io_return ()"
| "poll_sessions E (r # rs) = io_bind (deliverSessionMessages E r) (\<lambda>_. poll_sessions E rs)"

definition pollActive :: "delivery_env \<Rightarrow> (host_db, unit) sm" where
  "pollActive E = io_catch (io_bind (io_get (\<lambda>s. getRunningSessions (ss_sessions s))) (poll_sessions E)) (\<lambda>_. io_return ())"

definition pollSweep :: "delivery_env \<Rightarrow> (host_db, unit) sm" where
  "pollSweep E = io_catch (io_bind (io_get (\<lambda>s. getActiveSessions (ss_sessions s))) (poll_sessions E)) (\<lambda>_. io_return ())"

end
