(* ===== verification/DeliverySafety.thy ===== *)
theory DeliverySafety
  imports Delivery
begin

text \<open>
  What delivery does and what it leaves alone.  \<open>host_frame\<close> says that a relation on states allows the
  primitive steps of the outbound side (inbound messages and sessions may be added, posts may not),
  and its lemmas that it then allows routing to an agent, fanning out and asking for an approval.
  The instances are \<open>quiet\<close> (nothing is posted to a channel) and \<open>ledger\<close> (no message leaves the
  queue, no delivery is forgotten).
\<close>

subsection \<open>The frame of the outbound side\<close>

lemma insert_keeps_ledger:
  assumes "throwing (inbound_insertMessage j) mb = (r, mb')"
  shows "mb_out mb' = mb_out mb" "mb_delivered mb' = mb_delivered mb"
  using assms
  by (auto simp: throwing_def inbound_insertMessage_def nextHostSeq_def keep_claim_def insertMessage_def bnd_def
      insert_in_def Let_def split: option.splits sum.splits if_splits)

locale host_frame =
  fixes P :: "host_db \<Rightarrow> host_db \<Rightarrow> bool"
  assumes refl: "reflp P" and trans: "transp P"
    and mail: "mb_out mb = mb_out (mailbox_of ag sid s) \<Longrightarrow> mb_delivered mb = mb_delivered (mailbox_of ag sid s)
                 \<Longrightarrow> P s (set_mail ag sid mb s)"
    and rows: "P s (s\<lparr>ss_sessions := new\<rparr>)"
    and world: "P s (s\<lparr>ss_world := w\<rparr>)"
    and drawn: "P s (s\<lparr>ss_drawn := n\<rparr>)"
    and tables: "P s (s\<lparr>hd_approvals := a, hd_chat := c\<rparr>)"
    and questions: "P s (s\<lparr>hd_questions := q\<rparr>)"
    and logged: "(\<And>p. e \<noteq> Posted p) \<Longrightarrow> P s (s\<lparr>hd_log := hd_log s @ [e]\<rparr>)"
begin

lemma basic:
  "keeps P (initSessionFolder ag sid)"
  "keeps P (on_sessions f)"
  "keeps P (on_world m)"
  "keeps P draw"
  "(\<And>p. e \<noteq> Posted p) \<Longrightarrow> keeps P (host_event e)"
  "keeps P (io_modify (\<lambda>s. s\<lparr>hd_approvals := f1 s, hd_chat := g1 s\<rparr>))"
  "keeps P (io_modify (\<lambda>s. s\<lparr>hd_questions := q1 s\<rparr>))"
  using rows world drawn tables questions logged mail
  by (auto simp: keeps_def initSessionFolder_def on_sessions_def on_world_def draw_def host_event_def split: prod.split)

lemmas frame_intros = keeps_return [OF refl] keeps_throw [OF refl] keeps_get [OF refl] keeps_bind [OF trans]
  keeps_catch [OF trans] basic

lemma inserted: "keeps P (withMailboxSession ag sid (throwing (inbound_insertMessage j)))"
proof -
  have "P s (snd (withMailboxSession ag sid (throwing (inbound_insertMessage j)) s))" for s
    using insert_keeps_ledger [of j "mailbox_of ag sid s"]
    by (auto simp: withMailboxSession_def Let_def intro!: mail split: prod.split)
  then show ?thesis by (simp add: keeps_def)
qed

lemma wrote: "keeps P (writeSessionMessage E ag sid m)"
  unfolding writeSessionMessage_def by (intro frame_intros inserted)

lemma read: "keeps P (withExistingMailboxSession ag sid (io_get f))"
proof -
  have "P s (snd (withExistingMailboxSession ag sid (io_get f) s))" for s
    using reflpD [OF refl] by (auto simp: withExistingMailboxSession_def mailbox_of_def intro!: mail split: option.split)
  then show ?thesis by (simp add: keeps_def)
qed

lemma resolved: "keeps P (resolveSession E ag mg thread mode)"
  unfolding resolveSession_def adopt_def
  by (intro frame_intros) (auto intro!: frame_intros split: option.split sum.split prod.split)

lemma woken: "keeps P (wakeContainer sid)"
  unfolding wakeContainer_def by (auto intro!: frame_intros split: option.split)

lemma noted: "keeps P (writeNote E session body)"
  unfolding writeNote_def by (intro frame_intros wrote)

lemma played: "keeps P (play E session es)"
  by (induction es) (auto intro!: frame_intros noted split: appr_out.split)

lemma asked: "keeps P (askApproval E q)"
  unfolding askApproval_def by (intro frame_intros) (auto intro!: frame_intros played split: sum.split)

lemma copied: "keeps P (forwardFileAttachments E msg newId source target sid)"
  unfolding forwardFileAttachments_def
  by (auto intro!: frame_intros split: jtext.split sum.split js.split prod.split)

lemma performed: "keeps P (performAgentRoute E msg source target)"
  unfolding performAgentRoute_def resolveTargetSession_def
  by (intro frame_intros read wrote copied woken) (auto intro!: frame_intros resolved split: option.split prod.split)

lemma routed: "keeps P (routeAgentMessage E msg source grant)"
  unfolding routeAgentMessage_def route_message_def
  by (auto intro!: frame_intros asked performed split: option.split sum.split guard_decision.split)

lemma fan: "keeps P (fan_loop E i targets)"
  by (induction targets) (auto intro!: frame_intros wrote)

lemma fanned: "keeps P (fanOutboundMessage E chats msg session g)"
  by (auto simp: fanOutboundMessage_def fanEcho_def Let_def intro!: frame_intros fan split: prod.split option.split)

lemma task_logged: "keeps P (task_log E content session)"
  by (auto simp: task_log_def intro!: frame_intros split: option.split sum.split)

lemma tracked: "keeps P (track_question E content msg session)"
  by (auto simp: track_question_def intro!: frame_intros split: sum.split prod.split js.split)

lemma hooks_ran:
  assumes "\<And>h. h \<in> set hs \<Longrightarrow> keeps P (h msg session b)"
  shows "keeps P (run_hooks hs msg session b)"
  using assms by (induction hs) (auto intro!: frame_intros)

lemma previews_ran:
  assumes "\<And>h. h \<in> set hs \<Longrightarrow> keeps P (h msgs session)"
  shows "keeps P (run_previews hs msgs session)"
  using assms by (induction hs) (auto intro!: frame_intros)

lemma files_read: "keeps P (outbox_files E content msg session)"
  unfolding outbox_files_def by (auto intro!: frame_intros split: sum.split js.split list.split)

end

subsection \<open>Nothing posted\<close>

definition posts :: "host_db \<Rightarrow> channel_post list" where
  "posts s = concat (map (\<lambda>e. case e of Posted p \<Rightarrow> [p] | _ \<Rightarrow> []) (hd_log s))"

definition quiet :: "host_db \<Rightarrow> host_db \<Rightarrow> bool" where
  "quiet s s' \<longleftrightarrow> posts s' = posts s"

interpretation silent: host_frame quiet
  by unfold_locales
    (auto simp: quiet_def posts_def reflp_def transp_def set_mail_def split: host_event.split)

subsection \<open>Nothing lost\<close>

definition ledger :: "host_db \<Rightarrow> host_db \<Rightarrow> bool" where
  "ledger s s' \<longleftrightarrow>
     (\<forall>k mb. ss_mail s k = Some mb \<longrightarrow>
        (\<exists>mb'. ss_mail s' k = Some mb' \<and> mb_out mb' = mb_out mb \<and> getDeliveredIds mb \<subseteq> getDeliveredIds mb')) \<and>
     hd_agents s' = hd_agents s \<and> hd_attempts s' = hd_attempts s \<and> hd_inflight s' = hd_inflight s"

lemma ledger_rel: "reflp ledger" "transp ledger"
  by (auto simp: reflp_def transp_def ledger_def) (metis subset_trans)+

interpretation sure: host_frame ledger
proof unfold_locales
  show "mb_out mb = mb_out (mailbox_of ag sid s) \<Longrightarrow> mb_delivered mb = mb_delivered (mailbox_of ag sid s) \<Longrightarrow>
      ledger s (set_mail ag sid mb s)" for mb ag sid s
    by (auto simp: ledger_def set_mail_def mailbox_of_def getDeliveredIds_def split: option.splits)
qed (use ledger_rel in \<open>auto simp: ledger_def\<close>)

subsection \<open>A message and its ledger\<close>

definition settled :: "session_row \<Rightarrow> string \<Rightarrow> host_db \<Rightarrow> bool" where
  "settled session i s \<longleftrightarrow>
     (case ss_mail s (s_agent_group_id session, s_id session) of Some mb \<Rightarrow> i \<in> getDeliveredIds mb | None \<Rightarrow> False)"

definition has_mailbox :: "session_row \<Rightarrow> host_db \<Rightarrow> bool" where
  "has_mailbox session s \<longleftrightarrow> ss_mail s (s_agent_group_id session, s_id session) \<noteq> None"

text \<open>\<open>ledger\<close> without the counters of attempts.\<close>

definition kept :: "host_db \<Rightarrow> host_db \<Rightarrow> bool" where
  "kept s s' \<longleftrightarrow>
     (\<forall>k mb. ss_mail s k = Some mb \<longrightarrow>
        (\<exists>mb'. ss_mail s' k = Some mb' \<and> mb_out mb' = mb_out mb \<and> getDeliveredIds mb \<subseteq> getDeliveredIds mb')) \<and>
     hd_agents s' = hd_agents s \<and> hd_inflight s' = hd_inflight s"

lemma kept_refl [simp]: "kept s s"
  by (auto simp: kept_def)

lemma kept_trans: "kept s s1 \<Longrightarrow> kept s1 s2 \<Longrightarrow> kept s s2"
  unfolding kept_def by (intro conjI allI impI; (elim conjE)?) (fastforce | metis)+

lemma ledger_kept: "ledger s s' \<longleftrightarrow> kept s s' \<and> hd_attempts s' = hd_attempts s"
  by (auto simp: ledger_def kept_def)

lemma kept_settled: "kept s s' \<Longrightarrow> settled session i s \<Longrightarrow> settled session i s'"
  and kept_mailbox: "kept s s' \<Longrightarrow> has_mailbox session s \<Longrightarrow> has_mailbox session s'"
  unfolding kept_def settled_def has_mailbox_def
  by (auto split: option.splits) (metis option.distinct(1) option.inject subsetD)+

text \<open>What registered handlers and hooks must keep: they leave the queue and its ledger alone.\<close>

definition handlers_ok :: "delivery_env \<Rightarrow> bool" where
  "handlers_ok E \<longleftrightarrow>
     (\<forall>a h. getDeliveryAction (dv_actions E) a = Some h \<longrightarrow> (\<forall>content session. keeps ledger (h content session))) \<and>
     (\<forall>h \<in> set (dv_hooks E). \<forall>msg session b. keeps ledger (h msg session b)) \<and>
     (\<forall>h \<in> set (dv_previews E). \<forall>msgs session. keeps ledger (h msgs session))"

lemma posted_ledger: "keeps ledger (postMessage E p)"
proof -
  have "keeps ledger (host_event e)" for e by (auto simp: keeps_def host_event_def ledger_def)
  then show ?thesis
    unfolding postMessage_def
    by (auto intro!: sure.frame_intros(1-3) sure.frame_intros(4) sure.basic(4) split: sum.split)
qed

lemma delivered_ledger: "handlers_ok E \<Longrightarrow> keeps ledger (deliverMessage E msg session)"
  unfolding deliverMessage_def handleSystemAction_def to_channel_def handlers_ok_def
  by (auto intro!: sure.frame_intros sure.routed sure.task_logged sure.tracked sure.files_read posted_ledger
      split: sum.split option.split js.split)

lemma after_ledger: "handlers_ok E \<Longrightarrow> keeps ledger (after_delivery E g session b msg)"
  unfolding after_delivery_def handlers_ok_def
  by (auto intro!: sure.frame_intros sure.fanned sure.hooks_ran)

lemma attempts_set: "attempts_of j (s\<lparr>hd_attempts := map_set i n (hd_attempts s)\<rparr>) = (if j = i then n else attempts_of j s)"
  and attempts_forget: "attempts_of j (s\<lparr>hd_attempts := map_delete i (hd_attempts s)\<rparr>) = (if j = i then 0 else attempts_of j s)"
  by (simp_all add: attempts_of_def map_of_map_set map_of_map_delete)

subsection \<open>One message\<close>

lemma on_ledger_run:
  assumes "has_mailbox session s"
  shows "\<exists>mb. ss_mail s (s_agent_group_id session, s_id session) = Some mb \<and>
     on_ledger session f s = (Inr (), set_mail (s_agent_group_id session) (s_id session) (f mb) s)"
  using assms by (auto simp: has_mailbox_def on_ledger_def io_bind_def withExistingMailboxSession_def io_return_def)

lemma insert_delivered_ids: "getDeliveredIds (insert_delivered d mb) = insert (dr_messageOutId d) (getDeliveredIds mb)"
  by (auto simp: insert_delivered_def getDeliveredIds_def)

lemma insert_delivered_out: "mb_out (insert_delivered d mb) = mb_out mb"
  by (simp add: insert_delivered_def)

lemma on_ledger_marks:
  assumes "has_mailbox session s" "f = markDelivered ck i pid \<or> f = markDeliveryFailed ck i"
  shows "\<exists>s'. on_ledger session f s = (Inr (), s') \<and> kept s s' \<and> settled session i s' \<and> hd_attempts s' = hd_attempts s"
  using on_ledger_run [OF assms(1), of f] assms(2)
  by (auto simp: kept_def settled_def set_mail_def markDelivered_def markDeliveryFailed_def insert_delivered_ids
      insert_delivered_out)

text \<open>The counters of a step: that of \<open>i\<close> went up by one and is below the limit, or \<open>i\<close> is settled.\<close>

definition counted :: "session_row \<Rightarrow> string \<Rightarrow> host_db \<Rightarrow> host_db \<Rightarrow> bool" where
  "counted session i s s' \<longleftrightarrow>
     settled session i s' \<or> (attempts_of i s' = attempts_of i s + 1 \<and> attempts_of i s' < MAX_DELIVERY_ATTEMPTS)"

definition others_same :: "string \<Rightarrow> host_db \<Rightarrow> host_db \<Rightarrow> bool" where
  "others_same i s s' \<longleftrightarrow> (\<forall>j. j \<noteq> i \<longrightarrow> attempts_of j s' = attempts_of j s)"

lemma kept_attempts [simp]: "kept s (s1\<lparr>hd_attempts := a\<rparr>) = kept s s1"
  and settled_attempts [simp]: "settled session i (s1\<lparr>hd_attempts := a\<rparr>) = settled session i s1"
  and has_mailbox_attempts [simp]: "has_mailbox session (s1\<lparr>hd_attempts := a\<rparr>) = has_mailbox session s1"
  by (simp_all add: kept_def settled_def has_mailbox_def)

lemma record_failure_effect:
  assumes "has_mailbox session s"
  shows "\<exists>s'. record_failure E session msg s = (Inr (), s') \<and> kept s s' \<and> counted session (od_id msg) s s' \<and>
     others_same (od_id msg) s s'"
proof -
  define n where "n = attempts_of (od_id msg) s"
  define s1 where "s1 = s\<lparr>hd_attempts := map_set (od_id msg) (n + 1) (hd_attempts s)\<rparr>"
  have run: "record_failure E session msg s = (if MAX_DELIVERY_ATTEMPTS \<le> n + 1
      then io_catch (io_bind (on_ledger session (markDeliveryFailed (se_clock (he_sess E)) (od_id msg))) (\<lambda>_.
             forget_attempts (od_id msg))) (\<lambda>_. io_return ()) s1
      else (Inr (), s1))"
    by (simp add: record_failure_def set_attempts_def n_def s1_def io_return_def)
  have a1: "attempts_of j s1 = (if j = od_id msg then n + 1 else attempts_of j s)" for j
    by (simp add: s1_def attempts_set)
  show ?thesis
  proof (cases "MAX_DELIVERY_ATTEMPTS \<le> n + 1")
    case False
    then show ?thesis by (simp add: run counted_def others_same_def a1 n_def s1_def [symmetric]) (simp add: s1_def)
  next
    case True
    have "has_mailbox session s1" using assms by (simp add: s1_def)
    then obtain s2 where s2: "on_ledger session (markDeliveryFailed (se_clock (he_sess E)) (od_id msg)) s1 = (Inr (), s2)"
        "kept s1 s2" "settled session (od_id msg) s2" "hd_attempts s2 = hd_attempts s1"
      using on_ledger_marks by blast
    let ?s3 = "s2\<lparr>hd_attempts := map_delete (od_id msg) (hd_attempts s2)\<rparr>"
    have "record_failure E session msg s = (Inr (), ?s3)"
      using True by (simp add: run io_catch_def io_bind_def s2(1) forget_attempts_def)
    moreover have "kept s s2" using s2(2) kept_trans [of s s1 s2] by (simp add: s1_def)
    moreover have "attempts_of j s2 = attempts_of j s1" for j by (simp add: attempts_of_def s2(4))
    ultimately show ?thesis
      using s2(3) by (auto simp: counted_def others_same_def attempts_forget a1)
  qed
qed

lemma deliver_one_effect:
  assumes "handlers_ok E" "has_mailbox session s"
  shows "\<exists>d s'. deliver_one E g session delivered msg s = (Inr d, s') \<and> kept s s' \<and>
     counted session (od_id msg) s s' \<and> others_same (od_id msg) s s'"
proof -
  let ?i = "od_id msg"
  obtain r s1 where m: "deliverMessage E msg session s = (r, s1)" by fastforce
  have l1: "ledger s s1" using delivered_ledger [OF assms(1)] m unfolding keeps_def by (metis snd_conv)
  then have mb1: "has_mailbox session s1" using kept_mailbox assms(2) by (auto simp: ledger_kept)
  have same1: "attempts_of j s1 = attempts_of j s" for j using l1 by (simp add: attempts_of_def ledger_def)
  have fail: "\<exists>d s'. io_bind (record_failure E session msg) (\<lambda>_. io_return delivered) s2 = (Inr d, s') \<and> kept s s' \<and>
     counted session ?i s2 s' \<and> others_same ?i s2 s'" if "kept s s2" for s2
    using record_failure_effect [OF kept_mailbox [OF that assms(2)], of E msg] kept_trans [OF that]
    by (auto simp: io_bind_def io_return_def)
  show ?thesis
  proof (cases r)
    case (Inl e)
    have "kept s s1" using l1 by (simp add: ledger_kept)
    from fail [OF this] show ?thesis
      by (auto simp: deliver_one_def io_catch_def io_bind_def m Inl counted_def others_same_def same1)
  next
    case (Inr pid)
    obtain s2 where s2: "on_ledger session (markDelivered (se_clock (he_sess E)) ?i pid) s1 = (Inr (), s2)"
        "kept s1 s2" "settled session ?i s2" "hd_attempts s2 = hd_attempts s1"
      using on_ledger_marks [OF mb1] by blast
    let ?s3 = "s2\<lparr>hd_attempts := map_delete ?i (hd_attempts s2)\<rparr>"
    obtain r4 s4 where a: "after_delivery E g session (delivered = {}) msg ?s3 = (r4, s4)" by fastforce
    have l4: "ledger ?s3 s4" using after_ledger [OF assms(1)] a unfolding keeps_def by (metis snd_conv)
    have k2: "kept s s2" using kept_trans s2(2) l1 by (metis ledger_kept)
    have k4: "kept s s4" using kept_trans [of s ?s3 s4] k2 l4 by (simp add: ledger_kept)
    have fin: "settled session ?i s4" using kept_settled [of ?s3 s4] s2(3) l4 by (simp add: ledger_kept)
    have same4: "attempts_of j s4 = attempts_of j s" if "j \<noteq> ?i" for j
    proof -
      have "attempts_of j s4 = attempts_of j ?s3" using l4 by (simp add: attempts_of_def ledger_def)
      also have "\<dots> = attempts_of j s2" using that by (simp only: attempts_forget if_False)
      finally show ?thesis using same1 [of j] s2(4) by (simp add: attempts_of_def)
    qed
    have run: "deliver_one E g session delivered msg s = (case r4 of
        Inr _ \<Rightarrow> (Inr (insert ?i delivered), s4)
      | Inl e \<Rightarrow> io_bind (record_failure E session msg) (\<lambda>_. io_return delivered) s4)"
      by (simp add: deliver_one_def io_catch_def io_bind_def m Inr s2(1) forget_attempts_def a io_return_def
          split: sum.split prod.split)
    show ?thesis
    proof (cases r4)
      case r4: (Inr u)
      then show ?thesis using run k4 fin same4 by (simp add: counted_def others_same_def)
    next
      case r4: (Inl e)
      obtain d s5 where s5: "io_bind (record_failure E session msg) (\<lambda>_. io_return delivered) s4 = (Inr d, s5)" "kept s s5"
          "others_same ?i s4 s5" "kept s4 s5"
        using record_failure_effect [OF kept_mailbox [OF k4 assms(2)], of E msg] kept_trans [OF k4]
        by (auto simp: io_bind_def io_return_def)
      then show ?thesis using run r4 kept_settled [OF s5(4) fin] same4 by (simp add: counted_def others_same_def)
    qed
  qed
qed

subsection \<open>The queue\<close>

text \<open>What one run of the queue does to the counter of every message.\<close>

definition advanced :: "session_row \<Rightarrow> host_db \<Rightarrow> host_db \<Rightarrow> bool" where
  "advanced session s s' \<longleftrightarrow>
     kept s s' \<and>
     (\<forall>i. settled session i s' \<or>
        (attempts_of i s \<le> attempts_of i s' \<and>
         (attempts_of i s < MAX_DELIVERY_ATTEMPTS \<longrightarrow> attempts_of i s' < MAX_DELIVERY_ATTEMPTS)))"

lemma advanced_trans: "advanced session s s1 \<Longrightarrow> advanced session s1 s2 \<Longrightarrow> advanced session s s2"
  unfolding advanced_def using kept_trans kept_settled by (metis le_trans)

lemma one_advances:
  assumes "kept s s'" "counted session i s s'" "others_same i s s'"
  shows "advanced session s s'"
proof -
  have "settled session j s' \<or> (attempts_of j s \<le> attempts_of j s' \<and>
      (attempts_of j s < MAX_DELIVERY_ATTEMPTS \<longrightarrow> attempts_of j s' < MAX_DELIVERY_ATTEMPTS))" for j
    using assms(2,3) by (cases "j = i") (auto simp: counted_def others_same_def)
  then show ?thesis using assms(1) by (simp add: advanced_def)
qed

lemma deliver_all_effect:
  assumes "handlers_ok E" "has_mailbox session s"
  shows "\<exists>s'. deliver_all E g session delivered ms s = (Inr (), s') \<and> advanced session s s' \<and>
     (\<forall>m \<in> set ms. settled session (od_id m) s' \<or>
        (attempts_of (od_id m) s + 1 \<le> attempts_of (od_id m) s' \<and> attempts_of (od_id m) s' < MAX_DELIVERY_ATTEMPTS))"
  using assms(2)
proof (induction ms arbitrary: s delivered)
  case Nil
  then show ?case by (simp add: io_return_def advanced_def)
next
  case (Cons m ms)
  obtain d s1 where one: "deliver_one E g session delivered m s = (Inr d, s1)" "kept s s1"
      "counted session (od_id m) s s1" "others_same (od_id m) s s1"
    using deliver_one_effect [OF assms(1) Cons.prems] by blast
  obtain s' where rest: "deliver_all E g session d ms s1 = (Inr (), s')" "advanced session s1 s'"
      "\<forall>m \<in> set ms. settled session (od_id m) s' \<or>
        (attempts_of (od_id m) s1 + 1 \<le> attempts_of (od_id m) s' \<and> attempts_of (od_id m) s' < MAX_DELIVERY_ATTEMPTS)"
    using Cons.IH [OF kept_mailbox [OF one(2) Cons.prems]] by blast
  have a1: "advanced session s s1" by (rule one_advances [OF one(2-4)])
  have later: "settled session i s1 \<Longrightarrow> settled session i s'" for i
    using rest(2) kept_settled by (auto simp: advanced_def)
  have "settled session (od_id m') s' \<or>
      (attempts_of (od_id m') s + 1 \<le> attempts_of (od_id m') s' \<and> attempts_of (od_id m') s' < MAX_DELIVERY_ATTEMPTS)"
    if "m' \<in> set (m # ms)" for m'
  proof (cases "settled session (od_id m') s'")
    case False
    have old: "\<not> settled session (od_id m') s1" using False later by blast
    have now: "attempts_of (od_id m') s1 \<le> attempts_of (od_id m') s'"
        "attempts_of (od_id m') s1 < MAX_DELIVERY_ATTEMPTS \<Longrightarrow> attempts_of (od_id m') s' < MAX_DELIVERY_ATTEMPTS"
      using False rest(2) by (auto simp: advanced_def)
    have "attempts_of (od_id m') s \<le> attempts_of (od_id m') s1" using old a1 by (auto simp: advanced_def)
    then show ?thesis
      using that one(3) rest(3) old now False by (auto simp: counted_def)
  qed simp
  then show ?case
    using one(1) rest(1) advanced_trans [OF a1 rest(2)] by (auto simp: io_bind_def)
qed

lemma read_delivery_id: "od_id (read_delivery ck r) = or_id r"
proof -
  have "od_id d = or_id o1" if "outboundDelivery (outbound_record_js o1) = Inr d" for o1 d
    using that
    by (auto simp: outboundDelivery_def bnd_Inr parseOutboundRecord_def parseOutboundDelivery_def outbound_record_js_def parse_iffs)
  moreover have "or_id o1 = or_id r0" if "parseOutboundRecord (outbound_record_js r0) = Inr o1" for r0 o1
    using that by (auto simp: parseOutboundRecord_def outbound_record_js_def parse_iffs bnd_Inr)
  ultimately show ?thesis
    by (auto simp: read_delivery_def best_effort_def bnd_Inr split: sum.split)
qed

lemma queue_of_due:
  assumes "x \<in> set (mb_out mb)" "due ck (or_deliverAfter x)" "or_id x \<notin> getDeliveredIds mb"
  shows "\<exists>m \<in> set (snd (queue_of ck mb)). od_id m = or_id x"
  using assms
  by (auto simp: queue_of_def getDueMessages_def Let_def read_delivery_id intro!: bexI [of _ "read_delivery ck x"])

definition free_to_deliver :: "session_row \<Rightarrow> host_db \<Rightarrow> bool" where
  "free_to_deliver session s \<longleftrightarrow>
     s_id session \<notin> set (hd_inflight s) \<and> getAgentGroup (s_agent_group_id session) (hd_agents s) \<noteq> None"

lemma run_previews_ledger: "handlers_ok E \<Longrightarrow> keeps ledger (run_previews (dv_previews E) msgs session)"
  by (auto simp: handlers_ok_def intro!: sure.previews_ran)

lemma run_previews_Inr: "fst (run_previews hs msgs session s) = Inr ()"
  by (induction hs arbitrary: s) (auto simp: io_return_def io_bind_def io_catch_def split: prod.split sum.split)

lemma drain_effect:
  assumes "handlers_ok E" "ss_mail s (s_agent_group_id session, s_id session) = Some mb"
    and "getAgentGroup (s_agent_group_id session) (hd_agents s) \<noteq> None"
  shows "\<exists>s'. drainSession E session s = (Inr (), s') \<and> advanced session s s' \<and>
     (\<forall>x \<in> set (mb_out mb). due (se_clock (he_sess E)) (or_deliverAfter x) \<longrightarrow> settled session (or_id x) s' \<or>
        (attempts_of (or_id x) s + 1 \<le> attempts_of (or_id x) s' \<and> attempts_of (or_id x) s' < MAX_DELIVERY_ATTEMPTS))"
proof -
  let ?q = "queue_of (se_clock (he_sess E)) mb"
  obtain g where g: "getAgentGroup (s_agent_group_id session) (hd_agents s) = Some g" "ag_id g = s_agent_group_id session"
    using assms(3) by (auto simp: getAgentGroup_def find_Some_iff)
  have same: "set_mail (s_agent_group_id session) (s_id session) mb s = s"
    using assms(2) by (simp add: set_mail_def fun_upd_idem)
  obtain s1 where p: "run_previews (dv_previews E) (snd ?q) session s = (Inr (), s1)"
    using run_previews_Inr [of "dv_previews E" "snd ?q" session s] by (metis prod.collapse)
  have l1: "ledger s s1" using run_previews_ledger [OF assms(1)] p unfolding keeps_def by (metis snd_conv)
  have k1: "kept s s1" and c1: "attempts_of i s1 = attempts_of i s" for i
    using l1 by (simp_all add: ledger_kept attempts_of_def)
  have "has_mailbox session s1" using kept_mailbox [OF k1] assms(2) by (simp add: has_mailbox_def)
  then obtain s' where all: "deliver_all E g session (fst ?q) (snd ?q) s1 = (Inr (), s')" "advanced session s1 s'"
      "\<forall>m \<in> set (snd ?q). settled session (od_id m) s' \<or>
        (attempts_of (od_id m) s1 + 1 \<le> attempts_of (od_id m) s' \<and> attempts_of (od_id m) s' < MAX_DELIVERY_ATTEMPTS)"
    using deliver_all_effect [OF assms(1)] by blast
  have run: "drainSession E session s = (Inr (), s')"
    using g assms(2) same p all(1)
    by (simp add: drainSession_def io_bind_def io_catch_def withExistingMailboxSession_def split_beta)
  have adv: "advanced session s s'"
    using all(2) k1 c1 kept_trans by (auto simp: advanced_def)
  have "settled session (or_id x) s' \<or>
      (attempts_of (or_id x) s + 1 \<le> attempts_of (or_id x) s' \<and> attempts_of (or_id x) s' < MAX_DELIVERY_ATTEMPTS)"
    if x: "x \<in> set (mb_out mb)" "due (se_clock (he_sess E)) (or_deliverAfter x)" for x
  proof (cases "or_id x \<in> getDeliveredIds mb")
    case True
    then have "settled session (or_id x) s" using assms(2) by (simp add: settled_def)
    then show ?thesis using adv kept_settled by (auto simp: advanced_def)
  next
    case False
    from queue_of_due [OF x this] all(3) c1 show ?thesis by fastforce
  qed
  with run adv show ?thesis by blast
qed

lemma deliver_effect:
  assumes "handlers_ok E" "ss_mail s (s_agent_group_id session, s_id session) = Some mb" "free_to_deliver session s"
    and "x \<in> set (mb_out mb)" "due (se_clock (he_sess E)) (or_deliverAfter x)"
  shows "\<exists>s'. deliverSessionMessages E session s = (Inr (), s') \<and> kept s s' \<and> free_to_deliver session s' \<and>
     (settled session (or_id x) s' \<or>
      (attempts_of (or_id x) s + 1 \<le> attempts_of (or_id x) s' \<and> attempts_of (or_id x) s' < MAX_DELIVERY_ATTEMPTS))"
proof -
  let ?s0 = "s\<lparr>hd_inflight := s_id session # hd_inflight s\<rparr>"
  have "ss_mail ?s0 (s_agent_group_id session, s_id session) = Some mb"
    "getAgentGroup (s_agent_group_id session) (hd_agents ?s0) \<noteq> None"
    using assms(2,3) by (simp_all add: free_to_deliver_def)
  from drain_effect [OF assms(1) this] obtain s1 where d: "drainSession E session ?s0 = (Inr (), s1)"
      "advanced session ?s0 s1" "settled session (or_id x) s1 \<or>
        (attempts_of (or_id x) ?s0 + 1 \<le> attempts_of (or_id x) s1 \<and> attempts_of (or_id x) s1 < MAX_DELIVERY_ATTEMPTS)"
    using assms(4,5) by blast
  let ?s' = "s1\<lparr>hd_inflight := removeAll (s_id session) (hd_inflight s1)\<rparr>"
  have fl: "hd_inflight s1 = s_id session # hd_inflight s" "hd_agents s1 = hd_agents s"
    using d(2) by (simp_all add: advanced_def kept_def)
  have "removeAll (s_id session) (hd_inflight s) = hd_inflight s"
    using assms(3) by (intro removeAll_id) (simp add: free_to_deliver_def)
  then have "kept s ?s'" "free_to_deliver session ?s'"
    using d(2) assms(3) fl by (auto simp: advanced_def kept_def free_to_deliver_def)
  moreover have "deliverSessionMessages E session s = (Inr (), ?s')"
    using assms(3) d(1) by (simp add: deliverSessionMessages_def free_to_deliver_def)
  moreover have "settled session i ?s' = settled session i s1" "attempts_of i ?s' = attempts_of i s1"
    "attempts_of i ?s0 = attempts_of i s" for i
    by (simp_all add: settled_def attempts_of_def)
  ultimately show ?thesis using d(3) by auto
qed

subsection \<open>Posting to a channel\<close>

lemma coalesce_Some: "coalesce a b = Some x \<Longrightarrow> a = Some x \<or> b = Some x"
  by (auto simp: coalesce_def split: option.splits)

lemma own_destination_row:
  "getMessagingGroupForOwnDestination ord g ct pid db = Some mg \<Longrightarrow>
   mg \<in> set (cd_groups db) \<and> mg_channel_type mg = ct \<and> mg_platform_id mg = pid"
  unfolding getMessagingGroupForOwnDestination_def
  by (auto split: list.splits dest!: arg_cong [where f = set])

lemma by_platform_row:
  assumes "getMessagingGroupByPlatform ct pid None db = Some mg"
  shows "mg \<in> set (cd_groups db) \<and> mg_channel_type mg = ct \<and> mg_platform_id mg = pid"
proof -
  let ?rows = "sort_key mg_instance (filter (\<lambda>r. mg_channel_type r = ct \<and> mg_platform_id r = pid) (cd_groups db))"
  have "mg \<in> set ?rows"
  proof (cases ?rows)
    case (Cons r rs)
    then show ?thesis
      using assms find_SomeD [of "\<lambda>x. mg_instance x = ct" "r # rs" mg]
      by (simp only: getMessagingGroupByPlatform_def option.case list.case split: option.splits) auto
  qed (use assms in \<open>simp only: getMessagingGroupByPlatform_def option.case list.case\<close>, simp)
  then show ?thesis by simp
qed

lemma delivered_chat_row:
  assumes "delivered_chat db session ct pid = Some mg"
  shows "mg \<in> set (cd_groups db) \<and> mg_channel_type mg = ct \<and> mg_platform_id mg = pid"
proof -
  have "getMessagingGroup i db = Some g \<Longrightarrow> g \<in> set (cd_groups db)" for i g
    by (auto simp: getMessagingGroup_def find_Some_iff)
  then show ?thesis
    using assms own_destination_row by_platform_row
    by (auto simp: delivered_chat_def Let_def dest!: coalesce_Some split: option.splits if_splits)
qed

lemma to_channel_posts:
  assumes "to_channel E content msg session inst s = (r, s')"
  shows "quiet s s' \<or> (\<exists>ct pid p. nonblank (od_channelType msg) = Some ct \<and> nonblank (od_platformId msg) = Some pid \<and>
     posts s' = posts s @ [p] \<and> cp_channelType p = ct \<and> cp_platformId p = pid \<and> cp_instance p = inst)"
proof (cases "nonblank (od_channelType msg) = None \<or> nonblank (od_platformId msg) = None")
  case True
  then show ?thesis using assms by (auto simp: to_channel_def io_return_def quiet_def split: option.splits)
next
  case False
  then obtain ct pid where a: "nonblank (od_channelType msg) = Some ct" "nonblank (od_platformId msg) = Some pid" by auto
  obtain f s1 where f: "outbox_files E content msg session s = (f, s1)" by fastforce
  have q1: "quiet s s1" by (rule keepsD [OF silent.files_read f])
  show ?thesis
  proof (cases f)
    case (Inl e)
    then show ?thesis using assms q1 by (simp add: to_channel_def a io_bind_def f)
  next
    case (Inr files)
    let ?p = "\<lparr>cp_channelType = ct, cp_platformId = pid, cp_threadId = od_threadId msg, cp_kind = od_kind msg,
                cp_content = od_content msg, cp_files = files, cp_instance = inst\<rparr>"
    let ?s2 = "s1\<lparr>ss_drawn := Suc (ss_drawn s1)\<rparr>"
    show ?thesis
    proof (cases "he_send E (ss_drawn s1) ?p")
      case (Inl e)
      then have "s' = ?s2"
        using assms by (simp add: to_channel_def a io_bind_def f Inr postMessage_def draw_def io_throw_def)
      then show ?thesis using q1 by (simp add: quiet_def posts_def)
    next
      case sent: (Inr x)
      let ?s3 = "?s2\<lparr>hd_log := hd_log ?s2 @ [Posted ?p]\<rparr>"
      let ?rest = "io_bind (io_get (session_root (he_sess E) (s_agent_group_id session) (s_id session))) (\<lambda>root.
          io_bind (on_world (clearOutbox (se_container (he_sess E)) root (od_id msg))) (\<lambda>_. io_return x))"
      have "?rest ?s3 = (r, s')"
        using assms sent by (simp add: to_channel_def a io_bind_def f Inr postMessage_def draw_def host_event_def io_return_def)
      moreover have "keeps quiet ?rest" by (auto intro!: silent.frame_intros)
      ultimately have "quiet ?s3 s'" by (metis keepsD)
      then show ?thesis using q1 a by (simp add: quiet_def posts_def)
    qed
  qed
qed

subsection \<open>Properties\<close>


text \<open>An adapter that refuses every post.\<close>

definition demo_out :: outbound_record where
  "demo_out = \<lparr>or_id = ''o1'', or_sequence = Some 1, or_inReplyTo = None, or_timestamp = ''2023-11-14T00:00:00.000Z'',
     or_deliverAfter = None, or_recurrence = None, or_kind = ''chat'', or_platformId = Some ''C1'',
     or_channelType = Some ''slack'', or_threadId = None, or_content = ''hello''\<rparr>"

definition demo_delivery_env :: delivery_env where
  "demo_delivery_env = host_env.extend (demo_host_env\<lparr>he_send := (\<lambda>_ _. Inl (Error ''rate limited''))\<rparr>)
     (delivery_env.fields [] [] [] (\<lambda>_. None) id)"

definition demo_delivery_db :: host_db where
  "demo_delivery_db = demo_host\<lparr>ss_mail := (\<lambda>_. None)((''a'', ''s1'') := Some (empty_mailbox\<lparr>mb_out := [demo_out]\<rparr>))\<rparr>"

lemma demo_handlers_ok: "handlers_ok demo_delivery_env"
  by (simp add: handlers_ok_def demo_delivery_env_def host_env.defs delivery_env.defs getDeliveryAction_def)


text \<open>
  C3. What goes out to a channel goes where the session may send.  A message that is no system action
  is posted only to a chat of the central database that the bot has not been removed from, and the
  session is of that chat or its agent has a destination for it; the post leaves through the instance
  of that chat.
\<close>
theorem channel_posts_authorized:
  assumes "deliverMessage E msg session s = (r, s')" "od_kind msg \<noteq> ''system''"
    and "posts s' \<noteq> posts s"
  shows "\<exists>p. \<exists>mg \<in> set (cd_groups (hd_chat s)). posts s' = posts s @ [p] \<and>
     mg_channel_type mg = cp_channelType p \<and> mg_platform_id mg = cp_platformId p \<and>
     \<not> stamp_set (mg_detached_at mg) \<and> cp_instance p = Some (mg_instance mg) \<and>
     (s_messaging_group_id session = Some (mg_id mg) \<or>
      hasDestination (s_agent_group_id session) ToChannel (mg_id mg) (edges s))"
proof -
  have still: "m s \<noteq> (r, s')" if "keeps quiet m" for m :: "(host_db, string option) sm"
    using that assms(3) by (auto simp: keeps_def quiet_def) (metis snd_conv)
  have log: "keeps quiet (io_bind (task_log E content session) (\<lambda>_. io_return None))"
    and agent: "keeps quiet (io_bind (routeAgentMessage (he E) m session None) (\<lambda>refused.
                case refused of Some reason \<Rightarrow> io_throw (Error reason) | None \<Rightarrow> io_return None))" for content m
    by (auto intro!: silent.frame_intros silent.task_logged silent.routed split: option.split)
  obtain content inst where c: "channel_target msg session s = Inr inst"
      "io_bind (track_question E content msg session) (\<lambda>_. to_channel E content msg session inst) s = (r, s')"
    using assms(1-3) still [OF log] still [OF agent]
    by (auto simp: deliverMessage_def io_return_def io_throw_def split: if_splits sum.splits)
  obtain t s1 where t: "track_question E content msg session s = (t, s1)" by fastforce
  have q: "quiet s s1" by (rule keepsD [OF silent.tracked t])
  then have "to_channel E content msg session inst s1 = (r, s')"
    using c(2) assms(3) by (auto simp: io_bind_def t quiet_def split: sum.splits)
  with q have s1: "quiet s s1" "to_channel E content msg session inst s1 = (r, s')" by simp_all
  have "\<not> quiet s1 s'" using s1(1) assms(3) by (simp add: quiet_def)
  with to_channel_posts [OF s1(2)] obtain ct pid p where p: "nonblank (od_channelType msg) = Some ct"
      "nonblank (od_platformId msg) = Some pid" "posts s' = posts s1 @ [p]" "cp_channelType p = ct" "cp_platformId p = pid"
      "cp_instance p = inst"
    by blast
  obtain mg where mg: "delivered_chat (hd_chat s) session ct pid = Some mg" "\<not> stamp_set (mg_detached_at mg)"
      "s_messaging_group_id session = Some (mg_id mg) \<or> hasDestination (s_agent_group_id session) ToChannel (mg_id mg) (edges s)"
      "inst = Some (mg_instance mg)"
    using c(1) p(1,2,6) by (auto simp: channel_target_def split: option.splits if_splits)
  from delivered_chat_row [OF mg(1)] mg p s1(1) show ?thesis by (auto simp: quiet_def)
qed

definition demo_post_env :: delivery_env where
  "demo_post_env = host_env.extend demo_host_env (delivery_env.fields [] [] [] (\<lambda>_. None) id)"

lemma channel_posts_authorized_witness:
  "\<exists>p :: channel_post. \<exists>mg \<in> set (cd_groups (hd_chat demo_delivery_db)). mg_channel_type mg = cp_channelType p \<and>
     (s_messaging_group_id demo_sender = Some (mg_id mg) \<or> hasDestination ''a'' ToChannel (mg_id mg) (edges demo_delivery_db))"
proof -
  let ?m = "best_effort demo_out"
  obtain r s' where run: "deliverMessage demo_post_env ?m demo_sender demo_delivery_db = (r, s')" by fastforce
  have kind: "od_kind ?m \<noteq> ''system''" by code_simp
  have "length (posts (snd (deliverMessage demo_post_env ?m demo_sender demo_delivery_db))) = 1"
    "length (posts demo_delivery_db) = 0"
    by code_simp+
  then have "posts s' \<noteq> posts demo_delivery_db" using run by auto
  from channel_posts_authorized [OF run kind this] show ?thesis
    by (auto simp: demo_sender_def new_session_def)
qed

text \<open>Modules register one after the other; a refused registration throws and changes nothing.\<close>

fun register_all :: "(string \<times> delivery_entry) list \<Rightarrow> delivery_actions \<Rightarrow> delivery_actions" where
  "register_all [] reg = reg"
| "register_all ((a, e) # es) reg =
     register_all es (case registerDeliveryAction a e reg of Inl _ \<Rightarrow> reg | Inr reg' \<Rightarrow> reg')"

definition guarded_in :: "string \<Rightarrow> delivery_actions \<Rightarrow> bool" where
  "guarded_in a reg \<longleftrightarrow> (\<exists>spec h. map_of reg a = Some (Guarded spec h))"

lemma register_guarded:
  "guarded_in a reg \<Longrightarrow> registerDeliveryAction b e reg = Inr reg' \<Longrightarrow> guarded_in a reg'"
  by (cases e) (auto simp: guarded_in_def registerDeliveryAction_def map_of_map_set split: option.splits if_splits)

lemma register_all_guarded: "guarded_in a reg \<Longrightarrow> guarded_in a (register_all es reg)"
  by (induction es reg rule: register_all.induct) (auto split: sum.split dest: register_guarded)

lemma runGuarded_needs_allow:
  assumes "runGuarded spec h1 content session grant s \<noteq> runGuarded spec h2 content session grant s"
  shows "\<exists>s1 why. delivery_decision (gs_guardAction spec) content session grant s1 = Inr (ALLOW why)"
proof (rule ccontr)
  assume none: "\<not> ?thesis"
  have "runGuarded spec h1 content session grant s = runGuarded spec h2 content session grant s"
    unfolding runGuarded_def io_bind_def
    using none by (auto split: sum.split prod.split guard_decision.split simp: io_get_def)
  with assms show False by simp
qed


definition demo_guard_spec :: delivery_guard_spec where
  "demo_guard_spec = \<lparr>gs_guardAction = a2aSend, gs_precheck = None, gs_requestHold = (\<lambda>_ _. io_return ()), gs_onDeny = None\<rparr>"


end
