(* ===== verification/Coordination.thy ===== *)
theory Coordination
  imports Types
begin

text \<open>
  Which host runs a session (\<open>src/db/coordination.ts\<close>, \<open>src/host-instance.ts\<close>, \<open>claimSessionRun\<close> of
  \<open>src/container-runner.ts\<close>).  The database is shared by the hosts, and each statement is a step of
  its own: a host that claims a session reads the claim, asks whether its holder is alive, and then
  takes it with a compare-and-set on the incarnation, with statements of other hosts in between.

  Times are the milliseconds of the ISO strings the rows hold; the strings are compared as text, which
  for years of four digits is the order of the times.
\<close>

subsection \<open>The tables\<close>

record host_instance =
  hi_instance_id :: string
  hi_install_id :: string
  hi_hostname :: "string option"
  hi_pid :: "int option"
  hi_started_at :: int
  hi_lease_expires_at :: int
  hi_stopped_at :: "int option"

datatype stop_intent = StopOnly | RespawnAfterStop

record session_claim =
  sc_session_id :: string
  sc_incarnation :: nat
  sc_claimed_by :: "string option"
  sc_claimed_at :: "int option"
  sc_container_ref :: "string option"
  sc_stop_intent :: "stop_intent option"
  sc_updated_at :: int

record delivery_attempt =
  dt_message_id :: string
  dt_session_id :: string
  dt_attempts :: nat
  dt_last_attempt_at :: "int option"
  dt_next_attempt_at :: "int option"
  dt_last_error :: "string option"

record wake_signal =
  ws_id :: string
  ws_session_id :: string
  ws_reason :: string
  ws_created_at :: int
  ws_consumed_at :: "int option"
  ws_consumed_by :: "string option"

record coord_db =
  co_hosts :: "host_instance list"
  co_claims :: "session_claim list"
  co_attempts :: "delivery_attempt list"
  co_signals :: "wake_signal list"

subsection \<open>Host instances\<close>

definition registerHostInstance :: "host_instance \<Rightarrow> coord_db \<Rightarrow> coord_db" where
  "registerHostInstance new db =
     db\<lparr>co_hosts :=
         (if \<exists>r \<in> set (co_hosts db). hi_instance_id r = hi_instance_id new
          then update_where (\<lambda>r. hi_instance_id r = hi_instance_id new)
                 (\<lambda>r. r\<lparr>hi_lease_expires_at := hi_lease_expires_at new, hi_stopped_at := None\<rparr>) (co_hosts db)
          else co_hosts db @ [new\<lparr>hi_stopped_at := None\<rparr>])\<rparr>"

definition renewHostInstanceLease :: "string \<Rightarrow> int \<Rightarrow> coord_db \<Rightarrow> bool \<times> coord_db" where
  "renewHostInstanceLease i lease db =
     (let p = (\<lambda>r. hi_instance_id r = i \<and> hi_stopped_at r = None) in
      (0 < changes p (co_hosts db),
       db\<lparr>co_hosts := update_where p (\<lambda>r. r\<lparr>hi_lease_expires_at := lease\<rparr>) (co_hosts db)\<rparr>))"

definition markHostInstanceStopped :: "string \<Rightarrow> int \<Rightarrow> coord_db \<Rightarrow> coord_db" where
  "markHostInstanceStopped i now db =
     db\<lparr>co_hosts := update_where (\<lambda>r. hi_instance_id r = i) (\<lambda>r. r\<lparr>hi_stopped_at := Some now\<rparr>) (co_hosts db)\<rparr>"

definition live_instance :: "int \<Rightarrow> host_instance \<Rightarrow> bool" where
  "live_instance now r \<longleftrightarrow> hi_stopped_at r = None \<and> hi_lease_expires_at r > now"

definition getLiveHostInstance :: "string \<Rightarrow> int \<Rightarrow> coord_db \<Rightarrow> host_instance option" where
  "getLiveHostInstance i now db = find (\<lambda>r. hi_instance_id r = i \<and> live_instance now r) (co_hosts db)"

definition listLiveHostInstances :: "int \<Rightarrow> coord_db \<Rightarrow> host_instance list" where
  "listLiveHostInstances now db = sort_key hi_started_at (filter (live_instance now) (co_hosts db))"

subsection \<open>Session claims\<close>

definition getSessionClaim :: "string \<Rightarrow> coord_db \<Rightarrow> session_claim option" where
  "getSessionClaim s db = find (\<lambda>r. sc_session_id r = s) (co_claims db)"

text \<open>The two statements of \<open>tryClaimSession\<close>; each says whether it changed a row.\<close>

definition claim_insert :: "string \<Rightarrow> string \<Rightarrow> nat \<Rightarrow> string option \<Rightarrow> int \<Rightarrow> coord_db \<Rightarrow> bool \<times> coord_db" where
  "claim_insert s host inc ref now db =
     (case getSessionClaim s db of
        Some _ \<Rightarrow> (False, db)
      | None \<Rightarrow> (True, db\<lparr>co_claims := co_claims db @
           [\<lparr>sc_session_id = s, sc_incarnation = inc, sc_claimed_by = Some host, sc_claimed_at = Some now,
             sc_container_ref = ref, sc_stop_intent = None, sc_updated_at = now\<rparr>]\<rparr>))"

definition claim_update :: "string \<Rightarrow> string \<Rightarrow> nat \<Rightarrow> string option \<Rightarrow> int \<Rightarrow> coord_db \<Rightarrow> bool \<times> coord_db" where
  "claim_update s host expected ref now db =
     (let p = (\<lambda>r. sc_session_id r = s \<and> sc_incarnation r = expected) in
      (0 < changes p (co_claims db),
       db\<lparr>co_claims := update_where p (\<lambda>r. r\<lparr>sc_incarnation := expected + 1, sc_claimed_by := Some host,
            sc_claimed_at := Some now, sc_container_ref := ref, sc_updated_at := now\<rparr>) (co_claims db)\<rparr>))"

definition tryClaimSession :: "string \<Rightarrow> string \<Rightarrow> nat \<Rightarrow> string option \<Rightarrow> int \<Rightarrow> coord_db \<Rightarrow> nat option \<times> coord_db" where
  "tryClaimSession s host expected ref now db =
     (case (if expected = 0 then claim_insert s host (expected + 1) ref now db else (False, db)) of
        (True, db') \<Rightarrow> (Some (expected + 1), db')
      | (False, db') \<Rightarrow>
          (case claim_update s host expected ref now db' of
             (ok, db'') \<Rightarrow> (if ok then Some (expected + 1) else None, db'')))"

definition releaseSessionClaim :: "string \<Rightarrow> string \<Rightarrow> nat \<Rightarrow> int \<Rightarrow> coord_db \<Rightarrow> bool \<times> coord_db" where
  "releaseSessionClaim s host inc now db =
     (let p = (\<lambda>r. sc_session_id r = s \<and> sc_claimed_by r = Some host \<and> sc_incarnation r = inc) in
      (0 < changes p (co_claims db),
       db\<lparr>co_claims := update_where p (\<lambda>r. r\<lparr>sc_claimed_by := None, sc_claimed_at := None,
            sc_container_ref := None, sc_updated_at := now\<rparr>) (co_claims db)\<rparr>))"

definition listSessionsWithStopIntent :: "coord_db \<Rightarrow> session_claim list" where
  "listSessionsWithStopIntent db = filter (\<lambda>r. sc_stop_intent r \<noteq> None) (co_claims db)"

definition setStopIntent :: "string \<Rightarrow> stop_intent option \<Rightarrow> int \<Rightarrow> coord_db \<Rightarrow> coord_db" where
  "setStopIntent s intent now db =
     db\<lparr>co_claims :=
         (if getSessionClaim s db = None
          then co_claims db @ [\<lparr>sc_session_id = s, sc_incarnation = 0, sc_claimed_by = None, sc_claimed_at = None,
                 sc_container_ref = None, sc_stop_intent = intent, sc_updated_at = now\<rparr>]
          else update_where (\<lambda>r. sc_session_id r = s) (\<lambda>r. r\<lparr>sc_stop_intent := intent, sc_updated_at := now\<rparr>)
                 (co_claims db))\<rparr>"

subsection \<open>Delivery attempts and wake signals\<close>

definition getDeliveryAttempt :: "string \<Rightarrow> coord_db \<Rightarrow> delivery_attempt option" where
  "getDeliveryAttempt m db = find (\<lambda>r. dt_message_id r = m) (co_attempts db)"

definition recordDeliveryAttempt ::
    "string \<Rightarrow> string \<Rightarrow> int \<Rightarrow> int option \<Rightarrow> string option \<Rightarrow> coord_db \<Rightarrow> nat \<times> coord_db" where
  "recordDeliveryAttempt m s now next_at err db =
     (let rows = (if getDeliveryAttempt m db = None
                  then co_attempts db @ [\<lparr>dt_message_id = m, dt_session_id = s, dt_attempts = 1,
                         dt_last_attempt_at = Some now, dt_next_attempt_at = next_at, dt_last_error = err\<rparr>]
                  else update_where (\<lambda>r. dt_message_id r = m)
                         (\<lambda>r. r\<lparr>dt_attempts := dt_attempts r + 1, dt_last_attempt_at := Some now,
                               dt_next_attempt_at := next_at, dt_last_error := err\<rparr>) (co_attempts db));
          db' = db\<lparr>co_attempts := rows\<rparr>
      in (case getDeliveryAttempt m db' of Some r \<Rightarrow> dt_attempts r | None \<Rightarrow> 1, db'))"

definition clearDeliveryAttempt :: "string \<Rightarrow> coord_db \<Rightarrow> coord_db" where
  "clearDeliveryAttempt m db = db\<lparr>co_attempts := delete_where (\<lambda>r. dt_message_id r = m) (co_attempts db)\<rparr>"

definition writeWakeSignal :: "string \<Rightarrow> string \<Rightarrow> string \<Rightarrow> int \<Rightarrow> coord_db \<Rightarrow> coord_db" where
  "writeWakeSignal i s reason now db =
     db\<lparr>co_signals := co_signals db @ [\<lparr>ws_id = i, ws_session_id = s, ws_reason = reason, ws_created_at = now,
          ws_consumed_at = None, ws_consumed_by = None\<rparr>]\<rparr>"

definition pending_signals :: "string option \<Rightarrow> coord_db \<Rightarrow> wake_signal list" where
  "pending_signals s db =
     sort_key ws_created_at (filter (\<lambda>r. ws_consumed_at r = None \<and>
       (case s of Some i \<Rightarrow> i = [] \<or> ws_session_id r = i | None \<Rightarrow> True)) (co_signals db))"

definition take_signal :: "string \<Rightarrow> int \<Rightarrow> wake_signal \<Rightarrow> coord_db \<Rightarrow> wake_signal option \<times> coord_db" where
  "take_signal consumer now sig db =
     (let p = (\<lambda>r. ws_id r = ws_id sig \<and> ws_consumed_at r = None);
          db' = db\<lparr>co_signals := update_where p
                  (\<lambda>r. r\<lparr>ws_consumed_at := Some now, ws_consumed_by := Some consumer\<rparr>) (co_signals db)\<rparr>
      in (if 0 < changes p (co_signals db)
          then Some (sig\<lparr>ws_consumed_at := Some now, ws_consumed_by := Some consumer\<rparr>) else None, db'))"

fun take_signals :: "string \<Rightarrow> int \<Rightarrow> wake_signal list \<Rightarrow> coord_db \<Rightarrow> wake_signal list \<times> coord_db" where
  "take_signals consumer now [] db = ([], db)"
| "take_signals consumer now (r # rs) db =
     (case take_signal consumer now r db of (t, db') \<Rightarrow>
        (case take_signals consumer now rs db' of (ts, db'') \<Rightarrow>
           ((case t of None \<Rightarrow> ts | Some x \<Rightarrow> x # ts), db'')))"

definition takeWakeSignals :: "string \<Rightarrow> int \<Rightarrow> string option \<Rightarrow> coord_db \<Rightarrow> wake_signal list \<times> coord_db" where
  "takeWakeSignals consumer now s db = take_signals consumer now (pending_signals s db) db"

subsection \<open>The lease of this host\<close>

definition RENEW_INTERVAL_MS :: int where "RENEW_INTERVAL_MS = 30000"
definition LEASE_TTL_MS :: int where "LEASE_TTL_MS = 90000"

text \<open>The module's variables (\<open>hs_timer\<close>: whether the renewal timer is set), beside the database.\<close>

record lease_state =
  hs_instance :: "string option"
  hs_timer :: bool
  hs_db :: coord_db

text \<open>A statement that may fail: \<open>ok\<close> is whether the database carries it out.\<close>

definition on_db :: "bool \<Rightarrow> (coord_db \<Rightarrow> 'a \<times> coord_db) \<Rightarrow> (lease_state, 'a) sm" where
  "on_db ok f w = (if ok then (case f (hs_db w) of (x, db') \<Rightarrow> (Inr x, w\<lparr>hs_db := db'\<rparr>))
                   else (Inl (Error ''database''), w))"

definition startHostInstanceLease ::
    "bool \<Rightarrow> string \<Rightarrow> string \<Rightarrow> string \<Rightarrow> int \<Rightarrow> int \<Rightarrow> int option \<Rightarrow> (lease_state, string) sm" where
  "startHostInstanceLease ok uuid install hostname pid now ttl =
     io_bind (io_get hs_instance) (\<lambda>i. case i of
       Some _ \<Rightarrow> io_throw (Error ''host instance lease already started'')
     | None \<Rightarrow>
         io_bind (on_db ok (\<lambda>db. ((), registerHostInstance
             \<lparr>hi_instance_id = uuid, hi_install_id = install, hi_hostname = Some hostname, hi_pid = Some pid,
              hi_started_at = now, hi_lease_expires_at = now + (case ttl of Some t \<Rightarrow> t | None \<Rightarrow> LEASE_TTL_MS),
              hi_stopped_at = None\<rparr> db))) (\<lambda>_.
         io_bind (io_modify (\<lambda>w. w\<lparr>hs_instance := Some uuid, hs_timer := True\<rparr>)) (\<lambda>_. io_return uuid)))"

definition renewLease :: "bool \<Rightarrow> string \<Rightarrow> int \<Rightarrow> int \<Rightarrow> (lease_state, unit) sm" where
  "renewLease ok i now ttl =
     io_catch (io_bind (on_db ok (renewHostInstanceLease i (now + ttl))) (\<lambda>_. io_return ())) (\<lambda>_. io_return ())"

definition stopHostInstanceLease :: "bool \<Rightarrow> int \<Rightarrow> (lease_state, unit) sm" where
  "stopHostInstanceLease ok now =
     io_bind (io_get hs_instance) (\<lambda>i.
     io_bind (io_modify (\<lambda>w. w\<lparr>hs_timer := False, hs_instance := None\<rparr>)) (\<lambda>_. case i of
       None \<Rightarrow> io_return ()
     | Some i \<Rightarrow> io_catch (on_db ok (\<lambda>db. ((), markHostInstanceStopped i now db))) (\<lambda>_. io_return ())))"

definition claimantId :: "string \<Rightarrow> int \<Rightarrow> lease_state \<Rightarrow> string" where
  "claimantId hostname pid w =
     (case hs_instance w of Some i \<Rightarrow> i | None \<Rightarrow> hostname @ '':'' @ int_str pid)"

subsection \<open>Claiming a session\<close>

definition held_by_peer :: "string \<Rightarrow> session_claim option \<Rightarrow> string option" where
  "held_by_peer self current =
     (case current of
        None \<Rightarrow> None
      | Some c \<Rightarrow> (case sc_claimed_by c of
            None \<Rightarrow> None
          | Some h \<Rightarrow> if h \<noteq> [] \<and> h \<noteq> self then Some h else None))"

definition expected_of :: "session_claim option \<Rightarrow> nat" where
  "expected_of current = (case current of None \<Rightarrow> 0 | Some c \<Rightarrow> sc_incarnation c)"

definition claimSessionRun :: "string \<Rightarrow> string \<Rightarrow> string \<Rightarrow> int \<Rightarrow> coord_db \<Rightarrow> nat option \<times> coord_db" where
  "claimSessionRun self s ref now db =
     (let current = getSessionClaim s db in
      case held_by_peer self current of
        Some h \<Rightarrow> (case getLiveHostInstance h now db of
            Some _ \<Rightarrow> (None, db)
          | None \<Rightarrow> tryClaimSession s self (expected_of current) (Some ref) now db)
      | None \<Rightarrow> tryClaimSession s self (expected_of current) (Some ref) now db)"

text \<open>\<open>shadowWrite\<close> swallows what the write throws.\<close>

definition shadowWrite :: "('s, 'a) sm \<Rightarrow> ('s, unit) sm" where
  "shadowWrite write = io_catch (io_bind write (\<lambda>_. io_return ())) (\<lambda>_. io_return ())"

definition releaseClaimQuietly :: "bool \<Rightarrow> string \<Rightarrow> nat \<Rightarrow> string \<Rightarrow> int \<Rightarrow> int \<Rightarrow> (lease_state, unit) sm" where
  "releaseClaimQuietly ok s inc hostname pid now =
     shadowWrite (io_bind (io_get (claimantId hostname pid)) (\<lambda>self. on_db ok (releaseSessionClaim s self inc now)))"

lemma releaseClaimQuietly_returns: "fst (releaseClaimQuietly ok s inc hostname pid now w) = Inr ()"
  by (auto simp: releaseClaimQuietly_def shadowWrite_def io_catch_def io_bind_def io_return_def
           split: prod.split sum.split)

lemma renewLease_returns: "fst (renewLease ok i now ttl w) = Inr ()"
  by (auto simp: renewLease_def io_catch_def io_bind_def io_return_def split: prod.split sum.split)

end
