(* ===== verification/ClaimFencing.thy ===== *)
theory ClaimFencing
  imports Coordination
begin

text \<open>
  Hosts that claim sessions at the same time.  A call of \<open>claimSessionRun\<close> is taken apart into the
  statements it sends, one step each, so that statements of other calls and of other hosts come
  between any two of them.  Each successful claim is recorded with its incarnation.
\<close>

datatype claim_stage =
    Called
  | Loaded "session_claim option"
  | Cleared nat
  | Retrying nat
  | Answered "nat option"

record claim_call =
  cl_host :: string
  cl_session :: string
  cl_ref :: string
  cl_stage :: claim_stage

text \<open>One statement of a call (\<open>Loaded\<close> without a peer to ask about sends none).\<close>

definition claim_step :: "int \<Rightarrow> claim_call \<Rightarrow> coord_db \<Rightarrow> claim_stage \<times> coord_db" where
  "claim_step now c db =
     (case cl_stage c of
        Called \<Rightarrow> (Loaded (getSessionClaim (cl_session c) db), db)
      | Loaded current \<Rightarrow>
          (case held_by_peer (cl_host c) current of
             Some h \<Rightarrow> (if getLiveHostInstance h now db \<noteq> None then Answered None else Cleared (expected_of current), db)
           | None \<Rightarrow> (Cleared (expected_of current), db))
      | Cleared e \<Rightarrow>
          (if e = 0
           then (case claim_insert (cl_session c) (cl_host c) (e + 1) (Some (cl_ref c)) now db of
                   (ok, db') \<Rightarrow> (if ok then Answered (Some (e + 1)) else Retrying e, db'))
           else (Retrying e, db))
      | Retrying e \<Rightarrow>
          (case claim_update (cl_session c) (cl_host c) e (Some (cl_ref c)) now db of
             (ok, db') \<Rightarrow> (Answered (if ok then Some (e + 1) else None), db'))
      | Answered r \<Rightarrow> (Answered r, db))"

fun claim_steps :: "nat \<Rightarrow> int \<Rightarrow> claim_call \<Rightarrow> coord_db \<Rightarrow> claim_stage \<times> coord_db" where
  "claim_steps 0 now c db = (cl_stage c, db)"
| "claim_steps (Suc n) now c db =
     (case claim_step now c db of (st, db') \<Rightarrow> claim_steps n now (c\<lparr>cl_stage := st\<rparr>) db')"

lemma claim_steps_run:
  "claim_steps 4 now \<lparr>cl_host = self, cl_session = s, cl_ref = ref, cl_stage = Called\<rparr> db =
     (case claimSessionRun self s ref now db of (r, db') \<Rightarrow> (Answered r, db'))"
proof -
  obtain ok1 db1 where 1: "claim_insert s self (Suc 0) (Some ref) now db = (ok1, db1)" by fastforce
  obtain ok2 db2 where 2: "claim_update s self 0 (Some ref) now db1 = (ok2, db2)" by fastforce
  define e where "e = expected_of (getSessionClaim s db)"
  obtain ok3 db3 where 3: "claim_update s self e (Some ref) now db = (ok3, db3)" by fastforce
  show ?thesis
    by (cases ok1; cases "e = 0"; cases "held_by_peer self (getSessionClaim s db)")
      (simp_all add: numeral_eq_Suc claim_step_def claimSessionRun_def tryClaimSession_def Let_def
         flip: e_def, auto simp: claim_step_def 1 2 3)
qed

record coord_world =
  cw_db :: coord_db
  cw_calls :: "claim_call list"
  cw_grants :: "(string \<times> nat \<times> string) list"

datatype coord_event =
    Enter string string string
  | Proceed nat int
  | Release string string nat int
  | Intent string "stop_intent option" int
  | Register host_instance
  | Renew string int
  | Halt string int

definition granted :: "claim_call \<Rightarrow> claim_stage \<Rightarrow> (string \<times> nat \<times> string) list" where
  "granted c st =
     (case (cl_stage c, st) of
        (Answered _, _) \<Rightarrow> []
      | (_, Answered (Some n)) \<Rightarrow> [(cl_session c, n, cl_host c)]
      | _ \<Rightarrow> [])"

definition proceed :: "nat \<Rightarrow> int \<Rightarrow> coord_world \<Rightarrow> coord_world" where
  "proceed i now w =
     (if i < length (cw_calls w)
      then (case claim_step now (cw_calls w ! i) (cw_db w) of
              (st, db') \<Rightarrow> w\<lparr>cw_db := db', cw_calls := (cw_calls w)[i := (cw_calls w ! i)\<lparr>cl_stage := st\<rparr>],
                                cw_grants := cw_grants w @ granted (cw_calls w ! i) st\<rparr>)
      else w)"

fun coord_step :: "coord_event \<Rightarrow> coord_world \<Rightarrow> coord_world" where
  "coord_step (Enter h s ref) w =
     w\<lparr>cw_calls := cw_calls w @ [\<lparr>cl_host = h, cl_session = s, cl_ref = ref, cl_stage = Called\<rparr>]\<rparr>"
| "coord_step (Proceed i now) w = proceed i now w"
| "coord_step (Release h s inc now) w = w\<lparr>cw_db := snd (releaseSessionClaim s h inc now (cw_db w))\<rparr>"
| "coord_step (Intent s intent now) w = w\<lparr>cw_db := setStopIntent s intent now (cw_db w)\<rparr>"
| "coord_step (Register r) w = w\<lparr>cw_db := registerHostInstance r (cw_db w)\<rparr>"
| "coord_step (Renew h lease) w = w\<lparr>cw_db := snd (renewHostInstanceLease h lease (cw_db w))\<rparr>"
| "coord_step (Halt h now) w = w\<lparr>cw_db := markHostInstanceStopped h now (cw_db w)\<rparr>"

definition coord_run :: "coord_event list \<Rightarrow> coord_world \<Rightarrow> coord_world" where
  "coord_run es w = foldl (\<lambda>w e. coord_step e w) w es"

definition coord_start :: coord_world where
  "coord_start = \<lparr>cw_db = \<lparr>co_hosts = [], co_claims = [], co_attempts = [], co_signals = []\<rparr>, cw_calls = [], cw_grants = []\<rparr>"

subsection \<open>Every incarnation of a session has one holder\<close>

text \<open>What matters of a claim: its incarnation and who holds it.\<close>

definition claim_view :: "string \<Rightarrow> coord_db \<Rightarrow> (nat \<times> string option) option" where
  "claim_view s db = map_option (\<lambda>c. (sc_incarnation c, sc_claimed_by c)) (getSessionClaim s db)"

definition incarnation :: "string \<Rightarrow> coord_db \<Rightarrow> nat" where
  "incarnation s db = expected_of (getSessionClaim s db)"

definition holder :: "string \<Rightarrow> coord_db \<Rightarrow> string option" where
  "holder s db = (case getSessionClaim s db of None \<Rightarrow> None | Some c \<Rightarrow> sc_claimed_by c)"

definition grants_of :: "string \<Rightarrow> coord_world \<Rightarrow> (nat \<times> string) list" where
  "grants_of s w = map snd (filter (\<lambda>g. fst g = s) (cw_grants w))"

definition claims_ok :: "coord_db \<Rightarrow> bool" where
  "claims_ok db \<longleftrightarrow> distinct (map sc_session_id (co_claims db))"

lemma view_incarnation: "incarnation s db = (case claim_view s db of None \<Rightarrow> 0 | Some v \<Rightarrow> fst v)"
  and view_holder: "holder s db = (case claim_view s db of None \<Rightarrow> None | Some v \<Rightarrow> snd v)"
  by (simp_all add: incarnation_def holder_def claim_view_def expected_of_def split: option.split)

lemma find_update_unique:
  assumes "distinct (map key rows)" "\<And>r. key (f r) = key r" "\<And>r. p r \<Longrightarrow> key r = k"
  shows "find (\<lambda>r. key r = t) (update_where p f rows) =
           map_option (\<lambda>r. if p r then f r else r) (find (\<lambda>r. key r = t) rows)"
    and "0 < changes p rows \<longleftrightarrow> (\<exists>r. find (\<lambda>r. key r = k) rows = Some r \<and> p r)"
proof -
  show "find (\<lambda>r. key r = t) (update_where p f rows) =
          map_option (\<lambda>r. if p r then f r else r) (find (\<lambda>r. key r = t) rows)"
    by (rule find_update_where) (rule assms(2))
  show "0 < changes p rows \<longleftrightarrow> (\<exists>r. find (\<lambda>r. key r = k) rows = Some r \<and> p r)"
    using find_key_ex [OF assms(1), of k p] assms(3) by (auto simp: changes_pos)
qed

lemma claim_insert_view:
  assumes "claims_ok db" "claim_insert s h n ref now db = (ok, db')"
  shows "claims_ok db' \<and> (ok \<longleftrightarrow> claim_view s db = None) \<and>
         claim_view t db' = (if ok \<and> t = s then Some (n, Some h) else claim_view t db)"
  using assms find_None_key [of sc_session_id s "co_claims db"]
  by (cases "find (\<lambda>r. sc_session_id r = s) (co_claims db)")
    (auto simp: claim_insert_def claims_ok_def claim_view_def getSessionClaim_def find_append split: option.split)

lemma claim_update_view:
  assumes "claims_ok db" "claim_update s h e ref now db = (ok, db')"
  shows "claims_ok db' \<and> (ok \<longleftrightarrow> map_option fst (claim_view s db) = Some e) \<and>
         claim_view t db' = (if ok \<and> t = s then Some (e + 1, Some h) else claim_view t db)"
proof -
  let ?p = "\<lambda>r. sc_session_id r = s \<and> sc_incarnation r = e"
  let ?f = "\<lambda>r. r\<lparr>sc_incarnation := e + 1, sc_claimed_by := Some h, sc_claimed_at := Some now,
                 sc_container_ref := ref, sc_updated_at := now\<rparr>"
  have d: "distinct (map sc_session_id (co_claims db))" using assms(1) by (simp add: claims_ok_def)
  note u = find_update_unique [OF d, where f = ?f and p = ?p and k = s, simplified]
  from assms(2) have db': "db' = db\<lparr>co_claims := update_where ?p ?f (co_claims db)\<rparr>"
    and ok: "ok = (0 < changes ?p (co_claims db))" by (simp_all add: claim_update_def Let_def)
  have 1: "ok \<longleftrightarrow> map_option fst (claim_view s db) = Some e"
    unfolding ok u(2) by (auto simp: claim_view_def getSessionClaim_def dest: find_SomeD)
  have "claims_ok db'" using d by (simp add: claims_ok_def db' map_update_where)
  moreover have "claim_view t db' = (if ok \<and> t = s then Some (e + 1, Some h) else claim_view t db)"
    unfolding 1
    by (cases "find (\<lambda>r. sc_session_id r = t) (co_claims db)")
      (auto simp: claim_view_def getSessionClaim_def db' u(1) dest: find_SomeD)
  ultimately show ?thesis using 1 by blast
qed

lemma releaseSessionClaim_view:
  assumes "claims_ok db" "releaseSessionClaim s h n now db = (ok, db')"
  shows "claims_ok db' \<and> (ok \<longleftrightarrow> claim_view s db = Some (n, Some h)) \<and>
         claim_view t db' = (if ok \<and> t = s then Some (n, None) else claim_view t db)"
proof -
  let ?p = "\<lambda>r. sc_session_id r = s \<and> sc_claimed_by r = Some h \<and> sc_incarnation r = n"
  let ?f = "\<lambda>r. r\<lparr>sc_claimed_by := None, sc_claimed_at := None, sc_container_ref := None, sc_updated_at := now\<rparr>"
  have d: "distinct (map sc_session_id (co_claims db))" using assms(1) by (simp add: claims_ok_def)
  note u = find_update_unique [OF d, where f = ?f and p = ?p and k = s, simplified]
  from assms(2) have db': "db' = db\<lparr>co_claims := update_where ?p ?f (co_claims db)\<rparr>"
    and ok: "ok = (0 < changes ?p (co_claims db))" by (simp_all add: releaseSessionClaim_def Let_def)
  have 1: "ok \<longleftrightarrow> claim_view s db = Some (n, Some h)"
    unfolding ok u(2) by (auto simp: claim_view_def getSessionClaim_def dest: find_SomeD)
  have "claims_ok db'" using d by (simp add: claims_ok_def db' map_update_where)
  moreover have "claim_view t db' = (if ok \<and> t = s then Some (n, None) else claim_view t db)"
    unfolding 1
    by (cases "find (\<lambda>r. sc_session_id r = t) (co_claims db)")
      (auto simp: claim_view_def getSessionClaim_def db' u(1) dest: find_SomeD)
  ultimately show ?thesis using 1 by blast
qed

lemma setStopIntent_view:
  assumes "claims_ok db"
  shows "claims_ok (setStopIntent s i now db) \<and>
         claim_view t (setStopIntent s i now db) =
           (if t = s \<and> claim_view s db = None then Some (0, None) else claim_view t db)"
  using assms find_None_key [of sc_session_id s "co_claims db"]
  by (cases "find (\<lambda>r. sc_session_id r = s) (co_claims db)")
    (auto simp: setStopIntent_def claims_ok_def claim_view_def getSessionClaim_def find_append
           map_update_where find_update_where [where key = sc_session_id] option.map_comp o_def
           split: option.split intro!: option.map_cong)

lemma host_events_view [simp]:
  "claim_view t (registerHostInstance r db) = claim_view t db"
  "claim_view t (snd (renewHostInstanceLease h l db)) = claim_view t db"
  "claim_view t (markHostInstanceStopped h now db) = claim_view t db"
  "claims_ok (registerHostInstance r db) = claims_ok db"
  "claims_ok (snd (renewHostInstanceLease h l db)) = claims_ok db"
  "claims_ok (markHostInstanceStopped h now db) = claims_ok db"
  by (simp_all add: claim_view_def getSessionClaim_def claims_ok_def registerHostInstance_def renewHostInstanceLease_def
        markHostInstanceStopped_def Let_def)

definition last_grant :: "string \<Rightarrow> coord_world \<Rightarrow> string option" where
  "last_grant s w = (case rev (grants_of s w) of [] \<Rightarrow> None | g # _ \<Rightarrow> Some (snd g))"

text \<open>
  The abstract history of one session: the claims granted for it are numbered 1, 2, 3, .. without gap
  or repetition up to its incarnation, and the row names the last of them or nobody.
\<close>

definition fenced :: "coord_world \<Rightarrow> bool" where
  "fenced w \<longleftrightarrow> claims_ok (cw_db w) \<and>
     (\<forall>s. map fst (grants_of s w) = [1..<Suc (incarnation s (cw_db w))] \<and>
          holder s (cw_db w) \<in> {None, last_grant s w})"

lemma claim_step_view:
  assumes "claims_ok db" "claim_step now c db = (st, db')"
  shows "claims_ok db' \<and>
         (granted c st = [] \<and> (\<forall>t. claim_view t db' = claim_view t db) \<or>
          (\<exists>e. granted c st = [(cl_session c, e + 1, cl_host c)] \<and> incarnation (cl_session c) db = e \<and>
               (\<forall>t. claim_view t db' = (if t = cl_session c then Some (e + 1, Some (cl_host c)) else claim_view t db))))"
proof (cases "cl_stage c")
  case (Cleared e)
  obtain ok db1 where i: "claim_insert (cl_session c) (cl_host c) (e + 1) (Some (cl_ref c)) now db = (ok, db1)"
    by fastforce
  from assms(2) i Cleared show ?thesis
    using claim_insert_view [OF assms(1) i] assms(1)
    by (cases "e = 0"; cases ok) (auto simp: claim_step_def granted_def view_incarnation)
next
  case (Retrying e)
  obtain ok db1 where i: "claim_update (cl_session c) (cl_host c) e (Some (cl_ref c)) now db = (ok, db1)"
    by fastforce
  from assms(2) i Retrying have st: "st = Answered (if ok then Some (e + 1) else None)" "db' = db1"
    by (simp_all add: claim_step_def)
  note u = claim_update_view [OF assms(1) i]
  have v: "claim_view t db1 = (if ok \<and> t = cl_session c then Some (e + 1, Some (cl_host c)) else claim_view t db)" for t
    using u by blast
  show ?thesis
  proof (cases ok)
    case True
    then have "incarnation (cl_session c) db = e" using u by (auto simp: view_incarnation)
    then show ?thesis using u v st True Retrying by (simp add: granted_def)
  next
    case False
    then show ?thesis using u v st Retrying by (simp add: granted_def)
  qed
next
  case (Answered r)
  with assms(2) have "st = Answered r" "db' = db" by (simp_all add: claim_step_def)
  with Answered assms(1) show ?thesis by (simp add: granted_def)
qed (use assms in \<open>auto simp: claim_step_def granted_def split: option.splits if_splits\<close>)

lemma fenced_same:
  assumes "fenced w" "claims_ok (cw_db w')" "\<And>t. claim_view t (cw_db w') = claim_view t (cw_db w)"
    "cw_grants w' = cw_grants w"
  shows "fenced w'"
  using assms by (simp add: fenced_def view_incarnation view_holder grants_of_def last_grant_def)

lemma fenced_grant:
  assumes w: "fenced w" and "claims_ok (cw_db w')" "e = incarnation s (cw_db w)"
    and v: "\<And>t. claim_view t (cw_db w') = (if t = s then Some (e + 1, Some h) else claim_view t (cw_db w))"
    and g: "cw_grants w' = cw_grants w @ [(s, e + 1, h)]"
  shows "fenced w'"
  using assms by (auto simp: fenced_def view_incarnation view_holder grants_of_def last_grant_def)

lemma fenced_proceed:
  assumes "fenced w"
  shows "fenced (proceed i now w)"
proof (cases "i < length (cw_calls w)")
  case True
  let ?c = "cw_calls w ! i"
  obtain st db' where s: "claim_step now ?c (cw_db w) = (st, db')" by fastforce
  have "claims_ok (cw_db w)" using assms by (simp add: fenced_def)
  from claim_step_view [OF this s] show ?thesis
  proof (elim conjE disjE exE)
    assume "claims_ok db'" "granted ?c st = []" "\<forall>t. claim_view t db' = claim_view t (cw_db w)"
    then show ?thesis using fenced_same [OF assms, of "proceed i now w"] True s by (simp add: proceed_def)
  next
    fix e assume "claims_ok db'" "granted ?c st = [(cl_session ?c, e + 1, cl_host ?c)]"
      "incarnation (cl_session ?c) (cw_db w) = e"
      "\<forall>t. claim_view t db' = (if t = cl_session ?c then Some (e + 1, Some (cl_host ?c)) else claim_view t (cw_db w))"
    then show ?thesis
      by (intro fenced_grant [OF assms, where e = e and s = "cl_session ?c" and h = "cl_host ?c"])
        (simp_all add: proceed_def True s)
  qed
qed (use assms in \<open>simp add: proceed_def\<close>)

lemma fenced_step: "fenced w \<Longrightarrow> fenced (coord_step e w)"
proof (cases e)
  case (Release h s inc now)
  assume w: "fenced w"
  then have ok: "claims_ok (cw_db w)" by (simp add: fenced_def)
  obtain b db' where r: "releaseSessionClaim s h inc now (cw_db w) = (b, db')" by fastforce
  note v = releaseSessionClaim_view [OF ok r]
  then show ?thesis using w
    by (auto simp: Release r fenced_def view_incarnation view_holder grants_of_def last_grant_def)
next
  case (Intent s i now)
  assume w: "fenced w"
  then have ok: "claims_ok (cw_db w)" by (simp add: fenced_def)
  note v = setStopIntent_view [OF ok, of s i now]
  then show ?thesis using w
    by (auto simp: Intent fenced_def view_incarnation view_holder grants_of_def last_grant_def)
next
  case (Proceed i now)
  assume "fenced w"
  then show ?thesis by (simp add: Proceed fenced_proceed)
next
  case (Enter h s ref)
  assume w: "fenced w"
  show ?thesis by (rule fenced_same [OF w]) (use w in \<open>simp_all add: Enter fenced_def\<close>)
next
  case (Register r)
  assume w: "fenced w"
  show ?thesis by (rule fenced_same [OF w]) (use w in \<open>simp_all add: Register fenced_def\<close>)
next
  case (Renew h l)
  assume w: "fenced w"
  show ?thesis by (rule fenced_same [OF w]) (use w in \<open>simp_all add: Renew fenced_def\<close>)
next
  case (Halt h now)
  assume w: "fenced w"
  show ?thesis by (rule fenced_same [OF w]) (use w in \<open>simp_all add: Halt fenced_def\<close>)
qed

lemma fenced_run: "fenced w \<Longrightarrow> fenced (coord_run es w)"
  unfolding coord_run_def by (induction es arbitrary: w) (auto intro: fenced_step)

lemma fenced_start: "fenced coord_start"
  by (simp add: fenced_def coord_start_def claims_ok_def view_incarnation view_holder claim_view_def
        getSessionClaim_def grants_of_def last_grant_def)

text \<open>
  C4. However the statements of any number of hosts interleave (claims, releases, stop intents,
  leases), the claims that succeed for a session carry the incarnations 1, 2, 3, .. each exactly
  once, and the holder the row names is the host of the last of them, or nobody: no two claims ever
  run a session under the same incarnation.
\<close>

theorem claims_are_fenced:
  "map fst (grants_of s (coord_run es coord_start)) = [1..<Suc (incarnation s (cw_db (coord_run es coord_start)))] \<and>
   holder s (cw_db (coord_run es coord_start)) \<in> {None, last_grant s (coord_run es coord_start)}"
  using fenced_run [OF fenced_start, of es] by (simp add: fenced_def)

subsection \<open>A live host keeps its claim\<close>

lemma incarnation_step:
  assumes "fenced w"
  shows "incarnation s (cw_db w) \<le> incarnation s (cw_db (coord_step e w))"
proof -
  have ok: "claims_ok (cw_db w)" using assms by (simp add: fenced_def)
  show ?thesis
  proof (cases e)
    case (Proceed i now)
    obtain st db' where st: "claim_step now (cw_calls w ! i) (cw_db w) = (st, db')" by fastforce
    show ?thesis using claim_step_view [OF ok st] st
      by (auto simp: Proceed proceed_def view_incarnation)
  next
    case (Release h t n now)
    obtain b db' where r: "releaseSessionClaim t h n now (cw_db w) = (b, db')" by fastforce
    show ?thesis using releaseSessionClaim_view [OF ok r] r by (auto simp: Release view_incarnation)
  next
    case (Intent t i now)
    show ?thesis using setStopIntent_view [OF ok, of t i now] by (auto simp: Intent view_incarnation)
  qed (simp_all add: view_incarnation)
qed

text \<open>The incarnation a call has seen, if it has read the claim.\<close>

fun seen :: "claim_stage \<Rightarrow> nat option" where
  "seen (Loaded current) = Some (expected_of current)"
| "seen (Cleared e) = Some e"
| "seen (Retrying e) = Some e"
| "seen _ = None"

definition seen_le :: "string \<Rightarrow> nat \<Rightarrow> claim_call \<Rightarrow> bool" where
  "seen_le s n c \<longleftrightarrow> cl_session c = s \<longrightarrow> (case seen (cl_stage c) of None \<Rightarrow> True | Some e \<Rightarrow> e \<le> n)"

definition seen_ok :: "coord_world \<Rightarrow> bool" where
  "seen_ok w \<longleftrightarrow> (\<forall>s. \<forall>c \<in> set (cw_calls w). seen_le s (incarnation s (cw_db w)) c)"

lemma seen_le_mono: "seen_le s m c \<Longrightarrow> m \<le> n \<Longrightarrow> seen_le s n c"
  by (auto simp: seen_le_def split: option.splits)

lemma seen_le_step:
  assumes "seen_le s (incarnation s db) c" "claim_step now c db = (st, db')"
    "incarnation s db \<le> incarnation s db'"
  shows "seen_le s (incarnation s db') (c\<lparr>cl_stage := st\<rparr>)"
proof (cases "cl_stage c")
  case Called
  then have "st = Loaded (getSessionClaim (cl_session c) db)" "db' = db" using assms(2) by (auto simp: claim_step_def)
  then show ?thesis by (simp add: seen_le_def incarnation_def)
next
  case (Retrying e)
  then show ?thesis using assms(2) by (auto simp: claim_step_def seen_le_def split: prod.splits)
next
  case (Answered r)
  with assms(2) have "st = Answered r" by (simp add: claim_step_def)
  then show ?thesis by (simp add: seen_le_def)
qed (use assms in \<open>auto simp: claim_step_def seen_le_def split: option.splits if_splits prod.splits\<close>)

lemma seen_ok_step:
  assumes "fenced w" "seen_ok w"
  shows "seen_ok (coord_step e w)"
  unfolding seen_ok_def
proof (intro allI ballI)
  fix s c assume c: "c \<in> set (cw_calls (coord_step e w))"
  note mono = incarnation_step [OF assms(1), of s e]
  have old: "seen_le s (incarnation s (cw_db (coord_step e w))) c" if "c \<in> set (cw_calls w)" for c
    using seen_le_mono [OF _ mono] assms(2) that by (auto simp: seen_ok_def)
  show "seen_le s (incarnation s (cw_db (coord_step e w))) c"
  proof (cases e)
    case (Enter h t ref)
    with c old show ?thesis by (auto simp: seen_le_def)
  next
    case (Proceed i now)
    obtain st db' where st: "claim_step now (cw_calls w ! i) (cw_db w) = (st, db')" by fastforce
    show ?thesis
    proof (cases "c \<in> set (cw_calls w)")
      case False
      then have i: "i < length (cw_calls w)" and c': "c = (cw_calls w ! i)\<lparr>cl_stage := st\<rparr>"
        using c st set_update_subset_insert [of "cw_calls w" i]
        by (auto simp: Proceed proceed_def split: if_splits)
      have "seen_le s (incarnation s (cw_db w)) (cw_calls w ! i)" using assms(2) i by (simp add: seen_ok_def)
      from seen_le_step [OF this st] mono i st show ?thesis by (simp add: Proceed proceed_def c')
    qed (rule old)
  qed (use c old in simp_all)
qed

lemma seen_ok_run: "fenced w \<Longrightarrow> seen_ok w \<Longrightarrow> seen_ok (coord_run es w)"
  unfolding coord_run_def by (induction es arbitrary: w) (auto intro: fenced_step seen_ok_step)

text \<open>The host \<open>p\<close> holds the session and what any other call has seen is older, or shows \<open>p\<close> as the holder.\<close>

definition behind :: "string \<Rightarrow> string \<Rightarrow> nat \<Rightarrow> claim_call \<Rightarrow> bool" where
  "behind p s n c \<longleftrightarrow> cl_session c = s \<longrightarrow> cl_host c \<noteq> p \<longrightarrow>
     (case cl_stage c of
        Loaded current \<Rightarrow> expected_of current < n \<or> held_by_peer (cl_host c) current = Some p
      | Cleared e \<Rightarrow> e < n
      | Retrying e \<Rightarrow> e < n
      | _ \<Rightarrow> True)"

definition kept_by :: "string \<Rightarrow> string \<Rightarrow> coord_world \<Rightarrow> bool" where
  "kept_by p s w \<longleftrightarrow> fenced w \<and> holder s (cw_db w) = Some p \<and>
     (\<forall>c \<in> set (cw_calls w). behind p s (incarnation s (cw_db w)) c)"

text \<open>The step leaves \<open>p\<close> alone: \<open>p\<close> does not release the session and its lease is not over.\<close>

fun leaves_alone :: "string \<Rightarrow> string \<Rightarrow> coord_event \<Rightarrow> coord_world \<Rightarrow> bool" where
  "leaves_alone p s (Proceed i now) w = (getLiveHostInstance p now (cw_db w) \<noteq> None)"
| "leaves_alone p s (Release h t n now) w = (h \<noteq> p \<or> t \<noteq> s)"
| "leaves_alone p s _ w = True"

fun undisturbed :: "string \<Rightarrow> string \<Rightarrow> coord_event list \<Rightarrow> coord_world \<Rightarrow> bool" where
  "undisturbed p s [] w = True"
| "undisturbed p s (e # es) w = (leaves_alone p s e w \<and> undisturbed p s es (coord_step e w))"

lemma behind_mono: "behind p s m c \<Longrightarrow> m \<le> n \<Longrightarrow> behind p s n c"
  by (auto simp: behind_def split: claim_stage.splits)

lemma behind_step:
  assumes db: "claims_ok db" "holder s db = Some p" and p: "p \<noteq> []" "getLiveHostInstance p now db \<noteq> None"
    and b: "behind p s (incarnation s db) c" and c: "cl_session c = s" "cl_host c \<noteq> p"
    and st: "claim_step now c db = (st, db')"
  shows "granted c st = [] \<and> (\<forall>t. claim_view t db' = claim_view t db) \<and>
         behind p s (incarnation s db) (c\<lparr>cl_stage := st\<rparr>)"
proof -
  obtain row where row: "getSessionClaim s db = Some row" "sc_claimed_by row = Some p"
    using db(2) by (auto simp: holder_def split: option.splits)
  have inc: "incarnation s db = sc_incarnation row" by (simp add: incarnation_def expected_of_def row)
  have no_peer: "e < incarnation s db \<Longrightarrow> \<not> fst (claim_update s h e ref now db)" for h e ref
  proof (cases "claim_update s h e ref now db")
    case (Pair ok db1)
    assume "e < incarnation s db"
    with claim_update_view [OF db(1) Pair, of s] Pair show ?thesis by (auto simp: inc claim_view_def row)
  qed
  have u: "e < incarnation s db \<Longrightarrow> claim_update s h e ref now db = (ok, db1) \<Longrightarrow>
           \<not> ok \<and> claim_view t db1 = claim_view t db" for h e ref ok db1 t
    using claim_update_view [OF db(1), of s h e ref now ok db1 t] no_peer [of e h ref] by auto
  show ?thesis
  proof (cases "cl_stage c")
    case Called
    with st c p(1) show ?thesis by (auto simp: claim_step_def granted_def behind_def held_by_peer_def row)
  next
    case (Loaded current)
    with b st c p(2) show ?thesis
      by (auto simp: claim_step_def granted_def behind_def split: option.splits if_splits)
  next
    case (Cleared e)
    with b c have "e < incarnation s db" by (simp add: behind_def)
    with Cleared st c show ?thesis
      by (auto simp: claim_step_def granted_def behind_def claim_insert_def row split: if_splits)
  next
    case (Retrying e)
    with b c have "e < incarnation s db" by (simp add: behind_def)
    note u = u [OF this]
    obtain ok db1 where 1: "claim_update s (cl_host c) e (Some (cl_ref c)) now db = (ok, db1)" by fastforce
    from Retrying st c 1 have "st = Answered (if ok then Some (e + 1) else None)" "db' = db1"
      by (simp_all add: claim_step_def)
    with Retrying u [OF 1] show ?thesis by (simp add: granted_def behind_def)
  next
    case (Answered r)
    with st have "st = Answered r" "db' = db" by (simp_all add: claim_step_def)
    with Answered show ?thesis by (simp add: granted_def behind_def)
  qed
qed

lemma kept_by_proceed:
  assumes k: "kept_by p s w" and p: "p \<noteq> []" "getLiveHostInstance p now (cw_db w) \<noteq> None"
  shows "kept_by p s (proceed i now w) \<and>
         (grants_of s (proceed i now w) = grants_of s w \<or> (\<exists>n. grants_of s (proceed i now w) = grants_of s w @ [(n, p)]))"
proof (cases "i < length (cw_calls w)")
  case True
  let ?c = "cw_calls w ! i" and ?w = "proceed i now w"
  have w: "fenced w" "claims_ok (cw_db w)" "holder s (cw_db w) = Some p"
    "\<forall>c \<in> set (cw_calls w). behind p s (incarnation s (cw_db w)) c" using k by (auto simp: kept_by_def fenced_def)
  obtain st db' where st: "claim_step now ?c (cw_db w) = (st, db')" by fastforce
  have w': "cw_db ?w = db'" "cw_calls ?w = (cw_calls w)[i := ?c\<lparr>cl_stage := st\<rparr>]"
    "cw_grants ?w = cw_grants w @ granted ?c st" using True st by (simp_all add: proceed_def)
  have f: "fenced ?w" by (rule fenced_proceed [OF w(1)])
  have mono: "incarnation s (cw_db w) \<le> incarnation s db'"
    using incarnation_step [OF w(1), of s "Proceed i now"] w' by simp
  have others: "\<forall>c \<in> set (cw_calls w). behind p s (incarnation s db') c"
    using w(4) behind_mono [OF _ mono] by blast
  have calls: "set (cw_calls ?w) \<subseteq> insert (?c\<lparr>cl_stage := st\<rparr>) (set (cw_calls w))"
    unfolding w' by (rule set_update_subset_insert)
  show ?thesis
  proof (cases "cl_session ?c = s \<and> cl_host ?c \<noteq> p")
    case True
    have "behind p s (incarnation s (cw_db w)) ?c" using w(4) \<open>i < _\<close> by simp
    from behind_step [OF w(2,3) p this _ _ st] True
    have 1: "granted ?c st = []" "\<forall>t. claim_view t db' = claim_view t (cw_db w)"
      "behind p s (incarnation s (cw_db w)) (?c\<lparr>cl_stage := st\<rparr>)" by simp_all
    then have "behind p s (incarnation s db') (?c\<lparr>cl_stage := st\<rparr>)" by (simp add: view_incarnation)
    then have "kept_by p s ?w"
      using f 1 w(3) others calls by (auto simp: kept_by_def w' view_holder)
    with 1 show ?thesis by (simp add: grants_of_def w')
  next
    case False
    then have b: "behind p s n (?c\<lparr>cl_stage := st\<rparr>)" for n by (auto simp: behind_def)
    from claim_step_view [OF w(2) st] False w(3) have "holder s db' = Some p"
      by (auto simp: view_holder)
    then have "kept_by p s ?w" using f b others calls by (auto simp: kept_by_def w')
    moreover from claim_step_view [OF w(2) st] False
    have "map snd (filter (\<lambda>g. fst g = s) (granted ?c st)) = [] \<or>
          (\<exists>n. map snd (filter (\<lambda>g. fst g = s) (granted ?c st)) = [(n, p)])" by auto
    ultimately show ?thesis by (auto simp: grants_of_def w')
  qed
qed (use k in \<open>simp add: proceed_def\<close>)

lemma kept_by_same:
  assumes k: "kept_by p s w" and f: "fenced w'" and h: "holder s (cw_db w') = Some p"
    and i: "incarnation s (cw_db w') = incarnation s (cw_db w)"
    and c: "\<And>c. c \<in> set (cw_calls w') \<Longrightarrow> c \<in> set (cw_calls w) \<or> cl_stage c = Called"
  shows "kept_by p s w'"
  using k f h c unfolding kept_by_def i by (fastforce simp: behind_def)

lemma kept_by_step:
  assumes k: "kept_by p s w" and p: "p \<noteq> []" "leaves_alone p s e w"
  shows "kept_by p s (coord_step e w) \<and>
         (grants_of s (coord_step e w) = grants_of s w \<or> (\<exists>n. grants_of s (coord_step e w) = grants_of s w @ [(n, p)]))"
proof (cases e)
  case (Proceed i now)
  with p kept_by_proceed [OF k p(1)] show ?thesis by simp
next
  case (Release h t n now)
  have w: "fenced w" "claims_ok (cw_db w)" "holder s (cw_db w) = Some p" using k by (auto simp: kept_by_def fenced_def)
  obtain b db' where r: "releaseSessionClaim t h n now (cw_db w) = (b, db')" by fastforce
  have "claim_view s db' = claim_view s (cw_db w)"
    using releaseSessionClaim_view [OF w(2) r, of s] p(2) w(3) by (auto simp: Release view_holder)
  then have "kept_by p s (coord_step e w)"
    by (intro kept_by_same [OF k fenced_step [OF w(1)]])
      (use w(3) in \<open>simp_all add: Release r view_holder view_incarnation\<close>)
  then show ?thesis by (simp add: Release grants_of_def)
next
  case (Intent t i now)
  have w: "fenced w" "claims_ok (cw_db w)" "holder s (cw_db w) = Some p" using k by (auto simp: kept_by_def fenced_def)
  have "claim_view s (setStopIntent t i now (cw_db w)) = claim_view s (cw_db w)"
    using setStopIntent_view [OF w(2), of t i now s] w(3) by (auto simp: view_holder split: option.splits)
  then have "kept_by p s (coord_step e w)"
    by (intro kept_by_same [OF k fenced_step [OF w(1)]])
      (use w(3) in \<open>simp_all add: Intent view_holder view_incarnation\<close>)
  then show ?thesis by (simp add: Intent grants_of_def)
next
  case (Enter h t ref)
  have "kept_by p s (coord_step e w)"
    by (intro kept_by_same [OF k fenced_step]) (use k in \<open>auto simp: Enter kept_by_def\<close>)
  then show ?thesis by (simp add: Enter grants_of_def)
next
  case (Register r)
  have "kept_by p s (coord_step e w)"
    by (intro kept_by_same [OF k fenced_step]) (use k in \<open>auto simp: Register kept_by_def view_holder view_incarnation\<close>)
  then show ?thesis by (simp add: Register grants_of_def)
next
  case (Renew h l)
  have "kept_by p s (coord_step e w)"
    by (intro kept_by_same [OF k fenced_step]) (use k in \<open>auto simp: Renew kept_by_def view_holder view_incarnation\<close>)
  then show ?thesis by (simp add: Renew grants_of_def)
next
  case (Halt h now)
  have "kept_by p s (coord_step e w)"
    by (intro kept_by_same [OF k fenced_step]) (use k in \<open>auto simp: Halt kept_by_def view_holder view_incarnation\<close>)
  then show ?thesis by (simp add: Halt grants_of_def)
qed

lemma kept_by_run:
  assumes "kept_by p s w" "p \<noteq> []" "undisturbed p s es w"
  shows "kept_by p s (coord_run es w) \<and>
         (\<exists>gs. grants_of s (coord_run es w) = grants_of s w @ gs \<and> set (map snd gs) \<subseteq> {p})"
  using assms
proof (induction es arbitrary: w)
  case (Cons e es)
  from kept_by_step [OF Cons.prems(1,2)] Cons.prems(3)
  obtain g where 1: "kept_by p s (coord_step e w)" "grants_of s (coord_step e w) = grants_of s w @ g" "set (map snd g) \<subseteq> {p}"
    by fastforce
  from Cons.IH [OF 1(1) Cons.prems(2)] Cons.prems(3)
  obtain gs where 2: "kept_by p s (coord_run es (coord_step e w))"
    "grants_of s (coord_run es (coord_step e w)) = grants_of s w @ g @ gs" "set (map snd gs) \<subseteq> {p}"
    by (auto simp: 1(2))
  then show ?case using 1(3) by (auto simp: coord_run_def intro!: exI [of _ "g @ gs"])
qed (simp add: coord_run_def)

text \<open>Right after a claim succeeds every other call has seen an older incarnation.\<close>

lemma kept_by_grant:
  assumes w: "fenced w" "seen_ok w" and g: "grants_of s (proceed i now w) = grants_of s w @ [(n, p)]"
  shows "kept_by p s (proceed i now w)"
proof -
  let ?c = "cw_calls w ! i" and ?w = "proceed i now w"
  have i: "i < length (cw_calls w)" using g by (cases "i < length (cw_calls w)") (simp_all add: proceed_def)
  obtain st db' where st: "claim_step now ?c (cw_db w) = (st, db')" by fastforce
  have w': "cw_db ?w = db'" "cw_calls ?w = (cw_calls w)[i := ?c\<lparr>cl_stage := st\<rparr>]"
    "cw_grants ?w = cw_grants w @ granted ?c st" using i st by (simp_all add: proceed_def)
  from g have gr: "map snd (filter (\<lambda>g. fst g = s) (granted ?c st)) = [(n, p)]"
    by (simp add: grants_of_def w')
  have ok: "claims_ok (cw_db w)" using w(1) by (simp add: fenced_def)
  from claim_step_view [OF ok st] gr obtain e where e: "granted ?c st = [(cl_session ?c, e + 1, cl_host ?c)]"
    "incarnation (cl_session ?c) (cw_db w) = e" "cl_session ?c = s" "cl_host ?c = p"
    "claim_view s db' = Some (e + 1, Some p)" by (auto split: if_splits)
  have old: "behind p s (e + 1) c" if "c \<in> set (cw_calls w)" for c
  proof -
    have "seen_le s e c" using w(2) e that unfolding seen_ok_def by metis
    then show ?thesis by (auto simp: seen_le_def behind_def split: claim_stage.splits)
  qed
  have new: "behind p s (e + 1) (?c\<lparr>cl_stage := st\<rparr>)" using e(4) by (simp add: behind_def)
  have calls: "set (cw_calls ?w) \<subseteq> insert (?c\<lparr>cl_stage := st\<rparr>) (set (cw_calls w))"
    unfolding w' by (rule set_update_subset_insert)
  show ?thesis
    using fenced_proceed [OF w(1), of i now] old new calls e(5)
    by (auto simp: kept_by_def w' view_holder view_incarnation)
qed

lemma seen_ok_start: "seen_ok coord_start"
  by (simp add: seen_ok_def coord_start_def)

text \<open>
  C5. A host that has just claimed a session keeps it: whatever the other hosts do from then on, as
  long as its lease is ahead of every clock that is read and it does not release the session itself,
  the row names it, and no claim of another host for the session succeeds.
\<close>

theorem live_claim_is_kept:
  assumes "p \<noteq> []" "w = coord_run es coord_start" "grants_of s (coord_step (Proceed i now) w) = grants_of s w @ [(n, p)]"
    and "undisturbed p s es' (coord_step (Proceed i now) w)"
  shows "holder s (cw_db (coord_run es' (coord_step (Proceed i now) w))) = Some p \<and>
         (\<exists>gs. grants_of s (coord_run es' (coord_step (Proceed i now) w)) = grants_of s w @ (n, p) # gs \<and>
               set (map snd gs) \<subseteq> {p})"
proof -
  have "fenced w" "seen_ok w"
    using fenced_run [OF fenced_start] seen_ok_run [OF fenced_start seen_ok_start] assms(2) by simp_all
  then have "kept_by p s (coord_step (Proceed i now) w)" using kept_by_grant assms(3) by simp
  from kept_by_run [OF this assms(1,4)] show ?thesis unfolding assms(3) by (auto simp: kept_by_def)
qed

definition demo_host :: "string \<Rightarrow> host_instance" where
  "demo_host h = \<lparr>hi_instance_id = h, hi_install_id = ''i'', hi_hostname = None, hi_pid = None, hi_started_at = 0,
                  hi_lease_expires_at = LEASE_TTL_MS, hi_stopped_at = None\<rparr>"

text \<open>Both hosts have read that nobody holds the session; the second has to give way, also later.\<close>

lemma live_claim_is_kept_witness:
  "let w = coord_run [Register (demo_host ''p''), Register (demo_host ''q''), Enter ''p'' ''s'' ''c'', Enter ''q'' ''s'' ''c'',
                      Proceed 0 1, Proceed 1 1, Proceed 0 2, Proceed 1 2] coord_start;
       w' = coord_run [Proceed 1 4, Proceed 1 4, Renew ''p'' 120000, Enter ''q'' ''s'' ''d'', Proceed 2 100000, Proceed 2 100000]
              (coord_step (Proceed 0 3) w)
   in map cl_stage (cw_calls w) = [Cleared 0, Cleared 0] \<and>
      map cl_stage (cw_calls w') = [Answered (Some 1), Answered None, Answered None] \<and>
      holder ''s'' (cw_db w') = Some ''p''"
proof -
  let ?w = "coord_run [Register (demo_host ''p''), Register (demo_host ''q''), Enter ''p'' ''s'' ''c'', Enter ''q'' ''s'' ''c'',
                      Proceed 0 1, Proceed 1 1, Proceed 0 2, Proceed 1 2] coord_start"
  let ?es = "[Proceed 1 4, Proceed 1 4, Renew ''p'' 120000, Enter ''q'' ''s'' ''d'', Proceed 2 100000, Proceed 2 100000]"
  have g: "grants_of ''s'' (coord_step (Proceed 0 3) ?w) = grants_of ''s'' ?w @ [(1, ''p'')]" by code_simp
  have u: "undisturbed ''p'' ''s'' ?es (coord_step (Proceed 0 3) ?w)" by code_simp
  from live_claim_is_kept [OF _ refl g u]
  have "holder ''s'' (cw_db (coord_run ?es (coord_step (Proceed 0 3) ?w))) = Some ''p''" by simp
  moreover have "map cl_stage (cw_calls ?w) = [Cleared 0, Cleared 0]" by code_simp
  moreover have "map cl_stage (cw_calls (coord_run ?es (coord_step (Proceed 0 3) ?w))) =
      [Answered (Some 1), Answered None, Answered None]" by code_simp
  ultimately show ?thesis unfolding Let_def by blast
qed

end
