(* ===== verification/SessionEvents.thy ===== *)
theory SessionEvents
  imports Prelude
begin

text \<open>
  The session events hub (\<open>src/drivers/session-events.ts\<close>): it turns the hints of a driver's watch
  stream into at most one \<open>onTerminal\<close> per incarnation of a session.  The states of the hub are objects
  (a step that is waiting keeps the object it started with, also after the key got a new one), so they
  are kept in a list and named by their position.  Truth reads (\<open>status()\<close>) are begun in one step and
  answered in a later one; the answers are the driver's.
\<close>

subsection \<open>Types of the driver seam\<close>

datatype session_failure =
    SpecInvalid string
  | DeniedByPolicy string
  | ImageUnavailable
  | RuntimeUnavailable
  | ResourcesExhausted
  | StartedThenDied "int option"
  | UnknownFailure string

datatype runtime_status = StPreparing | StReady | StRunning | StStopped | StFailed session_failure

datatype session_phase = PhStarting | PhRunning | PhTerminal

datatype event_kind = EvTerminal | EvPhase | EvHint

record session_key =
  sk_installSlug :: string
  sk_agentGroupId :: string
  sk_sessionId :: string

definition idOf :: "session_key \<Rightarrow> string" where
  "idOf key = sk_installSlug key @ CHR 0x00 # sk_agentGroupId key @ CHR 0x00 # sk_sessionId key"

subsection \<open>State\<close>

record key_state =
  ks_key :: session_key
  ks_handle :: nat
  ks_cb :: "nat option"
  ks_stopIntent :: bool
  ks_fired :: bool
  ks_pending :: "session_failure option option"
  ks_verifying :: bool
  ks_recheck :: bool

text \<open>
  A resync that has its list: the objects still to look at, what the list said of each key, and the
  object whose check it waits for.
\<close>

record resync_call =
  rs_install :: string
  rs_armed :: "nat list"
  rs_snapshots :: "(string \<times> session_phase \<times> session_failure option) list option"
  rs_waiting :: "nat option"

text \<open>
  \<open>hu_states\<close> is the hub's map, \<open>hu_micro\<close> the queued microtasks, \<open>hu_reads\<close> the objects with a truth
  read in flight, each with the number of the step that began it, \<open>hu_log\<close> the callbacks called (with
  the object they were called for), \<open>hu_clock\<close> the number of steps so far.
\<close>

record hub =
  hu_objs :: "key_state list"
  hu_states :: "(string \<times> nat) list"
  hu_watches :: "string list"
  hu_micro :: "(nat \<times> nat \<times> session_failure option) list"
  hu_reads :: "(nat \<times> nat) list"
  hu_resyncs :: "resync_call list"
  hu_log :: "(nat \<times> nat \<times> session_failure option) list"
  hu_clock :: nat

definition state_of :: "session_key \<Rightarrow> hub \<Rightarrow> nat option" where
  "state_of key h = map_of (hu_states h) (idOf key)"

definition set_obj :: "nat \<Rightarrow> (key_state \<Rightarrow> key_state) \<Rightarrow> hub \<Rightarrow> hub" where
  "set_obj x f h = (if x < length (hu_objs h) then h\<lparr>hu_objs := (hu_objs h)[x := f (hu_objs h ! x)]\<rparr> else h)"

subsection \<open>Operations\<close>

definition fresh_state :: "session_key \<Rightarrow> nat \<Rightarrow> key_state" where
  "fresh_state key handle =
     \<lparr>ks_key = key, ks_handle = handle, ks_cb = None, ks_stopIntent = False, ks_fired = False, ks_pending = None,
      ks_verifying = False, ks_recheck = False\<rparr>"

definition trackPrepared :: "session_key \<Rightarrow> nat \<Rightarrow> hub \<Rightarrow> hub" where
  "trackPrepared key handle h =
     h\<lparr>hu_objs := hu_objs h @ [fresh_state key handle],
       hu_states := map_set (idOf key) (length (hu_objs h)) (hu_states h)\<rparr>"

definition trackListed :: "session_key \<Rightarrow> nat \<Rightarrow> hub \<Rightarrow> hub" where
  "trackListed key handle h =
     (case state_of key h of
        Some x \<Rightarrow> set_obj x (\<lambda>s. s\<lparr>ks_handle := handle\<rparr>) h
      | None \<Rightarrow> trackPrepared key handle h)"

definition ensureWatch :: "string \<Rightarrow> hub \<Rightarrow> hub" where
  "ensureWatch install h = (if install \<in> set (hu_watches h) then h else h\<lparr>hu_watches := hu_watches h @ [install]\<rparr>)"

definition arm :: "session_key \<Rightarrow> nat \<Rightarrow> hub \<Rightarrow> hub" where
  "arm key cb h =
     (case state_of key h of
        None \<Rightarrow> h
      | Some x \<Rightarrow>
          (let h1 = ensureWatch (sk_installSlug key) (set_obj x (\<lambda>s. s\<lparr>ks_cb := Some cb\<rparr>) h)
           in case ks_pending (hu_objs h1 ! x) of
                None \<Rightarrow> h1
              | Some failure \<Rightarrow>
                  (set_obj x (\<lambda>s. s\<lparr>ks_pending := None\<rparr>) h1)\<lparr>hu_micro := hu_micro h1 @ [(x, cb, failure)]\<rparr>))"

definition markStopIntent :: "session_key \<Rightarrow> hub \<Rightarrow> hub" where
  "markStopIntent key h =
     (case state_of key h of None \<Rightarrow> h | Some x \<Rightarrow> set_obj x (\<lambda>s. s\<lparr>ks_stopIntent := True\<rparr>) h)"

definition call_back :: "nat \<times> nat \<times> session_failure option \<Rightarrow> hub \<Rightarrow> hub" where
  "call_back c h = h\<lparr>hu_log := hu_log h @ [c]\<rparr>"

definition deliver :: "nat \<Rightarrow> session_failure option \<Rightarrow> hub \<Rightarrow> hub" where
  "deliver x failure h =
     (let s = hu_objs h ! x in
      if ks_fired s \<or> ks_stopIntent s then h
      else let h1 = set_obj x (\<lambda>s. s\<lparr>ks_fired := True\<rparr>) h
           in case ks_cb s of
                Some cb \<Rightarrow> call_back (x, cb, failure) h1
              | None \<Rightarrow> set_obj x (\<lambda>s. s\<lparr>ks_pending := Some failure\<rparr>) h1)"

text \<open>\<open>#verify\<close>: up to the read it waits for, and from the answer on.  \<open>None\<close> is a read that threw.\<close>

definition begin_read :: "nat \<Rightarrow> hub \<Rightarrow> hub" where
  "begin_read x h =
     (set_obj x (\<lambda>s. s\<lparr>ks_recheck := False\<rparr>) h)\<lparr>hu_reads := hu_reads h @ [(x, hu_clock h)]\<rparr>"

definition verify :: "nat \<Rightarrow> hub \<Rightarrow> hub" where
  "verify x h =
     (let s = hu_objs h ! x in
      if ks_fired s \<or> ks_stopIntent s then h
      else if ks_verifying s then set_obj x (\<lambda>s. s\<lparr>ks_recheck := True\<rparr>) h
      else begin_read x (set_obj x (\<lambda>s. s\<lparr>ks_verifying := True\<rparr>) h))"

definition end_verify :: "nat \<Rightarrow> hub \<Rightarrow> hub" where
  "end_verify x h =
     (set_obj x (\<lambda>s. s\<lparr>ks_verifying := False\<rparr>) h)\<lparr>hu_resyncs :=
        map (\<lambda>r. if rs_waiting r = Some x then r\<lparr>rs_waiting := None\<rparr> else r) (hu_resyncs h)\<rparr>"

definition continue_verify :: "nat \<Rightarrow> hub \<Rightarrow> hub" where
  "continue_verify x h =
     (let s = hu_objs h ! x in
      if ks_recheck s \<and> \<not> ks_fired s \<and> \<not> ks_stopIntent s then begin_read x h else end_verify x h)"

definition read_done :: "nat \<Rightarrow> runtime_status option \<Rightarrow> hub \<Rightarrow> hub" where
  "read_done x answer h =
     (let h1 = h\<lparr>hu_reads := filter (\<lambda>r. fst r \<noteq> x) (hu_reads h)\<rparr> in
      case answer of
        Some StStopped \<Rightarrow> end_verify x (deliver x None h1)
      | Some (StFailed f) \<Rightarrow> end_verify x (deliver x (Some f) h1)
      | _ \<Rightarrow> continue_verify x h1)"

definition onEvent :: "session_key \<Rightarrow> event_kind \<Rightarrow> hub \<Rightarrow> hub" where
  "onEvent key kind h =
     (if kind \<noteq> EvTerminal then h
      else case state_of key h of None \<Rightarrow> h | Some x \<Rightarrow> verify x h)"

text \<open>\<open>resync\<close>: the objects it looks at are chosen before the list is read.\<close>

definition armed_states :: "string \<Rightarrow> hub \<Rightarrow> nat list" where
  "armed_states install h =
     filter (\<lambda>x. let s = hu_objs h ! x in
        sk_installSlug (ks_key s) = install \<and> ks_cb s \<noteq> None \<and> \<not> ks_fired s \<and> \<not> ks_stopIntent s)
       (map snd (hu_states h))"

definition resync :: "string \<Rightarrow> hub \<Rightarrow> hub" where
  "resync install h =
     (let armed = armed_states install h in
      if armed = [] then h
      else h\<lparr>hu_resyncs := hu_resyncs h @
        [\<lparr>rs_install = install, rs_armed = armed, rs_snapshots = None, rs_waiting = None\<rparr>]\<rparr>)"

definition set_resync :: "nat \<Rightarrow> resync_call \<Rightarrow> hub \<Rightarrow> hub" where
  "set_resync i r h = h\<lparr>hu_resyncs := (hu_resyncs h)[i := r]\<rparr>"

definition resync_listed :: "nat \<Rightarrow> (string \<times> session_phase \<times> session_failure option) list \<Rightarrow> hub \<Rightarrow> hub" where
  "resync_listed i snaps h =
     (if i < length (hu_resyncs h) \<and> rs_snapshots (hu_resyncs h ! i) = None
      then set_resync i ((hu_resyncs h ! i)\<lparr>rs_snapshots := Some snaps\<rparr>) h else h)"

definition resync_one :: "(session_phase \<times> session_failure option) option \<Rightarrow> nat \<Rightarrow> hub \<Rightarrow> hub" where
  "resync_one snapshot x h =
     (case snapshot of
        Some (phase, failure) \<Rightarrow> if phase \<noteq> PhTerminal then h else deliver x failure h
      | None \<Rightarrow> verify x h)"

definition resync_next :: "nat \<Rightarrow> hub \<Rightarrow> hub" where
  "resync_next i h =
     (if i < length (hu_resyncs h) then
        (let r = hu_resyncs h ! i in
         case (rs_snapshots r, rs_armed r, rs_waiting r) of
           (Some snaps, x # xs, None) \<Rightarrow>
               (let s = hu_objs h ! x;
                    snapshot = map_of snaps (idOf (ks_key s));
                    begins = (snapshot = None \<and> \<not> ks_fired s \<and> \<not> ks_stopIntent s \<and> \<not> ks_verifying s)
                in resync_one snapshot x
                     (set_resync i (r\<lparr>rs_armed := xs, rs_waiting := if begins then Some x else None\<rparr>) h))
         | _ \<Rightarrow> h)
      else h)"

definition run_microtask :: "hub \<Rightarrow> hub" where
  "run_microtask h = (case hu_micro h of [] \<Rightarrow> h | m # ms \<Rightarrow> call_back m (h\<lparr>hu_micro := ms\<rparr>))"

subsection \<open>Runs\<close>

datatype hub_event =
    Prepare session_key nat
  | List session_key nat
  | OnTerminal session_key nat
  | Stop session_key
  | Hint session_key event_kind
  | Answer nat "runtime_status option"
  | Resync string
  | Listed nat "(string \<times> session_phase \<times> session_failure option) list"
  | ResyncNext nat
  | Microtask

fun hub_act :: "hub_event \<Rightarrow> hub \<Rightarrow> hub" where
  "hub_act (Prepare key handle) h = trackPrepared key handle h"
| "hub_act (List key handle) h = trackListed key handle h"
| "hub_act (OnTerminal key cb) h = arm key cb h"
| "hub_act (Stop key) h = markStopIntent key h"
| "hub_act (Hint key kind) h = onEvent key kind h"
| "hub_act (Answer x answer) h = (if x \<in> fst ` set (hu_reads h) then read_done x answer h else h)"
| "hub_act (Resync install) h = resync install h"
| "hub_act (Listed i snaps) h = resync_listed i snaps h"
| "hub_act (ResyncNext i) h = resync_next i h"
| "hub_act Microtask h = run_microtask h"

definition hub_step :: "hub_event \<Rightarrow> hub \<Rightarrow> hub" where
  "hub_step e h = (let h' = hub_act e h in h'\<lparr>hu_clock := Suc (hu_clock h')\<rparr>)"

definition hub_run :: "hub_event list \<Rightarrow> hub \<Rightarrow> hub" where
  "hub_run es h = foldl (\<lambda>h e. hub_step e h) h es"

definition empty_hub :: hub where
  "empty_hub = \<lparr>hu_objs = [], hu_states = [], hu_watches = [], hu_micro = [], hu_reads = [], hu_resyncs = [],
                hu_log = [], hu_clock = 0\<rparr>"

subsection \<open>Deliveries are counted\<close>

definition calls :: "nat \<Rightarrow> hub \<Rightarrow> nat" where
  "calls x h = length (filter (\<lambda>c. fst c = x) (hu_log h))"

definition queued :: "nat \<Rightarrow> hub \<Rightarrow> nat" where
  "queued x h = length (filter (\<lambda>c. fst c = x) (hu_micro h))"

definition kept_back :: "nat \<Rightarrow> hub \<Rightarrow> nat" where
  "kept_back x h = (if x < length (hu_objs h) \<and> ks_pending (hu_objs h ! x) \<noteq> None then 1 else 0)"

definition fired :: "nat \<Rightarrow> hub \<Rightarrow> bool" where
  "fired x h \<longleftrightarrow> x < length (hu_objs h) \<and> ks_fired (hu_objs h ! x)"

definition refs_ok :: "hub \<Rightarrow> bool" where
  "refs_ok h \<longleftrightarrow> (\<forall>p \<in> set (hu_states h). snd p < length (hu_objs h)) \<and>
     (\<forall>r \<in> set (hu_resyncs h). \<forall>x \<in> set (rs_armed r). x < length (hu_objs h))"

definition verifying :: "nat \<Rightarrow> hub \<Rightarrow> bool" where
  "verifying x h \<longleftrightarrow> x < length (hu_objs h) \<and> ks_verifying (hu_objs h ! x)"

definition reads_ok :: "hub \<Rightarrow> bool" where
  "reads_ok h \<longleftrightarrow> distinct (map fst (hu_reads h)) \<and> (\<forall>x. x \<in> fst ` set (hu_reads h) \<longleftrightarrow> verifying x h)"

definition count_ok :: "nat \<Rightarrow> hub \<Rightarrow> bool" where
  "count_ok x h \<longleftrightarrow>
     calls x h + queued x h + kept_back x h = (if fired x h then 1 else 0) \<and>
     (kept_back x h = 1 \<longrightarrow> ks_cb (hu_objs h ! x) = None)"

definition hub_ok :: "hub \<Rightarrow> bool" where
  "hub_ok h \<longleftrightarrow> refs_ok h \<and> reads_ok h \<and> (\<forall>x. count_ok x h)"

named_theorems hub_simps "the fields of the hub after an operation"

lemma set_obj_fields [hub_simps]:
  "length (hu_objs (set_obj x f h)) = length (hu_objs h)"
  "hu_states (set_obj x f h) = hu_states h" "hu_watches (set_obj x f h) = hu_watches h"
  "hu_micro (set_obj x f h) = hu_micro h" "hu_reads (set_obj x f h) = hu_reads h"
  "hu_resyncs (set_obj x f h) = hu_resyncs h" "hu_log (set_obj x f h) = hu_log h" "hu_clock (set_obj x f h) = hu_clock h"
  by (simp_all add: set_obj_def)

lemma set_obj_nth [hub_simps]:
  "y < length (hu_objs h) \<Longrightarrow> hu_objs (set_obj x f h) ! y = (if y = x then f (hu_objs h ! y) else hu_objs h ! y)"
  by (auto simp: set_obj_def nth_list_update)

lemma state_of_less: "refs_ok h \<Longrightarrow> state_of key h = Some x \<Longrightarrow> x < length (hu_objs h)"
  unfolding refs_ok_def state_of_def by (metis map_of_SomeD snd_conv)

lemmas count_defs = count_ok_def calls_def queued_def kept_back_def fired_def

text \<open>Changing an object in a field that neither the reads nor the counts look at.\<close>

lemma refs_ok_set_obj [simp]: "refs_ok (set_obj x f h) = refs_ok h"
  by (simp add: refs_ok_def hub_simps)

lemma verifying_set_obj:
  assumes "\<And>s. ks_verifying (f s) = ks_verifying s"
  shows "verifying y (set_obj x f h) = verifying y h"
  using assms by (cases "y < length (hu_objs h)") (simp_all add: verifying_def hub_simps)

lemma reads_ok_set_obj: "(\<And>s. ks_verifying (f s) = ks_verifying s) \<Longrightarrow> reads_ok (set_obj x f h) = reads_ok h"
  by (simp add: reads_ok_def hub_simps verifying_set_obj)

lemma count_ok_set_obj:
  assumes "\<And>s. ks_fired (f s) = ks_fired s \<and> ks_pending (f s) = ks_pending s \<and> ks_cb (f s) = ks_cb s"
  shows "count_ok y (set_obj x f h) = count_ok y h"
  using assms by (cases "y < length (hu_objs h)") (simp_all add: count_defs hub_simps)

lemma hub_ok_set_obj:
  "(\<And>s. ks_fired (f s) = ks_fired s \<and> ks_pending (f s) = ks_pending s \<and> ks_cb (f s) = ks_cb s \<and>
        ks_verifying (f s) = ks_verifying s) \<Longrightarrow> hub_ok (set_obj x f h) = hub_ok h"
  by (simp add: hub_ok_def reads_ok_set_obj count_ok_set_obj)

lemma refs_ok_prepared: "refs_ok h \<Longrightarrow> refs_ok (trackPrepared key handle h)"
  by (fastforce simp: refs_ok_def trackPrepared_def map_set_def)

lemma verifying_prepared: "verifying x (trackPrepared key handle h) = verifying x h"
  by (auto simp: verifying_def trackPrepared_def fresh_state_def nth_append less_Suc_eq)

lemma count_ok_prepared:
  assumes "\<forall>x. count_ok x h"
  shows "count_ok x (trackPrepared key handle h)"
proof -
  have "calls (length (hu_objs h)) h = 0 \<and> queued (length (hu_objs h)) h = 0"
    using assms [rule_format, of "length (hu_objs h)"] by (simp add: count_ok_def fired_def)
  then show ?thesis using assms [rule_format, of x]
    by (cases "x < length (hu_objs h)"; cases "x = length (hu_objs h)")
      (simp_all add: count_defs trackPrepared_def fresh_state_def nth_append)
qed

lemma hub_ok_prepared: "hub_ok h \<Longrightarrow> hub_ok (trackPrepared key handle h)"
  by (simp add: hub_ok_def refs_ok_prepared count_ok_prepared reads_ok_def verifying_prepared)
    (simp add: trackPrepared_def)

lemma hub_ok_listed: "hub_ok h \<Longrightarrow> hub_ok (trackListed key handle h)"
  by (simp add: trackListed_def hub_ok_prepared hub_ok_set_obj split: option.split)

lemma hub_ok_stop: "hub_ok h \<Longrightarrow> hub_ok (markStopIntent key h)"
  by (simp add: markStopIntent_def hub_ok_set_obj split: option.split)

lemma hub_fields [simp]:
  "refs_ok (h\<lparr>hu_watches := v\<rparr>) = refs_ok h" "refs_ok (h\<lparr>hu_clock := n\<rparr>) = refs_ok h"
  "refs_ok (h\<lparr>hu_log := l\<rparr>) = refs_ok h" "refs_ok (h\<lparr>hu_micro := m\<rparr>) = refs_ok h"
  "refs_ok (h\<lparr>hu_reads := r\<rparr>) = refs_ok h"
  "reads_ok (h\<lparr>hu_watches := v\<rparr>) = reads_ok h" "reads_ok (h\<lparr>hu_clock := n\<rparr>) = reads_ok h"
  "reads_ok (h\<lparr>hu_log := l\<rparr>) = reads_ok h" "reads_ok (h\<lparr>hu_micro := m\<rparr>) = reads_ok h"
  "reads_ok (h\<lparr>hu_resyncs := c\<rparr>) = reads_ok h"
  "count_ok y (h\<lparr>hu_watches := v\<rparr>) = count_ok y h" "count_ok y (h\<lparr>hu_clock := n\<rparr>) = count_ok y h"
  "count_ok y (h\<lparr>hu_reads := r\<rparr>) = count_ok y h" "count_ok y (h\<lparr>hu_resyncs := c\<rparr>) = count_ok y h"
  by (simp_all add: refs_ok_def reads_ok_def verifying_def count_defs)

text \<open>Delivering and arming as one change of the object.\<close>

lemma deliver_eq:
  "deliver x f h =
     (if ks_fired (hu_objs h ! x) \<or> ks_stopIntent (hu_objs h ! x) then h
      else case ks_cb (hu_objs h ! x) of
             Some cb \<Rightarrow> (set_obj x (\<lambda>s. s\<lparr>ks_fired := True\<rparr>) h)\<lparr>hu_log := hu_log h @ [(x, cb, f)]\<rparr>
           | None \<Rightarrow> set_obj x (\<lambda>s. s\<lparr>ks_fired := True, ks_pending := Some f\<rparr>) h)"
  by (simp add: deliver_def Let_def call_back_def set_obj_def split: option.split)

lemma arm_eq:
  "arm key cb h =
     (case state_of key h of
        None \<Rightarrow> h
      | Some x \<Rightarrow>
          (let h1 = ensureWatch (sk_installSlug key) (set_obj x (\<lambda>s. s\<lparr>ks_cb := Some cb, ks_pending := None\<rparr>) h)
           in case ks_pending (hu_objs (ensureWatch (sk_installSlug key) (set_obj x (\<lambda>s. s\<lparr>ks_cb := Some cb\<rparr>) h)) ! x) of
                None \<Rightarrow> ensureWatch (sk_installSlug key) (set_obj x (\<lambda>s. s\<lparr>ks_cb := Some cb\<rparr>) h)
              | Some f \<Rightarrow> h1\<lparr>hu_micro := hu_micro h @ [(x, cb, f)]\<rparr>))"
  by (simp add: arm_def Let_def ensureWatch_def set_obj_def split: option.split)

lemma ensureWatch_fields [hub_simps]:
  "hu_objs (ensureWatch i h) = hu_objs h" "hu_micro (ensureWatch i h) = hu_micro h" "hu_log (ensureWatch i h) = hu_log h"
  "hu_states (ensureWatch i h) = hu_states h" "hu_reads (ensureWatch i h) = hu_reads h"
  "hu_resyncs (ensureWatch i h) = hu_resyncs h"
  "refs_ok (ensureWatch i h) = refs_ok h" "reads_ok (ensureWatch i h) = reads_ok h" "count_ok y (ensureWatch i h) = count_ok y h"
  by (simp_all add: ensureWatch_def)

lemma count_ok_other:
  "y \<noteq> x \<Longrightarrow> count_ok y (set_obj x f h) = count_ok y h"
  "y \<noteq> x \<Longrightarrow> l = hu_log h \<Longrightarrow> count_ok y (h\<lparr>hu_log := l @ [(x, c)]\<rparr>) = count_ok y h"
  "y \<noteq> x \<Longrightarrow> l = hu_micro h \<Longrightarrow> count_ok y (h\<lparr>hu_micro := l @ [(x, c)]\<rparr>) = count_ok y h"
  by (cases "y < length (hu_objs h)"; simp add: count_defs hub_simps)+

lemma hub_ok_arm:
  assumes "hub_ok h"
  shows "hub_ok (arm key cb h)"
proof (cases "state_of key h")
  case (Some x)
  have x: "x < length (hu_objs h)" using assms Some state_of_less by (simp add: hub_ok_def)
  have r: "refs_ok (arm key cb h)" "reads_ok (arm key cb h)"
    using assms by (simp_all add: arm_eq Some Let_def hub_ok_def hub_simps reads_ok_set_obj split: option.split)
  have "count_ok y (arm key cb h)" if y: "y \<noteq> x" for y
    using assms y by (simp add: arm_eq Some Let_def hub_ok_def count_ok_other hub_simps split: option.split)
  moreover have "count_ok x (arm key cb h)"
  proof -
    have "count_ok x h" using assms by (simp add: hub_ok_def)
    then show ?thesis using x
      by (cases "ks_pending (hu_objs h ! x)"; cases "ks_fired (hu_objs h ! x)")
        (simp_all add: arm_eq Some Let_def count_defs hub_simps)
  qed
  ultimately show ?thesis using r by (metis hub_ok_def)
qed (use assms in \<open>simp add: arm_def\<close>)

lemma hub_ok_deliver:
  assumes "hub_ok h" "x < length (hu_objs h)"
  shows "hub_ok (deliver x f h)"
proof -
  have r: "refs_ok (deliver x f h)" "reads_ok (deliver x f h)"
    using assms by (simp_all add: deliver_eq hub_ok_def reads_ok_set_obj split: option.split)
  have "count_ok y (deliver x f h)" if y: "y \<noteq> x" for y
    using assms y by (simp add: deliver_eq hub_ok_def count_ok_other hub_simps split: option.split)
  moreover have "count_ok x (deliver x f h)"
  proof -
    have "count_ok x h" using assms by (simp add: hub_ok_def)
    then show ?thesis using assms(2)
      by (cases "ks_fired (hu_objs h ! x)"; cases "ks_cb (hu_objs h ! x)"; cases "ks_pending (hu_objs h ! x)")
        (simp_all add: deliver_eq count_defs hub_simps)
  qed
  ultimately show ?thesis using r by (metis hub_ok_def)
qed

lemma verify_eq:
  "verify x h =
     (if ks_fired (hu_objs h ! x) \<or> ks_stopIntent (hu_objs h ! x) then h
      else if ks_verifying (hu_objs h ! x) then set_obj x (\<lambda>s. s\<lparr>ks_recheck := True\<rparr>) h
      else (set_obj x (\<lambda>s. s\<lparr>ks_verifying := True, ks_recheck := False\<rparr>) h)
             \<lparr>hu_reads := hu_reads h @ [(x, hu_clock h)]\<rparr>)"
  by (simp add: verify_def begin_read_def Let_def set_obj_def)

lemma verifying_fields [simp]:
  "verifying y (h\<lparr>hu_reads := r\<rparr>) = verifying y h" "verifying y (h\<lparr>hu_resyncs := c\<rparr>) = verifying y h"
  "verifying y (h\<lparr>hu_log := l\<rparr>) = verifying y h"
  by (simp_all add: verifying_def)

lemma verifying_set_obj_iff:
  "verifying y (set_obj x f h) \<longleftrightarrow>
     (if y = x then x < length (hu_objs h) \<and> ks_verifying (f (hu_objs h ! x)) else verifying y h)"
  by (cases "y < length (hu_objs h)") (auto simp: verifying_def hub_simps)

lemma hub_ok_verify:
  assumes "hub_ok h" "x < length (hu_objs h)"
  shows "hub_ok (verify x h)"
proof (cases "ks_fired (hu_objs h ! x) \<or> ks_stopIntent (hu_objs h ! x) \<or> ks_verifying (hu_objs h ! x)")
  case True
  then show ?thesis using assms by (auto simp: verify_eq hub_ok_set_obj)
next
  case False
  let ?h = "(set_obj x (\<lambda>s. s\<lparr>ks_verifying := True, ks_recheck := False\<rparr>) h)\<lparr>hu_reads := hu_reads h @ [(x, hu_clock h)]\<rparr>"
  have v: "verify x h = ?h" using False by (simp add: verify_eq)
  have "\<not> verifying x h" using False by (simp add: verifying_def)
  then have "reads_ok ?h"
    using assms by (auto simp: hub_ok_def reads_ok_def verifying_set_obj_iff)
  moreover have "refs_ok ?h" "\<forall>y. count_ok y ?h" using assms by (simp_all add: hub_ok_def count_ok_set_obj)
  ultimately show ?thesis by (simp add: v hub_ok_def)
qed

lemma refs_ok_resyncs:
  "refs_ok h \<Longrightarrow> (\<And>r. r \<in> set c \<Longrightarrow> \<exists>r' \<in> set (hu_resyncs h). set (rs_armed r) \<subseteq> set (rs_armed r')) \<Longrightarrow>
   refs_ok (h\<lparr>hu_resyncs := c\<rparr>)"
  by (fastforce simp: refs_ok_def)

text \<open>The answer of a read: the read is over, and either the check is or the next read begins.\<close>

lemma hub_ok_end_read:
  assumes "hub_ok h" "x \<in> fst ` set (hu_reads h)"
  shows "hub_ok (end_verify x (h\<lparr>hu_reads := filter (\<lambda>r. fst r \<noteq> x) (hu_reads h)\<rparr>))"
proof -
  let ?h = "end_verify x (h\<lparr>hu_reads := filter (\<lambda>r. fst r \<noteq> x) (hu_reads h)\<rparr>)"
  have "reads_ok ?h"
    using assms
    by (auto simp: hub_ok_def reads_ok_def end_verify_def hub_simps verifying_set_obj_iff distinct_map_filter)
  moreover have "refs_ok ?h"
    unfolding end_verify_def by (rule refs_ok_resyncs) (use assms in \<open>auto simp: hub_ok_def hub_simps\<close>)
  moreover have "\<forall>y. count_ok y ?h" using assms by (simp add: hub_ok_def end_verify_def count_ok_set_obj)
  ultimately show ?thesis by (simp add: hub_ok_def)
qed

lemma hub_ok_next_read:
  assumes "hub_ok h" "x \<in> fst ` set (hu_reads h)"
  shows "hub_ok (begin_read x (h\<lparr>hu_reads := filter (\<lambda>r. fst r \<noteq> x) (hu_reads h)\<rparr>))"
proof -
  let ?h = "begin_read x (h\<lparr>hu_reads := filter (\<lambda>r. fst r \<noteq> x) (hu_reads h)\<rparr>)"
  have "verifying y ?h = verifying y h" for y by (simp add: begin_read_def verifying_set_obj)
  moreover have "fst ` set (hu_reads ?h) = fst ` set (hu_reads h)" using assms(2) by (auto simp: begin_read_def hub_simps)
  moreover have "distinct (map fst (hu_reads ?h))"
    using assms by (auto simp: hub_ok_def reads_ok_def begin_read_def hub_simps distinct_map_filter)
  ultimately have "reads_ok ?h" using assms by (simp add: hub_ok_def reads_ok_def)
  moreover have "refs_ok ?h" "\<forall>y. count_ok y ?h"
    using assms by (simp_all add: hub_ok_def begin_read_def count_ok_set_obj)
  ultimately show ?thesis by (simp add: hub_ok_def)
qed

text \<open>Delivering does not depend on the reads, so it can be moved before the end of the read.\<close>

lemma deliver_reads: "deliver x f (h\<lparr>hu_reads := r\<rparr>) = (deliver x f h)\<lparr>hu_reads := r\<rparr>"
  by (simp add: deliver_eq set_obj_def split: option.split)

lemma deliver_hu_reads [simp]: "hu_reads (deliver x f h) = hu_reads h"
  by (simp add: deliver_eq hub_simps split: option.split)

lemma hub_ok_read_done:
  assumes "hub_ok h" "x \<in> fst ` set (hu_reads h)"
  shows "hub_ok (read_done x answer h)"
proof -
  have x: "x < length (hu_objs h)" using assms by (auto simp: hub_ok_def reads_ok_def verifying_def)
  have d: "hub_ok (end_verify x (deliver x f (h\<lparr>hu_reads := filter (\<lambda>r. fst r \<noteq> x) (hu_reads h)\<rparr>)))" for f
    using hub_ok_end_read [OF hub_ok_deliver [OF assms(1) x, of f]] assms(2) by (simp add: deliver_reads)
  show ?thesis
    using d hub_ok_end_read [OF assms] hub_ok_next_read [OF assms]
    by (simp add: read_done_def continue_verify_def Let_def split: option.split runtime_status.split)
qed

lemma hub_ok_resync:
  assumes "hub_ok h"
  shows "hub_ok (resync install h)"
proof -
  have "\<forall>x \<in> set (armed_states install h). x < length (hu_objs h)"
    using assms by (auto simp: armed_states_def hub_ok_def refs_ok_def)
  then show ?thesis using assms by (auto simp: resync_def Let_def hub_ok_def refs_ok_def)
qed

lemma set_resync_ok:
  assumes "hub_ok h" "i < length (hu_resyncs h)" "set (rs_armed r) \<subseteq> set (rs_armed (hu_resyncs h ! i))"
  shows "hub_ok (set_resync i r h)"
proof -
  have "refs_ok (set_resync i r h)"
    unfolding set_resync_def
  proof (rule refs_ok_resyncs)
    fix r' assume "r' \<in> set ((hu_resyncs h)[i := r])"
    then have "r' = r \<or> r' \<in> set (hu_resyncs h)" using set_update_subset_insert by fastforce
    then show "\<exists>r'' \<in> set (hu_resyncs h). set (rs_armed r') \<subseteq> set (rs_armed r'')"
      using assms(2,3) nth_mem by blast
  qed (use assms(1) in \<open>simp add: hub_ok_def\<close>)
  then show ?thesis using assms(1) by (simp add: hub_ok_def set_resync_def)
qed

lemma hub_ok_resync_next:
  assumes "hub_ok h"
  shows "hub_ok (resync_next i h)"
proof (cases "i < length (hu_resyncs h) \<and> rs_snapshots (hu_resyncs h ! i) \<noteq> None \<and> rs_armed (hu_resyncs h ! i) \<noteq> [] \<and>
              rs_waiting (hu_resyncs h ! i) = None")
  case True
  let ?r = "hu_resyncs h ! i"
  from True obtain snaps x xs where r: "rs_snapshots ?r = Some snaps" "rs_armed ?r = x # xs" "rs_waiting ?r = None"
    "i < length (hu_resyncs h)" by (auto simp: neq_Nil_conv)
  from nth_mem [OF r(4)] r(2) assms have x: "x < length (hu_objs h)"
    unfolding hub_ok_def refs_ok_def by fastforce
  have ok: "hub_ok (set_resync i (?r\<lparr>rs_armed := xs, rs_waiting := w\<rparr>) h)" for w
    by (rule set_resync_ok [OF assms]) (use r in auto)
  have len: "length (hu_objs (set_resync i r' h)) = length (hu_objs h)" for r' by (simp add: set_resync_def)
  show ?thesis
    using r x ok hub_ok_deliver [OF ok] hub_ok_verify [OF ok] len
    by (simp add: resync_next_def Let_def resync_one_def split: option.split)
qed (use assms in \<open>auto simp: resync_next_def Let_def split: option.split list.split\<close>)

lemma hub_ok_step: "hub_ok h \<Longrightarrow> hub_ok (hub_step e h)"
proof -
  assume h: "hub_ok h"
  have "hub_ok (hub_act e h)"
  proof (cases e)
    case (Hint key kind)
    have "x < length (hu_objs h)" if "state_of key h = Some x" for x
      using state_of_less that h by (simp add: hub_ok_def)
    then show ?thesis using h hub_ok_verify by (simp add: Hint onEvent_def split: option.split)
  next
    case (Listed i snaps)
    then show ?thesis using h by (simp add: resync_listed_def set_resync_ok)
  next
    case Microtask
    have "count_ok y (run_microtask h)" for y
    proof -
      have "count_ok y h" using h by (simp add: hub_ok_def)
      then show ?thesis
        by (cases "hu_micro h") (auto simp: run_microtask_def call_back_def count_defs split: if_splits)
    qed
    then show ?thesis using h
      by (simp add: Microtask hub_ok_def run_microtask_def call_back_def split: list.split)
  qed (use h in \<open>simp_all add: hub_ok_prepared hub_ok_listed hub_ok_arm hub_ok_stop hub_ok_read_done hub_ok_resync hub_ok_resync_next\<close>)
  then show ?thesis by (simp add: hub_step_def Let_def hub_ok_def)
qed

lemma hub_run_simps [simp]: "hub_run [] h = h" "hub_run (e # es) h = hub_run es (hub_step e h)"
  by (simp_all add: hub_run_def)

lemma hub_ok_run: "hub_ok h \<Longrightarrow> hub_ok (hub_run es h)"
  by (induction es arbitrary: h) (auto intro: hub_ok_step)

lemma hub_ok_empty: "hub_ok empty_hub"
  by (simp add: hub_ok_def refs_ok_def reads_ok_def verifying_def count_defs empty_hub_def)

text \<open>An object whose session the host has stopped stays silent.\<close>

definition silent :: "nat \<Rightarrow> hub \<Rightarrow> bool" where
  "silent x h \<longleftrightarrow> x < length (hu_objs h) \<and> ks_stopIntent (hu_objs h ! x) \<and> \<not> ks_fired (hu_objs h ! x)"

lemma silent_set_obj:
  assumes "silent x h" "\<And>s. ks_stopIntent s \<Longrightarrow> ks_stopIntent (f s)" "\<And>s. \<not> ks_fired s \<Longrightarrow> \<not> ks_fired (f s)"
  shows "silent x (set_obj y f h)"
  using assms by (auto simp: silent_def hub_simps)

lemma silent_fields [simp]:
  "silent x (h\<lparr>hu_watches := v\<rparr>) = silent x h" "silent x (h\<lparr>hu_clock := n\<rparr>) = silent x h"
  "silent x (h\<lparr>hu_log := l\<rparr>) = silent x h" "silent x (h\<lparr>hu_micro := m\<rparr>) = silent x h"
  "silent x (h\<lparr>hu_reads := r\<rparr>) = silent x h" "silent x (h\<lparr>hu_resyncs := c\<rparr>) = silent x h"
  "silent x (ensureWatch i h) = silent x h"
  by (simp_all add: silent_def ensureWatch_def)

lemma silent_deliver: "silent x h \<Longrightarrow> silent x (deliver y f h)"
  by (cases "x = y") (auto simp: deliver_eq silent_def hub_simps split: option.split)

lemma silent_verify: "silent x h \<Longrightarrow> silent x (verify y h)"
  by (simp add: verify_eq silent_set_obj)

lemma silent_read_done: "silent x h \<Longrightarrow> silent x (read_done y a h)"
  by (auto simp: read_done_def continue_verify_def end_verify_def begin_read_def Let_def silent_set_obj silent_deliver
        split: option.split runtime_status.split)

lemma silent_step: "silent x h \<Longrightarrow> silent x (hub_step e h)"
proof -
  assume h: "silent x h"
  have p: "silent x (trackPrepared key handle h)" for key handle
    using h by (simp add: silent_def trackPrepared_def nth_append)
  have "silent x (hub_act e h)"
  proof (cases e)
    case (List key handle)
    then show ?thesis using h p by (simp add: trackListed_def silent_set_obj split: option.split)
  next
    case (OnTerminal key cb)
    then show ?thesis using h by (simp add: arm_eq Let_def silent_set_obj split: option.split)
  next
    case (ResyncNext i)
    then show ?thesis using h
      by (auto simp: resync_next_def resync_one_def set_resync_def Let_def silent_deliver silent_verify
            split: option.split list.split)
  qed (use h p in \<open>auto simp: markStopIntent_def onEvent_def resync_def resync_listed_def set_resync_def run_microtask_def
         call_back_def Let_def silent_set_obj silent_verify silent_read_done split: option.split list.split\<close>)
  then show ?thesis by (simp add: hub_step_def Let_def)
qed

lemma silent_run: "silent x h \<Longrightarrow> silent x (hub_run es h)"
  by (induction es arbitrary: h) (auto intro: silent_step)

subsection \<open>Properties\<close>

text \<open>
  C16. For every incarnation of a session the terminal callback is called at most once, in any order of
  hints, answers, resyncs and registrations; and not at all once the host has asked for the session to
  be stopped, unless its end had been confirmed before that.
\<close>

theorem terminal_once_and_not_after_stop:
  assumes "h = hub_run es empty_hub"
  shows "calls x h \<le> 1 \<and>
         (state_of key h = Some x \<and> \<not> fired x h \<longrightarrow> calls x (hub_run es' (hub_step (Stop key) h)) = 0)"
proof -
  have ok: "hub_ok h" unfolding assms by (rule hub_ok_run [OF hub_ok_empty])
  then have "count_ok x h" by (simp add: hub_ok_def)
  then have "calls x h \<le> 1" by (simp add: count_ok_def split: if_splits)
  moreover have "calls x (hub_run es' (hub_step (Stop key) h)) = 0" if "state_of key h = Some x" "\<not> fired x h"
  proof -
    have x: "x < length (hu_objs h)" using ok that(1) state_of_less by (simp add: hub_ok_def)
    have "silent x (hub_step (Stop key) h)"
      using that x by (simp add: hub_step_def markStopIntent_def Let_def silent_def fired_def hub_simps)
    from silent_run [OF this] have "\<not> fired x (hub_run es' (hub_step (Stop key) h))"
      by (simp add: silent_def fired_def)
    moreover have "count_ok x (hub_run es' (hub_step (Stop key) h))"
      using hub_ok_run [OF hub_ok_step [OF ok]] by (simp add: hub_ok_def)
    ultimately show ?thesis by (simp add: count_ok_def)
  qed
  ultimately show ?thesis by blast
qed

definition demo_key :: session_key where
  "demo_key = \<lparr>sk_installSlug = ''i'', sk_agentGroupId = ''a'', sk_sessionId = ''s''\<rparr>"

text \<open>Two hints and one end give one call; a stop before the answer gives none.\<close>

lemma terminal_once_and_not_after_stop_witness:
  "let h = hub_run [Prepare demo_key 0, OnTerminal demo_key 7, Hint demo_key EvTerminal, Hint demo_key EvTerminal] empty_hub
   in hu_log (hub_run [Answer 0 (Some StRunning), Answer 0 (Some StStopped), Hint demo_key EvTerminal] h) = [(0, 7, None)] \<and>
      state_of demo_key h = Some 0 \<and> \<not> fired 0 h \<and>
      calls 0 (hub_run [Answer 0 (Some StStopped)] (hub_step (Stop demo_key) h)) = 0"
proof -
  let ?h = "hub_run [Prepare demo_key 0, OnTerminal demo_key 7, Hint demo_key EvTerminal, Hint demo_key EvTerminal] empty_hub"
  have 1: "hu_log (hub_run [Answer 0 (Some StRunning), Answer 0 (Some StStopped), Hint demo_key EvTerminal] ?h) = [(0, 7, None)]"
    by code_simp
  have 2: "state_of demo_key ?h = Some 0 \<and> \<not> fired 0 ?h" by code_simp
  from terminal_once_and_not_after_stop [OF refl, THEN conjunct2, THEN mp, OF 2] 1 2
  show ?thesis unfolding Let_def by blast
qed

subsection \<open>No end is missed\<close>

text \<open>
  The end of \<open>x\<close> that a hint at step \<open>t\<close> told of is on its way: it has been acted on, or the check
  under way will read again, or reads since \<open>t\<close>.
\<close>

definition on_its_way :: "nat \<Rightarrow> nat \<Rightarrow> hub \<Rightarrow> bool" where
  "on_its_way x t h \<longleftrightarrow> x < length (hu_objs h) \<and>
     (ks_fired (hu_objs h ! x) \<or> ks_stopIntent (hu_objs h ! x) \<or>
      (ks_verifying (hu_objs h ! x) \<and> (ks_recheck (hu_objs h ! x) \<or> (\<exists>n \<ge> t. (x, n) \<in> set (hu_reads h)))))"

fun ended :: "runtime_status option \<Rightarrow> bool" where
  "ended (Some StStopped) = True"
| "ended (Some (StFailed f)) = True"
| "ended _ = False"

text \<open>The reads of \<open>x\<close> that were begun at \<open>t\<close> or later are answered, with the end.\<close>

fun answers_end :: "nat \<Rightarrow> nat \<Rightarrow> hub_event list \<Rightarrow> hub \<Rightarrow> bool" where
  "answers_end x t [] h = True"
| "answers_end x t (e # es) h =
     ((case e of Answer y a \<Rightarrow> y \<noteq> x \<or> ended a \<or> list_all (\<lambda>r. fst r \<noteq> x \<or> snd r < t) (hu_reads h) | _ \<Rightarrow> True) \<and>
      answers_end x t es (hub_step e h))"

lemma on_its_way_same:
  assumes "on_its_way x t h" "\<And>s. ks_fired s \<Longrightarrow> ks_fired (f s)" "\<And>s. ks_stopIntent s \<Longrightarrow> ks_stopIntent (f s)"
    "\<And>s. ks_verifying s \<Longrightarrow> ks_verifying (f s)" "\<And>s. ks_recheck s \<Longrightarrow> ks_recheck (f s)"
  shows "on_its_way x t (set_obj y f h)"
  using assms by (auto simp: on_its_way_def hub_simps)

lemma on_its_way_fields [simp]:
  "on_its_way x t (h\<lparr>hu_watches := v\<rparr>) = on_its_way x t h" "on_its_way x t (h\<lparr>hu_clock := n\<rparr>) = on_its_way x t h"
  "on_its_way x t (h\<lparr>hu_log := l\<rparr>) = on_its_way x t h" "on_its_way x t (h\<lparr>hu_micro := m\<rparr>) = on_its_way x t h"
  "on_its_way x t (h\<lparr>hu_resyncs := c\<rparr>) = on_its_way x t h" "on_its_way x t (ensureWatch i h) = on_its_way x t h"
  by (simp_all add: on_its_way_def ensureWatch_def)

lemma on_its_way_reads: "on_its_way x t h \<Longrightarrow> set (hu_reads h) \<subseteq> set r \<Longrightarrow> on_its_way x t (h\<lparr>hu_reads := r\<rparr>)"
  by (auto simp: on_its_way_def)

lemma on_its_way_other: "y \<noteq> x \<Longrightarrow> on_its_way x t (set_obj y f h) = on_its_way x t h"
  by (auto simp: on_its_way_def hub_simps)

lemma on_its_way_deliver: "on_its_way x t h \<Longrightarrow> on_its_way x t (deliver y f h)"
  by (auto simp: deliver_eq on_its_way_same split: option.split)

lemma on_its_way_verify:
  assumes "on_its_way x t h"
  shows "on_its_way x t (verify y h)"
proof (cases "y = x")
  case True
  with assms show ?thesis by (auto simp: verify_eq on_its_way_def hub_simps)
next
  case False
  then show ?thesis using assms by (auto simp: verify_eq on_its_way_other hub_simps intro!: on_its_way_reads)
qed

text \<open>A terminal hint puts the end on its way.\<close>

lemma hint_on_its_way:
  assumes "refs_ok h" "state_of key h = Some x"
  shows "on_its_way x (hu_clock h) (hub_step (Hint key EvTerminal) h)"
proof -
  have "x < length (hu_objs h)" by (rule state_of_less [OF assms])
  then show ?thesis
    by (auto simp: hub_step_def onEvent_def assms(2) Let_def verify_eq on_its_way_def hub_simps)
qed

lemma on_its_way_read_done:
  assumes "hub_ok h" "on_its_way x t h" "y \<in> fst ` set (hu_reads h)" "t \<le> hu_clock h"
    "y \<noteq> x \<or> ended a \<or> list_all (\<lambda>r. fst r \<noteq> x \<or> snd r < t) (hu_reads h)"
  shows "on_its_way x t (read_done y a h)"
proof -
  let ?h = "h\<lparr>hu_reads := filter (\<lambda>r. fst r \<noteq> y) (hu_reads h)\<rparr>"
  have y: "y < length (hu_objs h)" using assms(1,3) by (auto simp: hub_ok_def reads_ok_def verifying_def)
  show ?thesis
  proof (cases "y = x")
    case False
    have h: "on_its_way x t ?h" using assms(2) False by (auto simp: on_its_way_def)
    note other = on_its_way_other [OF False]
    have r: "on_its_way x t (begin_read y ?h)"
      unfolding begin_read_def by (rule on_its_way_reads) (use h in \<open>auto simp: other hub_simps\<close>)
    show ?thesis using h r on_its_way_deliver
      by (auto simp: read_done_def continue_verify_def end_verify_def Let_def other split: option.split runtime_status.split)
  next
    case True
    have fired: "ks_fired (hu_objs (deliver x f ?h) ! x) \<or> ks_stopIntent (hu_objs (deliver x f ?h) ! x)" for f
      using y True by (auto simp: deliver_eq hub_simps split: option.split)
    have len: "length (hu_objs (deliver x f h')) = length (hu_objs h')" for f h'
      by (simp add: deliver_eq hub_simps split: option.split)
    have d: "on_its_way x t (end_verify x (deliver x f ?h))" for f
      using fired y True by (auto simp: end_verify_def on_its_way_def hub_simps len)
    show ?thesis
    proof (cases "ended a")
      case True
      then show ?thesis using d \<open>y = x\<close> by (cases a rule: ended.cases) (simp_all add: read_done_def)
    next
      case False
      then have old: "\<forall>n. (x, n) \<in> set (hu_reads h) \<longrightarrow> n < t" using assms(5) True by (auto simp: list_all_iff)
      from False have "read_done x a h = continue_verify x ?h"
        using True by (cases a rule: ended.cases) (simp_all add: read_done_def)
      then show ?thesis using assms(2,4) old True y
        by (auto simp: continue_verify_def Let_def on_its_way_def begin_read_def end_verify_def hub_simps)
    qed
  qed
qed

lemma clock_step: "hu_clock (hub_step e h) = Suc (hu_clock h)"
proof -
  have v: "hu_clock (verify x h) = hu_clock h" and d: "hu_clock (deliver x f h) = hu_clock h" for x f h
    by (simp_all add: verify_eq deliver_eq hub_simps split: option.split)
  have "hu_clock (hub_act e h) = hu_clock h"
  proof (cases e)
    case (ResyncNext i)
    then show ?thesis
      by (auto simp: resync_next_def resync_one_def set_resync_def Let_def v d split: option.split list.split)
  qed (auto simp: trackPrepared_def trackListed_def arm_eq ensureWatch_def markStopIntent_def onEvent_def read_done_def
        continue_verify_def end_verify_def begin_read_def resync_def resync_listed_def set_resync_def run_microtask_def
        call_back_def Let_def hub_simps v d split: option.split list.split runtime_status.split)
  then show ?thesis by (simp add: hub_step_def Let_def)
qed

lemma on_its_way_step:
  assumes h: "hub_ok h" "on_its_way x t h" "t \<le> hu_clock h" and a: "answers_end x t [e] h"
  shows "on_its_way x t (hub_step e h)"
proof -
  have p: "on_its_way x t (trackPrepared key handle h)" for key handle
    using h(2) by (simp add: on_its_way_def trackPrepared_def nth_append)
  have "on_its_way x t (hub_act e h)"
  proof (cases e)
    case (Answer y ans)
    then show ?thesis using on_its_way_read_done [OF h(1,2) _ h(3), of y ans] h(2) a by simp
  next
    case (OnTerminal key cb)
    then show ?thesis using h(2) by (simp add: arm_eq Let_def on_its_way_same split: option.split)
  next
    case (ResyncNext i)
    then show ?thesis using h(2)
      by (auto simp: resync_next_def resync_one_def set_resync_def Let_def on_its_way_deliver on_its_way_verify
            split: option.split list.split)
  qed (use h(2) p in \<open>auto simp: trackListed_def markStopIntent_def onEvent_def resync_def resync_listed_def set_resync_def
         run_microtask_def call_back_def Let_def on_its_way_same on_its_way_verify split: option.split list.split\<close>)
  then show ?thesis by (simp add: hub_step_def Let_def)
qed

lemma on_its_way_run:
  "hub_ok h \<Longrightarrow> on_its_way x t h \<Longrightarrow> t \<le> hu_clock h \<Longrightarrow> answers_end x t es h \<Longrightarrow> on_its_way x t (hub_run es h)"
proof (induction es arbitrary: h)
  case (Cons e es)
  then have "on_its_way x t (hub_step e h)" by (intro on_its_way_step) auto
  then show ?case using Cons by (simp add: hub_ok_step clock_step)
qed simp

text \<open>
  C18. A terminal hint is not lost, also when it arrives while a truth read that may have seen an older
  state is in flight: if the reads of the session begun since the hint are answered with its end, then
  once no read of it is in flight any more the host has been told exactly once (by a call, a queued
  call, or the end kept for the callback that is still to be registered), or has stopped the session itself.
\<close>

theorem terminal_hint_not_lost:
  assumes "h = hub_run es empty_hub" "state_of key h = Some x"
    and "answers_end x (hu_clock h) es' (hub_step (Hint key EvTerminal) h)"
    and "h' = hub_run es' (hub_step (Hint key EvTerminal) h)" "x \<notin> fst ` set (hu_reads h')"
  shows "ks_stopIntent (hu_objs h' ! x) \<or> calls x h' + queued x h' + kept_back x h' = 1"
proof -
  have ok: "hub_ok h" unfolding assms(1) by (rule hub_ok_run [OF hub_ok_empty])
  then have "on_its_way x (hu_clock h) (hub_step (Hint key EvTerminal) h)"
    using hint_on_its_way [OF _ assms(2)] by (simp add: hub_ok_def)
  from on_its_way_run [OF hub_ok_step [OF ok] this _ assms(3)]
  have way: "on_its_way x (hu_clock h) h'" by (simp add: clock_step assms(4))
  have ok': "hub_ok h'" unfolding assms(4) by (rule hub_ok_run [OF hub_ok_step [OF ok]])
  then have "\<not> verifying x h'" using assms(5) by (simp add: hub_ok_def reads_ok_def)
  with way have "ks_stopIntent (hu_objs h' ! x) \<or> fired x h'" by (auto simp: on_its_way_def verifying_def fired_def)
  moreover have "count_ok x h'" using ok' by (simp add: hub_ok_def)
  ultimately show ?thesis by (auto simp: count_ok_def)
qed

text \<open>The second hint comes while a read is out that still says running; the read it queues finds the end.\<close>

lemma terminal_hint_not_lost_witness:
  "let h = hub_run [Prepare demo_key 0, OnTerminal demo_key 7, Hint demo_key EvTerminal] empty_hub;
       h' = hub_run [Answer 0 (Some StRunning), Answer 0 (Some (StFailed RuntimeUnavailable))] (hub_step (Hint demo_key EvTerminal) h)
   in hu_log h' = [(0, 7, Some RuntimeUnavailable)] \<and> calls 0 h' + queued 0 h' + kept_back 0 h' = 1"
proof -
  let ?h = "hub_run [Prepare demo_key 0, OnTerminal demo_key 7, Hint demo_key EvTerminal] empty_hub"
  let ?es = "[Answer 0 (Some StRunning), Answer 0 (Some (StFailed RuntimeUnavailable))]"
  let ?h' = "hub_run ?es (hub_step (Hint demo_key EvTerminal) ?h)"
  have 1: "state_of demo_key ?h = Some 0" by code_simp
  have 2: "answers_end 0 (hu_clock ?h) ?es (hub_step (Hint demo_key EvTerminal) ?h)" by code_simp
  have 3: "0 \<notin> fst ` set (hu_reads ?h')" by code_simp
  have 4: "\<not> ks_stopIntent (hu_objs ?h' ! 0)" by code_simp
  have 5: "hu_log ?h' = [(0, 7, Some RuntimeUnavailable)]" by code_simp
  from terminal_hint_not_lost [OF refl 1 2 refl 3] 4 5 show ?thesis unfolding Let_def by blast
qed

end
