(* ===== verification/Recurrence.thy ===== *)
theory Recurrence
  imports HostState RunLog
begin

text \<open>
  Recurring tasks (\<open>src/modules/scheduling/recurrence.ts\<close>): after each run of a series the sweep puts the
  next occurrence in the mailbox and takes the recurrence off the row of the run.  \<open>cron-parser\<close>, which
  reads a cron expression and gives the next time after now, is a parameter.
\<close>

definition SCRIPT_FAIL_PAUSE_CAP :: nat where "SCRIPT_FAIL_PAUSE_CAP = 8"
definition SCRIPT_BACKOFF_CAP_MIN :: nat where "SCRIPT_BACKOFF_CAP_MIN = 60"

definition scriptBackoffMinutes :: "nat \<Rightarrow> nat" where
  "scriptBackoffMinutes fails = min (2 * 2 ^ (fails - 1)) SCRIPT_BACKOFF_CAP_MIN"

record recur_env =
  re_sess :: sess_env
  re_cron :: "string \<Rightarrow> string \<Rightarrow> int res"
  re_tz :: "string \<Rightarrow> string"
  re_dir :: "string \<Rightarrow> ino option"
  re_stamp :: string

definition re_now :: "recur_env \<Rightarrow> int" where
  "re_now R = ck_now (se_clock (re_sess R))"

definition appendHostTaskNote :: "recur_env \<Rightarrow> string \<Rightarrow> string \<Rightarrow> string \<Rightarrow> (host_db, unit) sm" where
  "appendHostTaskNote R ag series note =
     io_catch
       (io_bind (io_get hd_agents) (\<lambda>groups.
          on_world (appendRunLog (se_container (re_sess R)) (re_dir R) (re_stamp R) groups ag series note)))
       (\<lambda>_. io_return ())"

definition pause_note :: "nat \<Rightarrow> string \<Rightarrow> string" where
  "pause_note fails series =
     ''auto-paused after '' @ nat_str fails @ '' consecutive script failures (host); fix the script, then `ncl tasks resume ''
       @ series @ ''`''"

text \<open>The streak of failed runs; a row without a series has none.\<close>

definition script_fails :: "string option \<Rightarrow> mailbox \<Rightarrow> nat" where
  "script_fails series mb = (case series of None \<Rightarrow> 0 | Some t \<Rightarrow> trailingFailedRuns t mb)"

definition backoff_at :: "int \<Rightarrow> nat \<Rightarrow> int" where
  "backoff_at now fails = (if 0 < fails then now + int (scriptBackoffMinutes fails) * 60000 else 0)"

text \<open>The next occurrence: the task that is written for it.\<close>

definition next_task :: "recur_env \<Rightarrow> string \<Rightarrow> int \<Rightarrow> nat \<Rightarrow> inbound_record \<Rightarrow> js" where
  "next_task R newId cronNext fails r =
     (if SCRIPT_FAIL_PAUSE_CAP \<le> fails
      then task_js newId (ir_seriesId r) (Some (toISOString cronNext)) (ir_recurrence r) (ir_content r) MsgPaused
      else JObj [(''id'', JStr newId), (''seriesId'', null_str (ir_seriesId r)),
                 (''processAfter'', JStr (toISOString (max cronNext (backoff_at (re_now R) fails)))),
                 (''recurrence'', null_str (ir_recurrence r)), (''content'', JStr (ir_content r))])"

text \<open>Both writes of an occurrence on the mailbox, the insert first.\<close>

definition rearm :: "recur_env \<Rightarrow> string \<Rightarrow> int \<Rightarrow> inbound_record \<Rightarrow> (mailbox, nat) sm" where
  "rearm R newId cronNext r =
     io_bind (io_get (script_fails (ir_seriesId r))) (\<lambda>fails.
     io_bind (throwing (inbound_insertTask (se_clock (re_sess R)) (next_task R newId cronNext fails r))) (\<lambda>_.
     io_bind (io_modify (clearRecurrence (ir_id r))) (\<lambda>_. io_return fails)))"

definition recur_one :: "recur_env \<Rightarrow> string \<Rightarrow> string \<Rightarrow> string \<Rightarrow> inbound_record \<Rightarrow> (host_db, unit) sm" where
  "recur_one R ag sid tz r =
     (case re_cron R (case ir_recurrence r of Some c \<Rightarrow> c | None \<Rightarrow> []) tz of
        Inl e \<Rightarrow> io_throw e
      | Inr cronNext \<Rightarrow>
          io_bind draw (\<lambda>tok.
          io_bind (withMailboxSession ag sid (rearm R (''task-'' @ int_str (re_now R) @ ''-'' @ tok) cronNext r)) (\<lambda>fails.
            if SCRIPT_FAIL_PAUSE_CAP \<le> fails
            then (case ir_seriesId r of
                    Some series \<Rightarrow> appendHostTaskNote R ag series (pause_note fails series)
                  | None \<Rightarrow> io_return ())
            else io_return ())))"

fun recur_loop :: "recur_env \<Rightarrow> string \<Rightarrow> string \<Rightarrow> string \<Rightarrow> inbound_record list \<Rightarrow> (host_db, unit) sm" where
  "recur_loop R ag sid tz [] = io_return ()"
| "recur_loop R ag sid tz (r # rs) =
     io_bind (io_catch (recur_one R ag sid tz r) (\<lambda>_. io_return ())) (\<lambda>_. recur_loop R ag sid tz rs)"

definition handleRecurrence :: "recur_env \<Rightarrow> string \<Rightarrow> string \<Rightarrow> (host_db, unit) sm" where
  "handleRecurrence R ag sid =
     io_bind (io_get (\<lambda>s. getCompletedRecurring (mailbox_of ag sid s))) (\<lambda>recurring.
       recur_loop R ag sid (re_tz R ag) recurring)"

subsection \<open>A series keeps exactly one armed row\<close>

text \<open>The rows of a series that carry its recurrence.\<close>

definition armed :: "string option \<Rightarrow> mailbox \<Rightarrow> nat" where
  "armed series mb = length (filter (\<lambda>r. ir_seriesId r = series \<and> ir_recurrence r \<noteq> None) (mb_in mb))"

definition ids_ok :: "mailbox \<Rightarrow> bool" where
  "ids_ok mb \<longleftrightarrow> distinct (map ir_id (mb_in mb))"

lemma JStr_null_str: "JStr a = null_str y \<longleftrightarrow> y = Some a" "null_str y = JStr a \<longleftrightarrow> y = Some a"
  by (auto simp: null_str_def split: option.splits)

lemma parseTaskWrite_fields:
  assumes "parseTaskWrite (JObj ps) = Inr w"
  shows "own ps ''id'' = JStr (tw_id w)" "own ps ''seriesId'' = JStr (tw_seriesId w)"
    "own ps ''recurrence'' = null_str (tw_recurrence w)"
  using assms by (auto simp only: parseTaskWrite_def bnd_Inr strictRecord_iff text_of_iff nullableText_iff
      nullableTimestamp_iff task_write.simps js.inject sum.inject)

lemma next_task_row:
  assumes "createTaskInboundRecord (next_task R newId cronNext fails r) sequence ts = Inr n"
  shows "ir_id n = newId" "ir_seriesId n = ir_seriesId r" "ir_recurrence n = ir_recurrence r"
proof -
  from assms obtain w where w: "parseTaskWrite (next_task R newId cronNext fails r) = Inr w"
    and n: "ir_id n = tw_id w" "ir_seriesId n = Some (tw_seriesId w)" "ir_recurrence n = tw_recurrence w"
    by (auto simp: createTaskInboundRecord_def bnd_Inr parseInboundRecord_iff fields_in_def JStr_null_str)
  obtain ps where ps: "next_task R newId cronNext fails r = JObj ps" "own ps ''id'' = JStr newId"
      "own ps ''seriesId'' = null_str (ir_seriesId r)" "own ps ''recurrence'' = null_str (ir_recurrence r)"
    by (cases "SCRIPT_FAIL_PAUSE_CAP \<le> fails") (simp_all add: next_task_def task_js_def)
  from parseTaskWrite_fields [OF w [unfolded ps(1)]] ps(2-)
  have "tw_id w = newId" "Some (tw_seriesId w) = ir_seriesId r" "tw_recurrence w = ir_recurrence r"
    by (auto simp: JStr_null_str null_str_inject)
  with n show "ir_id n = newId" "ir_seriesId n = ir_seriesId r" "ir_recurrence n = ir_recurrence r"
    by simp_all
qed

lemma insert_next:
  assumes "throwing (inbound_insertTask ck (next_task R newId cronNext fails r)) mb = (x, mb')"
  shows "x = Inr () \<Longrightarrow> \<exists>n. mb_in mb' = mb_in mb @ [n] \<and> ir_id n \<notin> ir_id ` set (mb_in mb) \<and>
           ir_seriesId n = ir_seriesId r \<and> ir_recurrence n = ir_recurrence r"
    and "x = Inl e \<Longrightarrow> mb_in mb' = mb_in mb"
  using assms next_task_row [of R newId cronNext fails r]
  by (auto simp: throwing_def inbound_insertTask_def nextHostSeq_def keep_claim_def insertTaskRow_def bnd_def
      insert_in_def Let_def split: option.splits sum.splits if_splits)

lemma armed_append: "mb_in mb' = mb_in mb @ [n] \<Longrightarrow>
    armed t mb' = armed t mb + (if ir_seriesId n = t \<and> ir_recurrence n \<noteq> None then 1 else 0)"
  by (simp add: armed_def)

lemma clearRecurrence_id: "ids_ok (clearRecurrence i mb) = ids_ok mb"
  by (simp add: ids_ok_def clearRecurrence_def on_in_def map_update_where)

lemma clearRecurrence_other: "x \<in> set (mb_in mb) \<Longrightarrow> ir_id x \<noteq> i \<Longrightarrow> x \<in> set (mb_in (clearRecurrence i mb))"
  by (auto simp: clearRecurrence_def on_in_def set_update_where image_iff intro!: bexI [of _ x])

lemma armed_update:
  assumes "distinct (map ir_id rows)" "r \<in> set rows" "ir_recurrence r \<noteq> None"
  shows "length (filter (\<lambda>x. ir_seriesId x = t \<and> ir_recurrence x \<noteq> None) rows) =
         length (filter (\<lambda>x. ir_seriesId x = t \<and> ir_recurrence x \<noteq> None)
           (update_where (\<lambda>x. ir_id x = ir_id r) (\<lambda>x. x\<lparr>ir_recurrence := None\<rparr>) rows)) +
         (if ir_seriesId r = t then 1 else 0)"
  using assms
proof (induction rows)
  case (Cons y ys)
  show ?case
  proof (cases "y = r")
    case True
    with Cons.prems have "\<forall>x \<in> set ys. ir_id x \<noteq> ir_id r" by (auto simp: image_iff)
    then show ?thesis using True Cons.prems by (simp add: update_where_Cons update_where_id)
  next
    case False
    with Cons.prems have "ir_id y \<noteq> ir_id r" by (auto simp: image_iff)
    then show ?thesis using False Cons by (simp add: update_where_Cons)
  qed
qed simp

lemma armed_clear:
  assumes "ids_ok mb" "r \<in> set (mb_in mb)" "ir_recurrence r \<noteq> None"
  shows "armed t mb = armed t (clearRecurrence (ir_id r) mb) + (if ir_seriesId r = t then 1 else 0)"
  using armed_update [of "mb_in mb" r t] assms
  by (simp add: armed_def ids_ok_def clearRecurrence_def on_in_def)

text \<open>\<open>reaim r mb mb'\<close>: no series has lost or got an armed row, and of the rows at most \<open>r\<close> was changed.\<close>

definition reaim :: "inbound_record \<Rightarrow> mailbox \<Rightarrow> mailbox \<Rightarrow> bool" where
  "reaim r mb mb' \<longleftrightarrow> ids_ok mb' \<and> (\<forall>t. armed t mb' = armed t mb) \<and> set (mb_in mb) - {r} \<subseteq> set (mb_in mb')"

lemma reaim_same: "ids_ok mb \<Longrightarrow> mb_in mb' = mb_in mb \<Longrightarrow> reaim r mb mb'"
  by (auto simp: reaim_def ids_ok_def armed_def)

lemma rearm_reaims:
  assumes "ids_ok mb" "r \<in> set (mb_in mb)" "ir_recurrence r \<noteq> None"
  shows "reaim r mb (snd (rearm R newId cronNext r mb))"
proof -
  obtain x mb' where ins: "throwing (inbound_insertTask (se_clock (re_sess R))
      (next_task R newId cronNext (script_fails (ir_seriesId r) mb) r)) mb = (x, mb')"
    by fastforce
  show ?thesis
  proof (cases x)
    case (Inl e)
    then have "mb_in mb' = mb_in mb" using insert_next(2) [OF ins] by simp
    then show ?thesis using ins Inl assms(1) by (simp add: rearm_def io_bind_Inl reaim_same)
  next
    case (Inr u)
    then obtain n where n: "mb_in mb' = mb_in mb @ [n]" "ir_id n \<notin> ir_id ` set (mb_in mb)"
        "ir_seriesId n = ir_seriesId r" "ir_recurrence n = ir_recurrence r"
      using insert_next(1) [OF ins] by auto
    from n assms have ok: "ids_ok mb'" "r \<in> set (mb_in mb')" by (auto simp: ids_ok_def)
    have "armed t (clearRecurrence (ir_id r) mb') = armed t mb" for t
      using armed_clear [OF ok assms(3), of t] armed_append [OF n(1), of t] n(3,4) assms(3)
      by (simp split: if_splits)
    moreover have "y \<in> set (mb_in (clearRecurrence (ir_id r) mb'))" if "y \<in> set (mb_in mb)" "y \<noteq> r" for y
      using that assms(1,2) n(1) by (intro clearRecurrence_other) (auto simp: ids_ok_def distinct_map inj_on_def)
    ultimately show ?thesis
      using ins Inr ok(1) by (auto simp: rearm_def io_bind_Inr reaim_def clearRecurrence_id io_return_def)
  qed
qed

lemma mailbox_of_with: "mailbox_of ag sid (snd (withMailboxSession ag sid act s)) = snd (act (mailbox_of ag sid s))"
  by (simp add: withMailboxSession_def mailbox_of_def set_mail_def split: prod.split)

lemma mailbox_of_touches: "touches {} s s' \<Longrightarrow> mailbox_of ag sid s' = mailbox_of ag sid s"
  by (simp add: touches_def mailbox_of_def)

lemma keeps_touches_hostNote: "keeps (touches {}) (appendHostTaskNote R ag series note)"
  unfolding appendHostTaskNote_def by (intro keeps_intros touches_rel)

lemma recur_one_mail:
  "mailbox_of ag sid (snd (recur_one R ag sid tz r s)) =
     (case re_cron R (case ir_recurrence r of Some c \<Rightarrow> c | None \<Rightarrow> []) tz of
        Inl e \<Rightarrow> mailbox_of ag sid s
      | Inr cronNext \<Rightarrow> snd (rearm R (''task-'' @ int_str (re_now R) @ ''-'' @ ss_token s (ss_drawn s)) cronNext r (mailbox_of ag sid s)))"
proof (cases "re_cron R (case ir_recurrence r of Some c \<Rightarrow> c | None \<Rightarrow> []) tz")
  case (Inl e)
  then show ?thesis by (simp add: recur_one_def io_throw_def)
next
  case (Inr cronNext)
  define act where "act = rearm R (''task-'' @ int_str (re_now R) @ ''-'' @ ss_token s (ss_drawn s)) cronNext r"
  define s1 where "s1 = snd (draw s)"
  define k where "k = (\<lambda>fails. if SCRIPT_FAIL_PAUSE_CAP \<le> fails
            then (case ir_seriesId r of
                    Some series \<Rightarrow> appendHostTaskNote R ag series (pause_note fails series)
                  | None \<Rightarrow> io_return ())
            else io_return ())"
  have run: "recur_one R ag sid tz r s = io_bind (withMailboxSession ag sid act) k s1"
    by (simp add: recur_one_def Inr io_bind_def draw_def s1_def act_def k_def)
  have k: "keeps (touches {}) (k f)" for f
    by (auto simp: k_def intro!: keeps_intros keeps_touches_hostNote split: option.split)
  obtain x s2 where w: "withMailboxSession ag sid act s1 = (x, s2)" by fastforce
  have m: "mailbox_of ag sid s2 = snd (act (mailbox_of ag sid s))"
    using mailbox_of_with [of ag sid act s1] w by (simp add: s1_def draw_def mailbox_of_def)
  have "mailbox_of ag sid (snd (io_bind (withMailboxSession ag sid act) k s1)) = mailbox_of ag sid s2"
  proof (cases x)
    case (Inr f)
    then show ?thesis using w mailbox_of_touches [of s2 "snd (k f s2)"] k [of f] by (simp add: io_bind_Inr keeps_def)
  qed (use w in \<open>simp add: io_bind_Inl\<close>)
  then show ?thesis using run m Inr by (simp add: act_def)
qed

lemma recur_one_reaims:
  assumes "ids_ok (mailbox_of ag sid s)" "r \<in> set (mb_in (mailbox_of ag sid s))" "ir_recurrence r \<noteq> None"
  shows "reaim r (mailbox_of ag sid s) (mailbox_of ag sid (snd (recur_one R ag sid tz r s)))"
  using rearm_reaims [OF assms] assms(1)
  by (auto simp: recur_one_mail reaim_same split: sum.split)

lemma recur_loop_armed:
  assumes "ids_ok (mailbox_of ag sid s)" "distinct rs"
    "\<forall>r \<in> set rs. r \<in> set (mb_in (mailbox_of ag sid s)) \<and> ir_recurrence r \<noteq> None"
  shows "fst (recur_loop R ag sid tz rs s) = Inr () \<and> ids_ok (mailbox_of ag sid (snd (recur_loop R ag sid tz rs s))) \<and>
    (\<forall>t. armed t (mailbox_of ag sid (snd (recur_loop R ag sid tz rs s))) = armed t (mailbox_of ag sid s))"
  using assms
proof (induction rs arbitrary: s)
  case (Cons r rs)
  define s1 where "s1 = snd (recur_one R ag sid tz r s)"
  have step: "recur_loop R ag sid tz (r # rs) s = recur_loop R ag sid tz rs s1"
    by (auto simp: io_bind_def io_catch_def io_return_def s1_def split: prod.split sum.split)
  have r: "reaim r (mailbox_of ag sid s) (mailbox_of ag sid s1)"
    unfolding s1_def by (rule recur_one_reaims) (use Cons.prems in auto)
  then have "ids_ok (mailbox_of ag sid s1)" "\<forall>x \<in> set rs. x \<in> set (mb_in (mailbox_of ag sid s1)) \<and> ir_recurrence x \<noteq> None"
    using Cons.prems by (auto simp: reaim_def)
  then show ?case using Cons.IH [of s1] Cons.prems(2) r step by (simp add: reaim_def)
qed (simp add: io_return_def)

text \<open>
  C19. Handling the recurrences of a session never throws and leaves every series with as many rows that
  carry its recurrence as it had, whatever becomes of the single occurrences: a cron expression that does
  not parse, an id that is taken, a row the mailbox refuses and a note that cannot be written included.
  A recurring task is neither lost nor doubled.
\<close>

theorem series_stays_armed:
  assumes "ids_ok (mailbox_of ag sid s)" "handleRecurrence R ag sid s = (x, s')"
  shows "x = Inr () \<and> ids_ok (mailbox_of ag sid s') \<and>
    (\<forall>t. armed t (mailbox_of ag sid s') = armed t (mailbox_of ag sid s))"
proof -
  let ?rs = "getCompletedRecurring (mailbox_of ag sid s)"
  have "distinct ?rs" using assms(1)
    by (simp add: getCompletedRecurring_def ids_ok_def distinct_map)
  moreover have "\<forall>r \<in> set ?rs. r \<in> set (mb_in (mailbox_of ag sid s)) \<and> ir_recurrence r \<noteq> None"
    by (auto simp: getCompletedRecurring_def)
  ultimately show ?thesis
    using recur_loop_armed [OF assms(1), of ?rs R "re_tz R ag"] assms(2) by (simp add: handleRecurrence_def)
qed

end
