(* ===== verification/ContainerRunner.thy ===== *)
theory ContainerRunner
  imports HostState Coordination
begin

text \<open>
  The containers of the sessions of one host (\<open>src/container-runner.ts\<close>): waking, spawning, ending,
  killing, adopting.  The runtimes are objects, named by their position in \<open>rn_runtimes\<close>;
  \<open>rn_active\<close> is the map \<open>activeContainers\<close>, \<open>rn_wakes\<close> the map \<open>wakePromises\<close> with the place each spawn
  has reached.  Each \<open>await\<close> ends a step, so that steps of other sessions, calls of \<open>killContainer\<close>
  and events of the driver come in between.

  What a driver, the gateway and the files around a container do is not in this code: a step that
  waits for them is told whether they succeeded.
\<close>

subsection \<open>State\<close>

record runtime =
  rt_session :: string
  rt_containerName :: string
  rt_startedAtMs :: int
  rt_adopted :: bool
  rt_exitCallbacks :: "nat list"
  rt_finished :: bool
  rt_resolved :: bool
  rt_stopReason :: "string option"
  rt_claimIncarnation :: "nat option"

text \<open>
  Where a spawn is: before the claim; the claim is held and the driver prepares the container; the
  container is registered and \<open>start()\<close> runs; it has started and the database is told; the spawn has
  failed and waits for the runtime to finish.
\<close>

datatype spawn_stage = Composing | Claiming | Claimed nat | Arming nat | Started nat | Unwinding nat

record wake =
  wk_session :: string
  wk_agent :: string
  wk_name :: string
  wk_stage :: spawn_stage

text \<open>
  \<open>rn_stops\<close> are the runtimes whose \<open>stop()\<close> has not settled, \<open>rn_finishing\<close> those in \<open>finish\<close>,
  \<open>rn_called\<close> the exit callbacks that have run; \<open>rn_live\<close> are the runtimes whose containers run, which
  only the driver sees.
\<close>

record runner =
  rn_host :: host_db
  rn_coord :: coord_db
  rn_self :: string
  rn_runtimes :: "runtime list"
  rn_active :: "(string \<times> nat) list"
  rn_wakes :: "wake list"
  rn_stops :: "nat list"
  rn_finishing :: "nat list"
  rn_called :: "nat list"
  rn_live :: "nat list"

definition active :: "string \<Rightarrow> runner \<Rightarrow> nat option" where
  "active sid s = map_of (rn_active s) sid"

definition isContainerRunning :: "string \<Rightarrow> runner \<Rightarrow> bool" where
  "isContainerRunning sid s = (active sid s \<noteq> None)"

definition getContainerStartedAtMs :: "string \<Rightarrow> runner \<Rightarrow> int option" where
  "getContainerStartedAtMs sid s = map_option (\<lambda>r. rt_startedAtMs (rn_runtimes s ! r)) (active sid s)"

definition getActiveContainerCount :: "runner \<Rightarrow> nat" where
  "getActiveContainerCount s = length (rn_active s)"

definition set_runtime :: "nat \<Rightarrow> (runtime \<Rightarrow> runtime) \<Rightarrow> runner \<Rightarrow> runner" where
  "set_runtime r f s = (if r < length (rn_runtimes s) then s\<lparr>rn_runtimes := (rn_runtimes s)[r := f (rn_runtimes s ! r)]\<rparr> else s)"

definition drop_active :: "string \<Rightarrow> runner \<Rightarrow> runner" where
  "drop_active sid s = s\<lparr>rn_active := map_delete sid (rn_active s)\<rparr>"

text \<open>The session row, through the session manager; a write that fails changes nothing.\<close>

definition on_rows :: "bool \<Rightarrow> (host_db, unit) sm \<Rightarrow> runner \<Rightarrow> runner" where
  "on_rows ok m s = (if ok then s\<lparr>rn_host := snd (m (rn_host s))\<rparr> else s)"

definition release_claim :: "bool \<Rightarrow> string \<Rightarrow> nat \<Rightarrow> int \<Rightarrow> runner \<Rightarrow> runner" where
  "release_claim ok sid inc now s =
     (if ok then s\<lparr>rn_coord := snd (releaseSessionClaim sid (rn_self s) inc now (rn_coord s))\<rparr> else s)"

subsection \<open>Waking and spawning\<close>

definition find_wake :: "string \<Rightarrow> runner \<Rightarrow> wake option" where
  "find_wake sid s = find (\<lambda>w. wk_session w = sid) (rn_wakes s)"

definition end_wake :: "string \<Rightarrow> runner \<Rightarrow> runner" where
  "end_wake sid s = s\<lparr>rn_wakes := filter (\<lambda>w. wk_session w \<noteq> sid) (rn_wakes s)\<rparr>"

definition at_stage :: "string \<Rightarrow> spawn_stage \<Rightarrow> runner \<Rightarrow> runner" where
  "at_stage sid st s =
     s\<lparr>rn_wakes := map (\<lambda>w. if wk_session w = sid then w\<lparr>wk_stage := st\<rparr> else w) (rn_wakes s)\<rparr>"

definition wakeSession :: "string \<Rightarrow> string \<Rightarrow> runner \<Rightarrow> runner" where
  "wakeSession sid ag s =
     (if active sid s \<noteq> None \<or> find_wake sid s \<noteq> None then s
      else s\<lparr>rn_wakes := rn_wakes s @ [\<lparr>wk_session = sid, wk_agent = ag, wk_name = [], wk_stage = Composing\<rparr>]\<rparr>)"

text \<open>\<open>spawnContainer\<close> up to the claim: the agent, its destinations and routing, then the composition.\<close>

definition compose :: "string \<Rightarrow> string \<Rightarrow> (host_db, string) sm" where
  "compose ag sid =
     io_bind (io_get (\<lambda>h. getAgentGroup ag (hd_agents h))) (\<lambda>g. case g of
       None \<Rightarrow> io_throw (Error (''Agent group not found: '' @ ag))
     | Some g \<Rightarrow>
         io_bind (writeDestinations (ag_id g) sid) (\<lambda>_.
         io_bind (io_get hd_chat) (\<lambda>chats.
         io_bind (writeSessionRouting chats (ag_id g) sid) (\<lambda>_. io_return (ag_folder g)))))"

definition spawn_compose :: "string \<Rightarrow> bool \<Rightarrow> int \<Rightarrow> runner \<Rightarrow> runner" where
  "spawn_compose sid ok now s =
     (case find_wake sid s of
        Some w \<Rightarrow>
          if wk_stage w \<noteq> Composing then s
          else (case compose (wk_agent w) sid (rn_host s) of
                  (Inl e, h) \<Rightarrow> end_wake sid (s\<lparr>rn_host := h\<rparr>)
                | (Inr folder, h) \<Rightarrow>
                    (let s1 = s\<lparr>rn_host := h\<rparr> in
                     if \<not> ok then end_wake sid s1
                     else s1\<lparr>rn_wakes := map (\<lambda>w. if wk_session w = sid
                              then w\<lparr>wk_name := ''nanoclaw-v2-'' @ folder @ ''-'' @ int_str now, wk_stage := Claiming\<rparr> else w)
                            (rn_wakes s1)\<rparr>))
      | None \<Rightarrow> s)"

definition spawn_claim :: "string \<Rightarrow> int \<Rightarrow> runner \<Rightarrow> runner" where
  "spawn_claim sid now s =
     (case find_wake sid s of
        Some w \<Rightarrow>
          if wk_stage w \<noteq> Claiming then s
          else (case claimSessionRun (rn_self s) sid (wk_name w) now (rn_coord s) of
                  (None, db) \<Rightarrow> end_wake sid (s\<lparr>rn_coord := db\<rparr>)
                | (Some n, db) \<Rightarrow> at_stage sid (Claimed n) (s\<lparr>rn_coord := db\<rparr>))
      | None \<Rightarrow> s)"

definition registerRuntime :: "string \<Rightarrow> string \<Rightarrow> bool \<Rightarrow> int \<Rightarrow> nat \<Rightarrow> runner \<Rightarrow> runner" where
  "registerRuntime sid name adopted now inc s =
     s\<lparr>rn_runtimes := rn_runtimes s @
         [\<lparr>rt_session = sid, rt_containerName = name, rt_startedAtMs = now, rt_adopted = adopted, rt_exitCallbacks = [],
           rt_finished = False, rt_resolved = False, rt_stopReason = None, rt_claimIncarnation = Some inc\<rparr>],
       rn_active := map_set sid (length (rn_runtimes s)) (rn_active s)\<rparr>"

text \<open>\<open>driver.prepare\<close> has answered; \<open>db\<close> is whether the release of the claim is written.\<close>

definition spawn_prepared :: "string \<Rightarrow> bool \<Rightarrow> bool \<Rightarrow> int \<Rightarrow> runner \<Rightarrow> runner" where
  "spawn_prepared sid ok db now s =
     (case find_wake sid s of
        Some w \<Rightarrow>
          (case wk_stage w of
             Claimed n \<Rightarrow>
               if ok then at_stage sid (Arming (length (rn_runtimes s))) (registerRuntime sid (wk_name w) False now n s)
               else end_wake sid (release_claim db sid n now s)
           | _ \<Rightarrow> s)
      | None \<Rightarrow> s)"

text \<open>Arming has thrown: the claim goes, and the runtime if it is not being finished already.\<close>

definition spawn_unwind :: "string \<Rightarrow> nat \<Rightarrow> bool \<Rightarrow> int \<Rightarrow> runner \<Rightarrow> runner" where
  "spawn_unwind sid r db now s =
     (let rt = rn_runtimes s ! r;
          s1 = (case rt_claimIncarnation rt of None \<Rightarrow> s | Some n \<Rightarrow> release_claim db sid n now s)
      in if active sid s1 = Some r \<and> \<not> rt_finished rt
         then end_wake sid (set_runtime r (\<lambda>t. t\<lparr>rt_resolved := True\<rparr>) (drop_active sid s1))
         else at_stage sid (Unwinding r) s1)"

definition spawn_started :: "string \<Rightarrow> bool \<Rightarrow> bool \<Rightarrow> int \<Rightarrow> runner \<Rightarrow> runner" where
  "spawn_started sid ok db now s =
     (case find_wake sid s of
        Some w \<Rightarrow>
          (case wk_stage w of
             Arming r \<Rightarrow> if ok then at_stage sid (Started r) s else spawn_unwind sid r db now s
           | _ \<Rightarrow> s)
      | None \<Rightarrow> s)"

definition spawn_marked :: "sess_env \<Rightarrow> string \<Rightarrow> bool \<Rightarrow> bool \<Rightarrow> int \<Rightarrow> runner \<Rightarrow> runner" where
  "spawn_marked E sid ok db now s =
     (case find_wake sid s of
        Some w \<Rightarrow>
          (case wk_stage w of
             Started r \<Rightarrow>
               if ok then end_wake sid (on_rows True (markContainerRunning E sid) s) else spawn_unwind sid r db now s
           | Unwinding r \<Rightarrow> if rt_resolved (rn_runtimes s ! r) then end_wake sid s else s
           | _ \<Rightarrow> s)
      | None \<Rightarrow> s)"

subsection \<open>Ending\<close>

definition finishAndResolve :: "string \<Rightarrow> runner \<Rightarrow> runner" where
  "finishAndResolve sid s =
     (case active sid s of
        None \<Rightarrow> s
      | Some r \<Rightarrow>
          if rt_finished (rn_runtimes s ! r) then s
          else (set_runtime r (\<lambda>t. t\<lparr>rt_finished := True\<rparr>) s)\<lparr>rn_finishing := rn_finishing s @ [r]\<rparr>)"

text \<open>\<open>finish\<close>: the row, then (the gateway lease released) the map and the callbacks.\<close>

definition finish_mark :: "nat \<Rightarrow> bool \<Rightarrow> runner \<Rightarrow> runner" where
  "finish_mark r db s =
     (if r \<in> set (rn_finishing s) then on_rows db (markContainerStopped (rt_session (rn_runtimes s ! r))) s else s)"

definition finish_end :: "nat \<Rightarrow> runner \<Rightarrow> runner" where
  "finish_end r s =
     (if r \<in> set (rn_finishing s)
      then (let sid = rt_session (rn_runtimes s ! r);
                s1 = (if active sid s = Some r then drop_active sid s else s)
            in (set_runtime r (\<lambda>t. t\<lparr>rt_resolved := True\<rparr>) s1)
                 \<lparr>rn_called := rn_called s @ rt_exitCallbacks (rn_runtimes s ! r),
                  rn_finishing := filter (\<lambda>x. x \<noteq> r) (rn_finishing s)\<rparr>)
      else s)"

definition killContainer :: "string \<Rightarrow> string \<Rightarrow> nat option \<Rightarrow> runner \<Rightarrow> runner" where
  "killContainer sid reason onExit s =
     (case active sid s of
        None \<Rightarrow> s
      | Some r \<Rightarrow>
          (set_runtime r (\<lambda>t. t\<lparr>rt_exitCallbacks := rt_exitCallbacks t @ (case onExit of None \<Rightarrow> [] | Some c \<Rightarrow> [c]),
                                rt_stopReason := Some reason\<rparr>) s)\<lparr>rn_stops := rn_stops s @ [r]\<rparr>)"

text \<open>The promise of \<open>stop()\<close> has settled, either way.\<close>

definition stop_settled :: "nat \<Rightarrow> runner \<Rightarrow> runner" where
  "stop_settled r s =
     (if r \<in> set (rn_stops s)
      then (let s1 = s\<lparr>rn_stops := remove1 r (rn_stops s)\<rparr>
            in if rt_finished (rn_runtimes s ! r) then s1 else finishAndResolve (rt_session (rn_runtimes s ! r)) s1)
      else s)"

text \<open>The sessions whose row or agent is gone are stopped, unless a spawn or a stop is under way.\<close>

definition orphaned :: "runner \<Rightarrow> string \<times> nat \<Rightarrow> bool" where
  "orphaned s p =
     (find_wake (fst p) s = None \<and> rt_stopReason (rn_runtimes s ! snd p) = None \<and>
      (case getSession (fst p) (ss_sessions (rn_host s)) of
         None \<Rightarrow> True
       | Some row \<Rightarrow> getAgentGroup (s_agent_group_id row) (hd_agents (rn_host s)) = None))"

definition stopOrphanedSessions :: "runner \<Rightarrow> nat \<times> runner" where
  "stopOrphanedSessions s =
     (let gone = filter (orphaned s) (rn_active s)
      in (length gone, fold (\<lambda>p. killContainer (fst p) ''orphaned'' None) gone s))"

text \<open>
  Adoption at startup: a container the driver lists.  \<open>claim_ok\<close> is whether the claim could be
  written, \<open>lease_ok\<close> whether the gateway takes the session.
\<close>

datatype adoption = Adopted | StoppedOrphan | LeftUntracked

definition adoptOneSession ::
    "sess_env \<Rightarrow> string option \<Rightarrow> string \<Rightarrow> bool \<Rightarrow> bool \<Rightarrow> bool \<Rightarrow> bool \<Rightarrow> int \<Rightarrow> runner \<Rightarrow> adoption \<times> runner" where
  "adoptOneSession E key name is_running claim_ok lease_ok db now s =
     (case (case key of None \<Rightarrow> None | Some i \<Rightarrow> if i = [] then None else getSession i (ss_sessions (rn_host s))) of
        None \<Rightarrow> (StoppedOrphan, s)
      | Some row \<Rightarrow>
          if s_status row \<noteq> Active \<or> \<not> is_running then (StoppedOrphan, s)
          else if \<not> claim_ok then (LeftUntracked, s)
          else (case claimSessionRun (rn_self s) (s_id row) name now (rn_coord s) of
                  (None, c) \<Rightarrow> (LeftUntracked, s\<lparr>rn_coord := c\<rparr>)
                | (Some n, c) \<Rightarrow>
                    (let s1 = s\<lparr>rn_coord := c\<rparr> in
                     if getAgentGroup (s_agent_group_id row) (hd_agents (rn_host s)) = None \<or> \<not> lease_ok
                     then (StoppedOrphan, release_claim db (s_id row) n now s1)
                     else (Adopted, on_rows True (markContainerRunning E (s_id row))
                                      (registerRuntime (s_id row) name True now n s1)))))"

end
