(* ===== verification/HostSweep.thy ===== *)
theory HostSweep
  imports Complex_Main Recurrence ContainerRunner MailboxRunner
begin

text \<open>
  The sweep of the sessions (\<open>src/host-sweep.ts\<close>): acknowledgements, waking for due messages, the two
  tests for a stuck container, the retry of the messages a dead container had claimed, recurrences, the
  closing of spent task sessions and the pruning of the echo backlog.

  The time of the heartbeat file is a number of milliseconds with a fraction, 0 when there is no such
  file.  The sweep awaits the wake it starts: \<open>sw_settle\<close> is what happens until that has ended.
\<close>

definition ABSOLUTE_CEILING_MS :: int where "ABSOLUTE_CEILING_MS = 30 * 60 * 1000"
definition CLAIM_STUCK_MS :: int where "CLAIM_STUCK_MS = 60 * 1000"
definition MAX_TRIES :: int where "MAX_TRIES = 5"
definition BACKOFF_BASE_MS :: int where "BACKOFF_BASE_MS = 5000"

record sweep_env =
  sw_recur :: recur_env
  sw_heartbeat :: "string \<Rightarrow> string \<Rightarrow> rat"
  sw_settle :: "string \<Rightarrow> runner \<Rightarrow> runner"

definition sw_clock :: "sweep_env \<Rightarrow> clock" where
  "sw_clock E = se_clock (re_sess (sw_recur E))"

subsection \<open>Is a running container stuck?\<close>

datatype stuck_decision =
    StuckOk
  | KillCeiling rat int
  | KillClaim string int int

definition bashTimeoutMs :: "container_record option \<Rightarrow> int option" where
  "bashTimeoutMs st =
     (case st of None \<Rightarrow> None
      | Some r \<Rightarrow> if cr_currentTool r \<noteq> Some ''Bash'' then None else cr_toolDeclaredTimeoutMs r)"

definition at_least :: "int \<Rightarrow> int option \<Rightarrow> int" where
  "at_least base declared = max base (case declared of Some n \<Rightarrow> n | None \<Rightarrow> 0)"

fun stuck_claim ::
    "(string \<Rightarrow> int option) \<Rightarrow> int \<Rightarrow> rat \<Rightarrow> int \<Rightarrow> (string \<times> string) list \<Rightarrow> stuck_decision" where
  "stuck_claim parse now heartbeat tolerance [] = StuckOk"
| "stuck_claim parse now heartbeat tolerance ((i, changed) # claims) =
     (case parse changed of
        None \<Rightarrow> stuck_claim parse now heartbeat tolerance claims
      | Some claimedAt \<Rightarrow>
          if now - claimedAt \<le> tolerance then stuck_claim parse now heartbeat tolerance claims
          else if heartbeat > of_int claimedAt then stuck_claim parse now heartbeat tolerance claims
          else KillClaim i (now - claimedAt) tolerance)"

definition effective_heartbeat :: "rat \<Rightarrow> int option \<Rightarrow> rat" where
  "effective_heartbeat heartbeat started =
     (if heartbeat \<noteq> 0 then heartbeat else of_int (case started of Some t \<Rightarrow> t | None \<Rightarrow> 0))"

definition decideStuckAction ::
    "(string \<Rightarrow> int option) \<Rightarrow> int \<Rightarrow> rat \<Rightarrow> int option \<Rightarrow> container_record option \<Rightarrow> (string \<times> string) list \<Rightarrow> stuck_decision" where
  "decideStuckAction parse now heartbeat started st claims =
     (let declared = bashTimeoutMs st;
          effective = effective_heartbeat heartbeat started;
          ceiling = at_least ABSOLUTE_CEILING_MS declared
      in if effective \<noteq> 0 \<and> of_int now - effective > of_int ceiling
         then KillCeiling (of_int now - effective) ceiling
         else stuck_claim parse now heartbeat (at_least CLAIM_STUCK_MS declared) claims)"

text \<open>What is older than the claim of this incarnation says nothing about its container.\<close>

definition incarnation_start :: "string \<Rightarrow> coord_db \<Rightarrow> int" where
  "incarnation_start sid db =
     (case getSessionClaim sid db of
        None \<Rightarrow> 0
      | Some c \<Rightarrow> (case sc_claimed_at c of Some t \<Rightarrow> t | None \<Rightarrow> 0))"

definition gate_heartbeat :: "int \<Rightarrow> rat \<Rightarrow> rat" where
  "gate_heartbeat start raw = (if raw \<ge> of_int start then raw else 0)"

definition gate_claim :: "(string \<Rightarrow> int option) \<Rightarrow> int \<Rightarrow> string \<times> string \<Rightarrow> string \<times> string" where
  "gate_claim parse start c =
     (case parse (snd c) of
        None \<Rightarrow> c
      | Some claimedAt \<Rightarrow> if claimedAt \<ge> start then c else (fst c, toISOString start))"

subsection \<open>Retrying what a container had claimed\<close>

definition postponed :: "clock \<Rightarrow> string option \<Rightarrow> bool" where
  "postponed ck processAfter =
     (case processAfter of
        None \<Rightarrow> False
      | Some p \<Rightarrow> p \<noteq> [] \<and> (case ck_dateParse ck p of Some t \<Rightarrow> t > ck_now ck | None \<Rightarrow> False))"

definition retry_one :: "clock \<Rightarrow> string \<Rightarrow> mailbox \<Rightarrow> mailbox" where
  "retry_one ck messageId mb =
     (case getMessageForRetry ck messageId MsgPending mb of
        None \<Rightarrow> mb
      | Some (i, tries, processAfter) \<Rightarrow>
          if postponed ck processAfter then mb
          else if tries \<ge> MAX_TRIES then markMessageFailed i mb
          else retryWithBackoff ck i ((BACKOFF_BASE_MS * 2 ^ nat tries) div 1000) mb)"

definition resetStuckProcessingRows :: "clock \<Rightarrow> (mailbox, unit) sm" where
  "resetStuckProcessingRows ck mb =
     (case all_res (getProcessingClaims ck mb) of
        Inl e \<Rightarrow> (Inl e, mb)
      | Inr claims \<Rightarrow> (Inr (), snd (deleteOrphanProcessingClaims (fold (retry_one ck) (map fst claims) mb))))"

subsection \<open>One session\<close>

text \<open>Steps on the mailbox of the session and on the tables, in the state of the host.\<close>

definition in_host :: "(host_db, 'a) sm \<Rightarrow> (runner, 'a) sm" where
  "in_host m s = (case m (rn_host s) of (r, h) \<Rightarrow> (r, s\<lparr>rn_host := h\<rparr>))"

definition in_mail :: "string \<Rightarrow> string \<Rightarrow> (mailbox, 'a) sm \<Rightarrow> (runner, 'a) sm" where
  "in_mail ag sid act = in_host (withMailboxSession ag sid act)"

definition sla_decision :: "sweep_env \<Rightarrow> string \<Rightarrow> string \<Rightarrow> runner \<Rightarrow> stuck_decision res" where
  "sla_decision E ag sid s =
     (let ck = sw_clock E; mb = mailbox_of ag sid (rn_host s); start = incarnation_start sid (rn_coord s)
      in bnd (all_res (getProcessingClaims ck mb)) (\<lambda>claims.
         bnd (getContainerState ck mb) (\<lambda>st.
           Inr (decideStuckAction (ck_dateParse ck) (ck_now ck) (gate_heartbeat start (sw_heartbeat E ag sid))
                  (getContainerStartedAtMs sid s) st (map (gate_claim (ck_dateParse ck) start) claims)))))"

definition kill_stuck :: "sweep_env \<Rightarrow> string \<Rightarrow> string \<Rightarrow> string \<Rightarrow> (runner, unit) sm" where
  "kill_stuck E ag sid reason =
     io_bind (io_modify (killContainer sid reason None)) (\<lambda>_.
       in_mail ag sid (resetStuckProcessingRows (sw_clock E)))"

definition enforceRunningContainerSla :: "sweep_env \<Rightarrow> string \<Rightarrow> string \<Rightarrow> (runner, unit) sm" where
  "enforceRunningContainerSla E ag sid =
     io_bind (io_get (sla_decision E ag sid)) (\<lambda>d. case d of
       Inl e \<Rightarrow> io_throw e
     | Inr StuckOk \<Rightarrow> io_return ()
     | Inr (KillCeiling _ _) \<Rightarrow> kill_stuck E ag sid ''absolute-ceiling''
     | Inr (KillClaim _ _ _) \<Rightarrow> kill_stuck E ag sid ''claim-stuck'')"

definition shouldCloseTaskSession :: "string option \<Rightarrow> bool \<Rightarrow> nat \<Rightarrow> bool" where
  "shouldCloseTaskSession thread containerRunning live_tasks =
     (isTaskThread thread \<and> \<not> containerRunning \<and> live_tasks = 0)"

definition close_spent :: "session_row \<Rightarrow> (runner, unit) sm" where
  "close_spent session =
     io_bind (io_get (\<lambda>s. shouldCloseTaskSession (s_thread_id session) (isContainerRunning (s_id session) s)
         (countLiveTasks (mailbox_of (s_agent_group_id session) (s_id session) (rn_host s))))) (\<lambda>spent.
       if spent then in_host (on_sessions (updateSession (s_id session) (no_update\<lparr>su_status := Some Closed\<rparr>)))
       else io_return ())"

definition maintainSessionMailbox :: "sweep_env \<Rightarrow> session_row \<Rightarrow> string \<Rightarrow> bool \<Rightarrow> (runner, unit) sm" where
  "maintainSessionMailbox E session ag justWoke =
     (let sid = s_id session in
      io_bind (io_get (isContainerRunning sid)) (\<lambda>alive.
      io_bind (if alive \<and> \<not> justWoke then enforceRunningContainerSla E ag sid else io_return ()) (\<lambda>_.
      io_bind (if \<not> alive then in_mail ag sid (resetStuckProcessingRows (sw_clock E)) else io_return ()) (\<lambda>_.
      io_bind (in_host (handleRecurrence (sw_recur E) ag sid)) (\<lambda>_.
      io_bind (close_spent session) (\<lambda>_.
        in_mail ag sid (io_modify (snd \<circ> pruneEchoBacklog (sw_clock E)))))))))"

definition ack_and_count :: "clock \<Rightarrow> (mailbox, nat) sm" where
  "ack_and_count ck mb =
     (case all_res (getTerminalProcessingAcks ck mb) of
        Inl e \<Rightarrow> (Inl e, mb)
      | Inr acks \<Rightarrow> (let mb' = applyProcessingAcks acks mb in (Inr (countDueMessages ck mb'), mb')))"

definition sweep_existing :: "sweep_env \<Rightarrow> session_row \<Rightarrow> string \<Rightarrow> (runner, unit) sm" where
  "sweep_existing E session ag =
     (let sid = s_id session in
      io_bind (in_mail ag sid (ack_and_count (sw_clock E))) (\<lambda>dueCount.
      io_bind (io_get (\<lambda>s. 0 < dueCount \<and> \<not> isContainerRunning sid s)) (\<lambda>shouldWake.
        if \<not> shouldWake then maintainSessionMailbox E session ag False
        else io_bind (io_modify (\<lambda>s. sw_settle E sid (wakeSession sid (s_agent_group_id session) s))) (\<lambda>_.
             io_bind (io_get (\<lambda>s. ss_mail (rn_host s) (ag, sid))) (\<lambda>mail.
               if mail = None then io_return () else maintainSessionMailbox E session ag True)))))"

definition sweepSession :: "sweep_env \<Rightarrow> session_row \<Rightarrow> (runner, unit) sm" where
  "sweepSession E session =
     io_bind (io_get (\<lambda>s. (getAgentGroup (s_agent_group_id session) (hd_agents (rn_host s)),
                            ss_mail (rn_host s) (s_agent_group_id session, s_id session)))) (\<lambda>r. case r of
       (Some g, Some _) \<Rightarrow> io_catch (sweep_existing E session (ag_id g)) (\<lambda>_. io_return ())
     | _ \<Rightarrow> io_return ())"

fun sweep_sessions :: "sweep_env \<Rightarrow> session_row list \<Rightarrow> (runner, unit) sm" where
  "sweep_sessions E [] = io_return ()"
| "sweep_sessions E (r # rs) = io_bind (sweepSession E r) (\<lambda>_. sweep_sessions E rs)"

text \<open>
  One tick: the sessions, the rejections whose time for a reason is over (\<open>reasons\<close>, of the approvals
  module), and the containers that nothing owns any more.
\<close>

definition sweep_tick :: "sweep_env \<Rightarrow> (runner, unit) sm \<Rightarrow> (runner, unit) sm" where
  "sweep_tick E reasons =
     io_bind (io_get (\<lambda>s. getActiveSessions (ss_sessions (rn_host s)))) (\<lambda>rows.
     io_bind (io_catch (sweep_sessions E rows) (\<lambda>_. io_return ())) (\<lambda>_.
     io_bind (io_catch reasons (\<lambda>_. io_return ())) (\<lambda>_.
       io_modify (snd \<circ> stopOrphanedSessions))))"

end
