(* ===== verification/SpawnSafety.thy ===== *)
theory SpawnSafety
  imports ContainerRunner
begin

text \<open>
  One container per session: the steps of spawns, ends, kills and sweeps of one host in any order, with
  the driver's containers beside them.  What is required of the driver is written out as
  \<open>driver_allows\<close>.
\<close>

datatype runner_event =
    Wake string string
  | Compose string bool int
  | Claim string int
  | PrepareDone string bool bool int
  | ComesUp nat
  | StartDone string bool bool int
  | Marked string bool bool int
  | Dies nat
  | EndReported nat
  | Kill string string "nat option"
  | StopSettled nat
  | FinishMark nat bool
  | FinishEnd nat
  | SweepOrphans

fun runner_step :: "sess_env \<Rightarrow> runner_event \<Rightarrow> runner \<Rightarrow> runner" where
  "runner_step E (Wake sid ag) s = wakeSession sid ag s"
| "runner_step E (Compose sid ok now) s = spawn_compose sid ok now s"
| "runner_step E (Claim sid now) s = spawn_claim sid now s"
| "runner_step E (PrepareDone sid ok db now) s = spawn_prepared sid ok db now s"
| "runner_step E (ComesUp r) s = s\<lparr>rn_live := rn_live s @ [r]\<rparr>"
| "runner_step E (StartDone sid ok db now) s = spawn_started sid ok db now s"
| "runner_step E (Marked sid ok db now) s = spawn_marked E sid ok db now s"
| "runner_step E (Dies r) s = s\<lparr>rn_live := filter (\<lambda>x. x \<noteq> r) (rn_live s)\<rparr>"
| "runner_step E (EndReported r) s = finishAndResolve (rt_session (rn_runtimes s ! r)) s"
| "runner_step E (Kill sid reason cb) s = killContainer sid reason cb s"
| "runner_step E (StopSettled r) s = stop_settled r s"
| "runner_step E (FinishMark r db) s = finish_mark r db s"
| "runner_step E (FinishEnd r) s = finish_end r s"
| "runner_step E SweepOrphans s = snd (stopOrphanedSessions s)"

definition stage_of :: "string \<Rightarrow> runner \<Rightarrow> spawn_stage option" where
  "stage_of sid s = map_option wk_stage (find_wake sid s)"

definition current :: "nat \<Rightarrow> runner \<Rightarrow> bool" where
  "current r s \<longleftrightarrow> r < length (rn_runtimes s) \<and> active (rt_session (rn_runtimes s ! r)) s \<in> {None, Some r}"

text \<open>
  The driver: a container comes up only while \<open>start()\<close> of its runtime is under way and its end has not
  been reported; when \<open>start()\<close> throws, an end is reported or a stop settles, the container does not
  run; reports and settled stops come before the session gets another runtime.  The database: the row
  of a started session can be written.
\<close>

fun driver_allows :: "runner_event \<Rightarrow> runner \<Rightarrow> bool" where
  "driver_allows (ComesUp r) s =
     (r < length (rn_runtimes s) \<and> \<not> rt_finished (rn_runtimes s ! r) \<and>
      stage_of (rt_session (rn_runtimes s ! r)) s = Some (Arming r))"
| "driver_allows (StartDone sid ok db now) s =
     (ok \<or> (case stage_of sid s of Some (Arming r) \<Rightarrow> r \<notin> set (rn_live s) | _ \<Rightarrow> True))"
| "driver_allows (Marked sid ok db now) s = (ok \<or> (case stage_of sid s of Some (Started r) \<Rightarrow> False | _ \<Rightarrow> True))"
| "driver_allows (EndReported r) s = (current r s \<and> r \<notin> set (rn_live s))"
| "driver_allows (StopSettled r) s = (current r s \<and> r \<notin> set (rn_live s))"
| "driver_allows _ s = True"

fun driver_ok :: "sess_env \<Rightarrow> runner_event list \<Rightarrow> runner \<Rightarrow> bool" where
  "driver_ok E [] s = True"
| "driver_ok E (e # es) s = (driver_allows e s \<and> driver_ok E es (runner_step E e s))"

definition runner_run :: "sess_env \<Rightarrow> runner_event list \<Rightarrow> runner \<Rightarrow> runner" where
  "runner_run E es s = foldl (\<lambda>s e. runner_step E e s) s es"

subsection \<open>The invariant\<close>

definition sess :: "nat \<Rightarrow> runner \<Rightarrow> string" where
  "sess r s = rt_session (rn_runtimes s ! r)"

definition fin :: "nat \<Rightarrow> runner \<Rightarrow> bool" where
  "fin r s = rt_finished (rn_runtimes s ! r)"

definition known :: "nat \<Rightarrow> runner \<Rightarrow> bool" where
  "known r s \<longleftrightarrow> r < length (rn_runtimes s)"

text \<open>What a spawn may rely on, by the place it has reached.\<close>

fun stage_ok :: "string \<Rightarrow> spawn_stage \<Rightarrow> runner \<Rightarrow> bool" where
  "stage_ok sid (Arming r) s = (known r s \<and> sess r s = sid \<and> (\<not> fin r s \<longrightarrow> active sid s = Some r))"
| "stage_ok sid (Started r) s = (known r s \<and> sess r s = sid \<and> (\<not> fin r s \<longrightarrow> active sid s = Some r))"
| "stage_ok sid (Unwinding r) s = True"
| "stage_ok sid _ s = (active sid s = None)"

definition spawn_ok :: "runner \<Rightarrow> bool" where
  "spawn_ok s \<longleftrightarrow>
     (\<forall>sid r. active sid s = Some r \<longrightarrow> known r s \<and> sess r s = sid) \<and>
     (\<forall>r \<in> set (rn_live s). known r s \<and> \<not> fin r s \<and> active (sess r s) s = Some r) \<and>
     (\<forall>sid st. stage_of sid s = Some st \<longrightarrow> stage_ok sid st s) \<and>
     (\<forall>r \<in> set (rn_finishing s). known r s \<and> fin r s)"

named_theorems runner_simps "the parts of the runner after a step"

lemma active_simps [runner_simps]:
  "active i (drop_active sid s) = (if i = sid then None else active i s)"
  "active i (end_wake sid s) = active i s" "active i (at_stage sid st s) = active i s"
  "active i (set_runtime r f s) = active i s" "active i (on_rows ok m s) = active i s"
  "active i (release_claim ok sid n now s) = active i s" "active i (s\<lparr>rn_host := h\<rparr>) = active i s"
  "active i (s\<lparr>rn_coord := c\<rparr>) = active i s" "active i (s\<lparr>rn_wakes := w\<rparr>) = active i s"
  "active i (s\<lparr>rn_stops := p\<rparr>) = active i s" "active i (s\<lparr>rn_finishing := p\<rparr>) = active i s"
  "active i (s\<lparr>rn_called := p\<rparr>) = active i s" "active i (s\<lparr>rn_live := p\<rparr>) = active i s"
  "active i (registerRuntime sid name ad now n s) = (if i = sid then Some (length (rn_runtimes s)) else active i s)"
  by (simp_all add: active_def drop_active_def end_wake_def at_stage_def set_runtime_def on_rows_def release_claim_def
        registerRuntime_def map_of_map_set map_of_map_delete)

text \<open>The runtimes are only touched by the steps that change one.\<close>

lemma rt_simps [runner_simps]:
  "rn_runtimes (drop_active sid s) = rn_runtimes s" "rn_runtimes (end_wake sid s) = rn_runtimes s"
  "rn_runtimes (at_stage sid st s) = rn_runtimes s" "rn_runtimes (on_rows ok m s) = rn_runtimes s"
  "rn_runtimes (release_claim ok sid n now s) = rn_runtimes s"
  "rn_live (drop_active sid s) = rn_live s" "rn_live (end_wake sid s) = rn_live s"
  "rn_live (at_stage sid st s) = rn_live s" "rn_live (on_rows ok m s) = rn_live s"
  "rn_live (release_claim ok sid n now s) = rn_live s" "rn_live (set_runtime r f s) = rn_live s"
  "rn_live (registerRuntime sid name ad now n s) = rn_live s"
  "rn_finishing (drop_active sid s) = rn_finishing s" "rn_finishing (end_wake sid s) = rn_finishing s"
  "rn_finishing (at_stage sid st s) = rn_finishing s" "rn_finishing (on_rows ok m s) = rn_finishing s"
  "rn_finishing (release_claim ok sid n now s) = rn_finishing s" "rn_finishing (set_runtime r f s) = rn_finishing s"
  "rn_finishing (registerRuntime sid name ad now n s) = rn_finishing s"
  "rn_wakes (drop_active sid s) = rn_wakes s" "rn_wakes (on_rows ok m s) = rn_wakes s"
  "rn_wakes (release_claim ok sid n now s) = rn_wakes s" "rn_wakes (set_runtime r f s) = rn_wakes s"
  "rn_wakes (registerRuntime sid name ad now n s) = rn_wakes s"
  by (simp_all add: drop_active_def end_wake_def at_stage_def on_rows_def release_claim_def set_runtime_def registerRuntime_def)

lemma known_simps [runner_simps]:
  "known r (set_runtime q f s) = known r s"
  "known r (registerRuntime sid name ad now n s) \<longleftrightarrow> known r s \<or> r = length (rn_runtimes s)"
  by (auto simp: known_def set_runtime_def registerRuntime_def)

lemma sess_simps [runner_simps]:
  "known r s \<Longrightarrow> sess r (set_runtime q f s) = (if r = q then rt_session (f (rn_runtimes s ! r)) else sess r s)"
  "known r s \<Longrightarrow> fin r (set_runtime q f s) = (if r = q then rt_finished (f (rn_runtimes s ! r)) else fin r s)"
  "known r s \<Longrightarrow> sess r (registerRuntime sid name ad now n s) = sess r s"
  "known r s \<Longrightarrow> fin r (registerRuntime sid name ad now n s) = fin r s"
  "sess (length (rn_runtimes s)) (registerRuntime sid name ad now n s) = sid"
  "\<not> fin (length (rn_runtimes s)) (registerRuntime sid name ad now n s)"
  by (auto simp: sess_def fin_def known_def set_runtime_def registerRuntime_def nth_append)

lemma find_map_stage:
  "find (\<lambda>w. wk_session w = i) (map (\<lambda>w. if wk_session w = sid then f w else w) ws) =
     map_option (\<lambda>w. if wk_session w = sid then f w else w) (find (\<lambda>w. wk_session w = i) ws)"
  if "\<And>w. wk_session (f w) = wk_session w"
  using that by (induction ws) auto

lemma stage_simps [runner_simps]:
  "stage_of i (end_wake sid s) = (if i = sid then None else stage_of i s)"
  "stage_of i (at_stage sid st s) = (if i = sid then map_option (\<lambda>_. st) (stage_of i s) else stage_of i s)"
proof -
  have "find (\<lambda>w. wk_session w = i) (filter (\<lambda>w. wk_session w \<noteq> sid) ws) =
        (if i = sid then None else find (\<lambda>w. wk_session w = i) ws)" for ws by (induction ws) auto
  from this [of "rn_wakes s"] show "stage_of i (end_wake sid s) = (if i = sid then None else stage_of i s)"
    by (cases "i = sid") (simp_all add: stage_of_def find_wake_def end_wake_def)
  show "stage_of i (at_stage sid st s) = (if i = sid then map_option (\<lambda>_. st) (stage_of i s) else stage_of i s)"
    by (auto simp: stage_of_def find_wake_def at_stage_def find_map_stage option.map_comp o_def dest: find_SomeD
          intro!: option.map_cong)
qed

lemma stage_of_same: "rn_wakes s' = rn_wakes s \<Longrightarrow> stage_of i s' = stage_of i s"
  by (simp add: stage_of_def find_wake_def)

lemma stage_same_simps [runner_simps]:
  "stage_of i (drop_active sid s) = stage_of i s" "stage_of i (on_rows ok m s) = stage_of i s"
  "stage_of i (release_claim ok sid n now s) = stage_of i s" "stage_of i (set_runtime r f s) = stage_of i s"
  "stage_of i (registerRuntime sid name ad now n s) = stage_of i s"
  by (rule stage_of_same; simp add: rt_simps)+

text \<open>A change that leaves the registry, the containers and the spawns as they are.\<close>

definition same_registry :: "runner \<Rightarrow> runner \<Rightarrow> bool" where
  "same_registry s s' \<longleftrightarrow>
     (\<forall>i. active i s' = active i s) \<and> (\<forall>r. known r s' = known r s) \<and>
     (\<forall>r. known r s \<longrightarrow> sess r s' = sess r s \<and> fin r s' = fin r s) \<and> rn_live s' = rn_live s \<and>
     rn_finishing s' = rn_finishing s"

lemma stage_ok_same:
  assumes "same_registry s s'"
  shows "stage_ok i st s' = stage_ok i st s"
  using assms by (cases st) (auto simp: same_registry_def)

lemma spawn_ok_same:
  assumes s: "spawn_ok s" and "same_registry s s'"
    and st: "\<And>i st. stage_of i s' = Some st \<Longrightarrow> stage_of i s = Some st \<or> stage_ok i st s"
  shows "spawn_ok s'"
proof -
  have "stage_ok i st s'" if "stage_of i s' = Some st" for i st
    using st [OF that] s stage_ok_same [OF assms(2)] by (auto simp: spawn_ok_def)
  moreover have "\<forall>sid r. active sid s' = Some r \<longrightarrow> known r s' \<and> sess r s' = sid"
    and "\<forall>r \<in> set (rn_finishing s'). known r s' \<and> fin r s'"
    and "\<forall>r \<in> set (rn_live s'). known r s' \<and> \<not> fin r s' \<and> active (sess r s') s' = Some r"
    using s assms(2) by (auto simp: spawn_ok_def same_registry_def)
  ultimately show ?thesis by (simp add: spawn_ok_def)
qed

lemma same_registry_host:
  assumes "rn_runtimes s' = rn_runtimes s" "rn_active s' = rn_active s" "rn_live s' = rn_live s"
    "rn_finishing s' = rn_finishing s"
  shows "same_registry s s'"
  using assms by (simp add: same_registry_def active_def known_def sess_def fin_def)

lemma spawn_ok_host:
  assumes "spawn_ok s" "rn_runtimes s' = rn_runtimes s" "rn_active s' = rn_active s" "rn_live s' = rn_live s"
    "rn_finishing s' = rn_finishing s" "rn_wakes s' = rn_wakes s"
  shows "spawn_ok s'"
proof (rule spawn_ok_same [OF assms(1) same_registry_host [OF assms(2-5)]])
  fix i st assume "stage_of i s' = Some st"
  then show "stage_of i s = Some st \<or> stage_ok i st s" unfolding stage_of_same [OF assms(6)] ..
qed

lemma wake_fields:
  "rn_active (end_wake sid s) = rn_active s" "rn_active (at_stage sid st s) = rn_active s"
  by (simp_all add: end_wake_def at_stage_def)

lemma spawn_ok_end_wake: "spawn_ok s \<Longrightarrow> spawn_ok (end_wake sid s)"
  by (rule spawn_ok_same [where s = s, OF _ same_registry_host]) (simp_all add: runner_simps wake_fields split: if_splits)

lemma spawn_ok_at_stage: "spawn_ok s \<Longrightarrow> stage_ok sid st s \<Longrightarrow> spawn_ok (at_stage sid st s)"
  by (rule spawn_ok_same [where s = s, OF _ same_registry_host]) (auto simp: runner_simps wake_fields split: if_splits)

subsection \<open>Every step keeps the invariant\<close>

lemma find_wake_stage: "find_wake sid s = Some w \<Longrightarrow> stage_of sid s = Some (wk_stage w) \<and> wk_session w = sid"
  by (auto simp: stage_of_def find_wake_def dest: find_SomeD)

lemma spawn_ok_wake:
  assumes "spawn_ok s"
  shows "spawn_ok (wakeSession sid ag s)"
proof (cases "active sid s \<noteq> None \<or> find_wake sid s \<noteq> None")
  case False
  show ?thesis
  proof (rule spawn_ok_same [OF assms same_registry_host])
    fix i st assume "stage_of i (wakeSession sid ag s) = Some st"
    with False show "stage_of i s = Some st \<or> stage_ok i st s"
      by (auto simp: wakeSession_def stage_of_def find_wake_def find_append split: option.splits if_splits)
  qed (use False in \<open>simp_all add: wakeSession_def\<close>)
qed (use assms in \<open>simp add: wakeSession_def\<close>)

lemma spawn_ok_compose:
  assumes "spawn_ok s"
  shows "spawn_ok (spawn_compose sid ok now s)"
proof (cases "find_wake sid s")
  case (Some w)
  note st = find_wake_stage [OF Some]
  have h: "spawn_ok (s\<lparr>rn_host := h\<rparr>)" for h by (rule spawn_ok_host [OF assms]) simp_all
  have n: "spawn_ok (s\<lparr>rn_host := h, rn_wakes := map (\<lambda>w. if wk_session w = sid
             then w\<lparr>wk_name := nm, wk_stage := Claiming\<rparr> else w) (rn_wakes s)\<rparr>)"
    if "wk_stage w = Composing" for h nm
  proof (rule spawn_ok_same [OF assms same_registry_host])
    fix i stg assume "stage_of i (s\<lparr>rn_host := h, rn_wakes := map (\<lambda>w. if wk_session w = sid
             then w\<lparr>wk_name := nm, wk_stage := Claiming\<rparr> else w) (rn_wakes s)\<rparr>) = Some stg"
    then have "stage_of i s = Some stg \<or> i = sid \<and> stg = Claiming"
      by (auto simp: stage_of_def find_wake_def find_map_stage dest: find_SomeD split: if_splits)
    moreover have "active sid s = None" using assms st that by (fastforce simp: spawn_ok_def)
    ultimately show "stage_of i s = Some stg \<or> stage_ok i stg s" by auto
  qed simp_all
  show ?thesis
    using assms h n by (auto simp: spawn_compose_def Some Let_def spawn_ok_end_wake split: prod.split sum.split)
qed (use assms in \<open>simp add: spawn_compose_def\<close>)

lemma spawn_ok_claim:
  assumes "spawn_ok s"
  shows "spawn_ok (spawn_claim sid now s)"
proof (cases "find_wake sid s")
  case (Some w)
  have c: "spawn_ok (s\<lparr>rn_coord := c\<rparr>)" for c by (rule spawn_ok_host [OF assms]) simp_all
  have "active sid s = None" if "wk_stage w = Claiming"
    using assms find_wake_stage [OF Some] that by (fastforce simp: spawn_ok_def)
  then show ?thesis
    using assms c by (auto simp: spawn_claim_def Some runner_simps intro!: spawn_ok_end_wake spawn_ok_at_stage
      split: prod.split option.split)
qed (use assms in \<open>simp add: spawn_claim_def\<close>)

lemma spawn_ok_release: "spawn_ok s \<Longrightarrow> spawn_ok (release_claim ok sid n now s)"
  by (rule spawn_ok_host [of s]) (simp_all add: runner_simps, simp_all add: release_claim_def)

lemma spawn_ok_rows: "spawn_ok s \<Longrightarrow> spawn_ok (on_rows ok m s)"
  by (rule spawn_ok_host [of s]) (simp_all add: runner_simps, simp_all add: on_rows_def)

lemma spawn_okD:
  "spawn_ok s \<Longrightarrow> active sid s = Some r \<Longrightarrow> known r s \<and> sess r s = sid"
  "spawn_ok s \<Longrightarrow> r \<in> set (rn_live s) \<Longrightarrow> known r s \<and> \<not> fin r s \<and> active (sess r s) s = Some r"
  "spawn_ok s \<Longrightarrow> stage_of sid s = Some st \<Longrightarrow> stage_ok sid st s"
  "spawn_ok s \<Longrightarrow> r \<in> set (rn_finishing s) \<Longrightarrow> known r s \<and> fin r s"
  by (auto simp: spawn_ok_def)

text \<open>A new runtime: its session has none before, so no container of it runs.\<close>

lemma spawn_ok_register:
  assumes s: "spawn_ok s" and none: "active sid s = None"
  shows "spawn_ok (at_stage sid (Arming (length (rn_runtimes s))) (registerRuntime sid name ad now n s))"
proof -
  let ?s = "registerRuntime sid name ad now n s" and ?r = "length (rn_runtimes s)"
  have act: "\<forall>i r. active i ?s = Some r \<longrightarrow> known r ?s \<and> sess r ?s = i"
    by (simp add: runner_simps spawn_okD(1) [OF s])
  have live: "\<forall>r \<in> set (rn_live ?s). known r ?s \<and> \<not> fin r ?s \<and> active (sess r ?s) ?s = Some r"
  proof
    fix r assume "r \<in> set (rn_live ?s)"
    then have r: "known r s" "\<not> fin r s" "active (sess r s) s = Some r"
      using spawn_okD(2) [OF s] by (simp_all add: rt_simps)
    then have "sess r s \<noteq> sid" using none by auto
    with r show "known r ?s \<and> \<not> fin r ?s \<and> active (sess r ?s) ?s = Some r" by (simp add: runner_simps)
  qed
  have fin: "\<forall>r \<in> set (rn_finishing ?s). known r ?s \<and> fin r ?s"
    using spawn_okD(4) [OF s] by (simp add: runner_simps)
  have stage: "stage_ok i st ?s" if "i \<noteq> sid" "stage_of i s = Some st" for i st
    using spawn_okD(3) [OF s that(2)] that(1) by (cases st) (simp_all add: runner_simps)
  have a: "active i (at_stage sid st ?s) = active i ?s" "known r (at_stage sid st ?s) = known r ?s"
    "sess r (at_stage sid st ?s) = sess r ?s" "fin r (at_stage sid st ?s) = fin r ?s" for i r st
    by (simp_all add: runner_simps known_def sess_def fin_def)
  have a_stage: "stage_ok i st (at_stage sid st' ?s) = stage_ok i st ?s" for i st st' by (cases st) (simp_all add: a)
  show "spawn_ok (at_stage sid (Arming ?r) ?s)"
  proof -
    have "stage_ok i st ?s" if "stage_of i (at_stage sid (Arming ?r) ?s) = Some st" for i st
      using that stage by (cases "i = sid") (auto simp: runner_simps)
    then show ?thesis using act live fin unfolding spawn_ok_def a a_stage by (simp add: rt_simps)
  qed
qed

lemma spawn_ok_prepared:
  assumes "spawn_ok s"
  shows "spawn_ok (spawn_prepared sid ok db now s)"
proof (cases "find_wake sid s")
  case (Some w)
  note st = find_wake_stage [OF Some]
  show ?thesis
  proof (cases "wk_stage w")
    case (Claimed n)
    then have "active sid s = None" using assms st by (fastforce simp: spawn_ok_def)
    then show ?thesis using assms st
      by (simp add: spawn_prepared_def Some Claimed spawn_ok_register spawn_ok_end_wake spawn_ok_release)
  qed (use assms in \<open>simp_all add: spawn_prepared_def Some\<close>)
qed (use assms in \<open>simp add: spawn_prepared_def\<close>)

text \<open>Changing a runtime in a field the registry does not look at.\<close>

lemma spawn_ok_runtime:
  assumes "spawn_ok s" "\<And>t. rt_session (f t) = rt_session t" "\<And>t. rt_finished (f t) = rt_finished t"
  shows "spawn_ok (set_runtime r f s)"
proof (rule spawn_ok_same [OF assms(1)])
  show "same_registry s (set_runtime r f s)"
    using assms(2,3) by (auto simp: same_registry_def runner_simps) (simp_all add: sess_def fin_def)
qed (simp add: runner_simps)

text \<open>Dropping a runtime from the map, once its spawn is over and its container does not run.\<close>

lemma spawn_ok_drop:
  assumes s: "spawn_ok s" and r: "active sid s = Some r" "r \<notin> set (rn_live s)"
    and st: "\<And>stg. stage_of sid s = Some stg \<Longrightarrow> stage_ok sid stg (drop_active sid s)"
  shows "spawn_ok (drop_active sid s)"
proof -
  have k: "known q (drop_active sid s) = known q s" "sess q (drop_active sid s) = sess q s"
    "fin q (drop_active sid s) = fin q s" for q
    by (simp_all add: known_def sess_def fin_def runner_simps)
  have "stage_ok i stg (drop_active sid s)" if "i \<noteq> sid" "stage_of i s = Some stg" for i stg
    using spawn_okD(3) [OF s that(2)] that(1) by (cases stg) (simp_all add: k active_simps)
  then have "stage_ok i stg (drop_active sid s)" if "stage_of i s = Some stg" for i stg
    using st that by (cases "i = sid") simp_all
  then have "\<forall>i stg. stage_of i (drop_active sid s) = Some stg \<longrightarrow> stage_ok i stg (drop_active sid s)"
    by (simp add: stage_same_simps)
  moreover have "\<forall>q \<in> set (rn_live (drop_active sid s)).
      known q (drop_active sid s) \<and> \<not> fin q (drop_active sid s) \<and>
      active (sess q (drop_active sid s)) (drop_active sid s) = Some q"
  proof
    fix q assume "q \<in> set (rn_live (drop_active sid s))"
    then have q: "q \<in> set (rn_live s)" by (simp add: rt_simps)
    with r have "sess q s \<noteq> sid" using spawn_okD(2) [OF s q] by auto
    then show "known q (drop_active sid s) \<and> \<not> fin q (drop_active sid s) \<and>
      active (sess q (drop_active sid s)) (drop_active sid s) = Some q"
      using spawn_okD(2) [OF s q] by (simp add: k active_simps)
  qed
  moreover have "\<forall>i q. active i (drop_active sid s) = Some q \<longrightarrow> known q (drop_active sid s) \<and> sess q (drop_active sid s) = i"
    using spawn_okD(1) [OF s] by (simp add: k active_simps)
  moreover have "\<forall>q \<in> set (rn_finishing (drop_active sid s)). known q (drop_active sid s) \<and> fin q (drop_active sid s)"
    using spawn_okD(4) [OF s] by (simp add: k rt_simps)
  ultimately show ?thesis unfolding spawn_ok_def by blast
qed

lemma release_same [simp]:
  "rt_finished (rn_runtimes (release_claim ok sid n now s) ! r) = rt_finished (rn_runtimes s ! r)"
  by (simp add: rt_simps)

lemma spawn_ok_unwind:
  assumes s: "spawn_ok s" and r: "r \<notin> set (rn_live s)"
  shows "spawn_ok (spawn_unwind sid r db now s)"
proof -
  define s1 where "s1 = (case rt_claimIncarnation (rn_runtimes s ! r) of None \<Rightarrow> s | Some n \<Rightarrow> release_claim db sid n now s)"
  have s1: "spawn_ok s1" "rn_live s1 = rn_live s" "stage_of sid s1 = stage_of sid s"
    using s by (auto simp: s1_def spawn_ok_release runner_simps split: option.split)
  have u: "spawn_unwind sid r db now s =
     (if active sid s1 = Some r \<and> \<not> rt_finished (rn_runtimes s ! r)
      then end_wake sid (set_runtime r (\<lambda>t. t\<lparr>rt_resolved := True\<rparr>) (drop_active sid s1))
      else at_stage sid (Unwinding r) s1)"
    by (simp add: spawn_unwind_def s1_def Let_def)
  show ?thesis
  proof (cases "active sid s1 = Some r \<and> \<not> rt_finished (rn_runtimes s ! r)")
    case True
    have w: "end_wake sid (set_runtime r f (drop_active sid s1)) = set_runtime r f (drop_active sid (end_wake sid s1))" for f
      by (simp add: end_wake_def set_runtime_def drop_active_def)
    have "spawn_ok (drop_active sid (end_wake sid s1))"
      by (rule spawn_ok_drop [OF spawn_ok_end_wake [OF s1(1)], where r = r])
        (use True r s1 in \<open>simp_all add: runner_simps\<close>)
    then show ?thesis unfolding u w using True by (simp add: spawn_ok_runtime)
  next
    case False
    show ?thesis unfolding u if_not_P [OF False] using s1(1) by (simp add: spawn_ok_at_stage)
  qed
qed

lemma spawn_ok_started:
  assumes s: "spawn_ok s" and d: "driver_allows (StartDone sid ok db now) s"
  shows "spawn_ok (spawn_started sid ok db now s)"
proof (cases "find_wake sid s")
  case (Some w)
  note st = find_wake_stage [OF Some]
  show ?thesis
  proof (cases "wk_stage w")
    case (Arming r)
    have "stage_ok sid (Started r) s" using spawn_okD(3) [OF s, of sid "Arming r"] st Arming by simp
    then show ?thesis using s d st
      by (cases ok) (auto simp: spawn_started_def Some Arming intro: spawn_ok_at_stage spawn_ok_unwind)
  qed (use s in \<open>simp_all add: spawn_started_def Some\<close>)
qed (use s in \<open>simp add: spawn_started_def\<close>)

lemma spawn_ok_marked:
  assumes s: "spawn_ok s" and d: "driver_allows (Marked sid ok db now) s"
  shows "spawn_ok (spawn_marked E sid ok db now s)"
proof (cases "find_wake sid s")
  case (Some w)
  note st = find_wake_stage [OF Some]
  then show ?thesis using s d
    by (auto simp: spawn_marked_def Some spawn_ok_end_wake spawn_ok_rows split: spawn_stage.splits)
qed (use s in \<open>simp add: spawn_marked_def\<close>)

text \<open>The end of a runtime whose container does not run.\<close>

lemma spawn_ok_finishAndResolve:
  assumes s: "spawn_ok s" and r: "\<And>q. active sid s = Some q \<Longrightarrow> q \<notin> set (rn_live s)"
  shows "spawn_ok (finishAndResolve sid s)"
proof (cases "active sid s")
  case (Some q)
  note q = spawn_okD(1) [OF s Some]
  let ?f = "\<lambda>t. t\<lparr>rt_finished := True\<rparr>"
  let ?s = "(set_runtime q ?f s)\<lparr>rn_finishing := rn_finishing s @ [q]\<rparr>"
  have k: "known p ?s = known p s" "known p s \<Longrightarrow> sess p ?s = sess p s" "known p s \<Longrightarrow> fin p ?s = (p = q \<or> fin p s)"
    "active i ?s = active i s" "stage_of i ?s = stage_of i s" "rn_live ?s = rn_live s" "rn_finishing ?s = rn_finishing s @ [q]" for p i
    using known_simps(1) [of p q ?f s] sess_simps(1) [of p s q ?f] sess_simps(2) [of p s q ?f] active_simps(4) [of i q ?f s]
      stage_same_simps(4) [of i q ?f s]
    by (simp_all add: known_def sess_def fin_def active_def stage_of_def find_wake_def rt_simps)
  have "stage_ok i st ?s" if "stage_of i s = Some st" for i st
    using spawn_okD(3) [OF s that] by (cases st) (auto simp: k)
  moreover have "known p s \<and> \<not> fin p ?s \<and> active (sess p ?s) s = Some p" if "p \<in> set (rn_live s)" for p
    using spawn_okD(2) [OF s that] r [OF Some] that by (auto simp: k)
  moreover have "known p s \<and> sess p ?s = i" if "active i s = Some p" for i p
    using spawn_okD(1) [OF s that] by (simp add: k)
  moreover have "known p s \<and> fin p ?s" if "p \<in> set (rn_finishing s @ [q])" for p
    using spawn_okD(4) [OF s, of p] q that by (auto simp: k)
  ultimately have "spawn_ok ?s" unfolding spawn_ok_def k by simp
  then show ?thesis using s by (simp add: finishAndResolve_def Some)
qed (use s in \<open>simp add: finishAndResolve_def\<close>)

lemma spawn_ok_finish_end:
  assumes s: "spawn_ok s"
  shows "spawn_ok (finish_end r s)"
proof (cases "r \<in> set (rn_finishing s)")
  case True
  note f = spawn_okD(4) [OF s True]
  define s1 where "s1 = (if active (sess r s) s = Some r then drop_active (sess r s) s else s)"
  have "spawn_ok s1"
  proof (cases "active (sess r s) s = Some r")
    case True
    have "stage_ok (sess r s) st (drop_active (sess r s) s)" if "stage_of (sess r s) s = Some st" for st
      using spawn_okD(3) [OF s that] True f
      by (cases st) (auto simp: active_simps, simp_all add: known_def sess_def fin_def rt_simps)
    then show ?thesis using True s f spawn_okD(2) [OF s] by (auto simp: s1_def intro: spawn_ok_drop)
  qed (use s in \<open>simp add: s1_def\<close>)
  then have 1: "spawn_ok (set_runtime r (\<lambda>t. t\<lparr>rt_resolved := True\<rparr>) s1)" by (simp add: spawn_ok_runtime)
  let ?s2 = "set_runtime r (\<lambda>t. t\<lparr>rt_resolved := True\<rparr>) s1"
  have "rn_finishing ?s2 = rn_finishing s" by (simp add: s1_def rt_simps)
  then have 2: "\<forall>q \<in> set (filter (\<lambda>x. x \<noteq> r) (rn_finishing s)). known q ?s2 \<and> fin q ?s2"
    using spawn_okD(4) [OF 1] by simp
  have k: "known q (?s2\<lparr>rn_called := c, rn_finishing := l\<rparr>) = known q ?s2" "sess q (?s2\<lparr>rn_called := c, rn_finishing := l\<rparr>) = sess q ?s2"
    "fin q (?s2\<lparr>rn_called := c, rn_finishing := l\<rparr>) = fin q ?s2"
    "active i (?s2\<lparr>rn_called := c, rn_finishing := l\<rparr>) = active i ?s2"
    "stage_of i (?s2\<lparr>rn_called := c, rn_finishing := l\<rparr>) = stage_of i ?s2"
    "rn_live (?s2\<lparr>rn_called := c, rn_finishing := l\<rparr>) = rn_live ?s2" for q i c l
    by (simp_all add: known_def sess_def fin_def active_def stage_of_def find_wake_def)
  have st: "stage_ok i st (?s2\<lparr>rn_called := c, rn_finishing := l\<rparr>) = stage_ok i st ?s2" for i st c l
    by (cases st) (simp_all add: k)
  have "spawn_ok (?s2\<lparr>rn_called := c, rn_finishing := filter (\<lambda>x. x \<noteq> r) (rn_finishing s)\<rparr>)" for c
    using spawn_okD(1-3) [OF 1] 2 unfolding spawn_ok_def k st by simp
  moreover have "finish_end r s = ?s2\<lparr>rn_called := rn_called s @ rt_exitCallbacks (rn_runtimes s ! r),
      rn_finishing := filter (\<lambda>x. x \<noteq> r) (rn_finishing s)\<rparr>"
    using True by (simp add: finish_end_def Let_def s1_def sess_def)
  ultimately show ?thesis by simp
qed (use s in \<open>simp add: finish_end_def\<close>)

lemma spawn_ok_kill:
  assumes "spawn_ok s"
  shows "spawn_ok (killContainer sid reason cb s)"
proof (cases "active sid s")
  case (Some r)
  let ?s = "set_runtime r (\<lambda>t. t\<lparr>rt_exitCallbacks := rt_exitCallbacks t @ (case cb of None \<Rightarrow> [] | Some c \<Rightarrow> [c]),
                                rt_stopReason := Some reason\<rparr>) s"
  have "spawn_ok ?s" using assms by (simp add: spawn_ok_runtime)
  then have "spawn_ok (?s\<lparr>rn_stops := rn_stops s @ [r]\<rparr>)" by (rule spawn_ok_host) simp_all
  then show ?thesis by (simp add: killContainer_def Some)
qed (use assms in \<open>simp add: killContainer_def\<close>)

lemma spawn_ok_orphans: "spawn_ok s \<Longrightarrow> spawn_ok (snd (stopOrphanedSessions s))"
proof -
  have "spawn_ok s \<Longrightarrow> spawn_ok (fold (\<lambda>p. killContainer (fst p) ''orphaned'' None) ps s)" for ps
    by (induction ps arbitrary: s) (auto intro: spawn_ok_kill)
  then show "spawn_ok s \<Longrightarrow> ?thesis" by (simp add: stopOrphanedSessions_def Let_def)
qed

lemma spawn_ok_live:
  assumes s: "spawn_ok s" and l: "\<forall>r \<in> set l. known r s \<and> \<not> fin r s \<and> active (sess r s) s = Some r"
  shows "spawn_ok (s\<lparr>rn_live := l\<rparr>)"
proof -
  have k: "known q (s\<lparr>rn_live := l\<rparr>) = known q s" "sess q (s\<lparr>rn_live := l\<rparr>) = sess q s" "fin q (s\<lparr>rn_live := l\<rparr>) = fin q s"
    "active i (s\<lparr>rn_live := l\<rparr>) = active i s" "stage_of i (s\<lparr>rn_live := l\<rparr>) = stage_of i s"
    "rn_finishing (s\<lparr>rn_live := l\<rparr>) = rn_finishing s" "rn_live (s\<lparr>rn_live := l\<rparr>) = l" for q i
    by (simp_all add: known_def sess_def fin_def active_def stage_of_def find_wake_def)
  have st: "stage_ok i st (s\<lparr>rn_live := l\<rparr>) = stage_ok i st s" for i st by (cases st) (simp_all add: k)
  show ?thesis using spawn_okD(1,3,4) [OF s] l unfolding spawn_ok_def k st by simp
qed

lemma current_active: "current r s \<Longrightarrow> active (rt_session (rn_runtimes s ! r)) s = Some q \<Longrightarrow> q = r"
  by (auto simp: current_def)

lemma spawn_ok_step:
  assumes s: "spawn_ok s" and d: "driver_allows e s"
  shows "spawn_ok (runner_step E e s)"
proof (cases e)
  case (ComesUp r)
  with d have r: "known r s" "\<not> fin r s" "stage_of (sess r s) s = Some (Arming r)"
    by (simp_all add: known_def fin_def sess_def)
  from spawn_okD(3) [OF s r(3)] r(2) have "active (sess r s) s = Some r" by simp
  with r spawn_okD(2) [OF s] show ?thesis unfolding ComesUp runner_step.simps by (intro spawn_ok_live [OF s]) auto
next
  case (Dies r)
  show ?thesis unfolding Dies runner_step.simps by (rule spawn_ok_live [OF s]) (use spawn_okD(2) [OF s] in auto)
next
  case (EndReported r)
  with d show ?thesis by (auto intro!: spawn_ok_finishAndResolve s dest: current_active)
next
  case (StopSettled r)
  have "spawn_ok (s\<lparr>rn_stops := p\<rparr>)" for p by (rule spawn_ok_host [OF s]) simp_all
  with d show ?thesis
    by (auto simp: StopSettled stop_settled_def Let_def s active_simps intro!: spawn_ok_finishAndResolve dest: current_active)
next
  case (FinishMark r db)
  then show ?thesis using s by (simp add: finish_mark_def spawn_ok_rows)
qed (use s d in \<open>simp_all add: spawn_ok_wake spawn_ok_compose spawn_ok_claim spawn_ok_prepared spawn_ok_started spawn_ok_marked
       spawn_ok_finish_end spawn_ok_kill spawn_ok_orphans\<close>)

lemma spawn_ok_run: "spawn_ok s \<Longrightarrow> driver_ok E es s \<Longrightarrow> spawn_ok (runner_run E es s)"
  unfolding runner_run_def by (induction es arbitrary: s) (auto intro: spawn_ok_step)

subsection \<open>Startup\<close>

text \<open>The host has just started, and adopts what the driver lists: the containers it adopts run.\<close>

record listed =
  ls_key :: "string option"
  ls_name :: string
  ls_running :: bool
  ls_claim_ok :: bool
  ls_lease_ok :: bool
  ls_db :: bool
  ls_now :: int

fun adopt_all :: "sess_env \<Rightarrow> listed list \<Rightarrow> runner \<Rightarrow> runner" where
  "adopt_all E [] s = s"
| "adopt_all E (l # ls) s =
     (case adoptOneSession E (ls_key l) (ls_name l) (ls_running l) (ls_claim_ok l) (ls_lease_ok l) (ls_db l) (ls_now l) s of
        (Adopted, s') \<Rightarrow> adopt_all E ls (s'\<lparr>rn_live := rn_live s' @ [length (rn_runtimes s)]\<rparr>)
      | (_, s') \<Rightarrow> adopt_all E ls s')"

definition just_started :: "runner \<Rightarrow> bool" where
  "just_started s \<longleftrightarrow> rn_runtimes s = [] \<and> rn_active s = [] \<and> rn_wakes s = [] \<and> rn_stops s = [] \<and> rn_finishing s = [] \<and> rn_live s = []"

lemma spawn_ok_adopted:
  assumes s: "spawn_ok s" and none: "active sid s = None" "rn_wakes s = []"
    and s': "s' = on_rows ok m (registerRuntime sid name True now n s)"
  shows "spawn_ok (s'\<lparr>rn_live := rn_live s' @ [length (rn_runtimes s)]\<rparr>) \<and>
         (\<forall>i. i \<noteq> sid \<longrightarrow> active i s' = active i s) \<and> rn_wakes s' = []"
proof -
  let ?s = "registerRuntime sid name True now n s" and ?r = "length (rn_runtimes s)"
  have act: "\<forall>i q. active i ?s = Some q \<longrightarrow> known q ?s \<and> sess q ?s = i"
    by (simp add: runner_simps spawn_okD(1) [OF s])
  have live: "known q ?s \<and> \<not> fin q ?s \<and> active (sess q ?s) ?s = Some q" if "q \<in> set (rn_live s @ [?r])" for q
  proof (cases "q = ?r")
    case False
    then have q: "known q s" "\<not> fin q s" "active (sess q s) s = Some q" using spawn_okD(2) [OF s] that by simp_all
    then have "sess q s \<noteq> sid" using none by auto
    with q show ?thesis by (simp add: runner_simps)
  qed (simp add: runner_simps)
  have "\<forall>q \<in> set (rn_finishing ?s). known q ?s \<and> fin q ?s" using spawn_okD(4) [OF s] by (simp add: runner_simps)
  moreover have "stage_of i ?s = None" for i using none by (simp add: runner_simps) (simp add: stage_of_def find_wake_def)
  ultimately have "spawn_ok ?s" unfolding spawn_ok_def using act live by (simp add: rt_simps)
  then have "spawn_ok s'" unfolding s' by (rule spawn_ok_rows)
  moreover have "known q s' = known q ?s" "sess q s' = sess q ?s" "fin q s' = fin q ?s" "active i s' = active i ?s" for q i
    by (simp_all add: s' known_def sess_def fin_def active_def rt_simps) (simp add: on_rows_def)
  moreover have "rn_live s' = rn_live s" "rn_wakes s' = []" using none by (simp_all add: s' rt_simps)
  ultimately show ?thesis using live by (auto intro!: spawn_ok_live simp: runner_simps)
qed

lemma adopt_other:
  assumes "adoptOneSession E key name run cl le db now s = (a, s')" "a \<noteq> Adopted"
  shows "rn_runtimes s' = rn_runtimes s \<and> rn_active s' = rn_active s \<and> rn_live s' = rn_live s \<and>
         rn_finishing s' = rn_finishing s \<and> rn_wakes s' = rn_wakes s"
  using assms by (auto simp: adoptOneSession_def release_claim_def Let_def split: option.splits prod.splits if_splits)

lemma adopt_adopted:
  assumes "adoptOneSession E key name run cl le db now s = (Adopted, s')"
  shows "\<exists>sid n c. key = Some sid \<and> s' = on_rows True (markContainerRunning E sid) (registerRuntime sid name True now n (s\<lparr>rn_coord := c\<rparr>))"
proof -
  have "s_id row = i" if "getSession i rows = Some row" for i row rows
    using that by (auto simp: getSession_def dest: find_SomeD)
  with assms show ?thesis
    by (fastforce simp: adoptOneSession_def Let_def split: option.splits prod.splits if_splits)
qed

lemma spawn_ok_adopt_all:
  assumes "spawn_ok s" "rn_wakes s = []" "distinct (map ls_key ls)"
    "\<And>l sid. l \<in> set ls \<Longrightarrow> ls_key l = Some sid \<Longrightarrow> active sid s = None"
  shows "spawn_ok (adopt_all E ls s)"
  using assms
proof (induction ls arbitrary: s)
  case (Cons l ls)
  obtain a s' where a: "adoptOneSession E (ls_key l) (ls_name l) (ls_running l) (ls_claim_ok l) (ls_lease_ok l) (ls_db l)
      (ls_now l) s = (a, s')" by fastforce
  show ?case
  proof (cases "a = Adopted")
    case True
    with adopt_adopted a obtain sid n c where c: "ls_key l = Some sid"
      "s' = on_rows True (markContainerRunning E sid) (registerRuntime sid (ls_name l) True (ls_now l) n (s\<lparr>rn_coord := c\<rparr>))" by blast
    have "spawn_ok (s\<lparr>rn_coord := c\<rparr>)" by (rule spawn_ok_host [OF Cons.prems(1)]) simp_all
    have "active sid s = None" using Cons.prems(4) [of l] c(1) by simp
    then have n: "active sid (s\<lparr>rn_coord := c\<rparr>) = None" "rn_wakes (s\<lparr>rn_coord := c\<rparr>) = []"
      using Cons.prems(2) by (simp_all add: active_def)
    note new = spawn_ok_adopted [OF \<open>spawn_ok (s\<lparr>rn_coord := c\<rparr>)\<close> n c(2)]
    have 1: "spawn_ok (s'\<lparr>rn_live := rn_live s' @ [length (rn_runtimes s)]\<rparr>)" "rn_wakes s' = []"
      using new by simp_all
    have 2: "\<forall>i. i \<noteq> sid \<longrightarrow> active i s' = active i s" using new by (simp add: active_def)
    have other: "active i s' = None" if "m \<in> set ls" "ls_key m = Some i" for m i
    proof -
      have "Some i \<in> set (map ls_key ls)" using that by (metis imageI list.set_map)
      then have "i \<noteq> sid" using Cons.prems(3) c(1) by auto
      moreover have "active i s = None" by (rule Cons.prems(4) [of m]) (use that in simp_all)
      ultimately show ?thesis using 2 by simp
    qed
    have "spawn_ok (adopt_all E ls (s'\<lparr>rn_live := rn_live s' @ [length (rn_runtimes s)]\<rparr>))"
    proof (rule Cons.IH [OF 1(1)])
      show "rn_wakes (s'\<lparr>rn_live := rn_live s' @ [length (rn_runtimes s)]\<rparr>) = []" using 1(2) by simp
      show "distinct (map ls_key ls)" using Cons.prems(3) by simp
      fix m i assume "m \<in> set ls" "ls_key m = Some i"
      from other [OF this] show "active i (s'\<lparr>rn_live := rn_live s' @ [length (rn_runtimes s)]\<rparr>) = None"
        by (simp add: active_def)
    qed
    then show ?thesis by (simp add: a True)
  next
    case False
    note same = adopt_other [OF a False]
    have ok: "spawn_ok s'" by (rule spawn_ok_host [OF Cons.prems(1)]) (simp_all add: same)
    have "spawn_ok (adopt_all E ls s')"
    proof (rule Cons.IH [OF ok])
      show "rn_wakes s' = []" using Cons.prems(2) same by simp
      show "distinct (map ls_key ls)" using Cons.prems(3) by simp
      fix m i assume "m \<in> set ls" "ls_key m = Some i"
      then have "active i s = None" by (intro Cons.prems(4) [of m]) simp_all
      then show "active i s' = None" by (simp add: active_def same)
    qed
    then show ?thesis using False by (cases a) (simp_all add: a)
  qed
qed simp


definition demo_session :: session_row where
  "demo_session = \<lparr>s_id = ''s'', s_agent_group_id = ''a'', s_messaging_group_id = None, s_thread_id = None,
     s_agent_provider = None, s_status = Active, s_container_status = Stopped, s_last_active = None, s_created_at = Iso 0\<rparr>"

definition demo_runner :: runner where
  "demo_runner =
     \<lparr>rn_host = \<lparr>ss_sessions = [demo_session], ss_mail = (\<lambda>_. None), ss_world = \<lparr>w_fs = demo_fs, w_tick = 0\<rparr>, ss_token = (\<lambda>_. ''t''), ss_drawn = 0,
                 hd_agents = [\<lparr>ag_id = ''a'', ag_name = ''A'', ag_folder = ''f'', ag_agent_provider = None, ag_created_at = Iso 0\<rparr>],
                 hd_chat = \<lparr>cd_groups = [], cd_wirings = [], cd_edges = \<lparr>eb_destinations = [], eb_policies = []\<rparr>, cd_dms = []\<rparr>,
                 hd_perm = \<lparr>pd_users = [], pd_roles = [], pd_members = []\<rparr>, hd_approvals = [], hd_questions = [],
                 hd_attempts = [], hd_inflight = [], hd_configs = [], hd_folders = [], hd_log = []\<rparr>,
      rn_coord = \<lparr>co_hosts = [], co_claims = [], co_attempts = [], co_signals = []\<rparr>, rn_self = ''h'', rn_runtimes = [],
      rn_active = [], rn_wakes = [], rn_stops = [], rn_finishing = [], rn_called = [], rn_live = []\<rparr>"

text \<open>A spawn of the demonstration session up to its registration, and one that succeeds.\<close>

definition demo_begin :: "runner_event list" where
  "demo_begin = [Wake ''s'' ''a'', Compose ''s'' True 1, Claim ''s'' 2, PrepareDone ''s'' True True 3]"

definition demo_spawn :: "nat \<Rightarrow> runner_event list" where
  "demo_spawn r = demo_begin @ [ComesUp r, StartDone ''s'' True True 4, Marked ''s'' True True 5]"



end
