(* ===== verification/SweepSafety.thy ===== *)
theory SweepSafety
  imports HostSweep SpawnSafety
begin

text \<open>
  When the sweep kills a container and when it does not, and what becomes of the messages a container
  had claimed.
\<close>

text \<open>\<open>Date.parse\<close> reads what \<open>toISOString\<close> prints.\<close>

definition reads_iso :: "clock \<Rightarrow> bool" where
  "reads_iso ck \<longleftrightarrow> (\<forall>t. \<bar>t\<bar> \<le> MAX_DATE \<longrightarrow> ck_dateParse ck (toISOString t) = Some t)"

lemma demo_reads_iso: "reads_iso demo_clock"
  by (simp add: reads_iso_def demo_clock_def)

subsection \<open>The decision\<close>

lemma at_least_ge: "base \<le> at_least base declared"
  by (simp add: at_least_def)

text \<open>A claim is unanswered when it is older than the tolerance and no heartbeat has come since.\<close>

definition unanswered :: "(string \<Rightarrow> int option) \<Rightarrow> int \<Rightarrow> rat \<Rightarrow> int \<Rightarrow> string \<times> string \<Rightarrow> bool" where
  "unanswered parse now heartbeat tolerance c =
     (case parse (snd c) of None \<Rightarrow> False | Some t \<Rightarrow> now - t > tolerance \<and> heartbeat \<le> of_int t)"

lemma stuck_claim_ok_iff:
  "stuck_claim parse now hb tol claims = StuckOk \<longleftrightarrow> \<not> (\<exists>c \<in> set claims. unanswered parse now hb tol c)"
proof (induction claims)
  case (Cons c claims)
  have "stuck_claim parse now hb tol (c # claims) = StuckOk \<longleftrightarrow>
      \<not> unanswered parse now hb tol c \<and> stuck_claim parse now hb tol claims = StuckOk"
    by (cases c) (auto simp: unanswered_def split: option.split)
  with Cons.IH show ?case by simp
qed simp

lemma decide_ok_iff:
  "decideStuckAction parse now hb started st claims = StuckOk \<longleftrightarrow>
     \<not> (effective_heartbeat hb started \<noteq> 0 \<and>
        of_int now - effective_heartbeat hb started > of_int (at_least ABSOLUTE_CEILING_MS (bashTimeoutMs st))) \<and>
     \<not> (\<exists>c \<in> set claims. unanswered parse now hb (at_least CLAIM_STUCK_MS (bashTimeoutMs st)) c)"
  by (simp add: decideStuckAction_def Let_def stuck_claim_ok_iff)

text \<open>A claim as the gate passes it on: never earlier than the start of the incarnation.\<close>

lemma gated_claim_time:
  assumes "reads_iso ck" "\<bar>start\<bar> \<le> MAX_DATE"
  shows "ck_dateParse ck (snd (gate_claim (ck_dateParse ck) start c)) = map_option (max start) (ck_dateParse ck (snd c))"
  using assms by (auto simp: gate_claim_def reads_iso_def max_def split: option.split)

subsection \<open>The incarnation gate\<close>

lemma enforce_cases:
  "enforceRunningContainerSla E ag sid s =
     (case sla_decision E ag sid s of
        Inl e \<Rightarrow> (Inl e, s)
      | Inr StuckOk \<Rightarrow> (Inr (), s)
      | Inr (KillCeiling _ _) \<Rightarrow> kill_stuck E ag sid ''absolute-ceiling'' s
      | Inr (KillClaim _ _ _) \<Rightarrow> kill_stuck E ag sid ''claim-stuck'' s)"
  by (auto simp: enforceRunningContainerSla_def io_throw_def io_return_def split: sum.split stuck_decision.split)

lemma fresh_decision:
  assumes iso: "reads_iso ck" "\<bar>start\<bar> \<le> MAX_DATE"
    and fresh: "ck_now ck - start \<le> CLAIM_STUCK_MS"
    and young: "\<And>t. started = Some t \<Longrightarrow> ck_now ck - t \<le> ABSOLUTE_CEILING_MS"
  shows "decideStuckAction (ck_dateParse ck) (ck_now ck) (gate_heartbeat start raw) started st
           (map (gate_claim (ck_dateParse ck) start) claims) = StuckOk"
proof -
  let ?hb = "gate_heartbeat start raw"
  have "of_int (ck_now ck) - effective_heartbeat ?hb started \<le> (of_int (at_least ABSOLUTE_CEILING_MS d) :: rat)"
    if "effective_heartbeat ?hb started \<noteq> 0" for d
  proof -
    have c: "(of_int ABSOLUTE_CEILING_MS :: rat) \<le> of_int (at_least ABSOLUTE_CEILING_MS d)"
      using at_least_ge by (simp only: of_int_le_iff)
    show ?thesis
    proof (cases "?hb = 0")
      case True
      with that obtain t where t: "started = Some t" by (auto simp: effective_heartbeat_def split: option.splits)
      then have "(of_int (ck_now ck) :: rat) - of_int t \<le> of_int ABSOLUTE_CEILING_MS"
        using young by (metis of_int_diff of_int_le_iff)
      then show ?thesis using c t True by (simp add: effective_heartbeat_def)
    next
      case False
      then have hb: "?hb = raw" "of_int start \<le> raw" by (auto simp: gate_heartbeat_def split: if_splits)
      have "ck_now ck - start \<le> ABSOLUTE_CEILING_MS" using fresh by (simp add: CLAIM_STUCK_MS_def ABSOLUTE_CEILING_MS_def)
      then have "(of_int (ck_now ck) :: rat) - of_int start \<le> of_int ABSOLUTE_CEILING_MS"
        by (metis of_int_diff of_int_le_iff)
      then show ?thesis using c hb False by (simp add: effective_heartbeat_def)
    qed
  qed
  moreover have "\<not> unanswered (ck_dateParse ck) (ck_now ck) ?hb (at_least CLAIM_STUCK_MS d)
      (gate_claim (ck_dateParse ck) start c)" for d c
    using gated_claim_time [OF iso, of c] fresh at_least_ge [of CLAIM_STUCK_MS d]
    by (auto simp: unanswered_def split: option.splits)
  ultimately show ?thesis by (auto simp: decide_ok_iff not_less)
qed

text \<open>
  C14. A container whose host has just claimed the session is left alone: within the first minute of its
  claim neither a heartbeat file nor a processing claim, whatever its date, that an earlier incarnation
  has left behind makes the sweep kill it or touch its messages, and no entry in the container's state does.
\<close>

theorem fresh_incarnation_spared:
  assumes "reads_iso (sw_clock E)" "getSessionClaim sid (rn_coord s) = Some c" "sc_claimed_at c = Some t" "\<bar>t\<bar> \<le> MAX_DATE"
    and "ck_now (sw_clock E) - t \<le> CLAIM_STUCK_MS"
    and "list_all (\<lambda>st. ck_now (sw_clock E) - st \<le> ABSOLUTE_CEILING_MS) (case getContainerStartedAtMs sid s of None \<Rightarrow> [] | Some st \<Rightarrow> [st])"
  shows "snd (enforceRunningContainerSla E ag sid s) = s"
proof -
  have start: "incarnation_start sid (rn_coord s) = t" using assms(2,3) by (simp add: incarnation_start_def)
  have "d = StuckOk" if "sla_decision E ag sid s = Inr d" for d
    using that fresh_decision [OF assms(1,4,5), of "getContainerStartedAtMs sid s"] assms(6)
    by (auto simp: sla_decision_def Let_def bnd_def start split: sum.splits option.splits)
  then show ?thesis by (auto simp: enforce_cases split: sum.split stuck_decision.split)
qed

subsection \<open>Exactly the silent containers\<close>

lemma kill_stops:
  assumes "active sid s = Some r"
  shows "rn_stops (snd (kill_stuck E ag sid reason s)) = rn_stops s @ [r]"
proof -
  have "rn_stops (snd (in_mail ag sid m s1)) = rn_stops s1" for m :: "(mailbox, unit) sm" and s1
    by (simp add: in_mail_def in_host_def split: prod.split)
  then show ?thesis using assms by (simp add: kill_stuck_def killContainer_def set_runtime_def)
qed


subsection \<open>A state that does not parse\<close>

text \<open>
  When the row in which the container declares its tool does not parse, its timeout being a fraction
  of a millisecond, as an agent may ask for, the sweep throws before it decides: the container is never
  found stuck, however long it is silent.
\<close>

theorem fractional_timeout_hides_stuck:
  assumes "mb_container (mailbox_of ag sid (rn_host s)) = Some row" "ct_timeout row = JOther f"
  shows "snd (enforceRunningContainerSla E ag sid s) = s"
proof -
  have "nullableNonNegativeInteger ps k \<noteq> Inr x" if "own ps k = JOther f" for ps k x
    using that by (auto simp: nullableNonNegativeInteger_iff null_num_def split: option.splits)
  then have "getContainerState ck (mailbox_of ag sid (rn_host s)) \<noteq> Inr st" for ck st
    using assms by (auto simp: getContainerState_def bnd_Inr parseContainerRecord_def)
  then have "\<exists>e. sla_decision E ag sid s = Inl e"
    by (auto simp: sla_decision_def Let_def bnd_def split: sum.split)
  then show ?thesis by (auto simp: enforce_cases)
qed

subsection \<open>The retry ladder\<close>

lemma is_digit_last: "SQLITE_TIMESTAMP s \<Longrightarrow> is_digit (last s)"
proof -
  assume s: "SQLITE_TIMESTAMP s"
  have len: "length (take 19 s) = 19" and shape: "list_all2 (\<lambda>p c. if p = CHR ''d'' then is_digit c
                       else if p = CHR ''s'' then c = CHR '' '' \<or> c = CHR ''T'' else c = p)
      ''dddd-dd-ddsdd:dd:dd'' (take 19 s)"
    using s by (simp_all add: SQLITE_TIMESTAMP_def matches_shape_def)
  show ?thesis
  proof (cases "drop 19 s")
    case Nil
    then have "take 19 s = s" by simp
    with len shape have "length s = 19" "is_digit (s ! 18)" by (auto simp: list_all2_conv_all_nth dest: spec [of _ 18])
    then show ?thesis by (cases "s = []") (simp_all add: last_conv_nth)
  next
    case (Cons c cs)
    with s have "cs \<noteq> []" "list_all is_digit cs" by (auto simp: SQLITE_TIMESTAMP_def)
    moreover have "s = take 19 s @ c # cs" using Cons by (metis append_take_drop_id)
    then have "last s = last cs" using \<open>cs \<noteq> []\<close> by (metis last_ConsR last_appendR list.distinct(1))
    ultimately show ?thesis by (simp add: list_all_iff)
  qed
qed

lemma sqliteTimestamp_iso: "reads_iso ck \<Longrightarrow> \<bar>t\<bar> \<le> MAX_DATE \<Longrightarrow> sqliteTimestamp ck (toISOString t) = toISOString t"
proof -
  assume ck: "reads_iso ck" "\<bar>t\<bar> \<le> MAX_DATE"
  have "last (toISOString t) = CHR ''Z''" by (simp add: toISOString_def Let_def split: prod.split)
  then have "\<not> SQLITE_TIMESTAMP (toISOString t)" using is_digit_last by (fastforce simp: is_digit_def)
  then show ?thesis using ck by (simp add: sqliteTimestamp_def reads_iso_def)
qed

lemma toISOString_nonempty: "toISOString t \<noteq> []"
  by (simp add: toISOString_def Let_def split: prod.split)

text \<open>What the reset does to the row of a message that was claimed.\<close>

definition retried :: "clock \<Rightarrow> inbound_record \<Rightarrow> inbound_record" where
  "retried ck r =
     (if ir_status r \<noteq> MsgPending \<or> postponed ck (map_option (sqliteTimestamp ck) (ir_processAfter r)) then r
      else if ir_tries r \<ge> MAX_TRIES then r\<lparr>ir_status := MsgFailed\<rparr>
      else r\<lparr>ir_tries := ir_tries r + 1,
             ir_processAfter := Some (toISOString (ck_now ck + BACKOFF_BASE_MS * 2 ^ nat (ir_tries r) div 1000 * 1000))\<rparr>)"

lemma getMessageIn_update:
  "getMessageIn j (on_in (update_where (\<lambda>r. ir_id r = i) f) mb) =
     (if j = i then map_option f (getMessageIn i mb) else getMessageIn j mb)" if "\<And>r. ir_id (f r) = ir_id r"
proof -
  have "find (\<lambda>r. ir_id r = j) (update_where (\<lambda>r. ir_id r = i) f rows) =
      (if j = i then map_option f (find (\<lambda>r. ir_id r = i) rows) else find (\<lambda>r. ir_id r = j) rows)" for rows
    by (induction rows) (auto simp: that update_where_Cons)
  then show ?thesis by (simp add: getMessageIn_def on_in_def)
qed

lemma ids_ok_update: "(\<And>r. ir_id (f r) = ir_id r) \<Longrightarrow> ids_ok (on_in (update_where p f) mb) = ids_ok mb"
  by (simp add: ids_ok_def on_in_def map_update_where)

lemma find_pending:
  "distinct (map ir_id rows) \<Longrightarrow> find (\<lambda>r. ir_id r = i \<and> ir_status r = MsgPending) rows =
     (case find (\<lambda>r. ir_id r = i) rows of None \<Rightarrow> None | Some r \<Rightarrow> if ir_status r = MsgPending then Some r else None)"
proof (induction rows)
  case (Cons r rows)
  show ?case
  proof (cases "ir_id r = i")
    case True
    with Cons.prems have "find (\<lambda>r. ir_id r = i \<and> ir_status r = MsgPending) rows = None"
      by (auto simp: find_None_iff image_iff)
    with True show ?thesis by simp
  next
    case False
    with Cons show ?thesis by simp
  qed
qed simp

lemma retry_one_row:
  assumes "ids_ok mb"
  shows "ids_ok (retry_one ck i mb) \<and> mb_acks (retry_one ck i mb) = mb_acks mb \<and>
    getMessageIn j (retry_one ck i mb) = (if j = i then map_option (retried ck) (getMessageIn i mb) else getMessageIn j mb)"
proof -
  have find: "getMessageForRetry ck i MsgPending mb = (case getMessageIn i mb of
      None \<Rightarrow> None
    | Some r \<Rightarrow> if ir_status r = MsgPending
                then Some (ir_id r, ir_tries r, map_option (sqliteTimestamp ck) (ir_processAfter r)) else None)"
    using find_pending [of "mb_in mb" i] assms
    by (simp add: getMessageForRetry_def getMessageIn_def ids_ok_def split: option.split)
  have id: "ir_id r = i" if "getMessageIn i mb = Some r" for r
    using that by (auto simp: getMessageIn_def dest: find_SomeD)
  have acks: "mb_acks (on_in f mb) = mb_acks mb" for f by (simp add: on_in_def)
  show ?thesis
  proof (cases "getMessageIn i mb")
    case None
    then show ?thesis using find assms by (simp add: retry_one_def)
  next
    case (Some r)
    with find id show ?thesis using assms
      by (auto simp: retry_one_def retried_def markMessageFailed_def retryWithBackoff_def getMessageIn_update ids_ok_update
          set_status_def acks)
  qed
qed

lemma retry_all_row:
  assumes "ids_ok mb" "distinct is"
  shows "ids_ok (fold (retry_one ck) is mb) \<and> mb_acks (fold (retry_one ck) is mb) = mb_acks mb \<and>
    getMessageIn j (fold (retry_one ck) is mb) =
      (if j \<in> set is then map_option (retried ck) (getMessageIn j mb) else getMessageIn j mb)"
  using assms
proof (induction "is" arbitrary: mb)
  case (Cons i "is")
  from retry_one_row [OF Cons.prems(1), of ck i] have ok: "ids_ok (retry_one ck i mb)" by blast
  from Cons.IH [OF ok] retry_one_row [OF Cons.prems(1), of ck i] Cons.prems(2) show ?case by auto
qed simp

text \<open>
  One round of a message that never gets done: a container claims it and falls silent or dies, and the
  sweep resets it.
\<close>

definition stuck_round :: "string \<Rightarrow> clock \<Rightarrow> mailbox \<Rightarrow> mailbox" where
  "stuck_round i ck mb = snd (resetStuckProcessingRows ck (markProcessing ck [i] mb))"

definition unclaimed_mail :: "mailbox \<Rightarrow> bool" where
  "unclaimed_mail mb \<longleftrightarrow> ids_ok mb \<and> list_all (\<lambda>a. ak_status a \<noteq> AckProcessing) (mb_acks mb)"

lemma stuck_round_row:
  assumes "unclaimed_mail mb" "reads_iso ck" "\<bar>ck_now ck\<bar> \<le> MAX_DATE"
  shows "unclaimed_mail (stuck_round i ck mb) \<and>
    getMessageIn i (stuck_round i ck mb) = map_option (retried ck) (getMessageIn i mb)"
proof -
  define mb1 where "mb1 = markProcessing ck [i] mb"
  have mb1: "ids_ok mb1" "\<And>j. getMessageIn j mb1 = getMessageIn j mb"
    and acks: "filter (\<lambda>a. ak_status a = AckProcessing) (mb_acks mb1) =
        [\<lparr>ak_messageId = i, ak_status = AckProcessing, ak_statusChanged = now_iso ck\<rparr>]"
    using assms(1) by (auto simp: mb1_def markProcessing_def mark_def put_ack_def unclaimed_mail_def ids_ok_def
        getMessageIn_def delete_where_def list_all_iff filter_empty_conv)
  have "getProcessingClaims ck mb1 = [Inr (i, now_iso ck)]"
    using assms(2,3)
    by (simp add: getProcessingClaims_def acks now_iso_def sqliteTimestamp_iso bnd_def parseProcessingAckRecord_def
        strictRecord_iff fields_in_def text_of_def timestamp_of_def parseIsoTimestamp_def oneOf_def PROCESSING_STATUSES_def)
  then have "stuck_round i ck mb = snd (deleteOrphanProcessingClaims (retry_one ck i mb1))"
    by (simp add: stuck_round_def mb1_def [symmetric] resetStuckProcessingRows_def bnd_def)
  with retry_one_row [OF mb1(1), of ck i i] mb1(2) show ?thesis
    by (auto simp: deleteOrphanProcessingClaims_def Let_def unclaimed_mail_def ids_ok_def getMessageIn_def list_all_iff)
qed

text \<open>The rounds are at least 80 seconds apart, the longest the sweep puts a message off.\<close>

fun rounds_ok :: "clock list \<Rightarrow> bool" where
  "rounds_ok [] = True"
| "rounds_ok (a # cks) \<longleftrightarrow> reads_iso a \<and> \<bar>ck_now a\<bar> + 80000 \<le> MAX_DATE \<and>
     (case cks of [] \<Rightarrow> True | b # _ \<Rightarrow> ck_now a + 80000 \<le> ck_now b) \<and> rounds_ok cks"

definition ready :: "clock list \<Rightarrow> inbound_record \<Rightarrow> bool" where
  "ready cks r \<longleftrightarrow> (case cks of [] \<Rightarrow> True
     | ck # _ \<Rightarrow> \<not> postponed ck (map_option (sqliteTimestamp ck) (ir_processAfter r)))"

lemma rung_cases: "(k :: nat) \<le> 4 \<Longrightarrow> BACKOFF_BASE_MS * 2 ^ k div 1000 * 1000 \<le> 80000 \<and> 0 \<le> BACKOFF_BASE_MS * 2 ^ k div 1000 * 1000"
proof -
  assume "k \<le> 4"
  then have "k = 0 \<or> k = 1 \<or> k = 2 \<or> k = 3 \<or> k = 4" by linarith
  then show ?thesis by (auto simp: BACKOFF_BASE_MS_def)
qed

lemma retried_rung:
  assumes "rounds_ok (ck # cks)" "ready (ck # cks) r" "ir_status r = MsgPending" "ir_tries r = int k" "k \<le> 4"
  shows "ir_status (retried ck r) = MsgPending \<and> ir_tries (retried ck r) = int (Suc k) \<and> ready cks (retried ck r)"
proof -
  let ?t = "ck_now ck + BACKOFF_BASE_MS * 2 ^ k div 1000 * 1000"
  have r: "retried ck r = r\<lparr>ir_tries := ir_tries r + 1, ir_processAfter := Some (toISOString ?t)\<rparr>"
    using assms(2-) by (simp add: retried_def ready_def MAX_TRIES_def)
  have range: "\<bar>?t\<bar> \<le> MAX_DATE" using assms(1) rung_cases [OF assms(5)] by simp linarith
  have "\<not> postponed b (Some (sqliteTimestamp b (toISOString ?t)))" if "reads_iso b" "ck_now ck + 80000 \<le> ck_now b" for b
    using that range rung_cases [OF assms(5)] sqliteTimestamp_iso [OF that(1) range]
    by (auto simp: postponed_def reads_iso_def split: option.split)
  then have "ready cks (retried ck r)"
    using assms(1) by (cases cks) (simp_all add: ready_def r)
  then show ?thesis using assms(3,4) r by simp
qed

lemma failed_stays:
  assumes "rounds_ok cks" "unclaimed_mail mb" "getMessageIn i mb = Some r" "ir_status r = MsgFailed"
  shows "\<exists>r'. getMessageIn i (fold (stuck_round i) cks mb) = Some r' \<and> ir_status r' = MsgFailed"
  using assms
proof (induction cks arbitrary: mb r)
  case (Cons ck cks)
  from Cons.prems(1) have ck: "reads_iso ck" "\<bar>ck_now ck\<bar> \<le> MAX_DATE" "rounds_ok cks" by simp_all
  from stuck_round_row [OF Cons.prems(2) ck(1,2), of i] Cons.prems(3,4)
  have "unclaimed_mail (stuck_round i ck mb)" "getMessageIn i (stuck_round i ck mb) = Some r"
    by (simp_all add: retried_def)
  from Cons.IH [OF ck(3) this Cons.prems(4)] show ?case by simp
qed simp

lemma ladder:
  assumes "rounds_ok cks" "unclaimed_mail mb" "getMessageIn i mb = Some r" "ir_status r = MsgPending"
    "ir_tries r = int k" "k \<le> 5" "ready cks r"
  shows "\<exists>r'. getMessageIn i (fold (stuck_round i) cks mb) = Some r' \<and>
    (if k + length cks \<le> 5 then ir_status r' = MsgPending \<and> ir_tries r' = int (k + length cks) else ir_status r' = MsgFailed)"
  using assms
proof (induction cks arbitrary: mb r k)
  case (Cons ck cks)
  from Cons.prems(1) have ck: "reads_iso ck" "\<bar>ck_now ck\<bar> \<le> MAX_DATE" "rounds_ok cks" by simp_all
  from stuck_round_row [OF Cons.prems(2) ck(1,2), of i] Cons.prems(3)
  have next_row: "unclaimed_mail (stuck_round i ck mb)" "getMessageIn i (stuck_round i ck mb) = Some (retried ck r)"
    by simp_all
  show ?case
  proof (cases "k = 5")
    case True
    then have "ir_status (retried ck r) = MsgFailed"
      using Cons.prems(4,5,7) by (simp add: retried_def ready_def MAX_TRIES_def)
    from failed_stays [OF ck(3) next_row this] True show ?thesis by simp
  next
    case False
    then have "k \<le> 4" using Cons.prems(6) by simp
    from retried_rung [OF Cons.prems(1,7,4,5) this]
    have r: "ir_status (retried ck r) = MsgPending" "ir_tries (retried ck r) = int (Suc k)" "ready cks (retried ck r)"
      by simp_all
    from \<open>k \<le> 4\<close> have "Suc k \<le> 5" by simp
    from Cons.IH [OF ck(3) next_row r(1,2) this r(3)] show ?thesis
      by (simp only: fold_simps length_Cons add_Suc add_Suc_right)
  qed
qed simp

text \<open>
  C24. A message that kills or hangs its container every time is retried five times and then given up: in
  the n-th round it is pending with n tries and its next attempt put off, in the sixth it is failed, and it
  stays so.
\<close>

theorem stuck_message_given_up:
  assumes "rounds_ok cks" "unclaimed_mail mb" "getMessageIn i mb = Some r" "ir_status r = MsgPending" "ir_tries r = 0"
    "ready cks r"
  shows "\<exists>r'. getMessageIn i (fold (stuck_round i) cks mb) = Some r' \<and>
    ir_status r' = (if length cks \<le> 5 then MsgPending else MsgFailed) \<and>
    (length cks \<le> 5 \<longrightarrow> ir_tries r' = int (length cks))"
  using ladder [OF assms(1-4), of 0] assms(5,6) by (cases "length cks \<le> 5") simp_all

subsection \<open>Examples\<close>

definition demo_row :: "string \<Rightarrow> inbound_status \<Rightarrow> inbound_record" where
  "demo_row i st = \<lparr>ir_id = i, ir_sequence = Some 2, ir_kind = KTask, ir_timestamp = now_iso demo_clock, ir_status = st,
     ir_processAfter = None, ir_recurrence = Some ''0 9 * * *'', ir_seriesId = Some ''daily'', ir_tries = 0, ir_trigger = True,
     ir_platformId = None, ir_channelType = None, ir_threadId = None, ir_content = ''{}'', ir_sourceSessionId = None, ir_onWake = False\<rparr>"

definition demo_later :: "int \<Rightarrow> clock" where
  "demo_later seconds = demo_clock\<lparr>ck_now := ck_now demo_clock + seconds * 1000\<rparr>"

lemma demo_later_simps: "reads_iso (demo_later n)" "ck_now (demo_later n) = 1700000000000 + n * 1000"
  by (simp_all add: demo_later_def demo_clock_def reads_iso_def)

lemma stuck_message_given_up_witness:
  "\<exists>r. getMessageIn ''m'' (fold (stuck_round ''m'') (map demo_later [0, 100, 200, 300, 400, 500])
         (empty_mailbox\<lparr>mb_in := [demo_row ''m'' MsgPending]\<rparr>)) = Some r \<and> ir_status r = MsgFailed"
proof -
  let ?mb = "empty_mailbox\<lparr>mb_in := [demo_row ''m'' MsgPending]\<rparr>" and ?cks = "map demo_later [0, 100, 200, 300, 400, 500]"
  have "rounds_ok ?cks" by (simp add: demo_later_simps MAX_DATE_def)
  moreover have "unclaimed_mail ?mb" by (simp add: unclaimed_mail_def ids_ok_def empty_mailbox_def)
  moreover have "getMessageIn ''m'' ?mb = Some (demo_row ''m'' MsgPending)" by (simp add: getMessageIn_def demo_row_def)
  moreover have "ir_status (demo_row ''m'' MsgPending) = MsgPending" "ir_tries (demo_row ''m'' MsgPending) = 0"
    "ready ?cks (demo_row ''m'' MsgPending)"
    by (simp_all add: demo_row_def ready_def postponed_def)
  ultimately show ?thesis using stuck_message_given_up [of ?cks ?mb "''m''" "demo_row ''m'' MsgPending"] by auto
qed

definition demo_recur_env :: "clock \<Rightarrow> recur_env" where
  "demo_recur_env ck = \<lparr>re_sess = demo_sess_env\<lparr>se_clock := ck\<rparr>, re_cron = (\<lambda>_ _. Inr (ck_now ck + 3600000)), re_tz = (\<lambda>_. ''UTC''),
     re_dir = (\<lambda>_. None), re_stamp = ''now''\<rparr>"

text \<open>Sweeps at a time, with the heartbeat file absent.\<close>

definition demo_sweep_env :: "clock \<Rightarrow> sweep_env" where
  "demo_sweep_env ck = \<lparr>sw_recur = demo_recur_env ck, sw_heartbeat = (\<lambda>_ _. 0), sw_settle = (\<lambda>_ s. s)\<rparr>"

text \<open>A container that runs, its session claimed at a time, with a message that was claimed at the demonstration's start.\<close>

definition demo_claimed :: "js \<Rightarrow> mailbox" where
  "demo_claimed timeout = empty_mailbox\<lparr>mb_in := [demo_row ''m'' MsgPending],
     mb_acks := [\<lparr>ak_messageId = ''m'', ak_status = AckProcessing, ak_statusChanged = now_iso demo_clock\<rparr>],
     mb_container := Some \<lparr>ct_tool = Some ''Bash'', ct_timeout = timeout, ct_startedAt = None, ct_updatedAt = now_iso demo_clock\<rparr>\<rparr>"

definition demo_running :: "clock \<Rightarrow> js \<Rightarrow> runner" where
  "demo_running ck timeout =
     registerRuntime ''s'' ''c'' False (ck_now ck) 1
       (demo_runner\<lparr>rn_host := set_mail ''a'' ''s'' (demo_claimed timeout) (rn_host demo_runner),
                    rn_coord := snd (claimSessionRun ''h'' ''s'' ''c'' (ck_now ck) (rn_coord demo_runner))\<rparr>)"

lemma fresh_incarnation_spared_witness:
  "snd (enforceRunningContainerSla (demo_sweep_env (demo_later 650)) ''a'' ''s'' (demo_running (demo_later 600) JNull)) =
     demo_running (demo_later 600) JNull"
proof -
  let ?E = "demo_sweep_env (demo_later 650)" and ?s = "demo_running (demo_later 600) JNull"
  have ck: "sw_clock ?E = demo_later 650" by (simp add: sw_clock_def demo_sweep_env_def demo_recur_env_def demo_sess_env_def)
  have "map_option sc_claimed_at (getSessionClaim ''s'' (rn_coord ?s)) = Some (Some 1700000600000)" by code_simp
  then obtain c where c: "getSessionClaim ''s'' (rn_coord ?s) = Some c" "sc_claimed_at c = Some 1700000600000" by auto
  have "getContainerStartedAtMs ''s'' ?s = Some 1700000600000" by code_simp
  then have "list_all (\<lambda>st. ck_now (sw_clock ?E) - st \<le> ABSOLUTE_CEILING_MS)
      (case getContainerStartedAtMs ''s'' ?s of None \<Rightarrow> [] | Some st \<Rightarrow> [st])"
    by (simp add: ck demo_later_simps ABSOLUTE_CEILING_MS_def)
  from fresh_incarnation_spared [OF _ c _ _ this] show ?thesis
    by (simp add: ck demo_later_simps MAX_DATE_def CLAIM_STUCK_MS_def)
qed


lemma fractional_timeout_hides_stuck_witness:
  "snd (enforceRunningContainerSla (demo_sweep_env (demo_later 86400)) ''a'' ''s'' (demo_running demo_clock (JOther ''1500.5''))) =
     demo_running demo_clock (JOther ''1500.5'')"
  by (rule fractional_timeout_hides_stuck [of _ _ _ "\<lparr>ct_tool = Some ''Bash'', ct_timeout = JOther ''1500.5'', ct_startedAt = None,
        ct_updatedAt = now_iso demo_clock\<rparr>" "''1500.5''"])
    (simp_all add: demo_running_def registerRuntime_def mailbox_of_def set_mail_def demo_claimed_def)

lemma series_stays_armed_witness:
  "armed (Some ''daily'') (mailbox_of ''a'' ''s1'' (snd (handleRecurrence (demo_recur_env demo_clock) ''a'' ''s1''
      (set_mail ''a'' ''s1'' (empty_mailbox\<lparr>mb_in := [demo_row ''m'' MsgFailed]\<rparr>) (rn_host demo_runner))))) = 1"
proof -
  let ?mb = "empty_mailbox\<lparr>mb_in := [demo_row ''m'' MsgFailed]\<rparr>"
  let ?s = "set_mail ''a'' ''s1'' ?mb (rn_host demo_runner)"
  have mb: "mailbox_of ''a'' ''s1'' ?s = ?mb" by (simp add: mailbox_of_def set_mail_def)
  obtain x s' where run: "handleRecurrence (demo_recur_env demo_clock) ''a'' ''s1'' ?s = (x, s')" by fastforce
  have "ids_ok (mailbox_of ''a'' ''s1'' ?s)" unfolding mb by (simp add: ids_ok_def)
  from series_stays_armed [OF this run] have "armed (Some ''daily'') (mailbox_of ''a'' ''s1'' s') = armed (Some ''daily'') ?mb"
    unfolding mb by blast
  then show ?thesis using run by (simp add: armed_def demo_row_def)
qed

end
