(* ===== verification/TaskCreate.thy ===== *)
theory TaskCreate
  imports Recurrence MailboxRunner
begin

text \<open>
  Creating a scheduled task (\<open>src/modules/scheduling/create.ts\<close>, \<open>task-content.ts\<close>): its id, the limit
  on how often a task without a gate script may fire, its first run, and its row in the mailbox of a
  session of its own.

  \<open>te_cron e tz\<close> parses a cron expression (\<open>cron-parser\<close>); the iterator it gives answers the i-th
  \<open>next()\<close> with a time.  \<open>te_zoned\<close> is \<open>parseZonedToUtc\<close>, \<open>None\<close> for an invalid date.
\<close>

record task_env =
  te_sess :: sess_env
  te_cron :: "string \<Rightarrow> string \<Rightarrow> (nat \<Rightarrow> int res) res"
  te_zoned :: "string \<Rightarrow> string \<Rightarrow> int option"

definition te_now :: "task_env \<Rightarrow> int" where
  "te_now E = ck_now (se_clock (te_sess E))"

subsection \<open>Task ids\<close>

definition slug_char :: "char \<Rightarrow> bool" where
  "slug_char c \<longleftrightarrow> (CHR ''a'' \<le> c \<and> c \<le> CHR ''z'') \<or> (CHR ''0'' \<le> c \<and> c \<le> CHR ''9'')"

text \<open>\<open>replace(/[^a-z0-9]+/g, '-')\<close>.\<close>

function dash_runs :: "string \<Rightarrow> string" where
  "dash_runs [] = []"
| "dash_runs (c # cs) = (if slug_char c then c # dash_runs cs else CHR ''-'' # dash_runs (dropWhile (\<lambda>d. \<not> slug_char d) cs))"
  by pat_completeness auto
termination by (relation "measure length") (auto simp: le_imp_less_Suc length_dropWhile_le)

definition is_dash :: "char \<Rightarrow> bool" where
  "is_dash c \<longleftrightarrow> c = CHR ''-''"

definition trim_right_dashes :: "string \<Rightarrow> string" where
  "trim_right_dashes s = rev (dropWhile is_dash (rev s))"

definition taskNameSlug :: "js \<Rightarrow> string" where
  "taskNameSlug name =
     (case name of
        JStr s \<Rightarrow> trim_right_dashes (take 24 (trim_right_dashes (dropWhile is_dash (dash_runs (map lower_char s)))))
      | _ \<Rightarrow> [])"

text \<open>\<open>uuid\<close> is what \<open>randomUUID\<close> gives.\<close>

definition hex_of :: "string \<Rightarrow> nat \<Rightarrow> string" where
  "hex_of uuid n = take n (filter (\<lambda>c. \<not> is_dash c) uuid)"

definition makeTaskId :: "js \<Rightarrow> string \<Rightarrow> string" where
  "makeTaskId name uuid =
     (let slug = taskNameSlug name in if slug \<noteq> [] then slug @ ''-'' @ hex_of uuid 4 else ''t-'' @ hex_of uuid 6)"

subsection \<open>When it runs\<close>

definition MAX_DAILY_FIRES :: nat where "MAX_DAILY_FIRES = 4"

definition parseProcessAfter :: "task_env \<Rightarrow> js \<Rightarrow> string \<Rightarrow> string res" where
  "parseProcessAfter E v tz =
     (case v of
        JStr s \<Rightarrow>
          if s = [] then Inl (Error ''--process-after is required'')
          else (case te_zoned E s tz of
                  None \<Rightarrow> Inl (Error (''invalid --process-after: '' @ s))
                | Some t \<Rightarrow> Inr (toISOString t))
      | _ \<Rightarrow> Inl (Error ''--process-after is required''))"

definition exn_message :: "exn \<Rightarrow> string" where
  "exn_message e = (case e of Error m \<Rightarrow> m | TypeError \<Rightarrow> ''TypeError'' | SyntaxError \<Rightarrow> ''SyntaxError'' | UniqueViolation \<Rightarrow> ''UNIQUE constraint failed'')"

definition validateRecurrence :: "task_env \<Rightarrow> string option \<Rightarrow> string \<Rightarrow> unit res" where
  "validateRecurrence E v tz =
     (case v of
        None \<Rightarrow> Inr ()
      | Some c \<Rightarrow> if c = [] then Inr ()
                  else (case te_cron E c tz of
                          Inl e \<Rightarrow> Inl (Error (''invalid --recurrence: '' @ exn_message e))
                        | Inr _ \<Rightarrow> Inr ()))"

text \<open>The loop that counts the fires of the next day, up to one more than the limit.\<close>

function count_fires :: "(nat \<Rightarrow> int res) \<Rightarrow> int \<Rightarrow> nat \<Rightarrow> nat res" where
  "count_fires it horizon fires =
     (if fires > MAX_DAILY_FIRES then Inr fires
      else (case it fires of
              Inl e \<Rightarrow> Inl e
            | Inr t \<Rightarrow> if t > horizon then Inr fires else count_fires it horizon (fires + 1)))"
  by pat_completeness auto
termination by (relation "measure (\<lambda>(_, _, fires). MAX_DAILY_FIRES + 1 - fires)") auto

declare count_fires.simps [simp del]

definition RECURRENCE_LIMIT_WARNING :: string where
  "RECURRENCE_LIMIT_WARNING = 
     ''Warning: this task has not been scheduled. Frequent running tasks consume the '' @
     ''user's subscription quota or unnecessarily use tokens and can cause the user's '' @
     ''account to be banned. Instead, use a pre-task run script that you write that can '' @
     ''check some kind of external condition, usually via one or more API calls. The '' @
     ''script returns a decision programmatically whether the task needs to be run now '' @
     ''or not. For example, an API call to GitHub to check if there are open PRs, and '' @
     ''only run when there are new open PRs.'' @ [CHR 0x0A] @
     ''Run `ncl tasks create --help` to get full directions on how to write a script and test it.'' @ [CHR 0x0A, CHR 0x0A] @
     ''Note: if and only if you explicitly need to schedule a task more frequently and '' @
     ''you've verified with the user that they understand and that this is what they '' @
     ''want and based on your judgment you agree that this is the right thing to do in '' @
     ''this situation, you can override this with --dangerously-override-recurrence-limit''"

definition enforceRecurrenceLimit :: "task_env \<Rightarrow> string option \<Rightarrow> bool \<Rightarrow> bool \<Rightarrow> string \<Rightarrow> unit res" where
  "enforceRecurrenceLimit E recurrence override hasScript tz =
     (case recurrence of
        None \<Rightarrow> Inr ()
      | Some c \<Rightarrow>
          if c = [] \<or> override \<or> hasScript then Inr ()
          else bnd (te_cron E c tz) (\<lambda>it.
               bnd (count_fires it (te_now E + 24 * 60 * 60 * 1000) 0) (\<lambda>fires.
                 if fires > MAX_DAILY_FIRES then Inl (Error RECURRENCE_LIMIT_WARNING) else Inr ())))"

record task_input =
  ti_name :: js
  ti_prompt :: string
  ti_recurrence :: "string option"
  ti_processAfter :: "string option"
  ti_script :: "string option"
  ti_override :: bool
  ti_timezone :: string

record prepared_task =
  pt_name :: js
  pt_prompt :: string
  pt_recurrence :: "string option"
  pt_script :: "string option"
  pt_processAfter :: string

definition null_text :: "string option \<Rightarrow> js" where
  "null_text x = (case x of None \<Rightarrow> JUndefined | Some s \<Rightarrow> JStr s)"

definition first_run :: "task_env \<Rightarrow> task_input \<Rightarrow> string res" where
  "first_run E i =
     (case (ti_processAfter i, ti_recurrence i) of
        (None, Some c) \<Rightarrow>
          if c = [] then parseProcessAfter E JUndefined (ti_timezone i)
          else bnd (te_cron E c (ti_timezone i)) (\<lambda>it. bnd (it 0) (\<lambda>t. Inr (toISOString t)))
      | (p, _) \<Rightarrow> parseProcessAfter E (null_text p) (ti_timezone i))"

definition prepareScheduledTask :: "task_env \<Rightarrow> task_input \<Rightarrow> prepared_task res" where
  "prepareScheduledTask E i =
     (if ti_prompt i = [] then Inl (Error ''--prompt is required'')
      else bnd (validateRecurrence E (ti_recurrence i) (ti_timezone i)) (\<lambda>_.
           bnd (enforceRecurrenceLimit E (ti_recurrence i) (ti_override i) (ti_script i \<noteq> None) (ti_timezone i)) (\<lambda>_.
           bnd (first_run E i) (\<lambda>processAfter.
             Inr \<lparr>pt_name = ti_name i, pt_prompt = ti_prompt i, pt_recurrence = ti_recurrence i,
                  pt_script = ti_script i, pt_processAfter = processAfter\<rparr>))))"

subsection \<open>Writing it\<close>

definition task_content :: "prepared_task \<Rightarrow> string option \<Rightarrow> string" where
  "task_content t origin =
     json_text (JObj [(''prompt'', JStr (pt_prompt t)), (''script'', null_str (pt_script t)),
                      (''originSessionId'', null_str origin)])"

definition new_task_row :: "string \<Rightarrow> prepared_task \<Rightarrow> inbound_status \<Rightarrow> string option \<Rightarrow> js" where
  "new_task_row i t status origin =
     task_js i (Some i) (Some (pt_processAfter t)) (pt_recurrence t) (task_content t origin) status"

definition insert_and_read :: "clock \<Rightarrow> string \<Rightarrow> js \<Rightarrow> (mailbox, task_record) sm" where
  "insert_and_read ck i task =
     io_bind (throwing (inbound_insertTask ck task)) (\<lambda>_.
     io_bind (io_get (getTask ck i)) (\<lambda>stored. case stored of
       None \<Rightarrow> io_throw (Error (''task row not found after insert: '' @ i))
     | Some (Inl e) \<Rightarrow> io_throw e
     | Some (Inr r) \<Rightarrow> io_return r))"

definition createScheduledTask ::
    "task_env \<Rightarrow> string \<Rightarrow> prepared_task \<Rightarrow> inbound_status option \<Rightarrow> string option \<Rightarrow> (host_db, session_row \<times> task_record) sm" where
  "createScheduledTask E ag t status origin =
     io_bind draw (\<lambda>uuid.
     (let i = makeTaskId (pt_name t) uuid in
      io_bind (resolveTaskSession (te_sess E) ag i) (\<lambda>(session, created).
      io_bind (withMailboxSession ag (s_id session)
                 (insert_and_read (se_clock (te_sess E)) i
                    (new_task_row i t (case status of Some st \<Rightarrow> st | None \<Rightarrow> MsgPending) origin))) (\<lambda>r.
        io_return (session, r)))))"

text \<open>Reading the content back.\<close>

record task_content_record =
  tc_prompt :: string
  tc_script :: "string option"
  tc_originSessionId :: "string option"

definition parseTaskContent :: "sess_env \<Rightarrow> string \<Rightarrow> task_content_record" where
  "parseTaskContent E raw =
     (let legacy = \<lparr>tc_prompt = raw, tc_script = None, tc_originSessionId = None\<rparr> in
      case se_parse E raw of
        Inl _ \<Rightarrow> legacy
      | Inr v \<Rightarrow>
          (case (js_get v ''prompt'', js_get v ''script'', js_get v ''originSessionId'') of
             (Inr p, Inr sc, Inr o1) \<Rightarrow>
               \<lparr>tc_prompt = (case js_str p of Some s \<Rightarrow> s | None \<Rightarrow> []), tc_script = js_str sc, tc_originSessionId = js_str o1\<rparr>
           | _ \<Rightarrow> legacy))"

subsection \<open>Every task id is a safe name\<close>

lemma slug_series: "slug_char c \<Longrightarrow> series_char c"
  by (auto simp: slug_char_def series_char_def)

lemma dash_series: "series_char (CHR ''-'')"
  by (simp add: series_char_def)

lemma dash_runs_series: "list_all series_char (dash_runs s)"
  by (induction s rule: dash_runs.induct) (simp_all add: slug_series dash_series)

lemma list_all_dropWhile: "list_all P xs \<Longrightarrow> list_all P (dropWhile q xs)"
  by (induction xs) auto

lemma list_all_trim: "list_all P s \<Longrightarrow> list_all P (trim_right_dashes s)"
  using list_all_dropWhile [of P "rev s" is_dash] by (simp add: trim_right_dashes_def)

lemma list_all_take: "list_all P xs \<Longrightarrow> list_all P (take n xs)"
  by (induction xs arbitrary: n) (auto simp: take_Cons split: nat.split)

lemma trim_right_length: "length (trim_right_dashes s) \<le> length s"
  using length_dropWhile_le [of is_dash "rev s"] by (simp add: trim_right_dashes_def)

lemma slug_ok: "list_all series_char (taskNameSlug name) \<and> length (taskNameSlug name) \<le> 24"
proof (cases name)
  case (JStr s)
  have "length (trim_right_dashes (take 24 t)) \<le> 24" for t
    using trim_right_length [of "take 24 t"] by simp
  then show ?thesis
    using JStr by (simp add: taskNameSlug_def list_all_trim list_all_take list_all_dropWhile dash_runs_series)
qed (simp_all add: taskNameSlug_def)

text \<open>A uuid is hexadecimal digits and hyphens.\<close>

definition uuid_ok :: "string \<Rightarrow> bool" where
  "uuid_ok u \<longleftrightarrow> list_all (\<lambda>c. hex_char c \<or> is_dash c) u"

lemma hex_series: "hex_char c \<Longrightarrow> series_char c"
  by (auto simp: hex_char_def series_char_def)

text \<open>
  C30. Whatever name an agent gives a task, its id is a non-empty string of lower-case letters, digits and
  hyphens of at most 29 characters: it names a file in the tasks folder without leaving it, is the suffix
  of a thread id, and the run log accepts it.
\<close>

theorem task_id_is_safe:
  assumes "uuid_ok uuid"
  shows "series_ok (makeTaskId name uuid) \<and> length (makeTaskId name uuid) \<le> 29 \<and>
    CHR ''/'' \<notin> set (makeTaskId name uuid) \<and> CHR ''.'' \<notin> set (makeTaskId name uuid)"
proof -
  have hex: "list_all series_char (hex_of uuid n)" for n
    using assms by (auto simp: hex_of_def uuid_ok_def list_all_iff dest!: in_set_takeD intro: hex_series)
  have len: "length (hex_of uuid n) \<le> n" for n by (simp add: hex_of_def)
  have ok: "series_ok (makeTaskId name uuid)"
    using slug_ok [of name] hex by (auto simp: makeTaskId_def Let_def series_ok_def) (simp_all add: series_char_def)
  moreover have "length (makeTaskId name uuid) \<le> 29"
    using slug_ok [of name] len [of 4] len [of 6] by (auto simp: makeTaskId_def Let_def)
  moreover have "c \<notin> set (makeTaskId name uuid)" if "\<not> series_char c" for c
    using ok that by (auto simp: series_ok_def list_all_iff)
  ultimately show ?thesis by (simp add: series_char_def)
qed

lemma task_id_is_safe_witness:
  "makeTaskId (JStr ''../Daily  Report!'') ''9f86-d081'' = ''daily-report-9f86'' \<and>
   series_ok (makeTaskId (JStr ''../Daily  Report!'') ''9f86-d081'')"
proof -
  have "uuid_ok ''9f86-d081''" by code_simp
  moreover have "makeTaskId (JStr ''../Daily  Report!'') ''9f86-d081'' = ''daily-report-9f86''" by code_simp
  ultimately show ?thesis using task_id_is_safe by blast
qed

subsection \<open>The limit is exact\<close>

lemma count_fires_exact:
  assumes "\<And>i. it i = Inr (t i)" "k \<le> Suc MAX_DAILY_FIRES" "\<forall>j < k. t j \<le> horizon" "mono t"
  shows "\<exists>n. count_fires it horizon k = Inr n \<and> (n > MAX_DAILY_FIRES \<longleftrightarrow> t MAX_DAILY_FIRES \<le> horizon)"
  using assms(2,3)
proof (induction "Suc MAX_DAILY_FIRES - k" arbitrary: k)
  case 0
  then show ?case by (simp add: count_fires.simps [of it horizon k])
next
  case (Suc d)
  then have k: "k \<le> MAX_DAILY_FIRES" by simp
  show ?case
  proof (cases "t k \<le> horizon")
    case True
    then have "\<forall>j < k + 1. t j \<le> horizon" using Suc.prems(2) by (auto simp: less_Suc_eq)
    moreover have "d = Suc MAX_DAILY_FIRES - (k + 1)" "k + 1 \<le> Suc MAX_DAILY_FIRES" using Suc.hyps(2) k by simp_all
    ultimately have "\<exists>n. count_fires it horizon (k + 1) = Inr n \<and> (n > MAX_DAILY_FIRES \<longleftrightarrow> t MAX_DAILY_FIRES \<le> horizon)"
      by (intro Suc.hyps(1))
    then show ?thesis using k True assms(1) by (simp add: count_fires.simps [of it horizon k])
  next
    case False
    have "t k \<le> t MAX_DAILY_FIRES" using monoD [OF assms(4) k] .
    then show ?thesis using False k assms(1) by (simp add: count_fires.simps [of it horizon k])
  qed
qed

lemma fires_bounded_iff:
  fixes t :: "nat \<Rightarrow> int"
  assumes "strict_mono t"
  shows "card {i. t i \<le> h} \<le> n \<longleftrightarrow> h < t n"
proof
  have grow: "t 0 + int i \<le> t i" for i
  proof (induction i)
    case (Suc i)
    then show ?case using strict_monoD [OF assms, of i "Suc i"] by simp
  qed simp
  have "i \<le> nat (h - t 0)" if "t i \<le> h" for i using grow [of i] that by linarith
  then have fin: "finite {i. t i \<le> h}" by (auto intro: finite_subset [of _ "{.. nat (h - t 0)}"])
  show "h < t n" if "card {i. t i \<le> h} \<le> n"
  proof (rule ccontr)
    assume "\<not> h < t n"
    then have "{.. n} \<subseteq> {i. t i \<le> h}" using strict_mono_mono [OF assms] by (auto dest: monoD intro: order_trans)
    from card_mono [OF fin this] that show False by simp
  qed
  show "card {i. t i \<le> h} \<le> n" if "h < t n"
  proof -
    have "{i. t i \<le> h} \<subseteq> {..< n}" using that strict_mono_less [OF assms] by (fastforce simp: not_less [symmetric])
    from card_mono [OF _ this] show ?thesis by simp
  qed
qed

text \<open>
  The recurrence limit is exact: a cron expression, without the override and without a gate script, is
  accepted exactly if it fires at most four times in the next 24 hours, and looking at five fires decides it.
\<close>

theorem recurrence_limit_exact:
  fixes t :: "nat \<Rightarrow> int"
  assumes "te_cron E c tz = Inr it" "\<And>i. it i = Inr (t i)" "strict_mono t" "c \<noteq> []"
  shows "(enforceRecurrenceLimit E (Some c) False False tz = Inr ()) =
    (card {i. t i \<le> te_now E + 24 * 60 * 60 * 1000} \<le> 4)"
proof -
  let ?h = "te_now E + 24 * 60 * 60 * 1000"
  obtain n where n: "count_fires it ?h 0 = Inr n" "n > MAX_DAILY_FIRES \<longleftrightarrow> t MAX_DAILY_FIRES \<le> ?h"
    using count_fires_exact [where it = it and t = t and k = 0 and horizon = ?h] assms(2) strict_mono_mono [OF assms(3)] by auto
  have "enforceRecurrenceLimit E (Some c) False False tz = Inr () \<longleftrightarrow> \<not> n > MAX_DAILY_FIRES"
    using assms(1,4) n(1) by (simp add: enforceRecurrenceLimit_def bnd_def)
  then show ?thesis using n(2) fires_bounded_iff [OF assms(3), where h = ?h and n = 4] by (simp add: MAX_DAILY_FIRES_def not_le)
qed

text \<open>A task every ten minutes is refused, one every eight hours is not.\<close>

lemma recurrence_limit_exact_witness:
  "let E = (\<lambda>m. \<lparr>te_sess = demo_sess_env, te_cron = (\<lambda>_ _. Inr (\<lambda>i. Inr (1700000000000 + m * 60000 * (int i + 1)))), te_zoned = (\<lambda>_ _. None)\<rparr>)
   in enforceRecurrenceLimit (E 10) (Some ''*/10 * * * *'') False False ''UTC'' \<noteq> Inr () \<and>
      enforceRecurrenceLimit (E 480) (Some ''0 */8 * * *'') False False ''UTC'' = Inr ()"
proof -
  define E where "E = (\<lambda>m. \<lparr>te_sess = demo_sess_env,
      te_cron = (\<lambda>_ _. Inr (\<lambda>i. Inr (1700000000000 + m * 60000 * (int i + 1)))), te_zoned = (\<lambda>_ _. None)\<rparr>)"
  have now: "te_now (E m) = 1700000000000" for m by (simp add: te_now_def E_def demo_sess_env_def demo_clock_def)
  have exact: "(enforceRecurrenceLimit (E m) (Some (h # c)) False False ''UTC'' = Inr ()) =
      (card {i. 1700000000000 + m * 60000 * (int i + 1) \<le> te_now (E m) + 24 * 60 * 60 * 1000} \<le> 4)" if "0 < m" for m h c
    by (rule recurrence_limit_exact [where it = "\<lambda>i. Inr (1700000000000 + m * 60000 * (int i + 1))"])
      (use that in \<open>auto simp: E_def strict_mono_def\<close>)
  have mono: "strict_mono (\<lambda>i. 1700000000000 + m * 60000 * (int i + 1))" if "0 < m" for m
    using that by (auto simp: strict_mono_def)
  have 1: "(enforceRecurrenceLimit (E m) (Some (h # c)) False False ''UTC'' = Inr ()) = (86400000 < m * 300000)" if "0 < m" for m h c
    using exact [OF that, of h c] fires_bounded_iff [OF mono [OF that], where h = "te_now (E m) + 24 * 60 * 60 * 1000" and n = 4]
    by (simp add: now)
  show ?thesis unfolding Let_def E_def [symmetric] by (simp add: 1)
qed

end
