(* ===== verification/CliDispatch.thy ===== *)
theory CliDispatch
  imports Delivery TaskCreate
begin

text \<open>
  The command line of the host (\<open>src/cli/args.ts\<close>, \<open>frame.ts\<close>, \<open>registry.ts\<close>, \<open>guard.ts\<close>,
  \<open>dispatch.ts\<close>, \<open>delivery-action.ts\<close>).  A person uses it through a socket only its user can open; an
  agent through a system message of its session.  Every command passes the guard, and an agent whose
  scope is its group gets the arguments that name a group filled in with its own.

  The commands are data: what each does is its handler.  \<open>ce_scope\<close> is the \<open>cli_scope\<close> column of the
  container configurations, \<open>ce_help\<close> and \<open>ce_unknown\<close> render help texts.
\<close>

subsection \<open>Frames\<close>

record cli_request =
  rq_id :: string
  rq_command :: string
  rq_args :: js

datatype cli_caller = FromHost | FromAgent string string string

record caller_ctx =
  cc_caller :: cli_caller
  cc_grant :: "(string \<times> string) option"

datatype cli_response =
    RespOk string js "string option"
  | RespErr string string string

fun is_agent :: "cli_caller \<Rightarrow> bool" where
  "is_agent FromHost = False"
| "is_agent (FromAgent _ _ _) = True"

subsection \<open>Arguments\<close>

definition canonical_key :: "string \<Rightarrow> string" where
  "canonical_key k = map (\<lambda>c. if c = CHR ''-'' then CHR ''_'' else c) k"

text \<open>\<open>Object.is\<close>: two objects of a parsed frame are never the same one.\<close>

fun object_is :: "js \<Rightarrow> js \<Rightarrow> bool" where
  "object_is (JObj _) _ = False"
| "object_is (JArr _) _ = False"
| "object_is a b = (a = b)"

fun normalize_loop :: "fields \<Rightarrow> (string \<times> string) list \<Rightarrow> fields \<Rightarrow> fields res" where
  "normalize_loop [] seen out = Inr out"
| "normalize_loop ((k, v) # ps) seen out =
     (let canonical = canonical_key k in
      if canonical = ''__proto__'' then Inl (Error (''flag --'' @ k @ '' is not allowed''))
      else case map_of seen canonical of
             Some prior \<Rightarrow>
               if \<not> object_is (own out canonical) v
               then Inl (Error (''--'' @ prior @ '' and --'' @ k @ '' are the same flag; pass it once''))
               else normalize_loop ps (map_set canonical k seen) (set_prop canonical v out)
           | None \<Rightarrow> normalize_loop ps (map_set canonical k seen) (set_prop canonical v out))"

definition normalizeArgs :: "js \<Rightarrow> fields res" where
  "normalizeArgs raw =
     (case raw of JObj ps \<Rightarrow> normalize_loop ps [] [] | _ \<Rightarrow> Inl (Error ''args must be an object''))"

definition nullish :: "js \<Rightarrow> bool" where
  "nullish v \<longleftrightarrow> v = JNull \<or> v = JUndefined"

text \<open>\<open>v ?? w\<close>, and \<open>{...args, ...fill}\<close>.\<close>

definition or_nullish :: "js \<Rightarrow> js \<Rightarrow> js" where
  "or_nullish v w = (if nullish v then w else v)"

definition spread :: "fields \<Rightarrow> fields \<Rightarrow> fields" where
  "spread args new = fold (\<lambda>(k, v). set_prop k v) new args"

subsection \<open>Commands\<close>

datatype access = OpenAccess | NeedsApproval | Hidden

record command =
  cm_name :: string
  cm_description :: string
  cm_access :: access
  cm_hostOnly :: bool
  cm_action :: "string option"
  cm_resource :: "string option"
  cm_generic :: bool
  cm_parseArgs :: "fields \<Rightarrow> fields res"
  cm_handler :: "fields \<Rightarrow> caller_ctx \<Rightarrow> (host_db, js) sm"
  cm_formatHuman :: "(js \<Rightarrow> string res) option"

record cli_env =
  ce_host :: host_env
  ce_scope :: "string \<Rightarrow> string option option"
  ce_help :: "command \<Rightarrow> string"
  ce_unknown :: "string \<Rightarrow> string"
  ce_localize :: "js \<Rightarrow> string"

definition GROUP_SCOPE_RESOURCES :: "string list" where
  "GROUP_SCOPE_RESOURCES = [''groups'', ''sessions'', ''destinations'', ''members'', ''tasks'']"

definition GROUP_WIRING_COMMANDS :: "string list" where
  "GROUP_WIRING_COMMANDS = [''wirings-get'', ''wirings-update'']"

definition GROUP_WIRING_UPDATE_ARGS :: "string list" where
  "GROUP_WIRING_UPDATE_ARGS = [''id'', ''agent_group_id'', ''group'', ''help'', ''engage_mode'', ''engage_pattern'']"

text \<open>A group without a row, or whose row says nothing, is scoped to itself.\<close>

definition cli_scope :: "cli_env \<Rightarrow> string \<Rightarrow> string" where
  "cli_scope E ag = (case ce_scope E ag of Some (Some s) \<Rightarrow> s | _ \<Rightarrow> ''group'')"

subsection \<open>The guard of a command\<close>

definition id_is_group :: "command \<Rightarrow> bool" where
  "id_is_group cmd \<longleftrightarrow> cm_resource cmd = Some ''groups'' \<or> cm_resource cmd = Some ''destinations''"

definition scope_keys :: "command \<Rightarrow> string list" where
  "scope_keys cmd = (if id_is_group cmd then [''agent_group_id'', ''group'', ''id''] else [''agent_group_id'', ''group''])"

definition groupWiringCommand :: "command \<Rightarrow> bool" where
  "groupWiringCommand cmd \<longleftrightarrow> cm_resource cmd = Some ''wirings'' \<and> cm_name cmd \<in> set GROUP_WIRING_COMMANDS"

definition scope_denial :: "command \<Rightarrow> string \<Rightarrow> fields \<Rightarrow> string option" where
  "scope_denial cmd ag args =
     (if (case cm_resource cmd of None \<Rightarrow> False | Some r \<Rightarrow> r \<noteq> [] \<and> r \<notin> set GROUP_SCOPE_RESOURCES) \<and> \<not> groupWiringCommand cmd
      then Some (''CLI access is scoped to this agent group. Cannot access \"'' @
                 (case cm_resource cmd of Some r \<Rightarrow> r | None \<Rightarrow> []) @ ''\".'')
      else if \<exists>k \<in> set (scope_keys cmd). own args k \<noteq> JStr ag
      then Some ''CLI access is scoped to this agent group.''
      else if groupWiringCommand cmd \<and> cm_name cmd = ''wirings-update'' \<and>
              (\<exists>k \<in> set (map fst args). k \<notin> set GROUP_WIRING_UPDATE_ARGS)
      then Some ''Group-scoped wiring updates may only change engage_mode or engage_pattern.''
      else if own args ''cli_scope'' \<noteq> JUndefined
      then Some ''Cannot change cli_scope from a group-scoped agent.''
      else None)"

definition commandDecide :: "cli_env \<Rightarrow> command \<Rightarrow> host_db \<Rightarrow> guard_input \<Rightarrow> guard_decision res" where
  "commandDecide E cmd s inp =
     (case gi_actor inp of
        HostActor \<Rightarrow> Inr (ALLOW ''host caller (trusted socket)'')
      | AgentActor ag sid \<Rightarrow>
          if cm_hostOnly cmd
          then Inr (DENY (''\"'' @ cm_name cmd @ ''\" is operator-only and cannot be run from inside a container.''))
          else (case normalizeArgs (JObj (gi_payload inp)) of
                  Inl e \<Rightarrow> Inr (DENY (exn_message e))
                | Inr args \<Rightarrow>
                    if cli_scope E ag = ''disabled'' then Inr (DENY ''CLI access is disabled for this agent group.'')
                    else (case (if cli_scope E ag = ''group'' then scope_denial cmd ag args else None) of
                            Some reason \<Rightarrow> Inr (DENY reason)
                          | None \<Rightarrow>
                              if cm_access cmd = NeedsApproval
                              then Inr (HOLD (''agent-initiated \"'' @ cm_name cmd @ ''\" requires admin approval'') None)
                              else Inr (ALLOW ''open command'')))
      | _ \<Rightarrow> Inr (DENY ''CLI commands accept host or agent callers only.''))"

text \<open>The command a grant was given for; \<open>None\<close> when its payload has none.\<close>

definition granted_command :: "pending_approval \<Rightarrow> js" where
  "granted_command grant =
     (case bnd (json_parse (pa_payload grant)) (\<lambda>p. bnd (js_get p ''frame'') (\<lambda>f.
              if nullish f then Inr JUndefined else js_get f ''command'')) of
        Inl _ \<Rightarrow> JUndefined | Inr v \<Rightarrow> v)"

definition commandGuardAction :: "command \<Rightarrow> string" where
  "commandGuardAction cmd = (case cm_action cmd of Some a \<Rightarrow> a | None \<Rightarrow> ''cli.'' @ cm_name cmd)"

definition commandGuardSpec :: "cli_env \<Rightarrow> command \<Rightarrow> host_db guarded_action_spec" where
  "commandGuardSpec E cmd =
     \<lparr>ga_action = commandGuardAction cmd, ga_decide = commandDecide E cmd,
      ga_grantActionName = (if cm_access cmd = NeedsApproval then Some ''cli_command'' else None),
      ga_grantCoversRequest = Some (\<lambda>grant _. Inr (granted_command grant = JStr (cm_name cmd)))\<rparr>"

subsection \<open>The registry\<close>

text \<open>\<open>cr_resources\<close> are the resources with the column that carries the agent group of a row.\<close>

record cli_registry =
  cr_commands :: "(string \<times> command) list"
  cr_guards :: "(string \<times> host_db guarded_action) list"
  cr_catalog :: "host_db catalog"
  cr_resources :: "(string \<times> string option) list"

definition register_command :: "cli_env \<Rightarrow> command \<Rightarrow> cli_registry \<Rightarrow> exn option \<times> cli_registry" where
  "register_command E def reg =
     (if map_of (cr_commands reg) (cm_name def) \<noteq> None
      then (Some (Error (''CLI command \"'' @ cm_name def @ ''\" already registered'')), reg)
      else let reg1 = reg\<lparr>cr_commands := cr_commands reg @ [(cm_name def, def)]\<rparr> in
           case defineGuardedAction (commandGuardSpec E def) (cr_catalog reg1) of
             Inl e \<Rightarrow> (Some e, reg1)
           | Inr (a, cat) \<Rightarrow> (None, reg1\<lparr>cr_guards := cr_guards reg1 @ [(cm_name def, a)], cr_catalog := cat\<rparr>))"

definition lookup_command :: "cli_registry \<Rightarrow> string \<Rightarrow> command option" where
  "lookup_command reg name = map_of (cr_commands reg) name"

definition commandGuard :: "cli_registry \<Rightarrow> string \<Rightarrow> host_db guarded_action res" where
  "commandGuard reg name =
     (case map_of (cr_guards reg) name of
        Some a \<Rightarrow> Inr a
      | None \<Rightarrow> Inl (Error (''CLI command \"'' @ name @ ''\" has no guard '' @ emdash @ '' was it registered through register()?'')))"

text \<open>
  A command that is not registered is read as a registered one and the id of its target: the longest
  registered prefix before a hyphen.  \<open>last_dash\<close> is \<open>lastIndexOf('-')\<close>, 0 if there is none.
\<close>

definition last_dash :: "string \<Rightarrow> nat" where
  "last_dash s = (case dropWhile (\<lambda>c. \<not> is_dash c) (rev s) of [] \<Rightarrow> 0 | _ # r \<Rightarrow> length r)"

lemma last_dash_less: "last_dash s \<noteq> 0 \<Longrightarrow> last_dash s < length s"
proof -
  assume nz: "last_dash s \<noteq> 0"
  then obtain c r where r: "dropWhile (\<lambda>c. \<not> is_dash c) (rev s) = c # r"
    by (auto simp: last_dash_def split: list.splits)
  have "length (c # r) \<le> length (rev s)" unfolding r [symmetric] by (rule length_dropWhile_le)
  then show ?thesis by (simp add: last_dash_def r)
qed

function find_prefix :: "cli_registry \<Rightarrow> string \<Rightarrow> string \<Rightarrow> (command \<times> string \<times> string) option" where
  "find_prefix reg command shortened =
     (if last_dash shortened = 0 then None
      else let short = take (last_dash shortened) shortened in
           case lookup_command reg short of
             Some cmd \<Rightarrow> Some (cmd, short, drop (length short + 1) command)
           | None \<Rightarrow> find_prefix reg command short)"
  by pat_completeness auto

termination by (relation "measure (\<lambda>(_, _, s). length s)") (use last_dash_less in auto)

declare find_prefix.simps [simp del]

subsection \<open>Dispatch\<close>

definition resolve_command :: "cli_registry \<Rightarrow> string \<Rightarrow> fields \<Rightarrow> (command \<times> string \<times> fields) option" where
  "resolve_command reg name args =
     (case lookup_command reg name of
        Some cmd \<Rightarrow> Some (cmd, name, args)
      | None \<Rightarrow>
          (case find_prefix reg name name of
             Some (cmd, short, tail) \<Rightarrow> Some (cmd, short, set_prop ''id'' (or_nullish (own args ''id'') (JStr tail)) args)
           | None \<Rightarrow> None))"

text \<open>The session id of a lookup: SQLite compares a text column with a number as text.\<close>

definition id_text :: "js \<Rightarrow> string res" where
  "id_text v = (case v of JStr s \<Rightarrow> Inr s | JNum n \<Rightarrow> Inr (int_str n) | JOther s \<Rightarrow> Inr s | _ \<Rightarrow> Inl TypeError)"

datatype 'a stage_result = Answer cli_response | Proceed 'a

text \<open>The arguments of an agent that is scoped to its group.\<close>

definition scoped_args :: "string \<Rightarrow> string \<Rightarrow> command \<Rightarrow> string \<Rightarrow> string \<Rightarrow> fields \<Rightarrow> host_db \<Rightarrow> fields stage_result res" where
  "scoped_args ag mg cmd rid name args s =
     (let fill = [(''agent_group_id'', or_nullish (own args ''agent_group_id'') (JStr ag)),
                  (''group'', or_nullish (own args ''group'') (JStr ag))] @
                 (if id_is_group cmd then [(''id'', or_nullish (own args ''id'') (JStr ag))] else []);
          wired = own args ''help'' \<noteq> JBool True \<and> name \<in> set GROUP_WIRING_COMMANDS
      in case (if wired then map_option ma_id (getMessagingGroupAgentByPair mg ag (hd_chat s)) else Some []) of
           None \<Rightarrow> Inr (Answer (RespErr rid ''forbidden'' ''Wiring not found for this conversation.''))
         | Some wiring \<Rightarrow>
             (let args' = spread args (if wired then map_set ''id'' (JStr wiring) fill else fill) in
              if cm_resource cmd = Some ''sessions'' \<and> name \<in> {''sessions-get'', ''sessions-history''} \<and> js_truthy (own args' ''id'')
              then bnd (id_text (own args' ''id'')) (\<lambda>i.
                     case getSession i (ss_sessions s) of
                       Some r \<Rightarrow> if s_agent_group_id r = ag then Inr (Proceed args')
                                 else Inr (Answer (RespErr rid ''handler-error'' (''session not found: '' @ js_to_string (own args' ''id''))))
                     | None \<Rightarrow> Inr (Answer (RespErr rid ''handler-error'' (''session not found: '' @ js_to_string (own args' ''id'')))))
              else Inr (Proceed args')))"

definition dispatch_args :: "cli_env \<Rightarrow> cli_caller \<Rightarrow> command \<Rightarrow> string \<Rightarrow> string \<Rightarrow> fields \<Rightarrow> host_db \<Rightarrow> fields stage_result res" where
  "dispatch_args E caller cmd rid name args s =
     (case caller of
        FromHost \<Rightarrow> Inr (Proceed args)
      | FromAgent sid ag mg \<Rightarrow>
          if cli_scope E ag = ''group'' then scoped_args ag mg cmd rid name args s else Inr (Proceed args))"

definition actorFor :: "cli_caller \<Rightarrow> guard_actor" where
  "actorFor caller = (case caller of FromHost \<Rightarrow> HostActor | FromAgent sid ag mg \<Rightarrow> AgentActor ag (Some sid))"

definition cli_decision ::
    "cli_registry \<Rightarrow> cli_caller \<Rightarrow> command \<Rightarrow> fields \<Rightarrow> pending_approval option \<Rightarrow> host_db \<Rightarrow> guard_decision res" where
  "cli_decision reg caller cmd args grant s =
     bnd (commandGuard reg (cm_name cmd)) (\<lambda>a.
       guard (cr_catalog reg) (\<lambda>i. getPendingApproval i (hd_approvals s)) s a
         \<lparr>gi_actor = actorFor caller, gi_resource = Map.empty, gi_payload = args, gi_grant = grant\<rparr>)"

fun caller_js :: "cli_caller \<Rightarrow> js" where
  "caller_js FromHost = JObj [(''caller'', JStr ''host'')]"
| "caller_js (FromAgent sid ag mg) =
     JObj [(''caller'', JStr ''agent''), (''sessionId'', JStr sid), (''agentGroupId'', JStr ag), (''messagingGroupId'', JStr mg)]"

definition cli_hold ::
    "session_row \<Rightarrow> string \<Rightarrow> cli_caller \<Rightarrow> string \<Rightarrow> string \<Rightarrow> fields \<Rightarrow> approval_request" where
  "cli_hold session agentName caller rid name args =
     (let summary = js_join '' '' (map (\<lambda>(k, v). ''--'' @ k @ '' '' @ js_to_string v) args) in
      \<lparr>aq_session = session, aq_action = ''cli_command'',
       aq_payload = JObj [(''frame'', JObj [(''id'', JStr rid), (''command'', JStr name), (''args'', JObj args)]),
                          (''callerContext'', caller_js caller)],
       aq_title = ''CLI: '' @ name,
       aq_question = ''Agent \"'' @ agentName @ ''\" wants to run:'' @ [CHR 0x0A] @ ''`ncl '' @ name @
                     (if summary = [] then [] else '' '' @ summary) @ ''`'',
       aq_approverUserId = None\<rparr>)"

definition holding :: "cli_env \<Rightarrow> cli_caller \<Rightarrow> string \<Rightarrow> string \<Rightarrow> fields \<Rightarrow> string \<Rightarrow> (host_db, cli_response) sm" where
  "holding E caller rid name args reason =
     (case caller of
        FromHost \<Rightarrow> io_return (RespErr rid ''forbidden'' reason)
      | FromAgent sid ag mg \<Rightarrow>
          io_bind (io_get (\<lambda>s. (getSession sid (ss_sessions s), getAgentGroup ag (hd_agents s)))) (\<lambda>(session, group).
            case session of
              None \<Rightarrow> io_return (RespErr rid ''handler-error'' ''Session not found.'')
            | Some r \<Rightarrow>
                io_bind (askApproval (ce_host E)
                           (cli_hold r (case group of Some g \<Rightarrow> ag_name g | None \<Rightarrow> ag) caller rid name args)) (\<lambda>_.
                  io_return (RespErr rid ''approval-pending''
                               ''Approval request sent to admin. You will be notified of the result.''))))"

text \<open>After a generic list or get: rows of another group are dropped, a single one is refused.\<close>

definition of_group :: "string \<Rightarrow> string \<Rightarrow> js \<Rightarrow> bool" where
  "of_group f ag row = (case row of JObj ps \<Rightarrow> own ps f = JStr ag | _ \<Rightarrow> False)"

definition scope_filter :: "cli_env \<Rightarrow> cli_registry \<Rightarrow> cli_caller \<Rightarrow> command \<Rightarrow> string \<Rightarrow> js \<Rightarrow> js stage_result" where
  "scope_filter E reg caller cmd rid data =
     (case (caller, cm_resource cmd) of
        (FromAgent sid ag mg, Some res) \<Rightarrow>
          if res = [] \<or> \<not> cm_generic cmd \<or> cli_scope E ag = ''global'' then Proceed data
          else (case (case map_of (cr_resources reg) res of Some (Some f) \<Rightarrow> f | _ \<Rightarrow> []) of
                  [] \<Rightarrow> Answer (RespErr rid ''forbidden'' (''\"'' @ res @ ''\" is not available in group scope.''))
                | c # f \<Rightarrow>
                    (case data of
                       JArr rows \<Rightarrow> Proceed (JArr (filter (of_group (c # f) ag) rows))
                     | JObj ps \<Rightarrow> if of_group (c # f) ag data then Proceed data
                                  else Answer (RespErr rid ''forbidden'' ''Resource belongs to a different agent group.'')
                     | _ \<Rightarrow> Proceed data))
      | _ \<Rightarrow> Proceed data)"

definition present :: "command \<Rightarrow> string \<Rightarrow> js \<Rightarrow> cli_response" where
  "present cmd rid data =
     RespOk rid data (case cm_formatHuman cmd of
                        None \<Rightarrow> None
                      | Some f \<Rightarrow> (case f data of Inl _ \<Rightarrow> None | Inr h \<Rightarrow> Some h))"

definition with_grant :: "pending_approval option \<Rightarrow> caller_ctx \<Rightarrow> caller_ctx" where
  "with_grant grant ctx =
     (case grant of None \<Rightarrow> ctx | Some g \<Rightarrow> ctx\<lparr>cc_grant := Some (pa_approval_id g, pa_action g)\<rparr>)"

definition run_handler ::
    "cli_env \<Rightarrow> cli_registry \<Rightarrow> caller_ctx \<Rightarrow> pending_approval option \<Rightarrow> command \<Rightarrow> string \<Rightarrow> fields \<Rightarrow> (host_db, cli_response) sm" where
  "run_handler E reg ctx grant cmd rid parsed =
     io_catch
       (io_bind (cm_handler cmd parsed (with_grant grant ctx)) (\<lambda>data.
          case scope_filter E reg (cc_caller ctx) cmd rid data of
            Answer r \<Rightarrow> io_return r
          | Proceed data' \<Rightarrow> io_return (present cmd rid data')))
       (\<lambda>e. io_return (RespErr rid ''handler-error'' (exn_message e)))"

text \<open>The decision done: refusing, answering a call for help, holding, or running the handler.\<close>

definition obey ::
    "cli_env \<Rightarrow> cli_registry \<Rightarrow> caller_ctx \<Rightarrow> pending_approval option \<Rightarrow> command \<Rightarrow> string \<Rightarrow> string \<Rightarrow> fields \<Rightarrow> guard_decision
       \<Rightarrow> (host_db, cli_response) sm" where
  "obey E reg ctx grant cmd rid name args d =
     (case d of
        DENY reason \<Rightarrow> io_return (RespErr rid ''forbidden'' reason)
      | _ \<Rightarrow>
          if own args ''help'' = JBool True then io_return (RespOk rid (JStr (ce_help E cmd)) (Some (ce_help E cmd)))
          else (case d of
                  HOLD reason _ \<Rightarrow> holding E (cc_caller ctx) rid name args reason
                | _ \<Rightarrow>
                    (case cm_parseArgs cmd args of
                       Inl e \<Rightarrow> io_return (RespErr rid ''invalid-args'' (exn_message e))
                     | Inr parsed \<Rightarrow> run_handler E reg ctx grant cmd rid parsed)))"

definition dispatch ::
    "cli_env \<Rightarrow> cli_registry \<Rightarrow> cli_request \<Rightarrow> caller_ctx \<Rightarrow> pending_approval option \<Rightarrow> (host_db, cli_response) sm" where
  "dispatch E reg req ctx grant =
     (case normalizeArgs (rq_args req) of
        Inl e \<Rightarrow> io_return (RespErr (rq_id req) ''invalid-args'' (exn_message e))
      | Inr args0 \<Rightarrow>
          (case resolve_command reg (rq_command req) args0 of
             None \<Rightarrow> io_return (RespErr (rq_id req) ''unknown-command'' (ce_unknown E (rq_command req)))
           | Some (cmd, name, args1) \<Rightarrow>
               io_bind (io_get (dispatch_args E (cc_caller ctx) cmd (rq_id req) name args1)) (\<lambda>st. case st of
                 Inl e \<Rightarrow> io_throw e
               | Inr (Answer r) \<Rightarrow> io_return r
               | Inr (Proceed args) \<Rightarrow>
                   io_bind (io_get (cli_decision reg (cc_caller ctx) cmd args grant)) (\<lambda>d. case d of
                     Inl e \<Rightarrow> io_throw e
                   | Inr dec \<Rightarrow> obey E reg ctx grant cmd (rq_id req) name args dec))))"

subsection \<open>From an agent, and after an approval\<close>

fun response_js :: "cli_response \<Rightarrow> js" where
  "response_js (RespOk i data human) =
     JObj ([(''id'', JStr i), (''ok'', JBool True), (''data'', data)] @
           (case human of None \<Rightarrow> [] | Some h \<Rightarrow> [(''human'', JStr h)]))"
| "response_js (RespErr i code message) =
     JObj [(''id'', JStr i), (''ok'', JBool False), (''error'', JObj [(''code'', JStr code), (''message'', JStr message)])]"

definition response_message :: "clock \<Rightarrow> string \<Rightarrow> cli_response \<Rightarrow> to_session" where
  "response_message ck requestId response =
     \<lparr>ts_id = ''cli-resp-'' @ requestId, ts_kind = ''system'', ts_timestamp = now_iso ck, ts_platformId = None,
      ts_channelType = None, ts_threadId = None,
      ts_content = Json (JObj [(''type'', JStr ''cli_response''), (''requestId'', JStr requestId), (''frame'', response_js response)]),
      ts_processAfter = None, ts_recurrence = None, ts_trigger = False, ts_sourceSessionId = None, ts_onWake = False\<rparr>"

definition session_ctx :: "session_row \<Rightarrow> caller_ctx" where
  "session_ctx session =
     \<lparr>cc_caller = FromAgent (s_id session) (s_agent_group_id session)
        (case s_messaging_group_id session of Some m \<Rightarrow> m | None \<Rightarrow> []), cc_grant = None\<rparr>"

definition cli_request_action :: "cli_env \<Rightarrow> cli_registry \<Rightarrow> action_handler" where
  "cli_request_action E reg content session =
     (let rid = own content ''requestId''; name = own content ''command'' in
      if \<not> js_truthy rid \<or> \<not> js_truthy name then io_return ()
      else case name of
             JStr c \<Rightarrow>
               io_bind (dispatch E reg
                          \<lparr>rq_id = js_to_string rid, rq_command = c, rq_args = or_nullish (own content ''args'') (JObj [])\<rparr>
                          (session_ctx session) None) (\<lambda>response.
                 writeSessionMessage (he_sess (ce_host E)) (s_agent_group_id session) (s_id session)
                   (response_message (se_clock (he_sess (ce_host E))) (js_to_string rid) response))
           | _ \<Rightarrow> io_throw TypeError)"

definition parseCallerContext :: "js \<Rightarrow> cli_caller option" where
  "parseCallerContext v =
     (case v of
        JObj ps \<Rightarrow>
          if own ps ''caller'' = JStr ''host'' then Some FromHost
          else if own ps ''caller'' = JStr ''agent''
          then (case (own ps ''sessionId'', own ps ''agentGroupId'', own ps ''messagingGroupId'') of
                  (JStr sid, JStr ag, JStr mg) \<Rightarrow> Some (FromAgent sid ag mg)
                | _ \<Rightarrow> None)
          else None
      | _ \<Rightarrow> None)"

definition stored_request :: "js \<Rightarrow> cli_request res" where
  "stored_request v =
     (case v of
        JObj ps \<Rightarrow>
          (case (own ps ''id'', own ps ''command'') of
             (JStr i, JStr c) \<Rightarrow> Inr \<lparr>rq_id = i, rq_command = c, rq_args = own ps ''args''\<rparr>
           | _ \<Rightarrow> Inl TypeError)
      | _ \<Rightarrow> Inl TypeError)"

definition replay_note :: "cli_env \<Rightarrow> string \<Rightarrow> cli_response \<Rightarrow> string" where
  "replay_note E name response =
     (case response of
        RespOk _ data _ \<Rightarrow> ''Your `ncl '' @ name @ ''` request was approved and executed.'' @ [CHR 0x0A, CHR 0x0A] @ ce_localize E data
      | RespErr _ _ message \<Rightarrow> ''Your `ncl '' @ name @ ''` request was approved but failed: '' @ message)"

text \<open>The handler of approved commands; the result is the note for the agent.\<close>

definition cli_replay :: "cli_env \<Rightarrow> cli_registry \<Rightarrow> fields \<Rightarrow> pending_approval \<Rightarrow> (host_db, string) sm" where
  "cli_replay E reg payload approval =
     (case stored_request (own payload ''frame'') of
        Inl e \<Rightarrow> io_throw e
      | Inr req \<Rightarrow>
          io_bind (dispatch E reg req
                     \<lparr>cc_caller = (case parseCallerContext (own payload ''callerContext'') of Some c \<Rightarrow> c | None \<Rightarrow> FromHost),
                      cc_grant = None\<rparr> (Some approval)) (\<lambda>response.
            io_return (replay_note E (rq_command req) response)))"

end
