(* ===== verification/CliValidate.thy ===== *)
theory CliValidate
  imports CliDispatch
begin

text \<open>
  The declared arguments of a command and their check (\<open>validateArgs\<close> of \<open>src/cli/crud.ts\<close>), and the
  command that \<open>registerResource\<close> makes of a custom operation.  \<open>Number(x)\<close> of a text and \<open>JSON.parse\<close>
  are parameters; the usage text that is appended to a message is left out.
\<close>

datatype column_type = StringCol | NumberCol | BooleanCol | JsonCol

record column_def =
  co_name :: string
  co_type :: column_type
  co_required :: bool
  co_default :: "js option"
  co_enum :: "string list option"

definition DISPATCH_INJECTED_KEYS :: "string list" where
  "DISPATCH_INJECTED_KEYS = [''id'', ''agent_group_id'', ''group'']"

definition flag_of :: "string \<Rightarrow> string" where
  "flag_of k = ''--'' @ map (\<lambda>c. if c = CHR ''_'' then CHR ''-'' else c) k"

text \<open>The value of a declared argument.\<close>

definition coerce_arg :: "(js \<Rightarrow> js option) \<Rightarrow> (string \<Rightarrow> js res) \<Rightarrow> column_def \<Rightarrow> js \<Rightarrow> js res" where
  "coerce_arg number parse def v =
     (let flag = flag_of (co_name def) in
      if v = JBool True \<and> co_type def \<noteq> BooleanCol then Inl (Error (flag @ '' requires a value''))
      else case co_type def of
             NumberCol \<Rightarrow>
               (case number v of None \<Rightarrow> Inl (Error (flag @ '' must be a number, got \"'' @ js_to_string v @ ''\"'')) | Some n \<Rightarrow> Inr n)
           | BooleanCol \<Rightarrow>
               if v = JBool True \<or> v = JStr ''true'' \<or> v = JStr ''1'' then Inr (JBool True)
               else if v = JBool False \<or> v = JStr ''false'' \<or> v = JStr ''0'' then Inr (JBool False)
               else Inl (Error (flag @ '' must be true or false, got \"'' @ js_to_string v @ ''\"''))
           | JsonCol \<Rightarrow>
               (case v of
                  JStr s \<Rightarrow> (case parse s of Inl _ \<Rightarrow> Inl (Error (flag @ '' must be valid JSON'')) | Inr x \<Rightarrow> Inr x)
                | _ \<Rightarrow> Inr v)
           | StringCol \<Rightarrow> Inr (JStr (js_to_string v)))"

fun validate_defs :: "(js \<Rightarrow> js option) \<Rightarrow> (string \<Rightarrow> js res) \<Rightarrow> column_def list \<Rightarrow> fields \<Rightarrow> fields \<Rightarrow> fields res" where
  "validate_defs number parse [] args out = Inr out"
| "validate_defs number parse (d # ds) args out =
     (let v = own args (co_name d) in
      if v = JUndefined
      then (if co_required d then Inl (Error (flag_of (co_name d) @ '' is required''))
            else validate_defs number parse ds args (case co_default d of Some x \<Rightarrow> set_prop (co_name d) x out | None \<Rightarrow> out))
      else (case coerce_arg number parse d v of
              Inl e \<Rightarrow> Inl e
            | Inr x \<Rightarrow>
                (case co_enum d of
                   Some vs \<Rightarrow>
                     if js_to_string x \<notin> set vs
                     then Inl (Error (flag_of (co_name d) @ '' must be one of: '' @ js_join '', '' vs))
                     else validate_defs number parse ds args (set_prop (co_name d) x out)
                 | None \<Rightarrow> validate_defs number parse ds args (set_prop (co_name d) x out))))"

definition validateArgs :: "(js \<Rightarrow> js option) \<Rightarrow> (string \<Rightarrow> js res) \<Rightarrow> column_def list \<Rightarrow> fields \<Rightarrow> fields res" where
  "validateArgs number parse defs args =
     (case find (\<lambda>k. k \<notin> set (map co_name defs) \<and> k \<notin> set DISPATCH_INJECTED_KEYS) (map fst args) of
        Some k \<Rightarrow> Inl (Error (''unknown flag '' @ flag_of k))
      | None \<Rightarrow> validate_defs number parse defs args args)"

text \<open>A custom operation as a command: its name joins the resource and the verb, spaces becoming hyphens or dots.\<close>

definition subst_space :: "char \<Rightarrow> string \<Rightarrow> string" where
  "subst_space d verb = map (\<lambda>c. if c = CHR '' '' then d else c) verb"

definition custom_command ::
    "(js \<Rightarrow> js option) \<Rightarrow> (string \<Rightarrow> js res) \<Rightarrow> string \<Rightarrow> string \<Rightarrow> access \<Rightarrow> bool \<Rightarrow> string \<Rightarrow> column_def list option
       \<Rightarrow> (fields \<Rightarrow> caller_ctx \<Rightarrow> (host_db, js) sm) \<Rightarrow> (js \<Rightarrow> string res) option \<Rightarrow> command" where
  "custom_command number parse plural verb acc hostOnly description declared handler human =
     \<lparr>cm_name = plural @ ''-'' @ subst_space (CHR ''-'') verb, cm_description = description, cm_access = acc,
      cm_hostOnly = hostOnly, cm_action = Some (plural @ ''.'' @ subst_space (CHR ''.'') verb), cm_resource = Some plural,
      cm_generic = False,
      cm_parseArgs = (\<lambda>raw. bnd (normalizeArgs (JObj raw)) (\<lambda>args. case declared of
          None \<Rightarrow> Inr args | Some defs \<Rightarrow> validateArgs number parse defs args)),
      cm_handler = handler, cm_formatHuman = human\<rparr>"

subsection \<open>What passes the check\<close>

lemma validate_defs_required:
  "validate_defs number parse ds args out = Inr r \<Longrightarrow> d \<in> set ds \<Longrightarrow> co_required d \<Longrightarrow> own args (co_name d) \<noteq> JUndefined"
  by (induction ds arbitrary: out) (auto simp: Let_def split: if_splits sum.splits option.splits)

lemma validated_flags:
  assumes "validateArgs number parse defs args = Inr r" "(k, v) \<in> set args"
  shows "k \<in> co_name ` set defs \<or> k \<in> set DISPATCH_INJECTED_KEYS"
  using assms by (auto simp: validateArgs_def find_None_iff split: option.splits)

end
