(* ===== verification/TaskCommands.thy ===== *)
theory TaskCommands
  imports CliValidate
begin

text \<open>
  The task commands (\<open>src/cli/resources/tasks.ts\<close>): each handler as the dispatcher runs it.  A session
  in their scope is its id and its agent group.  \<open>tk_running\<close> is \<open>isContainerRunning\<close>; the removal of a
  deleted session's folder is not part of the state.
\<close>

record task_cmd_env =
  tk_task :: task_env
  tk_recur :: recur_env
  tk_TIMEZONE :: string
  tk_running :: "string \<Rightarrow> bool"

type_synonym scoped = "string \<times> string"

definition tk_sess :: "task_cmd_env \<Rightarrow> sess_env" where
  "tk_sess T = te_sess (tk_task T)"

definition tk_clock :: "task_cmd_env \<Rightarrow> clock" where
  "tk_clock T = se_clock (tk_sess T)"

subsection \<open>Reading arguments\<close>

definition arg_str :: "js \<Rightarrow> string option" where
  "arg_str v = (case v of JStr s \<Rightarrow> (if s = [] then None else Some s) | _ \<Rightarrow> None)"

definition arg_bool :: "js \<Rightarrow> bool" where
  "arg_bool v \<longleftrightarrow> v = JBool True \<or> v = JStr ''true'' \<or> v = JStr ''1''"

text \<open>\<open>None\<close> is \<open>undefined\<close>, \<open>Some None\<close> is \<open>null\<close>.\<close>

definition normalizeNullableString :: "js \<Rightarrow> string option option" where
  "normalizeNullableString v =
     (case v of
        JUndefined \<Rightarrow> None
      | JNull \<Rightarrow> Some None
      | JStr s \<Rightarrow> (if js_trim s \<in> {[], ''null'', ''none''} then Some None else Some (Some s))
      | _ \<Rightarrow> Some (Some (js_to_string v)))"

definition statusFilter :: "fields \<Rightarrow> inbound_status option res" where
  "statusFilter args =
     (case arg_str (own args ''status'') of
        None \<Rightarrow> Inr None
      | Some s \<Rightarrow> if s = ''pending'' then Inr (Some MsgPending)
                  else if s = ''paused'' then Inr (Some MsgPaused)
                  else Inl (Error ''--status must be pending or paused''))"

definition groupArg :: "fields \<Rightarrow> cli_caller \<Rightarrow> string option" where
  "groupArg args caller =
     (case caller of
        FromAgent sid ag mg \<Rightarrow> (if ag = [] then None else Some ag)
      | FromHost \<Rightarrow> (case arg_str (own args ''group'') of Some g \<Rightarrow> Some g | None \<Rightarrow> arg_str (own args ''agent_group_id'')))"

definition ownSession :: "string \<Rightarrow> cli_caller \<Rightarrow> session_row list \<Rightarrow> scoped res" where
  "ownSession sid caller rows =
     (case getSession sid rows of
        None \<Rightarrow> Inl (Error (''session not found: '' @ sid))
      | Some r \<Rightarrow>
          (case caller of
             FromHost \<Rightarrow> Inr (s_id r, s_agent_group_id r)
           | FromAgent _ ag _ \<Rightarrow>
               if s_agent_group_id r \<noteq> ag then Inl (Error (''session not found: '' @ sid))
               else Inr (s_id r, s_agent_group_id r)))"

definition selectedSessions :: "fields \<Rightarrow> cli_caller \<Rightarrow> bool \<Rightarrow> session_row list \<Rightarrow> scoped list res" where
  "selectedSessions args caller includeClosed rows =
     (case arg_str (own args ''session'') of
        Some sid \<Rightarrow> bnd (ownSession sid caller rows) (\<lambda>s. Inr [s])
      | None \<Rightarrow>
          (case groupArg args caller of
             Some g \<Rightarrow> Inr (map (\<lambda>r. (s_id r, s_agent_group_id r)) (findTaskSessions g includeClosed rows))
           | None \<Rightarrow>
               if is_agent caller then Inr []
               else Inr (map (\<lambda>r. (s_id r, s_agent_group_id r)) (getActiveSessions rows))))"

definition select :: "fields \<Rightarrow> caller_ctx \<Rightarrow> bool \<Rightarrow> (host_db, scoped list) sm" where
  "select args ctx includeClosed =
     io_bind (io_get (\<lambda>s. selectedSessions args (cc_caller ctx) includeClosed (ss_sessions s))) (\<lambda>r. case r of
       Inl e \<Rightarrow> io_throw e | Inr ss \<Rightarrow> io_return ss)"

definition withInbound :: "scoped \<Rightarrow> (mailbox, 'a) sm \<Rightarrow> (host_db, 'a option) sm" where
  "withInbound s act = withExistingMailboxSession (snd s) (fst s) act"

definition lift_res :: "'a res \<Rightarrow> ('s, 'a) sm" where
  "lift_res r = (case r of Inl e \<Rightarrow> io_throw e | Inr x \<Rightarrow> io_return x)"

text \<open>The loops over the selected sessions: the first result, the sum, and all rows.\<close>

fun first_found :: "(scoped \<Rightarrow> (host_db, 'a option) sm) \<Rightarrow> scoped list \<Rightarrow> (host_db, 'a option) sm" where
  "first_found f [] = io_return None"
| "first_found f (x # xs) = io_bind (f x) (\<lambda>r. case r of Some y \<Rightarrow> io_return (Some y) | None \<Rightarrow> first_found f xs)"

fun sum_over :: "(scoped \<Rightarrow> (host_db, nat) sm) \<Rightarrow> scoped list \<Rightarrow> (host_db, nat) sm" where
  "sum_over f [] = io_return 0"
| "sum_over f (x # xs) = io_bind (f x) (\<lambda>n. io_bind (sum_over f xs) (\<lambda>m. io_return (n + m)))"

fun collect_over :: "(scoped \<Rightarrow> (host_db, 'a list) sm) \<Rightarrow> scoped list \<Rightarrow> (host_db, 'a list) sm" where
  "collect_over f [] = io_return []"
| "collect_over f (x # xs) = io_bind (f x) (\<lambda>ys. io_bind (collect_over f xs) (\<lambda>zs. io_return (ys @ zs)))"

definition task_id_arg :: "fields \<Rightarrow> string res" where
  "task_id_arg args = (case arg_str (own args ''id'') of None \<Rightarrow> Inl (Error ''task series id is required'') | Some i \<Rightarrow> Inr i)"

subsection \<open>Output\<close>

definition series_key :: "task_record \<Rightarrow> string" where
  "series_key row = (case tr_seriesId row of Some t \<Rightarrow> t | None \<Rightarrow> tr_id row)"

definition toOutput :: "task_cmd_env \<Rightarrow> scoped \<Rightarrow> task_record \<Rightarrow> fields" where
  "toOutput T session row =
     (let content = parseTaskContent (tk_sess T) (tr_content row); prompt = tc_prompt content in
      [(''agent_group_id'', JStr (snd session)), (''session_id'', JStr (fst session)),
       (''series_id'', JStr (series_key row)), (''row_id'', JStr (tr_id row)),
       (''status'', JStr (inbound_status_str (tr_status row))), (''process_after'', null_str (tr_processAfter row)),
       (''recurrence'', null_str (tr_recurrence row)),
       (''prompt'', JStr (if length prompt > 120 then take 117 prompt @ ''...'' else prompt)),
       (''has_script'', JNum (case tc_script content of Some (c # s) \<Rightarrow> 1 | _ \<Rightarrow> 0)),
       (''origin_session_id'', null_str (tc_originSessionId content)), (''created_at'', JStr (tr_timestamp row)),
       (''tries'', JNum (tr_tries row))])"

definition enrichListRow :: "clock \<Rightarrow> mailbox \<Rightarrow> string \<Rightarrow> string option \<Rightarrow> string option \<Rightarrow> fields \<Rightarrow> js" where
  "enrichListRow ck mb key recurrence processAfter base =
     (case getTaskStats ck key mb of
        (nruns, lastRun, failed) \<Rightarrow>
          JObj (base @ [(''schedule'', JStr (case recurrence of Some c \<Rightarrow> c | None \<Rightarrow> ''once'')), (''runs'', JNum (int nruns)),
             (''failed_runs'', JNum (int failed)), (''last_run'', null_str lastRun), (''next_run'', null_str processAfter),
             (''log'', JStr (''tasks/'' @ key @ ''.md''))]))"

definition list_rows :: "task_cmd_env \<Rightarrow> inbound_status option \<Rightarrow> scoped \<Rightarrow> (mailbox, js list) sm" where
  "list_rows T status session =
     io_bind (io_get (\<lambda>mb. bnd (all_res (listLiveTasks (tk_clock T) status mb)) (\<lambda>rows.
       Inr (map (\<lambda>row. enrichListRow (tk_clock T) mb (series_key row) (tr_recurrence row) (tr_processAfter row) (toOutput T session row)) rows))))
       lift_res"

subsection \<open>Commands that read\<close>

definition listTasks :: "task_cmd_env \<Rightarrow> fields \<Rightarrow> caller_ctx \<Rightarrow> (host_db, js) sm" where
  "listTasks T args ctx =
     io_bind (lift_res (statusFilter args)) (\<lambda>status.
     io_bind (select args ctx False) (\<lambda>ss.
     io_bind (collect_over (\<lambda>s. io_bind (withInbound s (list_rows T status s)) (\<lambda>r. io_return (case r of Some rows \<Rightarrow> rows | None \<Rightarrow> []))) ss)
       (\<lambda>rows. io_return (JArr rows))))"

text \<open>A task of a mailbox, or nothing; a row that does not parse throws.\<close>

definition find_task :: "task_cmd_env \<Rightarrow> string \<Rightarrow> (mailbox, task_record option) sm" where
  "find_task T i =
     io_bind (io_get (getTask (tk_clock T) i)) (\<lambda>r. case r of
       None \<Rightarrow> io_return None | Some (Inl e) \<Rightarrow> io_throw e | Some (Inr row) \<Rightarrow> io_return (Some row))"

definition task_details :: "task_cmd_env \<Rightarrow> scoped \<Rightarrow> string \<Rightarrow> (mailbox, (fields \<times> string) option) sm" where
  "task_details T session i =
     io_bind (find_task T i) (\<lambda>r. case r of
       None \<Rightarrow> io_return None
     | Some row \<Rightarrow>
         io_bind (io_get (getTaskStats (tk_clock T) (series_key row))) (\<lambda>(nruns, lastRun, failed).
           (let content = parseTaskContent (tk_sess T) (tr_content row) in
            io_return (Some (spread (toOutput T session row)
              [(''prompt'', JStr (tc_prompt content)), (''script'', null_str (tc_script content)),
               (''origin_session_id'', null_str (tc_originSessionId content)), (''completed_runs'', JNum (int nruns)),
               (''failed_runs'', JNum (int failed))], series_key row)))))"

definition getTaskCommand :: "task_cmd_env \<Rightarrow> fields \<Rightarrow> caller_ctx \<Rightarrow> (host_db, js) sm" where
  "getTaskCommand T args ctx =
     io_bind (lift_res (task_id_arg args)) (\<lambda>i.
     io_bind (select args ctx False) (\<lambda>ss.
     io_bind (first_found (\<lambda>s. io_bind (withInbound s (task_details T s i)) (\<lambda>r. io_return (case r of
          Some (Some (out, key)) \<Rightarrow> Some (s, out, key) | _ \<Rightarrow> None))) ss) (\<lambda>found. case found of
       None \<Rightarrow> io_throw (Error (''task not found: '' @ i))
     | Some (s, out, key) \<Rightarrow>
         io_bind (io_get hd_agents) (\<lambda>groups.
         io_bind (on_world (readRunLogTail (se_container (tk_sess T)) (re_dir (tk_recur T)) groups (snd s) key 10)) (\<lambda>tail.
           io_return (JObj (spread out [(''recent_log'', JArr (map JStr tail))])))))))"

subsection \<open>Commands that write\<close>

definition createTask :: "task_cmd_env \<Rightarrow> fields \<Rightarrow> caller_ctx \<Rightarrow> (host_db, js) sm" where
  "createTask T args ctx =
     (case groupArg args (cc_caller ctx) of
        None \<Rightarrow> io_throw (Error ''--group is required'')
      | Some g \<Rightarrow>
          (case arg_str (own args ''prompt'') of
             None \<Rightarrow> io_throw (Error ''--prompt is required'')
           | Some prompt \<Rightarrow>
               io_bind (lift_res (prepareScheduledTask (tk_task T)
                   \<lparr>ti_name = null_text (arg_str (own args ''name'')), ti_prompt = prompt,
                    ti_recurrence = (case normalizeNullableString (own args ''recurrence'') of Some x \<Rightarrow> x | None \<Rightarrow> None),
                    ti_processAfter = arg_str (own args ''process_after''),
                    ti_script = (case normalizeNullableString (own args ''script'') of Some x \<Rightarrow> x | None \<Rightarrow> None),
                    ti_override = arg_bool (own args ''dangerously_override_recurrence_limit''),
                    ti_timezone = re_tz (tk_recur T) g\<rparr>)) (\<lambda>prepared.
               io_bind (createScheduledTask (tk_task T) g prepared None
                   (case cc_caller ctx of FromAgent sid ag mg \<Rightarrow> Some sid | FromHost \<Rightarrow> None)) (\<lambda>(session, row).
                 io_return (JObj (toOutput T (s_id session, s_agent_group_id session) row))))))"

definition appendTaskLog :: "task_cmd_env \<Rightarrow> fields \<Rightarrow> caller_ctx \<Rightarrow> (host_db, js) sm" where
  "appendTaskLog T args ctx =
     (case arg_str (own args ''msg'') of
        None \<Rightarrow> io_throw (Error ''--msg is required'')
      | Some msg \<Rightarrow>
          io_bind (io_get (\<lambda>s. (case (arg_str (own args ''id''), cc_caller ctx) of
              (None, FromAgent sid ag mg) \<Rightarrow>
                (case getSession sid (ss_sessions s) of
                   Some r \<Rightarrow> if sid \<noteq> [] \<and> isTaskThread (s_thread_id r)
                             then (map_option (drop (length TASKS_SYSTEM_THREAD_ID + 1)) (s_thread_id r),
                                   (case groupArg args (cc_caller ctx) of Some g \<Rightarrow> Some g | None \<Rightarrow> Some (s_agent_group_id r)))
                             else (None, groupArg args (cc_caller ctx))
                 | None \<Rightarrow> (None, groupArg args (cc_caller ctx)))
            | (i, _) \<Rightarrow> (i, groupArg args (cc_caller ctx)), hd_agents s))) (\<lambda>((series, group), agents).
            case series of
              None \<Rightarrow> io_throw (Error ''--id is required (no task session to derive it from)'')
            | Some t \<Rightarrow>
                if t = [] then io_throw (Error ''--id is required (no task session to derive it from)'')
                else (case group of
                        None \<Rightarrow> io_throw (Error ''could not resolve the agent group'')
                      | Some g \<Rightarrow>
                          io_bind (on_world (appendRunLog (se_container (tk_sess T)) (re_dir (tk_recur T)) (re_stamp (tk_recur T)) agents g t msg))
                            (\<lambda>_. io_return (JObj [(''series'', JStr t), (''timestamp'', JStr (re_stamp (tk_recur T))), (''ok'', JBool True)])))))"

definition counted :: "(mailbox \<Rightarrow> nat \<times> mailbox) \<Rightarrow> (mailbox, nat) sm" where
  "counted f mb = (case f mb of (n, mb') \<Rightarrow> (Inr n, mb'))"

definition count_in :: "(mailbox \<Rightarrow> nat \<times> mailbox) \<Rightarrow> scoped \<Rightarrow> (host_db, nat) sm" where
  "count_in f s = io_bind (withInbound s (counted f)) (\<lambda>r. io_return (case r of Some n \<Rightarrow> n | None \<Rightarrow> 0))"

definition touched_js :: "string \<Rightarrow> nat \<Rightarrow> js" where
  "touched_js i n = JObj [(''series_id'', JStr i), (''touched'', JNum (int n))]"

definition mutateTask :: "(string \<Rightarrow> mailbox \<Rightarrow> nat \<times> mailbox) \<Rightarrow> fields \<Rightarrow> caller_ctx \<Rightarrow> (host_db, js) sm" where
  "mutateTask fn args ctx =
     io_bind (lift_res (task_id_arg args)) (\<lambda>i.
     io_bind (select args ctx False) (\<lambda>ss.
     io_bind (sum_over (count_in (fn i)) ss) (\<lambda>n.
       if n = 0 then io_throw (Error (''no live task matched: '' @ i)) else io_return (touched_js i n))))"

definition pauseTaskCommand :: "fields \<Rightarrow> caller_ctx \<Rightarrow> (host_db, js) sm" where
  "pauseTaskCommand = mutateTask pauseTask"

definition resumeTaskCommand :: "fields \<Rightarrow> caller_ctx \<Rightarrow> (host_db, js) sm" where
  "resumeTaskCommand = mutateTask resumeTask"

definition cancelTaskCommand :: "fields \<Rightarrow> caller_ctx \<Rightarrow> (host_db, js) sm" where
  "cancelTaskCommand args ctx =
     (if \<not> arg_bool (own args ''all'') then mutateTask cancelTask args ctx
      else io_bind (select args ctx False) (\<lambda>ss.
           io_bind (sum_over (count_in cancelAllTasks) ss) (\<lambda>n. io_return (JObj [(''cancelled'', JNum (int n))]))))"

definition remove_log :: "task_cmd_env \<Rightarrow> string \<Rightarrow> string \<Rightarrow> (host_db, unit) sm" where
  "remove_log T ag i =
     io_bind (io_get hd_agents) (\<lambda>groups. on_world (deleteRunLog (se_container (tk_sess T)) (re_dir (tk_recur T)) groups ag i))"

definition delete_one :: "task_cmd_env \<Rightarrow> string \<Rightarrow> scoped \<Rightarrow> (host_db, nat) sm" where
  "delete_one T i s =
     io_bind (withInbound s (find_task T i)) (\<lambda>found. case found of
       Some (Some row) \<Rightarrow>
         if tk_running T (fst s) then io_throw (Error (''task is running; wait for it to finish before deleting: '' @ i))
         else io_bind (io_get (\<lambda>st. map_option s_thread_id (getSession (fst s) (ss_sessions st)))) (\<lambda>thread.
           if thread = Some (Some (taskThreadId i))
           then io_bind (destroySessionMailbox (snd s) (fst s)) (\<lambda>_.
                io_bind (on_sessions (deleteSession (fst s))) (\<lambda>_.
                io_bind (remove_log T (snd s) i) (\<lambda>_. io_return 1)))
           else io_bind (count_in (deleteTask i) s) (\<lambda>n.
                if n = 0 then io_return 0 else io_bind (remove_log T (snd s) i) (\<lambda>_. io_return n)))
     | _ \<Rightarrow> io_return 0)"

definition deleteTaskCommand :: "task_cmd_env \<Rightarrow> fields \<Rightarrow> caller_ctx \<Rightarrow> (host_db, js) sm" where
  "deleteTaskCommand T args ctx =
     io_bind (lift_res (task_id_arg args)) (\<lambda>i.
     io_bind (select args ctx True) (\<lambda>ss.
     io_bind (sum_over (delete_one T i) ss) (\<lambda>n.
       if n = 0 then io_throw (Error (''no task matched: '' @ i)) else io_return (touched_js i n))))"

text \<open>The owner of the task and its script, when a time or a recurrence is to be read in its time zone.\<close>

definition task_owner :: "task_cmd_env \<Rightarrow> fields \<Rightarrow> string \<Rightarrow> caller_ctx \<Rightarrow> (host_db, (string \<times> string option) option) sm" where
  "task_owner T args i ctx =
     (if own args ''process_after'' = JUndefined \<and> normalizeNullableString (own args ''recurrence'') = None then io_return None
      else io_bind (select args ctx False) (\<lambda>ss.
        first_found (\<lambda>s. io_bind (withInbound s (find_task T i)) (\<lambda>r. io_return (case r of
          Some (Some row) \<Rightarrow> Some (snd s, tc_script (parseTaskContent (tk_sess T) (tr_content row))) | _ \<Rightarrow> None))) ss))"

definition update_of ::
    "task_cmd_env \<Rightarrow> fields \<Rightarrow> (string \<times> string option) option \<Rightarrow> (task_update \<times> string list) res" where
  "update_of T args owner =
     (let recurrence = normalizeNullableString (own args ''recurrence''); script = normalizeNullableString (own args ''script'');
          prompt = js_str (own args ''prompt'');
          tz = (case owner of Some (g, _) \<Rightarrow> re_tz (tk_recur T) g | None \<Rightarrow> tk_TIMEZONE T);
          current = (case owner of Some (_, sc) \<Rightarrow> sc | None \<Rightarrow> None) in
      bnd (if own args ''process_after'' = JUndefined then Inr None
           else bnd (parseProcessAfter (tk_task T) (own args ''process_after'') tz) (\<lambda>p. Inr (Some p))) (\<lambda>processAfter.
      bnd (case recurrence of
             None \<Rightarrow> Inr ()
           | Some rec \<Rightarrow>
               bnd (validateRecurrence (tk_task T) rec tz) (\<lambda>_.
                 enforceRecurrenceLimit (tk_task T) rec (arg_bool (own args ''dangerously_override_recurrence_limit''))
                   ((case script of Some sc \<Rightarrow> sc | None \<Rightarrow> current) \<noteq> None) tz)) (\<lambda>_.
        (let names = (if prompt = None then [] else [''prompt'']) @ (if processAfter = None then [] else [''processAfter'']) @
                     (if recurrence = None then [] else [''recurrence'']) @ (if script = None then [] else [''script'']) in
         if names = [] then Inl (Error ''nothing to update'')
         else Inr (\<lparr>tu_prompt = prompt, tu_script = script, tu_recurrence = recurrence, tu_processAfter = processAfter\<rparr>, names)))))"

definition update_in :: "task_cmd_env \<Rightarrow> string \<Rightarrow> task_update \<Rightarrow> (mailbox, nat) sm" where
  "update_in T i u mb =
     (case updateTask (tk_clock T) (se_parse (tk_sess T)) json_text i u mb of
        Inl e \<Rightarrow> (Inl e, mb) | Inr (n, mb') \<Rightarrow> (Inr n, mb'))"

definition updateTaskCommand :: "task_cmd_env \<Rightarrow> fields \<Rightarrow> caller_ctx \<Rightarrow> (host_db, js) sm" where
  "updateTaskCommand T args ctx =
     io_bind (lift_res (task_id_arg args)) (\<lambda>i.
     io_bind (task_owner T args i ctx) (\<lambda>owner.
     io_bind (lift_res (update_of T args owner)) (\<lambda>(u, names).
     io_bind (select args ctx False) (\<lambda>ss.
     io_bind (sum_over (\<lambda>s. io_bind (withInbound s (update_in T i u)) (\<lambda>r. io_return (case r of Some n \<Rightarrow> n | None \<Rightarrow> 0))) ss) (\<lambda>n.
       if n = 0 then io_throw (Error (''no live task matched: '' @ i))
       else io_return (JObj [(''series_id'', JStr i), (''touched'', JNum (int n)), (''fields'', JArr (map JStr names))]))))))"

text \<open>An extra occurrence, due now and without the recurrence.\<close>

definition fire_now :: "task_cmd_env \<Rightarrow> string \<Rightarrow> string \<Rightarrow> (mailbox, js option) sm" where
  "fire_now T i uuid =
     io_bind (find_task T i) (\<lambda>r. case r of
       None \<Rightarrow> io_return None
     | Some row \<Rightarrow>
         (let rowId = makeTaskId (JStr (series_key row @ ''-run'')) uuid in
          io_bind (throwing (inbound_insertTask (tk_clock T) (JObj [(''id'', JStr rowId), (''seriesId'', JStr (series_key row)),
              (''processAfter'', JStr (now_iso (tk_clock T))), (''recurrence'', JNull), (''content'', JStr (tr_content row))]))) (\<lambda>_.
            io_return (Some (JObj [(''series_id'', JStr (series_key row)), (''row_id'', JStr rowId), (''status'', JStr ''pending'')])))))"

definition runTaskCommand :: "task_cmd_env \<Rightarrow> fields \<Rightarrow> caller_ctx \<Rightarrow> (host_db, js) sm" where
  "runTaskCommand T args ctx =
     io_bind (lift_res (task_id_arg args)) (\<lambda>i.
     io_bind (select args ctx False) (\<lambda>ss.
     io_bind (first_found (\<lambda>s. io_bind draw (\<lambda>uuid. io_bind (withInbound s (fire_now T i uuid)) (\<lambda>r.
         io_return (case r of Some x \<Rightarrow> x | None \<Rightarrow> None)))) ss) (\<lambda>fired. case fired of
       None \<Rightarrow> io_throw (Error (''task not found: '' @ i)) | Some out \<Rightarrow> io_return out)))"

subsection \<open>The resource\<close>

definition str_col :: "string \<Rightarrow> column_def" where
  "str_col n = \<lparr>co_name = n, co_type = StringCol, co_required = False, co_default = None, co_enum = None\<rparr>"

definition required :: "column_def \<Rightarrow> column_def" where
  "required d = d\<lparr>co_required := True\<rparr>"

definition bool_col :: "string \<Rightarrow> column_def" where
  "bool_col n = (str_col n)\<lparr>co_type := BooleanCol\<rparr>"

definition task_ops ::
    "task_cmd_env \<Rightarrow> (string \<times> column_def list \<times> (fields \<Rightarrow> caller_ctx \<Rightarrow> (host_db, js) sm)) list" where
  "task_ops T =
     [(''list'', [(str_col ''status'')\<lparr>co_enum := Some [''pending'', ''paused'']\<rparr>, str_col ''group'', str_col ''session'', bool_col ''all''], listTasks T),
      (''get'', [required (str_col ''id''), str_col ''group'', str_col ''session''], getTaskCommand T),
      (''create'', [str_col ''name'', required (str_col ''prompt''), str_col ''recurrence'', bool_col ''dangerously_override_recurrence_limit'',
                    str_col ''process_after'', str_col ''script'', str_col ''group''], createTask T),
      (''append-log'', [required (str_col ''msg''), str_col ''id'', str_col ''group''], appendTaskLog T),
      (''update'', [required (str_col ''id''), str_col ''prompt'', str_col ''process_after'', str_col ''recurrence'',
                    bool_col ''dangerously_override_recurrence_limit'', str_col ''script'', str_col ''group'', str_col ''session''], updateTaskCommand T),
      (''cancel'', [str_col ''id'', bool_col ''all'', str_col ''group'', str_col ''session''], cancelTaskCommand),
      (''run'', [required (str_col ''id''), str_col ''group'', str_col ''session''], runTaskCommand T),
      (''pause'', [required (str_col ''id''), str_col ''group'', str_col ''session''], pauseTaskCommand),
      (''resume'', [required (str_col ''id''), str_col ''group'', str_col ''session''], resumeTaskCommand),
      (''delete'', [required (str_col ''id''), str_col ''group'', str_col ''session''], deleteTaskCommand T)]"

definition task_commands :: "task_cmd_env \<Rightarrow> (js \<Rightarrow> js option) \<Rightarrow> (js \<Rightarrow> string res) \<Rightarrow> command list" where
  "task_commands T number table =
     map (\<lambda>(verb, cols, h). custom_command number (se_parse (tk_sess T)) ''tasks'' verb OpenAccess False verb (Some cols) h
            (if verb = ''list'' then Some table else None)) (task_ops T)"

end
