(* ===== verification/CliSafety.thy ===== *)
theory CliSafety
  imports CliDispatch
begin

text \<open>
  What an agent can make the command line do.  The registry is one that registrations have built:
  \<open>registered E defs\<close> registers the commands one after the other, a refused one leaving what it leaves.
\<close>

definition no_commands :: "(string \<times> string option) list \<Rightarrow> cli_registry" where
  "no_commands resources = \<lparr>cr_commands = [], cr_guards = [], cr_catalog = empty_catalog, cr_resources = resources\<rparr>"

definition registered :: "cli_env \<Rightarrow> command list \<Rightarrow> (string \<times> string option) list \<Rightarrow> cli_registry" where
  "registered E defs resources = fold (\<lambda>def reg. snd (register_command E def reg)) defs (no_commands resources)"

subsection \<open>The registry\<close>

definition guards_command :: "cli_env \<Rightarrow> command \<Rightarrow> host_db guarded_action \<Rightarrow> bool" where
  "guards_command E cmd a \<longleftrightarrow> ga_decide a = commandDecide E cmd \<and>
     ga_grantActionName a = ga_grantActionName (commandGuardSpec E cmd) \<and>
     ga_grantCoversRequest a = ga_grantCoversRequest (commandGuardSpec E cmd)"

definition registry_ok :: "cli_env \<Rightarrow> cli_registry \<Rightarrow> bool" where
  "registry_ok E reg \<longleftrightarrow>
     (\<forall>(n, cmd) \<in> set (cr_commands reg). cm_name cmd = n) \<and>
     (\<forall>(n, a) \<in> set (cr_guards reg). \<exists>cmd. lookup_command reg n = Some cmd \<and> guards_command E cmd a)"

lemma registry_ok_register:
  assumes "registry_ok E reg"
  shows "registry_ok E (snd (register_command E def reg))"
proof (cases "map_of (cr_commands reg) (cm_name def)")
  case None
  let ?reg1 = "reg\<lparr>cr_commands := cr_commands reg @ [(cm_name def, def)]\<rparr>"
  have grown: "lookup_command ?reg1 n = (if n = cm_name def then Some def else lookup_command reg n)" for n
    using map_of_snoc [OF None, of def n] by (simp add: lookup_command_def del: map_of_append)
  have 1: "registry_ok E ?reg1"
    using assms None unfolding registry_ok_def grown by (fastforce simp: lookup_command_def)
  show ?thesis
  proof (cases "defineGuardedAction (commandGuardSpec E def) (cr_catalog reg)")
    case (Inl e)
    with 1 None show ?thesis by (simp add: register_command_def Let_def)
  next
    case (Inr p)
    obtain a cat where p: "p = (a, cat)" by fastforce
    from defineGuardedAction_Inr [OF Inr [unfolded p]] have "guards_command E def a"
      by (simp add: guards_command_def commandGuardSpec_def)
    moreover have "lookup_command (?reg1\<lparr>cr_guards := gs, cr_catalog := cat\<rparr>) n = lookup_command ?reg1 n" for gs n
      by (simp add: lookup_command_def)
    ultimately show ?thesis using 1 None Inr p grown
      by (auto simp: register_command_def Let_def registry_ok_def)
  qed
qed (use assms in \<open>simp add: register_command_def\<close>)

lemma registry_ok_registered: "registry_ok E (registered E defs resources)"
proof -
  have "registry_ok E (fold (\<lambda>def reg. snd (register_command E def reg)) defs reg)" if "registry_ok E reg" for reg
    using that by (induction defs arbitrary: reg) (simp_all add: registry_ok_register)
  moreover have "registry_ok E (no_commands resources)" by (simp add: registry_ok_def no_commands_def)
  ultimately show ?thesis by (simp add: registered_def)
qed

lemma lookup_name: "registry_ok E reg \<Longrightarrow> lookup_command reg n = Some cmd \<Longrightarrow> cm_name cmd = n"
  by (auto simp: registry_ok_def lookup_command_def dest: map_of_SomeD)

lemma command_has_its_guard:
  assumes "registry_ok E reg" "lookup_command reg n = Some cmd" "commandGuard reg n = Inr a"
  shows "guards_command E cmd a"
  using assms by (auto simp: registry_ok_def commandGuard_def split: option.splits dest!: map_of_SomeD)

lemma find_prefix_lookup: "find_prefix reg name s = Some (cmd, short, tail) \<Longrightarrow> lookup_command reg short = Some cmd"
proof (induction reg name s rule: find_prefix.induct)
  case (1 reg name s)
  then show ?case by (subst (asm) (2) find_prefix.simps) (auto simp: Let_def split: if_splits option.splits)
qed

lemma resolve_lookup_command:
  "resolve_command reg name args = Some (cmd, short, args') \<Longrightarrow> lookup_command reg short = Some cmd"
  by (auto simp: resolve_command_def dest: find_prefix_lookup split: option.splits)

subsection \<open>Canonical arguments\<close>

definition canonical_args :: "fields \<Rightarrow> bool" where
  "canonical_args args \<longleftrightarrow> distinct (map fst args) \<and> list_all (\<lambda>(k, _). canonical_key k = k \<and> k \<noteq> ''__proto__'') args"

lemma own_set_prop: "own (set_prop k v ps) j = (if j = k then v else own ps j)"
proof (cases "map_of ps k")
  case None
  then show ?thesis using map_of_snoc [OF None, of v j] by (simp add: set_prop_def has_key_def own_def)
next
  case (Some x)
  have eq: "map (\<lambda>(k', x). if k' = k then (k', v) else (k', x)) ps = map (\<lambda>(k', v'). (k', if k' = k then v else v')) ps"
    by auto
  show ?thesis using Some map_of_update [of k v ps j] by (simp add: set_prop_def has_key_def own_def eq)
qed

lemma keys_set_prop: "map fst (set_prop k v ps) = (if has_key ps k then map fst ps else map fst ps @ [k])"
  by (auto simp: set_prop_def intro!: map_cong)

lemma canonical_set_prop:
  "canonical_args args \<Longrightarrow> canonical_key k = k \<Longrightarrow> k \<noteq> ''__proto__'' \<Longrightarrow> canonical_args (set_prop k v args)"
proof -
  assume a: "canonical_args args" "canonical_key k = k" "k \<noteq> ''__proto__''"
  have all: "list_all (\<lambda>(k, _). canonical_key k = k \<and> k \<noteq> ''__proto__'') ps \<longleftrightarrow>
      (\<forall>k \<in> set (map fst ps). canonical_key k = k \<and> k \<noteq> ''__proto__'')" for ps :: fields
    by (auto simp: list_all_iff)
  show ?thesis using a unfolding canonical_args_def all keys_set_prop
    by (auto simp: has_key_def map_of_eq_None_iff)
qed

lemma canonical_key_idem: "canonical_key (canonical_key k) = canonical_key k"
  by (simp add: canonical_key_def)

lemma normalize_canonical: "normalize_loop ps seen out = Inr r \<Longrightarrow> canonical_args out \<Longrightarrow> canonical_args r"
  by (induction ps seen out rule: normalize_loop.induct)
    (auto simp: Let_def canonical_set_prop canonical_key_idem split: if_splits option.splits)

lemma normalize_id_aux:
  assumes "canonical_args (out @ ps)" "fst ` set seen \<subseteq> fst ` set out"
  shows "normalize_loop ps seen out = Inr (out @ ps)"
  using assms
proof (induction ps arbitrary: seen out)
  case (Cons p ps)
  obtain k v where p: "p = (k, v)" by fastforce
  have k: "canonical_key k = k" "k \<noteq> ''__proto__''" "k \<notin> fst ` set out"
    using Cons.prems(1) by (auto simp: p canonical_args_def)
  then have "map_of seen k = None" "map_of out k = None"
    using Cons.prems(2) by (auto simp: map_of_eq_None_iff)
  moreover have "set_prop k v out = out @ [(k, v)]" using \<open>map_of out k = None\<close> by (simp add: set_prop_def has_key_def)
  moreover have "k \<notin> fst ` set seen" using k(3) Cons.prems(2) by blast
  then have "fst ` set (map_set k k seen) \<subseteq> fst ` set (out @ [(k, v)])"
    using Cons.prems(2) by (auto simp: map_set_def)
  ultimately show ?case using Cons.IH [of "out @ [(k, v)]" "map_set k k seen"] Cons.prems(1) k(1,2) by (simp add: p Let_def)
qed simp

lemma normalize_id: "canonical_args args \<Longrightarrow> normalizeArgs (JObj args) = Inr args"
  using normalize_id_aux [of "[]" args "[]"] by (simp add: normalizeArgs_def)

lemma canonical_normalized: "normalizeArgs v = Inr args \<Longrightarrow> canonical_args args"
  using normalize_canonical [of _ "[]" "[]" args] by (auto simp: normalizeArgs_def canonical_args_def split: js.splits)

lemma canonical_spread:
  "canonical_args args \<Longrightarrow> list_all (\<lambda>(k, _). canonical_key k = k \<and> k \<noteq> ''__proto__'') new \<Longrightarrow> canonical_args (spread args new)"
  unfolding spread_def by (induction new arbitrary: args) (auto simp: canonical_set_prop)

lemma own_spread:
  "distinct (map fst new) \<Longrightarrow> own (spread args new) j = (case map_of new j of Some v \<Rightarrow> v | None \<Rightarrow> own args j)"
  unfolding spread_def
proof (induction new arbitrary: args)
  case (Cons p new)
  obtain k v where p: "p = (k, v)" by fastforce
  have "k \<notin> fst ` set new" using Cons.prems by (auto simp: p)
  then have "map_of new k = None" by (simp add: map_of_eq_None_iff)
  then show ?case using Cons by (auto simp: p own_set_prop split: option.split)
qed simp

lemma canonical_resolved:
  "resolve_command reg name args = Some (cmd, short, args') \<Longrightarrow> canonical_args args \<Longrightarrow> canonical_args args'"
  by (auto simp: resolve_command_def intro!: canonical_set_prop split: option.splits) (simp_all add: canonical_key_def)

subsection \<open>An agent stays in its group\<close>

text \<open>The arguments name only the caller's group; of the wirings only the one of its conversation is there.\<close>

definition in_own_group :: "command \<Rightarrow> string \<Rightarrow> string \<Rightarrow> fields \<Rightarrow> host_db \<Rightarrow> bool" where
  "in_own_group cmd ag mg args s \<longleftrightarrow>
     own args ''agent_group_id'' = JStr ag \<and> own args ''group'' = JStr ag \<and>
     (id_is_group cmd \<longrightarrow> own args ''id'' = JStr ag) \<and> own args ''cli_scope'' = JUndefined \<and>
     (case cm_resource cmd of
        None \<Rightarrow> True
      | Some r \<Rightarrow> r = [] \<or> r \<in> set GROUP_SCOPE_RESOURCES \<or>
          (r = ''wirings'' \<and> (\<exists>w. getMessagingGroupAgentByPair mg ag (hd_chat s) = Some w \<and> own args ''id'' = JStr (ma_id w))))"

text \<open>A live approval of exactly this command stands behind the call.\<close>

definition approved_for :: "command \<Rightarrow> pending_approval option \<Rightarrow> host_db \<Rightarrow> bool" where
  "approved_for cmd grant s \<longleftrightarrow>
     (\<exists>g row. grant = Some g \<and> pa_action g = ''cli_command'' \<and> getPendingApproval (pa_approval_id g) (hd_approvals s) = Some row \<and>
        pa_action row = ''cli_command'' \<and> granted_command g = JStr (cm_name cmd))"

lemma decision_allows:
  assumes "registry_ok E reg" "lookup_command reg (cm_name cmd) = Some cmd" "canonical_args args"
    and "cli_decision reg (FromAgent sid ag mg) cmd args grant s = Inr (ALLOW reason)"
  shows "\<not> cm_hostOnly cmd" "cli_scope E ag \<noteq> ''disabled''" "cli_scope E ag = ''group'' \<Longrightarrow> scope_denial cmd ag args = None"
    "cm_access cmd = NeedsApproval \<Longrightarrow> approved_for cmd grant s"
proof -
  define inp where "inp = \<lparr>gi_actor = AgentActor ag (Some sid), gi_resource = Map.empty, gi_payload = args, gi_grant = grant\<rparr>"
  obtain a where a: "commandGuard reg (cm_name cmd) = Inr a"
    "guard (cr_catalog reg) (\<lambda>i. getPendingApproval i (hd_approvals s)) s a inp = Inr (ALLOW reason)"
    using assms(4) by (auto simp: cli_decision_def bnd_def actorFor_def inp_def split: sum.splits)
  from command_has_its_guard [OF assms(1,2) a(1)] have g: "guards_command E cmd a" .
  have dec: "ga_decide a s inp = commandDecide E cmd s inp" using g by (simp add: guards_command_def)
  from a(2) obtain d where d: "commandDecide E cmd s inp = Inr d" "effect_of d \<noteq> Deny"
    by (auto simp: guard_def dec split: if_splits sum.splits option.splits)
  then show "\<not> cm_hostOnly cmd" "cli_scope E ag \<noteq> ''disabled''" "cli_scope E ag = ''group'' \<Longrightarrow> scope_denial cmd ag args = None"
    by (auto simp: commandDecide_def inp_def normalize_id [OF assms(3)] split: if_splits option.splits)
  show "approved_for cmd grant s" if need: "cm_access cmd = NeedsApproval"
  proof -
    have "effect_of d = Hold"
      using d need by (auto simp: commandDecide_def inp_def normalize_id [OF assms(3)] split: if_splits option.splits)
    then have "grantSatisfies (\<lambda>i. getPendingApproval i (hd_approvals s)) a inp = Inr True"
      using a(2) d(1) by (cases d) (auto simp: guard_def dec split: if_splits sum.splits option.splits bool.splits)
    then show ?thesis using g need
      by (auto simp: grantSatisfies_True guards_command_def commandGuardSpec_def inp_def approved_for_def)
  qed
qed

lemma wired_fill:
  assumes "scoped_args ag mg cmd rid name args s = Inr (Proceed args')" "canonical_args args"
  shows "canonical_args args' \<and> own args' ''help'' = own args ''help'' \<and>
    (own args ''help'' \<noteq> JBool True \<and> name \<in> set GROUP_WIRING_COMMANDS \<longrightarrow>
       (\<exists>w. getMessagingGroupAgentByPair mg ag (hd_chat s) = Some w \<and> own args' ''id'' = JStr (ma_id w)))"
proof -
  define fill where "fill = [(''agent_group_id'', or_nullish (own args ''agent_group_id'') (JStr ag)),
      (''group'', or_nullish (own args ''group'') (JStr ag))] @
      (if id_is_group cmd then [(''id'', or_nullish (own args ''id'') (JStr ag))] else [])"
  define wired where "wired = (own args ''help'' \<noteq> JBool True \<and> name \<in> set GROUP_WIRING_COMMANDS)"
  obtain wiring where w: "(if wired then map_option ma_id (getMessagingGroupAgentByPair mg ag (hd_chat s)) else Some []) = Some wiring"
    and args': "args' = spread args (if wired then map_set ''id'' (JStr wiring) fill else fill)"
    using assms(1) unfolding scoped_args_def Let_def fill_def [symmetric] wired_def [symmetric]
    by (auto simp: bnd_def split: option.splits if_splits sum.splits)
  let ?new = "if wired then map_set ''id'' (JStr wiring) fill else fill"
  have new: "distinct (map fst ?new)" "list_all (\<lambda>(k, _). canonical_key k = k \<and> k \<noteq> ''__proto__'') ?new"
    "map_of ?new ''help'' = None"
    by (simp_all add: fill_def map_set_def canonical_key_def)
  have id: "own args' ''id'' = JStr wiring" if wired
    using that unfolding args' own_spread [OF new(1)] by (simp add: map_of_map_set)
  have unhelped: "own args' ''help'' = own args ''help''" unfolding args' own_spread [OF new(1)] new(3) by simp
  have "canonical_args args'" unfolding args' by (rule canonical_spread [OF assms(2) new(2)])
  then show ?thesis using id unhelped w unfolding wired_def [symmetric] by (auto split: if_splits)
qed

lemma dispatch_args_ok:
  assumes "dispatch_args E (FromAgent sid ag mg) cmd rid (cm_name cmd) args s = Inr (Proceed args')" "canonical_args args"
  shows "canonical_args args'"
    "cli_scope E ag = ''group'' \<Longrightarrow> scope_denial cmd ag args' = None \<Longrightarrow> own args' ''help'' \<noteq> JBool True \<Longrightarrow>
       in_own_group cmd ag mg args' s"
proof -
  show "canonical_args args'"
    using assms wired_fill [of ag mg cmd rid "cm_name cmd" args s args']
    by (auto simp: dispatch_args_def split: if_splits)
  assume scope: "cli_scope E ag = ''group''" and ok: "scope_denial cmd ag args' = None" and run: "own args' ''help'' \<noteq> JBool True"
  from assms(1) scope have "scoped_args ag mg cmd rid (cm_name cmd) args s = Inr (Proceed args')"
    by (simp add: dispatch_args_def)
  from wired_fill [OF this assms(2)] run
  have wired: "cm_name cmd \<in> set GROUP_WIRING_COMMANDS \<longrightarrow>
      (\<exists>w. getMessagingGroupAgentByPair mg ag (hd_chat s) = Some w \<and> own args' ''id'' = JStr (ma_id w))"
    by auto
  have keys: "\<forall>k \<in> set (scope_keys cmd). own args' k = JStr ag" "own args' ''cli_scope'' = JUndefined"
    and res: "(case cm_resource cmd of None \<Rightarrow> True | Some r \<Rightarrow> r = [] \<or> r \<in> set GROUP_SCOPE_RESOURCES) \<or> groupWiringCommand cmd"
    using ok by (auto simp: scope_denial_def split: if_splits option.splits)
  then show "in_own_group cmd ag mg args' s"
    using wired by (auto simp: in_own_group_def scope_keys_def groupWiringCommand_def split: option.splits if_splits)
qed

lemma run_handler_state:
  "snd (run_handler E reg ctx grant cmd rid parsed s) = snd (cm_handler cmd parsed (with_grant grant ctx) s)"
  by (auto simp: run_handler_def io_catch_def io_bind_def io_return_def split: prod.split sum.split stage_result.split)

lemma holding_state:
  "snd (holding E (FromAgent sid ag mg) rid name args reason s) = s \<or>
   (\<exists>q. aq_action q = ''cli_command'' \<and> s_id (aq_session q) = sid \<and>
        snd (holding E (FromAgent sid ag mg) rid name args reason s) = snd (askApproval (ce_host E) q s))"
proof (cases "getSession sid (ss_sessions s)")
  case None
  then show ?thesis by (simp add: holding_def io_return_def)
next
  case (Some session)
  define q where "q = cli_hold session (case getAgentGroup ag (hd_agents s) of Some g \<Rightarrow> ag_name g | None \<Rightarrow> ag)
      (FromAgent sid ag mg) rid name args"
  have "snd (holding E (FromAgent sid ag mg) rid name args reason s) = snd (askApproval (ce_host E) q s)"
    by (simp add: holding_def Some q_def io_bind_def io_return_def split: prod.split sum.split)
  moreover have "aq_action q = ''cli_command''" "s_id (aq_session q) = sid"
    using Some by (auto simp: q_def cli_hold_def Let_def getSession_def dest: find_SomeD)
  ultimately show ?thesis by blast
qed

lemma decision_holds:
  assumes "registry_ok E reg" "lookup_command reg (cm_name cmd) = Some cmd"
    and "cli_decision reg (FromAgent sid ag mg) cmd args grant s = Inr (HOLD reason ap)"
  shows "cm_access cmd = NeedsApproval"
proof -
  define inp where "inp = \<lparr>gi_actor = AgentActor ag (Some sid), gi_resource = Map.empty, gi_payload = args, gi_grant = grant\<rparr>"
  obtain a where a: "commandGuard reg (cm_name cmd) = Inr a"
    "guard (cr_catalog reg) (\<lambda>i. getPendingApproval i (hd_approvals s)) s a inp = Inr (HOLD reason ap)"
    using assms(3) by (auto simp: cli_decision_def bnd_def actorFor_def inp_def split: sum.splits)
  have "ga_decide a s inp = commandDecide E cmd s inp"
    using command_has_its_guard [OF assms(1,2) a(1)] by (simp add: guards_command_def)
  then have "commandDecide E cmd s inp = Inr (HOLD reason ap)"
    using a(2) by (auto simp: guard_def split: if_splits sum.splits option.splits bool.splits)
  then show ?thesis by (auto simp: commandDecide_def inp_def split: if_splits option.splits sum.splits)
qed

lemma dispatch_effect:
  assumes "reg = registered E defs resources" "cc_caller ctx = FromAgent sid ag mg" "dispatch E reg req ctx grant s = (r, s')"
  shows "s' = s \<or>
    (\<exists>cmd q. lookup_command reg (cm_name cmd) = Some cmd \<and> cm_access cmd = NeedsApproval \<and>
       aq_action q = ''cli_command'' \<and> s_id (aq_session q) = sid \<and> s' = snd (askApproval (ce_host E) q s)) \<or>
    (\<exists>cmd args parsed. lookup_command reg (cm_name cmd) = Some cmd \<and> \<not> cm_hostOnly cmd \<and> cli_scope E ag \<noteq> ''disabled'' \<and>
       (cli_scope E ag = ''group'' \<longrightarrow> in_own_group cmd ag mg args s) \<and>
       (cm_access cmd = NeedsApproval \<longrightarrow> approved_for cmd grant s) \<and>
       cm_parseArgs cmd args = Inr parsed \<and> s' = snd (cm_handler cmd parsed (with_grant grant ctx) s))"
proof -
  have ok: "registry_ok E reg" unfolding assms(1) by (rule registry_ok_registered)
  show ?thesis
  proof (cases "s' = s")
    case False
    then obtain args0 cmd name args1 args dec where
        norm: "normalizeArgs (rq_args req) = Inr args0" and res: "resolve_command reg (rq_command req) args0 = Some (cmd, name, args1)"
        and fill: "dispatch_args E (FromAgent sid ag mg) cmd (rq_id req) name args1 s = Inr (Proceed args)"
        and dec: "cli_decision reg (FromAgent sid ag mg) cmd args grant s = Inr dec"
        and obey: "obey E reg ctx grant cmd (rq_id req) name args dec s = (r, s')"
      using assms(2,3)
      by (auto simp: dispatch_def io_return_def io_throw_def split: sum.splits option.splits prod.splits stage_result.splits)
    have look: "lookup_command reg name = Some cmd" using resolve_lookup_command [OF res] .
    then have name: "name = cm_name cmd" using lookup_name [OF ok] by simp
    have can: "canonical_args args"
      using canonical_resolved [OF res canonical_normalized [OF norm]] fill [unfolded name] by (rule dispatch_args_ok(1) [rotated])
    show ?thesis
    proof (cases dec)
      case (ALLOW reason)
      with obey False obtain parsed where parsed: "cm_parseArgs cmd args = Inr parsed"
          "run_handler E reg ctx grant cmd (rq_id req) parsed s = (r, s')" "own args ''help'' \<noteq> JBool True"
        by (auto simp: obey_def io_return_def split: if_splits sum.splits)
      note allow = decision_allows [OF ok look [unfolded name] can dec [unfolded ALLOW]]
      have "in_own_group cmd ag mg args s" if "cli_scope E ag = ''group''"
        using dispatch_args_ok(2) [OF fill [unfolded name] canonical_resolved [OF res canonical_normalized [OF norm]] that
            allow(3) [OF that] parsed(3)] .
      moreover have "s' = snd (cm_handler cmd parsed (with_grant grant ctx) s)"
        using run_handler_state [of E reg ctx grant cmd "rq_id req" parsed s] parsed(2) by simp
      ultimately show ?thesis using allow look name parsed(1) by blast
    next
      case (HOLD reason ap)
      with obey False have "holding E (FromAgent sid ag mg) (rq_id req) name args reason s = (r, s')"
        by (auto simp: obey_def assms(2) io_return_def split: if_splits)
      with holding_state [of E sid ag mg "rq_id req" name args reason s] False
      have "\<exists>q. aq_action q = ''cli_command'' \<and> s_id (aq_session q) = sid \<and> s' = snd (askApproval (ce_host E) q s)" by auto
      moreover have "cm_access cmd = NeedsApproval"
        using decision_holds [OF ok look [unfolded name] dec [unfolded HOLD]] .
      ultimately show ?thesis using look name by blast
    next
      case (DENY reason)
      with obey False show ?thesis by (auto simp: obey_def io_return_def)
    qed
  qed simp
qed

text \<open>
  C7. Whatever an agent sends to the command line, with or without an approval, one of three things comes
  of it: nothing is done; an admin is asked, for its own session; or one registered command runs that is not
  kept for the operator, is open or has a live approval for exactly this command, and, if the agent is
  scoped to its group, belongs to a resource of the group and has arguments that name that group alone.
\<close>

theorem agent_commands_in_scope:
  assumes "reg = registered E defs resources" "cc_caller ctx = FromAgent sid ag mg" "dispatch E reg req ctx grant s = (r, s')"
  shows "s' = s \<or>
    (\<exists>cmd q. lookup_command reg (cm_name cmd) = Some cmd \<and> cm_access cmd = NeedsApproval \<and>
       aq_action q = ''cli_command'' \<and> s_id (aq_session q) = sid \<and> s' = snd (askApproval (ce_host E) q s)) \<or>
    (\<exists>cmd args parsed. lookup_command reg (cm_name cmd) = Some cmd \<and> \<not> cm_hostOnly cmd \<and> cli_scope E ag \<noteq> ''disabled'' \<and>
       (cli_scope E ag = ''group'' \<longrightarrow> in_own_group cmd ag mg args s) \<and>
       (cm_access cmd = NeedsApproval \<longrightarrow> approved_for cmd grant s) \<and>
       cm_parseArgs cmd args = Inr parsed \<and> s' = snd (cm_handler cmd parsed (with_grant grant ctx) s))"
  by (rule dispatch_effect [OF assms])

subsection \<open>Rows of other groups are not shown\<close>

text \<open>
  A generic list or get answers an agent that is not scoped globally with rows of its own group only,
  whatever the handler of the command returned and whatever filters the agent gave.
\<close>

theorem generic_rows_own_group:
  assumes "normalizeArgs (rq_args req) = Inr args0" "resolve_command reg (rq_command req) args0 = Some (cmd, name, args1)"
    and "cm_generic cmd" "cm_resource cmd = Some res" "res \<noteq> []"
    and "cc_caller ctx = FromAgent sid ag mg" "cli_scope E ag \<noteq> ''global''"
    and "dispatch E reg req ctx grant s = (Inr (RespOk i data human), s')" "data \<noteq> JStr (ce_help E cmd)"
  shows "\<exists>f. map_of (cr_resources reg) res = Some (Some f) \<and>
    (case data of JArr rows \<Rightarrow> list_all (of_group f ag) rows | JObj ps \<Rightarrow> of_group f ag data | _ \<Rightarrow> True)"
proof -
  obtain st where st: "dispatch_args E (FromAgent sid ag mg) cmd (rq_id req) name args1 s = Inr st"
    using assms(1,2,6,8) by (auto simp: dispatch_def io_throw_def split: sum.splits)
  have no_answer: "st \<noteq> Answer (RespOk j d h)" for j d h
    using st by (auto simp: dispatch_args_def scoped_args_def Let_def bnd_def split: if_splits option.splits sum.splits)
  have "fst (holding E (FromAgent sid ag mg) rid name args reason s) \<noteq> Inr (RespOk j d h)" for rid args reason j d h
    by (auto simp: holding_def io_bind_def io_return_def split: option.split prod.split sum.split)
  then have no_hold: "holding E (FromAgent sid ag mg) rid name args reason s \<noteq> (Inr (RespOk j d h), w)" for rid args reason j d h w
    by (metis fst_conv)
  obtain parsed where run: "run_handler E reg ctx grant cmd (rq_id req) parsed s = (Inr (RespOk i data human), s')"
    using assms(1,2,6,8,9) st no_answer no_hold
    by (auto simp: dispatch_def io_return_def io_throw_def obey_def
        split: sum.splits stage_result.splits guard_decision.splits if_splits)
  then obtain raw data' where "scope_filter E reg (FromAgent sid ag mg) cmd (rq_id req) raw = Proceed data'" "data = data'"
    using assms(6)
    by (auto simp: run_handler_def io_catch_def io_bind_def io_return_def present_def scope_filter_def
        split: prod.splits sum.splits stage_result.splits cli_response.splits if_splits list.splits option.splits js.splits)
  then show ?thesis using assms(3-5,7)
    by (auto simp: scope_filter_def of_group_def list_all_iff split: option.splits list.splits js.splits if_splits)
qed

subsection \<open>Examples\<close>

definition demo_cli_env :: cli_env where
  "demo_cli_env = \<lparr>ce_host = demo_host_env, ce_scope = (\<lambda>_. None), ce_help = cm_description, ce_unknown = id, ce_localize = json_text\<rparr>"

definition demo_command :: "string \<Rightarrow> string \<Rightarrow> bool \<Rightarrow> js \<Rightarrow> command" where
  "demo_command res verb generic answer =
     \<lparr>cm_name = res @ ''-'' @ verb, cm_description = verb, cm_access = OpenAccess, cm_hostOnly = False,
      cm_action = Some (res @ ''.'' @ verb), cm_resource = Some res, cm_generic = generic, cm_parseArgs = Inr,
      cm_handler = (\<lambda>_ _. io_bind (host_event (WokenUp verb)) (\<lambda>_. io_return answer)), cm_formatHuman = None\<rparr>"

definition demo_rows :: js where
  "demo_rows = JArr [JObj [(''id'', JStr ''s1''), (''agent_group_id'', JStr ''a'')],
                     JObj [(''id'', JStr ''s2''), (''agent_group_id'', JStr ''b'')]]"

definition demo_cli_registry :: cli_registry where
  "demo_cli_registry = registered demo_cli_env [demo_command ''sessions'' ''list'' True demo_rows, demo_command ''wirings'' ''list'' True demo_rows]
     [(''sessions'', Some ''agent_group_id''), (''wirings'', None)]"

definition demo_cli_ctx :: caller_ctx where
  "demo_cli_ctx = \<lparr>cc_caller = FromAgent ''s1'' ''a'' ''mg-1'', cc_grant = None\<rparr>"

text \<open>The agent lists sessions, giving an argument with a hyphen; it gets the ones of its group.\<close>

definition demo_cli_request :: "string \<Rightarrow> cli_request" where
  "demo_cli_request name = \<lparr>rq_id = ''1'', rq_command = name, rq_args = JObj [(''agent-group-id'', JStr ''a'')]\<rparr>"

lemma agent_commands_in_scope_witness:
  "let s' = snd (dispatch demo_cli_env demo_cli_registry (demo_cli_request ''sessions-list'') demo_cli_ctx None demo_host) in
   length (hd_log s') = 1 \<and>
   ((\<exists>(cmd :: command) q. cm_access cmd = NeedsApproval \<and> aq_action q = ''cli_command'' \<and> s_id (aq_session q) = ''s1'' \<and>
       s' = snd (askApproval demo_host_env q demo_host)) \<or>
    (\<exists>cmd args parsed. in_own_group cmd ''a'' ''mg-1'' args demo_host \<and> s' = snd (cm_handler cmd parsed demo_cli_ctx demo_host)))"
proof -
  obtain r s' where run: "dispatch demo_cli_env demo_cli_registry (demo_cli_request ''sessions-list'') demo_cli_ctx None demo_host = (r, s')"
    by fastforce
  have "length (hd_log (snd (dispatch demo_cli_env demo_cli_registry (demo_cli_request ''sessions-list'') demo_cli_ctx None demo_host))) = 1"
    by code_simp
  then have one: "length (hd_log s') = 1" by (simp add: run)
  have "hd_log demo_host = []" by (simp add: demo_host_def sess_db.defs host_db.defs)
  with one have changed: "s' \<noteq> demo_host" by auto
  have caller: "cc_caller demo_cli_ctx = FromAgent ''s1'' ''a'' ''mg-1''" by (simp add: demo_cli_ctx_def)
  have scope: "cli_scope demo_cli_env ''a'' = ''group''" and host: "ce_host demo_cli_env = demo_host_env"
    by (simp_all add: cli_scope_def demo_cli_env_def)
  have grant: "with_grant None demo_cli_ctx = demo_cli_ctx" by (simp add: with_grant_def)
  let ?P = "\<lambda>(cmd :: command) q. cm_access cmd = NeedsApproval \<and> aq_action q = ''cli_command'' \<and> s_id (aq_session q) = ''s1'' \<and>
       s' = snd (askApproval demo_host_env q demo_host)"
  let ?Q = "\<lambda>cmd args parsed. in_own_group cmd ''a'' ''mg-1'' args demo_host \<and> s' = snd (cm_handler cmd parsed demo_cli_ctx demo_host)"
  consider "s' = demo_host" | cmd q where "?P cmd q" | cmd args parsed where "?Q cmd args parsed"
    using agent_commands_in_scope [OF demo_cli_registry_def caller run, unfolded grant host] scope by blast
  then have "(\<exists>cmd q. ?P cmd q) \<or> (\<exists>cmd args parsed. ?Q cmd args parsed)"
    using changed by cases blast+
  with one show ?thesis unfolding Let_def run snd_conv by blast
qed

lemma generic_rows_own_group_witness:
  "fst (dispatch demo_cli_env demo_cli_registry (demo_cli_request ''sessions-list'') demo_cli_ctx None demo_host) =
     Inr (RespOk ''1'' (JArr [JObj [(''id'', JStr ''s1''), (''agent_group_id'', JStr ''a'')]]) None) \<and>
   list_all (of_group ''agent_group_id'' ''a'') [JObj [(''id'', JStr ''s1''), (''agent_group_id'', JStr ''a'')]]"
proof -
  let ?cmd = "demo_command ''sessions'' ''list'' True demo_rows" and ?req = "demo_cli_request ''sessions-list''"
  let ?data = "JArr [JObj [(''id'', JStr ''s1''), (''agent_group_id'', JStr ''a'')]]"
  obtain s' where run: "dispatch demo_cli_env demo_cli_registry ?req demo_cli_ctx None demo_host = (Inr (RespOk ''1'' ?data None), s')"
  proof -
    have "fst (dispatch demo_cli_env demo_cli_registry ?req demo_cli_ctx None demo_host) = Inr (RespOk ''1'' ?data None)"
      by code_simp
    then show thesis using that by (metis prod.collapse)
  qed
  have norm: "normalizeArgs (rq_args ?req) = Inr [(''agent_group_id'', JStr ''a'')]" by code_simp
  have look: "lookup_command demo_cli_registry ''sessions-list'' = Some ?cmd"
    by (simp add: lookup_command_def demo_cli_registry_def registered_def register_command_def no_commands_def demo_command_def
        Let_def defineGuardedAction_def empty_catalog_def commandGuardSpec_def commandGuardAction_def)
  then have res: "resolve_command demo_cli_registry (rq_command ?req) [(''agent_group_id'', JStr ''a'')] =
      Some (?cmd, ''sessions-list'', [(''agent_group_id'', JStr ''a'')])"
    by (simp add: resolve_command_def demo_cli_request_def)
  have "map_of (cr_resources demo_cli_registry) ''sessions'' = Some (Some ''agent_group_id'')"
    by code_simp
  moreover have "cm_generic ?cmd" "cm_resource ?cmd = Some ''sessions''" "cc_caller demo_cli_ctx = FromAgent ''s1'' ''a'' ''mg-1''"
    "cli_scope demo_cli_env ''a'' \<noteq> ''global''" "?data \<noteq> JStr (ce_help demo_cli_env ?cmd)"
    by (simp_all add: demo_command_def demo_cli_ctx_def cli_scope_def demo_cli_env_def)
  ultimately show ?thesis using generic_rows_own_group [OF norm res, of "''sessions''" demo_cli_ctx "''s1''" "''a''" "''mg-1''"
        demo_cli_env None demo_host "''1''" ?data None s'] run
    by (simp add: run)
qed

end
