(* ===== verification/TaskSafety.thy ===== *)
theory TaskSafety
  imports TaskCommands CliSafety
begin

text \<open>An agent's task commands work on the task sessions of its own group.\<close>

subsection \<open>The selected sessions\<close>

lemma selected_own:
  assumes "selectedSessions args (FromAgent sid ag mg) c rows = Inr ss" "x \<in> set ss"
  shows "snd x = ag"
  using assms
  by (auto simp: selectedSessions_def ownSession_def groupArg_def bnd_def findTaskSessions_def newest_first_def is_agent.simps
      split: option.splits sum.splits if_splits)

lemma select_own:
  assumes "cc_caller ctx = FromAgent sid ag mg" "select args ctx c w = (Inr ss, w')"
  shows "\<forall>x \<in> set ss. snd x = ag"
  using assms by (auto simp: select_def io_throw_def io_return_def dest: selected_own split: sum.splits)

lemma keeps_select [keeps_intros]: "reflp P \<Longrightarrow> keeps P (select args ctx c)"
  by (auto simp: select_def keeps_def io_throw_def io_return_def reflp_def split: sum.split)

lemma keeps_lift_res [keeps_intros]: "reflp P \<Longrightarrow> keeps P (lift_res r)"
  by (auto simp: lift_res_def keeps_def io_throw_def io_return_def reflp_def split: sum.split)

lemma keeps_selected:
  assumes "cc_caller ctx = FromAgent sid ag mg" "transp P" "reflp P"
    and "\<And>ss. \<forall>x \<in> set ss. snd x = ag \<Longrightarrow> keeps P (f ss)"
  shows "keeps P (io_bind (select args ctx c) f)"
  by (rule keeps_bind_post) (use assms select_own in \<open>auto intro: keeps_select\<close>)

subsection \<open>Loops\<close>

lemma keeps_first_found:
  "transp P \<Longrightarrow> reflp P \<Longrightarrow> \<forall>x \<in> set xs. keeps P (f x) \<Longrightarrow> keeps P (first_found f xs)"
  by (induction xs) (auto intro!: keeps_bind keeps_return split: option.split)

lemma keeps_sum_over:
  "transp P \<Longrightarrow> reflp P \<Longrightarrow> \<forall>x \<in> set xs. keeps P (f x) \<Longrightarrow> keeps P (sum_over f xs)"
  by (induction xs) (auto intro!: keeps_bind keeps_return)

lemma keeps_collect_over:
  "transp P \<Longrightarrow> reflp P \<Longrightarrow> \<forall>x \<in> set xs. keeps P (f x) \<Longrightarrow> keeps P (collect_over f xs)"
  by (induction xs) (auto intro!: keeps_bind keeps_return)

subsection \<open>One session\<close>

definition home :: "string \<Rightarrow> (string \<times> string) set" where
  "home ag = {k. fst k = ag}"

lemma keeps_withInbound [keeps_intros]: "snd x = ag \<Longrightarrow> keeps (touches (home ag)) (withInbound x act)"
  by (auto simp: keeps_def withInbound_def withExistingMailboxSession_def home_def touches_def set_mail_def
      split: option.split prod.split sum.split)

lemma keeps_count_in [keeps_intros]: "snd x = ag \<Longrightarrow> keeps (touches (home ag)) (count_in f x)"
  unfolding count_in_def by (intro keeps_intros touches_rel)

lemma keeps_destroy [keeps_intros]: "keeps (touches (home ag)) (destroySessionMailbox ag sid)"
  by (auto simp: keeps_def destroySessionMailbox_def home_def touches_def)

lemma keeps_remove_log [keeps_intros]: "keeps (touches K) (remove_log T ag i)"
  unfolding remove_log_def by (intro keeps_intros touches_rel)

lemma keeps_delete_one: "snd x = ag \<Longrightarrow> keeps (touches (home ag)) (delete_one T i x)"
  unfolding delete_one_def
  by (auto intro!: keeps_intros touches_rel split: option.split)

lemma keeps_createScheduledTask: "keeps (touches (home ag)) (createScheduledTask E ag t status origin)"
proof -
  have k: "(ag, i) \<in> home ag" for i by (simp add: home_def)
  have "keeps (touches (home ag)) (resolveTaskSession E' ag i)" for E' i
    unfolding resolveTaskSession_def adopt_def
    by (auto intro!: keeps_intros touches_rel k split: option.split sum.split prod.split)
  then show ?thesis
    unfolding createScheduledTask_def Let_def
    by (auto intro!: keeps_intros touches_rel k split: prod.split)
qed

subsection \<open>All commands\<close>

lemma task_handler_stays_home:
  assumes "cc_caller ctx = FromAgent sid ag mg" "(verb, cols, h) \<in> set (task_ops T)"
  shows "keeps (touches (home ag)) (h args ctx)"
proof -
  note rel = touches_rel
  note loops = keeps_first_found [OF rel(2,1)] keeps_sum_over [OF rel(2,1)] keeps_collect_over [OF rel(2,1)]
  note sel = keeps_selected [OF assms(1) rel(2,1)]
  have "keeps (touches (home ag)) (mutateTask f args ctx)" for f
    unfolding mutateTask_def by (auto intro!: keeps_intros rel sel loops)
  moreover have "keeps (touches (home ag)) (listTasks T args ctx)"
    unfolding listTasks_def by (auto intro!: keeps_intros rel sel loops)
  moreover have "keeps (touches (home ag)) (getTaskCommand T args ctx)"
    unfolding getTaskCommand_def by (auto intro!: keeps_intros rel sel loops split: option.split)
  moreover have "keeps (touches (home ag)) (createTask T args ctx)"
    unfolding createTask_def by (auto simp: assms(1) groupArg_def intro!: keeps_intros rel keeps_createScheduledTask split: option.split)
  moreover have "keeps (touches (home ag)) (appendTaskLog T args ctx)"
    unfolding appendTaskLog_def by (auto intro!: keeps_intros rel split: option.split)
  moreover have "keeps (touches (home ag)) (updateTaskCommand T args ctx)"
    unfolding updateTaskCommand_def task_owner_def by (auto intro!: keeps_intros rel sel loops)
  moreover have "keeps (touches (home ag)) (cancelTaskCommand args ctx)"
    using calculation(1) unfolding cancelTaskCommand_def by (auto intro!: keeps_intros rel sel loops)
  moreover have "keeps (touches (home ag)) (runTaskCommand T args ctx)"
    unfolding runTaskCommand_def by (auto intro!: keeps_intros rel sel loops split: option.split)
  moreover have "keeps (touches (home ag)) (deleteTaskCommand T args ctx)"
    unfolding deleteTaskCommand_def by (auto intro!: keeps_intros rel sel loops keeps_delete_one)
  ultimately show ?thesis
    using assms(2) by (auto simp: task_ops_def pauseTaskCommand_def resumeTaskCommand_def)
qed

lemma lookup_registered: "lookup_command (registered E defs resources) n = Some cmd \<Longrightarrow> cmd \<in> set defs"
proof -
  have "map_of (cr_commands (fold (\<lambda>def reg. snd (register_command E def reg)) ds reg)) n = Some cmd \<Longrightarrow>
      map_of (cr_commands reg) n = Some cmd \<or> cmd \<in> set ds" for ds reg
  proof (induction ds arbitrary: reg)
    case (Cons d ds)
    have "map_of (cr_commands (snd (register_command E d reg))) n = Some cmd \<Longrightarrow> map_of (cr_commands reg) n = Some cmd \<or> cmd = d"
      using map_of_snoc [of "cr_commands reg" "cm_name d" d n]
      by (auto simp: register_command_def Let_def simp del: map_of_append split: if_splits sum.splits prod.splits)
    with Cons.IH [of "snd (register_command E d reg)"] Cons.prems show ?case by auto
  qed simp
  from this [of defs "no_commands resources"] show "lookup_command (registered E defs resources) n = Some cmd \<Longrightarrow> cmd \<in> set defs"
    by (simp add: lookup_command_def registered_def no_commands_def)
qed

text \<open>
  C8. Whatever an agent sends to the task commands, a session id, a group or a task id of somebody else,
  at whatever scope of its group and with or without an approval, no mailbox of another agent group changes.
\<close>

theorem agent_tasks_stay_home:
  assumes "reg = registered E (task_commands T number table) resources" "cc_caller ctx = FromAgent sid ag mg"
    and "dispatch E reg req ctx grant s = (r, s')" "g \<noteq> ag"
  shows "ss_mail s' (g, i) = ss_mail s (g, i)"
proof -
  have op: "\<exists>verb cols h. (verb, cols, h) \<in> set (task_ops T) \<and> cm_access cmd = OpenAccess \<and> cm_handler cmd = h"
    if "lookup_command reg n = Some cmd" for n cmd
    using lookup_registered [OF that [unfolded assms(1)]]
    by (auto simp: task_commands_def custom_command_def) (intro exI, assumption)
  consider "s' = s" | cmd parsed where "lookup_command reg (cm_name cmd) = Some cmd" "s' = snd (cm_handler cmd parsed (with_grant grant ctx) s)"
    using dispatch_effect [OF assms(1-3)] op by fastforce
  then show ?thesis
  proof cases
    case (2 cmd parsed)
    from op [OF 2(1)] obtain verb cols h where "(verb, cols, h) \<in> set (task_ops T)" "cm_handler cmd = h" by blast
    moreover have "cc_caller (with_grant grant ctx) = FromAgent sid ag mg"
      using assms(2) by (simp add: with_grant_def split: option.split)
    ultimately have "touches (home ag) s s'"
      using task_handler_stays_home [of "with_grant grant ctx" sid ag mg verb cols h T parsed] 2(2) by (auto simp: keeps_def)
    with assms(4) show ?thesis by (simp add: touches_def home_def)
  qed simp
qed

subsection \<open>Example\<close>

definition demo_task_cmd_env :: task_cmd_env where
  "demo_task_cmd_env =
     \<lparr>tk_task = \<lparr>te_sess = demo_sess_env, te_cron = (\<lambda>_ _. Inl SyntaxError), te_zoned = (\<lambda>_ _. None)\<rparr>,
      tk_recur = \<lparr>re_sess = demo_sess_env, re_cron = (\<lambda>_ _. Inl SyntaxError), re_tz = (\<lambda>_. ''UTC''), re_dir = (\<lambda>_. None), re_stamp = []\<rparr>,
      tk_TIMEZONE = ''UTC'', tk_running = (\<lambda>_. False)\<rparr>"

text \<open>A pending task in the mailboxes of both groups; the agent of group \<open>a\<close> cancels everything.\<close>

definition demo_task_row :: inbound_record where
  "demo_task_row = \<lparr>ir_id = ''t-1'', ir_sequence = Some 2, ir_kind = KTask, ir_timestamp = now_iso demo_clock, ir_status = MsgPending,
     ir_processAfter = None, ir_recurrence = None, ir_seriesId = Some ''t-1'', ir_tries = 0, ir_trigger = True,
     ir_platformId = None, ir_channelType = None, ir_threadId = None, ir_content = ''{}'', ir_sourceSessionId = None, ir_onWake = False\<rparr>"

definition demo_tasks_host :: host_db where
  "demo_tasks_host =
     (let task_session = (\<lambda>i ag. demo_sender\<lparr>s_id := i, s_agent_group_id := ag, s_messaging_group_id := None,
                              s_thread_id := Some (taskThreadId ''t-1'')\<rparr>);
          mail = empty_mailbox\<lparr>mb_in := [demo_task_row]\<rparr>
      in demo_host\<lparr>ss_sessions := ss_sessions demo_host @ [task_session ''ta'' ''a'', task_session ''tb'' ''b''],
                   ss_mail := (ss_mail demo_host)((''a'', ''ta'') := Some mail, (''b'', ''tb'') := Some mail)\<rparr>)"

lemma agent_tasks_stay_home_witness:
  "let req = \<lparr>rq_id = ''1'', rq_command = ''tasks-cancel'', rq_args = JObj [(''all'', JBool True)]\<rparr>;
       s' = snd (dispatch demo_cli_env (registered demo_cli_env (task_commands demo_task_cmd_env (\<lambda>_. None) (\<lambda>_. Inr [])) [])
                   req demo_cli_ctx None demo_tasks_host)
   in map ir_status (mb_in (mailbox_of ''a'' ''ta'' s')) = [MsgCancelled] \<and> map ir_status (mb_in (mailbox_of ''b'' ''tb'' s')) = [MsgPending]"
proof -
  let ?req = "\<lparr>rq_id = ''1'', rq_command = ''tasks-cancel'', rq_args = JObj [(''all'', JBool True)]\<rparr>"
  let ?reg = "registered demo_cli_env (task_commands demo_task_cmd_env (\<lambda>_. None) (\<lambda>_. Inr [])) []"
  obtain r s' where run: "dispatch demo_cli_env ?reg ?req demo_cli_ctx None demo_tasks_host = (r, s')" by fastforce
  have "map ir_status (mb_in (mailbox_of ''a'' ''ta'' (snd (dispatch demo_cli_env ?reg ?req demo_cli_ctx None demo_tasks_host)))) = [MsgCancelled]"
    by code_simp
  moreover have "cc_caller demo_cli_ctx = FromAgent ''s1'' ''a'' ''mg-1''" by (simp add: demo_cli_ctx_def)
  from agent_tasks_stay_home [OF refl this run, of "''b''" "''tb''"]
  have "ss_mail s' (''b'', ''tb'') = ss_mail demo_tasks_host (''b'', ''tb'')" by simp
  then have "map ir_status (mb_in (mailbox_of ''b'' ''tb'' s')) = [MsgPending]"
    by (simp add: mailbox_of_def demo_tasks_host_def Let_def demo_task_row_def)
  ultimately show ?thesis by (simp add: run)
qed

end
