(* ===== verification/GroupFolder.thy ===== *)
theory GroupFolder
  imports MessagingGroups AgentGroups NodePath MailboxModel
begin

text \<open>
  Folders of agent groups (\<open>src/group-folder.ts\<close>, \<open>isPathInside\<close> of \<open>src/inbox-safety.ts\<close>): which
  names are legal, whether a name is taken on disk, and the loop that looks for a free one, which
  creating an agent from a chat and from another agent share.  The disk is the list of the absolute
  paths at which \<open>lstat\<close> finds something; \<open>G\<close> is \<open>GROUPS_DIR\<close>, an absolute path.
\<close>

subsection \<open>Names\<close>

definition folder_edge :: "char \<Rightarrow> bool" where
  "folder_edge c \<longleftrightarrow> name_char c \<or> (CHR ''A'' \<le> c \<and> c \<le> CHR ''Z'')"

definition folder_char :: "char \<Rightarrow> bool" where
  "folder_char c \<longleftrightarrow> folder_edge c \<or> c = CHR ''_'' \<or> c = CHR ''-''"

definition GROUP_FOLDER_PATTERN :: "string \<Rightarrow> bool" where
  "GROUP_FOLDER_PATTERN f \<longleftrightarrow>
     f \<noteq> [] \<and> folder_edge (hd f) \<and> folder_edge (last f) \<and> list_all folder_char f \<and> length f \<le> 63"

definition RESERVED_FOLDERS :: "string list" where
  "RESERVED_FOLDERS = [''global'']"

definition isValidGroupFolder :: "string \<Rightarrow> bool" where
  "isValidGroupFolder folder \<longleftrightarrow>
     folder \<noteq> [] \<and> folder = js_trim folder \<and> GROUP_FOLDER_PATTERN folder \<and>
     \<not> (CHR ''/'' \<in> set folder \<or> CHR 0x5C \<in> set folder) \<and> \<not> js_includes folder ''..'' \<and>
     map lower_char folder \<notin> set RESERVED_FOLDERS"

definition assertValidGroupFolder :: "string \<Rightarrow> unit res" where
  "assertValidGroupFolder folder =
     (if \<not> isValidGroupFolder folder
      then Inl (Error (''Invalid group folder \"'' @ folder @ ''\" '' @ emdash @
                       '' at most 63 characters of [A-Za-z0-9_-], alphanumeric at both ends (the folder is carried verbatim as a runtime label)''))
      else Inr ())"

subsection \<open>Paths\<close>

definition isPathInside :: "string \<Rightarrow> string \<Rightarrow> bool" where
  "isPathInside parent child =
     (let r = path_relative ''/'' parent child
      in r = [] \<or> (\<not> prefix ''..'' r \<and> \<not> is_absolute r))"

definition ensureWithinBase :: "string \<Rightarrow> string \<Rightarrow> unit res" where
  "ensureWithinBase baseDir resolved =
     (if \<not> isPathInside baseDir resolved then Inl (Error (''Path escapes base directory: '' @ resolved)) else Inr ())"

definition resolveGroupFolderPath :: "string \<Rightarrow> string \<Rightarrow> string res" where
  "resolveGroupFolderPath G folder =
     bnd (assertValidGroupFolder folder) (\<lambda>_.
     bnd (ensureWithinBase G (path_resolve G folder)) (\<lambda>_. Inr (path_resolve G folder)))"

definition groupFolderExistsOnDisk :: "string \<Rightarrow> string list \<Rightarrow> string \<Rightarrow> bool res" where
  "groupFolderExistsOnDisk G disk folder =
     bnd (ensureWithinBase G (path_resolve G folder)) (\<lambda>_. Inr (path_resolve G folder \<in> set disk))"

subsection \<open>Looking for a free folder\<close>

text \<open>
  The \<open>k\<close>-th candidate is the base, \<open>base-2\<close>, \<open>base-3\<close> and so on.  The first argument bounds the
  rounds; \<open>free_folder\<close> allows one more than there are folders in use.
\<close>

fun find_folder :: "nat \<Rightarrow> string \<Rightarrow> string list \<Rightarrow> agent_group list \<Rightarrow> string \<Rightarrow> nat \<Rightarrow> string option res" where
  "find_folder 0 G disk groups base k = Inr None"
| "find_folder (Suc n) G disk groups base k =
     bnd (if getAgentGroupByFolder (cand base k) groups \<noteq> None then Inr True
          else groupFolderExistsOnDisk G disk (cand base k)) (\<lambda>occupied.
       if occupied then find_folder n G disk groups base (Suc k) else Inr (Some (cand base k)))"

definition free_folder :: "string \<Rightarrow> string list \<Rightarrow> agent_group list \<Rightarrow> string \<Rightarrow> string option res" where
  "free_folder G disk groups base = find_folder (Suc (length groups + length disk)) G disk groups base 1"

subsection \<open>Facts about paths\<close>

lemma js_split_append_sep: "js_split d (a @ d # b) = js_split d a @ js_split d b"
  by (induction a) (auto split: list.splits)

lemma path_norm_snoc: "proper_seg w \<Longrightarrow> path_norm esc acc (ws @ [w]) = path_norm esc acc ws @ [w]"
  by (induction esc acc ws rule: path_norm.induct) (auto simp: proper_seg_def split: list.splits)

lemma segs_below:
  assumes "is_absolute G" "proper_seg w"
  shows "segs (path_resolve G w) = segs G @ [w]"
proof -
  have q: "(if w = [] then G else if is_absolute w then w else G @ ''/'' @ w) = G @ ''/'' @ w"
    using assms by (auto simp: proper_seg_def is_absolute_def split: list.splits)
  have "is_absolute (G @ ''/'' @ w)" using assms by (auto simp: is_absolute_def split: list.splits)
  moreover have "js_split CHR ''/'' (G @ ''/'' @ w) = js_split CHR ''/'' G @ [w]"
    using assms by (simp add: js_split_append_sep js_split_word proper_seg_def)
  ultimately have s: "segs (G @ ''/'' @ w) = segs G @ [w]"
    using assms by (simp add: segs_def path_norm_snoc)
  have "\<forall>v \<in> set (segs G @ [w]). proper_seg v" using segs_proper [OF assms(1)] assms(2) by auto
  then show ?thesis
    unfolding path_resolve_def Let_def q s by (rule segs_of_join)
qed

lemma inside_below:
  assumes "is_absolute G" "proper_seg w" "\<not> prefix ''..'' w"
  shows "isPathInside G (path_resolve G w)"
proof -
  let ?p = "path_resolve G w"
  have c: "canonical ?p" by (rule path_resolve_canonical [OF assms(1)])
  have "segs (path_resolve ''/'' G) = segs G"
  proof -
    have "path_resolve ''/'' G = ''/'' @ js_join ''/'' (segs G)"
      using assms(1) by (auto simp: path_resolve_def Let_def is_absolute_def split: list.splits)
    then show ?thesis using segs_of_join [OF segs_proper [OF assms(1)]] by simp
  qed
  then have "segs (path_resolve ''/'' ?p) = segs (path_resolve ''/'' G) @ w # []"
    using path_resolve_of_canonical [OF c] segs_below [OF assms(1,2)] by simp
  then show ?thesis
    using path_relative_below [of "''/''" ?p G w "[]"] assms(3) by (simp add: isPathInside_def Let_def)
qed

lemma path_of_inject:
  assumes "is_absolute G" "proper_seg v" "proper_seg w"
  shows "path_resolve G v = path_resolve G w \<longleftrightarrow> v = w"
  using segs_below [OF assms(1,2)] segs_below [OF assms(1,3)] by (metis last_snoc)

subsection \<open>A normalised name\<close>

definition plain_name :: "string \<Rightarrow> bool" where
  "plain_name f \<longleftrightarrow> f \<noteq> [] \<and> hd f \<noteq> CHR ''-'' \<and> (\<forall>c \<in> set f. name_char c \<or> c = CHR ''-'')"

lemma plain_name_normal: "plain_name (normalizeName n)"
  using normalizeName_wf [of n] by (auto simp: plain_name_def)

lemma name_char_digit: "(n :: nat) < 10 \<Longrightarrow> name_char (char_of (48 + n))"
proof -
  assume "n < 10"
  then have "n \<in> {0, 1, 2, 3, 4, 5, 6, 7, 8, 9}" by auto
  moreover have "\<forall>n \<in> {0, 1, 2, 3, 4, 5, 6, 7, 8, 9 :: nat}. name_char (char_of (48 + n))" by code_simp
  ultimately show ?thesis by blast
qed

lemma name_char_nat_str: "c \<in> set (nat_str n) \<Longrightarrow> name_char c"
proof (induction n rule: nat_str.induct)
  case (1 n)
  show ?case
  proof (cases "n < 10")
    case True
    then show ?thesis using "1.prems" name_char_digit by (subst (asm) nat_str.simps) auto
  next
    case False
    then have "c \<in> set (nat_str (n div 10)) \<or> c = char_of (48 + n mod 10)"
      using "1.prems" by (subst (asm) nat_str.simps) auto
    then show ?thesis using "1.IH" [OF False] name_char_digit [of "n mod 10"] by auto
  qed
qed

lemma plain_name_cand: "plain_name base \<Longrightarrow> plain_name (cand base k)"
  by (auto simp: plain_name_def cand_def dest: name_char_nat_str)

lemma plain_name_seg:
  assumes "plain_name f" shows "proper_seg f \<and> \<not> prefix ''..'' f"
proof -
  have "\<not> name_char CHR ''.'' \<and> \<not> name_char CHR ''/''" by code_simp
  then have "CHR ''.'' \<notin> set f" "CHR ''/'' \<notin> set f" using assms by (auto simp: plain_name_def)
  then show ?thesis using assms by (cases f) (auto simp: proper_seg_def plain_name_def)
qed

subsection \<open>The loop finds the first free folder\<close>

definition occupied :: "string \<Rightarrow> string list \<Rightarrow> agent_group list \<Rightarrow> string \<Rightarrow> bool" where
  "occupied G disk groups f \<longleftrightarrow> f \<in> ag_folder ` set groups \<or> path_resolve G f \<in> set disk"

lemma find_folder_step:
  assumes "is_absolute G" "plain_name base"
  shows "find_folder (Suc n) G disk groups base k =
     (if occupied G disk groups (cand base k) then find_folder n G disk groups base (Suc k) else Inr (Some (cand base k)))"
proof -
  have "groupFolderExistsOnDisk G disk (cand base k) = Inr (path_resolve G (cand base k) \<in> set disk)"
    using inside_below [OF assms(1)] plain_name_seg [OF plain_name_cand [OF assms(2)], of k]
    by (simp add: groupFolderExistsOnDisk_def ensureWithinBase_def bnd_def)
  then show ?thesis
    by (auto simp: occupied_def getAgentGroupByFolder_def find_None_ex bnd_def image_iff dest: find_SomeD)
qed

lemma find_folder_least:
  assumes "is_absolute G" "plain_name base"
  shows "\<not> occupied G disk groups (cand base (k + m)) \<Longrightarrow> m < n \<Longrightarrow>
    \<exists>j < Suc m. find_folder n G disk groups base k = Inr (Some (cand base (k + j))) \<and>
      \<not> occupied G disk groups (cand base (k + j)) \<and> (\<forall>i < j. occupied G disk groups (cand base (k + i)))"
proof (induction m arbitrary: n k)
  case 0
  then obtain n' where "n = Suc n'" by (cases n) auto
  then show ?case using 0 by (intro exI [of _ 0]) (simp add: find_folder_step [OF assms] del: find_folder.simps)
next
  case (Suc m)
  then obtain n' where n: "n = Suc n'" by (cases n) auto
  show ?case
  proof (cases "occupied G disk groups (cand base k)")
    case True
    have "\<not> occupied G disk groups (cand base (Suc k + m))" using Suc.prems by simp
    from Suc.IH [OF this] Suc.prems n obtain j where
      j: "j < Suc m" "find_folder n' G disk groups base (Suc k) = Inr (Some (cand base (Suc k + j)))"
         "\<not> occupied G disk groups (cand base (Suc k + j))"
         "\<forall>i < j. occupied G disk groups (cand base (Suc k + i))" by fastforce
    have "occupied G disk groups (cand base (k + i))" if "i < Suc j" for i
      using that True j(4) by (cases i) auto
    then show ?thesis using j True n by (intro exI [of _ "Suc j"]) (simp add: find_folder_step [OF assms] del: find_folder.simps)
  next
    case False
    then show ?thesis using n by (intro exI [of _ 0]) (simp add: find_folder_step [OF assms] del: find_folder.simps)
  qed
qed

lemma some_candidate_free:
  assumes "is_absolute G" "plain_name base"
  shows "\<exists>m < Suc (length groups + length disk). \<not> occupied G disk groups (cand base (1 + m))"
proof (rule ccontr)
  let ?n = "Suc (length groups + length disk)"
  let ?used = "(Inl :: string \<Rightarrow> string + string) ` ag_folder ` set groups \<union> Inr ` set disk"
  let ?place = "\<lambda>m. if cand base (1 + m) \<in> ag_folder ` set groups
    then (Inl (cand base (1 + m)) :: string + string) else Inr (path_resolve G (cand base (1 + m)))"
  assume "\<not> ?thesis"
  then have "?place ` {..<?n} \<subseteq> ?used" by (auto simp: occupied_def)
  moreover have "inj_on ?place {..<?n}"
    using plain_name_seg [OF plain_name_cand [OF assms(2)]]
    by (auto simp: inj_on_def cand_inject path_of_inject [OF assms(1)] split: if_splits)
  moreover have "card ?used \<le> length groups + length disk"
  proof -
    have "card ?used \<le> card ((Inl :: string \<Rightarrow> string + string) ` ag_folder ` set groups) + card ((Inr :: string \<Rightarrow> string + string) ` set disk)"
      by (rule card_Un_le)
    also have "\<dots> \<le> length groups + length disk"
      by (intro add_mono order_trans [OF card_image_le] card_length) (auto intro: order_trans [OF card_image_le] card_length)
    finally show ?thesis .
  qed
  moreover have "finite ?used" by simp
  ultimately have "card {..<?n} \<le> length groups + length disk"
    using card_mono [of ?used "?place ` {..<?n}"] card_image [of ?place "{..<?n}"] by linarith
  then show False by simp
qed

lemma free_folder_first:
  assumes "is_absolute G"
  shows "\<exists>k f. free_folder G disk groups (normalizeName n) = Inr (Some f) \<and> f = cand (normalizeName n) (Suc k) \<and>
     \<not> occupied G disk groups f \<and> (\<forall>i < k. occupied G disk groups (cand (normalizeName n) (Suc i)))"
proof -
  obtain m where "m < Suc (length groups + length disk)" "\<not> occupied G disk groups (cand (normalizeName n) (1 + m))"
    using some_candidate_free [OF assms plain_name_normal] by blast
  from find_folder_least [OF assms plain_name_normal this(2,1)] show ?thesis
    by (auto simp: free_folder_def)
qed

text \<open>A candidate for a normalised name breaks the grammar only by its length or by being reserved.\<close>

lemma name_char_code: "name_char c \<Longrightarrow> (97 \<le> (of_char c :: nat) \<and> (of_char c :: nat) \<le> 122) \<or> (48 \<le> (of_char c :: nat) \<and> (of_char c :: nat) \<le> 57)"
  by (auto simp: name_char_def less_eq_char_def)

lemma name_char_plain:
  assumes "name_char c" shows "lower_char c = c" "\<not> js_space c" "c \<noteq> CHR 0x5C" "c \<noteq> CHR ''/''" "c \<noteq> CHR ''.''"
proof -
  have "\<not> name_char CHR 0x5C \<and> \<not> name_char CHR ''/'' \<and> \<not> name_char CHR ''.''" by code_simp
  then show "c \<noteq> CHR 0x5C" "c \<noteq> CHR ''/''" "c \<noteq> CHR ''.''" using assms by auto
  show "lower_char c = c" "\<not> js_space c"
    using name_char_code [OF assms] by (auto simp: lower_char_def js_space_def less_eq_char_def)
qed

lemma valid_candidate:
  "isValidGroupFolder (cand (normalizeName n) k) \<longleftrightarrow>
     length (cand (normalizeName n) k) \<le> 63 \<and> cand (normalizeName n) k \<noteq> ''global''"
proof -
  let ?f = "cand (normalizeName n) k"
  have ok: "?f \<noteq> []" "\<forall>c \<in> set ?f. name_char c \<or> c = CHR ''-''"
    using plain_name_cand [OF plain_name_normal, of n k] by (auto simp: plain_name_def)
  have h: "name_char (hd ?f)"
    using plain_name_cand [OF plain_name_normal, of n k] by (cases ?f) (auto simp: plain_name_def)
  have l: "name_char (last ?f)"
  proof (cases "k = 1")
    case True
    have "last (normalizeName n) \<in> set (normalizeName n)" using normalizeName_wf [of n] by (intro last_in_set) blast
    then have "name_char (last (normalizeName n))" using normalizeName_wf [of n] by blast
    then show ?thesis using True by (simp add: cand_def)
  next
    case False
    have "nat_str k \<noteq> []" by (subst nat_str.simps) simp
    then show ?thesis using False name_char_nat_str [of "last (nat_str k)" k] by (auto simp: cand_def)
  qed
  have dash: "lower_char CHR ''-'' = CHR ''-'' \<and> \<not> js_space CHR ''-'' \<and> folder_char CHR ''-''" by code_simp
  have low: "map lower_char ?f = ?f" using ok(2) dash name_char_plain(1) by (intro map_idI) auto
  have chars: "list_all folder_char ?f" using ok(2) dash by (auto simp: list_all_iff folder_char_def folder_edge_def)
  have trim: "js_trim ?f = ?f"
  proof -
    have "dropWhile js_space ?f = ?f" using ok h name_char_plain(2) by (cases ?f) auto
    moreover have "dropWhile js_space (rev ?f) = rev ?f"
      using ok l name_char_plain(2) by (cases "rev ?f") (auto simp: hd_rev [symmetric])
    ultimately show ?thesis by (simp add: js_trim_def)
  qed
  have "\<not> (name_char CHR ''.'' \<or> CHR ''.'' = CHR ''-'')" "\<not> (name_char CHR ''/'' \<or> CHR ''/'' = CHR ''-'')"
    "\<not> (name_char CHR 0x5C \<or> CHR 0x5C = CHR ''-'')" by code_simp+
  then have "CHR ''.'' \<notin> set ?f" "CHR ''/'' \<notin> set ?f" "CHR 0x5C \<notin> set ?f" using ok(2) by blast+
  moreover from this(1) have "\<not> js_includes ?f ''..''"
    by (auto simp: js_includes_iff sublist_def)
  ultimately show ?thesis
    using ok(1) h l low chars trim
    by (simp add: isValidGroupFolder_def GROUP_FOLDER_PATTERN_def folder_edge_def RESERVED_FOLDERS_def)
qed

end
