(* ===== verification/ContainerConfig.thy ===== *)
theory ContainerConfig
  imports GroupFolder JsonText ChannelDefaults
begin

text \<open>
  The configuration of an agent group's containers: the table (\<open>src/db/container-configs.ts\<close>, the row
  in \<open>Types\<close>), the check of an MCP server that is put into it, and what is read out of a row for
  \<open>container.json\<close> (\<open>src/container-config.ts\<close>).  A server's configuration is the object of its
  fields.  Node's URL parser and the time zone data of \<open>Intl\<close> are parameters.
\<close>

subsection \<open>The table\<close>

definition getContainerConfig :: "string \<Rightarrow> container_config list \<Rightarrow> container_config option" where
  "getContainerConfig ag rows = find (\<lambda>r. kc_agent_group_id r = ag) rows"

definition createContainerConfig :: "container_config \<Rightarrow> container_config list \<Rightarrow> container_config list res" where
  "createContainerConfig row rows =
     (if \<exists>r \<in> set rows. kc_agent_group_id r = kc_agent_group_id row then Inl UniqueViolation else Inr (rows @ [row]))"

text \<open>The columns an insert leaves out take the defaults of the table's declaration.\<close>

definition default_config :: "string \<Rightarrow> string option \<Rightarrow> stamp \<Rightarrow> container_config" where
  "default_config ag provider now =
     \<lparr>kc_agent_group_id = ag, kc_provider = provider, kc_model = None, kc_effort = None, kc_image_tag = None,
      kc_assistant_name = None, kc_max_messages_per_prompt = None, kc_skills = Json (JStr ''all''),
      kc_mcp_servers = Json (JObj []), kc_packages_apt = Json (JArr []), kc_packages_npm = Json (JArr []),
      kc_additional_mounts = Json (JArr []), kc_cli_scope = ''group'', kc_timezone = None,
      kc_runtime_tier = None, kc_updated_at = now\<rparr>"

text \<open>\<open>dflt\<close> is \<open>DEFAULT_AGENT_PROVIDER\<close>.\<close>

definition stamped_provider :: "string \<Rightarrow> string option" where
  "stamped_provider provider =
     (let normalized = map lower_char provider
      in if normalized \<noteq> [] \<and> normalized \<noteq> ''claude'' then Some normalized else None)"

definition ensureContainerConfig ::
    "string \<Rightarrow> stamp \<Rightarrow> string \<Rightarrow> string option \<Rightarrow> container_config list \<Rightarrow> container_config list" where
  "ensureContainerConfig dflt now ag provider rows =
     (if \<exists>r \<in> set rows. kc_agent_group_id r = ag then rows
      else rows @ [default_config ag (stamped_provider (case provider of Some p \<Rightarrow> p | None \<Rightarrow> dflt)) now])"

text \<open>An update of scalar columns: a column that is left out stays as it is.\<close>

record config_scalars =
  cu_provider :: "string option option"
  cu_model :: "string option option"
  cu_effort :: "string option option"
  cu_image_tag :: "string option option"
  cu_assistant_name :: "string option option"
  cu_max_messages_per_prompt :: "int option option"
  cu_cli_scope :: "string option"
  cu_timezone :: "string option option"

definition no_scalars :: "config_scalars \<Rightarrow> bool" where
  "no_scalars u \<longleftrightarrow> cu_provider u = None \<and> cu_model u = None \<and> cu_effort u = None \<and> cu_image_tag u = None \<and>
     cu_assistant_name u = None \<and> cu_max_messages_per_prompt u = None \<and> cu_cli_scope u = None \<and> cu_timezone u = None"

definition keep_or :: "'a option \<Rightarrow> 'a \<Rightarrow> 'a" where
  "keep_or new old = (case new of Some x \<Rightarrow> x | None \<Rightarrow> old)"

definition updateContainerConfigScalars ::
    "stamp \<Rightarrow> string \<Rightarrow> config_scalars \<Rightarrow> container_config list \<Rightarrow> container_config list" where
  "updateContainerConfigScalars now ag u rows =
     (if no_scalars u then rows
      else update_where (\<lambda>r. kc_agent_group_id r = ag)
             (\<lambda>r. r\<lparr>kc_provider := keep_or (cu_provider u) (kc_provider r),
                    kc_model := keep_or (cu_model u) (kc_model r),
                    kc_effort := keep_or (cu_effort u) (kc_effort r),
                    kc_image_tag := keep_or (cu_image_tag u) (kc_image_tag r),
                    kc_assistant_name := keep_or (cu_assistant_name u) (kc_assistant_name r),
                    kc_max_messages_per_prompt := keep_or (cu_max_messages_per_prompt u) (kc_max_messages_per_prompt r),
                    kc_cli_scope := keep_or (cu_cli_scope u) (kc_cli_scope r),
                    kc_timezone := keep_or (cu_timezone u) (kc_timezone r),
                    kc_updated_at := now\<rparr>) rows)"

datatype json_column = SkillsColumn | McpServersColumn | PackagesAptColumn | PackagesNpmColumn | AdditionalMountsColumn

fun set_json_column :: "json_column \<Rightarrow> jtext \<Rightarrow> container_config \<Rightarrow> container_config" where
  "set_json_column SkillsColumn v r = r\<lparr>kc_skills := v\<rparr>"
| "set_json_column McpServersColumn v r = r\<lparr>kc_mcp_servers := v\<rparr>"
| "set_json_column PackagesAptColumn v r = r\<lparr>kc_packages_apt := v\<rparr>"
| "set_json_column PackagesNpmColumn v r = r\<lparr>kc_packages_npm := v\<rparr>"
| "set_json_column AdditionalMountsColumn v r = r\<lparr>kc_additional_mounts := v\<rparr>"

definition updateContainerConfigJson ::
    "stamp \<Rightarrow> string \<Rightarrow> json_column \<Rightarrow> js \<Rightarrow> container_config list \<Rightarrow> container_config list" where
  "updateContainerConfigJson now ag column v rows =
     update_where (\<lambda>r. kc_agent_group_id r = ag) (\<lambda>r. (set_json_column column (Json v) r)\<lparr>kc_updated_at := now\<rparr>) rows"

definition deleteContainerConfig :: "string \<Rightarrow> container_config list \<Rightarrow> container_config list" where
  "deleteContainerConfig ag rows = delete_where (\<lambda>r. kc_agent_group_id r = ag) rows"

subsection \<open>Names, environment keys, credentials in a query\<close>

definition server_name_char :: "char \<Rightarrow> bool" where
  "server_name_char c \<longleftrightarrow> word_char c \<or> c = CHR ''-''"

definition MCP_SERVER_NAME_RE :: "string \<Rightarrow> bool" where
  "MCP_SERVER_NAME_RE s \<longleftrightarrow> list_all server_name_char s \<and> 1 \<le> length s \<and> length s \<le> 64"

definition ENV_KEY_RE :: "string \<Rightarrow> bool" where
  "ENV_KEY_RE s \<longleftrightarrow> s \<noteq> [] \<and> \<not> (CHR ''0'' \<le> hd s \<and> hd s \<le> CHR ''9'') \<and> list_all word_char s"

definition validateMcpServerName :: "string \<Rightarrow> unit res" where
  "validateMcpServerName name =
     (if \<not> MCP_SERVER_NAME_RE name \<or> name = ''__proto__''
      then Inl (Error ''server name must be 1-64 characters of letters, digits, \"_\" or \"-\"'') else Inr ())"

definition mcpServerPluginOwner :: "js \<Rightarrow> string option" where
  "mcpServerPluginOwner entry =
     (case entry of
        JObj ps \<Rightarrow> (case own ps ''plugin'' of JStr p \<Rightarrow> if p \<noteq> [] then Some p else None | _ \<Rightarrow> None)
      | _ \<Rightarrow> None)"

text \<open>
  The words of \<open>SECRET_QUERY_KEY_RE\<close>, spelt out; one has to stand between separators or the ends of
  the key, after the key was split at its capitals.
\<close>

definition secret_words :: "string list" where
  "secret_words =
     [p @ ''auth'' @ z. p \<leftarrow> [[], ''o''], z \<leftarrow> [[], ''orization'']] @
     [a @ sep @ ''token''. a \<leftarrow> [[], ''auth'', ''access'', ''api'', ''session'', ''id''], sep \<leftarrow> [[], ''_'', ''-'']] @
     [''secret'', ''passwd'', ''password'', ''pwd''] @
     [a @ sep @ ''key''. a \<leftarrow> [''api'', ''private''], sep \<leftarrow> [[], ''_'', ''-'']] @
     [''credential'', ''credentials'', ''bearer'', ''jwt'', ''sig'', ''signature'']"

definition key_separator :: "char \<Rightarrow> bool" where
  "key_separator c \<longleftrightarrow> c = CHR ''_'' \<or> c = CHR ''.'' \<or> c = CHR ''-''"

definition word_here :: "string \<Rightarrow> string \<Rightarrow> bool" where
  "word_here w s \<longleftrightarrow> prefix w s \<and> (case drop (length w) s of [] \<Rightarrow> True | c # _ \<Rightarrow> key_separator c)"

fun word_after_separator :: "string \<Rightarrow> string \<Rightarrow> bool" where
  "word_after_separator w [] = False"
| "word_after_separator w (c # s) = ((key_separator c \<and> word_here w s) \<or> word_after_separator w s)"

definition SECRET_QUERY_KEY_RE :: "string \<Rightarrow> bool" where
  "SECRET_QUERY_KEY_RE key =
     (let k = map lower_char key in \<exists>w \<in> set secret_words. word_here w k \<or> word_after_separator w k)"

fun camel_split :: "string \<Rightarrow> string" where
  "camel_split (a # b # s) =
     (if name_char a \<and> CHR ''A'' \<le> b \<and> b \<le> CHR ''Z'' then a # CHR ''_'' # b # camel_split s else a # camel_split (b # s))"
| "camel_split s = s"

subsection \<open>One MCP server\<close>

record url_parts =
  up_protocol :: string
  up_origin :: string
  up_hostname :: string
  up_username :: string
  up_password :: string
  up_hash :: string
  up_pathname :: string
  up_search :: string
  up_searchParams :: "(string \<times> string) list"

definition PLUGIN_ROOT_VAR :: string where "PLUGIN_ROOT_VAR = ''${PLUGIN_ROOT}''"
definition PLUGIN_DATA_VAR :: string where "PLUGIN_DATA_VAR = ''${PLUGIN_DATA}''"

text \<open>What \<open>CWD_FORM_RE\<close> leaves of a value it matches.\<close>

definition cwd_rest :: "string \<Rightarrow> string option" where
  "cwd_rest s =
     (if prefix ''./'' s then Some (drop 2 s)
      else case find (\<lambda>v. prefix v s \<and> (case drop (length v) s of [] \<Rightarrow> True | c # _ \<Rightarrow> c = CHR ''/''))
                  [PLUGIN_ROOT_VAR, PLUGIN_DATA_VAR] of
             Some v \<Rightarrow> Some (tl (drop (length v) s))
           | None \<Rightarrow> None)"

definition parseCwd :: "js \<Rightarrow> js option res" where
  "parseCwd v =
     (if v = JUndefined then Inr None
      else case (case v of JStr s \<Rightarrow> cwd_rest s | _ \<Rightarrow> None) of
             None \<Rightarrow> Inl (Error ''cwd must be ./path, ${PLUGIN_ROOT}[/path], or ${PLUGIN_DATA}[/path]'')
           | Some rest \<Rightarrow>
               if js_includes rest ''${'' \<or> CHR 0x5C \<in> set rest \<or>
                  (rest \<noteq> [] \<and> (\<exists>w \<in> set (js_split CHR ''/'' rest). w = ''..'' \<or> w = []))
               then Inl (Error ''cwd escapes the plugin root'') else Inr (Some v))"

text \<open>Setting the key \<open>__proto__\<close> of a plain object to a string does nothing.\<close>

fun copy_strings :: "string \<Rightarrow> fields \<Rightarrow> fields \<Rightarrow> fields res" where
  "copy_strings flag acc [] = Inr acc"
| "copy_strings flag acc ((k, JStr s) # ps) = copy_strings flag (if k = ''__proto__'' then acc else set_prop k (JStr s) acc) ps"
| "copy_strings flag acc (_ # ps) = Inl (Error (flag @ '' must be a JSON object with string values''))"

definition parseStringRecord :: "js \<Rightarrow> string \<Rightarrow> fields option res" where
  "parseStringRecord v flag =
     (case v of
        JUndefined \<Rightarrow> Inr None
      | JObj ps \<Rightarrow> bnd (copy_strings flag [] ps) (\<lambda>r. Inr (Some r))
      | _ \<Rightarrow> Inl (Error (flag @ '' must be a JSON object with string values'')))"

definition opt_field :: "string \<Rightarrow> js option \<Rightarrow> fields" where
  "opt_field k v = (case v of Some x \<Rightarrow> [(k, x)] | None \<Rightarrow> [])"

definition defined :: "js \<Rightarrow> js option" where
  "defined v = (if v = JUndefined then None else Some v)"

definition LOOPBACK :: "string list" where
  "LOOPBACK = [''localhost'', ''127.0.0.1'', ''[::1]'', ''host.docker.internal'']"

definition check_url :: "url_parts option \<Rightarrow> unit res" where
  "check_url parsed =
     (case parsed of
        None \<Rightarrow> Inl (Error ''url must be a valid HTTP(S) URL'')
      | Some p \<Rightarrow>
          if up_protocol p \<noteq> ''https:'' \<and> \<not> (up_protocol p = ''http:'' \<and> up_hostname p \<in> set LOOPBACK)
          then Inl (Error ''url must use HTTPS (plain HTTP is allowed only for localhost and host.docker.internal)'')
          else if up_username p \<noteq> [] \<or> up_password p \<noteq> [] \<or> up_hash p \<noteq> []
          then Inl (Error ''url must not contain credentials or fragments; use OneCLI for authentication'')
          else case find (\<lambda>k. SECRET_QUERY_KEY_RE (camel_split k)) (map fst (up_searchParams p)) of
                 Some k \<Rightarrow> Inl (Error (''url query parameter \"'' @ k @ ''\" looks like a credential; use OneCLI for authentication''))
               | None \<Rightarrow> Inr ())"

definition parse_http :: "(string \<Rightarrow> url_parts option) \<Rightarrow> fields \<Rightarrow> string \<Rightarrow> fields res" where
  "parse_http U inp url =
     (if own inp ''args'' \<noteq> JUndefined \<or> own inp ''env'' \<noteq> JUndefined \<or> own inp ''cwd'' \<noteq> JUndefined
      then Inl (Error ''args, env, and cwd are only valid with command'')
      else bnd (check_url (U url)) (\<lambda>_.
           bnd (parseStringRecord (own inp ''headers'') ''headers'') (\<lambda>headers.
             Inr ([(''type'', JStr ''http''), (''url'', JStr url)] @ opt_field ''headers'' (map_option JObj headers) @
                  opt_field ''instructions'' (defined (own inp ''instructions''))))))"

definition js_is_str :: "js \<Rightarrow> bool" where
  "js_is_str v = (case v of JStr _ \<Rightarrow> True | _ \<Rightarrow> False)"

definition parse_stdio :: "fields \<Rightarrow> string \<Rightarrow> fields res" where
  "parse_stdio inp command =
     (if own inp ''headers'' \<noteq> JUndefined then Inl (Error ''headers is only valid with url'')
      else let args = (if js_nullish (own inp ''args'') then JArr [] else own inp ''args'') in
      if \<not> (case args of JArr xs \<Rightarrow> list_all js_is_str xs | _ \<Rightarrow> False)
      then Inl (Error ''args must be a JSON array of strings'')
      else bnd (parseStringRecord (own inp ''env'') ''env'') (\<lambda>e.
           let env = (case e of Some r \<Rightarrow> r | None \<Rightarrow> []) in
           case find (\<lambda>k. \<not> ENV_KEY_RE k) (map fst env) of
             Some k \<Rightarrow> Inl (Error (''env key '' @ json_quote k @ '' must be a valid environment variable name''))
           | None \<Rightarrow>
               bnd (parseCwd (own inp ''cwd'')) (\<lambda>cwd.
                 Inr ([(''command'', JStr command), (''args'', args), (''env'', JObj env)] @ opt_field ''cwd'' cwd @
                      opt_field ''instructions'' (defined (own inp ''instructions''))))))"

definition nonblank_str :: "js \<Rightarrow> string option" where
  "nonblank_str v = (case v of JStr s \<Rightarrow> if js_trim s \<noteq> [] then Some s else None | _ \<Rightarrow> None)"

definition parseMcpServerConfig :: "(string \<Rightarrow> url_parts option) \<Rightarrow> fields \<Rightarrow> fields res" where
  "parseMcpServerConfig U inp =
     (let command = nonblank_str (own inp ''command'');
          url = map_option js_trim (nonblank_str (own inp ''url''));
          ty = (if own inp ''type'' = JStr ''streamable-http'' then JStr ''http'' else own inp ''type'')
      in if ty = JStr ''sse'' then Inl (Error ''unsupported transport \"sse\"'')
         else if ty \<noteq> JUndefined \<and> ty \<noteq> JStr ''stdio'' \<and> ty \<noteq> JStr ''http''
         then Inl (Error ''type must be \"stdio\", \"http\", or \"streamable-http\"'')
         else if ty = JStr ''stdio'' \<and> command = None then Inl (Error ''type \"stdio\" requires command'')
         else if ty = JStr ''http'' \<and> url = None then Inl (Error ''type \"http\" requires url'')
         else if own inp ''instructions'' \<noteq> JUndefined \<and> \<not> js_is_str (own inp ''instructions'')
         then Inl (Error ''MCP instructions must be a string'')
         else case url of
                Some u \<Rightarrow> if command \<noteq> None then Inl (Error ''Provide exactly one of command or url'') else parse_http U inp u
              | None \<Rightarrow> (case command of
                  None \<Rightarrow> Inl (Error ''Provide exactly one of command or url'')
                | Some c \<Rightarrow> parse_stdio inp c))"

subsection \<open>What is read out of a row\<close>

definition CONTAINER_PLUGINS_DIR :: string where
  "CONTAINER_PLUGINS_DIR = ''/workspace/agent/plugins''"

definition is_http :: "fields \<Rightarrow> bool" where
  "is_http server \<longleftrightarrow> own server ''type'' = JStr ''http''"

definition with_plugin_root :: "fields \<Rightarrow> fields \<Rightarrow> fields" where
  "with_plugin_root entry server =
     (case own entry ''pluginRoot'' of
        JStr r \<Rightarrow> if \<not> is_http server \<and> prefix (CONTAINER_PLUGINS_DIR @ ''/'') r
                  then set_prop ''pluginRoot'' (JStr r) server else server
      | _ \<Rightarrow> server)"

definition without_stray_cwd :: "fields \<Rightarrow> fields" where
  "without_stray_cwd server =
     (if \<not> is_http server \<and> js_truthy (own server ''cwd'') \<and> \<not> js_truthy (own server ''pluginRoot'')
      then del_prop ''cwd'' server else server)"

definition stored_server :: "(string \<Rightarrow> url_parts option) \<Rightarrow> string \<Rightarrow> fields \<Rightarrow> fields res" where
  "stored_server U name entry =
     bnd (validateMcpServerName name) (\<lambda>_.
     bnd (parseMcpServerConfig U entry) (\<lambda>server. Inr (without_stray_cwd (with_plugin_root entry server))))"

fun sanitize_entries :: "(string \<Rightarrow> url_parts option) \<Rightarrow> fields \<Rightarrow> fields \<Rightarrow> fields" where
  "sanitize_entries U servers [] = servers"
| "sanitize_entries U servers ((name, entry) # es) =
     sanitize_entries U
       (case entry of
          JObj ps \<Rightarrow> (case stored_server U name ps of Inr server \<Rightarrow> set_prop name (JObj server) servers | Inl _ \<Rightarrow> servers)
        | _ \<Rightarrow> servers) es"

definition sanitizeStoredMcpServers :: "(string \<Rightarrow> url_parts option) \<Rightarrow> js \<Rightarrow> fields" where
  "sanitizeStoredMcpServers U raw = (case raw of JObj ps \<Rightarrow> sanitize_entries U [] ps | _ \<Rightarrow> [])"

definition parseRuntimeTier :: "string option \<Rightarrow> string \<Rightarrow> string option res" where
  "parseRuntimeTier raw groupName =
     (case raw of
        None \<Rightarrow> Inr None
      | Some t \<Rightarrow> if t = ''container'' \<or> t = ''vm'' then Inr (Some t)
                  else Inl (Error (''agent group \"'' @ groupName @ ''\" has invalid runtime_tier \"'' @ t @ ''\" '' @
                                   emdash @ '' expected \"container\" or \"vm\"'')))"

text \<open>\<open>None\<close> is \<open>'all'\<close>.\<close>

definition parseSkillSelection :: "jtext option \<Rightarrow> string list option" where
  "parseSkillSelection raw =
     (case raw of
        Some (Json (JArr xs)) \<Rightarrow> if list_all js_is_str xs then Some (map (\<lambda>x. case x of JStr s \<Rightarrow> s | _ \<Rightarrow> []) xs) else None
      | _ \<Rightarrow> None)"

record container_json =
  cj_mcpServers :: fields
  cj_packages_apt :: js
  cj_packages_npm :: js
  cj_imageTag :: "string option"
  cj_additionalMounts :: js
  cj_skills :: "string list option"
  cj_provider :: "string option"
  cj_groupName :: string
  cj_assistantName :: string
  cj_agentGroupId :: string
  cj_maxMessagesPerPrompt :: "int option"
  cj_model :: "string option"
  cj_effort :: "string option"
  cj_timezone :: "string option"
  cj_runtimeTier :: "string option"

definition valid_zone :: "(string \<Rightarrow> bool) \<Rightarrow> string option \<Rightarrow> string option" where
  "valid_zone isValidTimezone tz =
     (case tz of Some z \<Rightarrow> if z \<noteq> [] \<and> isValidTimezone z then Some z else None | None \<Rightarrow> None)"

definition configFromDb ::
    "(string \<Rightarrow> url_parts option) \<Rightarrow> (string \<Rightarrow> bool) \<Rightarrow> container_config \<Rightarrow> agent_group \<Rightarrow> container_json res" where
  "configFromDb U isValidTimezone row g =
     bnd (json_parse (kc_mcp_servers row)) (\<lambda>servers.
     bnd (json_parse (kc_packages_apt row)) (\<lambda>apt.
     bnd (json_parse (kc_packages_npm row)) (\<lambda>npm.
     bnd (json_parse (kc_additional_mounts row)) (\<lambda>mounts.
     bnd (parseRuntimeTier (kc_runtime_tier row) (ag_name g)) (\<lambda>tier.
       Inr \<lparr>cj_mcpServers = sanitizeStoredMcpServers U servers, cj_packages_apt = apt, cj_packages_npm = npm,
            cj_imageTag = kc_image_tag row, cj_additionalMounts = mounts,
            cj_skills = parseSkillSelection (Some (kc_skills row)), cj_provider = kc_provider row,
            cj_groupName = ag_name g,
            cj_assistantName = (case kc_assistant_name row of Some n \<Rightarrow> n | None \<Rightarrow> ag_name g),
            cj_agentGroupId = ag_id g, cj_maxMessagesPerPrompt = kc_max_messages_per_prompt row,
            cj_model = kc_model row, cj_effort = kc_effort row,
            cj_timezone = valid_zone isValidTimezone (kc_timezone row), cj_runtimeTier = tier\<rparr>)))))"

text \<open>The file that is written is the value returned; writing it is left to the disk.\<close>

definition materializeContainerJson ::
    "(string \<Rightarrow> url_parts option) \<Rightarrow> (string \<Rightarrow> bool) \<Rightarrow> string \<Rightarrow> agent_group list \<Rightarrow> container_config list \<Rightarrow> container_json res" where
  "materializeContainerJson U isValidTimezone ag groups rows =
     (case getAgentGroup ag groups of
        None \<Rightarrow> Inl (Error (''Agent group not found: '' @ ag))
      | Some g \<Rightarrow> (case getContainerConfig ag rows of
          None \<Rightarrow> Inl (Error (''Container config not found for agent group: '' @ ag))
        | Some row \<Rightarrow> configFromDb U isValidTimezone row g))"

definition resolveGroupTimezone :: "(string \<Rightarrow> bool) \<Rightarrow> string \<Rightarrow> string \<Rightarrow> container_config list \<Rightarrow> string" where
  "resolveGroupTimezone isValidTimezone global ag rows =
     (case valid_zone isValidTimezone (case getContainerConfig ag rows of Some r \<Rightarrow> kc_timezone r | None \<Rightarrow> None) of
        Some z \<Rightarrow> z | None \<Rightarrow> global)"

subsection \<open>Setting up a group\<close>

definition make_dir :: "string \<Rightarrow> string list \<Rightarrow> string list" where
  "make_dir d disk = (if d \<in> set disk then disk else disk @ [d])"

text \<open>
  What \<open>initGroupFilesystem\<close> (\<open>src/group-init.ts\<close>) does to the folders and to the table; the instructions in
  the folder are staged by the caller's log entry \<open>Scaffolded\<close>, the surfaces of the provider are left out.
\<close>

definition initGroupFilesystem ::
    "string \<Rightarrow> string \<Rightarrow> stamp \<Rightarrow> agent_group \<Rightarrow> string option
       \<Rightarrow> string list \<times> container_config list \<Rightarrow> string list \<times> container_config list" where
  "initGroupFilesystem G dflt now g provider st =
     (let providerHint = map lower_char (case provider of Some p \<Rightarrow> p | None \<Rightarrow> dflt);
          groupDir = path_resolve G (ag_folder g)
      in (make_dir (path_join groupDir ''plugins'') (make_dir groupDir (fst st)),
          ensureContainerConfig dflt now (ag_id g) (Some providerHint) (snd st)))"

lemma make_dir_mem: "p \<in> set (make_dir d disk) \<longleftrightarrow> p = d \<or> p \<in> set disk"
  by (auto simp: make_dir_def)

subsection \<open>Objects\<close>

lemma own_Nil [simp]: "own [] k = JUndefined"
  and own_Cons: "own ((j, v) # ps) k = (if j = k then v else own ps k)"
  by (simp_all add: own_def)

lemma own_append: "own (ps @ qs) k = (if has_key ps k then own ps k else own qs k)"
  by (auto simp: own_def has_key_def map_add_def split: option.split)

lemma own_set: "own (set_prop k v ps) j = (if j = k then v else own ps j)"
proof -
  have "map_of (map (\<lambda>(k', x). if k' = k then (k', v) else (k', x)) ps) j =
      (if j = k then (if map_of ps k = None then None else Some v) else map_of ps j)" for ps
    by (induction ps) auto
  then show ?thesis by (auto simp: own_def set_prop_def has_key_def map_add_def split: option.splits)
qed

lemma keys_set: "map fst (set_prop k v ps) = (if has_key ps k then map fst ps else map fst ps @ [k])"
  by (auto simp: set_prop_def has_key_def comp_def case_prod_unfold if_distrib [of fst])

lemma has_key_iff: "has_key ps k \<longleftrightarrow> k \<in> fst ` set ps"
  by (auto simp: has_key_def map_of_eq_None_iff)

lemma set_new: "\<not> has_key ps k \<Longrightarrow> set_prop k v ps = ps @ [(k, v)]"
  by (simp add: set_prop_def)

lemma own_opt_field: "own (opt_field k v) j = (if j = k then (case v of Some x \<Rightarrow> x | None \<Rightarrow> JUndefined) else JUndefined)"
  by (auto simp: opt_field_def own_Cons split: option.split)

lemma defined_value [simp]: "(case defined v of Some x \<Rightarrow> x | None \<Rightarrow> JUndefined) = v"
  by (simp add: defined_def)

subsection \<open>A parsed configuration parses to itself\<close>

definition clean_record :: "fields \<Rightarrow> bool" where
  "clean_record r \<longleftrightarrow> distinct (map fst r) \<and> (\<forall>(k, v) \<in> set r. js_is_str v \<and> k \<noteq> ''__proto__'')"

lemma set_prop_clean: "clean_record r \<Longrightarrow> k \<noteq> ''__proto__'' \<Longrightarrow> clean_record (set_prop k (JStr s) r)"
proof -
  assume r: "clean_record r" "k \<noteq> ''__proto__''"
  have "distinct (map fst (set_prop k (JStr s) r))"
    using r by (auto simp: keys_set clean_record_def has_key_iff)
  moreover have "js_is_str v \<and> j \<noteq> ''__proto__''" if "(j, v) \<in> set (set_prop k (JStr s) r)" for j v
    using that r by (auto simp: set_prop_def clean_record_def js_is_str_def split: if_splits)
  ultimately show ?thesis by (auto simp: clean_record_def)
qed

lemma copy_strings_clean: "copy_strings flag acc ps = Inr r \<Longrightarrow> clean_record acc \<Longrightarrow> clean_record r"
  by (induction flag acc ps rule: copy_strings.induct) (auto simp: set_prop_clean split: if_splits)

lemma copy_strings_again:
  "clean_record (acc @ r) \<Longrightarrow> copy_strings flag acc r = Inr (acc @ r)"
proof (induction r arbitrary: acc)
  case (Cons kv r)
  obtain k v where kv: "kv = (k, v)" by fastforce
  obtain s where v: "v = JStr s" using Cons.prems kv by (cases v) (auto simp: clean_record_def js_is_str_def)
  have "\<not> has_key acc k" "k \<noteq> ''__proto__''" using Cons.prems kv by (auto simp: clean_record_def has_key_iff)
  moreover have "clean_record ((acc @ [(k, v)]) @ r)" using Cons.prems kv by simp
  ultimately show ?case using Cons.IH [of "acc @ [(k, v)]"] kv v by (simp add: set_new)
qed simp

lemma parseStringRecord_again:
  assumes "parseStringRecord v flag = Inr (Some r)"
  shows "clean_record r" "parseStringRecord (JObj r) flag = Inr (Some r)"
proof -
  obtain ps where "copy_strings flag [] ps = Inr r"
    using assms by (auto simp: parseStringRecord_def bnd_def split: js.splits sum.splits)
  then show c: "clean_record r" by (rule copy_strings_clean) (simp add: clean_record_def)
  show "parseStringRecord (JObj r) flag = Inr (Some r)"
    using copy_strings_again [of "[]" r flag] c by (simp add: parseStringRecord_def bnd_def)
qed

lemma parseStringRecord_None: "parseStringRecord v flag = Inr None \<longleftrightarrow> v = JUndefined"
  by (auto simp: parseStringRecord_def bnd_def split: js.splits sum.splits)

text \<open>What an accepted remote server and an accepted local one look like.\<close>

lemma parse_http_shape:
  assumes "parse_http U inp url = Inr out"
  obtains headers where "out = [(''type'', JStr ''http''), (''url'', JStr url)] @ opt_field ''headers'' (map_option JObj headers) @
      opt_field ''instructions'' (defined (own inp ''instructions''))"
    "check_url (U url) = Inr ()" "parseStringRecord (own inp ''headers'') ''headers'' = Inr headers"
  using assms by (auto simp: parse_http_def bnd_Inr split: if_splits)

lemma parse_stdio_shape:
  assumes "parse_stdio inp command = Inr out"
  obtains args env cwd where
    "out = [(''command'', JStr command), (''args'', JArr args), (''env'', JObj env)] @ opt_field ''cwd'' cwd @
       opt_field ''instructions'' (defined (own inp ''instructions''))"
    "list_all js_is_str args" "clean_record env" "\<forall>k \<in> fst ` set env. ENV_KEY_RE k"
    "parseCwd (own inp ''cwd'') = Inr cwd"
proof -
  let ?a = "if js_nullish (own inp ''args'') then JArr [] else own inp ''args''"
  obtain args where a: "?a = JArr args" "list_all js_is_str args"
    using assms by (cases ?a) (auto simp: parse_stdio_def Let_def split: if_splits)
  obtain e where e: "parseStringRecord (own inp ''env'') ''env'' = Inr e"
    using assms by (auto simp: parse_stdio_def Let_def bnd_Inr split: if_splits)
  have k: "find (\<lambda>k. \<not> ENV_KEY_RE k) (map fst (case e of Some r \<Rightarrow> r | None \<Rightarrow> [])) = None"
    using assms a e by (auto simp: parse_stdio_def Let_def bnd_Inr split: if_splits option.splits)
  obtain cwd where c: "parseCwd (own inp ''cwd'') = Inr cwd"
    and o: "out = [(''command'', JStr command), (''args'', JArr args),
        (''env'', JObj (case e of Some r \<Rightarrow> r | None \<Rightarrow> []))] @ opt_field ''cwd'' cwd @
       opt_field ''instructions'' (defined (own inp ''instructions''))"
    using assms a e k by (simp add: parse_stdio_def Let_def bnd_Inr split: if_splits)
  have "clean_record (case e of Some r \<Rightarrow> r | None \<Rightarrow> [])"
    using parseStringRecord_again(1) e by (cases e) (auto simp: clean_record_def)
  moreover have "\<forall>k \<in> fst ` set (case e of Some r \<Rightarrow> r | None \<Rightarrow> []). ENV_KEY_RE k"
    using k by (auto simp: find_None_iff)
  ultimately show thesis using that o a c by blast
qed

lemma parseCwd_again: "parseCwd v = Inr cwd \<Longrightarrow> cwd = defined v"
  by (auto simp: parseCwd_def defined_def Let_def split: if_splits option.splits)

lemma js_trim_trim: "js_trim (js_trim s) = js_trim s"
proof -
  let ?f = "dropWhile js_space s"
  have d: "dropWhile js_space (js_trim s) = js_trim s"
  proof (cases "js_trim s = []")
    case False
    obtain zs where z: "?f = js_trim s @ zs"
      unfolding js_trim_def by (metis rev_append rev_rev_ident takeWhile_dropWhile_id)
    have "?f \<noteq> []" using False z by auto
    then have "\<not> js_space (hd ?f)" by (rule hd_dropWhile)
    then have "\<not> js_space (hd (js_trim s))" using False z by simp
    then show ?thesis using False by (cases "js_trim s") auto
  qed simp
  have "dropWhile js_space (rev (js_trim s)) = rev (js_trim s)"
    by (simp add: js_trim_def)
  with d show ?thesis by (simp add: js_trim_def [of "js_trim s"])
qed

lemma parse_again:
  assumes "parseMcpServerConfig U inp = Inr out"
  shows "parseMcpServerConfig U out = Inr out"
proof -
  have ins: "own inp ''instructions'' = JUndefined \<or> js_is_str (own inp ''instructions'')"
    using assms by (auto simp: parseMcpServerConfig_def Let_def split: if_splits)
  consider (http) u where "nonblank_str (own inp ''url'') = Some u" "parse_http U inp (js_trim u) = Inr out"
    | (stdio) c where "nonblank_str (own inp ''command'') = Some c" "parse_stdio inp c = Inr out"
    using assms by (auto simp: parseMcpServerConfig_def Let_def split: if_splits option.splits)
  then show ?thesis
  proof cases
    case http
    have t: "js_trim u \<noteq> []" using http(1) by (auto simp: nonblank_str_def split: js.splits if_splits)
    from http(2) obtain headers where
      o: "out = [(''type'', JStr ''http''), (''url'', JStr (js_trim u))] @ opt_field ''headers'' (map_option JObj headers) @
        opt_field ''instructions'' (defined (own inp ''instructions''))"
      and c: "check_url (U (js_trim u)) = Inr ()" and h: "parseStringRecord (own inp ''headers'') ''headers'' = Inr headers"
      by (rule parse_http_shape)
    have own_out: "own out ''type'' = JStr ''http''" "own out ''url'' = JStr (js_trim u)" "own out ''command'' = JUndefined"
      "own out ''args'' = JUndefined" "own out ''env'' = JUndefined" "own out ''cwd'' = JUndefined"
      "own out ''instructions'' = own inp ''instructions''"
      "own out ''headers'' = (case headers of None \<Rightarrow> JUndefined | Some r \<Rightarrow> JObj r)"
      unfolding o by (auto simp: own_Cons opt_field_def defined_def split: option.split)
    have "parseStringRecord (own out ''headers'') ''headers'' = Inr headers"
      using parseStringRecord_again(2) h own_out(8) by (auto simp: parseStringRecord_None split: option.split)
    then have "parse_http U out (js_trim u) = Inr out"
      using c own_out by (simp add: parse_http_def bnd_def o)
    then show ?thesis
      using own_out ins t by (auto simp: parseMcpServerConfig_def Let_def nonblank_str_def js_trim_trim)
  next
    case stdio
    have t: "js_trim c \<noteq> []" using stdio(1) by (auto simp: nonblank_str_def split: js.splits if_splits)
    from stdio(2) obtain args env cwd where
      o: "out = [(''command'', JStr c), (''args'', JArr args), (''env'', JObj env)] @ opt_field ''cwd'' cwd @
         opt_field ''instructions'' (defined (own inp ''instructions''))"
      and a: "list_all js_is_str args" and e: "clean_record env" "\<forall>k \<in> fst ` set env. ENV_KEY_RE k"
      and w: "parseCwd (own inp ''cwd'') = Inr cwd"
      by (rule parse_stdio_shape)
    have own_out: "own out ''type'' = JUndefined" "own out ''url'' = JUndefined" "own out ''command'' = JStr c"
      "own out ''args'' = JArr args" "own out ''env'' = JObj env" "own out ''headers'' = JUndefined"
      "own out ''cwd'' = own inp ''cwd''" "own out ''instructions'' = own inp ''instructions''"
      unfolding o parseCwd_again [OF w]
      by (auto simp: own_Cons opt_field_def defined_def)
    have "parseStringRecord (JObj env) ''env'' = Inr (Some env)"
      using copy_strings_again [of "[]" env] e(1) by (simp add: parseStringRecord_def bnd_def)
    moreover have "find (\<lambda>k. \<not> ENV_KEY_RE k) (map fst env) = None" using e(2) by (auto simp: find_None_iff)
    ultimately have "parse_stdio out c = Inr out"
      using own_out a w by (simp add: parse_stdio_def js_nullish_def bnd_def o)
    then show ?thesis using own_out ins t by (auto simp: parseMcpServerConfig_def Let_def nonblank_str_def)
  qed
qed

lemma parsed_fields:
  assumes "parseMcpServerConfig U inp = Inr out"
  shows "own out ''pluginRoot'' = JUndefined"
    and "is_http out \<Longrightarrow> \<exists>url. own out ''url'' = JStr url \<and> check_url (U url) = Inr ()"
    and "\<not> is_http out \<Longrightarrow> \<exists>c env. own out ''command'' = JStr c \<and> own out ''env'' = JObj env \<and>
           (\<forall>k \<in> fst ` set env. ENV_KEY_RE k) \<and> own out ''url'' = JUndefined"
proof -
  consider (http) u where "parse_http U inp u = Inr out" | (stdio) c where "parse_stdio inp c = Inr out"
    using assms by (auto simp: parseMcpServerConfig_def Let_def split: if_splits option.splits)
  then have "own out ''pluginRoot'' = JUndefined \<and>
    (if is_http out then \<exists>url. own out ''url'' = JStr url \<and> check_url (U url) = Inr ()
     else \<exists>c env. own out ''command'' = JStr c \<and> own out ''env'' = JObj env \<and>
           (\<forall>k \<in> fst ` set env. ENV_KEY_RE k) \<and> own out ''url'' = JUndefined)"
  proof cases
    case http
    then show ?thesis
      by (rule parse_http_shape) (auto simp: is_http_def own_Cons opt_field_def split: option.split)
  next
    case stdio
    then show ?thesis
      by (rule parse_stdio_shape) (auto simp: is_http_def own_Cons opt_field_def split: option.split)
  qed
  then show "own out ''pluginRoot'' = JUndefined"
    and "is_http out \<Longrightarrow> \<exists>url. own out ''url'' = JStr url \<and> check_url (U url) = Inr ()"
    and "\<not> is_http out \<Longrightarrow> \<exists>c env. own out ''command'' = JStr c \<and> own out ''env'' = JObj env \<and>
           (\<forall>k \<in> fst ` set env. ENV_KEY_RE k) \<and> own out ''url'' = JUndefined"
    by auto
qed

subsection \<open>What reaches the container\<close>

lemma own_del: "own (del_prop k ps) j = (if j = k then JUndefined else own ps j)"
proof -
  have "map_of (filter (\<lambda>(k', _). k' \<noteq> k) ps) j = (if j = k then None else map_of ps j)"
    by (induction ps) auto
  then show ?thesis by (simp add: own_def del_prop_def)
qed

definition host_of_url_ok :: "url_parts \<Rightarrow> bool" where
  "host_of_url_ok p \<longleftrightarrow> up_protocol p = ''https:'' \<or> (up_protocol p = ''http:'' \<and> up_hostname p \<in> set LOOPBACK)"

text \<open>A configuration the container may be given.\<close>

definition shippable :: "(string \<Rightarrow> url_parts option) \<Rightarrow> fields \<Rightarrow> bool" where
  "shippable U server \<longleftrightarrow>
     (if is_http server
      then \<exists>url p. own server ''url'' = JStr url \<and> U url = Some p \<and> host_of_url_ok p \<and>
             up_username p = [] \<and> up_password p = [] \<and> up_hash p = [] \<and>
             (\<forall>k \<in> fst ` set (up_searchParams p). \<not> SECRET_QUERY_KEY_RE (camel_split k))
      else (\<exists>c env. own server ''command'' = JStr c \<and> own server ''env'' = JObj env \<and> (\<forall>k \<in> fst ` set env. ENV_KEY_RE k)) \<and>
           (js_truthy (own server ''cwd'') \<longrightarrow>
              (\<exists>root. own server ''pluginRoot'' = JStr root \<and> prefix (CONTAINER_PLUGINS_DIR @ ''/'') root)))"

lemma check_url_Inr:
  "check_url r = Inr () \<longleftrightarrow> (\<exists>p. r = Some p \<and> host_of_url_ok p \<and> up_username p = [] \<and> up_password p = [] \<and>
     up_hash p = [] \<and> (\<forall>k \<in> fst ` set (up_searchParams p). \<not> SECRET_QUERY_KEY_RE (camel_split k)))"
  by (auto simp: check_url_def host_of_url_ok_def find_None_iff split: option.splits dest!: find_SomeD)

lemma own_stored:
  assumes "j \<noteq> ''cwd''" "j \<noteq> ''pluginRoot''"
  shows "own (without_stray_cwd (with_plugin_root entry server)) j = own server j"
  using assms by (auto simp: without_stray_cwd_def with_plugin_root_def own_del own_set split: js.split)

lemma stored_server_shippable:
  assumes "stored_server U name entry = Inr out"
  shows "shippable U out" "validateMcpServerName name = Inr ()"
proof -
  obtain server where p: "parseMcpServerConfig U entry = Inr server"
    and o: "out = without_stray_cwd (with_plugin_root entry server)"
    using assms by (auto simp: stored_server_def bnd_Inr)
  note f = parsed_fields [OF p]
  have same: "own out ''url'' = own server ''url''" "own out ''command'' = own server ''command''"
    "own out ''env'' = own server ''env''" "is_http out \<longleftrightarrow> is_http server"
    unfolding o is_http_def by (simp_all add: own_stored)
  have "js_truthy (own out ''cwd'') \<longrightarrow>
      (\<exists>root. own out ''pluginRoot'' = JStr root \<and> prefix (CONTAINER_PLUGINS_DIR @ ''/'') root)" if "\<not> is_http server"
  proof -
    let ?w = "with_plugin_root entry server"
    have "is_http ?w \<longleftrightarrow> is_http server" by (auto simp: is_http_def with_plugin_root_def own_set split: js.split)
    moreover have "own ?w ''pluginRoot'' = JUndefined \<or>
        (\<exists>root. own ?w ''pluginRoot'' = JStr root \<and> prefix (CONTAINER_PLUGINS_DIR @ ''/'') root)"
      using f(1) by (auto simp: with_plugin_root_def own_set split: js.split)
    ultimately show ?thesis using that unfolding o by (auto simp: without_stray_cwd_def own_del)
  qed
  then show "shippable U out"
    using f(2,3) same by (auto simp: shippable_def check_url_Inr)
  show "validateMcpServerName name = Inr ()" using assms by (auto simp: stored_server_def bnd_Inr)
qed

lemma set_prop_mem: "(j, w) \<in> set (set_prop k v ps) \<Longrightarrow> (j, w) \<in> set ps \<or> (j = k \<and> w = v)"
  by (auto simp: set_prop_def split: if_splits)

lemma sanitize_entries_mem:
  "(n, v) \<in> set (sanitize_entries U acc es) \<Longrightarrow>
   (n, v) \<in> set acc \<or> (\<exists>entry out. stored_server U n entry = Inr out \<and> v = JObj out)"
proof (induction U acc es rule: sanitize_entries.induct)
  case (2 U servers name entry es)
  then show ?case by (auto split: js.splits sum.splits dest: set_prop_mem)
qed simp

text \<open>
  C35. Whatever the table of container configurations holds, the MCP servers put into a group's
  \<open>container.json\<close> have passed the checks: a name of at most 64 letters, digits, underscores and
  dashes (and not the prototype's); a remote server's URL is HTTPS or plain HTTP to this machine, has
  no user, password or fragment and no query key that names a credential; the environment keys of a
  local server are identifiers, and a working directory is kept only under a plugin's root.
\<close>
theorem materialized_servers_checked:
  assumes "materializeContainerJson U tz ag groups rows = Inr cfg" "(name, v) \<in> set (cj_mcpServers cfg)"
  shows "MCP_SERVER_NAME_RE name \<and> name \<noteq> ''__proto__'' \<and> (\<exists>server. v = JObj server \<and> shippable U server)"
proof -
  obtain raw where "cj_mcpServers cfg = sanitizeStoredMcpServers U raw"
    using assms(1) by (auto simp: materializeContainerJson_def configFromDb_def bnd_Inr split: option.splits)
  then obtain entry out where "stored_server U name entry = Inr out" "v = JObj out"
    using assms(2) sanitize_entries_mem [of name v U "[]"]
    by (auto simp: sanitizeStoredMcpServers_def split: js.splits)
  then show ?thesis
    using stored_server_shippable [of U name entry out] by (auto simp: validateMcpServerName_def split: if_splits)
qed

lemma sanitize_entries_own:
  "\<forall>(n, e) \<in> set es. n = name \<longrightarrow> e = entry \<Longrightarrow> stored_server U name ps = Inr out \<Longrightarrow> entry = JObj ps \<Longrightarrow>
   (\<exists>e. (name, e) \<in> set es) \<or> own acc name = JObj out \<Longrightarrow> own (sanitize_entries U acc es) name = JObj out"
proof (induction es arbitrary: acc)
  case (Cons ne es)
  obtain n e where ne: "ne = (n, e)" by fastforce
  let ?acc = "case e of JObj ps \<Rightarrow> (case stored_server U n ps of Inr s \<Rightarrow> set_prop n (JObj s) acc | Inl _ \<Rightarrow> acc) | _ \<Rightarrow> acc"
  have "own ?acc name = (if n = name then JObj out else own acc name)"
    using Cons.prems(1,2,3) ne by (auto simp: own_set split: js.split sum.split)
  then have "(\<exists>e. (name, e) \<in> set es) \<or> own ?acc name = JObj out"
    using Cons.prems(4) ne by auto
  moreover have "\<forall>(n, e) \<in> set es. n = name \<longrightarrow> e = entry" using Cons.prems(1) by simp
  ultimately have "own (sanitize_entries U ?acc es) name = JObj out"
    using Cons.IH Cons.prems(2,3) by blast
  then show ?case using ne by simp
qed simp

text \<open>
  What an approver agreed to is what the container gets: a server whose configuration was parsed
  and put into the table under a legal name, and that names no working directory, comes out of the
  check at the next start unchanged, whatever else the table holds.
\<close>
theorem approved_server_round_trip:
  assumes "validateMcpServerName name = Inr ()" "parseMcpServerConfig U payload = Inr server"
    and "own server ''cwd'' = JUndefined"
  shows "own (sanitizeStoredMcpServers U (JObj (set_prop name (JObj server) servers))) name = JObj server"
proof -
  have "with_plugin_root server server = server"
    using parsed_fields(1) [OF assms(2)] by (simp add: with_plugin_root_def)
  then have "stored_server U name server = Inr server"
    using assms parse_again [OF assms(2)] by (simp add: stored_server_def bnd_def without_stray_cwd_def)
  moreover have "\<forall>(n, e) \<in> set (set_prop name (JObj server) servers). n = name \<longrightarrow> e = JObj server"
    by (auto simp: set_prop_def has_key_iff split: if_splits) force
  moreover have "\<exists>e. (name, e) \<in> set (set_prop name (JObj server) servers)"
    by (auto simp: set_prop_def has_key_iff) force
  ultimately show ?thesis
    using sanitize_entries_own [of _ name "JObj server" U server server "[]"]
    by (simp add: sanitizeStoredMcpServers_def)
qed

definition demo_url :: "string \<Rightarrow> url_parts option" where
  "demo_url u =
     (if u = ''https://mcp.example/api''
      then Some \<lparr>up_protocol = ''https:'', up_origin = ''https://mcp.example'', up_hostname = ''mcp.example'', up_username = [],
                 up_password = [], up_hash = [], up_pathname = ''/api'', up_search = [], up_searchParams = []\<rparr>
      else None)"

definition demo_server :: fields where
  "demo_server = [(''type'', JStr ''http''), (''url'', JStr ''https://mcp.example/api'')]"

definition demo_config :: container_config where
  "demo_config = (default_config ''a'' None (Iso 0))\<lparr>kc_mcp_servers :=
     Json (JObj [(''ok'', JObj demo_server), (''bad name'', JObj demo_server),
                 (''plain'', JObj [(''url'', JStr ''http://mcp.example'')])])\<rparr>"

definition demo_agent :: agent_group where
  "demo_agent = \<lparr>ag_id = ''a'', ag_name = ''Ann'', ag_folder = ''ann'', ag_agent_provider = None, ag_created_at = Iso 0\<rparr>"

theorem materialized_servers_checked_witness: "shippable demo_url demo_server"
proof -
  have "map_option (\<lambda>c. cj_mcpServers c) (case materializeContainerJson demo_url (\<lambda>_. True) ''a'' [demo_agent] [demo_config] of
      Inr c \<Rightarrow> Some c | Inl _ \<Rightarrow> None) = Some [(''ok'', JObj demo_server)]"
    by code_simp
  then obtain cfg where cfg: "materializeContainerJson demo_url (\<lambda>_. True) ''a'' [demo_agent] [demo_config] = Inr cfg"
    and m: "cj_mcpServers cfg = [(''ok'', JObj demo_server)]"
    by (auto split: sum.splits)
  show ?thesis using materialized_servers_checked [OF cfg, of "''ok''" "JObj demo_server"] m by simp
qed

theorem approved_server_round_trip_witness:
  "own (sanitizeStoredMcpServers demo_url (JObj (set_prop ''ok'' (JObj demo_server) [(''x y'', JNull)]))) ''ok'' = JObj demo_server"
proof (rule approved_server_round_trip)
  show "validateMcpServerName ''ok'' = Inr ()" by code_simp
  show "parseMcpServerConfig demo_url [(''url'', JStr ''  https://mcp.example/api'')] = Inr demo_server" by code_simp
  show "own demo_server ''cwd'' = JUndefined" by code_simp
qed

end
