(* ===== verification/CreateAgent.thy ===== *)
theory CreateAgent
  imports DeliverySafety ContainerConfig
begin

text \<open>
  Agents that create agents (\<open>src/modules/agent-to-agent/create-agent.ts\<close>, \<open>agentsCreate\<close> of
  \<open>guard.ts\<close>, the registration in \<open>index.ts\<close>): the guarded delivery action \<open>create_agent\<close> with its
  check, its hold and its body.  \<open>hd_configs\<close> is the table of container configurations, \<open>hd_folders\<close>
  lists the paths that exist below \<open>GROUPS_DIR\<close>.
\<close>

record group_env =
  ne_host :: host_env
  ne_groupsDir :: string
  ne_defaultProvider :: string

subsection \<open>The decision\<close>

definition agents_decide :: "host_db \<Rightarrow> guard_input \<Rightarrow> guard_decision res" where
  "agents_decide s inp =
     (case gi_actor inp of
        AgentActor ag _ \<Rightarrow>
          (let cliScope = (case getContainerConfig ag (hd_configs s) of Some r \<Rightarrow> kc_cli_scope r | None \<Rightarrow> ''group'')
           in if cliScope = ''global'' then Inr (ALLOW ''trusted global-scope agent group'')
              else Inr (HOLD ''agent-initiated create_agent requires admin approval'' None))
      | _ \<Rightarrow> Inr (DENY ''create_agent is a container-originated action.''))"

definition create_covers :: "pending_approval \<Rightarrow> guard_input \<Rightarrow> bool res" where
  "create_covers grant inp =
     Inr (case bnd (json_parse (pa_payload grant)) (\<lambda>v. js_get v ''name'') of
            Inl _ \<Rightarrow> False | Inr n \<Rightarrow> n = own (gi_payload inp) ''name'')"

definition agentsCreate :: "host_db guarded_action_spec" where
  "agentsCreate = \<lparr>ga_action = ''agents.create'', ga_decide = agents_decide,
     ga_grantActionName = Some ''create_agent'', ga_grantCoversRequest = Some create_covers\<rparr>"

subsection \<open>The request\<close>

definition str_field :: "fields \<Rightarrow> string \<Rightarrow> string" where
  "str_field content k = (case own content k of JStr s \<Rightarrow> s | _ \<Rightarrow> [])"

definition instructions_of :: "fields \<Rightarrow> string option" where
  "instructions_of content = (case own content ''instructions'' of JStr s \<Rightarrow> Some s | _ \<Rightarrow> None)"

definition validateCreateAgent :: "group_env \<Rightarrow> fields \<Rightarrow> session_row \<Rightarrow> (host_db, bool) sm" where
  "validateCreateAgent E content session =
     (if str_field content ''name'' = []
      then io_bind (notifySession (ne_host E) session ''create_agent failed: name is required.'') (\<lambda>_. io_return False)
      else io_bind (io_get (\<lambda>s. getAgentGroup (s_agent_group_id session) (hd_agents s))) (\<lambda>g.
        if g = None
        then io_bind (notifySession (ne_host E) session ''create_agent failed: source agent group not found.'')
               (\<lambda>_. io_return False)
        else io_return True))"

definition requestCreateAgentHold :: "group_env \<Rightarrow> fields \<Rightarrow> session_row \<Rightarrow> (host_db, unit) sm" where
  "requestCreateAgentHold E content session =
     (let name = str_field content ''name''
      in io_bind (io_get (\<lambda>s. getAgentGroup (s_agent_group_id session) (hd_agents s))) (\<lambda>g. case g of
           None \<Rightarrow> io_return ()
         | Some source \<Rightarrow>
             askApproval (ne_host E)
               \<lparr>aq_session = session, aq_action = ''create_agent'',
                aq_payload = JObj [(''name'', JStr name),
                  (''instructions'', case instructions_of content of Some t \<Rightarrow> JStr t | None \<Rightarrow> JNull)],
                aq_title = ''Create agent: '' @ name,
                aq_question = ''Agent \"'' @ ag_name source @ ''\" wants to create a new sub-agent \"'' @ name @
                  ''\" (a new agent group with its own workspace and container). Approve?'',
                aq_approverUserId = None\<rparr>))"

subsection \<open>The creation\<close>

text \<open>A name for the creator in the child's namespace; the first argument bounds the rounds.\<close>

fun parent_name :: "nat \<Rightarrow> string \<Rightarrow> edge_db \<Rightarrow> nat \<Rightarrow> string" where
  "parent_name 0 g db k = cand ''parent'' k"
| "parent_name (Suc n) g db k =
     (if getDestinationByName g (cand ''parent'' k) db \<noteq> None then parent_name n g db (Suc k) else cand ''parent'' k)"

definition on_edges :: "(edge_db \<Rightarrow> edge_db res) \<Rightarrow> (host_db, unit) sm" where
  "on_edges f s =
     (case f (edges s) of Inl e \<Rightarrow> (Inl e, s) | Inr db \<Rightarrow> (Inr (), s\<lparr>hd_chat := (hd_chat s)\<lparr>cd_edges := db\<rparr>\<rparr>))"

definition agent_link :: "string \<Rightarrow> string \<Rightarrow> string \<Rightarrow> stamp \<Rightarrow> agent_destination" where
  "agent_link from name to now =
     \<lparr>ad_agent_group_id = from, ad_local_name = name, ad_target_type = ToAgent, ad_target_id = to, ad_created_at = now\<rparr>"

definition link_agents :: "string \<Rightarrow> string \<Rightarrow> string \<Rightarrow> stamp \<Rightarrow> (host_db, unit) sm" where
  "link_agents creator localName child now =
     io_bind (on_edges (createDestination (agent_link creator localName child now))) (\<lambda>_.
     io_bind (io_get (\<lambda>s. parent_name (Suc (length (eb_destinations (edges s)))) child (edges s) 1)) (\<lambda>parentName.
       on_edges (createDestination (agent_link child parentName creator now))))"

definition insert_group :: "group_env \<Rightarrow> agent_group \<Rightarrow> (host_db, unit) sm" where
  "insert_group E g s =
     (case createAgentGroup g (hd_agents s) of Inl e \<Rightarrow> (Inl e, s) | Inr rows \<Rightarrow> (Inr (), s\<lparr>hd_agents := rows\<rparr>))"

definition init_group :: "group_env \<Rightarrow> agent_group \<Rightarrow> string option \<Rightarrow> string option \<Rightarrow> (host_db, unit) sm" where
  "init_group E g instructions provider =
     io_bind (io_modify (\<lambda>s.
       let (folders, configs) = initGroupFilesystem (ne_groupsDir E) (ne_defaultProvider E) (se_now (he_sess (ne_host E)))
                                  g provider (hd_folders s, hd_configs s)
       in s\<lparr>hd_folders := folders, hd_configs := configs\<rparr>)) (\<lambda>_.
     host_event (Scaffolded (ag_id g) instructions))"

definition parent_provider :: "string \<Rightarrow> host_db \<Rightarrow> string" where
  "parent_provider ag s =
     (case getContainerConfig ag (hd_configs s) of
        Some r \<Rightarrow> (case kc_provider r of Some p \<Rightarrow> p | None \<Rightarrow> ''claude'')
      | None \<Rightarrow> ''claude'')"

definition invalid_folder_note :: "string \<Rightarrow> string \<Rightarrow> string" where
  "invalid_folder_note name folder =
     ''Cannot create agent \"'' @ name @ ''\": the derived folder \"'' @ folder @ ''\" is invalid '' @ emdash @
     '' group folders must be at most 63 characters of letters, digits, \"-\", or \"_\", starting and ending with a letter or digit.''"

text \<open>The round limit of \<open>free_folder\<close> is never reached (\<open>free_folder_first\<close>).\<close>

definition performCreateAgent ::
    "group_env \<Rightarrow> string \<Rightarrow> string option \<Rightarrow> session_row \<Rightarrow> agent_group \<Rightarrow> bool \<Rightarrow> (host_db, unit) sm" where
  "performCreateAgent E name instructions session source quietly =
     (let H = ne_host E; G = ne_groupsDir E; localName = normalizeName name; notify = notifySession H session in
      io_bind (io_get (\<lambda>s. getDestinationByName (ag_id source) localName (edges s))) (\<lambda>clash.
      if clash \<noteq> None
      then notify (''Cannot create agent \"'' @ name @ ''\": you already have a destination named \"'' @ localName @ ''\".'')
      else io_bind (io_get (\<lambda>s. free_folder G (hd_folders s) (hd_agents s) localName)) (\<lambda>free. case free of
        Inl e \<Rightarrow> io_throw e
      | Inr None \<Rightarrow> io_throw (Error ''no free folder'')
      | Inr (Some folder) \<Rightarrow>
          if \<not> isValidGroupFolder folder then notify (invalid_folder_note name folder)
          else if \<not> prefix (path_resolve ''/'' G @ ''/'') (path_resolve ''/'' (path_join G folder))
          then notify (''Cannot create agent \"'' @ name @ ''\": invalid folder path.'')
          else io_bind draw (\<lambda>tok.
            let now = se_now (he_sess H);
                g = \<lparr>ag_id = ''ag-'' @ tok, ag_name = name, ag_folder = folder, ag_agent_provider = None, ag_created_at = now\<rparr>
            in io_bind (insert_group E g) (\<lambda>_.
               io_bind (io_get (parent_provider (ag_id source))) (\<lambda>p.
               io_bind (init_group E g instructions (Some p)) (\<lambda>_.
               io_bind (link_agents (ag_id source) localName (ag_id g) now) (\<lambda>_.
               io_bind (writeDestinations (s_agent_group_id session) (s_id session)) (\<lambda>_.
                 if quietly then io_return ()
                 else notify (''Agent \"'' @ localName @ ''\" created. You can now message it with send_message({ to: \"'' @
                              localName @ ''\", ... }).''))))))))))"

definition createAgent :: "group_env \<Rightarrow> fields \<Rightarrow> session_row \<Rightarrow> bool \<Rightarrow> (host_db, unit) sm" where
  "createAgent E content session quietly =
     io_bind (io_get (\<lambda>s. getAgentGroup (s_agent_group_id session) (hd_agents s))) (\<lambda>g. case g of
       None \<Rightarrow> io_return ()
     | Some source \<Rightarrow>
         if str_field content ''name'' = [] then io_return ()
         else performCreateAgent E (str_field content ''name'') (instructions_of content) session source quietly)"

subsection \<open>The registered action\<close>

definition create_agent_spec :: "group_env \<Rightarrow> delivery_guard_spec" where
  "create_agent_spec E =
     \<lparr>gs_guardAction = agentsCreate, gs_precheck = Some (validateCreateAgent E),
      gs_requestHold = requestCreateAgentHold E,
      gs_onDeny = Some (\<lambda>_ session reason. notifySession (ne_host E) session (''create_agent denied: '' @ reason))\<rparr>"

definition create_agent_entry :: "group_env \<Rightarrow> delivery_entry" where
  "create_agent_entry E = Guarded (create_agent_spec E) (\<lambda>content session _. createAgent E content session False)"

subsection \<open>Who creates agents\<close>

definition same_groups :: "host_db \<Rightarrow> host_db \<Rightarrow> bool" where
  "same_groups s s' \<longleftrightarrow> hd_agents s' = hd_agents s"

interpretation settled: host_frame same_groups
  by unfold_locales (auto simp: same_groups_def reflp_def transp_def set_mail_def)

lemma settled_notify: "keeps same_groups (notifySession E session body)"
  unfolding notifySession_def by (intro settled.frame_intros settled.noted settled.woken)

text \<open>An approval that was given for creating an agent of this name and is still in the table.\<close>

definition create_grant :: "pending_approval option \<Rightarrow> fields \<Rightarrow> host_db \<Rightarrow> bool" where
  "create_grant grant content s \<longleftrightarrow>
     (\<exists>g row. grant = Some g \<and> pa_action g = ''create_agent'' \<and>
        getPendingApproval (pa_approval_id g) (hd_approvals s) = Some row \<and> pa_action row = ''create_agent'' \<and>
        bnd (json_parse (pa_payload g)) (\<lambda>v. js_get v ''name'') = Inr (own content ''name''))"

definition trusted_creator :: "string \<Rightarrow> host_db \<Rightarrow> bool" where
  "trusted_creator ag s \<longleftrightarrow> (\<exists>row. getContainerConfig ag (hd_configs s) = Some row \<and> kc_cli_scope row = ''global'')"

lemma create_decision_allows:
  assumes "delivery_decision agentsCreate content session grant s = Inr (ALLOW why)"
  shows "trusted_creator (s_agent_group_id session) s \<or> create_grant grant content s"
proof -
  let ?inp = "delivery_input content session grant"
  have in_of: "gi_actor ?inp = AgentActor (s_agent_group_id session) (Some (s_id session))" "gi_grant ?inp = grant"
    "gi_payload ?inp = content" by (simp_all add: delivery_input_def)
  from assms have "consult (\<lambda>i. getPendingApproval i (hd_approvals s)) s agentsCreate ?inp = Inr (ALLOW why)"
    by (simp add: delivery_decision_def)
  from consult_Allow [OF this] show ?thesis
  proof
    assume "\<exists>r. ga_decide agentsCreate s ?inp = Inr (ALLOW r)"
    then show ?thesis
      by (auto simp: agentsCreate_def agents_decide_def in_of Let_def trusted_creator_def split: if_splits option.splits)
  next
    assume "\<exists>r u g name row. ga_decide agentsCreate s ?inp = Inr (HOLD r u) \<and> gi_grant ?inp = Some g \<and>
      ga_grantActionName agentsCreate = Some name \<and> pa_action g = name \<and>
      getPendingApproval (pa_approval_id g) (hd_approvals s) = Some row \<and> pa_action row = name \<and>
      (\<forall>covers. ga_grantCoversRequest agentsCreate = Some covers \<longrightarrow> covers g ?inp = Inr True)"
    then obtain g row where g: "grant = Some g" "pa_action g = ''create_agent''"
      "getPendingApproval (pa_approval_id g) (hd_approvals s) = Some row" "pa_action row = ''create_agent''"
      "create_covers g ?inp = Inr True"
      by (auto simp: agentsCreate_def in_of)
    then show ?thesis
      by (cases "bnd (json_parse (pa_payload g)) (\<lambda>v. js_get v ''name'')")
         (auto simp: create_grant_def create_covers_def delivery_input_def)
  qed
qed

text \<open>A guarded action leaves alone what its check, its hold and its refusal leave alone, unless it is allowed.\<close>

lemma runGuarded_frame:
  assumes run: "runGuarded spec handler content session grant s = (r, s')"
    and pre: "gs_precheck spec = Some p" "keeps P (p content session)"
      "\<And>s1. p content session s = (Inr True, s1) \<Longrightarrow> s1 = s"
    and hold: "keeps P (gs_requestHold spec content session)"
    and deny: "gs_onDeny spec = Some f" "\<And>reason. keeps P (f content session reason)"
    and refl: "reflp P"
  shows "P s s' \<or> (\<exists>why. delivery_decision (gs_guardAction spec) content session grant s = Inr (ALLOW why))"
proof -
  obtain v s1 where v: "p content session s = (v, s1)" by fastforce
  show ?thesis
  proof (cases "v = Inr True")
    case True
    then have s1: "s1 = s" using v pre(3) by simp
    show ?thesis
    proof (cases "delivery_decision (gs_guardAction spec) content session grant s")
      case (Inl e)
      then show ?thesis using run v True s1 pre(1) reflpD [OF refl]
        by (auto simp: runGuarded_def io_bind_def io_get_def io_throw_def)
    next
      case (Inr d)
      have *: "(case d of ALLOW _ \<Rightarrow> handler content session grant | HOLD _ _ \<Rightarrow> gs_requestHold spec content session
          | DENY reason \<Rightarrow> f content session reason) s = (r, s')"
        using run v True s1 Inr pre(1) deny(1) by (simp add: runGuarded_def io_bind_def io_get_def)
      show ?thesis
      proof (cases d)
        case (HOLD why u)
        then show ?thesis using * keepsD [OF hold] by simp
      next
        case (DENY reason)
        then show ?thesis using * keepsD [OF deny(2)] by simp
      qed (use Inr in simp)
    qed
  next
    case False
    then have "s' = s1" using run v pre(1)
      by (auto simp: runGuarded_def io_bind_def io_return_def split: sum.splits if_splits)
    then show ?thesis using keepsD [OF pre(2) v] by simp
  qed
qed

text \<open>
  C11. An agent group comes into being through a container's \<open>create_agent\<close> only if the requesting
  group's configuration has the scope \<open>global\<close> at that moment, or the request is the replay of an
  approval that was given for this name and is still in the table.  Every other request, whatever it
  contains, leaves the table of agent groups as it is.
\<close>
theorem agents_created_with_trust_or_grant:
  assumes "create_agent_entry E = Guarded spec handler"
    and "runGuarded spec handler content session grant s = (r, s')" "hd_agents s' \<noteq> hd_agents s"
  shows "trusted_creator (s_agent_group_id session) s \<or> create_grant grant content s"
proof -
  have spec: "spec = create_agent_spec E" using assms(1) by (simp add: create_agent_entry_def)
  have pre: "keeps same_groups (validateCreateAgent E content session)"
    unfolding validateCreateAgent_def by (auto intro!: settled.frame_intros settled_notify)
  have same: "s1 = s" if "validateCreateAgent E content session s = (Inr True, s1)" for s1
    using that by (auto simp: validateCreateAgent_def io_bind_def io_return_def io_get_def split: if_splits prod.splits sum.splits)
  have hold: "keeps same_groups (requestCreateAgentHold E content session)"
    unfolding requestCreateAgentHold_def Let_def
    by (intro settled.frame_intros) (auto intro!: settled.frame_intros settled.asked split: option.split)
  have "same_groups s s' \<or> (\<exists>why. delivery_decision agentsCreate content session grant s = Inr (ALLOW why))"
    using runGuarded_frame [OF assms(2), of "validateCreateAgent E" same_groups] pre same hold settled_notify settled.refl
    by (auto simp: spec create_agent_spec_def)
  then show ?thesis using assms(3) create_decision_allows [of content session grant s] by (fastforce simp: same_groups_def)
qed

text \<open>A container whose group may create agents, and one whose group may not.\<close>

definition demo_group_env :: group_env where
  "demo_group_env = \<lparr>ne_host = demo_host_env, ne_groupsDir = ''/srv/groups'', ne_defaultProvider = ''claude''\<rparr>"

definition demo_creator :: host_db where
  "demo_creator = demo_host\<lparr>hd_configs := [(default_config ''a'' None (Iso 0))\<lparr>kc_cli_scope := ''global''\<rparr>]\<rparr>"

definition demo_request :: fields where
  "demo_request = [(''action'', JStr ''create_agent''), (''name'', JStr ''Sub Agent'')]"

lemma demo_creation:
  "map ag_folder (hd_agents (snd (runGuarded (create_agent_spec demo_group_env)
     (\<lambda>content session _. createAgent demo_group_env content session False) demo_request demo_sender None demo_creator))) =
   map ag_folder (hd_agents demo_creator) @ [''sub-agent'']"
  by code_simp

theorem agents_created_with_trust_or_grant_witness: "trusted_creator ''a'' demo_creator"
proof -
  let ?h = "\<lambda>content session _. createAgent demo_group_env content session False"
  obtain r s' where run: "runGuarded (create_agent_spec demo_group_env) ?h demo_request demo_sender None demo_creator = (r, s')"
    by fastforce
  have "hd_agents s' \<noteq> hd_agents demo_creator" using demo_creation run by auto
  from agents_created_with_trust_or_grant [OF create_agent_entry_def run this]
  show ?thesis by (simp add: create_grant_def demo_sender_def new_session_def)
qed

subsection \<open>What a created agent is\<close>

text \<open>Notes to sessions and the projection of destinations leave the central tables alone.\<close>

definition same_central :: "host_db \<Rightarrow> host_db \<Rightarrow> bool" where
  "same_central s s' \<longleftrightarrow> hd_agents s' = hd_agents s \<and> hd_chat s' = hd_chat s \<and> hd_configs s' = hd_configs s \<and>
     hd_folders s' = hd_folders s"

lemma central_rel: "reflp same_central" "transp same_central"
  by (auto simp: reflp_def transp_def same_central_def)

lemma central_steps:
  "keeps same_central (initSessionFolder ag sid)" "keeps same_central (on_sessions f)" "keeps same_central (on_world m)"
  "keeps same_central draw" "keeps same_central (host_event e)" "keeps same_central (withMailboxSession ag sid a)"
  by (auto simp: keeps_def same_central_def initSessionFolder_def on_sessions_def on_world_def draw_def host_event_def
                 withMailboxSession_def set_mail_def Let_def split: prod.split)

lemma central_notes:
  "keeps same_central (notifySession E session body)" "keeps same_central (writeDestinations ag sid)"
  unfolding notifySession_def writeNote_def writeSessionMessage_def wakeContainer_def writeDestinations_def
  by (auto intro!: keeps_intros central_rel central_steps split: option.split)

lemma on_edges_run:
  "on_edges f s = (r, s') \<Longrightarrow> hd_agents s' = hd_agents s \<and> hd_configs s' = hd_configs s \<and> hd_folders s' = hd_folders s \<and>
     (r = Inr () \<longrightarrow> f (edges s) = Inr (edges s')) \<and> (r \<noteq> Inr () \<longrightarrow> s' = s)"
  by (auto simp: on_edges_def edges_def split: sum.splits)

lemma created_destination:
  assumes "createDestination row db = Inr db'"
  shows "getDestinationByName (ad_agent_group_id row) (ad_local_name row) db' = Some row \<and>
   (getDestinationByName g n db = Some d \<longrightarrow> getDestinationByName g n db' = Some d)"
proof -
  have db': "eb_destinations db' = eb_destinations db @ [row]"
    and "getDestinationByName (ad_agent_group_id row) (ad_local_name row) db = None"
    using assms by (auto simp: createDestination_def getDestinationByName_def find_None_ex split: if_splits)
  then show ?thesis by (simp add: getDestinationByName_def find_append)
qed

lemma link_agents_run:
  assumes "link_agents creator localName child now s = (r, s')"
  shows "hd_agents s' = hd_agents s \<and> hd_configs s' = hd_configs s \<and> hd_folders s' = hd_folders s"
    and "r = Inr () \<Longrightarrow> getDestinationByName creator localName (edges s') = Some (agent_link creator localName child now) \<and>
      (\<exists>p. getDestinationByName child p (edges s') = Some (agent_link child p creator now))"
proof -
  let ?first = "on_edges (createDestination (agent_link creator localName child now))"
  obtain r1 s1 where 1: "?first s = (r1, s1)" by fastforce
  note f = on_edges_run [OF 1]
  define p where "p = parent_name (Suc (length (eb_destinations (edges s1)))) child (edges s1) 1"
  have rest: "r1 = Inr () \<Longrightarrow> on_edges (createDestination (agent_link child p creator now)) s1 = (r, s')"
    and stop: "r1 \<noteq> Inr () \<Longrightarrow> s' = s1 \<and> r \<noteq> Inr ()"
    using assms 1 by (auto simp: link_agents_def io_bind_def p_def split: sum.splits)
  show "hd_agents s' = hd_agents s \<and> hd_configs s' = hd_configs s \<and> hd_folders s' = hd_folders s"
    using f stop on_edges_run [OF rest] by (cases "r1 = Inr ()") auto
  assume ok: "r = Inr ()"
  then have r1: "r1 = Inr ()" using stop by blast
  note 2 = rest [OF r1]
  have c1: "createDestination (agent_link creator localName child now) (edges s) = Inr (edges s1)" using f r1 by simp
  have c2: "createDestination (agent_link child p creator now) (edges s1) = Inr (edges s')"
    using on_edges_run [OF 2] ok by simp
  show "getDestinationByName creator localName (edges s') = Some (agent_link creator localName child now) \<and>
      (\<exists>p. getDestinationByName child p (edges s') = Some (agent_link child p creator now))"
    using created_destination [OF c1] created_destination [OF c2] by (fastforce simp: agent_link_def)
qed

text \<open>\<open>is_child\<close>: how the tables show a group that was created for \<open>source\<close> under \<open>localName\<close>.\<close>

definition linked_child :: "agent_group \<Rightarrow> agent_group \<Rightarrow> string \<Rightarrow> host_db \<Rightarrow> bool" where
  "linked_child source g localName s \<longleftrightarrow>
     (\<exists>d p d'. getDestinationByName (ag_id source) localName (edges s) = Some d \<and>
        ad_target_type d = ToAgent \<and> ad_target_id d = ag_id g \<and>
        getDestinationByName (ag_id g) p (edges s) = Some d' \<and> ad_target_type d' = ToAgent \<and> ad_target_id d' = ag_id source)"

text \<open>The creation from the point where the folder is known.\<close>

definition creation_body ::
    "group_env \<Rightarrow> string \<Rightarrow> string option \<Rightarrow> session_row \<Rightarrow> agent_group \<Rightarrow> bool \<Rightarrow> string \<Rightarrow> string \<Rightarrow> (host_db, unit) sm" where
  "creation_body E name instructions session source quietly folder tok =
     (let H = ne_host E; now = se_now (he_sess H); localName = normalizeName name;
          g = \<lparr>ag_id = ''ag-'' @ tok, ag_name = name, ag_folder = folder, ag_agent_provider = None, ag_created_at = now\<rparr>
      in io_bind (insert_group E g) (\<lambda>_.
         io_bind (io_get (parent_provider (ag_id source))) (\<lambda>p.
         io_bind (init_group E g instructions (Some p)) (\<lambda>_.
         io_bind (link_agents (ag_id source) localName (ag_id g) now) (\<lambda>_.
         io_bind (writeDestinations (s_agent_group_id session) (s_id session)) (\<lambda>_.
           if quietly then io_return ()
           else notifySession H session (''Agent \"'' @ localName @ ''\" created. You can now message it with send_message({ to: \"'' @
                        localName @ ''\", ... }).'')))))))"

lemma creation_body_run:
  assumes "creation_body E name instructions session source quietly folder tok s = (r, s')"
    and "hd_agents s' \<noteq> hd_agents s"
  defines "g \<equiv> \<lparr>ag_id = ''ag-'' @ tok, ag_name = name, ag_folder = folder, ag_agent_provider = None,
                 ag_created_at = se_now (he_sess (ne_host E))\<rparr>"
  shows "hd_agents s' = hd_agents s @ [g] \<and>
    (hd_folders s', hd_configs s') = initGroupFilesystem (ne_groupsDir E) (ne_defaultProvider E) (ag_created_at g) g
       (Some (parent_provider (ag_id source) s)) (hd_folders s, hd_configs s) \<and>
    (r = Inr () \<longrightarrow> linked_child source g (normalizeName name) s')"
proof -
  let ?now = "se_now (he_sess (ne_host E))"
  have ins: "createAgentGroup g (hd_agents s) = Inr (hd_agents s @ [g])"
    using assms(1,2) by (auto simp: creation_body_def Let_def io_bind_def insert_group_def g_def createAgentGroup_def split: if_splits)
  define s1 where "s1 = s\<lparr>hd_agents := hd_agents s @ [g]\<rparr>"
  define s2 where "s2 = snd (init_group E g instructions (Some (parent_provider (ag_id source) s1)) s1)"
  have s2: "init_group E g instructions (Some (parent_provider (ag_id source) s1)) s1 = (Inr (), s2)"
    and s2_is: "hd_agents s2 = hd_agents s @ [g]"
      "(hd_folders s2, hd_configs s2) = initGroupFilesystem (ne_groupsDir E) (ne_defaultProvider E) ?now g
         (Some (parent_provider (ag_id source) s)) (hd_folders s, hd_configs s)"
    unfolding s2_def s1_def
    by (simp_all add: init_group_def host_event_def case_prod_unfold Let_def parent_provider_def)
  obtain r3 s3 where 3: "link_agents (ag_id source) (normalizeName name) (ag_id g) ?now s2 = (r3, s3)" by fastforce
  note l = link_agents_run [OF 3]
  have first: "insert_group E g s = (Inr (), s1)" using ins by (simp add: insert_group_def s1_def)
  define tail where "tail = io_bind (writeDestinations (s_agent_group_id session) (s_id session)) (\<lambda>_.
       if quietly then io_return ()
       else notifySession (ne_host E) session (''Agent \"'' @ normalizeName name @ ''\" created. You can now message it with send_message({ to: \"'' @
                    normalizeName name @ ''\", ... }).''))"
  have "creation_body E name instructions session source quietly folder tok s =
      (case r3 of Inl e \<Rightarrow> (Inl e, s3) | Inr _ \<Rightarrow> tail s3)"
    using first s2 3 unfolding creation_body_def Let_def g_def [symmetric] tail_def [symmetric]
    by (simp add: io_bind_def split: sum.split)
  then have out: "(r3 \<noteq> Inr () \<and> r \<noteq> Inr () \<and> s' = s3) \<or> (r3 = Inr () \<and> tail s3 = (r, s'))"
    using assms(1) by (cases r3) auto
  have "keeps same_central tail"
    unfolding tail_def by (auto intro!: keeps_intros central_rel central_notes)
  then have c: "same_central s3 s'"
    using out central_rel(1) by (auto simp: reflp_def dest: keepsD)
  have "linked_child source g (normalizeName name) s3" if r3: "r3 = Inr ()"
  proof -
    obtain p where "getDestinationByName (ag_id g) p (edges s3) = Some (agent_link (ag_id g) p (ag_id source) ?now)"
      using l(2) [OF r3] by blast
    moreover have "getDestinationByName (ag_id source) (normalizeName name) (edges s3) =
        Some (agent_link (ag_id source) (normalizeName name) (ag_id g) ?now)" using l(2) [OF r3] by blast
    ultimately show ?thesis unfolding linked_child_def
      by (intro exI conjI) (assumption | simp add: agent_link_def)+
  qed
  moreover have "edges s' = edges s3" using c by (simp add: same_central_def edges_def)
  ultimately have "r = Inr () \<Longrightarrow> linked_child source g (normalizeName name) s'"
    using out by (auto simp: linked_child_def)
  then show ?thesis
    using c l(1) s2_is by (simp add: same_central_def g_def)
qed

lemma ensure_config_own:
  assumes "getContainerConfig ag rows = None"
  shows "getContainerConfig ag (ensureContainerConfig dflt now ag (Some p) rows) =
     Some (default_config ag (stamped_provider p) now)"
proof -
  have "\<not> (\<exists>r \<in> set rows. kc_agent_group_id r = ag)" using assms by (auto simp: getContainerConfig_def find_None_ex)
  then show ?thesis
    using assms by (simp add: getContainerConfig_def ensureContainerConfig_def find_append default_config_def)
qed

text \<open>The reads before the creation change nothing, and the ways out before it leave the groups alone.\<close>

lemma performCreateAgent_run:
  assumes "performCreateAgent E name instructions session source quietly s = (r, s')" "hd_agents s' \<noteq> hd_agents s"
    and "free_folder (ne_groupsDir E) (hd_folders s) (hd_agents s) (normalizeName name) = Inr (Some f)"
  shows "isValidGroupFolder f \<and> (\<exists>tok s0. same_central s s0 \<and>
      creation_body E name instructions session source quietly f tok s0 = (r, s'))"
proof -
  have quiet: "notifySession (ne_host E) session body s \<noteq> (r, s')" for body
    using assms(2) keepsD [OF central_notes(1), of "ne_host E" session body s r s'] by (auto simp: same_central_def)
  have "same_central s (s\<lparr>ss_drawn := Suc (ss_drawn s)\<rparr>)" by (simp add: same_central_def)
  then show ?thesis
    using assms quiet
    by (auto simp: performCreateAgent_def Let_def creation_body_def draw_def io_bind_Inr [where m = draw, OF draw_def] split: if_splits)
qed

text \<open>
  C40. When \<open>create_agent\<close> adds an agent group, it adds exactly one, under the name asked for, with the
  first folder of the sequence name, name-2, name-3 and so on that no group claims and that does not
  exist on disk, and that folder is legal: an agent never takes over the files of another group or of a
  deleted one.  The child is configured with the scope \<open>group\<close> and its creator's provider, and when the
  creation returns, the creator has a destination for the child under the normalised name and the child
  one for its creator.
\<close>
theorem created_agent_is_fresh_and_linked:
  assumes "is_absolute (ne_groupsDir E)"
    and "performCreateAgent E name instructions session source quietly s = (r, s')" "hd_agents s' \<noteq> hd_agents s"
  shows "\<exists>g k. hd_agents s' = hd_agents s @ [g] \<and> ag_name g = name \<and>
    isValidGroupFolder (ag_folder g) \<and> ag_folder g = cand (normalizeName name) (Suc k) \<and>
    \<not> occupied (ne_groupsDir E) (hd_folders s) (hd_agents s) (ag_folder g) \<and>
    (\<forall>i < k. occupied (ne_groupsDir E) (hd_folders s) (hd_agents s) (cand (normalizeName name) (Suc i))) \<and>
    path_resolve (ne_groupsDir E) (ag_folder g) \<in> set (hd_folders s') \<and>
    (getContainerConfig (ag_id g) (hd_configs s) = None \<longrightarrow>
       (\<exists>row. getContainerConfig (ag_id g) (hd_configs s') = Some row \<and> kc_cli_scope row = ''group'' \<and>
          kc_provider row = stamped_provider (map lower_char (parent_provider (ag_id source) s)))) \<and>
    (r = Inr () \<longrightarrow> linked_child source g (normalizeName name) s')"
proof -
  let ?G = "ne_groupsDir E"
  obtain k f where f: "free_folder ?G (hd_folders s) (hd_agents s) (normalizeName name) = Inr (Some f)"
    "f = cand (normalizeName name) (Suc k)" "\<not> occupied ?G (hd_folders s) (hd_agents s) f"
    "\<forall>i < k. occupied ?G (hd_folders s) (hd_agents s) (cand (normalizeName name) (Suc i))"
    using free_folder_first [OF assms(1)] by metis
  obtain tok s0 where v: "isValidGroupFolder f" and c: "same_central s s0"
    and b: "creation_body E name instructions session source quietly f tok s0 = (r, s')"
    using performCreateAgent_run [OF assms(2,3) f(1)] by blast
  define g where "g = \<lparr>ag_id = ''ag-'' @ tok, ag_name = name, ag_folder = f, ag_agent_provider = None,
                 ag_created_at = se_now (he_sess (ne_host E))\<rparr>"
  have "hd_agents s' \<noteq> hd_agents s0" using assms(3) c by (simp add: same_central_def)
  note run = creation_body_run [OF b this, folded g_def]
  then have init: "(hd_folders s', hd_configs s') = initGroupFilesystem ?G (ne_defaultProvider E) (ag_created_at g) g
       (Some (parent_provider (ag_id source) s)) (hd_folders s, hd_configs s)"
    using c by (simp add: same_central_def parent_provider_def)
  then have "path_resolve ?G f \<in> set (hd_folders s')"
    by (simp add: initGroupFilesystem_def Let_def g_def make_dir_mem)
  moreover have "getContainerConfig (ag_id g) (hd_configs s) = None \<longrightarrow>
       getContainerConfig (ag_id g) (hd_configs s') =
         Some (default_config (ag_id g) (stamped_provider (map lower_char (parent_provider (ag_id source) s))) (ag_created_at g))"
    using init by (simp add: initGroupFilesystem_def Let_def ensure_config_own)
  moreover have "hd_agents s' = hd_agents s @ [g]" using run c by (simp add: same_central_def)
  ultimately show ?thesis
    using run v f by (intro exI [of _ g] exI [of _ k]) (auto simp: g_def default_config_def)
qed

theorem created_agent_is_fresh_and_linked_witness:
  "\<exists>g. ag_folder g = ''sub-agent'' \<and> isValidGroupFolder (ag_folder g) \<and>
     hd_agents (snd (performCreateAgent demo_group_env ''Sub Agent'' None demo_sender (demo_group ''a'') False demo_creator)) =
       hd_agents demo_creator @ [g]"
proof -
  let ?m = "performCreateAgent demo_group_env ''Sub Agent'' None demo_sender (demo_group ''a'') False demo_creator"
  have new: "map ag_folder (hd_agents (snd ?m)) = map ag_folder (hd_agents demo_creator) @ [''sub-agent'']"
    by code_simp
  obtain r s' where m: "?m = (r, s')" by fastforce
  have "hd_agents s' \<noteq> hd_agents demo_creator" using new m by auto
  moreover have "is_absolute (ne_groupsDir demo_group_env)" by (simp add: demo_group_env_def)
  ultimately obtain g where g: "hd_agents s' = hd_agents demo_creator @ [g]" "isValidGroupFolder (ag_folder g)"
    using created_agent_is_fresh_and_linked [OF _ m] by blast
  then have "ag_folder g = ''sub-agent''" using new m by simp
  then show ?thesis using g m by auto
qed

end
