(* ===== verification/ChannelApproval.thy ===== *)
theory ChannelApproval
  imports RouterSafety ContainerConfig
begin

text \<open>
  Registration of an unknown chat (\<open>src/modules/permissions/channel-approval.ts\<close>,
  \<open>db/pending-channel-approvals.ts\<close>, and in \<open>index.ts\<close> the click on the card, the wiring of an approved
  chat and the capture of a new agent's name).  The state adds the pending registrations, the map
  \<open>awaitingNameInput\<close>, the container configurations and the paths below \<open>GROUPS_DIR\<close> to the state of
  the router.

  Wiring a chat routes the stored event again, and the interceptor that captures a name is part of
  routing.  The routing that a handler calls is therefore an argument \<open>R\<close>; \<open>routeWithCapture\<close> ties the
  knot.
\<close>

subsection \<open>State\<close>

record pending_channel =
  pc_messaging_group_id :: string
  pc_agent_group_id :: string
  pc_original_message :: "inbound_event option"
  pc_approver_user_id :: string
  pc_created_at :: stamp
  pc_title :: string
  pc_question :: string
  pc_options_json :: js

record name_input =
  ni_channelMgId :: string
  ni_dmChannelType :: string
  ni_dmPlatformId :: string
  ni_dmInstance :: string

record reg_db =
  rd_route :: route_db
  rd_pending :: "pending_channel list"
  rd_names :: "(string \<times> name_input) list"
  rd_configs :: "container_config list"
  rd_folders :: "string list"

datatype conversation_type = DirectConversation | GroupDm | ChannelConversation

record conversation =
  cv_type :: conversation_type
  cv_name :: "string option"
  cv_participantNames :: "string list option"
  cv_participantIds :: "string list option"

text \<open>
  Of the outside: the card interceptor of a channel type, the two resolvers an adapter may have
  (\<open>None\<close> when it does not), and whether the delivery of a prompt succeeds.
\<close>

record reg_env =
  ve_route :: route_env
  ve_groupsDir :: string
  ve_defaultProvider :: string
  ve_interceptor :: "string \<Rightarrow> (messaging_group \<Rightarrow> inbound_event \<Rightarrow> (reg_db, bool) sm) option"
  ve_conversation :: "adapter \<Rightarrow> (string \<Rightarrow> conversation option res) option"
  ve_channelName :: "adapter \<Rightarrow> (string \<Rightarrow> string option res) option"
  ve_prompt_ok :: "name_input \<Rightarrow> bool"

definition on_route :: "(route_db, 'a) sm \<Rightarrow> (reg_db, 'a) sm" where
  "on_route m s = (let (r, w) = m (rd_route s) in (r, s\<lparr>rd_route := w\<rparr>))"

definition gate_of :: "reg_db \<Rightarrow> gate_db" where
  "gate_of s = rt_gate (rd_route s)"

definition reg_now :: "reg_env \<Rightarrow> stamp" where
  "reg_now E = se_now (re_sess (ve_route E))"

subsection \<open>The table\<close>

definition createPendingChannelApproval :: "pending_channel \<Rightarrow> pending_channel list \<Rightarrow> pending_channel list res" where
  "createPendingChannelApproval row rows =
     (if \<exists>r \<in> set rows. pc_messaging_group_id r = pc_messaging_group_id row then Inl UniqueViolation
      else Inr (rows @ [row]))"

definition getPendingChannelApproval :: "string \<Rightarrow> pending_channel list \<Rightarrow> pending_channel option" where
  "getPendingChannelApproval mgid rows = find (\<lambda>r. pc_messaging_group_id r = mgid) rows"

definition hasInFlightChannelApproval :: "string \<Rightarrow> pending_channel list \<Rightarrow> bool" where
  "hasInFlightChannelApproval mgid rows \<longleftrightarrow> (\<exists>r \<in> set rows. pc_messaging_group_id r = mgid)"

definition updatePendingChannelApprovalCard ::
    "string \<Rightarrow> string \<Rightarrow> string \<Rightarrow> js \<Rightarrow> pending_channel list \<Rightarrow> pending_channel list" where
  "updatePendingChannelApprovalCard mgid title question options rows =
     update_where (\<lambda>r. pc_messaging_group_id r = mgid)
       (\<lambda>r. r\<lparr>pc_title := title, pc_question := question, pc_options_json := options\<rparr>) rows"

definition deletePendingChannelApproval :: "string \<Rightarrow> pending_channel list \<Rightarrow> pending_channel list" where
  "deletePendingChannelApproval mgid rows = delete_where (\<lambda>r. pc_messaging_group_id r = mgid) rows"

definition drop_pending :: "string \<Rightarrow> (reg_db, unit) sm" where
  "drop_pending mgid = io_modify (\<lambda>s. s\<lparr>rd_pending := deletePendingChannelApproval mgid (rd_pending s)\<rparr>)"

subsection \<open>The card\<close>

definition CONNECT_PREFIX :: string where "CONNECT_PREFIX = ''connect:''"
definition NEW_AGENT_VALUE :: string where "NEW_AGENT_VALUE = ''new_agent''"
definition CHOOSE_EXISTING_VALUE :: string where "CHOOSE_EXISTING_VALUE = ''choose_existing''"
definition REJECT_VALUE :: string where "REJECT_VALUE = ''reject''"

definition toFolder :: "string \<Rightarrow> string" where
  "toFolder name = (let s = trim_dashes (squeeze False (map lower_char name)) in if s = [] then ''unnamed'' else s)"

definition check_mark :: string where "check_mark = [CHR 0xE2, CHR 0x9C, CHR 0x85]"
definition clipboard :: string where "clipboard = [CHR 0xF0, CHR 0x9F, CHR 0x93, CHR 0x8B]"
definition no_good :: string where "no_good = [CHR 0xF0, CHR 0x9F, CHR 0x99, CHR 0x85]"
definition ellipsis :: string where "ellipsis = [CHR 0xE2, CHR 0x80, CHR 0xA6]"

definition visibleAgentGroupsForApprover :: "perm_db \<Rightarrow> agent_group list \<Rightarrow> string \<Rightarrow> agent_group list" where
  "visibleAgentGroupsForApprover db groups approver =
     (if approver = [] then groups else filter (\<lambda>g. hasAdminPrivilege db approver (ag_id g)) groups)"

definition connect_option :: "string \<Rightarrow> agent_group \<Rightarrow> string option \<Rightarrow> raw_option" where
  "connect_option label g sty =
     Opt label (Some (check_mark @ '' Connected to '' @ ag_name g)) (Some (CONNECT_PREFIX @ ag_id g)) sty"

definition buildApprovalOptions :: "perm_db \<Rightarrow> agent_group list \<Rightarrow> string \<Rightarrow> raw_option list" where
  "buildApprovalOptions db groups approver =
     (case visibleAgentGroupsForApprover db groups approver of
        [] \<Rightarrow> []
      | [g] \<Rightarrow> [connect_option (''Connect to '' @ ag_name g) g (Some ''primary'')]
      | _ \<Rightarrow> [Opt ''Choose existing agent'' (Some (clipboard @ '' Choosing'' @ ellipsis)) (Some CHOOSE_EXISTING_VALUE) None]) @
     [Opt ''Connect new agent'' (Some ([CHR 0xF0, CHR 0x9F, CHR 0x86, CHR 0x95] @ '' Connecting new agent'' @ ellipsis))
        (Some NEW_AGENT_VALUE) None,
      Opt ''Reject'' (Some (no_good @ '' Rejected'')) (Some REJECT_VALUE) (Some ''danger'')]"

definition buildAgentSelectionOptions :: "perm_db \<Rightarrow> agent_group list \<Rightarrow> string \<Rightarrow> js" where
  "buildAgentSelectionOptions db groups approver =
     normalizeOptions (map (\<lambda>g. connect_option (ag_name g) g None) (visibleAgentGroupsForApprover db groups approver) @
       [Opt ''Cancel'' (Some (no_good @ '' Cancelled'')) (Some REJECT_VALUE) None])"

definition formatParticipantList :: "string list \<Rightarrow> string" where
  "formatParticipantList names =
     (case names of
        [] \<Rightarrow> []
      | [a] \<Rightarrow> a
      | [a, b] \<Rightarrow> a @ '' and '' @ b
      | _ \<Rightarrow> js_join '', '' (butlast names) @ '', and '' @ last names)"

text \<open>The sender's name and id are what the message holds, text or not.\<close>

definition by_sender_name :: "js \<Rightarrow> string list \<Rightarrow> string list res" where
  "by_sender_name senderName names =
     (if js_nullish senderName \<or> names = [] then Inr names
      else case senderName of
             JStr n \<Rightarrow> Inr (filter (\<lambda>x. map lower_char x \<noteq> map lower_char n) names)
           | _ \<Rightarrow> Inl TypeError)"

definition other_participants :: "js \<Rightarrow> js \<Rightarrow> conversation option \<Rightarrow> string list res" where
  "other_participants senderName senderId cv =
     (let names = (case cv of Some c \<Rightarrow> (case cv_participantNames c of Some ns \<Rightarrow> ns | None \<Rightarrow> []) | None \<Rightarrow> []);
          ids = (case cv of Some c \<Rightarrow> cv_participantIds c | None \<Rightarrow> None)
      in case ids of
           Some is \<Rightarrow>
             if js_truthy senderId \<and> length is = length names
             then Inr (map fst (filter (\<lambda>(n, i). JStr i \<noteq> senderId) (zip names is)))
             else by_sender_name senderName names
         | None \<Rightarrow> by_sender_name senderName names)"

definition buildQuestionText ::
    "conversation_type \<Rightarrow> js \<Rightarrow> js \<Rightarrow> string option \<Rightarrow> string \<Rightarrow> string option \<Rightarrow> conversation option \<Rightarrow> string res" where
  "buildQuestionText ty senderName senderId channelName channelType ruleNote cv =
     (let who = (if js_nullish senderName then ''Someone'' else js_to_string senderName);
          note = (case ruleNote of Some n \<Rightarrow> if n = [] then [] else '' If connected, the agent '' @ n @ ''.'' | None \<Rightarrow> [])
      in case ty of
           ChannelConversation \<Rightarrow>
             (let place = (case channelName of
                   Some n \<Rightarrow> if n = [] then ''a '' @ channelType @ '' channel'' else n @ '' on '' @ channelType
                 | None \<Rightarrow> ''a '' @ channelType @ '' channel'')
              in Inr (who @ '' mentioned your bot in '' @ place @ ''.'' @ note @ '' '' @ AGENT_ACCESS_SCOPE_WARNING @
                      '' How would you like to handle this channel?''))
         | GroupDm \<Rightarrow>
             bnd (other_participants senderName senderId cv) (\<lambda>others.
               let participants = formatParticipantList others;
                   withParticipants = (if participants = [] then [] else '' with '' @ participants)
               in Inr (who @ '' mentioned your bot in a group chat'' @ withParticipants @ '' on '' @ channelType @ ''.'' @
                       note @ '' '' @ AGENT_ACCESS_SCOPE_WARNING @ '' How would you like to handle this group chat?''))
         | DirectConversation \<Rightarrow>
             Inr (who @ '' sent your bot a DM on '' @ channelType @ ''.'' @ note @ '' '' @ AGENT_ACCESS_SCOPE_WARNING @
                  '' How would you like to handle it?''))"

definition describeResolvedRule :: "registry \<Rightarrow> string \<Rightarrow> bool \<Rightarrow> string \<Rightarrow> string \<Rightarrow> string option" where
  "describeResolvedRule rg channelKey isGroup agentName channelType =
     (case resolveWiringDefaults rg channelKey isGroup agentName (Some channelType) of
        Inl _ \<Rightarrow> None
      | Inr e \<Rightarrow>
          if wd_engage_mode e \<noteq> Pattern
          then Some (if isGroup then ''will respond to @-mentions in this group'' else ''will respond to @-mentions'')
          else (case wd_engage_pattern e of
                  Some p \<Rightarrow> if p = ''.'' then Some ''will respond to all messages''
                            else Some (''will respond to messages matching '' @ p)
                | None \<Rightarrow> Some ''will respond to messages matching null''))"

definition card_title :: "conversation_type \<Rightarrow> string" where
  "card_title ty =
     (case ty of
        ChannelConversation \<Rightarrow> [CHR 0xF0, CHR 0x9F, CHR 0x93, CHR 0xA3] @ '' Bot mentioned in new channel''
      | GroupDm \<Rightarrow> [CHR 0xF0, CHR 0x9F, CHR 0x91, CHR 0xA5] @ '' Bot mentioned in new group chat''
      | DirectConversation \<Rightarrow> [CHR 0xF0, CHR 0x9F, CHR 0x92, CHR 0xAC] @ '' New direct message'')"

subsection \<open>Asking for a registration\<close>

definition rename_chat :: "string \<Rightarrow> string \<Rightarrow> chat_db \<Rightarrow> chat_db" where
  "rename_chat i name db = db\<lparr>cd_groups := update_where (\<lambda>g. mg_id g = i) (\<lambda>g. g\<lparr>mg_name := Some name\<rparr>) (cd_groups db)\<rparr>"

definition on_gate_db :: "(gate_db \<Rightarrow> gate_db) \<Rightarrow> (reg_db, unit) sm" where
  "on_gate_db f = on_route (on_gate f)"

definition set_chat_name :: "string \<Rightarrow> string \<Rightarrow> (reg_db, unit) sm" where
  "set_chat_name i name = on_gate_db (\<lambda>db. db\<lparr>gd_chat := rename_chat i name (gd_chat db)\<rparr>)"

definition named :: "messaging_group \<Rightarrow> bool" where
  "named mg = (case mg_name mg of Some n \<Rightarrow> n \<noteq> [] | None \<Rightarrow> False)"

text \<open>The conversation, and the chat with the name the adapter knows.\<close>

definition resolve_chat ::
    "reg_env \<Rightarrow> messaging_group \<Rightarrow> (reg_db, conversation option \<times> messaging_group) sm" where
  "resolve_chat E mg =
     (case getChannelAdapter (re_registry (ve_route E)) (mg_instance mg) of
        None \<Rightarrow> io_return (None, mg)
      | Some a \<Rightarrow>
         io_bind (case (case ve_conversation E a of None \<Rightarrow> Inr None | Some f \<Rightarrow> f (mg_platform_id mg)) of
             Inr (Some c) \<Rightarrow>
               (case cv_name c of
                  Some n \<Rightarrow> if n \<noteq> [] \<and> \<not> named mg
                            then io_bind (set_chat_name (mg_id mg) n) (\<lambda>_. io_return (Some c, mg\<lparr>mg_name := Some n\<rparr>))
                            else io_return (Some c, mg)
                | None \<Rightarrow> io_return (Some c, mg))
           | _ \<Rightarrow> io_return (None, mg)) (\<lambda>(cv, mg1).
         if named mg1 then io_return (cv, mg1)
         else case (case ve_channelName E a of None \<Rightarrow> Inr None | Some f \<Rightarrow> f (mg_platform_id mg1)) of
                Inr (Some n) \<Rightarrow>
                  if n \<noteq> [] then io_bind (set_chat_name (mg_id mg1) n) (\<lambda>_. io_return (cv, mg1\<lparr>mg_name := Some n\<rparr>))
                  else io_return (cv, mg1)
              | _ \<Rightarrow> io_return (cv, mg1)))"

text \<open>The sender's name and id as far as the message can be read.\<close>

definition sender_of :: "jtext \<Rightarrow> js \<times> js" where
  "sender_of content =
     (case bnd (json_parse content) (\<lambda>v. bnd (js_get v ''senderName'') (\<lambda>n. bnd (js_get v ''sender'') (\<lambda>s.
             bnd (js_get v ''senderId'') (\<lambda>i. Inr (js_coalesce n s, i))))) of
        Inr p \<Rightarrow> p | Inl _ \<Rightarrow> (JUndefined, JUndefined))"

definition default_type :: "bool \<Rightarrow> conversation_type" where
  "default_type isGroup = (if isGroup then ChannelConversation else DirectConversation)"

definition event_is_group :: "inbound_event \<Rightarrow> messaging_group option \<Rightarrow> bool" where
  "event_is_group ev mg =
     (case im_isGroup (ie_message ev) of
        Some b \<Rightarrow> b | None \<Rightarrow> (case mg of Some g \<Rightarrow> mg_is_group g | None \<Rightarrow> False))"

definition send_event :: "reg_env \<Rightarrow> outgoing \<Rightarrow> (reg_db, unit) sm" where
  "send_event E og = (if re_delivery (ve_route E) then on_route (log_event (Sent og)) else io_return ())"

definition insert_pending :: "pending_channel \<Rightarrow> (reg_db, unit) sm" where
  "insert_pending row s =
     (case createPendingChannelApproval row (rd_pending s) of
        Inl e \<Rightarrow> (Inl e, s) | Inr rows \<Rightarrow> (Inr (), s\<lparr>rd_pending := rows\<rparr>))"

text \<open>The card once its approver is known.\<close>

definition send_channel_card ::
    "reg_env \<Rightarrow> string \<Rightarrow> inbound_event \<Rightarrow> messaging_group option \<Rightarrow> conversation option \<Rightarrow> agent_group \<Rightarrow> agent_group list
       \<Rightarrow> string \<Rightarrow> messaging_group \<Rightarrow> (reg_db, unit) sm" where
  "send_channel_card E mgid ev origin cv reference groups approver target =
     (let isGroup = event_is_group ev origin;
          originType = (case origin of Some g \<Rightarrow> mg_channel_type g | None \<Rightarrow> []);
          (senderName, senderId) = sender_of (im_content (ie_message ev));
          ty = (case cv of Some c \<Rightarrow> cv_type c | None \<Rightarrow> default_type isGroup);
          ruleNote = describeResolvedRule (re_registry (ve_route E))
                       (case origin of Some g \<Rightarrow> mg_instance g | None \<Rightarrow> originType) isGroup (ag_name reference) originType
      in io_bind (lift_res (buildQuestionText ty senderName senderId (case origin of Some g \<Rightarrow> mg_name g | None \<Rightarrow> None)
                              originType ruleNote cv)) (\<lambda>question.
         io_bind (io_get (\<lambda>s. normalizeOptions (buildApprovalOptions (gd_perm (gate_of s)) groups approver))) (\<lambda>options.
         io_bind (insert_pending
            \<lparr>pc_messaging_group_id = mgid, pc_agent_group_id = ag_id reference, pc_original_message = Some ev,
             pc_approver_user_id = approver, pc_created_at = reg_now E, pc_title = card_title ty, pc_question = question,
             pc_options_json = options\<rparr>) (\<lambda>_.
         send_event E (to_chat target (ask_question mgid (card_title ty) question options))))))"

definition run_card_interceptor :: "reg_env \<Rightarrow> messaging_group option \<Rightarrow> inbound_event \<Rightarrow> (reg_db, bool) sm" where
  "run_card_interceptor E origin ev =
     (case origin of
        None \<Rightarrow> io_return False
      | Some mg \<Rightarrow> (case ve_interceptor E (mg_channel_type mg) of
          None \<Rightarrow> io_return False
        | Some f \<Rightarrow> io_catch (f mg ev) (\<lambda>_. io_return False)))"

definition pick_delivery ::
    "reg_env \<Rightarrow> string list \<Rightarrow> string \<Rightarrow> string option \<Rightarrow> string \<Rightarrow> (reg_db, (string \<times> messaging_group) option) sm" where
  "pick_delivery E approvers originType inst tok =
     on_route (gate_step (\<lambda>db.
       bnd (pickApprovalDelivery (re_registry (ve_route E)) (reg_now E) (re_flow_ids (ve_route E) tok) approvers originType
              inst (gd_perm db) (gd_chat db)) (\<lambda>(r, chat). Inr (r, db\<lparr>gd_chat := chat\<rparr>, []))))"

definition requestChannelApproval :: "reg_env \<Rightarrow> string \<Rightarrow> inbound_event \<Rightarrow> (reg_db, unit) sm" where
  "requestChannelApproval E mgid ev =
     io_bind (io_get (\<lambda>s. hasInFlightChannelApproval mgid (rd_pending s))) (\<lambda>busy.
     if busy then io_return ()
     else io_bind (io_get (\<lambda>s. getMessagingGroup mgid (gd_chat (gate_of s)))) (\<lambda>origin.
     io_bind (run_card_interceptor E origin ev) (\<lambda>handled.
     if handled then io_return ()
     else io_bind (io_get (\<lambda>s. getAllAgentGroups (gd_agents (gate_of s)))) (\<lambda>groups. case groups of
       [] \<Rightarrow> io_return ()
     | reference # _ \<Rightarrow>
         io_bind (io_get (\<lambda>s. pickApprover (gd_perm (gate_of s)) (Some (ag_id reference)))) (\<lambda>approvers.
         if approvers = [] then io_return ()
         else io_bind (case origin of None \<Rightarrow> io_return (None, None)
                | Some mg \<Rightarrow> io_bind (resolve_chat E mg) (\<lambda>(cv, mg1). io_return (cv, Some mg1))) (\<lambda>(cv, origin1).
              io_bind (on_route draw) (\<lambda>tok.
              io_bind (pick_delivery E approvers (case origin1 of Some g \<Rightarrow> mg_channel_type g | None \<Rightarrow> [])
                         (map_option mg_instance origin1) tok) (\<lambda>delivery. case delivery of
                None \<Rightarrow> io_return ()
              | Some (approver, target) \<Rightarrow> send_channel_card E mgid ev origin1 cv reference groups approver target))))))))"

subsection \<open>A new agent\<close>

definition createNewAgentGroup :: "reg_env \<Rightarrow> string \<Rightarrow> (reg_db, agent_group) sm" where
  "createNewAgentGroup E name =
     io_bind (io_get (\<lambda>s. free_folder (ve_groupsDir E) (rd_folders s) (gd_agents (gate_of s)) (toFolder name))) (\<lambda>free.
     case free of
       Inl e \<Rightarrow> io_throw e
     | Inr None \<Rightarrow> io_throw (Error ''no free folder'')
     | Inr (Some folder) \<Rightarrow>
         io_bind (on_route draw) (\<lambda>tok.
           let g = \<lparr>ag_id = ''ag-'' @ tok, ag_name = name, ag_folder = folder, ag_agent_provider = None,
                    ag_created_at = reg_now E\<rparr>
           in io_bind (on_route (gate_step (\<lambda>db. bnd (createAgentGroup g (gd_agents db)) (\<lambda>rows. Inr ((), db\<lparr>gd_agents := rows\<rparr>, [])))))
                (\<lambda>_.
              io_bind (io_modify (\<lambda>s.
                 let (folders, configs) = initGroupFilesystem (ve_groupsDir E) (ve_defaultProvider E) (reg_now E) g None
                                            (rd_folders s, rd_configs s)
                 in s\<lparr>rd_folders := folders, rd_configs := configs\<rparr>)) (\<lambda>_. io_return g))))"

subsection \<open>Wiring an approved chat\<close>

definition approved_wiring :: "string \<Rightarrow> string \<Rightarrow> string \<Rightarrow> wiring_defaults \<Rightarrow> stamp \<Rightarrow> messaging_group_agent" where
  "approved_wiring i mgid ag wd now =
     \<lparr>ma_id = i, ma_messaging_group_id = mgid, ma_agent_group_id = ag, ma_engage_mode = wd_engage_mode wd,
      ma_engage_pattern = wd_engage_pattern wd, ma_sender_scope = KnownSenders, ma_ignored_message_policy = Accumulate,
      ma_session_mode = Shared, ma_priority = 0, ma_threads = None, ma_created_at = now\<rparr>"

definition extract_sender :: "reg_env \<Rightarrow> inbound_event \<Rightarrow> (reg_db, string option) sm" where
  "extract_sender E ev = on_route (resolve_sender (ve_route E) ev)"

definition insert_wiring :: "messaging_group_agent \<Rightarrow> (reg_db, unit) sm" where
  "insert_wiring w =
     on_route (gate_step (\<lambda>db. bnd (createMessagingGroupAgent w (gd_chat db)) (\<lambda>chat. Inr ((), db\<lparr>gd_chat := chat\<rparr>, []))))"

definition admit_sender :: "reg_env \<Rightarrow> string option \<Rightarrow> string \<Rightarrow> string \<Rightarrow> (reg_db, unit) sm" where
  "admit_sender E sender ag approver =
     (case sender of
        Some u \<Rightarrow>
          if u = [] then io_return ()
          else on_gate_db (\<lambda>db. db\<lparr>gd_perm := addMember \<lparr>gm_user_id = u, gm_agent_group_id = ag,
                              gm_added_by = Some approver, gm_added_at = reg_now E\<rparr> (gd_perm db)\<rparr>)
      | None \<Rightarrow> io_return ())"

text \<open>Everything before the stored event is routed again; \<open>None\<close> when no wiring was made.\<close>

definition wire_row :: "reg_env \<Rightarrow> pending_channel \<Rightarrow> string \<Rightarrow> string \<Rightarrow> (reg_db, inbound_event option) sm" where
  "wire_row E row ag approver =
     (let mgid = pc_messaging_group_id row in
      case pc_original_message row of
        None \<Rightarrow> io_bind (drop_pending mgid) (\<lambda>_. io_return None)
      | Some ev \<Rightarrow>
          io_bind (io_get (\<lambda>s. getMessagingGroup mgid (gd_chat (gate_of s)))) (\<lambda>mg.
          io_bind (io_get (\<lambda>s. case getAgentGroup ag (gd_agents (gate_of s)) of Some g \<Rightarrow> ag_name g | None \<Rightarrow> [])) (\<lambda>name.
          case resolveWiringDefaults (re_registry (ve_route E)) (case mg of Some g \<Rightarrow> mg_instance g | None \<Rightarrow> ie_channelType ev)
                 (event_is_group ev mg) name (Some (case mg of Some g \<Rightarrow> mg_channel_type g | None \<Rightarrow> ie_channelType ev)) of
            Inl _ \<Rightarrow> io_bind (drop_pending mgid) (\<lambda>_. io_return None)
          | Inr wd \<Rightarrow>
              io_bind (on_route draw) (\<lambda>tok.
              io_bind (insert_wiring (approved_wiring (''mga-'' @ tok) mgid ag wd (reg_now E))) (\<lambda>_.
              io_bind (extract_sender E ev) (\<lambda>sender.
              io_bind (admit_sender E sender ag approver) (\<lambda>_.
              io_bind (drop_pending mgid) (\<lambda>_. io_return (Some ev)))))))))"

definition wireApprovedChannel ::
    "(inbound_event \<Rightarrow> (reg_db, unit) sm) \<Rightarrow> reg_env \<Rightarrow> pending_channel \<Rightarrow> string \<Rightarrow> string \<Rightarrow> (reg_db, bool) sm" where
  "wireApprovedChannel R E row ag approver =
     io_bind (wire_row E row ag approver) (\<lambda>wired. case wired of
       None \<Rightarrow> io_return False
     | Some ev \<Rightarrow> io_bind (io_catch (R ev) (\<lambda>_. io_return ())) (\<lambda>_. io_return True))"

subsection \<open>The click\<close>

definition channels_decide :: "reg_db \<Rightarrow> guard_input \<Rightarrow> guard_decision res" where
  "channels_decide s inp =
     (case gi_actor inp of
        HumanActor u \<Rightarrow>
          (let questionId = (case own (gi_payload inp) ''questionId'' of JStr q \<Rightarrow> q | _ \<Rightarrow> [])
           in case getPendingChannelApproval questionId (rd_pending s) of
                None \<Rightarrow> Inr (DENY (''no pending channel registration for '' @
                                    (if questionId = [] then ''(missing questionId)'' else questionId)))
              | Some row \<Rightarrow>
                  if u \<noteq> [] \<and> (u = pc_approver_user_id row \<or> hasAdminPrivilege (gd_perm (gate_of s)) u (pc_agent_group_id row))
                  then Inr (ALLOW ''delivered approver or anchor-group admin'')
                  else Inr (DENY ''not an eligible channel-registration approver''))
      | _ \<Rightarrow> Inr (DENY ''channel registration resolves via human clicks/replies''))"

definition channelsRegister :: "reg_db guarded_action_spec" where
  "channelsRegister = \<lparr>ga_action = ''channels.register'', ga_decide = channels_decide, ga_grantActionName = None,
     ga_grantCoversRequest = None\<rparr>"

definition register_input :: "string \<Rightarrow> string option \<Rightarrow> guard_input" where
  "register_input questionId c =
     \<lparr>gi_actor = HumanActor (case c of Some u \<Rightarrow> u | None \<Rightarrow> []), gi_resource = (\<lambda>_. None),
      gi_payload = [(''questionId'', JStr questionId)], gi_grant = None\<rparr>"

text \<open>The approver's direct chat, through the instance of the chat in question when it is the same channel.\<close>

definition approver_dm :: "reg_env \<Rightarrow> response_payload \<Rightarrow> pending_channel \<Rightarrow> (reg_db, messaging_group option) sm" where
  "approver_dm E p row =
     io_bind (io_get (\<lambda>s. getMessagingGroup (pc_messaging_group_id row) (gd_chat (gate_of s)))) (\<lambda>origin.
     io_bind (on_route draw) (\<lambda>tok.
       on_route (gate_step (\<lambda>db.
         bnd (ensureUserDm (re_registry (ve_route E)) (reg_now E) (''mg-'' @ tok) (pc_approver_user_id row)
                (case origin of Some g \<Rightarrow> if rp_channelType p = mg_channel_type g then Some (mg_instance g) else None
                              | None \<Rightarrow> None)
                (gd_perm db) (gd_chat db))
           (\<lambda>(mg, chat). Inr (mg, db\<lparr>gd_chat := chat\<rparr>, []))))))"

definition choose_title :: string where
  "choose_title = clipboard @ '' Choose an agent''"

definition choose_question :: string where
  "choose_question = ''Which agent should handle this channel? '' @ AGENT_ACCESS_SCOPE_WARNING"

definition choose_existing :: "reg_env \<Rightarrow> response_payload \<Rightarrow> pending_channel \<Rightarrow> string \<Rightarrow> (reg_db, unit) sm" where
  "choose_existing E p row approver =
     io_bind (approver_dm E p row) (\<lambda>dm. case dm of
       None \<Rightarrow> io_return ()
     | Some target \<Rightarrow>
         if \<not> re_delivery (ve_route E) then io_return ()
         else io_bind (io_get (\<lambda>s. buildAgentSelectionOptions (gd_perm (gate_of s))
                                     (getAllAgentGroups (gd_agents (gate_of s))) approver)) (\<lambda>options.
              io_bind (io_modify (\<lambda>s. s\<lparr>rd_pending := updatePendingChannelApprovalCard (pc_messaging_group_id row)
                                          choose_title choose_question options (rd_pending s)\<rparr>)) (\<lambda>_.
                send_event E (to_chat target
                  (ask_question (pc_messaging_group_id row) choose_title choose_question options)))))"

definition name_prompt :: js where
  "name_prompt = text_content ''Reply with the name for your new agent:''"

definition ask_for_name :: "reg_env \<Rightarrow> response_payload \<Rightarrow> pending_channel \<Rightarrow> (reg_db, unit) sm" where
  "ask_for_name E p row =
     io_bind (approver_dm E p row) (\<lambda>dm. case dm of
       None \<Rightarrow> io_return ()
     | Some target \<Rightarrow>
         if \<not> re_delivery (ve_route E) then io_return ()
         else (let ni = \<lparr>ni_channelMgId = pc_messaging_group_id row, ni_dmChannelType = mg_channel_type target,
                         ni_dmPlatformId = mg_platform_id target, ni_dmInstance = mg_instance target\<rparr>
               in io_bind (io_modify (\<lambda>s. s\<lparr>rd_names := map_set (pc_approver_user_id row) ni (rd_names s)\<rparr>)) (\<lambda>_.
                  io_bind (send_event E (to_chat target name_prompt)) (\<lambda>_.
                    if ve_prompt_ok E ni then io_return ()
                    else io_modify (\<lambda>s. s\<lparr>rd_names := map_delete (pc_approver_user_id row) (rd_names s)\<rparr>)))))"

definition reject_channel :: "reg_env \<Rightarrow> pending_channel \<Rightarrow> (reg_db, unit) sm" where
  "reject_channel E row =
     io_bind (on_gate_db (\<lambda>db. db\<lparr>gd_chat := setMessagingGroupDeniedAt (pc_messaging_group_id row) (Some (reg_now E)) (gd_chat db)\<rparr>))
       (\<lambda>_. drop_pending (pc_messaging_group_id row))"

definition connect_channel ::
    "(inbound_event \<Rightarrow> (reg_db, unit) sm) \<Rightarrow> reg_env \<Rightarrow> pending_channel \<Rightarrow> string \<Rightarrow> string \<Rightarrow> (reg_db, unit) sm" where
  "connect_channel R E row target approver =
     io_bind (io_get (\<lambda>s. getAgentGroup target (gd_agents (gate_of s)))) (\<lambda>g.
     if g = None then drop_pending (pc_messaging_group_id row)
     else io_bind (io_get (\<lambda>s. hasAdminPrivilege (gd_perm (gate_of s)) approver target)) (\<lambda>ok.
       if \<not> ok then io_return ()
       else io_bind (wireApprovedChannel R E row target approver) (\<lambda>_. io_return ())))"

definition handleChannelApprovalResponse ::
    "(inbound_event \<Rightarrow> (reg_db, unit) sm) \<Rightarrow> reg_env \<Rightarrow> response_payload \<Rightarrow> (reg_db, bool) sm" where
  "handleChannelApprovalResponse R E p =
     io_bind (io_get (\<lambda>s. getPendingChannelApproval (rp_questionId p) (rd_pending s))) (\<lambda>found. case found of
       None \<Rightarrow> io_return False
     | Some row \<Rightarrow>
         io_bind (io_get (\<lambda>s. consult (\<lambda>_. None) s channelsRegister (register_input (rp_questionId p) (clicker p)))) (\<lambda>d.
         case d of
           Inl e \<Rightarrow> io_throw e
         | Inr decision \<Rightarrow> (case clicker p of
             None \<Rightarrow> io_return True
           | Some approver \<Rightarrow>
               if effect_of decision \<noteq> Allow then io_return True
               else io_bind
                 (if rp_value p = REJECT_VALUE then reject_channel E row
                  else if rp_value p = CHOOSE_EXISTING_VALUE then choose_existing E p row approver
                  else if rp_value p = NEW_AGENT_VALUE then ask_for_name E p row
                  else if prefix CONNECT_PREFIX (rp_value p)
                  then connect_channel R E row (drop (length CONNECT_PREFIX) (rp_value p)) approver
                  else io_return ()) (\<lambda>_. io_return True))))"

subsection \<open>The name of a new agent\<close>

definition reply_text :: "jtext \<Rightarrow> string" where
  "reply_text content =
     (case bnd (json_parse content) (\<lambda>v. js_get v ''text'') of Inr (JStr t) \<Rightarrow> js_trim t | _ \<Rightarrow> [])"

definition meant_here :: "inbound_event \<Rightarrow> name_input \<Rightarrow> bool" where
  "meant_here ev ni \<longleftrightarrow> ie_channelType ev = ni_dmChannelType ni \<and> ie_platformId ev = ni_dmPlatformId ni \<and>
     instance_key ev = ni_dmInstance ni"

definition created_note :: "bool \<Rightarrow> string \<Rightarrow> js" where
  "created_note wired name = text_content
     (if wired then check_mark @ '' Agent \"'' @ name @ ''\" created and connected.''
      else [CHR 0xE2, CHR 0x9A, CHR 0xA0, CHR 0xEF, CHR 0xB8, CHR 0x8F] @ '' Agent \"'' @ name @
           ''\" was created but the channel couldn't be connected '' @ emdash @ '' check the host logs.'')"

definition create_and_wire ::
    "(inbound_event \<Rightarrow> (reg_db, unit) sm) \<Rightarrow> reg_env \<Rightarrow> inbound_event \<Rightarrow> string \<Rightarrow> name_input \<Rightarrow> (reg_db, unit) sm" where
  "create_and_wire R E ev uid ni =
     (let t = reply_text (im_content (ie_message ev)) in
      if t = [] then io_return ()
      else io_bind (io_get (\<lambda>s. getPendingChannelApproval (ni_channelMgId ni) (rd_pending s))) (\<lambda>found. case found of
        None \<Rightarrow> io_return ()
      | Some row \<Rightarrow>
          io_bind (createNewAgentGroup E t) (\<lambda>g.
          io_bind (wireApprovedChannel R E row (ag_id g) uid) (\<lambda>wired.
            send_event E \<lparr>og_channelType = ie_channelType ev, og_platformId = ie_platformId ev, og_instance = ie_instance ev,
                          og_content = created_note wired (ag_name g)\<rparr>))))"

definition captureName ::
    "(inbound_event \<Rightarrow> (reg_db, unit) sm) \<Rightarrow> reg_env \<Rightarrow> inbound_event \<Rightarrow> (reg_db, bool) sm" where
  "captureName R E ev =
     io_bind (extract_sender E ev) (\<lambda>sender. case sender of
       None \<Rightarrow> io_return False
     | Some uid \<Rightarrow>
         io_bind (io_get (\<lambda>s. map_of (rd_names s) uid)) (\<lambda>pending. case pending of
           None \<Rightarrow> io_return False
         | Some ni \<Rightarrow>
             if \<not> meant_here ev ni then io_return False
             else io_bind (io_modify (\<lambda>s. s\<lparr>rd_names := map_delete uid (rd_names s)\<rparr>)) (\<lambda>_.
                  io_bind (create_and_wire R E ev uid ni) (\<lambda>_. io_return True))))"

subsection \<open>Routing with the capture and the registration\<close>

definition requests_in :: "route_event list \<Rightarrow> string list" where
  "requests_in l = concat (map (\<lambda>e. case e of ChannelRequested i \<Rightarrow> [i] | _ \<Rightarrow> []) l)"

fun request_each :: "reg_env \<Rightarrow> inbound_event \<Rightarrow> string list \<Rightarrow> (reg_db, unit) sm" where
  "request_each E ev [] = io_return ()"
| "request_each E ev (i # is) =
     io_bind (io_catch (requestChannelApproval E i ev) (\<lambda>_. io_return ())) (\<lambda>_. request_each E ev is)"

text \<open>
  The interceptors registered before the capture are those of the environment.  The registration of a
  chat is started last by the router and not awaited.
\<close>

definition route_rest :: "reg_env \<Rightarrow> inbound_event \<Rightarrow> (reg_db, unit) sm" where
  "route_rest E ev =
     io_bind (io_get (\<lambda>s. length (rt_log (rd_route s)))) (\<lambda>n.
     io_bind (on_route (routeInbound ((ve_route E)\<lparr>re_interceptors := []\<rparr>) ev)) (\<lambda>_.
     io_bind (io_get (\<lambda>s. requests_in (drop n (rt_log (rd_route s))))) (\<lambda>ids.
       request_each E (drop_thread (getChannelAdapter (re_registry (ve_route E)) (instance_key ev)) ev) ids)))"

fun route_rounds :: "nat \<Rightarrow> reg_env \<Rightarrow> inbound_event \<Rightarrow> (reg_db, unit) sm" where
  "route_rounds 0 E ev = io_throw (Error ''no rounds left'')"
| "route_rounds (Suc n) E ev =
     io_bind (on_route (run_interceptors (re_interceptors (ve_route E)) ev)) (\<lambda>claimed.
     if claimed then io_return ()
     else io_bind (captureName (route_rounds n E) E ev) (\<lambda>captured.
       if captured then io_return () else route_rest E ev))"

text \<open>A round uses up a name that is awaited, so their number is enough (\<open>route_rounds_enough\<close>).\<close>

definition routeWithCapture :: "reg_env \<Rightarrow> inbound_event \<Rightarrow> (reg_db, unit) sm" where
  "routeWithCapture E ev s = route_rounds (Suc (length (rd_names s))) E ev s"

subsection \<open>The rounds suffice\<close>

definition same_names :: "reg_db \<Rightarrow> reg_db \<Rightarrow> bool" where
  "same_names s s' \<longleftrightarrow> rd_names s' = rd_names s"

lemma names_rel: "reflp same_names" "transp same_names"
  by (auto simp: reflp_def transp_def same_names_def)

lemma names_kept [keeps_intros]:
  "keeps same_names (on_route m)" "keeps same_names (drop_pending i)" "keeps same_names (on_gate_db f)"
  "keeps same_names (extract_sender E ev)" "keeps same_names (insert_wiring w)" "keeps same_names (admit_sender E sender ag approver)"
  "keeps same_names (io_modify (\<lambda>s. s\<lparr>rd_folders := f1 s, rd_configs := g1 s\<rparr>))"
  by (auto simp: keeps_def same_names_def on_route_def drop_pending_def on_gate_db_def extract_sender_def
        insert_wiring_def admit_sender_def io_return_def split: prod.split option.split)

lemma names_created: "keeps same_names (createNewAgentGroup E name)"
proof -
  have "keeps same_names (io_modify (\<lambda>s. let (folders, configs) = f s in s\<lparr>rd_folders := folders, rd_configs := configs\<rparr>))" for f
    by (auto simp: keeps_def same_names_def split: prod.split)
  then show ?thesis
    unfolding createNewAgentGroup_def Let_def
    by (auto intro!: keeps_intros names_rel split: sum.split option.split)
qed

lemma names_wired: "keeps same_names (wire_row E row ag approver)"
  unfolding wire_row_def Let_def
  by (auto intro!: keeps_intros names_rel split: sum.split option.split)

lemma bind_cong: "(\<And>x w. m s = (Inr x, w) \<Longrightarrow> f x w = g x w) \<Longrightarrow> io_bind m f s = io_bind m g s"
  by (auto simp: io_bind_def split: prod.split sum.split)

lemma wire_cong:
  assumes "\<And>ev w. length (rd_names w) \<le> k \<Longrightarrow> R ev w = R' ev w" "length (rd_names s) \<le> k"
  shows "wireApprovedChannel R E row ag approver s = wireApprovedChannel R' E row ag approver s"
  unfolding wireApprovedChannel_def
proof (rule bind_cong)
  fix x w assume "wire_row E row ag approver s = (Inr x, w)"
  then have "length (rd_names w) \<le> k" using keepsD [OF names_wired] assms(2) by (fastforce simp: same_names_def)
  then show "(case x of None \<Rightarrow> io_return False | Some ev \<Rightarrow> io_bind (io_catch (R ev) (\<lambda>_. io_return ())) (\<lambda>_. io_return True)) w =
      (case x of None \<Rightarrow> io_return False | Some ev \<Rightarrow> io_bind (io_catch (R' ev) (\<lambda>_. io_return ())) (\<lambda>_. io_return True)) w"
    using assms(1) by (simp add: io_bind_def io_catch_def split: option.split)
qed

lemma create_and_wire_cong:
  assumes "\<And>ev w. length (rd_names w) \<le> k \<Longrightarrow> R ev w = R' ev w" "length (rd_names s) \<le> k"
  shows "create_and_wire R E ev uid ni s = create_and_wire R' E ev uid ni s"
proof -
  have step: "io_bind (createNewAgentGroup E t) (\<lambda>g. io_bind (wireApprovedChannel R E row (ag_id g) uid) (f g)) s =
      io_bind (createNewAgentGroup E t) (\<lambda>g. io_bind (wireApprovedChannel R' E row (ag_id g) uid) (f g)) s" for t row f
  proof (rule bind_cong)
    fix g w assume "createNewAgentGroup E t s = (Inr g, w)"
    then have "length (rd_names w) \<le> k" using keepsD [OF names_created] assms(2) by (fastforce simp: same_names_def)
    then show "io_bind (wireApprovedChannel R E row (ag_id g) uid) (f g) w =
        io_bind (wireApprovedChannel R' E row (ag_id g) uid) (f g) w"
      using wire_cong [of k R R' w] assms(1) by (simp add: io_bind_def)
  qed
  show ?thesis by (auto simp: create_and_wire_def Let_def intro!: step split: option.split)
qed

lemma map_delete_shorter: "map_of m k = Some v \<Longrightarrow> length (map_delete k m) < length m"
proof -
  assume "map_of m k = Some v"
  then have "(k, v) \<in> set m" by (rule map_of_SomeD)
  then show ?thesis unfolding map_delete_def by (intro length_filter_less [of "(k, v)"]) auto
qed

lemma capture_cong:
  assumes "\<And>ev w. length (rd_names w) < k \<Longrightarrow> R ev w = R' ev w" "length (rd_names s) \<le> k"
  shows "captureName R E ev s = captureName R' E ev s"
  unfolding captureName_def
proof (rule bind_cong)
  fix sender w assume w: "extract_sender E ev s = (Inr sender, w)"
  then have n: "rd_names w = rd_names s" using keepsD [OF names_kept(4)] by (fastforce simp: same_names_def)
  have step: "create_and_wire R E ev uid ni (w\<lparr>rd_names := map_delete uid (rd_names w)\<rparr>) =
      create_and_wire R' E ev uid ni (w\<lparr>rd_names := map_delete uid (rd_names w)\<rparr>)" if "map_of (rd_names w) uid = Some ni" for uid ni
    using map_delete_shorter [OF that] n assms
    by (intro create_and_wire_cong [where k = "length (map_delete uid (rd_names w))"]) auto
  show "(case sender of None \<Rightarrow> io_return False
     | Some uid \<Rightarrow> io_bind (io_get (\<lambda>s. map_of (rd_names s) uid)) (\<lambda>pending. case pending of
           None \<Rightarrow> io_return False
         | Some ni \<Rightarrow> if \<not> meant_here ev ni then io_return False
             else io_bind (io_modify (\<lambda>s. s\<lparr>rd_names := map_delete uid (rd_names s)\<rparr>)) (\<lambda>_.
                  io_bind (create_and_wire R E ev uid ni) (\<lambda>_. io_return True)))) w =
    (case sender of None \<Rightarrow> io_return False
     | Some uid \<Rightarrow> io_bind (io_get (\<lambda>s. map_of (rd_names s) uid)) (\<lambda>pending. case pending of
           None \<Rightarrow> io_return False
         | Some ni \<Rightarrow> if \<not> meant_here ev ni then io_return False
             else io_bind (io_modify (\<lambda>s. s\<lparr>rd_names := map_delete uid (rd_names s)\<rparr>)) (\<lambda>_.
                  io_bind (create_and_wire R' E ev uid ni) (\<lambda>_. io_return True)))) w"
    using step by (auto simp: io_bind_def split: option.split)
qed

lemma route_rounds_enough:
  "length (rd_names s) < n \<Longrightarrow> length (rd_names s) < m \<Longrightarrow> route_rounds n E ev s = route_rounds m E ev s"
proof (induction n arbitrary: m ev s)
  case (Suc n)
  then obtain m' where m: "m = Suc m'" by (cases m) auto
  have "captureName (route_rounds n E) E ev w = captureName (route_rounds m' E) E ev w"
    if "rd_names w = rd_names s" for w
  proof (rule capture_cong [where k = "length (rd_names s)"])
    show "route_rounds n E e v = route_rounds m' E e v" if "length (rd_names v) < length (rd_names s)" for e v
      using Suc.IH [of v m' e] Suc.prems m that by simp
  qed (simp add: that)
  then have "io_bind (captureName (route_rounds n E) E ev) f w = io_bind (captureName (route_rounds m' E) E ev) f w"
    if "rd_names w = rd_names s" for w and f :: "bool \<Rightarrow> (reg_db, unit) sm"
    using that by (simp add: io_bind_def)
  moreover have "rd_names w = rd_names s" if "on_route (run_interceptors hooks ev) s = (x, w)" for hooks x w
    using keepsD [OF names_kept(1) that] by (simp add: same_names_def)
  ultimately show ?case unfolding m route_rounds.simps
    by (intro bind_cong) (auto simp: io_return_def)
qed simp

lemma routeWithCapture_unfold:
  "routeWithCapture E ev s =
     io_bind (on_route (run_interceptors (re_interceptors (ve_route E)) ev)) (\<lambda>claimed.
     if claimed then io_return ()
     else io_bind (captureName (routeWithCapture E) E ev) (\<lambda>captured.
       if captured then io_return () else route_rest E ev)) s"
proof -
  have "io_bind (captureName (route_rounds (length (rd_names s)) E) E ev) f w = io_bind (captureName (routeWithCapture E) E ev) f w"
    if "rd_names w = rd_names s" for w and f :: "bool \<Rightarrow> (reg_db, unit) sm"
  proof -
    have "captureName (route_rounds (length (rd_names s)) E) E ev w = captureName (routeWithCapture E) E ev w"
    proof (rule capture_cong [where k = "length (rd_names s)"])
      show "route_rounds (length (rd_names s)) E e v = routeWithCapture E e v" if "length (rd_names v) < length (rd_names s)" for e v
        using route_rounds_enough [of v "length (rd_names s)" "Suc (length (rd_names v))"] that by (simp add: routeWithCapture_def)
    qed (simp add: that)
    then show ?thesis by (simp add: io_bind_def)
  qed
  moreover have "rd_names w = rd_names s" if "on_route (run_interceptors hooks ev) s = (x, w)" for hooks x w
    using keepsD [OF names_kept(1) that] by (simp add: same_names_def)
  ultimately show ?thesis unfolding routeWithCapture_def route_rounds.simps
    by (intro bind_cong) (auto simp: io_return_def routeWithCapture_def)
qed

subsection \<open>Properties\<close>

text \<open>
  C13. A click on a registration card does anything at all only if it comes from the person the card
  went to or from someone with administration rights over the group the card is anchored to, and a
  click that connects the chat to an existing agent only if the clicker has administration rights over
  that agent as well.  Every other click leaves the whole state as it is.
\<close>
theorem channel_click_authorized:
  assumes "handleChannelApprovalResponse R E p s = (r, s')" "s' \<noteq> s"
  shows "\<exists>row c. getPendingChannelApproval (rp_questionId p) (rd_pending s) = Some row \<and> clicker p = Some c \<and>
     (c = pc_approver_user_id row \<or> hasAdminPrivilege (gd_perm (gate_of s)) c (pc_agent_group_id row)) \<and>
     (\<forall>ag. rp_value p = CONNECT_PREFIX @ ag \<and> getAgentGroup ag (gd_agents (gate_of s)) \<noteq> None \<longrightarrow>
        hasAdminPrivilege (gd_perm (gate_of s)) c ag)"
proof -
  obtain row where row: "getPendingChannelApproval (rp_questionId p) (rd_pending s) = Some row"
    using assms by (auto simp: handleChannelApprovalResponse_def io_return_def split: option.splits)
  have "gi_grant (register_input (rp_questionId p) (clicker p)) = None" by (simp add: register_input_def)
  note d = consult_no_grant [OF this, of "\<lambda>_. None" s channelsRegister]
  obtain c where c: "clicker p = Some c"
    using assms row d by (auto simp: handleChannelApprovalResponse_def io_return_def split: option.splits sum.splits)
  have allowed: "effect_of (DENY x) \<noteq> Allow" for x by simp
  have elig: "c = pc_approver_user_id row \<or> hasAdminPrivilege (gd_perm (gate_of s)) c (pc_agent_group_id row)"
    using assms row d c
    by (auto simp: handleChannelApprovalResponse_def io_return_def channelsRegister_def channels_decide_def register_input_def
          own_def split: if_splits)
  have "hasAdminPrivilege (gd_perm (gate_of s)) c ag"
    if v: "rp_value p = CONNECT_PREFIX @ ag" "getAgentGroup ag (gd_agents (gate_of s)) \<noteq> None" for ag
  proof (rule ccontr)
    assume no: "\<not> ?thesis"
    have "connect_channel R E row ag c s = (Inr (), s)" using v(2) no by (auto simp: connect_channel_def io_return_def)
    moreover have "rp_value p \<noteq> REJECT_VALUE" "rp_value p \<noteq> CHOOSE_EXISTING_VALUE" "rp_value p \<noteq> NEW_AGENT_VALUE"
      using v(1) by (simp_all add: CONNECT_PREFIX_def REJECT_VALUE_def CHOOSE_EXISTING_VALUE_def NEW_AGENT_VALUE_def)
    ultimately have "snd (handleChannelApprovalResponse R E p s) = s"
      using row d c v(1) unfolding handleChannelApprovalResponse_def
      by (auto simp: io_bind_def io_return_def io_throw_def split: sum.splits)
    then show False using assms by simp
  qed
  then show ?thesis using row c elig by blast
qed

lemma extract_same:
  "extractAndUpsertUser now ev db = Inr (Some u, db') \<Longrightarrow> extractAndUpsertUser now2 ev db2 = Inr (x, db2') \<Longrightarrow>
   x = Some u \<and> getUser u db2' \<noteq> None \<and> u \<noteq> []"
  by (auto simp: extractAndUpsertUser_def Let_def namespaced_def upsertUser_def getUser_def find_append find_None_ex
        split: sum.splits option.splits if_splits)

text \<open>Adding users and members never takes access away.\<close>

lemma upsertUser_members [simp]: "pd_members (upsertUser u db) = pd_members db" "pd_roles (upsertUser u db) = pd_roles db"
  by (simp_all add: upsertUser_def Let_def)

lemma extract_members:
  "extractAndUpsertUser now ev db = Inr (x, db') \<Longrightarrow> pd_members db' = pd_members db"
  by (auto simp: extractAndUpsertUser_def Let_def split: sum.splits option.splits if_splits)

lemma gate_step_run:
  "gate_step f w = (Inr x, w') \<longleftrightarrow> (\<exists>db out. f (rt_gate w) = Inr (x, db, out) \<and>
     w' = w\<lparr>rt_gate := db, rt_log := rt_log w @ map Sent out\<rparr>)"
  by (auto simp: gate_step_def split: sum.splits)

lemma on_route_run:
  "on_route m s = (r, s') \<longleftrightarrow> (\<exists>w. m (rd_route s) = (r, w) \<and> s' = s\<lparr>rd_route := w\<rparr>)"
  by (auto simp: on_route_def split: prod.split)

lemma bind_Inr_iff: "io_bind m f s = (Inr y, s') \<longleftrightarrow> (\<exists>x w. m s = (Inr x, w) \<and> f x w = (Inr y, s'))"
  by (auto simp: io_bind_def split: prod.split sum.split)

lemma insert_wiring_run:
  assumes "insert_wiring w s = (Inr (), s')"
  shows "w \<in> set (cd_wirings (gd_chat (gate_of s'))) \<and> gd_perm (gate_of s') = gd_perm (gate_of s) \<and> rd_pending s' = rd_pending s"
proof -
  obtain chat where "createMessagingGroupAgent w (gd_chat (gate_of s)) = Inr chat" "gate_of s' = (gate_of s)\<lparr>gd_chat := chat\<rparr>"
    "rd_pending s' = rd_pending s"
    using assms by (auto simp: insert_wiring_def on_route_run gate_step_run bnd_Inr gate_of_def)
  moreover from this(1) have "w \<in> set (cd_wirings chat)"
    by (auto simp: createMessagingGroupAgent_def ensureAgentDestinationForWiring_def Let_def split: if_splits option.splits)
  ultimately show ?thesis by simp
qed

lemma extract_sender_run:
  "extract_sender E ev s = (Inr sender, s') \<Longrightarrow>
   \<exists>perm. extractAndUpsertUser (reg_now E) ev (gd_perm (gate_of s)) = Inr (sender, perm) \<and> gd_chat (gate_of s') = gd_chat (gate_of s) \<and>
     gd_perm (gate_of s') = perm \<and> rd_pending s' = rd_pending s"
  by (auto simp: extract_sender_def resolve_sender_def on_route_run gate_step_run gate_of_def reg_now_def split: sum.splits prod.splits)

lemma admit_sender_run:
  "admit_sender E sender ag approver s = (Inr (), s') \<Longrightarrow>
   gd_chat (gate_of s') = gd_chat (gate_of s) \<and> rd_pending s' = rd_pending s \<and>
   (\<forall>u. sender = Some u \<and> u \<noteq> [] \<longrightarrow> hasMembershipRow (gd_perm (gate_of s')) u ag)"
  by (auto simp: admit_sender_def on_gate_db_def on_gate_def on_route_run gate_of_def io_return_def hasMembershipRow_addMember
      split: option.splits if_splits)

lemma wired_row:
  assumes "wire_row E row ag approver s = (Inr (Some ev), s')"
  shows "pc_original_message row = Some ev \<and> \<not> hasInFlightChannelApproval (pc_messaging_group_id row) (rd_pending s')"
    and "\<exists>w \<in> set (cd_wirings (gd_chat (gate_of s'))). ma_messaging_group_id w = pc_messaging_group_id row \<and>
     ma_agent_group_id w = ag \<and> ma_sender_scope w = KnownSenders"
    and "\<exists>db sender perm. extractAndUpsertUser (reg_now E) ev db = Inr (sender, perm) \<and>
     (\<forall>u. sender = Some u \<and> u \<noteq> [] \<longrightarrow> hasMembershipRow (gd_perm (gate_of s')) u ag)"
proof -
  let ?mgid = "pc_messaging_group_id row"
  have ev: "pc_original_message row = Some ev"
    using assms by (auto simp: wire_row_def Let_def bind_Inr_iff io_return_def split: option.splits sum.splits)
  then obtain i wd s1 s2 s3 s4 sender where
    1: "insert_wiring (approved_wiring i ?mgid ag wd (reg_now E)) s1 = (Inr (), s2)" and
    2: "extract_sender E ev s2 = (Inr sender, s3)" and
    3: "admit_sender E sender ag approver s3 = (Inr (), s4)" and
    4: "s' = s4\<lparr>rd_pending := deletePendingChannelApproval ?mgid (rd_pending s4)\<rparr>"
    using assms by (auto simp: wire_row_def Let_def bind_Inr_iff io_return_def drop_pending_def split: option.splits sum.splits)
  show "pc_original_message row = Some ev \<and> \<not> hasInFlightChannelApproval ?mgid (rd_pending s')"
    using ev 4 by (auto simp: hasInFlightChannelApproval_def deletePendingChannelApproval_def delete_where_def)
  have same: "gate_of s' = gate_of s4" using 4 by (simp add: gate_of_def)
  show "\<exists>w \<in> set (cd_wirings (gd_chat (gate_of s'))). ma_messaging_group_id w = ?mgid \<and>
     ma_agent_group_id w = ag \<and> ma_sender_scope w = KnownSenders"
    using insert_wiring_run [OF 1] extract_sender_run [OF 2] admit_sender_run [OF 3] same
    by (intro bexI [of _ "approved_wiring i ?mgid ag wd (reg_now E)"]) (auto simp: approved_wiring_def)
  show "\<exists>db sender perm. extractAndUpsertUser (reg_now E) ev db = Inr (sender, perm) \<and>
     (\<forall>u. sender = Some u \<and> u \<noteq> [] \<longrightarrow> hasMembershipRow (gd_perm (gate_of s')) u ag)"
    using extract_sender_run [OF 2] admit_sender_run [OF 3] same by (auto simp: gate_of_def)
qed

text \<open>A chat no agent is wired to, with its registration pending.\<close>

definition demo_reg_env :: reg_env where
  "demo_reg_env = \<lparr>ve_route = demo_route_env, ve_groupsDir = ''/srv/groups'', ve_defaultProvider = ''claude'',
     ve_interceptor = (\<lambda>_. None), ve_conversation = (\<lambda>_. None), ve_channelName = (\<lambda>_. None), ve_prompt_ok = (\<lambda>_. True)\<rparr>"

definition demo_channel :: pending_channel where
  "demo_channel = \<lparr>pc_messaging_group_id = ''mg-1'', pc_agent_group_id = ''a'', pc_original_message = Some demo_event,
     pc_approver_user_id = ''slack:u1'', pc_created_at = Iso 0, pc_title = [], pc_question = [], pc_options_json = JArr []\<rparr>"

definition demo_reg :: reg_db where
  "demo_reg = \<lparr>rd_route = demo_route_db\<lparr>rt_gate := (rt_gate demo_route_db)\<lparr>gd_chat := demo_chats\<rparr>\<rparr>,
     rd_pending = [demo_channel], rd_names = [], rd_configs = [], rd_folders = []\<rparr>"

definition demo_connect :: response_payload where
  "demo_connect = \<lparr>rp_questionId = ''mg-1'', rp_value = ''connect:a'', rp_userId = Some ''u1'', rp_channelType = ''slack'',
     rp_platformId = ''D1'', rp_threadId = None\<rparr>"

theorem channel_click_authorized_witness:
  "hasAdminPrivilege (gd_perm (gate_of demo_reg)) ''slack:u1'' ''a'' \<and>
   rd_pending (snd (handleChannelApprovalResponse (routeWithCapture demo_reg_env) demo_reg_env demo_connect demo_reg)) = []"
proof -
  let ?m = "handleChannelApprovalResponse (routeWithCapture demo_reg_env) demo_reg_env demo_connect demo_reg"
  obtain r s' where m: "?m = (r, s')" by fastforce
  have gone: "map pc_messaging_group_id (rd_pending (snd ?m)) = []" by code_simp
  have "rd_pending demo_reg = [demo_channel]" by (simp add: demo_reg_def)
  then have "s' \<noteq> demo_reg" using gone m by auto
  from channel_click_authorized [OF m this] have
    "\<forall>ag. rp_value demo_connect = CONNECT_PREFIX @ ag \<and> getAgentGroup ag (gd_agents (gate_of demo_reg)) \<noteq> None \<longrightarrow>
        hasAdminPrivilege (gd_perm (gate_of demo_reg)) ''slack:u1'' ag"
    by (auto simp: clicker_def demo_connect_def namespaced_def)
  moreover have "rp_value demo_connect = CONNECT_PREFIX @ ''a'' \<and> getAgentGroup ''a'' (gd_agents (gate_of demo_reg)) \<noteq> None"
    by code_simp
  ultimately show ?thesis using gone m by simp
qed

text \<open>
  C37. When a registration is approved, the message that started it is not lost to the gates: after the
  chat is wired, the registration is no longer pending, the chat has a wiring to the chosen agent that
  admits known senders only, and whenever the stored message is routed again its sender, if it names
  one, passes both the access gate of any chat and the sender scope of that wiring.
\<close>
theorem approved_sender_is_admitted:
  assumes "wire_row E row ag approver s = (Inr (Some ev), s')"
    and "extractAndUpsertUser now ev (gd_perm (gate_of s')) = Inr (Some u, perm)"
  shows "pc_original_message row = Some ev \<and> \<not> hasInFlightChannelApproval (pc_messaging_group_id row) (rd_pending s') \<and>
    (\<exists>w \<in> set (cd_wirings (gd_chat (gate_of s'))). ma_messaging_group_id w = pc_messaging_group_id row \<and>
       ma_agent_group_id w = ag \<and> ma_sender_scope w = KnownSenders \<and> senderScopeGate perm (Some u) w = None) \<and>
    (\<forall>env mg db. gd_perm db = perm \<longrightarrow> accessGate env ev (Some u) mg ag db = Inr (None, db, []))"
proof -
  obtain db1 sender perm1 where x: "extractAndUpsertUser (reg_now E) ev db1 = Inr (sender, perm1)"
    and m: "\<forall>u. sender = Some u \<and> u \<noteq> [] \<longrightarrow> hasMembershipRow (gd_perm (gate_of s')) u ag"
    using wired_row(3) [OF assms(1)] by blast
  have u: "sender = Some u" "u \<noteq> []" using extract_same [OF assms(2) x] by auto
  have "getUser u perm \<noteq> None" using extract_same [OF assms(2) assms(2)] by simp
  moreover have "hasMembershipRow perm u ag"
    using m u extract_members [OF assms(2)] by (simp add: hasMembershipRow_def)
  ultimately have "access_allowed (canAccessAgentGroup perm u ag)" by (simp add: canAccess_iff isMember_iff)
  then obtain why where can: "canAccessAgentGroup perm u ag = Granted why"
    by (cases "canAccessAgentGroup perm u ag") auto
  then have "accessGate env ev (Some u) mg ag db = Inr (None, db, [])" if "gd_perm db = perm" for env mg db
    using that u by (simp add: accessGate_def Let_def)
  moreover have "senderScopeGate perm (Some u) w = None" if "ma_agent_group_id w = ag" for w
    using that u can by (simp add: senderScopeGate_def)
  ultimately show ?thesis using wired_row(1,2) [OF assms(1)] by blast
qed

text \<open>
  The folder of an agent created by a name typed into a chat is free: no group claims it and nothing
  lies there on disk.  But its legality is not checked, so it is legal exactly when it is at most 63
  characters long and not the reserved name.
\<close>
theorem typed_agent_folder:
  assumes "is_absolute (ve_groupsDir E)" "createNewAgentGroup E name s = (Inr g, s')"
  shows "\<not> occupied (ve_groupsDir E) (rd_folders s) (gd_agents (gate_of s)) (ag_folder g) \<and>
    (isValidGroupFolder (ag_folder g) \<longleftrightarrow> length (ag_folder g) \<le> 63 \<and> ag_folder g \<noteq> ''global'')"
proof -
  obtain k f where f: "free_folder (ve_groupsDir E) (rd_folders s) (gd_agents (gate_of s)) (normalizeName name) = Inr (Some f)"
    "f = cand (normalizeName name) (Suc k)" "\<not> occupied (ve_groupsDir E) (rd_folders s) (gd_agents (gate_of s)) f"
    using free_folder_first [OF assms(1)] by metis
  have same: "toFolder name = normalizeName name" by (simp add: toFolder_def normalizeName_def)
  have g: "ag_folder g = f"
    using assms(2) f(1) by (auto simp: createNewAgentGroup_def same bind_Inr_iff Let_def io_return_def)
  have "isValidGroupFolder f \<longleftrightarrow> length f \<le> 63 \<and> f \<noteq> ''global''"
    using f(2) valid_candidate by simp
  then show ?thesis using f(3) g by simp
qed

theorem approved_sender_is_admitted_witness:
  "\<exists>s'. wire_row demo_reg_env demo_channel ''a'' ''slack:u1'' demo_reg = (Inr (Some demo_event), s') \<and>
     \<not> hasInFlightChannelApproval ''mg-1'' (rd_pending s')"
proof -
  let ?m = "wire_row demo_reg_env demo_channel ''a'' ''slack:u1'' demo_reg"
  let ?x = "extractAndUpsertUser (Iso 5) demo_event (gd_perm (gate_of (snd ?m)))"
  have "(case fst ?m of Inr (Some ev) \<Rightarrow> im_id (ie_message ev) = im_id (ie_message demo_event) | _ \<Rightarrow> False)" by code_simp
  then obtain ev where f: "fst ?m = Inr (Some ev)" by (auto split: sum.splits option.splits)
  then have m: "?m = (Inr (Some ev), snd ?m)" by (metis prod.collapse)
  then have ev: "ev = demo_event" using wired_row(1) [OF m] by (simp add: demo_channel_def)
  have "(case ?x of Inr (Some u, perm) \<Rightarrow> True | _ \<Rightarrow> False)" by code_simp
  then obtain u perm where x: "?x = Inr (Some u, perm)" by (auto split: sum.splits option.splits prod.splits)
  from approved_sender_is_admitted [OF m x [folded ev]] have
    "\<not> hasInFlightChannelApproval ''mg-1'' (rd_pending (snd ?m))" by (simp add: demo_channel_def)
  then show ?thesis using m ev by blast
qed

theorem typed_agent_folder_witness:
  "\<exists>g. ag_folder g = ''global'' \<and> \<not> isValidGroupFolder (ag_folder g) \<and>
     (\<exists>s'. createNewAgentGroup demo_reg_env ''Global!'' demo_reg = (Inr g, s'))"
proof -
  let ?m = "createNewAgentGroup demo_reg_env ''Global!'' demo_reg"
  have "(case fst ?m of Inr g \<Rightarrow> ag_folder g = ''global'' | _ \<Rightarrow> False)" by code_simp
  then obtain g where f: "fst ?m = Inr g" "ag_folder g = ''global''" by (auto split: sum.splits)
  then have m: "?m = (Inr g, snd ?m)" by (metis prod.collapse)
  have "is_absolute (ve_groupsDir demo_reg_env)" by (simp add: demo_reg_env_def)
  from typed_agent_folder [OF this m] show ?thesis using f m by auto
qed

end
