(* ===== verification/SelfMod.thy ===== *)
theory SelfMod
  imports CreateAgent TaskCreate
begin

text \<open>
  Agents that change their own container (\<open>src/modules/self-mod/request.ts\<close>, \<open>apply.ts\<close>, \<open>guard.ts\<close>,
  \<open>index.ts\<close>, \<open>buildAgentGroupImage\<close> of \<open>src/container-runner.ts\<close>, and the tools a container calls,
  \<open>container/agent-runner/src/mcp-tools/self-mod.ts\<close>): installing packages and adding an MCP server.
  A kill and the wake after it are entries of the log; the image is built by another process, whose
  answer is a parameter.
\<close>

record build_request =
  br_agentGroupId :: string
  br_groupFolder :: string
  br_imageTag :: string
  br_dockerfile :: string
  br_guard :: "(string \<times> string) option"

text \<open>
  \<open>me_imageBuild\<close> is a capability of the session driver; \<open>me_inspect\<close> what \<open>docker image inspect\<close>
  prints, if it succeeds; \<open>me_build\<close> the failure of the kernel's build, if it fails.
\<close>

record mod_env =
  me_host :: host_env
  me_url :: "string \<Rightarrow> url_parts option"
  me_digest :: "string \<Rightarrow> string"
  me_invisible :: "nat \<Rightarrow> bool"
  me_imageBuild :: bool
  me_image :: string
  me_imageBase :: string
  me_inspect :: "string option"
  me_build :: "build_request \<Rightarrow> exn option"

subsection \<open>The decision\<close>

definition selfModDecide :: "string \<Rightarrow> guard_input \<Rightarrow> guard_decision res" where
  "selfModDecide label inp =
     (case gi_actor inp of
        AgentActor _ _ \<Rightarrow> Inr (HOLD (label @ '' always requires admin approval from the container path'') None)
      | _ \<Rightarrow> Inr (DENY (label @ '' is a container-originated action.'')))"

definition no_image_build :: string where
  "no_image_build = ''install_packages needs an image rebuild and the session runtime does not declare the 'imageBuild' '' @
     ''capability '' @ emdash @ '' packages cannot be installed on this runtime (image changes are built and imported out of band)''"

definition selfModInstallPackages :: "mod_env \<Rightarrow> host_db guarded_action_spec" where
  "selfModInstallPackages E = \<lparr>ga_action = ''self_mod.install_packages'',
     ga_decide = (\<lambda>_ inp. if \<not> me_imageBuild E then Inr (DENY no_image_build) else selfModDecide ''install_packages'' inp),
     ga_grantActionName = Some ''install_packages'', ga_grantCoversRequest = None\<rparr>"

definition selfModAddMcpServer :: "host_db guarded_action_spec" where
  "selfModAddMcpServer = \<lparr>ga_action = ''self_mod.add_mcp_server'', ga_decide = (\<lambda>_. selfModDecide ''add_mcp_server''),
     ga_grantActionName = Some ''add_mcp_server'', ga_grantCoversRequest = None\<rparr>"

subsection \<open>Packages\<close>

definition apt_char :: "char \<Rightarrow> bool" where
  "apt_char c \<longleftrightarrow> name_char c \<or> c \<in> set ''._+-''"

definition npm_char :: "char \<Rightarrow> bool" where
  "npm_char c \<longleftrightarrow> name_char c \<or> c \<in> set ''._-''"

definition APT_RE :: "string \<Rightarrow> bool" where
  "APT_RE s \<longleftrightarrow> s \<noteq> [] \<and> name_char (hd s) \<and> list_all apt_char s"

definition npm_word :: "string \<Rightarrow> bool" where
  "npm_word s \<longleftrightarrow> s \<noteq> [] \<and> name_char (hd s) \<and> list_all npm_char s"

definition NPM_RE :: "string \<Rightarrow> bool" where
  "NPM_RE s \<longleftrightarrow>
     (case s of
        [] \<Rightarrow> False
      | c # t \<Rightarrow> if c = CHR ''@'' then (case js_split CHR ''/'' t of [a, b] \<Rightarrow> npm_word a \<and> npm_word b | _ \<Rightarrow> False)
                 else npm_word s)"

definition MAX_PACKAGES :: int where
  "MAX_PACKAGES = 20"

definition or_empty :: "js \<Rightarrow> js" where
  "or_empty v = (if js_truthy v then v else JArr [])"

text \<open>\<open>v.length\<close>; \<open>None\<close> when it is no number.\<close>

definition js_length :: "js \<Rightarrow> int option" where
  "js_length v =
     (case v of
        JArr xs \<Rightarrow> Some (int (length xs)) | JStr s \<Rightarrow> Some (int (length s))
      | JObj ps \<Rightarrow> (case own ps ''length'' of JNum n \<Rightarrow> Some n | _ \<Rightarrow> None)
      | _ \<Rightarrow> None)"

text \<open>\<open>v.find((p) => !RE.test(p))\<close>: the test reads an element as text.\<close>

definition find_invalid :: "(string \<Rightarrow> bool) \<Rightarrow> js \<Rightarrow> js option res" where
  "find_invalid re v = (case v of JArr xs \<Rightarrow> Inr (find (\<lambda>x. \<not> re (js_to_string x)) xs) | _ \<Rightarrow> Inl TypeError)"

definition rejected :: "js option \<Rightarrow> bool" where
  "rejected v = (case v of Some x \<Rightarrow> js_truthy x | None \<Rightarrow> False)"

definition shown :: "js option \<Rightarrow> string" where
  "shown v = (case v of Some x \<Rightarrow> js_to_string x | None \<Rightarrow> [])"

definition failed :: "mod_env \<Rightarrow> session_row \<Rightarrow> string \<Rightarrow> (host_db, bool) sm" where
  "failed E session body = io_bind (notifySession (me_host E) session body) (\<lambda>_. io_return False)"

definition total_packages :: "js \<Rightarrow> js \<Rightarrow> int option" where
  "total_packages apt npm =
     (case (js_length apt, js_length npm) of (Some a, Some n) \<Rightarrow> Some (a + n) | _ \<Rightarrow> None)"

definition check_packages :: "mod_env \<Rightarrow> js \<Rightarrow> js \<Rightarrow> session_row \<Rightarrow> (host_db, bool) sm" where
  "check_packages E apt npm session =
     (case find_invalid APT_RE apt of
        Inl e \<Rightarrow> io_throw e
      | Inr a \<Rightarrow>
          if rejected a then failed E session (''install_packages failed: invalid apt package name \"'' @ shown a @ ''\".'')
          else (case find_invalid NPM_RE npm of
             Inl e \<Rightarrow> io_throw e
           | Inr n \<Rightarrow>
               if rejected n then failed E session (''install_packages failed: invalid npm package name \"'' @ shown n @ ''\".'')
               else io_return True))"

definition validateInstallPackages :: "mod_env \<Rightarrow> fields \<Rightarrow> session_row \<Rightarrow> (host_db, bool) sm" where
  "validateInstallPackages E content session =
     io_bind (io_get (\<lambda>s. getAgentGroup (s_agent_group_id session) (hd_agents s))) (\<lambda>g.
     if g = None then failed E session ''install_packages failed: agent group not found.''
     else (let apt = or_empty (own content ''apt''); npm = or_empty (own content ''npm''); total = total_packages apt npm
           in if total = Some 0
              then failed E session ''install_packages failed: at least one apt or npm package is required.''
              else if (case total of Some t \<Rightarrow> t > MAX_PACKAGES | None \<Rightarrow> False)
              then failed E session (''install_packages failed: max '' @ int_str MAX_PACKAGES @ '' packages per request.'')
              else check_packages E apt npm session))"

definition js_elements :: "js \<Rightarrow> js list res" where
  "js_elements v = (case v of JArr xs \<Rightarrow> Inr xs | _ \<Rightarrow> Inl TypeError)"

definition newline :: string where
  "newline = [CHR 0x0A]"

definition requestInstallPackagesHold :: "mod_env \<Rightarrow> fields \<Rightarrow> session_row \<Rightarrow> (host_db, unit) sm" where
  "requestInstallPackagesHold E content session =
     io_bind (io_get (\<lambda>s. getAgentGroup (s_agent_group_id session) (hd_agents s))) (\<lambda>g. case g of
       None \<Rightarrow> io_return ()
     | Some grp \<Rightarrow>
         (let apt = or_empty (own content ''apt''); npm = or_empty (own content ''npm'');
              reason = (if js_truthy (own content ''reason'') then own content ''reason'' else JStr [])
          in case bnd (js_elements apt) (\<lambda>a. bnd (js_elements npm) (\<lambda>n. Inr (a, n))) of
               Inl e \<Rightarrow> io_throw e
             | Inr (a, n) \<Rightarrow>
                 (let packageList = js_join '', '' (map (\<lambda>p. ''apt: '' @ js_to_string p) a @ map (\<lambda>p. ''npm: '' @ js_to_string p) n)
                  in askApproval (me_host E)
                       \<lparr>aq_session = session, aq_action = ''install_packages'',
                        aq_payload = JObj [(''apt'', apt), (''npm'', npm), (''reason'', reason)],
                        aq_title = ''Install Packages Request'',
                        aq_question = ''Agent \"'' @ ag_name grp @ ''\" is attempting to install a package + rebuild container:'' @
                          newline @ packageList @
                          (if js_truthy reason then newline @ ''Reason: '' @ js_to_string reason else []),
                        aq_approverUserId = None\<rparr>)))"

subsection \<open>What an approver is shown of an MCP server\<close>

definition MAX_MCP_ARGS :: nat where "MAX_MCP_ARGS = 32"
definition MAX_MCP_ENV_VARS :: nat where "MAX_MCP_ENV_VARS = 32"
definition MCP_APPROVAL_CARD_MAX_BYTES :: nat where "MCP_APPROVAL_CARD_MAX_BYTES = 1500"
definition MCP_PAYLOAD_MAX_BYTES :: nat where "MCP_PAYLOAD_MAX_BYTES = 16384"

definition SECRET_ENV_KEY_RE :: "string \<Rightarrow> bool" where
  "SECRET_ENV_KEY_RE k \<longleftrightarrow>
     (\<exists>w \<in> set [''token'', ''secret'', ''passwd'', ''password'', ''api_key'', ''apikey'', ''credential'', ''private_key'',
               ''privatekey'', ''auth'']. js_includes (map lower_char k) w)"

definition SECRET_VALUE_RE :: "string \<Rightarrow> bool" where
  "SECRET_VALUE_RE v \<longleftrightarrow>
     (\<exists>w \<in> set [''sk-'', ''ghp_'', ''github_pat_'', ''AKIA'', ''-----BEGIN '']. prefix w v) \<or>
     (prefix ''xox'' v \<and> (case drop 3 v of a # b # _ \<Rightarrow> CHR ''a'' \<le> a \<and> a \<le> CHR ''z'' \<and> b = CHR ''-'' | _ \<Rightarrow> False))"

text \<open>\<open>me_digest\<close> gives the first eight hex digits of the SHA-256 digest.\<close>

definition redactSecret :: "mod_env \<Rightarrow> string \<Rightarrow> string" where
  "redactSecret E v = ''<redacted: '' @ nat_str (length v) @ '' bytes, sha256 '' @ me_digest E v @ ''>''"

text \<open>The bytes of a string in groups, one for each code point of its UTF-8.\<close>

definition byte :: "char \<Rightarrow> nat" where
  "byte c = of_char c"

definition continuation :: "char \<Rightarrow> bool" where
  "continuation c \<longleftrightarrow> 128 \<le> byte c \<and> byte c < 192"

function code_points :: "string \<Rightarrow> string list" where
  "code_points [] = []"
| "code_points (c # cs) =
     (if byte c < 128 then [c] # code_points cs
      else (c # takeWhile continuation cs) # code_points (dropWhile continuation cs))"
  by pat_completeness auto
termination by (relation "measure length") (auto simp: le_imp_less_Suc length_dropWhile_le)

definition code_point :: "string \<Rightarrow> nat" where
  "code_point p =
     (case p of
        [] \<Rightarrow> 0
      | c # cs \<Rightarrow>
         foldl (\<lambda>n d. n * 64 + byte d mod 64)
           (if byte c < 128 then byte c else if byte c < 224 then byte c mod 32 else if byte c < 240 then byte c mod 16 else byte c mod 8) cs)"

fun hex :: "nat \<Rightarrow> string" where
  "hex n = (if n < 16 then [hex_digit n] else hex (n div 16) @ [hex_digit (n mod 16)])"

declare hex.simps [simp del]

definition pad4 :: "string \<Rightarrow> string" where
  "pad4 s = replicate (4 - length s) CHR ''0'' @ s"

text \<open>\<open>me_invisible\<close> is the class of the code points from 128 on.\<close>

definition visible_form :: "mod_env \<Rightarrow> string \<Rightarrow> string" where
  "visible_form E p =
     (let cp = code_point p
      in if (if cp < 128 then cp < 32 \<or> cp = 127 \<or> cp = 96 else me_invisible E cp)
         then (if cp > 65535 then [CHR 0x5C] @ ''u{'' @ hex cp @ ''}'' else [CHR 0x5C, CHR ''u''] @ pad4 (hex cp))
         else p)"

definition escapeInvisibles :: "mod_env \<Rightarrow> string \<Rightarrow> string" where
  "escapeInvisibles E s = concat (map (visible_form E) (code_points s))"

definition redact_seg :: "mod_env \<Rightarrow> string \<Rightarrow> string" where
  "redact_seg E s = (if SECRET_VALUE_RE s then redactSecret E s else s)"

definition redact_entry :: "mod_env \<Rightarrow> string \<times> js \<Rightarrow> string \<times> js" where
  "redact_entry E kv =
     (case snd kv of
        JStr v \<Rightarrow> (fst kv, JStr (if SECRET_ENV_KEY_RE (fst kv) \<or> SECRET_VALUE_RE v then redactSecret E v else v))
      | v \<Rightarrow> (fst kv, v))"

definition display_url :: "mod_env \<Rightarrow> url_parts \<Rightarrow> string" where
  "display_url E u =
     (let path = js_join ''/'' (map (redact_seg E) (js_split CHR ''/'' (up_pathname u)));
          entries = up_searchParams u;
          query = (if \<exists>e \<in> set entries. SECRET_VALUE_RE (snd e)
                   then ''?'' @ js_join ''&'' (map (\<lambda>(k, v). k @ ''='' @ redact_seg E v) entries) else up_search u)
      in up_origin u @ path @ query)"

definition card_line :: "mod_env \<Rightarrow> string \<Rightarrow> js \<Rightarrow> string" where
  "card_line E label v = label @ '': '' @ escapeInvisibles E (json_text v)"

definition obj_fields :: "js \<Rightarrow> fields" where
  "obj_fields v = (case v of JObj ps \<Rightarrow> ps | _ \<Rightarrow> [])"

definition server_lines :: "mod_env \<Rightarrow> string \<Rightarrow> fields \<Rightarrow> string list" where
  "server_lines E name server =
     [card_line E ''name'' (JStr name)] @
     (if is_http server
      then [card_line E ''type'' (own server ''type''),
            card_line E ''url'' (JStr (case own server ''url'' of
                JStr u \<Rightarrow> (case me_url E u of Some p \<Rightarrow> display_url E p | None \<Rightarrow> []) | _ \<Rightarrow> []))] @
           (if own server ''headers'' = JUndefined then []
            else [card_line E ''headers'' (JObj (map (redact_entry E) (obj_fields (own server ''headers''))))])
      else [card_line E ''command'' (own server ''command''),
            card_line E ''args'' (JArr (map (\<lambda>a. case a of JStr s \<Rightarrow> JStr (redact_seg E s) | _ \<Rightarrow> a)
                                         (case own server ''args'' of JArr xs \<Rightarrow> xs | _ \<Rightarrow> []))),
            card_line E ''env'' (JObj (map (redact_entry E) (obj_fields (own server ''env''))))]) @
     (if own server ''instructions'' = JUndefined then [] else [card_line E ''instructions'' (own server ''instructions'')])"

definition fence :: string where
  "fence = ''```''"

definition mcp_question :: "string \<Rightarrow> string list \<Rightarrow> string" where
  "mcp_question agentName ls =
     ''Agent \"'' @ agentName @ ''\" is attempting to add a new MCP server:'' @ newline @ fence @ newline @
     js_join newline ls @ newline @ fence"

subsection \<open>Asking for an MCP server\<close>

definition stored_entry :: "string \<Rightarrow> container_config option \<Rightarrow> js res" where
  "stored_entry name row =
     (case row of None \<Rightarrow> Inr JUndefined | Some r \<Rightarrow> bnd (json_parse (kc_mcp_servers r)) (\<lambda>v. js_get v name))"

definition server_limits :: "string \<Rightarrow> fields \<Rightarrow> string option" where
  "server_limits name server =
     (if \<not> is_http server \<and> own server ''cwd'' \<noteq> JUndefined
      then Some ''add_mcp_server failed: cwd is only supported for plugin-shipped servers.''
      else if length (case own server ''args'' of JArr xs \<Rightarrow> xs | _ \<Rightarrow> []) > MAX_MCP_ARGS
      then Some (''add_mcp_server failed: max '' @ nat_str MAX_MCP_ARGS @ '' args per server.'')
      else if length (obj_fields (own server ''env'')) > MAX_MCP_ENV_VARS
      then Some (''add_mcp_server failed: max '' @ nat_str MAX_MCP_ENV_VARS @ '' env vars per server.'')
      else if length (json_text (JObj ((''name'', JStr name) # server))) > MCP_PAYLOAD_MAX_BYTES
      then Some (''add_mcp_server failed: payload exceeds '' @ nat_str MCP_PAYLOAD_MAX_BYTES @ '' bytes.'')
      else None)"

definition plugin_owned_note :: "string \<Rightarrow> string \<Rightarrow> string" where
  "plugin_owned_note name owner =
     ''add_mcp_server failed: server \"'' @ name @ ''\" is owned by plugin \"'' @ owner @ ''\". '' @
     ''Plugin servers can only be changed by updating the plugin and re-stamping (ncl groups create --template <ref> --yes).''"

definition named_server :: "mod_env \<Rightarrow> string \<Rightarrow> fields \<Rightarrow> fields res" where
  "named_server E name content =
     bnd (validateMcpServerName name) (\<lambda>_. parseMcpServerConfig (me_url E) content)"

definition validateAddMcpServer :: "mod_env \<Rightarrow> fields \<Rightarrow> session_row \<Rightarrow> (host_db, bool) sm" where
  "validateAddMcpServer E content session =
     (let name = str_field content ''name'' in
      io_bind (io_get (\<lambda>s. getAgentGroup (s_agent_group_id session) (hd_agents s))) (\<lambda>g. case g of
        None \<Rightarrow> failed E session ''add_mcp_server failed: agent group not found.''
      | Some grp \<Rightarrow>
          if name = [] then failed E session ''add_mcp_server failed: name is required.''
          else (case named_server E name content of
             Inl e \<Rightarrow> failed E session (''add_mcp_server failed: '' @ exn_message e @ ''.'')
           | Inr server \<Rightarrow>
               io_bind (io_get (\<lambda>s. stored_entry name (getContainerConfig (ag_id grp) (hd_configs s)))) (\<lambda>entry. case entry of
                 Inl e \<Rightarrow> io_throw e
               | Inr existing \<Rightarrow> (case mcpServerPluginOwner existing of
                   Some owner \<Rightarrow> failed E session (plugin_owned_note name owner)
                 | None \<Rightarrow> (case server_limits name server of
                     Some note \<Rightarrow> failed E session note
                   | None \<Rightarrow> io_return True))))))"

definition requestAddMcpServerHold :: "mod_env \<Rightarrow> fields \<Rightarrow> session_row \<Rightarrow> (host_db, unit) sm" where
  "requestAddMcpServerHold E content session =
     (let name = str_field content ''name'' in
      io_bind (io_get (\<lambda>s. getAgentGroup (s_agent_group_id session) (hd_agents s))) (\<lambda>g. case g of
        None \<Rightarrow> io_return ()
      | Some grp \<Rightarrow> (case parseMcpServerConfig (me_url E) content of
          Inl e \<Rightarrow> io_throw e
        | Inr server \<Rightarrow>
            (let question = mcp_question (ag_name grp) (server_lines E name server)
             in if length question > MCP_APPROVAL_CARD_MAX_BYTES
                then notifySession (me_host E) session
                       (''add_mcp_server failed: rendered approval card exceeds '' @ nat_str MCP_APPROVAL_CARD_MAX_BYTES @
                        '' bytes '' @ emdash @ '' trim the MCP configuration.'')
                else askApproval (me_host E)
                       \<lparr>aq_session = session, aq_action = ''add_mcp_server'',
                        aq_payload = JObj ((''name'', JStr name) # server), aq_title = ''Add MCP Request'',
                        aq_question = question, aq_approverUserId = None\<rparr>))))"

subsection \<open>Building the image of a group\<close>

definition array_join :: "string \<Rightarrow> js list \<Rightarrow> string" where
  "array_join sep xs = js_join sep (map (\<lambda>x. if js_nullish x then [] else js_to_string x) xs)"

definition image_dockerfile :: "string \<Rightarrow> js list \<Rightarrow> js list \<Rightarrow> string \<Rightarrow> string" where
  "image_dockerfile base apt npm baseId =
     ''FROM '' @ base @ newline @ ''USER root'' @ newline @
     (if apt = [] then []
      else ''RUN apt-get update && apt-get install -y '' @ array_join '' '' apt @ '' && rm -rf /var/lib/apt/lists/*'' @ newline) @
     (if npm = [] then []
      else ''RUN '' @
           js_join '' && '' (map (\<lambda>p. ''echo '' @ [CHR 0x27] @ ''only-built-dependencies[]='' @ js_to_string p @ [CHR 0x27] @
                                      '' >> /root/.npmrc'') npm) @
           '' && pnpm install -g '' @ array_join '' '' npm @ newline) @
     ''USER node'' @ newline @ ''LABEL dev.nanoclaw.image-source=\"derived\"'' @ newline @
     (if baseId = [] then [] else ''LABEL dev.nanoclaw.derived-from=\"'' @ baseId @ ''\"'' @ newline)"

definition no_scalar_update :: config_scalars where
  "no_scalar_update = \<lparr>cu_provider = None, cu_model = None, cu_effort = None, cu_image_tag = None, cu_assistant_name = None,
     cu_max_messages_per_prompt = None, cu_cli_scope = None, cu_timezone = None\<rparr>"

definition on_configs :: "(container_config list \<Rightarrow> container_config list) \<Rightarrow> (host_db, unit) sm" where
  "on_configs f = io_modify (\<lambda>s. s\<lparr>hd_configs := f (hd_configs s)\<rparr>)"

definition packages_of :: "container_config \<Rightarrow> (js list \<times> js list) res" where
  "packages_of row =
     bnd (bnd (json_parse (kc_packages_apt row)) js_elements) (\<lambda>apt.
     bnd (bnd (json_parse (kc_packages_npm row)) js_elements) (\<lambda>npm. Inr (apt, npm)))"

definition buildAgentGroupImage :: "mod_env \<Rightarrow> string \<Rightarrow> (string \<times> string) option \<Rightarrow> (host_db, unit) sm" where
  "buildAgentGroupImage E ag approved =
     io_bind (io_get (\<lambda>s. getAgentGroup ag (hd_agents s))) (\<lambda>g. case g of
       None \<Rightarrow> io_throw (Error ''Agent group not found'')
     | Some grp \<Rightarrow>
         io_bind (io_get (\<lambda>s. getContainerConfig (ag_id grp) (hd_configs s))) (\<lambda>c. case c of
           None \<Rightarrow> io_throw (Error ''Container config not found'')
         | Some row \<Rightarrow> (case packages_of row of
             Inl e \<Rightarrow> io_throw e
           | Inr (apt, npm) \<Rightarrow>
               if apt = [] \<and> npm = [] then io_throw (Error ''No packages to install. Use install_packages first.'')
               else if \<not> me_imageBuild E
               then io_throw (Error ''Per-agent-group image builds are unavailable on this runtime driver'')
               else (let baseId = (case me_inspect E of Some t \<Rightarrow> js_trim t | None \<Rightarrow> []);
                         imageTag = me_imageBase E @ '':'' @ ag;
                         file = image_dockerfile (me_image E) apt npm baseId;
                         req = \<lparr>br_agentGroupId = ag, br_groupFolder = ag_folder grp, br_imageTag = imageTag,
                                br_dockerfile = file, br_guard = approved\<rparr>
                     in io_bind (case me_build E req of
                                   Some e \<Rightarrow> io_throw (Error (''docker build: '' @ exn_message e))
                                 | None \<Rightarrow> host_event (ImageBuilt imageTag file)) (\<lambda>_.
                        on_configs (updateContainerConfigScalars (se_now (he_sess (me_host E))) (ag_id grp)
                          (no_scalar_update\<lparr>cu_image_tag := Some (Some imageTag)\<rparr>)))))))"

subsection \<open>Carrying out what was approved\<close>

text \<open>\<open>includes\<close>: two arrays or objects are never the same one.\<close>

definition same_value :: "js \<Rightarrow> js \<Rightarrow> bool" where
  "same_value a b \<longleftrightarrow> a = b \<and> (case a of JArr _ \<Rightarrow> False | JObj _ \<Rightarrow> False | _ \<Rightarrow> True)"

definition add_packages :: "js list \<Rightarrow> js list \<Rightarrow> js list" where
  "add_packages new existing =
     foldl (\<lambda>ps p. if \<exists>q \<in> set ps. same_value q p then ps else ps @ [p]) existing new"

text \<open>The elements \<open>for .. of\<close> and a spread go through.\<close>

definition js_iterate :: "js \<Rightarrow> js list res" where
  "js_iterate v =
     (case v of JArr xs \<Rightarrow> Inr xs | JStr s \<Rightarrow> Inr (map JStr (code_points s)) | _ \<Rightarrow> Inl TypeError)"

definition add_to_column ::
    "mod_env \<Rightarrow> string \<Rightarrow> json_column \<Rightarrow> jtext \<Rightarrow> js \<Rightarrow> (host_db, unit) sm" where
  "add_to_column E ag column stored new =
     (if \<not> js_truthy new then io_return ()
      else (case bnd (bnd (json_parse stored) js_elements) (\<lambda>old. bnd (js_iterate new) (\<lambda>ps. Inr (add_packages ps old))) of
              Inl e \<Rightarrow> io_throw e
            | Inr ps \<Rightarrow> on_configs (updateContainerConfigJson (se_now (he_sess (me_host E))) ag column (JArr ps))))"

text \<open>A note that only the next container reads, a kill, and a wake once the container is gone.\<close>

definition noteForNextContainer :: "mod_env \<Rightarrow> session_row \<Rightarrow> string \<Rightarrow> (host_db, unit) sm" where
  "noteForNextContainer E session body =
     io_bind draw (\<lambda>tok. writeSessionMessage (he_sess (me_host E)) (s_agent_group_id session) (s_id session)
       ((system_note (me_host E) tok session body)\<lparr>ts_id := ''appr-note-'' @ tok, ts_onWake := True\<rparr>))"

definition restartWith :: "mod_env \<Rightarrow> session_row \<Rightarrow> string \<Rightarrow> string \<Rightarrow> (host_db, unit) sm" where
  "restartWith E session body reason =
     io_bind (noteForNextContainer E session body) (\<lambda>_. host_event (Killed (s_id session) reason True))"

definition iterate_or_empty :: "js \<Rightarrow> js list res" where
  "iterate_or_empty v = (if js_truthy v then js_iterate v else Inr [])"

definition applyInstallPackages ::
    "mod_env \<Rightarrow> fields \<Rightarrow> session_row \<Rightarrow> pending_approval option \<Rightarrow> (host_db, unit) sm" where
  "applyInstallPackages E payload session approval =
     (let notify = notifySession (me_host E) session; ag = s_agent_group_id session in
      io_bind (io_get (\<lambda>s. getAgentGroup ag (hd_agents s))) (\<lambda>g. case g of
        None \<Rightarrow> notify ''install_packages approved but agent group missing.''
      | Some grp \<Rightarrow>
          io_bind (io_get (\<lambda>s. getContainerConfig (ag_id grp) (hd_configs s))) (\<lambda>c. case c of
            None \<Rightarrow> notify ''install_packages approved but container config missing.''
          | Some row \<Rightarrow>
              io_bind (add_to_column E (ag_id grp) PackagesAptColumn (kc_packages_apt row) (own payload ''apt'')) (\<lambda>_.
              io_bind (add_to_column E (ag_id grp) PackagesNpmColumn (kc_packages_npm row) (own payload ''npm'')) (\<lambda>_.
              case bnd (iterate_or_empty (own payload ''apt'')) (\<lambda>a. bnd (iterate_or_empty (own payload ''npm'')) (\<lambda>n. Inr (a @ n))) of
                Inl e \<Rightarrow> io_throw e
              | Inr all \<Rightarrow>
                  (let pkgs = array_join '', '' all;
                       approved = map_option (\<lambda>a. (pa_approval_id a, pa_action a)) approval
                   in io_catch
                        (io_bind (buildAgentGroupImage E ag approved) (\<lambda>_.
                           restartWith E session
                             (''Packages installed ('' @ pkgs @ '') and container rebuilt. Verify the new packages are available '' @
                              ''(e.g. run them or check versions) and report the result to the user.'')
                             ''rebuild applied''))
                        (\<lambda>e. notify (''Packages added to config ('' @ pkgs @ '') but rebuild failed: '' @ exn_message e @
                              ''. Tell the user '' @ emdash @ '' an admin will need to retry the install_packages request or '' @
                              ''inspect the build logs.''))))))))"

definition applyAddMcpServer :: "mod_env \<Rightarrow> fields \<Rightarrow> session_row \<Rightarrow> (host_db, unit) sm" where
  "applyAddMcpServer E payload session =
     (let notify = notifySession (me_host E) session; ag = s_agent_group_id session; name = str_field payload ''name'' in
      io_bind (io_get (\<lambda>s. getAgentGroup ag (hd_agents s))) (\<lambda>g. case g of
        None \<Rightarrow> notify ''add_mcp_server approved but agent group missing.''
      | Some grp \<Rightarrow>
          io_bind (io_get (\<lambda>s. getContainerConfig (ag_id grp) (hd_configs s))) (\<lambda>c. case c of
            None \<Rightarrow> notify ''add_mcp_server approved but container config missing.''
          | Some row \<Rightarrow>
              if name = [] then notify ''add_mcp_server approved but server name is missing.''
              else (case named_server E name payload of
                 Inl e \<Rightarrow> notify (''add_mcp_server approved but config is invalid: '' @ exn_message e @ ''.'')
               | Inr server \<Rightarrow> (case json_parse (kc_mcp_servers row) of
                   Inr (JObj servers) \<Rightarrow>
                     (case mcpServerPluginOwner (own servers name) of
                        Some owner \<Rightarrow>
                          notify (''add_mcp_server approved but server \"'' @ name @ ''\" is owned by plugin \"'' @ owner @ ''\" '' @
                            emdash @ '' plugin servers can only be changed by updating the plugin and re-stamping.'')
                      | None \<Rightarrow>
                          io_bind (on_configs (updateContainerConfigJson (se_now (he_sess (me_host E))) (ag_id grp) McpServersColumn
                                    (JObj (set_prop name (JObj server) servers)))) (\<lambda>_.
                            restartWith E session
                              (''MCP server \"'' @ name @ ''\" added. Verify it'' @ [CHR 0x27] @
                               ''s available (e.g. list your tools) and report the result to the user.'')
                              ''mcp server added''))
                 | Inr _ \<Rightarrow> io_throw TypeError
                 | Inl e \<Rightarrow> io_throw e)))))"

subsection \<open>The registered actions\<close>

definition install_packages_spec :: "mod_env \<Rightarrow> delivery_guard_spec" where
  "install_packages_spec E =
     \<lparr>gs_guardAction = selfModInstallPackages E, gs_precheck = Some (validateInstallPackages E),
      gs_requestHold = requestInstallPackagesHold E,
      gs_onDeny = Some (\<lambda>_ session reason. notifySession (me_host E) session (''install_packages denied: '' @ reason))\<rparr>"

definition add_mcp_server_spec :: "mod_env \<Rightarrow> delivery_guard_spec" where
  "add_mcp_server_spec E =
     \<lparr>gs_guardAction = selfModAddMcpServer, gs_precheck = Some (validateAddMcpServer E),
      gs_requestHold = requestAddMcpServerHold E,
      gs_onDeny = Some (\<lambda>_ session reason. notifySession (me_host E) session (''add_mcp_server denied: '' @ reason))\<rparr>"

definition install_packages_entry :: "mod_env \<Rightarrow> delivery_entry" where
  "install_packages_entry E = Guarded (install_packages_spec E) (applyInstallPackages E)"

definition add_mcp_server_entry :: "mod_env \<Rightarrow> delivery_entry" where
  "add_mcp_server_entry E = Guarded (add_mcp_server_spec E) (\<lambda>content session _. applyAddMcpServer E content session)"

definition self_mod_actions :: "mod_env \<Rightarrow> delivery_actions" where
  "self_mod_actions E =
     [(''install_packages'', install_packages_entry E), (''add_mcp_server'', add_mcp_server_entry E)]"

subsection \<open>The tools of the container\<close>

text \<open>
  \<open>U\<close> parses an address; the result is the error the agent is answered, or the system message that is
  written for the host.
\<close>

fun copy_env :: "fields \<Rightarrow> fields \<Rightarrow> fields res" where
  "copy_env acc [] = Inr acc"
| "copy_env acc ((k, JStr v) # ps) =
     (if \<not> ENV_KEY_RE k then Inl (Error (''env key '' @ json_quote k @ '' must be a valid environment variable name''))
      else copy_env (if k = ''__proto__'' then acc else set_prop k (JStr v) acc) ps)"
| "copy_env acc (_ # ps) = Inl (Error ''env must be an object with string values'')"

definition parseMcpServerInput :: "(string \<Rightarrow> url_parts option) \<Rightarrow> fields \<Rightarrow> fields res" where
  "parseMcpServerInput U args =
     (let command = nonblank_str (own args ''command'');
          url = map_option js_trim (nonblank_str (own args ''url''))
      in case url of
           Some u \<Rightarrow>
             if command \<noteq> None then Inl (Error ''Provide exactly one of command or url'')
             else if own args ''args'' \<noteq> JUndefined \<or> own args ''env'' \<noteq> JUndefined
             then Inl (Error ''args and env are only valid with command'')
             else bnd (check_url (U u)) (\<lambda>_. Inr [(''type'', JStr ''http''), (''url'', JStr u)])
         | None \<Rightarrow> (case command of
             None \<Rightarrow> Inl (Error ''Provide exactly one of command or url'')
           | Some c \<Rightarrow>
               (let commandArgs = (if js_nullish (own args ''args'') then JArr [] else own args ''args'');
                    rawEnv = (if js_nullish (own args ''env'') then JObj [] else own args ''env'')
                in case commandArgs of
                     JArr xs \<Rightarrow>
                       if \<not> list_all js_is_str xs then Inl (Error ''args must be an array of strings'')
                       else (case rawEnv of
                         JObj ps \<Rightarrow> bnd (copy_env [] ps) (\<lambda>env.
                           Inr [(''command'', JStr c), (''args'', JArr xs), (''env'', JObj env)])
                       | _ \<Rightarrow> Inl (Error ''env must be an object with string values''))
                   | _ \<Rightarrow> Inl (Error ''args must be an array of strings''))))"

definition addMcpServer :: "(string \<Rightarrow> url_parts option) \<Rightarrow> fields \<Rightarrow> fields res" where
  "addMcpServer U args =
     (let name = str_field args ''name'' in
      if name = [] then Inl (Error ''name is required'')
      else if \<not> MCP_SERVER_NAME_RE name
      then Inl (Error ''server name must be 1-64 characters of letters, digits, \"_\" or \"-\"'')
      else bnd (parseMcpServerInput U args) (\<lambda>config.
        Inr ([(''action'', JStr ''add_mcp_server''), (''name'', JStr name)] @ config)))"

definition installPackages :: "fields \<Rightarrow> fields res" where
  "installPackages args =
     (let apt = or_empty (own args ''apt''); npm = or_empty (own args ''npm''); total = total_packages apt npm
      in if js_length apt = Some 0 \<and> js_length npm = Some 0
         then Inl (Error ''At least one apt or npm package is required'')
         else if (case total of Some t \<Rightarrow> t > MAX_PACKAGES | None \<Rightarrow> False)
         then Inl (Error (''Maximum '' @ int_str MAX_PACKAGES @ '' packages per request''))
         else bnd (find_invalid APT_RE apt) (\<lambda>a.
           if rejected a
           then Inl (Error (''Invalid apt package name: \"'' @ shown a @ ''\". Only lowercase letters, digits, and ._+- allowed.''))
           else bnd (find_invalid NPM_RE npm) (\<lambda>n.
             if rejected n
             then Inl (Error (''Invalid npm package name: \"'' @ shown n @ ''\". No version specs or shell characters.''))
             else Inr [(''action'', JStr ''install_packages''), (''apt'', apt), (''npm'', npm),
                       (''reason'', if js_truthy (own args ''reason'') then own args ''reason'' else JStr [])])))"

end
